(* ===== verification/GoBase.thy ===== *)
theory GoBase
  imports Main "HOL-Library.AList" "HOL-Library.Sublist" "HOL-Library.List_Lexorder"
    "HOL-Library.Char_ord" "HOL-Library.Product_Lexorder"
begin

text \<open>
  Prelude of the development: the parts of the Go language and of its packages
  \<open>strings\<close>, \<open>strconv\<close> and \<open>fmt\<close> that the plugin's back end relies on.

  \<^item> A Go string or byte slice is a list of 8-bit characters (\<open>string\<close>), so
    \<open>length\<close> is Go's \<open>len\<close>.
  \<^item> \<open>int\<close> and \<open>int64\<close> are 64-bit: \<open>i64\<close> wraps an unbounded integer to that range,
    and every sum or product of the code that can leave it is wrapped explicitly.
  \<^item> An error value is a format string with its arguments (\<open>Errf\<close>), the
    \<open>*InvalidParamsError\<close> of \<open>types.go\<close>, a wrapped error (\<open>%w\<close>) or the text a library
    returned. A call that returns \<open>(value, error)\<close> is a value of \<open>goerr + 'a\<close>.
  \<^item> A Go map that is only looked up is a HOL map; one that the code ranges over or
    whose \<open>len\<close> it reads is an association list with distinct keys, whose order stands
    for the iteration order of that \<open>range\<close> loop. Theorems hold for every such order.
\<close>

named_theorems go_simps \<open>unfolding of the prelude's result combinators\<close>
named_theorems go_bounds \<open>ranges of Go's integers\<close>

section \<open>Machine integers\<close>

definition i64 :: "int \<Rightarrow> int" where
  "i64 x = (x + 2 ^ 63) mod 2 ^ 64 - 2 ^ 63"

definition in_i64 :: "int \<Rightarrow> bool" where
  "in_i64 x \<longleftrightarrow> - (2 ^ 63) \<le> x \<and> x < 2 ^ 63"

lemma i64_id [go_bounds]: "- (2 ^ 63) \<le> x \<Longrightarrow> x < 2 ^ 63 \<Longrightarrow> i64 x = x"
  by (simp add: i64_def)

lemma i64_wrap: "i64 (x - 2 ^ 64) = i64 x"
proof -
  have "x - 2 ^ 64 + 2 ^ 63 = x + 2 ^ 63 - 2 ^ 64" by simp
  then show ?thesis unfolding i64_def by (simp only: minus_mod_self2)
qed

lemma i64_range: "- (2 ^ 63) \<le> i64 x \<and> i64 x < 2 ^ 63"
proof -
  have "0 \<le> (x + 2 ^ 63) mod 2 ^ 64" "(x + 2 ^ 63) mod 2 ^ 64 < (2::int) ^ 64"
    by simp_all
  then show ?thesis by (simp add: i64_def)
qed

text \<open>Integer division truncates towards zero.\<close>

definition go_div :: "int \<Rightarrow> int \<Rightarrow> int" where
  "go_div a b = sgn a * sgn b * (\<bar>a\<bar> div \<bar>b\<bar>)"

lemma go_div_nonneg [simp]: "0 \<le> a \<Longrightarrow> 0 < b \<Longrightarrow> go_div a b = a div b"
  by (auto simp: go_div_def sgn_if)

lemma in_i64_i64 [simp]: "in_i64 (i64 x)"
  using i64_range by (simp add: in_i64_def)

text \<open>
  \<open>make([]T, n)\<close>, for a \<open>T\<close> of at least a byte, panics on a negative length and on one whose
  bytes exceed the address space of 48 bits.
\<close>

definition makes :: "int \<Rightarrow> bool" where
  "makes n \<longleftrightarrow> 0 \<le> n \<and> n < 2 ^ 48"

section \<open>Errors and results\<close>

datatype goerr =
    Errf string "string list"            \<comment> \<open>\<open>errf\<close>, \<open>fmt.Errorf\<close>: format and arguments\<close>
  | InvalidParams string "string list"   \<comment> \<open>\<open>&InvalidParamsError{Msg: ...}\<close> (code -32602)\<close>
  | Wrapf string "string list" goerr     \<comment> \<open>\<open>fmt.Errorf("...%w", ...)\<close>\<close>
  | Ext string                           \<comment> \<open>an error a library returned\<close>

type_synonym 'a res = "goerr + 'a"

definition ebind :: "'a res \<Rightarrow> ('a \<Rightarrow> 'b res) \<Rightarrow> 'b res" where
  "ebind r f = (case r of Inl e \<Rightarrow> Inl e | Inr x \<Rightarrow> f x)"

text \<open>\<open>if cond { return nil, err }\<close>\<close>

definition reject_if :: "bool \<Rightarrow> goerr \<Rightarrow> unit res" where
  "reject_if c e = (if c then Inl e else Inr ())"

lemma ebind_simps [simp, go_simps]:
  "ebind (Inl e) f = Inl e" "ebind (Inr x) f = f x"
  by (simp_all add: ebind_def)

lemma ebind_Inr_iff [go_simps]:
  "ebind r f = Inr y \<longleftrightarrow> (\<exists>x. r = Inr x \<and> f x = Inr y)"
  by (cases r) auto

lemma ebind_Inl_iff:
  "ebind r f = Inl e \<longleftrightarrow> r = Inl e \<or> (\<exists>x. r = Inr x \<and> f x = Inl e)"
  by (cases r) auto

lemma reject_if_simps [simp, go_simps]:
  "reject_if c e = Inr u \<longleftrightarrow> \<not> c" "reject_if c e = Inl e' \<longleftrightarrow> c \<and> e' = e"
  by (auto simp: reject_if_def)

lemma reject_if_bind [simp]:
  "ebind (reject_if c e) f = (if c then Inl e else f ())"
  by (simp add: reject_if_def)

definition is_ok :: "'a res \<Rightarrow> bool" where
  "is_ok r = (case r of Inl _ \<Rightarrow> False | Inr _ \<Rightarrow> True)"

lemma is_ok_simps [simp]: "is_ok (Inr x)" "\<not> is_ok (Inl e)"
  by (simp_all add: is_ok_def)

lemma is_ok_iff: "is_ok r \<longleftrightarrow> (\<exists>x. r = Inr x)"
  by (cases r) auto

section \<open>strings.TrimSpace\<close>

text \<open>
  The UTF-8 encodings of the runes of \<open>unicode.IsSpace\<close>: the six ASCII spaces, U+0085,
  U+00A0, U+1680, U+2000 to U+200A, U+2028, U+2029, U+202F, U+205F and U+3000.
\<close>

definition space_encodings :: "string list" where
  "space_encodings =
     map (\<lambda>n. [char_of (n::nat)]) [9, 10, 11, 12, 13, 32]
     @ map (map char_of)
        ([[0xC2::nat, 0x85], [0xC2, 0xA0], [0xE1, 0x9A, 0x80]]
         @ map (\<lambda>n. [0xE2, 0x80, n]) [0x80, 0x81, 0x82, 0x83, 0x84, 0x85, 0x86, 0x87, 0x88, 0x89, 0x8A, 0xA8, 0xA9, 0xAF]
         @ [[0xE2, 0x81, 0x9F], [0xE3, 0x80, 0x80]])"

definition space_head :: "string list \<Rightarrow> string \<Rightarrow> nat" where
  "space_head ws s = (case find (\<lambda>w. prefix w s) ws of None \<Rightarrow> 0 | Some w \<Rightarrow> length w)"

function strip_spaces :: "string list \<Rightarrow> string \<Rightarrow> string" where
  "strip_spaces ws s =
     (if s = [] \<or> space_head ws s = 0 then s else strip_spaces ws (drop (space_head ws s) s))"
  by pat_completeness auto
termination
  by (relation "measure (\<lambda>(ws, s). length s)") auto

declare strip_spaces.simps [simp del]

definition trim_left :: "string \<Rightarrow> string" where
  "trim_left s = strip_spaces space_encodings s"

definition trim_right :: "string \<Rightarrow> string" where
  "trim_right s = rev (strip_spaces (map rev space_encodings) (rev s))"

definition trim_space :: "string \<Rightarrow> string" where
  "trim_space s = trim_right (trim_left s)"

lemma strip_spaces_suffix: "suffix (strip_spaces ws s) s"
proof (induction ws s rule: strip_spaces.induct)
  case (1 ws s)
  show ?case
  proof (cases "s = [] \<or> space_head ws s = 0")
    case True
    then show ?thesis by (subst strip_spaces.simps) simp
  next
    case False
    with "1.IH" have "suffix (strip_spaces ws (drop (space_head ws s) s)) (drop (space_head ws s) s)"
      by simp
    moreover have "suffix (drop (space_head ws s) s) s" by (rule suffix_drop)
    ultimately have "suffix (strip_spaces ws (drop (space_head ws s) s)) s"
      by (rule suffix_order.trans)
    with False show ?thesis by (subst strip_spaces.simps) simp
  qed
qed

lemma strip_spaces_stop:
  "strip_spaces ws s = [] \<or> space_head ws (strip_spaces ws s) = 0"
proof (induction ws s rule: strip_spaces.induct)
  case (1 ws s)
  then show ?case by (subst (1 2) strip_spaces.simps) auto
qed

lemma strip_spaces_fix: "s = [] \<or> space_head ws s = 0 \<Longrightarrow> strip_spaces ws s = s"
  by (subst strip_spaces.simps) simp

lemma space_head_0_iff:
  "[] \<notin> set ws \<Longrightarrow> space_head ws s = 0 \<longleftrightarrow> (\<forall>w \<in> set ws. \<not> prefix w s)"
  by (auto simp: space_head_def find_None_iff find_Some_iff split: option.splits)
     (metis nth_mem)

lemma space_head_prefix:
  assumes "[] \<notin> set ws" "prefix t s" "space_head ws s = 0"
  shows "space_head ws t = 0"
  using assms by (auto simp: space_head_0_iff dest: prefix_order.trans)

lemma Nil_space_encodings [simp]: "[] \<notin> set space_encodings"
  by (simp add: space_encodings_def)

lemma trim_left_stop: "trim_left s = [] \<or> space_head space_encodings (trim_left s) = 0"
  unfolding trim_left_def by (rule strip_spaces_stop)

lemma prefix_trim_right: "prefix (trim_right s) s"
  using strip_spaces_suffix [of "map rev space_encodings" "rev s"]
  by (simp add: trim_right_def suffix_to_prefix)

lemma trim_right_idem [simp]: "trim_right (trim_right s) = trim_right s"
proof -
  let ?ws = "map rev space_encodings"
  have "strip_spaces ?ws (strip_spaces ?ws (rev s)) = strip_spaces ?ws (rev s)"
    by (rule strip_spaces_fix) (rule strip_spaces_stop)
  then show ?thesis by (simp add: trim_right_def)
qed

lemma trim_space_idem [simp]: "trim_space (trim_space s) = trim_space s"
proof -
  have "trim_right (trim_left s) = [] \<or> space_head space_encodings (trim_right (trim_left s)) = 0"
  proof (cases "trim_left s = []")
    case True
    then show ?thesis using prefix_trim_right [of "trim_left s"] by simp
  next
    case False
    with trim_left_stop have "space_head space_encodings (trim_left s) = 0" by blast
    then show ?thesis
      by (simp add: space_head_prefix [OF Nil_space_encodings prefix_trim_right])
  qed
  then have "trim_left (trim_right (trim_left s)) = trim_right (trim_left s)"
    unfolding trim_left_def by (rule strip_spaces_fix)
  then show ?thesis by (simp add: trim_space_def)
qed

lemma trim_space_Nil [simp]: "trim_space [] = []"
  by (simp add: trim_space_def trim_left_def trim_right_def strip_spaces.simps)

text \<open>Printable ASCII other than the space is never trimmed.\<close>

definition graphic :: "char \<Rightarrow> bool" where
  "graphic c \<longleftrightarrow> 33 \<le> (of_char c :: nat) \<and> (of_char c :: nat) \<le> 126"

lemma space_encodings_not_graphic:
  "list_all (\<lambda>w. w \<noteq> [] \<and> \<not> graphic (hd w) \<and> \<not> graphic (last w)) space_encodings"
  by code_simp

lemma strip_spaces_graphic:
  assumes "s = [] \<or> graphic (hd s)" "\<forall>w \<in> set ws. w \<noteq> [] \<and> \<not> graphic (hd w)"
  shows "strip_spaces ws s = s"
proof (rule strip_spaces_fix, cases s)
  case (Cons c t)
  have "\<not> prefix w s" if "w \<in> set ws" for w
    using assms that Cons by (cases w) auto
  moreover have "[] \<notin> set ws" using assms(2) by auto
  ultimately show "s = [] \<or> space_head ws s = 0" by (simp add: space_head_0_iff)
qed simp

lemma trim_space_graphic: "s = [] \<or> graphic (hd s) \<and> graphic (last s) \<Longrightarrow> trim_space s = s"
  using space_encodings_not_graphic
    strip_spaces_graphic [of s space_encodings] strip_spaces_graphic [of "rev s" "map rev space_encodings"]
  by (auto simp: trim_space_def trim_left_def trim_right_def list_all_iff hd_rev)

section \<open>strings.ToLower against ASCII words, TrimPrefix, Split, Join\<close>

text \<open>
  The code lower-cases in order to compare with ASCII words. Two runes outside ASCII have an
  ASCII lower case, U+0130 (to \<open>i\<close>) and U+212A (to \<open>k\<close>); both are folded here. Every
  other rune outside ASCII stays outside ASCII, so it is left as it is.
\<close>

definition lower_char :: "char \<Rightarrow> char" where
  "lower_char c = (let n = of_char c :: nat in if 65 \<le> n \<and> n \<le> 90 then char_of (n + 32) else c)"

fun to_lower :: "string \<Rightarrow> string" where
  "to_lower [] = []"
| "to_lower (c # s) =
     (if c = CHR 0xC4 \<and> take 1 s = [CHR 0xB0] then CHR ''i'' # to_lower (drop 1 s)
      else if c = CHR 0xE2 \<and> take 2 s = [CHR 0x84, CHR 0xAA] then CHR ''k'' # to_lower (drop 2 s)
      else lower_char c # to_lower s)"

abbreviation word_of :: "string \<Rightarrow> string" where
  "word_of s \<equiv> to_lower (trim_space s)"

text \<open>
  \<open>strings.ToUpper\<close> against ASCII words: outside ASCII only U+0131 (to \<open>I\<close>) and U+017F
  (to \<open>S\<close>) have an ASCII upper case.
\<close>

definition upper_char :: "char \<Rightarrow> char" where
  "upper_char c = (let n = of_char c :: nat in if 97 \<le> n \<and> n \<le> 122 then char_of (n - 32) else c)"

fun to_upper :: "string \<Rightarrow> string" where
  "to_upper [] = []"
| "to_upper (c # s) =
     (if c = CHR 0xC4 \<and> take 1 s = [CHR 0xB1] then CHR ''I'' # to_upper (drop 1 s)
      else if c = CHR 0xC5 \<and> take 1 s = [CHR 0xBF] then CHR ''S'' # to_upper (drop 1 s)
      else upper_char c # to_upper s)"

text \<open>
  Case-insensitive matching of a lower-case ASCII word at the front of a text, as
  \<open>strings.EqualFold\<close> and \<open>(?i)\<close> of \<open>regexp\<close> do it; \<open>strip_fold\<close> returns what follows the
  word. The runes U+017F and U+212A fold to \<open>s\<close> and \<open>k\<close>.
\<close>

fun strip_fold :: "string \<Rightarrow> string \<Rightarrow> string option" where
  "strip_fold [] s = Some s"
| "strip_fold (w # ws) s =
     (if take 1 (map lower_char s) = [w] then strip_fold ws (drop 1 s)
      else if w = CHR ''s'' \<and> take 2 s = [CHR 0xC5, CHR 0xBF] then strip_fold ws (drop 2 s)
      else if w = CHR ''k'' \<and> take 3 s = [CHR 0xE2, CHR 0x84, CHR 0xAA] then strip_fold ws (drop 3 s)
      else None)"

definition equal_fold :: "string \<Rightarrow> string \<Rightarrow> bool" where
  "equal_fold s word \<longleftrightarrow> strip_fold word s = Some []"

abbreviation blank :: "string \<Rightarrow> bool" where
  "blank s \<equiv> trim_space s = []"

definition trim_prefix :: "string \<Rightarrow> string \<Rightarrow> string" where
  "trim_prefix p s = (if prefix p s then drop (length p) s else s)"

fun split_on :: "char \<Rightarrow> string \<Rightarrow> string list" where
  "split_on d [] = [[]]"
| "split_on d (c # s) =
     (if c = d then [] # split_on d s
      else (case split_on d s of [] \<Rightarrow> [[c]] | p # ps \<Rightarrow> (c # p) # ps))"

fun join_with :: "string \<Rightarrow> string list \<Rightarrow> string" where
  "join_with sep [] = []"
| "join_with sep [x] = x"
| "join_with sep (x # y # ys) = x @ sep @ join_with sep (y # ys)"

text \<open>The text before and after the last occurrence of a character.\<close>

definition split_last :: "char \<Rightarrow> string \<Rightarrow> (string \<times> string) option" where
  "split_last c s =
     (if c \<notin> set s then None
      else Some (rev (tl (dropWhile (\<lambda>d. d \<noteq> c) (rev s))), rev (takeWhile (\<lambda>d. d \<noteq> c) (rev s))))"

text \<open>\<open>strings.FieldsFunc\<close> for a set of ASCII separators.\<close>

fun fields_loop :: "string \<Rightarrow> string \<Rightarrow> string \<Rightarrow> string list" where
  "fields_loop seps acc [] = (if acc = [] then [] else [acc])"
| "fields_loop seps acc (c # s) =
     (if c \<in> set seps then (if acc = [] then [] else [acc]) @ fields_loop seps [] s
      else fields_loop seps (acc @ [c]) s)"

definition fields_func :: "string \<Rightarrow> string \<Rightarrow> string list" where
  "fields_func seps s = fields_loop seps [] s"

fun index_byte :: "char \<Rightarrow> string \<Rightarrow> nat option" where
  "index_byte c [] = None"
| "index_byte c (x # xs) = (if x = c then Some 0 else map_option Suc (index_byte c xs))"

lemma split_on_not_Nil [simp]: "split_on d s \<noteq> []"
  by (induction s) (auto split: list.splits)

lemma split_on_no_sep: "p \<in> set (split_on d s) \<Longrightarrow> d \<notin> set p"
proof (induction s arbitrary: p)
  case Nil
  then show ?case by simp
next
  case (Cons c s)
  then show ?case
    by (cases "split_on d s") (auto split: if_splits)
qed

lemma join_with_Cons: "join_with sep (x # xs) = (if xs = [] then x else x @ sep @ join_with sep xs)"
  by (cases xs) auto

lemma join_split_on: "join_with [d] (split_on d s) = s"
proof (induction s)
  case Nil
  then show ?case by simp
next
  case (Cons c s)
  obtain p ps where "split_on d s = p # ps"
    by (cases "split_on d s") auto
  with Cons show ?case by (auto simp: join_with_Cons)
qed

lemma split_on_single: "d \<notin> set p \<Longrightarrow> split_on d p = [p]"
  by (induction p) auto

lemma split_on_append: "d \<notin> set p \<Longrightarrow> split_on d (p @ d # s) = p # split_on d s"
  by (induction p) auto

lemma split_on_join:
  assumes "ps \<noteq> []" "\<forall>p \<in> set ps. d \<notin> set p"
  shows "split_on d (join_with [d] ps) = ps"
  using assms
proof (induction ps)
  case (Cons p ps)
  then show ?case
    by (cases "ps = []") (auto simp: join_with_Cons split_on_single split_on_append)
qed simp

lemma set_join_with: "set (join_with sep ps) \<subseteq> set sep \<union> \<Union> (set ` set ps)"
  by (induction ps) (auto simp: join_with_Cons)

lemma set_trim_space: "set (trim_space s) \<subseteq> set s"
proof -
  have "set (trim_left s) \<subseteq> set s"
    unfolding trim_left_def by (rule set_mono_suffix [OF strip_spaces_suffix])
  moreover have "set (trim_right (trim_left s)) \<subseteq> set (trim_left s)"
    by (rule set_mono_prefix [OF prefix_trim_right])
  ultimately show ?thesis by (simp add: trim_space_def)
qed

lemma index_byte_Some: "index_byte c s = Some i \<Longrightarrow> i < length s \<and> s ! i = c"
  by (induction s arbitrary: i) (auto split: if_splits)

section \<open>strconv: decimal integers\<close>

definition digit_char :: "nat \<Rightarrow> char" where
  "digit_char d = char_of (48 + d)"

definition digit_val :: "char \<Rightarrow> nat option" where
  "digit_val c = (let n = of_char c :: nat in if 48 \<le> n \<and> n \<le> 57 then Some (n - 48) else None)"

fun nat_digits :: "nat \<Rightarrow> string" where
  "nat_digits n =
     (if n < 10 then [digit_char n] else nat_digits (n div 10) @ [digit_char (n mod 10)])"

declare nat_digits.simps [simp del]

text \<open>\<open>strconv.FormatInt(n, 10)\<close> and \<open>strconv.Itoa\<close>\<close>

definition format_int :: "int \<Rightarrow> string" where
  "format_int n = (if n < 0 then CHR ''-'' # nat_digits (nat (- n)) else nat_digits (nat n))"

fun parse_digits :: "nat \<Rightarrow> string \<Rightarrow> nat option" where
  "parse_digits acc [] = Some acc"
| "parse_digits acc (c # s) =
     (case digit_val c of None \<Rightarrow> None | Some d \<Rightarrow> parse_digits (10 * acc + d) s)"

text \<open>
  \<open>strconv.ParseInt(s, 10, 64)\<close> and, on a 64-bit machine, \<open>strconv.Atoi\<close>: an optional
  sign, at least one digit, and a range check; \<open>None\<close> is the returned error.
\<close>

definition parse_int :: "string \<Rightarrow> int option" where
  "parse_int s =
     (let neg = (take 1 s = ''-'');
          body = (if take 1 s = ''-'' \<or> take 1 s = ''+'' then drop 1 s else s)
      in if body = [] then None
         else case parse_digits 0 body of
                None \<Rightarrow> None
              | Some n \<Rightarrow>
                  (let v = (if neg then - int n else int n)
                   in if in_i64 v then Some v else None))"

lemma digit_val_digit_char [simp]: "d < 10 \<Longrightarrow> digit_val (digit_char d) = Some d"
  by (simp add: digit_val_def digit_char_def)

lemma parse_digits_append:
  "parse_digits acc (s @ t) = (case parse_digits acc s of None \<Rightarrow> None | Some a \<Rightarrow> parse_digits a t)"
  by (induction s arbitrary: acc) (auto split: option.splits)

lemma parse_nat_digits: "parse_digits 0 (nat_digits n) = Some n"
proof (induction n rule: nat_digits.induct)
  case (1 n)
  show ?case
  proof (cases "n < 10")
    case True
    then show ?thesis by (subst nat_digits.simps) simp
  next
    case False
    with 1 have "parse_digits 0 (nat_digits (n div 10)) = Some (n div 10)" by simp
    with False show ?thesis
      by (subst nat_digits.simps) (simp add: parse_digits_append)
  qed
qed

lemma nat_digits_digits: "c \<in> set (nat_digits n) \<Longrightarrow> \<exists>d<10. c = digit_char d"
proof (induction n rule: nat_digits.induct)
  case (1 n)
  show ?case
  proof (cases "n < 10")
    case True
    then show ?thesis using "1.prems" by (auto simp: nat_digits.simps [of n])
  next
    case False
    then have "c \<in> set (nat_digits (n div 10)) \<or> c = digit_char (n mod 10)"
      using "1.prems" by (auto simp: nat_digits.simps [of n])
    moreover have "n mod 10 < 10" by simp
    ultimately show ?thesis using "1.IH" False by blast
  qed
qed

lemma nat_digits_not_Nil [simp]: "nat_digits n \<noteq> []"
  by (subst nat_digits.simps) simp

lemma digit_char_not_sign: "d < 10 \<Longrightarrow> digit_char d \<noteq> CHR ''-'' \<and> digit_char d \<noteq> CHR ''+''"
proof -
  assume "d < 10"
  then have "of_char (digit_char d) = 48 + d" by (simp add: digit_char_def)
  then have "of_char (digit_char d) \<noteq> (45::nat)" "of_char (digit_char d) \<noteq> (43::nat)" by simp_all
  then show ?thesis by auto
qed

lemma take_1_nat_digits: "take 1 (nat_digits n) \<noteq> ''-'' \<and> take 1 (nat_digits n) \<noteq> ''+''"
proof (cases "nat_digits n")
  case Nil
  then show ?thesis by simp
next
  case (Cons c s)
  then have "\<exists>d<10. c = digit_char d" using nat_digits_digits [of c n] by simp
  then show ?thesis using Cons digit_char_not_sign by auto
qed

lemma parse_format_int [simp]: "in_i64 n \<Longrightarrow> parse_int (format_int n) = Some n"
  using take_1_nat_digits [of "nat n"]
  by (auto simp: parse_int_def format_int_def parse_nat_digits Let_def)

lemma digit_char_graphic: "d < 10 \<Longrightarrow> graphic (digit_char d)"
  by (simp add: graphic_def digit_char_def)

lemma nat_digits_graphic: "graphic (hd (nat_digits n)) \<and> graphic (last (nat_digits n))"
  using nat_digits_digits [of "hd (nat_digits n)" n] nat_digits_digits [of "last (nat_digits n)" n]
  by (auto simp: digit_char_graphic)

lemma trim_format_int [simp]: "trim_space (format_int n) = format_int n"
  using nat_digits_graphic [of "nat n"] nat_digits_graphic [of "nat (- n)"]
  by (intro trim_space_graphic) (auto simp: format_int_def graphic_def)

section \<open>Lists\<close>

text \<open>The last \<open>n\<close> elements: what a bounded queue keeps.\<close>

definition take_last :: "nat \<Rightarrow> 'a list \<Rightarrow> 'a list" where
  "take_last n xs = drop (length xs - n) xs"

lemma length_take_last [simp]: "length (take_last n xs) = min n (length xs)"
  by (simp add: take_last_def)

lemma set_take_last: "set (take_last n xs) \<subseteq> set xs"
  by (simp add: take_last_def set_drop_subset)

lemma distinct_take_last: "distinct xs \<Longrightarrow> distinct (take_last n xs)"
  by (simp add: take_last_def)

lemma take_last_all [simp]: "length xs \<le> n \<Longrightarrow> take_last n xs = xs"
  by (simp add: take_last_def)

lemma take_last_append_last: "0 < n \<Longrightarrow> take_last n (xs @ [x]) = take_last (n - 1) xs @ [x]"
  by (cases n) (auto simp: take_last_def Suc_diff_le not_less_eq_eq)

lemma take_last_take_last_append: "take_last n (take_last n xs @ ys) = take_last n (xs @ ys)"
proof (cases "length xs \<le> n")
  case True
  then show ?thesis by simp
next
  case False
  then have "length (take_last n xs @ ys) - n = length ys" by simp
  moreover have "length ys + (length xs - n) = length xs + length ys - n" using False by simp
  moreover have "length ys - (length xs - (length xs - n)) = length xs + length ys - n - length xs"
    using False by simp
  ultimately show ?thesis
    by (simp add: take_last_def)
qed

text \<open>Counting with an association list: \<open>m[k]++\<close>\<close>

definition bump :: "'k \<Rightarrow> ('k \<times> int) list \<Rightarrow> ('k \<times> int) list" where
  "bump k m = AList.update k ((case map_of m k of None \<Rightarrow> 0 | Some n \<Rightarrow> n) + 1) m"

definition count_in :: "('k \<times> int) list \<Rightarrow> 'k \<Rightarrow> int" where
  "count_in m k = (case map_of m k of None \<Rightarrow> 0 | Some n \<Rightarrow> n)"

lemma count_in_Nil [simp]: "count_in [] k = 0"
  by (simp add: count_in_def)

lemma count_in_bump: "count_in (bump k m) j = (if j = k then count_in m k + 1 else count_in m j)"
  by (simp add: count_in_def bump_def update_conv split: option.splits)

lemma distinct_bump: "distinct (map fst m) \<Longrightarrow> distinct (map fst (bump k m))"
  by (simp add: bump_def distinct_update)

lemma length_update_le: "length (AList.update k v m) \<le> Suc (length m)"
  by (induction m) auto

lemma update_fresh: "k \<notin> fst ` set m \<Longrightarrow> AList.update k v m = m @ [(k, v)]"
  by (induction m) auto

lemma keys_bump: "fst ` set (bump k m) = insert k (fst ` set m)"
  by (auto simp: bump_def simp flip: dom_map_of_conv_image_fst simp: update_conv)

end
