(* ===== verification/SessionTables.thy ===== *)
theory SessionTables
  imports GoBase
begin

text \<open>
  The expiring, capacity-bounded tables of the MCP side (\<open>cursor.go\<close>, \<open>intent.go\<close>): a map
  from ids to entries beside a slice \<open>order\<close> of ids, oldest first. Both files contain the
  same three loops; they are modelled once here, for any entry type with an expiry time.
  The locale \<open>lru_table\<close> states what such a table promises and derives the capacity bound
  and the survival of recently used entries once for both.
\<close>

section \<open>The loops\<close>

text \<open>\<open>entry, ok := items[id]; ok && now.Before(entry.ExpiresAt)\<close>\<close>

definition live_in :: "('e \<Rightarrow> int) \<Rightarrow> int \<Rightarrow> (string \<rightharpoonup> 'e) \<Rightarrow> string \<Rightarrow> bool" where
  "live_in expiry now m i \<longleftrightarrow> (case m i of Some e \<Rightarrow> now < expiry e | None \<Rightarrow> False)"

text \<open>The loop of \<open>pruneLocked\<close>: \<open>kept\<close> and the map after the deletions.\<close>

fun prune_loop :: "('e \<Rightarrow> int) \<Rightarrow> int \<Rightarrow> string list \<Rightarrow> (string \<rightharpoonup> 'e) \<Rightarrow> string list \<times> (string \<rightharpoonup> 'e)" where
  "prune_loop expiry now [] m = ([], m)"
| "prune_loop expiry now (i # is) m =
     (if live_in expiry now m i
      then (let (kept, m') = prune_loop expiry now is m in (i # kept, m'))
      else prune_loop expiry now is (m(i := None)))"

text \<open>\<open>for len(s.order) > s.capacity { delete(s.items, s.order[0]); s.order = s.order[1:] }\<close>\<close>

fun evict_loop :: "int \<Rightarrow> string list \<Rightarrow> (string \<rightharpoonup> 'e) \<Rightarrow> string list \<times> (string \<rightharpoonup> 'e)" where
  "evict_loop cap [] m = ([], m)"
| "evict_loop cap (i # is) m =
     (if int (length (i # is)) > cap then evict_loop cap is (m(i := None)) else (i # is, m))"

lemma prune_loop_order:
  "distinct is \<Longrightarrow> fst (prune_loop expiry now is m) = filter (live_in expiry now m) is"
proof (induction "is" arbitrary: m)
  case Nil
  then show ?case by simp
next
  case (Cons i "is")
  have "filter (live_in expiry now (m(i := None))) is = filter (live_in expiry now m) is"
    using Cons.prems by (intro filter_cong) (auto simp: live_in_def split: if_splits)
  with Cons show ?case by (simp add: case_prod_beta)
qed

lemma prune_loop_entry:
  "distinct is \<Longrightarrow> snd (prune_loop expiry now is m) j
     = (if j \<in> set is \<and> \<not> live_in expiry now m j then None else m j)"
proof (induction "is" arbitrary: m)
  case Nil
  then show ?case by simp
next
  case (Cons i "is")
  have "live_in expiry now (m(i := None)) j = live_in expiry now m j" if "j \<noteq> i"
    using that by (simp add: live_in_def)
  then show ?case using Cons by (auto simp: case_prod_beta)
qed

lemma evict_loop_order: "0 \<le> cap \<Longrightarrow> fst (evict_loop cap is m) = take_last (nat cap) is"
  by (induction "is" arbitrary: m) (auto simp: take_last_def Suc_diff_le nat_le_iff)

lemma evict_loop_entry:
  assumes "0 \<le> cap" "distinct is"
  shows "snd (evict_loop cap is m) j
     = (if j \<in> set is \<and> j \<notin> set (take_last (nat cap) is) then None else m j)"
  using assms(2)
proof (induction "is" arbitrary: m)
  case Nil
  then show ?case by (simp add: take_last_def)
next
  case (Cons i "is")
  show ?case
  proof (cases "int (length (i # is)) > cap")
    case True
    then have "take_last (nat cap) (i # is) = take_last (nat cap) is"
      using assms(1) by (auto simp: take_last_def Suc_diff_le nat_le_iff)
    moreover have "i \<notin> set (take_last (nat cap) is)"
      using Cons.prems set_take_last [of "nat cap" "is"] by auto
    ultimately show ?thesis using True Cons by auto
  next
    case False
    then have "take_last (nat cap) (i # is) = i # is" by simp
    with False show ?thesis by auto
  qed
qed

section \<open>What an expiring LRU table promises\<close>

locale lru_table =
  fixes order_of :: "'s \<Rightarrow> string list"
    and entry_of :: "'s \<Rightarrow> string \<Rightarrow> 'e option"
    and capacity_of :: "'s \<Rightarrow> int"
    and expiry_of :: "'e \<Rightarrow> int"
    and well_formed :: "'s \<Rightarrow> bool"
    and admits :: "'s \<Rightarrow> string \<Rightarrow> bool"
    and insert_at :: "int \<Rightarrow> string \<Rightarrow> 'a \<Rightarrow> 's \<Rightarrow> 's"
  assumes well_formed_iff:
    "well_formed s \<longleftrightarrow> 0 < capacity_of s \<and> distinct (order_of s)
       \<and> set (order_of s) = dom (entry_of s) \<and> int (length (order_of s)) \<le> capacity_of s"
    and insert_order:
    "well_formed s \<Longrightarrow> admits s i \<Longrightarrow> order_of (insert_at now i a s)
       = take_last (nat (capacity_of s))
           (filter (\<lambda>j. j \<noteq> i \<and> live_in expiry_of now (entry_of s) j) (order_of s) @ [i])"
    and insert_other:
    "well_formed s \<Longrightarrow> admits s i \<Longrightarrow> j \<noteq> i \<Longrightarrow> entry_of (insert_at now i a s) j
       = (if j \<in> set (order_of (insert_at now i a s)) then entry_of s j else None)"
    and insert_self: "well_formed s \<Longrightarrow> admits s i \<Longrightarrow> entry_of (insert_at now i a s) i \<noteq> None"
    and insert_capacity: "capacity_of (insert_at now i a s) = capacity_of s"
begin

lemma insert_last:
  assumes "well_formed s" "admits s i"
  shows "\<exists>xs. order_of (insert_at now i a s) = xs @ [i] \<and> set xs \<subseteq> set (order_of s) - {i}
           \<and> distinct xs \<and> int (length xs) < capacity_of s"
proof -
  let ?l = "filter (\<lambda>j. j \<noteq> i \<and> live_in expiry_of now (entry_of s) j) (order_of s)"
  have c: "0 < nat (capacity_of s)" "distinct (order_of s)"
    using assms(1) by (simp_all add: well_formed_iff)
  let ?xs = "take_last (nat (capacity_of s) - 1) ?l"
  have "order_of (insert_at now i a s) = ?xs @ [i]"
    using insert_order [OF assms] c(1) by (simp add: take_last_append_last)
  moreover have "set ?xs \<subseteq> set (order_of s) - {i}"
    using set_take_last [of "nat (capacity_of s) - 1" ?l] by auto
  moreover have "distinct ?xs" using c(2) by (simp add: distinct_take_last)
  moreover have "int (length ?xs) < capacity_of s" using c(1) by auto
  ultimately show ?thesis by blast
qed

lemma insert_well_formed:
  assumes "well_formed s" "admits s i"
  shows "well_formed (insert_at now i a s)"
proof -
  obtain xs where xs: "order_of (insert_at now i a s) = xs @ [i]" "set xs \<subseteq> set (order_of s) - {i}"
    "distinct xs" "int (length xs) < capacity_of s"
    using insert_last [OF assms] by blast
  have "j \<in> set (xs @ [i]) \<longleftrightarrow> entry_of (insert_at now i a s) j \<noteq> None" for j
  proof (cases "j = i")
    case True
    then show ?thesis using insert_self [OF assms] by simp
  next
    case False
    have "set xs \<subseteq> dom (entry_of s)" using xs(2) assms(1) by (auto simp: well_formed_iff)
    then show ?thesis using insert_other [OF assms False, of now a] xs(1) False by auto
  qed
  then have "set (xs @ [i]) = dom (entry_of (insert_at now i a s))" by (auto simp: dom_def)
  with xs assms(1) show ?thesis
    by (auto simp: well_formed_iff [of "insert_at now i a s"] insert_capacity well_formed_iff [of s])
qed

lemma capacity_bound:
  assumes "well_formed s"
  shows "int (card (dom (entry_of s))) \<le> capacity_of s"
  using assms distinct_card [of "order_of s"] by (auto simp: well_formed_iff)

text \<open>An entry loses at most one place per insertion, so it outlives the next insertions.\<close>

lemma insert_keeps:
  assumes "well_formed s" "admits s i" "i \<noteq> j"
    and "order_of s = xs @ j # ys" "entry_of s j = Some e" "now < expiry_of e"
    and "int (length ys) + 1 < capacity_of s"
  shows "entry_of (insert_at now i a s) j = Some e
     \<and> (\<exists>xs' ys'. order_of (insert_at now i a s) = xs' @ j # ys' \<and> length ys' \<le> length ys + 1)"
proof -
  let ?p = "\<lambda>k. k \<noteq> i \<and> live_in expiry_of now (entry_of s) k"
  have "?p j" using assms by (simp add: live_in_def)
  then have o: "order_of (insert_at now i a s)
      = take_last (nat (capacity_of s)) (filter ?p xs @ j # (filter ?p ys @ [i]))"
    using insert_order [OF assms(1,2)] assms(4) by simp
  let ?ys = "filter ?p ys @ [i]"
  have l: "length ?ys \<le> length ys + 1" by simp
  let ?d = "length (filter ?p xs @ j # ?ys) - nat (capacity_of s)"
  have "length (filter ?p ys) \<le> length ys" by simp
  then have "Suc (Suc (length (filter ?p ys))) \<le> nat (capacity_of s)" using assms(7) by linarith
  then have "?d \<le> length (filter ?p xs)" by simp
  then have "order_of (insert_at now i a s) = drop ?d (filter ?p xs) @ j # ?ys"
    unfolding o take_last_def by simp
  moreover from this have "entry_of (insert_at now i a s) j = Some e"
    using insert_other [OF assms(1,2), of j now a] assms(3,5) by simp
  ultimately show ?thesis using l by blast
qed

end

end
