(* ===== verification/McpCursor.thy ===== *)
theory McpCursor
  imports SessionTables
begin

text \<open>
  \<open>backend/internal/mcp/cursor.go\<close>: the sessions of \<open>kafka_messages_digest\<close> that
  \<open>kafka_cursor_next\<close> pages through. The clock reading and the random id of \<open>Put\<close> are
  arguments; a \<open>time.Time\<close> is an integer number of nanoseconds.
\<close>

section \<open>State\<close>

record cursor_row =
  cr_topic :: string
  cr_partition :: int
  cr_offset :: int
  cr_key :: string
  cr_fields :: "(string \<times> string) list option"   \<comment> \<open>\<open>None\<close>: a nil map\<close>

record cursor_session =
  cs_id :: string
  cs_topic :: string
  cs_rows :: "cursor_row list"
  cs_truncated :: bool
  cs_offset :: int
  cs_expires :: int

record cursor_store =
  cu_ttl :: int
  cu_capacity :: int
  cu_max_rows :: int
  cu_sessions :: "string \<rightharpoonup> cursor_session"
  cu_order :: "string list"

datatype lookup_status = LookupFound | LookupExpired | LookupUnknown

record next_request =
  nr_n :: int
  nr_offset :: int

record next_result =
  nx_rows :: "cursor_row list"
  nx_offset :: int
  nx_next :: int
  nx_done :: bool

section \<open>Operations\<close>

definition NewCursorStore :: "int \<Rightarrow> int \<Rightarrow> int \<Rightarrow> cursor_store" where
  "NewCursorStore ttl capacity maxRows =
     \<lparr>cu_ttl = (if ttl \<le> 0 then 600 * 10 ^ 9 else ttl),
      cu_capacity = (if capacity \<le> 0 then 8 else capacity),
      cu_max_rows = (if maxRows \<le> 0 then 10000 else maxRows),
      cu_sessions = Map.empty, cu_order = []\<rparr>"

definition cursor_prune :: "int \<Rightarrow> cursor_store \<Rightarrow> cursor_store" where
  "cursor_prune now s =
     (let (kept, m) = prune_loop cs_expires now (cu_order s) (cu_sessions s)
      in s\<lparr>cu_order := kept, cu_sessions := m\<rparr>)"

definition cursor_remove :: "string \<Rightarrow> cursor_store \<Rightarrow> cursor_store" where
  "cursor_remove i s = s\<lparr>cu_sessions := (cu_sessions s)(i := None), cu_order := remove1 i (cu_order s)\<rparr>"

definition cursor_touch :: "string \<Rightarrow> cursor_store \<Rightarrow> cursor_store" where
  "cursor_touch i s = s\<lparr>cu_order := remove1 i (cu_order s) @ [i]\<rparr>"

definition cursor_evict :: "cursor_store \<Rightarrow> cursor_store" where
  "cursor_evict s =
     (let (order, m) = evict_loop (cu_capacity s) (cu_order s) (cu_sessions s)
      in s\<lparr>cu_order := order, cu_sessions := m\<rparr>)"

definition cursor_Put :: "cursor_row list \<Rightarrow> string \<Rightarrow> int \<Rightarrow> string \<Rightarrow> cursor_store \<Rightarrow> cursor_store \<times> cursor_session" where
  "cursor_Put rows topic now newid s0 =
     (let s = cursor_prune now s0;
          truncated = (int (length rows) > cu_max_rows s);
          kept = (if truncated then take (nat (cu_max_rows s)) rows else rows);
          session = \<lparr>cs_id = newid, cs_topic = topic, cs_rows = kept, cs_truncated = truncated,
                     cs_offset = 0, cs_expires = now + cu_ttl s\<rparr>;
          s1 = s\<lparr>cu_sessions := (cu_sessions s)(newid \<mapsto> session), cu_order := cu_order s @ [newid]\<rparr>
      in (cursor_evict s1, session))"

definition cursor_SetTTL :: "int \<Rightarrow> cursor_store \<Rightarrow> cursor_store" where
  "cursor_SetTTL ttl s = (if ttl \<le> 0 then s else s\<lparr>cu_ttl := ttl\<rparr>)"

definition cursor_SetCapacity :: "int \<Rightarrow> cursor_store \<Rightarrow> cursor_store" where
  "cursor_SetCapacity capacity s =
     (if capacity \<le> 0 then s else cursor_evict (s\<lparr>cu_capacity := capacity\<rparr>))"

text \<open>\<open>n <= 0\<close> reads the default of 20 rows, more than 20 are not returned.\<close>

definition clamp_batch :: "int \<Rightarrow> int" where
  "clamp_batch n = (let m = (if n \<le> 0 then 20 else n) in if m > 20 then 20 else m)"

definition cursor_Next :: "string \<Rightarrow> next_request \<Rightarrow> int \<Rightarrow> cursor_store
    \<Rightarrow> cursor_store \<times> next_result option \<times> lookup_status" where
  "cursor_Next i req now s =
     (case cu_sessions s i of
        None \<Rightarrow> (s, None, LookupUnknown)
      | Some session \<Rightarrow>
          if \<not> now < cs_expires session then (cursor_remove i s, None, LookupExpired)
          else
            let s1 = cursor_touch i s;
                n = clamp_batch (nr_n req);
                len = int (length (cs_rows session));
                offset = (if nr_offset req < 0 then cs_offset session else nr_offset req);
                offset = (if offset > len then len else offset);
                stop = offset + n;
                stop = (if stop > len then len else stop);
                rows = take (nat (stop - offset)) (drop (nat offset) (cs_rows session))
            in (s1\<lparr>cu_sessions := (cu_sessions s1)(i \<mapsto> session\<lparr>cs_offset := stop\<rparr>)\<rparr>,
                Some \<lparr>nx_rows = rows, nx_offset = offset, nx_next = stop, nx_done = (stop \<ge> len)\<rparr>,
                LookupFound))"

section \<open>Well-formedness and the interface\<close>

definition cursor_wf :: "cursor_store \<Rightarrow> bool" where
  "cursor_wf s \<longleftrightarrow> 0 < cu_capacity s \<and> distinct (cu_order s)
     \<and> set (cu_order s) = dom (cu_sessions s) \<and> int (length (cu_order s)) \<le> cu_capacity s"

definition cursor_insert :: "int \<Rightarrow> string \<Rightarrow> cursor_row list \<times> string \<Rightarrow> cursor_store \<Rightarrow> cursor_store" where
  "cursor_insert now i a s = fst (cursor_Put (fst a) (snd a) now i s)"

lemma cursor_wf_new [simp]: "cursor_wf (NewCursorStore ttl capacity maxRows)"
  by (simp add: cursor_wf_def NewCursorStore_def)

lemma cursor_prune_fields [simp]:
  "cu_capacity (cursor_prune now s) = cu_capacity s" "cu_ttl (cursor_prune now s) = cu_ttl s"
  "cu_max_rows (cursor_prune now s) = cu_max_rows s"
  by (simp_all add: cursor_prune_def case_prod_beta)

lemma cursor_evict_fields [simp]:
  "cu_capacity (cursor_evict s) = cu_capacity s" "cu_ttl (cursor_evict s) = cu_ttl s"
  "cu_max_rows (cursor_evict s) = cu_max_rows s"
  by (simp_all add: cursor_evict_def case_prod_beta)

lemma cursor_Put_fields [simp]:
  "cu_capacity (fst (cursor_Put rows topic now i s)) = cu_capacity s"
  "cu_ttl (fst (cursor_Put rows topic now i s)) = cu_ttl s"
  by (simp_all add: cursor_Put_def Let_def)

lemma cursor_evict_order:
  "0 < cu_capacity s \<Longrightarrow> cu_order (cursor_evict s) = take_last (nat (cu_capacity s)) (cu_order s)"
  by (simp add: cursor_evict_def case_prod_beta evict_loop_order)

lemma cursor_evict_entry:
  "0 < cu_capacity s \<Longrightarrow> distinct (cu_order s) \<Longrightarrow> cu_sessions (cursor_evict s) j
     = (if j \<in> set (cu_order s) \<and> j \<notin> set (cu_order (cursor_evict s)) then None else cu_sessions s j)"
  by (simp add: cursor_evict_order)
     (simp add: cursor_evict_def case_prod_beta evict_loop_entry)

lemma cursor_prune_order:
  "cursor_wf s \<Longrightarrow> cu_order (cursor_prune now s) = filter (live_in cs_expires now (cu_sessions s)) (cu_order s)"
  by (simp add: cursor_prune_def case_prod_beta prune_loop_order cursor_wf_def)

lemma cursor_prune_entry:
  "cursor_wf s \<Longrightarrow> cu_sessions (cursor_prune now s) j
     = (if live_in cs_expires now (cu_sessions s) j then cu_sessions s j else None)"
  by (auto simp: cursor_prune_def case_prod_beta prune_loop_entry cursor_wf_def live_in_def
           split: option.splits)

lemma cursor_insert_order:
  assumes "cursor_wf s" "i \<notin> dom (cu_sessions s)"
  shows "cu_order (cursor_insert now i a s) = take_last (nat (cu_capacity s))
    (filter (\<lambda>j. j \<noteq> i \<and> live_in cs_expires now (cu_sessions s) j) (cu_order s) @ [i])"
proof -
  have "i \<notin> set (cu_order s)" using assms by (auto simp: cursor_wf_def)
  then have "filter (live_in cs_expires now (cu_sessions s)) (cu_order s)
      = filter (\<lambda>j. j \<noteq> i \<and> live_in cs_expires now (cu_sessions s) j) (cu_order s)"
    by (intro filter_cong) auto
  then show ?thesis using assms
    by (simp add: cursor_insert_def cursor_Put_def Let_def cursor_evict_order cursor_prune_order cursor_wf_def)
qed

lemma cursor_insert_entry:
  assumes "cursor_wf s" "i \<notin> dom (cu_sessions s)"
  shows "cu_sessions (cursor_insert now i a s) j
    = (if j \<in> set (cu_order (cursor_insert now i a s))
       then (if j = i then Some (snd (cursor_Put (fst a) (snd a) now i s)) else cu_sessions s j) else None)"
proof -
  have c: "0 < cu_capacity s" "distinct (cu_order s)" "set (cu_order s) = dom (cu_sessions s)"
    "i \<notin> set (cu_order s)"
    using assms by (auto simp: cursor_wf_def)
  let ?l = "filter (\<lambda>j. j \<noteq> i \<and> live_in cs_expires now (cu_sessions s) j) (cu_order s) @ [i]"
  have "set (cu_order (cursor_insert now i a s)) \<subseteq> set ?l"
    unfolding cursor_insert_order [OF assms] by (rule set_take_last)
  then have sub: "j = i \<or> live_in cs_expires now (cu_sessions s) j"
    if "j \<in> set (cu_order (cursor_insert now i a s))"
    using that by auto
  have "live_in cs_expires now (cu_sessions s) j \<longrightarrow> j \<in> set (cu_order s)"
    using c(3) by (auto simp: live_in_def split: option.splits)
  then show ?thesis using c sub assms(1)
    by (auto simp: cursor_insert_def cursor_Put_def Let_def cursor_evict_entry cursor_prune_order
        cursor_prune_entry)
qed

interpretation cursors: lru_table cu_order cu_sessions cu_capacity cs_expires cursor_wf
  "\<lambda>s i. i \<notin> dom (cu_sessions s)" cursor_insert
proof
  show "cursor_wf s \<longleftrightarrow> 0 < cu_capacity s \<and> distinct (cu_order s)
     \<and> set (cu_order s) = dom (cu_sessions s) \<and> int (length (cu_order s)) \<le> cu_capacity s" for s
    by (rule cursor_wf_def)
  show "cu_order (cursor_insert now i a s) = take_last (nat (cu_capacity s))
    (filter (\<lambda>j. j \<noteq> i \<and> live_in cs_expires now (cu_sessions s) j) (cu_order s) @ [i])"
    if "cursor_wf s" "i \<notin> dom (cu_sessions s)" for s i now a
    using that by (rule cursor_insert_order)
  show "cu_sessions (cursor_insert now i a s) j
      = (if j \<in> set (cu_order (cursor_insert now i a s)) then cu_sessions s j else None)"
    if "cursor_wf s" "i \<notin> dom (cu_sessions s)" "j \<noteq> i" for s i j now a
    using cursor_insert_entry [OF that(1,2), of now a j] that(3) by simp
  show "cu_sessions (cursor_insert now i a s) i \<noteq> None"
    if "cursor_wf s" "i \<notin> dom (cu_sessions s)" for s i now a
  proof -
    have "0 < nat (cu_capacity s)" using that by (simp add: cursor_wf_def)
    then have "i \<in> set (cu_order (cursor_insert now i a s))"
      using that by (simp add: cursor_insert_order take_last_append_last)
    then show ?thesis using cursor_insert_entry [OF that, of now a i] by simp
  qed
  show "cu_capacity (cursor_insert now i a s) = cu_capacity s" for now i a s
    by (simp add: cursor_insert_def)
qed

section \<open>Reachable tables\<close>

lemma cursor_remove_wf: "cursor_wf s \<Longrightarrow> cursor_wf (cursor_remove i s)"
  using length_remove1 [of i "cu_order s"]
  by (auto simp: cursor_wf_def cursor_remove_def set_remove1_eq distinct_remove1)

lemma cursor_touch_wf: "cursor_wf s \<Longrightarrow> i \<in> dom (cu_sessions s) \<Longrightarrow> cursor_wf (cursor_touch i s)"
  using length_remove1 [of i "cu_order s"]
  by (auto simp: cursor_wf_def cursor_touch_def set_remove1_eq distinct_remove1)

lemma cursor_update_wf:
  "cursor_wf s \<Longrightarrow> i \<in> dom (cu_sessions s) \<Longrightarrow> cursor_wf (s\<lparr>cu_sessions := (cu_sessions s)(i \<mapsto> e)\<rparr>)"
  by (auto simp: cursor_wf_def)

lemma cursor_Next_wf: "cursor_wf s \<Longrightarrow> cursor_wf (fst (cursor_Next i req now s))"
proof (cases "cu_sessions s i")
  case None
  then show "cursor_wf s \<Longrightarrow> ?thesis" by (simp add: cursor_Next_def)
next
  case (Some e)
  assume wf: "cursor_wf s"
  from Some have "i \<in> dom (cu_sessions s)" by auto
  then have "cursor_wf (cursor_touch i s)" "i \<in> dom (cu_sessions (cursor_touch i s))"
    using wf by (simp_all add: cursor_touch_wf, simp add: cursor_touch_def)
  then show ?thesis using Some wf
    by (auto simp: cursor_Next_def Let_def cursor_remove_wf cursor_update_wf)
qed

lemma cursor_SetCapacity_wf: "cursor_wf s \<Longrightarrow> cursor_wf (cursor_SetCapacity n s)"
proof (cases "n \<le> 0")
  case True
  then show "cursor_wf s \<Longrightarrow> ?thesis" by (simp add: cursor_SetCapacity_def)
next
  case False
  let ?s = "s\<lparr>cu_capacity := n\<rparr>"
  assume wf: "cursor_wf s"
  then have d: "distinct (cu_order ?s)" "set (cu_order ?s) = dom (cu_sessions ?s)" "0 < cu_capacity ?s"
    using False by (simp_all add: cursor_wf_def)
  have o: "cu_order (cursor_evict ?s) = take_last (nat n) (cu_order s)"
    using False by (simp add: cursor_evict_order)
  have "set (cu_order (cursor_evict ?s)) = dom (cu_sessions (cursor_evict ?s))"
    using d set_take_last [of "nat n" "cu_order s"]
    by (auto simp: cursor_evict_entry [OF d(3,1)] o dom_def split: if_splits)
  then show ?thesis using False d(1) o
    by (simp add: cursor_wf_def cursor_SetCapacity_def distinct_take_last min_le_iff_disj)
qed

text \<open>One call on the table; a new id is one the random generator has not handed out yet.\<close>

inductive cursor_call :: "cursor_store \<Rightarrow> cursor_store \<Rightarrow> bool" where
  call_put: "i \<notin> dom (cu_sessions s) \<Longrightarrow> cursor_call s (fst (cursor_Put rows topic now i s))"
| call_next: "cursor_call s (fst (cursor_Next i req now s))"
| call_ttl: "cursor_call s (cursor_SetTTL ttl s)"
| call_capacity: "cursor_call s (cursor_SetCapacity n s)"

inductive cursor_reachable :: "cursor_store \<Rightarrow> bool" where
  reach_new: "cursor_reachable (NewCursorStore ttl capacity maxRows)"
| reach_call: "cursor_reachable s \<Longrightarrow> cursor_call s t \<Longrightarrow> cursor_reachable t"

lemma cursor_call_wf: "cursor_call s t \<Longrightarrow> cursor_wf s \<Longrightarrow> cursor_wf t"
proof (induction rule: cursor_call.induct)
  case (call_put i s rows topic now)
  then show ?case
    using cursors.insert_well_formed [of s i now "(rows, topic)"] by (simp add: cursor_insert_def)
next
  case (call_next s i req now)
  then show ?case by (rule cursor_Next_wf)
next
  case (call_ttl s ttl)
  then show ?case by (simp add: cursor_SetTTL_def cursor_wf_def)
next
  case (call_capacity s n)
  then show ?case by (rule cursor_SetCapacity_wf)
qed

text \<open>
  C30. Whatever calls are made on the cursor table, its LRU list and its session map hold
  the same ids, each once, and never more sessions than the configured capacity.
\<close>

theorem cursor_table_bounded:
  assumes "cursor_reachable s"
  shows "distinct (cu_order s) \<and> set (cu_order s) = dom (cu_sessions s)
       \<and> int (card (dom (cu_sessions s))) \<le> cu_capacity s"
proof -
  from assms have "cursor_wf s"
    by (induction rule: cursor_reachable.induct) (auto intro: cursor_call_wf)
  then show ?thesis using cursors.capacity_bound [of s] by (simp add: cursor_wf_def)
qed

theorem cursor_table_bounded_witness:
  "int (card (dom (cu_sessions (fst (cursor_Put [] ''t'' 0 ''cur-1'' (NewCursorStore 0 0 0)))))) \<le> 8"
proof -
  have "cursor_reachable (fst (cursor_Put [] ''t'' 0 ''cur-1'' (NewCursorStore 0 0 0)))"
    by (rule reach_call [OF reach_new], rule call_put) (simp add: NewCursorStore_def)
  from cursor_table_bounded [OF this] show ?thesis
    by (simp add: cursor_Put_def Let_def NewCursorStore_def)
qed

section \<open>Paging through a session\<close>

text \<open>A client that lets the server remember the position: \<open>offset < 0\<close> in every request.\<close>

fun next_all :: "string \<Rightarrow> (int \<times> int) list \<Rightarrow> cursor_store \<Rightarrow> cursor_store \<times> cursor_row list" where
  "next_all i [] s = (s, [])"
| "next_all i ((n, now) # reqs) s =
     (let (s1, r, _) = cursor_Next i \<lparr>nr_n = n, nr_offset = -1\<rparr> now s;
          (s2, rows) = next_all i reqs s1
      in (s2, (case r of None \<Rightarrow> [] | Some x \<Rightarrow> nx_rows x) @ rows))"

definition page_size :: "int \<Rightarrow> nat" where
  "page_size n = nat (clamp_batch n)"

lemma clamp_batch_page_size: "clamp_batch n = int (page_size n)" "1 \<le> page_size n" "page_size n \<le> 20"
  by (auto simp: page_size_def clamp_batch_def Let_def)

lemma cursor_Next_resume:
  assumes "cu_sessions s i = Some e" "now < cs_expires e"
    and "cs_offset e = int k" "k \<le> length (cs_rows e)"
  shows "\<exists>s'. cursor_Next i \<lparr>nr_n = n, nr_offset = -1\<rparr> now s
      = (s', Some \<lparr>nx_rows = take (page_size n) (drop k (cs_rows e)), nx_offset = int k,
                   nx_next = int (min (k + page_size n) (length (cs_rows e))),
                   nx_done = (length (cs_rows e) \<le> k + page_size n)\<rparr>, LookupFound)
    \<and> cu_sessions s' i = Some (e\<lparr>cs_offset := int (min (k + page_size n) (length (cs_rows e)))\<rparr>)"
proof -
  let ?p = "page_size n" and ?len = "length (cs_rows e)"
  have m: "(if int k + int ?p > int ?len then int ?len else int k + int ?p) = int (min (k + ?p) ?len)"
    by simp
  have t: "take (nat (int (min (k + ?p) ?len) - int k)) (drop k (cs_rows e)) = take ?p (drop k (cs_rows e))"
    using assms(4) by (simp add: min_def nat_diff_distrib')
  have d: "(int ?len \<le> int (min (k + ?p) ?len)) = (?len \<le> k + ?p)" by simp
  have o: "(if int k > int ?len then int ?len else int k) = int k" using assms(4) by simp
  show ?thesis
    unfolding cursor_Next_def Let_def using assms(1-3)
    by (simp only: clamp_batch_page_size next_request.simps option.case if_True not_False_eq_True
        not_True_eq_False if_False m t d o neg_less_0_iff_less zero_less_one cursor_touch_def) (simp add: t)
qed

text \<open>
  Successive \<open>Next\<close> calls on an unexpired session, whatever batch sizes they ask for,
  return consecutive rows: together exactly the rows from the session's position on, none
  skipped and none twice, and the position moves by what was returned.
\<close>

theorem cursor_pages_consecutive:
  assumes "cu_sessions s i = Some e" "cs_offset e = int k" "k \<le> length (cs_rows e)"
    and "\<forall>(n, now) \<in> set reqs. now < cs_expires e"
  shows "snd (next_all i reqs s) = take (sum_list (map (\<lambda>r. page_size (fst r)) reqs)) (drop k (cs_rows e))
    \<and> map_option cs_offset (cu_sessions (fst (next_all i reqs s)) i)
        = Some (int (min (k + sum_list (map (\<lambda>r. page_size (fst r)) reqs)) (length (cs_rows e))))"
  using assms
proof (induction reqs arbitrary: s e k)
  case Nil
  then show ?case by simp
next
  case (Cons r reqs)
  obtain n now where r: "r = (n, now)" by (cases r)
  let ?k = "min (k + page_size n) (length (cs_rows e))" and ?e = "\<lambda>k. e\<lparr>cs_offset := int k\<rparr>"
  obtain s1 x where step: "cursor_Next i \<lparr>nr_n = n, nr_offset = -1\<rparr> now s = (s1, Some x, LookupFound)"
    "nx_rows x = take (page_size n) (drop k (cs_rows e))" "cu_sessions s1 i = Some (?e ?k)"
    using cursor_Next_resume [of s i e now k n] Cons.prems r by auto
  have IH: "snd (next_all i reqs s1) = take (sum_list (map (\<lambda>r. page_size (fst r)) reqs)) (drop ?k (cs_rows e))
    \<and> map_option cs_offset (cu_sessions (fst (next_all i reqs s1)) i)
        = Some (int (min (?k + sum_list (map (\<lambda>r. page_size (fst r)) reqs)) (length (cs_rows e))))"
    using Cons.IH [of s1 "?e ?k" ?k] step(3) Cons.prems(4) by simp
  have "take (page_size n) (drop k xs) @ take m (drop (min (k + page_size n) (length xs)) xs)
      = take (page_size n + m) (drop k xs)" for xs :: "cursor_row list" and m
    using take_add [of "page_size n" m "drop k xs"]
    by (cases "k + page_size n \<le> length xs") (simp_all add: add.commute)
  moreover have "min (?k + m) (length (cs_rows e)) = min (k + (page_size n + m)) (length (cs_rows e))" for m
    by (simp add: min_def)
  ultimately show ?case using IH step r by (simp add: case_prod_beta)
qed

theorem cursor_pages_consecutive_witness:
  "snd (next_all ''c'' [(2, 5), (0, 6)]
     \<lparr>cu_ttl = 9, cu_capacity = 8, cu_max_rows = 9,
      cu_sessions = [''c'' \<mapsto> \<lparr>cs_id = ''c'', cs_topic = ''t'',
        cs_rows = [\<lparr>cr_topic = ''t'', cr_partition = 0, cr_offset = 7, cr_key = [], cr_fields = None\<rparr>],
        cs_truncated = False, cs_offset = 0, cs_expires = 9\<rparr>], cu_order = [''c'']\<rparr>)
   = [\<lparr>cr_topic = ''t'', cr_partition = 0, cr_offset = 7, cr_key = [], cr_fields = None\<rparr>]"
  by (subst cursor_pages_consecutive [of _ _ "\<lparr>cs_id = ''c'', cs_topic = ''t'',
        cs_rows = [\<lparr>cr_topic = ''t'', cr_partition = 0, cr_offset = 7, cr_key = [], cr_fields = None\<rparr>],
        cs_truncated = False, cs_offset = 0, cs_expires = 9\<rparr>" 0, THEN conjunct1])
     (simp_all add: page_size_def clamp_batch_def)

section \<open>Least recently used\<close>

text \<open>Digests of other queries, each stored under an id that is not in the table.\<close>

fun put_all :: "(int \<times> string \<times> cursor_row list \<times> string) list \<Rightarrow> cursor_store \<Rightarrow> cursor_store" where
  "put_all [] s = s"
| "put_all ((now, i, rows, topic) # ps) s = put_all ps (fst (cursor_Put rows topic now i s))"

fun fresh_puts :: "(int \<times> string \<times> cursor_row list \<times> string) list \<Rightarrow> cursor_store \<Rightarrow> bool" where
  "fresh_puts [] s = True"
| "fresh_puts ((now, i, rows, topic) # ps) s =
     (cu_sessions s i = None \<and> fresh_puts ps (fst (cursor_Put rows topic now i s)))"

lemma put_all_keeps:
  assumes "cursor_wf s" "cu_order s = xs @ j # ys" "cu_sessions s j = Some e"
    and "fresh_puts ps s" "list_all (\<lambda>p. fst p < cs_expires e) ps"
    and "int (length ys + length ps) < cu_capacity s"
  shows "cu_sessions (put_all ps s) j = Some e"
  using assms
proof (induction ps arbitrary: s xs ys)
  case Nil
  then show ?case by simp
next
  case (Cons p ps)
  obtain now i rows topic where p: "p = (now, i, rows, topic)" by (cases p)
  let ?s = "cursor_insert now i (rows, topic) s"
  have i: "i \<notin> dom (cu_sessions s)" "i \<noteq> j" using Cons.prems p by auto
  have "cu_sessions ?s j = Some e \<and> (\<exists>xs' ys'. cu_order ?s = xs' @ j # ys' \<and> length ys' \<le> length ys + 1)"
    by (rule cursors.insert_keeps [OF Cons.prems(1) i Cons.prems(2,3)]) (use Cons.prems p in auto)
  then obtain xs' ys' where *: "cu_sessions ?s j = Some e" "cu_order ?s = xs' @ j # ys'"
    "length ys' \<le> length ys + 1" by blast
  have "cu_sessions (put_all ps ?s) j = Some e"
    by (rule Cons.IH [OF cursors.insert_well_formed [OF Cons.prems(1) i(1)] *(2,1)])
       (use Cons.prems p *(3) in \<open>auto simp: cursor_insert_def\<close>)
  then show ?case by (simp add: p cursor_insert_def)
qed

text \<open>
  A session that was just read is not evicted by the next \<open>capacity - 1\<close> digests, and
  keeps its rows and position, until it expires: eviction follows use, not insertion.
\<close>

theorem cursor_used_session_survives:
  assumes "cursor_reachable s" "cu_sessions s j = Some e" "now < cs_expires e"
    and "s' = fst (cursor_Next j req now s)"
    and "fresh_puts ps s'" "list_all (\<lambda>p. fst p < cs_expires e) ps"
    and "int (length ps) < cu_capacity s"
  shows "\<exists>k. cu_sessions (put_all ps s') j = Some (e\<lparr>cs_offset := k\<rparr>)"
proof -
  have wf: "cursor_wf s" using assms(1)
    by (induction rule: cursor_reachable.induct) (auto intro: cursor_call_wf)
  obtain k where k: "cu_sessions s' j = Some (e\<lparr>cs_offset := k\<rparr>)" "cu_order s' = remove1 j (cu_order s) @ [j]"
    "cu_capacity s' = cu_capacity s"
    using assms(2-4) by (simp add: cursor_Next_def Let_def cursor_touch_def)
  have "cursor_wf s'" using wf assms(4) by (simp add: cursor_Next_wf)
  then have "cu_sessions (put_all ps s') j = Some (e\<lparr>cs_offset := k\<rparr>)"
    using put_all_keeps [of s' "remove1 j (cu_order s)" j "[]" _ ps] k assms(5-7) by simp
  then show ?thesis by blast
qed

theorem cursor_used_session_survives_witness:
  "\<exists>k. cu_sessions (put_all [(1, ''b'', [], ''t'')]
     (fst (cursor_Next ''a'' \<lparr>nr_n = 1, nr_offset = 0\<rparr> 0
        (fst (cursor_Put [] ''t'' 0 ''a'' (NewCursorStore 5 2 3)))))) ''a''
   = Some (\<lparr>cs_id = ''a'', cs_topic = ''t'', cs_rows = [], cs_truncated = False, cs_offset = 0,
            cs_expires = 5\<rparr>\<lparr>cs_offset := k\<rparr>)"
proof -
  let ?s = "fst (cursor_Put [] ''t'' 0 ''a'' (NewCursorStore 5 2 3))"
  have "cursor_reachable ?s"
    by (rule reach_call [OF reach_new], rule call_put) (simp add: NewCursorStore_def)
  then show ?thesis
    by (rule cursor_used_session_survives [where now = 0, OF _ _ _ refl])
       (simp_all add: cursor_Put_def Let_def NewCursorStore_def cursor_prune_def cursor_evict_def
          cursor_Next_def cursor_touch_def)
qed

end
