(* ===== verification/GoJson.thy ===== *)
theory GoJson
  imports GoBase Complex_Main
begin

text \<open>
  Values of type \<open>any\<close> as \<open>encoding/json\<close> produces them. A number is a \<open>float64\<close>, and every
  finite \<open>float64\<close> is a rational, so \<open>JNum\<close> carries a rational. An object lists its members
  (the order of a Go map's iteration); a member is looked up by name. The reader and the
  printer of \<open>encoding/json\<close> are parameters of the definitions that call them.
\<close>

datatype json =
    JNull
  | JBool bool
  | JNum rat
  | JStr string
  | JArr "json list"
  | JObj "(string \<times> json) list"

type_synonym json_obj = "(string \<times> json) list"

text \<open>
  \<open>int(f)\<close> on a \<open>float64\<close>: truncation towards zero. Out of the range of \<open>int64\<close> the
  language leaves the result to the implementation; amd64 gives the least integer.
\<close>

definition float_to_int :: "rat \<Rightarrow> int" where
  "float_to_int q =
     (let n = (if 0 \<le> q then \<lfloor>q\<rfloor> else \<lceil>q\<rceil>) in if in_i64 n then n else - (2 ^ 63))"

lemma float_to_int_of_int [simp]: "in_i64 n \<Longrightarrow> float_to_int (of_int n) = n"
  by (simp add: float_to_int_def Let_def)

lemma float_to_int_range: "in_i64 (float_to_int q)"
  by (simp add: float_to_int_def Let_def) (simp add: in_i64_def)

text \<open>
  What \<open>encoding/json\<close> and \<open>strconv.FormatFloat(f, 'f', -1, 64)\<close> compute: reading a text
  (\<open>None\<close> is a syntax error), printing a value, printing a number.
\<close>

record json_lib =
  jl_unmarshal :: "string \<Rightarrow> json option"
  jl_marshal :: "json \<Rightarrow> string"
  jl_float :: "rat \<Rightarrow> string"

end
