(* ===== verification/McpIntent.thy ===== *)
theory McpIntent
  imports SessionTables GoJson McpCursor
begin

text \<open>
  \<open>backend/internal/mcp/intent.go\<close>: the table of UI intents and the latest UI snapshot.
  Intents wait for a report of the front end; the table keeps the last \<open>capacity\<close> of them
  until they expire. It is the second provider of the interface \<open>lru_table\<close>.
\<close>

section \<open>State\<close>

datatype intent_state = IntentPending | IntentApplied | IntentRejected | IntentOther string

record intent =
  in_id :: string
  in_action :: string
  in_params :: json_obj
  in_state :: intent_state
  in_summary :: json_obj
  in_reason :: string
  in_expires :: int

record intent_store =
  it_ttl :: int
  it_capacity :: int
  it_items :: "string \<rightharpoonup> intent"
  it_order :: "string list"
  it_snapshot :: "json_obj option"

section \<open>Operations\<close>

definition NewIntentStore :: "int \<Rightarrow> int \<Rightarrow> intent_store" where
  "NewIntentStore ttl capacity =
     \<lparr>it_ttl = (if ttl \<le> 0 then 60 * 10 ^ 9 else ttl),
      it_capacity = (if capacity \<le> 0 then 20 else capacity),
      it_items = Map.empty, it_order = [], it_snapshot = None\<rparr>"

definition intent_prune :: "int \<Rightarrow> intent_store \<Rightarrow> intent_store" where
  "intent_prune now s =
     (let (kept, m) = prune_loop in_expires now (it_order s) (it_items s)
      in s\<lparr>it_order := kept, it_items := m\<rparr>)"

definition intent_remove :: "string \<Rightarrow> intent_store \<Rightarrow> intent_store" where
  "intent_remove i s = s\<lparr>it_items := (it_items s)(i := None), it_order := remove1 i (it_order s)\<rparr>"

definition intent_evict :: "intent_store \<Rightarrow> intent_store" where
  "intent_evict s =
     (let (order, m) = evict_loop (it_capacity s) (it_order s) (it_items s)
      in s\<lparr>it_order := order, it_items := m\<rparr>)"

definition intent_Register :: "string \<Rightarrow> string \<Rightarrow> json_obj \<Rightarrow> int \<Rightarrow> intent_store \<Rightarrow> intent_store \<times> intent" where
  "intent_Register i action params now s0 =
     (let s = intent_prune now s0;
          s1 = (case it_items s i of Some _ \<Rightarrow> intent_remove i s | None \<Rightarrow> s);
          e = \<lparr>in_id = i, in_action = action, in_params = params, in_state = IntentPending,
               in_summary = [], in_reason = [], in_expires = now + it_ttl s1\<rparr>
      in (intent_evict (s1\<lparr>it_items := (it_items s1)(i \<mapsto> e), it_order := it_order s1 @ [i]\<rparr>), e))"

definition intent_Report :: "string \<Rightarrow> intent_state \<Rightarrow> json_obj \<Rightarrow> string \<Rightarrow> int \<Rightarrow> intent_store \<Rightarrow> intent_store \<times> bool" where
  "intent_Report i st summary reason now s =
     (case it_items s i of
        None \<Rightarrow> (s, False)
      | Some e \<Rightarrow>
          if \<not> now < in_expires e then (intent_remove i s, False)
          else if st \<noteq> IntentApplied \<and> st \<noteq> IntentRejected then (s, False)
          else (s\<lparr>it_items := (it_items s)(i \<mapsto> e\<lparr>in_state := st, in_summary := summary, in_reason := reason\<rparr>)\<rparr>, True))"

definition intent_Get :: "string \<Rightarrow> int \<Rightarrow> intent_store \<Rightarrow> intent_store \<times> intent option \<times> lookup_status" where
  "intent_Get i now s =
     (case it_items s i of
        None \<Rightarrow> (s, None, LookupUnknown)
      | Some e \<Rightarrow> if \<not> now < in_expires e then (intent_remove i s, None, LookupExpired)
                  else (s, Some e, LookupFound))"

definition intent_SetSnapshot :: "json_obj option \<Rightarrow> intent_store \<Rightarrow> intent_store" where
  "intent_SetSnapshot snapshot s = s\<lparr>it_snapshot := snapshot\<rparr>"

definition intent_Snapshot :: "intent_store \<Rightarrow> json_obj option" where
  "intent_Snapshot s = it_snapshot s"

section \<open>The interface\<close>

definition intent_wf :: "intent_store \<Rightarrow> bool" where
  "intent_wf s \<longleftrightarrow> 0 < it_capacity s \<and> distinct (it_order s)
     \<and> set (it_order s) = dom (it_items s) \<and> int (length (it_order s)) \<le> it_capacity s"

definition intent_insert :: "int \<Rightarrow> string \<Rightarrow> string \<times> json_obj \<Rightarrow> intent_store \<Rightarrow> intent_store" where
  "intent_insert now i a s = fst (intent_Register i (fst a) (snd a) now s)"

lemma intent_fields [simp]:
  "it_capacity (intent_prune now s) = it_capacity s" "it_ttl (intent_prune now s) = it_ttl s"
  "it_capacity (intent_evict s) = it_capacity s" "it_capacity (intent_remove i s) = it_capacity s"
  "it_capacity (fst (intent_Register i act ps now s)) = it_capacity s"
  by (simp_all add: intent_prune_def intent_evict_def intent_remove_def intent_Register_def
      case_prod_beta Let_def split: option.splits)

lemma intent_evict_order:
  "0 < it_capacity s \<Longrightarrow> it_order (intent_evict s) = take_last (nat (it_capacity s)) (it_order s)"
  by (simp add: intent_evict_def case_prod_beta evict_loop_order)

lemma intent_evict_entry:
  "0 < it_capacity s \<Longrightarrow> distinct (it_order s) \<Longrightarrow> it_items (intent_evict s) j
     = (if j \<in> set (it_order s) \<and> j \<notin> set (it_order (intent_evict s)) then None else it_items s j)"
  by (simp add: intent_evict_order)
     (simp add: intent_evict_def case_prod_beta evict_loop_entry)

text \<open>The table after pruning and after dropping an older intent of the same id.\<close>

definition intent_cleared :: "string \<Rightarrow> int \<Rightarrow> intent_store \<Rightarrow> intent_store" where
  "intent_cleared i now s =
     (let s = intent_prune now s in case it_items s i of Some _ \<Rightarrow> intent_remove i s | None \<Rightarrow> s)"

lemma intent_cleared_props:
  assumes "intent_wf s"
  shows "it_order (intent_cleared i now s)
      = filter (\<lambda>j. j \<noteq> i \<and> live_in in_expires now (it_items s) j) (it_order s)"
    and "it_items (intent_cleared i now s) j
      = (if j \<noteq> i \<and> live_in in_expires now (it_items s) j then it_items s j else None)"
    and "it_capacity (intent_cleared i now s) = it_capacity s"
proof -
  have d: "distinct (it_order s)" "set (it_order s) = dom (it_items s)"
    using assms by (simp_all add: intent_wf_def)
  have po: "it_order (intent_prune now s) = filter (live_in in_expires now (it_items s)) (it_order s)"
    using d by (simp add: intent_prune_def case_prod_beta prune_loop_order)
  have pe: "it_items (intent_prune now s) k
      = (if live_in in_expires now (it_items s) k then it_items s k else None)" for k
    using d by (auto simp: intent_prune_def case_prod_beta prune_loop_entry live_in_def split: option.splits)
  have rm: "remove1 i (filter P (it_order s)) = filter (\<lambda>j. j \<noteq> i \<and> P j) (it_order s)" for P
    using d(1) by (simp add: distinct_remove1_removeAll removeAll_filter_not_eq)
       (rule filter_cong, auto)
  have "\<not> live_in in_expires now (it_items s) i \<Longrightarrow>
      filter (live_in in_expires now (it_items s)) (it_order s)
      = filter (\<lambda>j. j \<noteq> i \<and> live_in in_expires now (it_items s) j) (it_order s)"
    by (intro filter_cong) auto
  then show "it_order (intent_cleared i now s)
      = filter (\<lambda>j. j \<noteq> i \<and> live_in in_expires now (it_items s) j) (it_order s)"
    by (auto simp: intent_cleared_def Let_def po pe intent_remove_def rm live_in_def split: option.splits)
  show "it_items (intent_cleared i now s) j
      = (if j \<noteq> i \<and> live_in in_expires now (it_items s) j then it_items s j else None)"
    by (auto simp: intent_cleared_def Let_def pe intent_remove_def split: option.splits)
  show "it_capacity (intent_cleared i now s) = it_capacity s"
    by (simp add: intent_cleared_def Let_def split: option.splits)
qed

lemma intent_insert_cleared:
  "\<exists>e. intent_insert now i a s = intent_evict ((intent_cleared i now s)
     \<lparr>it_items := (it_items (intent_cleared i now s))(i \<mapsto> e), it_order := it_order (intent_cleared i now s) @ [i]\<rparr>)"
  unfolding intent_insert_def intent_Register_def intent_cleared_def Let_def fst_conv by blast

interpretation intents: lru_table it_order it_items it_capacity in_expires intent_wf
  "\<lambda>s i. True" intent_insert
proof
  fix s :: intent_store and now :: int and i j :: string and a :: "string \<times> json_obj"
  show "intent_wf s \<longleftrightarrow> 0 < it_capacity s \<and> distinct (it_order s)
     \<and> set (it_order s) = dom (it_items s) \<and> int (length (it_order s)) \<le> it_capacity s"
    by (rule intent_wf_def)
  show "it_capacity (intent_insert now i a s) = it_capacity s" by (simp add: intent_insert_def)
  assume wf: "intent_wf s"
  let ?c = "intent_cleared i now s"
  obtain e where e: "intent_insert now i a s
      = intent_evict (?c\<lparr>it_items := (it_items ?c)(i \<mapsto> e), it_order := it_order ?c @ [i]\<rparr>)"
    using intent_insert_cleared by blast
  have c: "0 < it_capacity ?c" "distinct (it_order ?c @ [i])"
    using wf by (auto simp: intent_cleared_props intent_wf_def)
  show o: "it_order (intent_insert now i a s) = take_last (nat (it_capacity s))
      (filter (\<lambda>j. j \<noteq> i \<and> live_in in_expires now (it_items s) j) (it_order s) @ [i])"
    unfolding e using c wf by (simp add: intent_evict_order intent_cleared_props)
  have entry: "it_items (intent_insert now i a s) k
      = (if k \<in> set (it_order (intent_insert now i a s)) then ((it_items ?c)(i \<mapsto> e)) k else None)" for k
  proof -
    have "k \<in> set (it_order ?c) \<or> it_items ?c k = None"
      using wf by (auto simp: intent_cleared_props intent_wf_def live_in_def split: option.splits)
    moreover have "set (it_order (intent_insert now i a s)) \<subseteq> insert i (set (it_order ?c))"
      using set_take_last [of "nat (it_capacity s)" "it_order ?c @ [i]"] wf
      by (simp add: o intent_cleared_props)
    ultimately show ?thesis
      unfolding e by (subst intent_evict_entry) (use c in auto)
  qed
  show "it_items (intent_insert now i a s) i \<noteq> None"
  proof -
    have "0 < nat (it_capacity s)" using wf by (simp add: intent_wf_def)
    then show ?thesis by (simp add: entry o take_last_append_last)
  qed
  assume "j \<noteq> i"
  moreover have "j \<in> set (it_order (intent_insert now i a s)) \<Longrightarrow> j \<noteq> i \<Longrightarrow>
      live_in in_expires now (it_items s) j"
    using set_take_last [of "nat (it_capacity s)"] by (fastforce simp: o)
  ultimately show "it_items (intent_insert now i a s) j
      = (if j \<in> set (it_order (intent_insert now i a s)) then it_items s j else None)"
    using wf by (simp add: entry intent_cleared_props)
qed

lemma intent_Register_entry:
  assumes "intent_wf s" "it_items (fst (intent_Register i act ps now s)) i = Some e"
  shows "in_expires e = now + it_ttl s \<and> in_state e = IntentPending \<and> in_action e = act \<and> in_id e = i"
proof -
  let ?c = "intent_cleared i now s"
  let ?e = "\<lparr>in_id = i, in_action = act, in_params = ps, in_state = IntentPending,
             in_summary = [], in_reason = [], in_expires = now + it_ttl ?c\<rparr>"
  let ?s = "?c\<lparr>it_items := (it_items ?c)(i \<mapsto> ?e), it_order := it_order ?c @ [i]\<rparr>"
  have r: "fst (intent_Register i act ps now s) = intent_evict ?s"
    unfolding intent_Register_def intent_cleared_def Let_def fst_conv ..
  have "0 < it_capacity ?s" "distinct (it_order ?s)"
    using assms(1) by (auto simp: intent_cleared_props intent_wf_def)
  from intent_evict_entry [OF this, of i] assms(2) have "e = ?e"
    unfolding r by (simp split: if_splits)
  moreover have "it_ttl ?c = it_ttl s"
    by (simp add: intent_cleared_def Let_def intent_remove_def split: option.splits)
  ultimately show ?thesis by simp
qed

section \<open>Reachable tables\<close>

inductive intent_call :: "intent_store \<Rightarrow> intent_store \<Rightarrow> bool" where
  call_register: "intent_call s (fst (intent_Register i act ps now s))"
| call_report: "intent_call s (fst (intent_Report i st sm rs now s))"
| call_get: "intent_call s (fst (intent_Get i now s))"
| call_snapshot: "intent_call s (intent_SetSnapshot sn s)"

inductive intent_reachable :: "intent_store \<Rightarrow> bool" where
  intent_new: "intent_reachable (NewIntentStore ttl capacity)"
| intent_step: "intent_reachable s \<Longrightarrow> intent_call s t \<Longrightarrow> intent_reachable t"

lemma intent_remove_wf: "intent_wf s \<Longrightarrow> intent_wf (intent_remove i s)"
  using length_remove1 [of i "it_order s"]
  by (auto simp: intent_wf_def intent_remove_def set_remove1_eq distinct_remove1)

lemma intent_call_wf: "intent_call s t \<Longrightarrow> intent_wf s \<Longrightarrow> intent_wf t"
proof (induction rule: intent_call.induct)
  case (call_register s i act ps now)
  have "intent_wf (intent_insert now i (act, ps) s)"
    using call_register by (rule intents.insert_well_formed) simp
  then show ?case by (simp add: intent_insert_def)
next
  case (call_report s i st sm rs now)
  then show ?case
    by (auto simp: intent_Report_def intent_remove_wf split: option.splits) (auto simp: intent_wf_def)
next
  case (call_get s i now)
  then show ?case by (auto simp: intent_Get_def intent_remove_wf split: option.splits)
next
  case (call_snapshot s sn)
  then show ?case by (simp add: intent_SetSnapshot_def intent_wf_def)
qed

lemma intent_new_wf: "intent_wf (NewIntentStore ttl capacity)"
  by (simp add: intent_wf_def NewIntentStore_def)

lemma intent_reachable_wf: "intent_reachable s \<Longrightarrow> intent_wf s"
  by (induction rule: intent_reachable.induct) (blast intro: intent_call_wf intent_new_wf)+

text \<open>
  In every reachable intent table, registering an intent makes it readable as pending,
  the table holds at most \<open>capacity\<close> intents, and registering another one while the first has
  not expired does not lose it (for a capacity above 1).
\<close>

theorem intent_registered_readable:
  assumes "intent_reachable s" "1 < it_capacity s" "i \<noteq> j"
    and "s' = fst (intent_Register j act ps t s)" "t \<le> now" "now < t + it_ttl s"
    and "s'' = fst (intent_Register i act' ps' now s')"
  shows "int (card (dom (it_items s''))) \<le> it_capacity s
    \<and> (\<exists>e. snd (intent_Get j now s'') = (Some e, LookupFound) \<and> in_state e = IntentPending \<and> in_action e = act)"
proof -
  have wf: "intent_wf s" using assms(1) by (rule intent_reachable_wf)
  have s': "s' = intent_insert t j (act, ps) s" and s'': "s'' = intent_insert now i (act', ps') s'"
    using assms(4,7) by (simp_all add: intent_insert_def)
  have wf': "intent_wf s'" unfolding s' by (rule intents.insert_well_formed [OF wf TrueI])
  have wf'': "intent_wf s''" unfolding s'' by (rule intents.insert_well_formed [OF wf' TrueI])
  have cap: "it_capacity s' = it_capacity s" "it_capacity s'' = it_capacity s"
    unfolding s'' s' by (simp_all only: intents.insert_capacity)
  obtain xs where xs: "it_order s' = xs @ j # []"
    using intents.insert_last [OF wf TrueI, of t j "(act, ps)"] s' by auto
  obtain e where e: "it_items s' j = Some e"
    using intents.insert_self [OF wf TrueI, of t j "(act, ps)"] s' by auto
  have x: "in_expires e = t + it_ttl s" "in_state e = IntentPending" "in_action e = act"
    using intent_Register_entry [OF wf] e assms(4) by auto
  have "it_items s'' j = Some e"
    unfolding s'' using intents.insert_keeps [OF wf' TrueI assms(3) xs e, of now "(act', ps')"] x assms(2,6) cap
    by simp
  then show ?thesis
    using intents.capacity_bound [OF wf''] cap x assms(6) by (simp add: intent_Get_def)
qed

theorem intent_registered_readable_witness:
  "\<exists>e. snd (intent_Get ''a'' 1 (fst (intent_Register ''b'' ''open'' [] 1
     (fst (intent_Register ''a'' ''goto'' [] 0 (NewIntentStore 5 2)))))) = (Some e, LookupFound)
   \<and> in_state e = IntentPending \<and> in_action e = ''goto''"
  using intent_registered_readable [OF intent_new [of 5 2] _ _ refl _ _ refl,
      where i = "''b''" and j = "''a''" and t = 0 and now = 1
        and act = "''goto''" and ps = "[]" and act' = "''open''" and ps' = "[]"]
  by (simp add: NewIntentStore_def)

text \<open>
  A report succeeds exactly for a known, unexpired intent and one of the two final
  states; it then is what every later read returns, and it leaves all other intents alone.
\<close>

theorem intent_report_read_back:
  assumes "r = intent_Report i st summary reason now s"
  shows "(snd r \<longleftrightarrow> (\<exists>e. it_items s i = Some e \<and> now < in_expires e) \<and> st \<in> {IntentApplied, IntentRejected})
    \<and> (\<forall>e now'. snd r \<and> it_items s i = Some e \<and> now' < in_expires e \<longrightarrow>
         snd (intent_Get i now' (fst r))
           = (Some (e\<lparr>in_state := st, in_summary := summary, in_reason := reason\<rparr>), LookupFound))
    \<and> (\<forall>j. j \<noteq> i \<longrightarrow> it_items (fst r) j = it_items s j)"
  using assms
  by (auto simp: intent_Report_def intent_Get_def intent_remove_def split: option.splits if_splits)

theorem intent_report_read_back_witness:
  "snd (intent_Report ''a'' IntentApplied [] ''done'' 1 (fst (intent_Register ''a'' ''goto'' [] 0 (NewIntentStore 5 2))))"
proof -
  have "\<exists>e. it_items (fst (intent_Register ''a'' ''goto'' [] 0 (NewIntentStore 5 2))) ''a'' = Some e \<and> 1 < in_expires e"
    by (simp add: intent_Register_def Let_def NewIntentStore_def intent_prune_def intent_evict_def)
  then show ?thesis by (subst intent_report_read_back [OF refl, THEN conjunct1]) simp
qed

end
