(* ===== verification/McpConfirm.thy ===== *)
theory McpConfirm
  imports GoBase
begin

text \<open>
  \<open>backend/internal/mcp/confirm.go\<close>: the one-time tokens of the two-phase writes. The clock
  and the random token are arguments; \<open>HashParams\<close> is SHA-256 of the canonical request and
  enters as a parameter, as the hash strings the callers pass.
\<close>

section \<open>State and operations\<close>

datatype confirm_result = ConfirmOK | ConfirmUnknown | ConfirmExpired | ConfirmHashMismatch

record confirm_entry =
  ce_hash :: string
  ce_expires :: int

record confirm_store =
  co_ttl :: int
  co_items :: "string \<rightharpoonup> confirm_entry"

definition ConfirmTTL :: int where
  "ConfirmTTL = 60 * 10 ^ 9"

definition NewConfirmStore :: confirm_store where
  "NewConfirmStore = \<lparr>co_ttl = ConfirmTTL, co_items = Map.empty\<rparr>"

definition confirm_SetTTL :: "int \<Rightarrow> confirm_store \<Rightarrow> confirm_store" where
  "confirm_SetTTL ttl s = (if ttl \<le> 0 then s else s\<lparr>co_ttl := ttl\<rparr>)"

text \<open>\<open>pruneLocked\<close>: every expired token is deleted.\<close>

definition confirm_prune :: "int \<Rightarrow> confirm_store \<Rightarrow> confirm_store" where
  "confirm_prune now s = s\<lparr>co_items := (\<lambda>token. case co_items s token of
      None \<Rightarrow> None | Some e \<Rightarrow> if \<not> now < ce_expires e then None else Some e)\<rparr>"

definition confirm_Issue :: "string \<Rightarrow> int \<Rightarrow> string \<Rightarrow> confirm_store \<Rightarrow> confirm_store \<times> string \<times> int" where
  "confirm_Issue paramHash now token s0 =
     (let s = confirm_prune now s0; expiresAt = now + co_ttl s
      in (s\<lparr>co_items := (co_items s)(token \<mapsto> \<lparr>ce_hash = paramHash, ce_expires = expiresAt\<rparr>)\<rparr>, token, expiresAt))"

definition confirm_Consume :: "string \<Rightarrow> string \<Rightarrow> int \<Rightarrow> confirm_store \<Rightarrow> confirm_store \<times> confirm_result" where
  "confirm_Consume token paramHash now s =
     (case co_items s token of
        None \<Rightarrow> (s, ConfirmUnknown)
      | Some e \<Rightarrow>
          (s\<lparr>co_items := (co_items s)(token := None)\<rparr>,
           if \<not> now < ce_expires e then ConfirmExpired
           else if ce_hash e \<noteq> paramHash then ConfirmHashMismatch
           else ConfirmOK))"

lemma confirm_prune_ttl [simp]: "co_ttl (confirm_prune now s) = co_ttl s"
  by (simp add: confirm_prune_def)

section \<open>Histories\<close>

datatype confirm_event =
    Issued string string int      \<comment> \<open>token, hash of the previewed request, time\<close>
  | Consumed string string int    \<comment> \<open>token, hash of the request to execute, time\<close>
  | TtlSet int

fun confirm_step :: "confirm_store \<Rightarrow> confirm_event \<Rightarrow> confirm_store" where
  "confirm_step s (Issued token h now) = fst (confirm_Issue h now token s)"
| "confirm_step s (Consumed token h now) = fst (confirm_Consume token h now s)"
| "confirm_step s (TtlSet ttl) = confirm_SetTTL ttl s"

abbreviation confirm_run :: "confirm_event list \<Rightarrow> confirm_store" where
  "confirm_run \<equiv> foldl confirm_step NewConfirmStore"

fun touches :: "string \<Rightarrow> confirm_event \<Rightarrow> bool" where
  "touches token (Issued t h now) = (t = token)"
| "touches token (Consumed t h now) = (t = token)"
| "touches token (TtlSet ttl) = False"

lemma confirm_step_untouched:
  "\<not> touches token ev \<Longrightarrow> co_items (confirm_step s ev) token = Some e \<Longrightarrow> co_items s token = Some e"
  by (cases ev) (auto simp: confirm_Issue_def confirm_Consume_def confirm_SetTTL_def confirm_prune_def Let_def
      split: option.splits if_splits)

lemma confirm_entry_issued:
  assumes "co_items (confirm_run evs) token = Some e"
  shows "\<exists>pre h t post. evs = pre @ Issued token h t # post \<and> ce_hash e = h
    \<and> ce_expires e = t + co_ttl (confirm_run pre) \<and> list_all (\<lambda>ev. \<not> touches token ev) post"
  using assms
proof (induction evs rule: rev_induct)
  case Nil
  then show ?case by (simp add: NewConfirmStore_def)
next
  case (snoc ev evs)
  show ?case
  proof (cases "touches token ev")
    case False
    have "co_items (confirm_step (confirm_run evs) ev) token = Some e"
      using snoc.prems by simp
    with False have "co_items (confirm_run evs) token = Some e"
      by (rule confirm_step_untouched)
    from snoc.IH [OF this] obtain pre h t post where "evs = pre @ Issued token h t # post" "ce_hash e = h"
      "ce_expires e = t + co_ttl (confirm_run pre)" "list_all (\<lambda>ev. \<not> touches token ev) post"
      by blast
    with False show ?thesis by (intro exI [of _ pre] exI [of _ h] exI [of _ t] exI [of _ "post @ [ev]"]) simp
  next
    case True
    then consider (iss) h t where "ev = Issued token h t" | (con) h t where "ev = Consumed token h t"
      by (cases ev) auto
    then show ?thesis
    proof cases
      case iss
      then have "ce_hash e = h" "ce_expires e = t + co_ttl (confirm_run evs)"
        using snoc.prems by (auto simp: confirm_Issue_def Let_def)
      with iss show ?thesis by (intro exI [of _ evs] exI [of _ h] exI [of _ t] exI [of _ "[]"]) simp
    next
      case con
      then show ?thesis using snoc.prems by (simp add: confirm_Consume_def split: option.splits)
    qed
  qed
qed

text \<open>
  C31. A confirmed write was previewed: if consuming a token succeeds after any history of
  the token table, the history contains an issue of this very token for a request with the
  same hash, nothing has consumed or reissued the token since, and the call comes before
  the time to live that was in force at the issue has passed.
\<close>

theorem confirm_ok_was_previewed:
  assumes "snd (confirm_Consume token h now (confirm_run evs)) = ConfirmOK"
  shows "\<exists>pre t post. evs = pre @ Issued token h t # post
    \<and> list_all (\<lambda>ev. \<not> touches token ev) post \<and> now < t + co_ttl (confirm_run pre)"
proof -
  from assms obtain e where "co_items (confirm_run evs) token = Some e" "now < ce_expires e" "ce_hash e = h"
    by (auto simp: confirm_Consume_def split: option.splits if_splits)
  then show ?thesis using confirm_entry_issued [of evs token e] by metis
qed

theorem confirm_ok_was_previewed_witness:
  "\<exists>pre t post. [TtlSet 10, Issued ''c-1'' ''h'' 3] = pre @ Issued ''c-1'' ''h'' t # post
    \<and> list_all (\<lambda>ev. \<not> touches ''c-1'' ev) post \<and> (12::int) < t + co_ttl (confirm_run pre)"
  by (rule confirm_ok_was_previewed)
     (simp add: confirm_Consume_def confirm_Issue_def confirm_SetTTL_def Let_def)

text \<open>
  Whatever the first attempt gives, a token is spent by it: the second attempt finds it
  unknown, also with the right hash; and an issued token is accepted once before it expires.
\<close>

theorem confirm_token_single_use:
  "snd (confirm_Consume token h' now' (fst (confirm_Consume token h now s))) = ConfirmUnknown
   \<and> (snd (confirm_Consume token h now' (fst (confirm_Issue h now token s))) = ConfirmOK
        \<longleftrightarrow> now' < now + co_ttl s)"
  by (auto simp: confirm_Consume_def confirm_Issue_def confirm_prune_def Let_def split: option.splits)

text \<open>Issuing leaves no expired token behind, so abandoned previews do not accumulate.\<close>

lemma confirm_Issue_prunes:
  "0 < co_ttl s \<Longrightarrow> co_items (fst (confirm_Issue h now token s)) t = Some e \<Longrightarrow> now < ce_expires e"
  by (auto simp: confirm_Issue_def confirm_prune_def Let_def split: option.splits if_splits)

end
