(* ===== verification/McpSettings.thy ===== *)
theory McpSettings
  imports GoJson
begin

text \<open>
  \<open>backend/internal/mcp/settings.go\<close>: the tunable parameters of the MCP tools, their white
  list with bounds, the partial update, and the settings file. The file is what
  \<open>store.LoadJSON\<close> gives: an error, no file, or a \<open>Settings\<close> value in which a missing
  field is 0.
\<close>

section \<open>State\<close>

record settings =
  ReportWaitMs :: int
  CellWidth :: int
  DigestGroupLimit :: int
  DigestTopN :: int
  DigestSampleRows :: int
  DigestRowLimit :: int
  DigestScanLimit :: int
  CursorTtlSecs :: int
  MaxCursorSessions :: int
  ConfirmTtlSecs :: int
  ResponseLimitBytes :: int

record settings_field =
  sf_name :: string
  sf_ceiling :: int
  sf_min :: int

definition defaultResponseLimitBytes :: int where
  "defaultResponseLimitBytes = 16 * 1024"

definition DefaultSettings :: settings where
  "DefaultSettings =
     \<lparr>ReportWaitMs = 5000, CellWidth = 120, DigestGroupLimit = 20, DigestTopN = 10,
      DigestSampleRows = 5, DigestRowLimit = 20, DigestScanLimit = 1000, CursorTtlSecs = 600,
      MaxCursorSessions = 8, ConfirmTtlSecs = 60, ResponseLimitBytes = defaultResponseLimitBytes\<rparr>"

definition settingsFields :: "settings_field list" where
  "settingsFields =
     [\<lparr>sf_name = ''reportWaitMs'', sf_ceiling = 30000, sf_min = 1\<rparr>,
      \<lparr>sf_name = ''cellWidth'', sf_ceiling = 2000, sf_min = 1\<rparr>,
      \<lparr>sf_name = ''digestGroupLimit'', sf_ceiling = 20, sf_min = 1\<rparr>,
      \<lparr>sf_name = ''digestTopN'', sf_ceiling = 10, sf_min = 1\<rparr>,
      \<lparr>sf_name = ''digestSampleRows'', sf_ceiling = 5, sf_min = 1\<rparr>,
      \<lparr>sf_name = ''digestRowLimit'', sf_ceiling = 20, sf_min = 1\<rparr>,
      \<lparr>sf_name = ''digestScanLimit'', sf_ceiling = 100000, sf_min = 1\<rparr>,
      \<lparr>sf_name = ''cursorTtlSecs'', sf_ceiling = 3600, sf_min = 10\<rparr>,
      \<lparr>sf_name = ''maxCursorSessions'', sf_ceiling = 32, sf_min = 1\<rparr>,
      \<lparr>sf_name = ''confirmTtlSecs'', sf_ceiling = 600, sf_min = 10\<rparr>,
      \<lparr>sf_name = ''responseLimitBytes'', sf_ceiling = 1024 * 1024, sf_min = 1\<rparr>]"

section \<open>Operations\<close>

definition clamp_setting :: "int \<Rightarrow> int \<Rightarrow> int" where
  "clamp_setting v maxv = (if v < 1 then 1 else if v > maxv then maxv else v)"

definition Sanitized :: "settings \<Rightarrow> settings" where
  "Sanitized s =
     \<lparr>ReportWaitMs = clamp_setting (ReportWaitMs s) 30000,
      CellWidth = clamp_setting (CellWidth s) 2000,
      DigestGroupLimit = clamp_setting (DigestGroupLimit s) 20,
      DigestTopN = clamp_setting (DigestTopN s) 10,
      DigestSampleRows = clamp_setting (DigestSampleRows s) 5,
      DigestRowLimit = clamp_setting (DigestRowLimit s) 20,
      DigestScanLimit = clamp_setting (DigestScanLimit s) 100000,
      CursorTtlSecs = (let v = clamp_setting (CursorTtlSecs s) 3600 in if v < 10 then 10 else v),
      MaxCursorSessions = clamp_setting (MaxCursorSessions s) 32,
      ConfirmTtlSecs = (let v = clamp_setting (ConfirmTtlSecs s) 600 in if v < 10 then 10 else v),
      ResponseLimitBytes = clamp_setting (ResponseLimitBytes s) (1024 * 1024)\<rparr>"

definition if_pos :: "int \<Rightarrow> int \<Rightarrow> int" where
  "if_pos persisted current = (if persisted > 0 then persisted else current)"

text \<open>\<open>None\<close> is a nil store; nine of the eleven fields are taken over from the file.\<close>

definition LoadSettings :: "(settings option) res option \<Rightarrow> settings" where
  "LoadSettings st =
     (case st of
        None \<Rightarrow> DefaultSettings
      | Some (Inl err) \<Rightarrow> DefaultSettings
      | Some (Inr None) \<Rightarrow> DefaultSettings
      | Some (Inr (Some p)) \<Rightarrow>
          (let d = DefaultSettings
           in Sanitized (d\<lparr>ReportWaitMs := if_pos (ReportWaitMs p) (ReportWaitMs d),
                CellWidth := if_pos (CellWidth p) (CellWidth d),
                DigestGroupLimit := if_pos (DigestGroupLimit p) (DigestGroupLimit d),
                DigestTopN := if_pos (DigestTopN p) (DigestTopN d),
                DigestSampleRows := if_pos (DigestSampleRows p) (DigestSampleRows d),
                DigestRowLimit := if_pos (DigestRowLimit p) (DigestRowLimit d),
                DigestScanLimit := if_pos (DigestScanLimit p) (DigestScanLimit d),
                ResponseLimitBytes := if_pos (ResponseLimitBytes p) (ResponseLimitBytes d),
                ConfirmTtlSecs := if_pos (ConfirmTtlSecs p) (ConfirmTtlSecs d)\<rparr>)))"

text \<open>The value \<open>SaveSettings\<close> hands to \<open>SaveJSON\<close> (\<open>None\<close>: nothing is written).\<close>

definition SaveSettings :: "bool \<Rightarrow> settings \<Rightarrow> settings option" where
  "SaveSettings have_store s = (if have_store then Some (Sanitized s) else None)"

definition set_setting :: "string \<Rightarrow> int \<Rightarrow> settings \<Rightarrow> settings" where
  "set_setting name v s =
     (if name = ''reportWaitMs'' then s\<lparr>ReportWaitMs := v\<rparr>
      else if name = ''cellWidth'' then s\<lparr>CellWidth := v\<rparr>
      else if name = ''digestGroupLimit'' then s\<lparr>DigestGroupLimit := v\<rparr>
      else if name = ''digestTopN'' then s\<lparr>DigestTopN := v\<rparr>
      else if name = ''digestSampleRows'' then s\<lparr>DigestSampleRows := v\<rparr>
      else if name = ''digestRowLimit'' then s\<lparr>DigestRowLimit := v\<rparr>
      else if name = ''digestScanLimit'' then s\<lparr>DigestScanLimit := v\<rparr>
      else if name = ''cursorTtlSecs'' then s\<lparr>CursorTtlSecs := v\<rparr>
      else if name = ''maxCursorSessions'' then s\<lparr>MaxCursorSessions := v\<rparr>
      else if name = ''confirmTtlSecs'' then s\<lparr>ConfirmTtlSecs := v\<rparr>
      else if name = ''responseLimitBytes'' then s\<lparr>ResponseLimitBytes := v\<rparr>
      else s)"

text \<open>
  The loop of \<open>applySettingsUpdate\<close> over the white list. The code returns the settings it
  has built so far together with the error.
\<close>

fun apply_fields :: "settings_field list \<Rightarrow> json_obj \<Rightarrow> settings \<Rightarrow> settings \<times> goerr option" where
  "apply_fields [] updates s = (Sanitized s, None)"
| "apply_fields (f # fs) updates s =
     (case map_of updates (sf_name f) of
        None \<Rightarrow> apply_fields fs updates s
      | Some (JNum q) \<Rightarrow>
          (let v = float_to_int q
           in if v < sf_min f \<or> v > sf_ceiling f
              then (s, Some (Errf ''%s must be between %d and %d''
                      [sf_name f, format_int (sf_min f), format_int (sf_ceiling f)]))
              else apply_fields fs updates (set_setting (sf_name f) v s))
      | Some _ \<Rightarrow> (s, Some (Errf ''%s must be a positive integer'' [sf_name f])))"

definition applySettingsUpdate :: "settings \<Rightarrow> json_obj \<Rightarrow> settings \<times> goerr option" where
  "applySettingsUpdate s updates = apply_fields settingsFields updates s"

section \<open>Bounds\<close>

definition get_setting :: "string \<Rightarrow> settings \<Rightarrow> int" where
  "get_setting name s =
     (if name = ''reportWaitMs'' then ReportWaitMs s
      else if name = ''cellWidth'' then CellWidth s
      else if name = ''digestGroupLimit'' then DigestGroupLimit s
      else if name = ''digestTopN'' then DigestTopN s
      else if name = ''digestSampleRows'' then DigestSampleRows s
      else if name = ''digestRowLimit'' then DigestRowLimit s
      else if name = ''digestScanLimit'' then DigestScanLimit s
      else if name = ''cursorTtlSecs'' then CursorTtlSecs s
      else if name = ''maxCursorSessions'' then MaxCursorSessions s
      else if name = ''confirmTtlSecs'' then ConfirmTtlSecs s
      else if name = ''responseLimitBytes'' then ResponseLimitBytes s
      else 0)"

definition settings_ok :: "settings \<Rightarrow> bool" where
  "settings_ok s \<longleftrightarrow> list_all (\<lambda>f. sf_min f \<le> get_setting (sf_name f) s \<and> get_setting (sf_name f) s \<le> sf_ceiling f) settingsFields"

lemma settings_ok_iff:
  "settings_ok s \<longleftrightarrow>
     1 \<le> ReportWaitMs s \<and> ReportWaitMs s \<le> 30000 \<and> 1 \<le> CellWidth s \<and> CellWidth s \<le> 2000
     \<and> 1 \<le> DigestGroupLimit s \<and> DigestGroupLimit s \<le> 20 \<and> 1 \<le> DigestTopN s \<and> DigestTopN s \<le> 10
     \<and> 1 \<le> DigestSampleRows s \<and> DigestSampleRows s \<le> 5 \<and> 1 \<le> DigestRowLimit s \<and> DigestRowLimit s \<le> 20
     \<and> 1 \<le> DigestScanLimit s \<and> DigestScanLimit s \<le> 100000 \<and> 10 \<le> CursorTtlSecs s \<and> CursorTtlSecs s \<le> 3600
     \<and> 1 \<le> MaxCursorSessions s \<and> MaxCursorSessions s \<le> 32 \<and> 10 \<le> ConfirmTtlSecs s \<and> ConfirmTtlSecs s \<le> 600
     \<and> 1 \<le> ResponseLimitBytes s \<and> ResponseLimitBytes s \<le> 1048576"
  by (simp add: settings_ok_def settingsFields_def get_setting_def conj_assoc)

lemma clamp_setting_range: "1 \<le> c \<Longrightarrow> 1 \<le> clamp_setting v c \<and> clamp_setting v c \<le> c"
  by (simp add: clamp_setting_def)

lemma clamp_setting_id: "1 \<le> v \<Longrightarrow> v \<le> c \<Longrightarrow> clamp_setting v c = v"
  by (simp add: clamp_setting_def)

lemma Sanitized_ok: "settings_ok (Sanitized s)"
  by (simp add: settings_ok_iff Sanitized_def Let_def clamp_setting_range)

lemma Sanitized_id: "settings_ok s \<Longrightarrow> Sanitized s = s"
  by (simp add: settings_ok_iff Sanitized_def Let_def clamp_setting_id)

lemma DefaultSettings_ok: "settings_ok DefaultSettings"
  by (simp add: settings_ok_iff DefaultSettings_def defaultResponseLimitBytes_def)

lemma known_fields: "distinct (map sf_name settingsFields)"
  by (simp add: settingsFields_def)

lemma get_set_setting:
  "f \<in> set settingsFields \<Longrightarrow> get_setting name (set_setting (sf_name f) v s)
     = (if name = sf_name f then v else get_setting name s)"
  unfolding settingsFields_def list.set insert_iff empty_iff
  by (elim disjE FalseE; hypsubst; simp only: settings_field.simps; simp add: set_setting_def get_setting_def)

text \<open>What an accepted update makes of a field's value.\<close>

definition updated_value :: "json_obj \<Rightarrow> string \<Rightarrow> int \<Rightarrow> int" where
  "updated_value updates name old =
     (case map_of updates name of Some (JNum q) \<Rightarrow> float_to_int q | _ \<Rightarrow> old)"

definition acceptable :: "json_obj \<Rightarrow> settings_field \<Rightarrow> bool" where
  "acceptable updates f =
     (case map_of updates (sf_name f) of
        None \<Rightarrow> True
      | Some (JNum q) \<Rightarrow> sf_min f \<le> float_to_int q \<and> float_to_int q \<le> sf_ceiling f
      | Some _ \<Rightarrow> False)"

lemma apply_fields_Cons:
  assumes "apply_fields (f # fs) updates s = (s', None)" "f \<in> set settingsFields"
  shows "acceptable updates f \<and> (\<exists>t. apply_fields fs updates t = (s', None)
    \<and> (\<forall>name. get_setting name t
         = (if name = sf_name f then updated_value updates name (get_setting name s) else get_setting name s)))"
proof (cases "map_of updates (sf_name f)")
  case None
  then show ?thesis using assms(1)
    by (intro conjI exI [of _ s]) (auto simp: acceptable_def updated_value_def)
next
  case (Some j)
  then obtain q where q: "j = JNum q" "sf_min f \<le> float_to_int q" "float_to_int q \<le> sf_ceiling f"
    "apply_fields fs updates (set_setting (sf_name f) (float_to_int q) s) = (s', None)"
    using assms(1) by (cases j) (auto simp: Let_def not_less split: if_splits)
  with Some show ?thesis
    by (intro conjI exI [of _ "set_setting (sf_name f) (float_to_int q) s"])
       (auto simp: acceptable_def updated_value_def get_set_setting [OF assms(2)])
qed

lemma apply_fields_values:
  assumes "apply_fields fs updates s = (s', None)" "distinct (map sf_name fs)" "set fs \<subseteq> set settingsFields"
  shows "(\<forall>f \<in> set fs. acceptable updates f) \<and> (\<exists>t. s' = Sanitized t \<and> (\<forall>name. get_setting name t
    = (if name \<in> sf_name ` set fs then updated_value updates name (get_setting name s) else get_setting name s)))"
  using assms
proof (induction fs arbitrary: s)
  case Nil
  then show ?case by auto
next
  case (Cons f fs)
  obtain u where u: "acceptable updates f" "apply_fields fs updates u = (s', None)"
    "\<forall>name. get_setting name u
       = (if name = sf_name f then updated_value updates name (get_setting name s) else get_setting name s)"
    using apply_fields_Cons [of f fs updates s s'] Cons.prems by auto
  have d: "distinct (map sf_name fs)" "set fs \<subseteq> set settingsFields" "sf_name f \<notin> sf_name ` set fs"
    using Cons.prems by auto
  obtain t where t: "\<forall>g \<in> set fs. acceptable updates g" "s' = Sanitized t" "\<forall>name. get_setting name t
    = (if name \<in> sf_name ` set fs then updated_value updates name (get_setting name u) else get_setting name u)"
    using Cons.IH [OF u(2) d(1,2)] by blast
  have "\<forall>name. get_setting name t = (if name \<in> sf_name ` set (f # fs)
      then updated_value updates name (get_setting name s) else get_setting name s)"
    using t(3) u(3) d(3) by auto
  then show ?case using t(1,2) u(1) by auto
qed

text \<open>
  C36. A successful settings update started from settings within their bounds stays within
  the white list's bounds, gives every listed field that was present the integer it was set
  to and leaves every other field as it was; clamping changes none of them.
\<close>

theorem settings_update_exact:
  assumes "settings_ok s" "applySettingsUpdate s updates = (s', None)"
  shows "settings_ok s' \<and> (\<forall>f \<in> set settingsFields.
      get_setting (sf_name f) s' = updated_value updates (sf_name f) (get_setting (sf_name f) s))"
proof -
  obtain t where acc: "\<forall>f \<in> set settingsFields. acceptable updates f" and t: "s' = Sanitized t"
    "\<forall>name. get_setting name t = (if name \<in> sf_name ` set settingsFields
        then updated_value updates name (get_setting name s) else get_setting name s)"
    using apply_fields_values [OF assms(2) [unfolded applySettingsUpdate_def] known_fields subset_refl] by blast
  have v: "get_setting (sf_name f) t = updated_value updates (sf_name f) (get_setting (sf_name f) s)"
    if "f \<in> set settingsFields" for f
    using t(2) that by simp
  have "sf_min f \<le> get_setting (sf_name f) t \<and> get_setting (sf_name f) t \<le> sf_ceiling f"
    if "f \<in> set settingsFields" for f
    using v [OF that] bspec [OF acc that] assms(1) that
    by (auto simp: settings_ok_def list_all_iff acceptable_def updated_value_def split: option.splits json.splits)
  then have "settings_ok t" by (simp add: settings_ok_def list_all_iff)
  then show ?thesis using t(1) v by (simp add: Sanitized_id)
qed

theorem settings_update_exact_witness:
  "settings_ok (fst (applySettingsUpdate DefaultSettings [(''cellWidth'', JNum 300)]))"
proof -
  have "applySettingsUpdate DefaultSettings [(''cellWidth'', JNum 300)]
      = (Sanitized (DefaultSettings\<lparr>CellWidth := 300\<rparr>), None)"
    using float_to_int_of_int [of 300]
    by (simp add: applySettingsUpdate_def settingsFields_def set_setting_def Let_def in_i64_def)
  from settings_update_exact [OF DefaultSettings_ok this] this show ?thesis by simp
qed

text \<open>
  C37. Saving settings and loading them again in the next process restores nine of the
  fields; \<open>cursorTtlSecs\<close> and \<open>maxCursorSessions\<close> come back as the defaults 600 and 8,
  whatever was saved.
\<close>

theorem settings_reload:
  "LoadSettings (Some (Inr (SaveSettings True s)))
     = (Sanitized s)\<lparr>CursorTtlSecs := 600, MaxCursorSessions := 8\<rparr>"
proof -
  have "if_pos (clamp_setting v c) d = clamp_setting v c" if "1 \<le> c" for v c d
    using clamp_setting_range [OF that, of v] by (simp add: if_pos_def)
  moreover have "clamp_setting (clamp_setting v c) c = clamp_setting v c" if "1 \<le> c" for v c
    using clamp_setting_range [OF that, of v] by (simp add: clamp_setting_id)
  moreover have "clamp_setting (if clamp_setting v 600 < 10 then 10 else clamp_setting v 600) 600
      = (if clamp_setting v 600 < 10 then 10 else clamp_setting v 600)" for v
    using clamp_setting_range [of 600 v] by (simp add: clamp_setting_id)
  moreover have "if_pos (if clamp_setting v 600 < 10 then 10 else clamp_setting v 600) d
      = (if clamp_setting v 600 < 10 then 10 else clamp_setting v 600)" for v d
    using clamp_setting_range [of 600 v] by (simp add: if_pos_def)
  ultimately show ?thesis
    by (simp add: LoadSettings_def SaveSettings_def Sanitized_def DefaultSettings_def Let_def
        clamp_setting_id [of 600 3600] clamp_setting_id [of 8 32])
qed

text \<open>
  A key outside the white list is not rejected: it is ignored, and the update succeeds
  with the settings unchanged.
\<close>

theorem settings_unknown_key_ignored:
  assumes "settings_ok s" "\<forall>f \<in> set settingsFields. map_of updates (sf_name f) = None"
  shows "applySettingsUpdate s updates = (s, None)"
proof -
  have "apply_fields fs updates s = (Sanitized s, None)" if "\<forall>f \<in> set fs. map_of updates (sf_name f) = None" for fs
    using that by (induction fs) auto
  then show ?thesis using assms by (simp add: applySettingsUpdate_def Sanitized_id)
qed

theorem settings_unknown_key_ignored_witness:
  "applySettingsUpdate DefaultSettings [(''noSuchSetting'', JNum 1)] = (DefaultSettings, None)"
  by (rule settings_unknown_key_ignored [OF DefaultSettings_ok]) (simp add: settingsFields_def)

end
