(* ===== verification/McpUtil.thy ===== *)
theory McpUtil
  imports GoJson
begin

text \<open>
  \<open>backend/internal/mcp/util.go\<close>: the tolerant readers of tool arguments. An absent key and
  a key with the value null differ only where the code tells them apart.
\<close>

definition stringField :: "json_obj \<Rightarrow> string \<Rightarrow> string" where
  "stringField params key = (case map_of params key of Some (JStr s) \<Rightarrow> s | _ \<Rightarrow> [])"

definition missingRequired :: "json_obj \<Rightarrow> string list \<Rightarrow> goerr option" where
  "missingRequired args keys =
     (let missing = filter (\<lambda>k. map_of args k = None \<or> map_of args k = Some JNull) keys
      in if missing = [] then None
         else Some (Errf ''Missing required parameters: %s'' [join_with '', '' missing]))"

text \<open>On a 64-bit machine \<open>coerceInt\<close> and \<open>coerceInt64\<close> are the same function.\<close>

definition coerceInt :: "json \<Rightarrow> int option" where
  "coerceInt raw = (case raw of
      JNum q \<Rightarrow> Some (float_to_int q)
    | JStr s \<Rightarrow> parse_int (trim_space s)
    | _ \<Rightarrow> None)"

definition coerceInt64 :: "json \<Rightarrow> int option" where
  "coerceInt64 raw = (case raw of
      JNum q \<Rightarrow> Some (float_to_int q)
    | JStr s \<Rightarrow> parse_int (trim_space s)
    | _ \<Rightarrow> None)"

definition coerceBool :: "json \<Rightarrow> bool option" where
  "coerceBool raw = (case raw of
      JBool b \<Rightarrow> Some b
    | JStr s \<Rightarrow>
        (let w = word_of s
         in if w \<in> set [''true'', ''1'', ''yes'', ''on''] then Some True
            else if w \<in> set [''false'', ''0'', ''no'', ''off''] then Some False
            else None)
    | _ \<Rightarrow> None)"

definition intArg :: "json option \<Rightarrow> int" where
  "intArg raw = (case raw of None \<Rightarrow> 0 | Some j \<Rightarrow> (case coerceInt j of None \<Rightarrow> 0 | Some v \<Rightarrow> v))"

definition boolArg :: "json option \<Rightarrow> bool" where
  "boolArg raw = (case raw of Some (JBool b) \<Rightarrow> b | _ \<Rightarrow> False)"

definition offsetArg :: "json_obj \<Rightarrow> int" where
  "offsetArg args = (case map_of args ''offset'' of None \<Rightarrow> -1 | Some j \<Rightarrow> intArg (Some j))"

definition stringSlice :: "json option \<Rightarrow> string list" where
  "stringSlice raw = (case raw of
      Some (JArr items) \<Rightarrow>
        concat (map (\<lambda>item. case item of JStr t \<Rightarrow> if trim_space t \<noteq> [] then [trim_space t] else [] | _ \<Rightarrow> []) items)
    | _ \<Rightarrow> [])"

definition clampStrings :: "string list \<Rightarrow> int \<Rightarrow> string list" where
  "clampStrings names limit =
     (if limit \<le> 0 \<or> int (length names) \<le> limit then names else take (nat limit) names)"

section \<open>Facts\<close>

lemma missingRequired_None_iff:
  "missingRequired args keys = None \<longleftrightarrow> (\<forall>k \<in> set keys. \<exists>j. map_of args k = Some j \<and> j \<noteq> JNull)"
  by (auto simp: missingRequired_def Let_def filter_empty_conv) force+

lemma stringSlice_trimmed: "s \<in> set (stringSlice raw) \<Longrightarrow> s \<noteq> [] \<and> trim_space s = s"
  by (auto simp: stringSlice_def split: option.splits json.splits if_splits)

text \<open>
  An integer argument reads the same whether the caller wrote it as a JSON number or
  as a decimal string, over the whole range of int64; \<open>offsetArg\<close> gives the resume marker
  -1 exactly for an absent key or an explicit -1.
\<close>

theorem coerceInt_number_or_string:
  assumes "in_i64 n"
  shows "coerceInt (JNum (of_int n)) = Some n \<and> coerceInt (JStr (format_int n)) = Some n
    \<and> offsetArg ((''offset'', JStr (format_int n)) # args) = n"
  using assms by (simp add: coerceInt_def offsetArg_def intArg_def)

theorem coerceInt_number_or_string_witness:
  "coerceInt (JNum (of_int (- 7))) = Some (- 7) \<and> coerceInt (JStr (format_int (- 7))) = Some (- 7)"
  using coerceInt_number_or_string [of "- 7" "[]"] by (simp add: in_i64_def)

end
