(* ===== verification/GoBytes.thy ===== *)
theory GoBytes
  imports GoBase
begin

text \<open>
  The packages \<open>unicode/utf8\<close> and \<open>encoding/base64\<close> as far as the plugin uses them:
  \<open>utf8.Valid\<close>, \<open>strings.ToValidUTF8\<close>, the conversion \<open>[]rune(s)\<close>, and the padded standard
  base64 alphabet. A locale states what a binary-to-text codec promises its clients;
  base64 interprets it.
\<close>

section \<open>UTF-8\<close>

definition byte_in :: "nat \<Rightarrow> nat \<Rightarrow> char \<Rightarrow> bool" where
  "byte_in lo hi c \<longleftrightarrow> lo \<le> (of_char c :: nat) \<and> (of_char c :: nat) \<le> hi"

text \<open>Width announced by a first byte (0: not a first byte), and the ranges of the others.\<close>

definition rune_width :: "char \<Rightarrow> nat" where
  "rune_width a =
     (if byte_in 0 0x7F a then 1 else if byte_in 0xC2 0xDF a then 2
      else if byte_in 0xE0 0xEF a then 3 else if byte_in 0xF0 0xF4 a then 4 else 0)"

fun rune_tail_ok :: "char \<Rightarrow> string \<Rightarrow> bool" where
  "rune_tail_ok a [] = True"
| "rune_tail_ok a (b # bs) =
     (byte_in (if a = CHR 0xE0 then 0xA0 else if a = CHR 0xF0 then 0x90 else 0x80)
              (if a = CHR 0xED then 0x9F else if a = CHR 0xF4 then 0x8F else 0xBF) b
      \<and> list_all (byte_in 0x80 0xBF) bs)"

text \<open>Width of the well-formed rune at the head of a byte string, 0 if there is none.\<close>

fun utf8_len :: "string \<Rightarrow> nat" where
  "utf8_len [] = 0"
| "utf8_len (a # s) =
     (if rune_width a \<noteq> 0 \<and> rune_width a \<le> Suc (length s) \<and> rune_tail_ok a (take (rune_width a - 1) s)
      then rune_width a else 0)"

lemma utf8_len_le: "utf8_len s \<le> length s"
  by (cases s) auto

lemma utf8_len_take:
  "0 < utf8_len s \<Longrightarrow> utf8_len (take (utf8_len s) s @ t) = utf8_len s"
  by (cases s) (auto simp: take_Cons' split: if_splits)

text \<open>\<open>utf8.Valid\<close>\<close>

function utf8_valid :: "string \<Rightarrow> bool" where
  "utf8_valid s =
     (if s = [] then True
      else if utf8_len s = 0 then False
      else utf8_valid (drop (utf8_len s) s))"
  by pat_completeness auto
termination
  by (relation "measure length") auto

declare utf8_valid.simps [simp del]

definition rune_error :: string where
  "rune_error = [CHR 0xEF, CHR 0xBF, CHR 0xBD]"

text \<open>
  \<open>strings.ToValidUTF8(s, "\uFFFD")\<close>: each run of bytes that are not well-formed becomes one
  U+FFFD. The flag says whether the previous byte was already part of such a run.
\<close>

function to_valid_utf8 :: "bool \<Rightarrow> string \<Rightarrow> string" where
  "to_valid_utf8 bad s =
     (if s = [] then []
      else if utf8_len s = 0 then (if bad then [] else rune_error) @ to_valid_utf8 True (tl s)
      else take (utf8_len s) s @ to_valid_utf8 False (drop (utf8_len s) s))"
  by pat_completeness auto
termination
  by (relation "measure (\<lambda>(b, s). length s)") auto

declare to_valid_utf8.simps [simp del]

text \<open>\<open>[]rune(s)\<close>: each rune as its encoding; an ill-formed byte is U+FFFD.\<close>

function runes_of :: "string \<Rightarrow> string list" where
  "runes_of s =
     (if s = [] then []
      else if utf8_len s = 0 then rune_error # runes_of (tl s)
      else take (utf8_len s) s # runes_of (drop (utf8_len s) s))"
  by pat_completeness auto
termination
  by (relation "measure length") auto

declare runes_of.simps [simp del]

lemma utf8_valid_Nil [simp]: "utf8_valid []"
  by (simp add: utf8_valid.simps)

lemma utf8_len_rune_error: "utf8_len (rune_error @ t) = 3"
  by (simp add: rune_error_def byte_in_def rune_width_def)

lemma utf8_valid_unit:
  "utf8_len u = length u \<Longrightarrow> u \<noteq> [] \<Longrightarrow> utf8_valid (u @ t) = utf8_valid t"
  using utf8_len_take [of u t] by (subst utf8_valid.simps) simp

lemma utf8_valid_rune_error: "utf8_valid (rune_error @ t) = utf8_valid t"
  using utf8_valid_unit [of rune_error t] utf8_len_rune_error [of "[]"]
  by (simp add: rune_error_def)

lemma utf8_unit_take:
  "utf8_len s \<noteq> 0 \<Longrightarrow> utf8_len (take (utf8_len s) s) = length (take (utf8_len s) s)
     \<and> take (utf8_len s) s \<noteq> []"
  using utf8_len_take [of s "[]"] utf8_len_le [of s] by auto

lemma to_valid_utf8_valid: "utf8_valid (to_valid_utf8 bad s)"
proof (induction bad s rule: to_valid_utf8.induct)
  case (1 bad s)
  then show ?case
    using utf8_valid_unit [of "take (utf8_len s) s"] utf8_unit_take [of s]
    by (subst to_valid_utf8.simps) (auto simp: utf8_valid_rune_error)
qed

lemma to_valid_utf8_id: "utf8_valid s \<Longrightarrow> to_valid_utf8 bad s = s"
proof (induction bad s rule: to_valid_utf8.induct)
  case (1 bad s)
  then show ?case
    by (subst to_valid_utf8.simps)
       (use "1.prems" in \<open>auto simp: utf8_valid.simps [of s] split: if_splits\<close>)
qed

lemma runes_of_units: "u \<in> set (runes_of s) \<Longrightarrow> utf8_len u = length u \<and> u \<noteq> []"
proof (induction s rule: runes_of.induct)
  case (1 s)
  then show ?case
    using utf8_unit_take [of s] utf8_len_rune_error [of "[]"]
    by (subst (asm) (3) runes_of.simps) (auto split: if_splits simp: rune_error_def)
qed

lemma utf8_valid_concat:
  "(\<And>u. u \<in> set us \<Longrightarrow> utf8_len u = length u \<and> u \<noteq> []) \<Longrightarrow> utf8_valid (concat us @ t) = utf8_valid t"
  by (induction us) (simp_all add: utf8_valid_unit)

section \<open>Base64 (standard alphabet, padded)\<close>

definition b64_alphabet :: string where
  "b64_alphabet =
     ''ABCDEFGHIJKLMNOPQRSTUVWXYZabcdefghijklmnopqrstuvwxyz0123456789+/''"

definition b64_char :: "nat \<Rightarrow> char" where
  "b64_char i = b64_alphabet ! i"

definition b64_val :: "char \<Rightarrow> nat option" where
  "b64_val c = index_byte c b64_alphabet"

fun b64_encode :: "string \<Rightarrow> string" where
  "b64_encode [] = []"
| "b64_encode [a] =
     (let x = of_char a :: nat in [b64_char (x div 4), b64_char ((x mod 4) * 16), CHR ''='', CHR ''=''])"
| "b64_encode [a, b] =
     (let x = of_char a :: nat; y = of_char b :: nat
      in [b64_char (x div 4), b64_char ((x mod 4) * 16 + y div 16), b64_char ((y mod 16) * 4), CHR ''=''])"
| "b64_encode (a # b # c # s) =
     (let x = of_char a :: nat; y = of_char b :: nat; z = of_char c :: nat
      in [b64_char (x div 4), b64_char ((x mod 4) * 16 + y div 16),
          b64_char ((y mod 16) * 4 + z div 64), b64_char (z mod 64)] @ b64_encode s)"

text \<open>
  \<open>base64.StdEncoding.DecodeString\<close>: CR and LF are skipped, padding ends the text, the
  unused low bits of the last digit are not checked; \<open>None\<close> is \<open>CorruptInputError\<close>.
\<close>

fun b64_quads :: "string \<Rightarrow> string option" where
  "b64_quads [] = Some []"
| "b64_quads (a # b # c # d # s) =
     (case (b64_val a, b64_val b) of
        (Some i, Some j) \<Rightarrow>
          if d = CHR ''='' then
            if s \<noteq> [] then None
            else if c = CHR ''='' then Some [char_of (i * 4 + j div 16)]
            else (case b64_val c of None \<Rightarrow> None
                  | Some k \<Rightarrow> Some [char_of (i * 4 + j div 16), char_of ((j mod 16) * 16 + k div 4)])
          else (case (b64_val c, b64_val d) of
                  (Some k, Some l) \<Rightarrow>
                    map_option (\<lambda>r. char_of (i * 4 + j div 16) # char_of ((j mod 16) * 16 + k div 4)
                                     # char_of ((k mod 4) * 64 + l) # r) (b64_quads s)
                | _ \<Rightarrow> None)
      | _ \<Rightarrow> None)"
| "b64_quads _ = None"

definition b64_decode :: "string \<Rightarrow> string option" where
  "b64_decode s = b64_quads (filter (\<lambda>c. c \<noteq> CHR 0x0A \<and> c \<noteq> CHR 0x0D) s)"

lemma index_byte_nth: "distinct xs \<Longrightarrow> i < length xs \<Longrightarrow> index_byte (xs ! i) xs = Some i"
  by (induction xs arbitrary: i) (auto simp: nth_Cons split: nat.splits)

lemma b64_alphabet_props:
  "length b64_alphabet = 64" "distinct b64_alphabet"
  "CHR ''='' \<notin> set b64_alphabet" "CHR 0x0A \<notin> set b64_alphabet" "CHR 0x0D \<notin> set b64_alphabet"
  by (simp_all add: b64_alphabet_def)

lemma b64_char_in: "i < 64 \<Longrightarrow> b64_char i \<in> set b64_alphabet"
  by (simp add: b64_char_def b64_alphabet_props)

lemma b64_char_props [simp]:
  "i < 64 \<Longrightarrow> b64_val (b64_char i) = Some i"
  "i < 64 \<Longrightarrow> b64_char i \<noteq> CHR ''=''"
  "i < 64 \<Longrightarrow> b64_char i \<noteq> CHR 0x0A"
  "i < 64 \<Longrightarrow> b64_char i \<noteq> CHR 0x0D"
  by (simp add: b64_val_def b64_char_def index_byte_nth b64_alphabet_props)
     (metis b64_char_in b64_alphabet_props(3-5))+

lemma b64_small:
  "(of_char (c::char) :: nat) div 4 < 64" "(of_char c :: nat) mod 4 * 16 + (of_char d :: nat) div 16 < 64"
  "(of_char c :: nat) mod 4 * 16 < 64" "(of_char c :: nat) mod 16 * 4 < 64"
  "(of_char c :: nat) mod 16 * 4 + (of_char d :: nat) div 64 < 64"
  using nat_of_char_less_256 [of c] nat_of_char_less_256 [of d] by linarith+

lemma b64_carry:
  "(of_char (c::char) :: nat) div 16 div 16 = 0" "(of_char c :: nat) div 16 mod 16 = of_char c div 16"
  "(of_char c :: nat) div 64 div 4 = 0" "(of_char c :: nat) div 64 mod 4 = of_char c div 64"
proof -
  have "(of_char c :: nat) div 16 < 16" "(of_char c :: nat) div 64 < 4"
    using nat_of_char_less_256 [of c] by linarith+
  then show "(of_char c :: nat) div 16 div 16 = 0" "(of_char c :: nat) div 16 mod 16 = of_char c div 16"
    "(of_char c :: nat) div 64 div 4 = 0" "(of_char c :: nat) div 64 mod 4 = of_char c div 64"
    by simp_all
qed

lemma b64_quads_encode: "b64_quads (b64_encode s) = Some s"
  by (induction s rule: b64_encode.induct) (simp_all add: Let_def b64_small b64_carry)

lemma b64_encode_chars:
  "c \<in> set (b64_encode s) \<Longrightarrow> c = CHR ''='' \<or> c \<in> b64_char ` {..<64}"
  by (induction s rule: b64_encode.induct) (auto simp: Let_def b64_small)

lemma b64_encode_no_newline: "filter (\<lambda>c. c \<noteq> CHR 0x0A \<and> c \<noteq> CHR 0x0D) (b64_encode s) = b64_encode s"
proof -
  have "c \<noteq> CHR 0x0A \<and> c \<noteq> CHR 0x0D" if "c \<in> set (b64_encode s)" for c
    using b64_encode_chars [OF that] by auto
  then show ?thesis by (simp add: filter_id_conv)
qed

lemma b64_decode_encode: "b64_decode (b64_encode s) = Some s"
  by (simp add: b64_decode_def b64_encode_no_newline b64_quads_encode)

lemma b64_encode_Nil_iff [simp]: "b64_encode s = [] \<longleftrightarrow> s = []"
  by (cases s rule: b64_encode.cases) (auto simp: Let_def)

section \<open>What a binary-to-text codec promises\<close>

locale text_codec =
  fixes enc :: "string \<Rightarrow> string" and dec :: "string \<Rightarrow> string option"
  assumes dec_enc: "dec (enc s) = Some s"
    and enc_Nil: "enc s = [] \<longleftrightarrow> s = []"
begin

lemma enc_inj: "enc s = enc t \<longleftrightarrow> s = t"
  by (metis dec_enc option.inject)

lemma enc_prefix_recoverable: "dec (enc (take n s)) = Some (take n s)"
  by (rule dec_enc)

end

interpretation b64: text_codec b64_encode b64_decode
  by unfold_locales (simp_all add: b64_decode_encode)

end
