(* ===== verification/KafkaTypes.thy ===== *)
theory KafkaTypes
  imports GoJson GoBytes
begin

text \<open>
  The data the Kafka side hands around: connection profiles, consumed records and messages,
  the parameters of a consumption. Field names carry a prefix where Isabelle would
  otherwise confuse them; a pointer field is an \<open>option\<close>, a nil map is \<open>None\<close>.
\<close>

text \<open>\<open>kgo.Record\<close> of the client library, as far as the code reads it.\<close>

record kgo_header =
  h_key :: string
  h_value :: string

record kgo_record =
  r_topic :: string
  r_partition :: int
  r_offset :: int
  r_millis :: int                     \<comment> \<open>\<open>record.Timestamp.UnixMilli()\<close>\<close>
  r_leader_epoch :: int
  r_key :: "string option"            \<comment> \<open>\<open>None\<close>: nil\<close>
  r_value :: "string option"
  r_headers :: "kgo_header list"

record consumed_message =
  m_topic :: string
  m_partition :: int
  m_offset :: int
  m_timestamp :: int
  m_leader_epoch :: int
  m_key :: string
  m_key_base64 :: string
  m_value_text :: string
  m_value_base64 :: string
  m_headers :: "(string \<times> string) list option"
  m_truncated :: bool
  m_committed :: bool
  m_decode_error :: string
  m_schema_id :: int
  m_schema_subject :: string
  m_schema_version :: int

record field_filter =
  ff_source :: string
  ff_path :: string
  ff_operator :: string
  ff_value :: string
  ff_enabled :: "bool option"

record consume_params =
  cp_connection :: string
  cp_topic :: string
  cp_group :: string
  cp_offset_strategy :: string
  cp_offset_time :: string
  cp_partitions :: "int list"
  cp_partition_offsets :: "(int \<times> int) list"
  cp_limit :: int
  cp_timeout_ms :: int
  cp_max_scan :: int
  cp_isolation :: string
  cp_commit :: bool
  cp_filter :: string
  cp_key_filter :: string
  cp_value_filter :: string
  cp_header_filter :: string
  cp_match_mode :: string
  cp_field_filters :: "field_filter list"
  cp_timestamp_from :: "int option"
  cp_timestamp_to :: "int option"
  cp_offset_from :: "int option"
  cp_offset_to :: "int option"
  cp_decode :: string
  cp_decompression :: string
  cp_schema :: "(string \<times> string) option"   \<comment> \<open>registry and subject of the \<open>SchemaRef\<close>\<close>

text \<open>Parameters with every optional field absent, for a connection and a topic.\<close>

definition base_params :: "string \<Rightarrow> string \<Rightarrow> consume_params" where
  "base_params conn topic =
     \<lparr>cp_connection = conn, cp_topic = topic, cp_group = [], cp_offset_strategy = [],
      cp_offset_time = [], cp_partitions = [], cp_partition_offsets = [], cp_limit = 0,
      cp_timeout_ms = 0, cp_max_scan = 0, cp_isolation = [], cp_commit = False, cp_filter = [],
      cp_key_filter = [], cp_value_filter = [], cp_header_filter = [], cp_match_mode = [],
      cp_field_filters = [], cp_timestamp_from = None, cp_timestamp_to = None,
      cp_offset_from = None, cp_offset_to = None, cp_decode = [], cp_decompression = [],
      cp_schema = None\<rparr>"

text \<open>\<open>firstNonEmpty\<close> of \<open>client.go\<close>: the first value that is not blank.\<close>

fun firstNonEmpty :: "string list \<Rightarrow> string" where
  "firstNonEmpty [] = []"
| "firstNonEmpty (v # vs) = (if trim_space v \<noteq> [] then v else firstNonEmpty vs)"

end
