(* ===== verification/McpDigest.thy ===== *)
theory McpDigest
  imports KafkaTypes McpCursor
begin

text \<open>
  \<open>backend/internal/mcp/digest.go\<close>: the local aggregation behind \<open>kafka_messages_digest\<close>:
  per-partition and per-key counts, the time histogram, field projections by JSON path, the
  sample rows and the cursor rows. All functions are pure. A counting map of the code is an
  association list; the JSON reader and printer are the parameter \<open>jl\<close>.
\<close>

section \<open>Cells\<close>

definition ellipsis :: string where
  "ellipsis = [CHR 0xE2, CHR 0x80, CHR 0xA6]"

definition DigestCellTruncate :: "string \<Rightarrow> int \<Rightarrow> string" where
  "DigestCellTruncate s width =
     (if width \<le> 0 then s
      else let runes = runes_of s
           in if int (length runes) \<le> width then s else concat (take (nat width) runes) @ ellipsis)"

section \<open>The time histogram\<close>

record time_bucket =
  tb_from :: int
  tb_to :: int
  tb_count :: int

record time_histogram =
  th_buckets :: "time_bucket list"
  th_no_timestamp :: int

definition timeHistogramMaxBuckets :: int where
  "timeHistogramMaxBuckets = 12"

definition ts_min :: "int list \<Rightarrow> int" where
  "ts_min ts = foldl (\<lambda>m t. if t < m then t else m) (hd ts) ts"

definition ts_max :: "int list \<Rightarrow> int" where
  "ts_max ts = foldl (\<lambda>m t. if t > m then t else m) (hd ts) ts"

text \<open>The bucket of a timestamp, and the loop that counts: \<open>buckets[index].Count++\<close>.\<close>

definition bucket_index :: "int \<Rightarrow> int \<Rightarrow> int \<Rightarrow> int \<Rightarrow> nat" where
  "bucket_index minTs width bucketCount t =
     (let index = go_div (i64 (t - minTs)) width
      in nat (if index \<ge> bucketCount then bucketCount - 1 else index))"

fun count_into :: "int \<Rightarrow> int \<Rightarrow> int \<Rightarrow> int list \<Rightarrow> time_bucket list \<Rightarrow> time_bucket list" where
  "count_into minTs width bucketCount [] bs = bs"
| "count_into minTs width bucketCount (t # ts) bs =
     (let index = bucket_index minTs width bucketCount t
      in count_into minTs width bucketCount ts
           (bs[index := (bs ! index)\<lparr>tb_count := tb_count (bs ! index) + 1\<rparr>]))"

text \<open>Number of buckets for a time span, their width, and the empty bucket at an index.\<close>

definition hist_count :: "int \<Rightarrow> int" where
  "hist_count width_ms =
     (let n = (if width_ms > timeHistogramMaxBuckets then timeHistogramMaxBuckets else width_ms)
      in if n < 1 then 1 else n)"

definition hist_width :: "int \<Rightarrow> int \<Rightarrow> int" where
  "hist_width width_ms n = (let w = go_div (i64 (i64 (width_ms + n) - 1)) n in if w < 1 then 1 else w)"

definition hist_bucket :: "int \<Rightarrow> int \<Rightarrow> int \<Rightarrow> int \<Rightarrow> int \<Rightarrow> time_bucket" where
  "hist_bucket minTs maxTs n width index =
     (let from = i64 (minTs + i64 (index * width))
      in \<lparr>tb_from = from, tb_to = (if index = n - 1 then i64 (maxTs + 1) else i64 (from + width)), tb_count = 0\<rparr>)"

definition buildTimeHistogram :: "int list \<Rightarrow> time_histogram option" where
  "buildTimeHistogram ts =
     (if ts = [] then None
      else
        let minTs = ts_min ts;
            maxTs = ts_max ts;
            width_ms = i64 (i64 (maxTs - minTs) + 1);
            bucketCount = hist_count width_ms;
            width = hist_width width_ms bucketCount;
            buckets = map (hist_bucket minTs maxTs bucketCount width) [0..bucketCount - 1]
        in Some \<lparr>th_buckets = count_into minTs width bucketCount ts buckets, th_no_timestamp = 0\<rparr>)"

lemma ts_min_le: "t \<in> set ts \<Longrightarrow> ts_min ts \<le> t"
proof -
  have "foldl (\<lambda>m t. if t < m then t else m) a ts \<le> a
      \<and> (\<forall>t \<in> set ts. foldl (\<lambda>m t. if t < m then t else m) a ts \<le> t)" for a
    by (induction ts arbitrary: a) (auto, (smt (verit))+)
  then show "t \<in> set ts \<Longrightarrow> ?thesis" by (simp add: ts_min_def)
qed

lemma ts_max_ge: "t \<in> set ts \<Longrightarrow> t \<le> ts_max ts"
proof -
  have "a \<le> foldl (\<lambda>m t. if t > m then t else m) a ts
      \<and> (\<forall>t \<in> set ts. t \<le> foldl (\<lambda>m t. if t > m then t else m) a ts)" for a
    by (induction ts arbitrary: a) (auto, (smt (verit))+)
  then show "t \<in> set ts \<Longrightarrow> ?thesis" by (simp add: ts_max_def)
qed

lemma ts_min_max_in: "ts \<noteq> [] \<Longrightarrow> ts_min ts \<in> set ts \<and> ts_max ts \<in> set ts"
proof -
  have "foldl (\<lambda>m t. if t < m then t else m) a ts \<in> insert a (set ts)"
    "foldl (\<lambda>m t. if t > m then t else m) a ts \<in> insert a (set ts)" for a
    by (induction ts arbitrary: a) auto
  from this [of "hd ts"] show "ts \<noteq> [] \<Longrightarrow> ?thesis" by (simp add: ts_min_def ts_max_def insert_absorb)
qed

lemma count_into_fields:
  "length (count_into a w n ts bs) = length bs"
  "j < length bs \<Longrightarrow> tb_from (count_into a w n ts bs ! j) = tb_from (bs ! j)"
  "j < length bs \<Longrightarrow> tb_to (count_into a w n ts bs ! j) = tb_to (bs ! j)"
  "j < length bs \<Longrightarrow> tb_count (count_into a w n ts bs ! j)
     = tb_count (bs ! j) + int (length (filter (\<lambda>t. bucket_index a w n t = j) ts))"
proof (induction ts arbitrary: bs)
  case (Cons t ts)
  let ?k = "bucket_index a w n t"
  {
    case 1
    show ?case by (simp add: Let_def Cons.IH(1))
  next
    case 2
    then show ?case by (cases "?k = j") (auto simp: Let_def Cons.IH(2))
  next
    case 3
    then show ?case by (cases "?k = j") (auto simp: Let_def Cons.IH(3))
  next
    case 4
    then show ?case by (cases "?k = j") (auto simp: Let_def Cons.IH(4))
  }
qed simp_all

lemma sum_filter_index:
  fixes f :: "'a \<Rightarrow> nat"
  shows "list_all (\<lambda>t. f t < n) ts \<Longrightarrow> (\<Sum>j<n. int (length (filter (\<lambda>t. f t = j) ts))) = int (length ts)"
proof (induction ts)
  case (Cons t ts)
  have "(\<Sum>j<n. int (length (filter (\<lambda>t. f t = j) (t # ts))))
      = (\<Sum>j<n. (if j = f t then 1 else 0) + int (length (filter (\<lambda>t. f t = j) ts)))"
    by (intro sum.cong) auto
  moreover have "(\<Sum>j<n. (if j = f t then 1 else (0::int))) = 1" using Cons.prems by simp
  ultimately show ?case using Cons by (simp only: sum.distrib) simp
qed simp

lemma div_eq_iff_range: "0 < (w::int) \<Longrightarrow> x div w = j \<longleftrightarrow> j * w \<le> x \<and> x < j * w + w"
proof
  assume "0 < w" "x div w = j"
  then have "x = j * w + x mod w" "0 \<le> x mod w" "x mod w < w"
    using div_mult_mod_eq [of x w] by simp_all
  then show "j * w \<le> x \<and> x < j * w + w" by linarith
next
  assume "0 < w" "j * w \<le> x \<and> x < j * w + w"
  then have "x = w * j + (x - w * j)" "0 \<le> x - w * j" "x - w * j < w" by (simp_all add: mult.commute)
  then show "x div w = j" by (rule int_div_pos_eq)
qed

lemma div_less_mult: "0 < (w::int) \<Longrightarrow> x < n * w \<Longrightarrow> x div w < n"
proof (rule ccontr)
  assume w: "0 < w" "x < n * w" "\<not> x div w < n"
  then have "n * w \<le> x div w * w" by (intro mult_right_mono) simp_all
  also have "x div w * w \<le> x" using w(1) div_mult_mod_eq [of x w] pos_mod_sign [of w x] by linarith
  finally show False using w(2) by simp
qed

text \<open>For timestamps of the next 146 million years no step of the computation wraps.\<close>

lemma hist_shape:
  assumes "1 \<le> width_ms" "width_ms \<le> 2 ^ 62" "n = hist_count width_ms" "w = hist_width width_ms n"
  shows "n = min 12 width_ms" "1 \<le> n" "n \<le> 12" "1 \<le> w" "w \<le> width_ms" "width_ms \<le> n * w" "(n - 1) * w \<le> width_ms + n - 1 - w"
proof -
  show n: "n = min 12 width_ms" using assms by (auto simp: hist_count_def timeHistogramMaxBuckets_def Let_def)
  then show n': "1 \<le> n" "n \<le> 12" using assms(1) by simp_all
  have "n \<le> width_ms" using n by simp
  have "i64 (i64 (width_ms + n) - 1) = width_ms + n - 1" using assms(1,2) n' by (simp add: i64_id)
  moreover have "1 \<le> (width_ms + n - 1) div n"
    using assms(1) n' pos_imp_zdiv_pos_iff [of n "width_ms + n - 1"] by linarith
  ultimately have w: "w = (width_ms + n - 1) div n"
    using assms(4) n' assms(1) by (simp add: hist_width_def Let_def)
  then show "1 \<le> w" using \<open>1 \<le> (width_ms + n - 1) div n\<close> by simp
  have m: "n * w + (width_ms + n - 1) mod n = width_ms + n - 1" "(width_ms + n - 1) mod n < n" "0 \<le> (width_ms + n - 1) mod n"
    using n' by (simp_all add: w mult_div_mod_eq)
  show "width_ms \<le> n * w" using m by linarith
  have "n * w \<le> width_ms + n - 1" using m by linarith
  then show "(n - 1) * w \<le> width_ms + n - 1 - w" by (simp add: algebra_simps)
  have "0 \<le> (width_ms - 1) * (n - 1)" using assms(1) n' by simp
  then have "width_ms + n - 1 \<le> width_ms * n" by (simp add: algebra_simps)
  then have "w \<le> (width_ms * n) div n" unfolding w using n' by (intro zdiv_mono1) simp_all
  then show "w \<le> width_ms" using n' by simp
qed

lemma hist_bucket_unwrapped:
  assumes "0 < a" "a \<le> b" "b < 2 ^ 62" "n = hist_count (b - a + 1)" "w = hist_width (b - a + 1) n"
    and "0 \<le> i" "i \<le> n - 1"
  shows "hist_bucket a b n w i
     = \<lparr>tb_from = a + i * w, tb_to = (if i = n - 1 then b + 1 else a + i * w + w), tb_count = 0\<rparr>"
proof -
  have h: "n \<le> 12" "1 \<le> w" "w \<le> b - a + 1" "(n - 1) * w \<le> (b - a + 1) + n - 1 - w"
    using hist_shape [of "b - a + 1" n w] assms by simp_all
  have "i * w \<le> (n - 1) * w" using assms(7) h(2) by (intro mult_right_mono) simp_all
  then have "i * w \<le> b - a + 12 - w" using h(1,4) by linarith
  moreover have "0 \<le> i * w" using h(2) assms(6) by simp
  ultimately have y: "i * w \<le> b - a + 12 - w" "0 \<le> i * w" by blast+
  have "i64 y = y \<and> i64 (a + y) = a + y \<and> i64 (a + y + w) = a + y + w"
    if "y \<le> b - a + 12 - w" "0 \<le> y" for y
    using that h(2,3) assms(1-3) by (simp add: i64_id)
  from this [OF y] show ?thesis
    using assms(1-3) by (simp add: hist_bucket_def Let_def i64_id)
qed

lemma buildTimeHistogram_unwrapped:
  assumes "ts \<noteq> []" "list_all (\<lambda>t. 0 < t \<and> t < 2 ^ 62) ts"
    and "n = hist_count (ts_max ts - ts_min ts + 1)" "w = hist_width (ts_max ts - ts_min ts + 1) n"
  shows "buildTimeHistogram ts = Some \<lparr>th_buckets = count_into (ts_min ts) w n ts
      (map (\<lambda>i. \<lparr>tb_from = ts_min ts + i * w,
                tb_to = (if i = n - 1 then ts_max ts + 1 else ts_min ts + i * w + w), tb_count = 0\<rparr>) [0..n - 1]),
    th_no_timestamp = 0\<rparr>"
    and "1 \<le> w" "1 \<le> n" "n \<le> 12" "ts_max ts - ts_min ts + 1 \<le> n * w"
proof -
  let ?a = "ts_min ts" and ?b = "ts_max ts"
  have ab: "0 < ?a" "?a \<le> ?b" "?b < 2 ^ 62"
    using assms(1,2) ts_min_max_in [OF assms(1)] ts_min_le [of ?b ts] by (auto simp: list_all_iff)
  then have s: "1 \<le> ?b - ?a + 1" "?b - ?a + 1 \<le> 2 ^ 62" by simp_all
  show "1 \<le> w" "1 \<le> n" "n \<le> 12" "?b - ?a + 1 \<le> n * w"
    using hist_shape [OF s assms(3,4)] by blast+
  have width_ms: "i64 (i64 (?b - ?a) + 1) = ?b - ?a + 1" using ab by (simp add: i64_id)
  have m: "map (hist_bucket ?a ?b n w) [0..n - 1]
      = map (\<lambda>i. \<lparr>tb_from = ?a + i * w, tb_to = (if i = n - 1 then ?b + 1 else ?a + i * w + w), tb_count = 0\<rparr>) [0..n - 1]"
    using hist_bucket_unwrapped [OF ab assms(3,4)] by (intro map_cong) simp_all
  show "buildTimeHistogram ts = Some \<lparr>th_buckets = count_into ?a w n ts
      (map (\<lambda>i. \<lparr>tb_from = ?a + i * w,
                tb_to = (if i = n - 1 then ?b + 1 else ?a + i * w + w), tb_count = 0\<rparr>) [0..n - 1]),
    th_no_timestamp = 0\<rparr>"
    unfolding buildTimeHistogram_def Let_def width_ms assms(3)[symmetric] assms(4)[symmetric] m
    using assms(1) by (simp only: if_False)
qed

lemma histogram_core:
  assumes "ts \<noteq> []" "list_all (\<lambda>t. 0 < t \<and> t < 2 ^ 62) ts"
    and "buildTimeHistogram ts = Some h"
  shows "1 \<le> length (th_buckets h) \<and> length (th_buckets h) \<le> 12
    \<and> tb_from (hd (th_buckets h)) = ts_min ts \<and> tb_to (last (th_buckets h)) = ts_max ts + 1
    \<and> list_all (\<lambda>b. tb_count b = int (length (filter (\<lambda>t. tb_from b \<le> t \<and> t < tb_to b) ts))) (th_buckets h)
    \<and> sum_list (map tb_count (th_buckets h)) = int (length ts)"
proof -
  define n where "n = hist_count (ts_max ts - ts_min ts + 1)"
  define w where "w = hist_width (ts_max ts - ts_min ts + 1) n"
  let ?a = "ts_min ts" and ?b = "ts_max ts"
  let ?bs = "map (\<lambda>i. \<lparr>tb_from = ?a + i * w, tb_to = (if i = n - 1 then ?b + 1 else ?a + i * w + w),
                     tb_count = 0\<rparr>) [0..n - 1]"
  note u = buildTimeHistogram_unwrapped [OF assms(1,2) n_def w_def]
  have h: "th_buckets h = count_into ?a w n ts ?bs" using u(1) assms(3) by simp
  have len: "length (th_buckets h) = nat n" "length ?bs = nat n" by (simp_all add: h count_into_fields)
  have nth: "?bs ! j = \<lparr>tb_from = ?a + int j * w,
      tb_to = (if int j = n - 1 then ?b + 1 else ?a + int j * w + w), tb_count = 0\<rparr>" if "j < nat n" for j
    using that by simp
  have small: "i64 (t - ?a) = t - ?a" "0 \<le> t - ?a" "t - ?a < n * w" "t \<le> ?b" "go_div (t - ?a) w < n"
    if "t \<in> set ts" for t
  proof -
    have "?a \<le> t" "t \<le> ?b" using that by (simp_all add: ts_min_le ts_max_ge)
    moreover have "0 < ?a" "?b < 2 ^ 62"
      using ts_min_max_in [OF assms(1)] assms(2) by (auto simp: list_all_iff)
    ultimately show "i64 (t - ?a) = t - ?a" "0 \<le> t - ?a" "t - ?a < n * w" "t \<le> ?b"
      using u(5) by (simp_all add: i64_id)
    then have "(t - ?a) div w < n" using u(2) by (intro div_less_mult) simp_all
    then show "go_div (t - ?a) w < n" using u(2) \<open>?a \<le> t\<close> by simp
  qed
  have idx: "bucket_index ?a w n t = nat ((t - ?a) div w)" "(t - ?a) div w < n" if "t \<in> set ts" for t
    using small [OF that] u(2) by (simp_all add: bucket_index_def)
  have iff: "bucket_index ?a w n t = j \<longleftrightarrow> tb_from (?bs ! j) \<le> t \<and> t < tb_to (?bs ! j)"
    if "t \<in> set ts" "j < nat n" for t j
  proof -
    have "bucket_index ?a w n t = j \<longleftrightarrow> (t - ?a) div w = int j"
      using idx [OF that(1)] small(2) [OF that(1)] u(2)
      by (auto simp: pos_imp_zdiv_nonneg_iff)
    also have "\<dots> \<longleftrightarrow> int j * w \<le> t - ?a \<and> t - ?a < int j * w + w"
      using u(2) by (intro div_eq_iff_range) simp
    also have "\<dots> \<longleftrightarrow> tb_from (?bs ! j) \<le> t \<and> t < tb_to (?bs ! j)"
    proof (cases "int j = n - 1")
      case True
      then have "n = int j + 1" by simp
      then have "int j * w + w = n * w" by (simp add: algebra_simps)
      then show ?thesis using small(3,4) [OF that(1)] nth [OF that(2)] True by auto
    next
      case False
      then show ?thesis using nth [OF that(2)] by auto
    qed
    finally show ?thesis .
  qed
  have count: "tb_count (th_buckets h ! j) = int (length (filter (\<lambda>t. bucket_index ?a w n t = j) ts))"
    if "j < nat n" for j
    using that nth by (simp add: h count_into_fields)
  have "tb_count (th_buckets h ! j) = int (length (filter (\<lambda>t. tb_from (th_buckets h ! j) \<le> t
      \<and> t < tb_to (th_buckets h ! j)) ts))" if "j < nat n" for j
  proof -
    have "filter (\<lambda>t. bucket_index ?a w n t = j) ts = filter (\<lambda>t. tb_from (?bs ! j) \<le> t \<and> t < tb_to (?bs ! j)) ts"
      using iff that by (intro filter_cong) auto
    then show ?thesis using count [OF that] that len by (simp add: h count_into_fields)
  qed
  then have each: "list_all (\<lambda>b. tb_count b = int (length (filter (\<lambda>t. tb_from b \<le> t \<and> t < tb_to b) ts))) (th_buckets h)"
    by (simp add: list_all_length len)
  have "sum_list (map tb_count (th_buckets h)) = (\<Sum>j<nat n. tb_count (th_buckets h ! j))"
    by (simp add: sum_list_sum_nth len atLeast0LessThan)
  also have "\<dots> = (\<Sum>j<nat n. int (length (filter (\<lambda>t. bucket_index ?a w n t = j) ts)))"
    by (intro sum.cong) (simp_all add: count)
  also have "\<dots> = int (length ts)"
    using idx u(3) small(2) u(2) by (intro sum_filter_index) (auto simp: list_all_iff)
  finally have total: "sum_list (map tb_count (th_buckets h)) = int (length ts)" .
  have pos: "0 < nat n" "nat n \<le> 12" using u(3,4) by simp_all
  have "th_buckets h \<noteq> []" using len pos by auto
  moreover have "tb_from (th_buckets h ! 0) = ?a" using pos nth [of 0] len by (simp add: h count_into_fields)
  moreover have "tb_to (th_buckets h ! (nat n - 1)) = ?b + 1"
    using pos nth [of "nat n - 1"] len by (simp add: h count_into_fields)
  ultimately show ?thesis using each total len pos by (simp add: hd_conv_nth last_conv_nth)
qed

lemma histogram_bucket_total:
  "ts \<noteq> [] \<Longrightarrow> list_all (\<lambda>t. 0 < t \<and> t < 2 ^ 62) ts \<Longrightarrow> buildTimeHistogram ts = Some h \<Longrightarrow>
     sum_list (map tb_count (th_buckets h)) = int (length ts)"
  using histogram_core by blast

text \<open>
  For messages with positive timestamps (below 2 to the 62 ms) the histogram has between
  1 and 12 buckets that start at the earliest timestamp; each bucket counts exactly the
  timestamps in its interval \<open>[from, to)\<close>, and together the buckets count every message once.
\<close>

theorem histogram_counts:
  assumes "ts \<noteq> []" "list_all (\<lambda>t. 0 < t \<and> t < 2 ^ 62) ts"
    and "buildTimeHistogram ts = Some h"
  shows "1 \<le> length (th_buckets h) \<and> length (th_buckets h) \<le> 12
    \<and> tb_from (hd (th_buckets h)) = ts_min ts \<and> tb_to (last (th_buckets h)) = ts_max ts + 1
    \<and> list_all (\<lambda>b. tb_count b = int (length (filter (\<lambda>t. tb_from b \<le> t \<and> t < tb_to b) ts))) (th_buckets h)
    \<and> sum_list (map tb_count (th_buckets h)) = int (length ts)"
  using assms by (rule histogram_core)

theorem histogram_counts_witness:
  "\<exists>h. buildTimeHistogram [5, 7, 5] = Some h \<and> sum_list (map tb_count (th_buckets h)) = 3"
proof -
  have l: "[5, 7, 5] \<noteq> ([]::int list)" "list_all (\<lambda>t::int. 0 < t \<and> t < 2 ^ 62) [5, 7, 5]" by simp_all
  obtain h where h: "buildTimeHistogram [5, 7, 5] = Some h"
    using buildTimeHistogram_unwrapped(1) [OF l refl refl] by blast
  from histogram_counts [OF l h] h show ?thesis by simp
qed

text \<open>
  The last bucket can be inverted: for two messages 12 ms apart it starts at 23 and
  ends at 14, after five empty buckets that lie beyond the latest timestamp.
\<close>

theorem histogram_last_bucket_inverted:
  "map_option (\<lambda>h. map (\<lambda>b. (tb_from b, tb_to b, tb_count b)) (drop 6 (th_buckets h))) (buildTimeHistogram [1, 13])
     = Some [(13, 15, 1), (15, 17, 0), (17, 19, 0), (19, 21, 0), (21, 23, 0), (23, 14, 0)]"
  by code_simp

end
