(* ===== verification/McpAggregate.thy ===== *)
theory McpAggregate
  imports McpDigest
begin

text \<open>
  The rest of \<open>backend/internal/mcp/digest.go\<close>: the projection of JSON paths by path, the
  selection of the largest groups, and \<open>AggregateDigest\<close>. A counting map is an association
  list; the JSON reader and printer are the parameter \<open>jl\<close>.
\<close>

section \<open>JSON paths\<close>

text \<open>\<open>splitIndexSuffix\<close>: \<open>name[2]\<close>, \<open>[2]\<close> or \<open>name\<close>.\<close>

definition splitIndexSuffix :: "string \<Rightarrow> string \<times> int \<times> bool" where
  "splitIndexSuffix segment =
     (case index_byte (CHR ''['') segment of
        None \<Rightarrow> (segment, 0, False)
      | Some opn \<Rightarrow>
          if \<not> suffix '']'' segment then (segment, 0, False)
          else case parse_int (trim_space (take (length segment - 1 - (opn + 1)) (drop (opn + 1) segment))) of
                 None \<Rightarrow> (segment, 0, False)
               | Some number \<Rightarrow> (take opn segment, number, True))"

definition digest_value_string :: "json_lib \<Rightarrow> json \<Rightarrow> string" where
  "digest_value_string jl v = (case v of
      JNull \<Rightarrow> ''null''
    | JStr s \<Rightarrow> s
    | JBool b \<Rightarrow> (if b then ''true'' else ''false'')
    | JNum q \<Rightarrow> jl_float jl q
    | _ \<Rightarrow> jl_marshal jl v)"

text \<open>One step of the walk: the member \<open>name\<close> if there is one, then the element \<open>index\<close>.\<close>

definition path_step :: "string \<Rightarrow> json \<Rightarrow> json option" where
  "path_step segment current =
     (let (name, index, hasIndex) = splitIndexSuffix segment;
          step1 = (if name \<noteq> [] then
                     (case current of JObj object \<Rightarrow> map_of object name | _ \<Rightarrow> None)
                   else Some current);
          step2 = (case step1 of
                     None \<Rightarrow> None
                   | Some c \<Rightarrow>
                       if hasIndex then
                         (case c of JArr array \<Rightarrow>
                            if index < 0 \<or> index \<ge> int (length array) then None else Some (array ! nat index)
                          | _ \<Rightarrow> None)
                       else Some c)
      in if step2 \<noteq> None \<and> name = [] \<and> \<not> hasIndex then None else step2)"

fun path_walk :: "string list \<Rightarrow> json \<Rightarrow> json option" where
  "path_walk [] current = Some current"
| "path_walk (segment # segments) current =
     (case path_step segment current of None \<Rightarrow> None | Some c \<Rightarrow> path_walk segments c)"

definition jsonPathLookup :: "json_lib \<Rightarrow> json \<Rightarrow> string \<Rightarrow> string option" where
  "jsonPathLookup jl doc path =
     (let normalized = trim_prefix ''.'' (trim_space (trim_prefix ''$'' (trim_space path)));
          segments = (if normalized \<noteq> [] then split_on (CHR ''.'') normalized else [])
      in map_option (digest_value_string jl) (path_walk segments doc))"

text \<open>The projected paths of a value text; \<open>None\<close> is the nil map.\<close>

fun project_loop :: "json_lib \<Rightarrow> json \<Rightarrow> string list \<Rightarrow> (string \<times> string) list \<Rightarrow> (string \<times> string) list" where
  "project_loop jl doc [] out = out"
| "project_loop jl doc (field # paths) out =
     project_loop jl doc paths
       (case jsonPathLookup jl doc field of None \<Rightarrow> out | Some v \<Rightarrow> AList.update field v out)"

definition projectFieldValues :: "json_lib \<Rightarrow> string \<Rightarrow> string list \<Rightarrow> (string \<times> string) list option" where
  "projectFieldValues jl valueText paths =
     (if paths = [] \<or> trim_space valueText = [] then None
      else case jl_unmarshal jl valueText of
             None \<Rightarrow> None
           | Some doc \<Rightarrow>
               (let out = project_loop jl doc paths [] in if out = [] then None else Some out))"

section \<open>The largest groups\<close>

definition topGroups :: "(string \<times> int) list \<Rightarrow> int \<Rightarrow> (string \<times> int) list \<times> bool" where
  "topGroups counts limit =
     (if counts = [] \<or> limit \<le> 0 then ([], False)
      else
        let names = sort_key (\<lambda>n. (- count_in counts n, n)) (map fst counts);
            truncated = (int (length names) > limit);
            names = (if truncated then take (nat limit) names else names)
        in (map (\<lambda>n. (n, count_in counts n)) names, truncated))"

lemma count_in_entry: "distinct (map fst counts) \<Longrightarrow> (k, c) \<in> set counts \<Longrightarrow> count_in counts k = c"
  by (simp add: count_in_def)

abbreviation group_names :: "(string \<times> int) list \<Rightarrow> string list" where
  "group_names counts \<equiv> sort_key (\<lambda>n. (- count_in counts n, n)) (map fst counts)"

lemma topGroups_take:
  "topGroups counts limit = (map (\<lambda>n. (n, count_in counts n)) (take (nat limit) (group_names counts)),
     0 < limit \<and> limit < int (length counts))"
  by (auto simp: topGroups_def Let_def)

lemma count_in_pair: "distinct (map fst counts) \<Longrightarrow> n \<in> fst ` set counts \<Longrightarrow> (n, count_in counts n) \<in> set counts"
  by (auto simp: count_in_entry)

text \<open>
  \<open>topGroups\<close> keeps \<open>min(limit, number of groups)\<close> groups with their counts unchanged,
  says whether it dropped any, and every dropped group has a smaller count than each kept
  one, or the same count and a greater name.
\<close>

theorem topGroups_largest:
  assumes "distinct (map fst counts)" "topGroups counts limit = (out, truncated)"
  shows "set out \<subseteq> set counts \<and> distinct (map fst out) \<and> length out = min (nat limit) (length counts)
    \<and> (truncated \<longleftrightarrow> 0 < limit \<and> length out < length counts)
    \<and> (\<forall>(n, c) \<in> set out. \<forall>(n', c') \<in> set counts - set out. c' < c \<or> (c' = c \<and> n < n'))"
proof -
  let ?K = "\<lambda>n. (- count_in counts n, n)" and ?f = "\<lambda>n. (n, count_in counts n)"
  let ?kept = "take (nat limit) (group_names counts)" and ?rest = "drop (nat limit) (group_names counts)"
  have out: "out = map ?f ?kept" "truncated \<longleftrightarrow> 0 < limit \<and> limit < int (length counts)"
    using assms(2) by (simp_all add: topGroups_take)
  have names: "set ?kept \<union> set ?rest = fst ` set counts" "distinct (?kept @ ?rest)"
    using assms(1) set_append [of ?kept ?rest] by (simp_all del: set_append)
  have order: "c' < c \<or> (c' = c \<and> n < n')"
    if "(n, c) \<in> set out" "(n', c') \<in> set counts" "(n', c') \<notin> set out" for n c n' c'
  proof -
    have n: "n \<in> set ?kept" "c = count_in counts n" using that(1) out(1) by auto
    have c': "c' = count_in counts n'" using count_in_entry [OF assms(1) that(2)] by simp
    then have "n' \<notin> set ?kept" using that(3) out(1) by auto
    then have n': "n' \<in> set ?rest" using names(1) that(2) by force
    have "sorted (map ?K (?kept @ ?rest))" by simp
    then have "\<forall>x \<in> set ?kept. \<forall>y \<in> set ?rest. ?K x \<le> ?K y"
      unfolding map_append sorted_append by simp
    then have "?K n \<le> ?K n'" using n(1) n' by blast
    moreover have "n \<noteq> n'" using n(1) \<open>n' \<notin> set ?kept\<close> by auto
    ultimately show ?thesis using n(2) c' by (auto simp: less_eq_prod_def)
  qed
  have sub: "set ?kept \<subseteq> fst ` set counts" using names(1) by blast
  have "?f n \<in> set counts" if "n \<in> set ?kept" for n
    using count_in_pair [OF assms(1), of n] subsetD [OF sub that] by blast
  then have "set out \<subseteq> set counts" unfolding out(1) set_map by blast
  moreover have "distinct (map fst out)" using names(2) out(1) by (simp add: o_def)
  moreover have "length out = min (nat limit) (length counts)" using out(1) by simp
  moreover have "truncated \<longleftrightarrow> 0 < limit \<and> length out < length counts"
    using out by auto
  ultimately show ?thesis using order by blast
qed

theorem topGroups_largest_witness:
  "topGroups [(''a'', 1), (''b'', 3), (''c'', 3)] 2 = ([(''b'', 3), (''c'', 3)], True)
   \<and> set [(''b'', 3), (''c'', 3)] \<subseteq> set [(''a'', 1), (''b'', 3), (''c'', 3::int)]"
proof -
  have e: "topGroups [(''a'', 1), (''b'', 3), (''c'', 3)] 2 = ([(''b'', 3), (''c'', 3)], True)" by code_simp
  have d: "distinct (map fst [(''a'', 1), (''b'', 3), (''c'', 3::int)])" by simp
  show ?thesis using topGroups_largest [OF d e] e by blast
qed

section \<open>AggregateDigest\<close>

record digest_input =
  di_messages :: "consumed_message list"
  di_topic :: string
  di_fields :: "string list"
  di_width :: int
  di_group_limit :: int
  di_top_n :: int
  di_sample_rows :: int

record field_stats =
  fs_field :: string
  fs_value_count :: int
  fs_values :: "(string \<times> int) list"
  fs_truncated :: bool

record digest_stats =
  ds_per_partition :: "(string \<times> int) list"
  ds_per_partition_limit :: bool
  ds_keys :: "(string \<times> int) list"
  ds_keys_limit :: bool
  ds_null_keys :: int
  ds_histogram :: "time_histogram option"
  ds_fields :: "field_stats list"

record digest_result =
  dr_matched :: int
  dr_stats :: digest_stats
  dr_sample :: "json_obj list"
  dr_rows :: "cursor_row list"

definition binary_key :: string where
  "binary_key = ''(binary key)''"

text \<open>\<open>key := message.Key; if key == "" && message.KeyBase64 != "" { key = "(binary key)" }\<close>\<close>

definition digest_key :: "consumed_message \<Rightarrow> string" where
  "digest_key message =
     (if m_key message = [] \<and> m_key_base64 message \<noteq> [] then binary_key else m_key message)"

text \<open>\<open>for field, value := range values { fieldCounts[field][value]++ }\<close>\<close>

fun count_fields :: "(string \<times> string) list \<Rightarrow> (string \<Rightarrow> (string \<times> int) list) \<Rightarrow> (string \<Rightarrow> (string \<times> int) list)" where
  "count_fields [] fc = fc"
| "count_fields ((field, v) # vs) fc = count_fields vs (fc(field := bump v (fc field)))"

record digest_acc =
  da_partitions :: "(string \<times> int) list"
  da_keys :: "(string \<times> int) list"
  da_null_keys :: int
  da_timestamps :: "int list"
  da_no_timestamp :: int
  da_fields :: "string \<Rightarrow> (string \<times> int) list"

text \<open>One round of the loop over the matched messages.\<close>

definition digest_round :: "json_lib \<Rightarrow> string list \<Rightarrow> digest_acc \<Rightarrow> consumed_message \<Rightarrow> digest_acc" where
  "digest_round jl paths acc message =
     (let acc = acc\<lparr>da_partitions := bump (format_int (m_partition message)) (da_partitions acc)\<rparr>;
          key = digest_key message;
          acc = (if trim_space key = [] then acc\<lparr>da_null_keys := da_null_keys acc + 1\<rparr>
                 else acc\<lparr>da_keys := bump key (da_keys acc)\<rparr>);
          acc = (if m_timestamp message > 0
                 then acc\<lparr>da_timestamps := da_timestamps acc @ [m_timestamp message]\<rparr>
                 else acc\<lparr>da_no_timestamp := da_no_timestamp acc + 1\<rparr>)
      in if paths \<noteq> [] then
           (case projectFieldValues jl (m_value_text message) paths of
              None \<Rightarrow> acc
            | Some values \<Rightarrow> acc\<lparr>da_fields := count_fields values (da_fields acc)\<rparr>)
         else acc)"

definition digest_start :: digest_acc where
  "digest_start = \<lparr>da_partitions = [], da_keys = [], da_null_keys = 0, da_timestamps = [],
     da_no_timestamp = 0, da_fields = (\<lambda>_. [])\<rparr>"

definition truncate_values :: "int \<Rightarrow> (string \<times> string) list \<Rightarrow> (string \<times> string) list" where
  "truncate_values width values = map (\<lambda>(f, v). (f, DigestCellTruncate v width)) values"

definition cursorRowOf :: "json_lib \<Rightarrow> consumed_message \<Rightarrow> string list \<Rightarrow> int \<Rightarrow> cursor_row" where
  "cursorRowOf jl message paths width =
     \<lparr>cr_topic = m_topic message, cr_partition = m_partition message, cr_offset = m_offset message,
      cr_key = DigestCellTruncate (digest_key message) width,
      cr_fields = (if paths \<noteq> []
                   then map_option (truncate_values width) (projectFieldValues jl (m_value_text message) paths)
                   else None)\<rparr>"

definition digestDecodeErrorWidth :: int where
  "digestDecodeErrorWidth = 200"

definition jint :: "int \<Rightarrow> json" where
  "jint n = JNum (of_int n)"

definition projectMessage :: "json_lib \<Rightarrow> consumed_message \<Rightarrow> string list \<Rightarrow> int \<Rightarrow> json_obj" where
  "projectMessage jl message paths width =
     [(''topic'', JStr (m_topic message)), (''partition'', jint (m_partition message)),
      (''offset'', jint (m_offset message))]
     @ (if m_timestamp message > 0 then [(''timestamp'', jint (m_timestamp message))] else [])
     @ [(''key'', JStr (DigestCellTruncate (digest_key message) width))]
     @ (if m_truncated message
        then [(''value'', JStr (''(value truncated at 512KB; locate via topic='' @ m_topic message
                @ '' partition='' @ format_int (m_partition message)
                @ '' offset='' @ format_int (m_offset message) @ '')'')),
              (''valueOmitted'', JBool True)]
        else [(''value'', JStr (DigestCellTruncate (m_value_text message) width))])
     @ (if paths \<noteq> []
        then (case projectFieldValues jl (m_value_text message) paths of
                None \<Rightarrow> []
              | Some values \<Rightarrow> [(''fields'', JObj (map (\<lambda>(f, v). (f, JStr v)) (truncate_values width values)))])
        else [])
     @ (if m_schema_id message > 0
        then [(''schemaId'', jint (m_schema_id message))]
             @ (if m_schema_subject message \<noteq> [] then [(''schemaSubject'', JStr (m_schema_subject message))] else [])
             @ (if m_schema_version message > 0 then [(''schemaVersion'', jint (m_schema_version message))] else [])
        else [])
     @ (if m_decode_error message \<noteq> []
        then [(''decodeError'', JStr (DigestCellTruncate (m_decode_error message) digestDecodeErrorWidth))]
        else [])"

definition digest_histogram :: "int list \<Rightarrow> int \<Rightarrow> time_histogram option" where
  "digest_histogram timestamps noTimestamp =
     (case buildTimeHistogram timestamps of
        Some h \<Rightarrow> Some (h\<lparr>th_no_timestamp := noTimestamp\<rparr>)
      | None \<Rightarrow> if noTimestamp > 0 then Some \<lparr>th_buckets = [], th_no_timestamp = noTimestamp\<rparr> else None)"

definition AggregateDigest :: "json_lib \<Rightarrow> digest_input \<Rightarrow> digest_result" where
  "AggregateDigest jl input =
     (let messages = di_messages input;
          acc = foldl (digest_round jl (di_fields input)) digest_start messages;
          (perPartition, perPartitionLimit) = topGroups (da_partitions acc) (di_group_limit input);
          (keys, keysLimit) = topGroups (da_keys acc) (di_group_limit input);
          field_rows = map (\<lambda>field.
            let counts = da_fields acc field; (values, truncated) = topGroups counts (di_top_n input)
            in \<lparr>fs_field = field, fs_value_count = int (length counts), fs_values = values,
                fs_truncated = truncated\<rparr>) (di_fields input);
          sampleRows = (if di_sample_rows input \<le> 0 then 5 else di_sample_rows input);
          sampleRows = (if sampleRows > int (length messages) then int (length messages) else sampleRows)
      in \<lparr>dr_matched = int (length messages),
          dr_stats = \<lparr>ds_per_partition = perPartition, ds_per_partition_limit = perPartitionLimit,
                      ds_keys = keys, ds_keys_limit = keysLimit, ds_null_keys = da_null_keys acc,
                      ds_histogram = digest_histogram (da_timestamps acc) (da_no_timestamp acc),
                      ds_fields = field_rows\<rparr>,
          dr_sample = map (\<lambda>m. projectMessage jl m (di_fields input) (di_width input)) (take (nat sampleRows) messages),
          dr_rows = map (\<lambda>m. cursorRowOf jl m (di_fields input) (di_width input)) messages\<rparr>)"

section \<open>Nothing is lost in the aggregation\<close>

abbreviation total :: "('k \<times> int) list \<Rightarrow> int" where
  "total m \<equiv> sum_list (map snd m)"

lemma total_update: "total (AList.update k v m) = total m + v - count_in m k"
  by (induction m) (auto simp: count_in_def)

lemma total_bump [simp]: "total (bump k m) = total m + 1"
  by (simp add: bump_def total_update) (simp add: count_in_def)

lemma total_topGroups:
  assumes "distinct (map fst counts)" "0 < limit" "\<not> snd (topGroups counts limit)"
  shows "total (fst (topGroups counts limit)) = total counts"
proof -
  have "take (nat limit) (group_names counts) = group_names counts"
    using assms(2,3) by (simp add: topGroups_take)
  then have "total (fst (topGroups counts limit)) = sum_list (map (count_in counts) (group_names counts))"
    by (simp add: topGroups_take o_def)
  also have "\<dots> = sum_list (map (count_in counts) (map fst counts))"
    using assms(1) by (simp only: sum_list_distinct_conv_sum_set distinct_sort set_sort)
  also have "map (count_in counts) (map fst counts) = map snd counts"
    using assms(1) by (auto simp: count_in_entry)
  finally show ?thesis .
qed

definition has_key :: "consumed_message \<Rightarrow> bool" where
  "has_key message \<longleftrightarrow> trim_space (digest_key message) \<noteq> []"

definition digest_inv :: "consumed_message list \<Rightarrow> digest_acc \<Rightarrow> bool" where
  "digest_inv ms acc \<longleftrightarrow>
     distinct (map fst (da_partitions acc)) \<and> distinct (map fst (da_keys acc))
     \<and> total (da_partitions acc) = int (length ms)
     \<and> total (da_keys acc) = int (length (filter has_key ms))
     \<and> da_null_keys acc = int (length (filter (\<lambda>m. \<not> has_key m) ms))
     \<and> (\<forall>p. count_in (da_partitions acc) p = int (length (filter (\<lambda>m. format_int (m_partition m) = p) ms)))
     \<and> (\<forall>k. count_in (da_keys acc) k = int (length (filter (\<lambda>m. has_key m \<and> digest_key m = k) ms)))
     \<and> da_timestamps acc = map m_timestamp (filter (\<lambda>m. m_timestamp m > 0) ms)
     \<and> da_no_timestamp acc = int (length (filter (\<lambda>m. \<not> m_timestamp m > 0) ms))"

lemma digest_round_fields:
  "da_partitions (digest_round jl ps acc m) = bump (format_int (m_partition m)) (da_partitions acc)"
  "da_keys (digest_round jl ps acc m) = (if has_key m then bump (digest_key m) (da_keys acc) else da_keys acc)"
  "da_null_keys (digest_round jl ps acc m) = (if has_key m then da_null_keys acc else da_null_keys acc + 1)"
  "da_timestamps (digest_round jl ps acc m)
     = (if m_timestamp m > 0 then da_timestamps acc @ [m_timestamp m] else da_timestamps acc)"
  "da_no_timestamp (digest_round jl ps acc m)
     = (if m_timestamp m > 0 then da_no_timestamp acc else da_no_timestamp acc + 1)"
  by (simp_all add: digest_round_def Let_def has_key_def split: option.splits)

lemma digest_inv_round: "digest_inv ms acc \<Longrightarrow> digest_inv (ms @ [m]) (digest_round jl ps acc m)"
  by (simp add: digest_inv_def digest_round_fields distinct_bump count_in_bump)

lemma digest_inv_run: "digest_inv ms (foldl (digest_round jl ps) digest_start ms)"
proof (induction ms rule: rev_induct)
  case Nil
  show ?case by (simp add: digest_inv_def digest_start_def)
next
  case (snoc m ms)
  then show ?case by (simp add: digest_inv_round)
qed

lemma buildTimeHistogram_None_iff [simp]: "buildTimeHistogram ts = None \<longleftrightarrow> ts = []"
  by (simp add: buildTimeHistogram_def Let_def)

lemma histogram_total:
  assumes "list_all (\<lambda>t. 0 < t \<and> t < 2 ^ 62) ts"
  shows "(case digest_histogram ts n of None \<Rightarrow> 0
      | Some h \<Rightarrow> sum_list (map tb_count (th_buckets h)) + th_no_timestamp h) = int (length ts) + (if ts = [] \<and> n \<le> 0 then 0 else n)"
proof (cases "ts = []")
  case True
  then show ?thesis by (simp add: digest_histogram_def buildTimeHistogram_def)
next
  case False
  then obtain h where h: "buildTimeHistogram ts = Some h" by (cases "buildTimeHistogram ts") auto
  have "sum_list (map tb_count (th_buckets h)) = int (length ts)"
    by (rule histogram_bucket_total [OF False assms h])
  then show ?thesis using False h by (simp add: digest_histogram_def)
qed

text \<open>The groups that are counted are those that occur.\<close>

lemma bump_keys: "fst ` set (bump k m) = insert k (fst ` set m)"
  by (simp add: bump_def dom_update)

lemma digest_groups:
  "fst ` set (da_partitions (foldl (digest_round jl ps) digest_start ms)) = (\<lambda>m. format_int (m_partition m)) ` set ms
   \<and> fst ` set (da_keys (foldl (digest_round jl ps) digest_start ms)) = digest_key ` {m \<in> set ms. has_key m}"
proof (induction ms rule: rev_induct)
  case Nil
  show ?case by (simp add: digest_start_def)
next
  case (snoc m ms)
  then show ?case by (auto simp: digest_round_fields bump_keys)
qed

lemma topGroups_flag:
  "distinct (map fst counts) \<Longrightarrow> snd (topGroups counts limit) \<longleftrightarrow> 0 < limit \<and> limit < int (card (fst ` set counts))"
  using distinct_card [of "map fst counts"] by (simp add: topGroups_take)

lemma topGroups_counts: "(k, c) \<in> set (fst (topGroups counts limit)) \<Longrightarrow> c = count_in counts k"
  by (auto simp: topGroups_take)


definition sample_message :: "string \<Rightarrow> int \<Rightarrow> int \<Rightarrow> consumed_message" where
  "sample_message k p t =
     \<lparr>m_topic = ''orders'', m_partition = p, m_offset = 7, m_timestamp = t, m_leader_epoch = 0,
      m_key = k, m_key_base64 = [], m_value_text = ''v'', m_value_base64 = [], m_headers = None,
      m_truncated = False, m_committed = False, m_decode_error = [], m_schema_id = 0,
      m_schema_subject = [], m_schema_version = 0\<rparr>"

definition sample_digest_input :: digest_input where
  "sample_digest_input =
     \<lparr>di_messages = [sample_message ''a'' 0 1000, sample_message [] 1 0, sample_message ''a'' 1 5000],
      di_topic = ''orders'', di_fields = [], di_width = 80, di_group_limit = 20, di_top_n = 10,
      di_sample_rows = 2\<rparr>"


end
