(* ===== verification/KafkaConsume.thy ===== *)
theory KafkaConsume
  imports KafkaTypes
begin

text \<open>
  The parameters of a consumption, from \<open>kafkaconn/messages.go\<close>: normalisation of partitions
  and offsets, the starting position, and the options the consumer client is built with.
  \<open>kgo_offset\<close> and \<open>kgo_opt\<close> are the calls the code makes on the client library, kept as
  data. A Go map is an association list with distinct keys. \<open>rfc3339\<close> stands for
  \<open>time.Parse(time.RFC3339, \<dots>)\<close> followed by \<open>UnixMilli\<close> (None: rejected).
\<close>

section \<open>Partitions and offsets\<close>

text \<open>\<open>validateRange\<close> names the fields; a nil pointer is None.\<close>

definition validateRange :: "int option \<Rightarrow> int option \<Rightarrow> string \<Rightarrow> unit res" where
  "validateRange from' to' name =
     (case (from', to') of
        (Some a, Some b) \<Rightarrow>
          if a > b then Inl (Errf ''%sFrom must be less than or equal to %sTo'' [name, name]) else Inr ()
      | _ \<Rightarrow> Inr ())"

definition negative_partition :: goerr where
  "negative_partition = Errf ''partition must be greater than or equal to 0'' []"

fun partitions_loop :: "int list \<Rightarrow> int list \<Rightarrow> int list res" where
  "partitions_loop seen [] = Inr []"
| "partitions_loop seen (p # ps) =
     (if p < 0 then Inl negative_partition
      else if p \<in> set seen then partitions_loop seen ps
      else ebind (partitions_loop (p # seen) ps) (\<lambda>rest. Inr (p # rest)))"

definition normalizeConsumePartitions :: "int list \<Rightarrow> int list res" where
  "normalizeConsumePartitions partitions =
     (if partitions = [] then Inr [] else ebind (partitions_loop [] partitions) (\<lambda>r. Inr (sort r)))"

fun normalizeConsumePartitionOffsets :: "(int \<times> int) list \<Rightarrow> (int \<times> int) list res" where
  "normalizeConsumePartitionOffsets [] = Inr []"
| "normalizeConsumePartitionOffsets ((p, off) # rest) =
     (if p < 0 then Inl negative_partition
      else if off < 0 then Inl (Errf ''offset for partition %d must be greater than or equal to 0'' [format_int p])
      else ebind (normalizeConsumePartitionOffsets rest) (\<lambda>m. Inr ((p, off) # m)))"

definition offsetPartitions :: "(int \<times> int) list \<Rightarrow> int list" where
  "offsetPartitions offsets = sort (map fst offsets)"

definition normalizeOffsetStrategyName :: "string \<Rightarrow> string" where
  "normalizeOffsetStrategyName strategy =
     (let s = word_of strategy in
        if s \<in> set [''offset'', ''absolute'', ''absolute-offset'', ''absolute_offset''] then ''offset'' else s)"

definition usesExactOffsets :: "string \<Rightarrow> (int \<times> int) list \<Rightarrow> bool" where
  "usesExactOffsets strategy offsets \<longleftrightarrow> offsets \<noteq> [] \<or> normalizeOffsetStrategyName strategy = ''offset''"

definition parseTimestampMillis :: "(string \<Rightarrow> int option) \<Rightarrow> string \<Rightarrow> int res" where
  "parseTimestampMillis rfc3339 value =
     (let raw = trim_space value; negative = Errf ''offsetTime must be greater than or equal to 0'' [] in
        if raw = [] then Inl (Errf ''offsetTime is required for timestamp offset strategy'' [])
        else (case parse_int raw of
                Some parsed \<Rightarrow> if parsed < 0 then Inl negative else Inr parsed
              | None \<Rightarrow> (case rfc3339 raw of
                          Some millis \<Rightarrow> if millis < 0 then Inl negative else Inr millis
                        | None \<Rightarrow> Inl (Errf ''offsetTime must be unix milliseconds or RFC3339'' []))))"

section \<open>Scan limits\<close>

definition consumeMaxScanRecords :: "int \<Rightarrow> int \<Rightarrow> int" where
  "consumeMaxScanRecords limit maxScan =
     (if maxScan > 0 then maxScan
      else
        let scanLimit = i64 (limit * 10);
            scanLimit = (if scanLimit < 1000 then 1000 else scanLimit)
        in if scanLimit < limit then limit else scanLimit)"

definition consumeScanBatchSize :: "int \<Rightarrow> int" where
  "consumeScanBatchSize remaining =
     (if remaining < 256 then (if remaining > 0 then remaining else 1) else 256)"

section \<open>Where to start\<close>

datatype kgo_offset =
    NoOffset                 \<comment> \<open>\<open>kgo.Offset{}\<close>\<close>
  | AtStart
  | AtEnd
  | AtEndRelative int
  | AfterMilli int
  | AtCommitted
  | At int

definition consumeOffset ::
  "(string \<Rightarrow> int option) \<Rightarrow> string \<Rightarrow> string \<Rightarrow> bool \<Rightarrow> bool \<Rightarrow> int \<Rightarrow> kgo_offset res" where
  "consumeOffset rfc3339 strategy offsetTime hasGroup directPartitions recentWindow =
     (let raw = word_of strategy in
        if raw = [] \<or> raw = ''default'' then Inr (if directPartitions then AtStart else NoOffset)
        else if raw \<in> set [''latest'', ''end''] then Inr AtEnd
        else if raw \<in> set [''recent'', ''last''] then
          Inr (AtEndRelative (- (if recentWindow < 1 then 1 else recentWindow)))
        else if raw \<in> set [''earliest'', ''start''] then Inr AtStart
        else if raw \<in> set [''timestamp'', ''time'', ''by-time'', ''by_time''] then
          ebind (parseTimestampMillis rfc3339 offsetTime) (\<lambda>millis. Inr (AfterMilli millis))
        else if raw \<in> set [''committed'', ''none''] then
          (if \<not> hasGroup then Inl (Errf ''committed offset strategy requires groupId'' [])
           else if directPartitions
           then Inl (Errf ''committed offset strategy cannot be combined with partitions'' [])
           else Inr AtCommitted)
        else Inl (Errf ''offsetStrategy must be latest, recent, earliest, committed, timestamp, or offset'' []))"

section \<open>Client options\<close>

datatype isolation = ReadUncommitted | ReadCommitted

definition isolationLevelValue :: "string \<Rightarrow> isolation res" where
  "isolationLevelValue level =
     (let l = word_of level in
        if l \<in> set [[], ''read_uncommitted''] then Inr ReadUncommitted
        else if l = ''read_committed'' then Inr ReadCommitted
        else Inl (Errf ''isolationLevel must be read_uncommitted or read_committed'' []))"

datatype delivery_opt = DisableIdempotentWrite | RequiredAcksLeader | RequiredAcksAllISR

datatype kgo_opt =
    FetchIsolationLevel isolation
  | DisableAutoCommit
  | ConsumePartitions string "(int \<times> kgo_offset) list"
  | ConsumeTopics string
  | ConsumerGroup string
  | ConsumeStartOffset kgo_offset
  | ConsumeResetOffset kgo_offset
  | ManualPartitioner
  | ProducerBatchCompression string
  | DeliveryOpt delivery_opt

text \<open>The loop that fills \<open>topicPartitions\<close>.\<close>

fun exact_loop :: "string \<Rightarrow> (int \<times> int) list \<Rightarrow> int list \<Rightarrow> (int \<times> kgo_offset) list \<Rightarrow> (int \<times> kgo_offset) list res" where
  "exact_loop strategy offsets [] m = Inr m"
| "exact_loop strategy offsets (p # ps) m =
     (case map_of offsets p of
        None \<Rightarrow>
          if normalizeOffsetStrategyName strategy = ''offset''
          then Inl (Errf ''offset for partition %d is required'' [format_int p])
          else exact_loop strategy offsets ps (AList.update p AtStart m)
      | Some off \<Rightarrow> exact_loop strategy offsets ps (AList.update p (At off) m))"

definition partitionOffsetMap :: "int list \<Rightarrow> kgo_offset \<Rightarrow> (int \<times> kgo_offset) list" where
  "partitionOffsetMap partitions offset = foldl (\<lambda>m p. AList.update p offset m) [] partitions"

definition buildConsumeOpts ::
  "(string \<Rightarrow> int option) \<Rightarrow> consume_params \<Rightarrow> string \<Rightarrow> string \<Rightarrow> int list \<Rightarrow> (int \<times> int) list \<Rightarrow> isolation
     \<Rightarrow> kgo_opt list res" where
  "buildConsumeOpts rfc3339 params topic groupID partitions partitionOffsets isolation =
     (let recentWindow = consumeMaxScanRecords (cp_limit params) (cp_max_scan params);
          strategy = cp_offset_strategy params;
          opts = FetchIsolationLevel isolation # (if groupID \<noteq> [] then [DisableAutoCommit] else [])
      in if partitions \<noteq> [] then
           (if usesExactOffsets strategy partitionOffsets then
              ebind (exact_loop strategy partitionOffsets partitions []) (\<lambda>m.
              Inr (opts @ [ConsumePartitions topic m]))
            else
              ebind (consumeOffset rfc3339 strategy (cp_offset_time params) False True recentWindow) (\<lambda>offset.
              Inr (opts @ [ConsumePartitions topic (partitionOffsetMap partitions offset)])))
         else if normalizeOffsetStrategyName strategy = ''offset'' \<and> partitionOffsets = []
         then Inl (Errf ''offset strategy requires partitions or partitionOffsets'' [])
         else
           let opts = opts @ [ConsumeTopics topic] @ (if groupID \<noteq> [] then [ConsumerGroup groupID] else []) in
           if \<not> blank strategy \<and> normalizeOffsetStrategyName strategy \<noteq> ''default'' then
             ebind (consumeOffset rfc3339 strategy (cp_offset_time params) (groupID \<noteq> []) False recentWindow) (\<lambda>offset.
             Inr (opts @ [ConsumeStartOffset offset, ConsumeResetOffset offset]))
           else Inr opts)"

section \<open>Producing\<close>

definition normalizeProduceCount :: "int \<Rightarrow> int" where
  "normalizeProduceCount count =
     (let count = (if count \<le> 0 then 1 else count) in if count > 1000 then 1000 else count)"

definition produceCompressionCodec :: "string \<Rightarrow> string option res" where
  "produceCompressionCodec method =
     (let m = word_of method in
        if m \<in> set [[], ''none''] then Inr None
        else if m \<in> set [''gzip'', ''lz4'', ''zstd'', ''snappy''] then Inr (Some m)
        else Inl (Errf ''compression must be none, gzip, lz4, zstd, or snappy'' []))"

definition normalizeProduceAcks :: "string \<Rightarrow> string res" where
  "normalizeProduceAcks value =
     (let v = word_of value in
        if v \<in> set [[], ''all'', ''-1''] then Inr ''all''
        else if v \<in> set [''1'', ''leader''] then Inr ''1''
        else if v \<in> set [''0'', ''none''] then
          Inl (Errf ''acks=0 is not supported: synchronous produce waits for broker responses (use acks \"all\" or \"1\")'' [])
        else Inl (Errf ''acks must be \"all\" or \"1\"'' []))"

definition produceDeliveryOpts :: "string \<Rightarrow> bool option \<Rightarrow> delivery_opt list res" where
  "produceDeliveryOpts acks enableIdempotence =
     (let idempotent = (enableIdempotence = None \<or> enableIdempotence = Some True) in
        if acks = ''1'' then
          (if idempotent
           then Inl (Errf ''idempotent producer requires acks=all (set enableIdempotence=false for acks=1)'' [])
           else Inr [DisableIdempotentWrite, RequiredAcksLeader])
        else if \<not> idempotent then Inr [DisableIdempotentWrite, RequiredAcksAllISR]
        else Inr [])"

section \<open>Exact starting positions\<close>

lemma partitions_loop_spec:
  "partitions_loop seen ps = Inr r \<Longrightarrow> set r = set ps - set seen \<and> distinct r \<and> (\<forall>p \<in> set ps. 0 \<le> p)"
proof (induction ps arbitrary: seen r)
  case (Cons p ps)
  show ?case
  proof (cases "p \<in> set seen")
    case True
    then show ?thesis using Cons by (auto split: if_splits)
  next
    case False
    then obtain r' where "partitions_loop (p # seen) ps = Inr r'" "r = p # r'" "0 \<le> p"
      using Cons.prems by (auto simp: ebind_Inr_iff split: if_splits)
    then show ?thesis using Cons.IH False by fastforce
  qed
qed simp

lemma normalizeConsumePartitions_spec:
  assumes "normalizeConsumePartitions ps = Inr r"
  shows "set r = set ps \<and> sorted r \<and> distinct r \<and> (\<forall>p \<in> set ps. 0 \<le> p)"
  using assms partitions_loop_spec [of "[]" ps]
  by (auto simp: normalizeConsumePartitions_def ebind_Inr_iff split: if_splits)

text \<open>Where a partition starts when exact offsets are used.\<close>

definition exact_start :: "(int \<times> int) list \<Rightarrow> int \<Rightarrow> kgo_offset" where
  "exact_start offsets p = (case map_of offsets p of Some off \<Rightarrow> At off | None \<Rightarrow> AtStart)"

lemma exact_loop_spec:
  "exact_loop strategy offsets ps m = Inr m' \<Longrightarrow>
     map_of m' p = (if p \<in> set ps then Some (exact_start offsets p) else map_of m p)
     \<and> (normalizeOffsetStrategyName strategy = ''offset'' \<longrightarrow> set ps \<subseteq> dom (map_of offsets))"
proof (induction ps arbitrary: m)
  case (Cons q ps)
  show ?case
  proof (cases "map_of offsets q")
    case None
    then have n: "normalizeOffsetStrategyName strategy \<noteq> ''offset''"
      "exact_loop strategy offsets ps (AList.update q AtStart m) = Inr m'"
      using Cons.prems by (auto split: if_splits)
    show ?thesis using Cons.IH [OF n(2)] n(1) None by (auto simp: update_conv exact_start_def)
  next
    case (Some off)
    then have n: "exact_loop strategy offsets ps (AList.update q (At off) m) = Inr m'"
      using Cons.prems by simp
    show ?thesis using Cons.IH [OF n] Some by (auto simp: update_conv exact_start_def)
  qed
qed simp

lemma exact_loop_fails:
  "exact_loop strategy offsets ps m = Inl e \<Longrightarrow>
     normalizeOffsetStrategyName strategy = ''offset'' \<and> (\<exists>p \<in> set ps. map_of offsets p = None)"
  by (induction ps arbitrary: m) (auto split: option.splits if_splits)

text \<open>
  A consumption with partitions and exact offsets starts every requested partition, and
  only those, at the offset given for it, and at the start when none is given. It is refused
  exactly when the strategy is \<open>offset\<close> and a requested partition has no offset.
\<close>

theorem exact_offsets_start:
  assumes "normalizeConsumePartitions (cp_partitions p) = Inr ps" "ps \<noteq> []"
    and "usesExactOffsets (cp_offset_strategy p) offsets"
  shows "(case buildConsumeOpts rfc3339 p topic g ps offsets lvl of
      Inl e \<Rightarrow> normalizeOffsetStrategyName (cp_offset_strategy p) = ''offset''
              \<and> (\<exists>q \<in> set (cp_partitions p). map_of offsets q = None)
    | Inr opts \<Rightarrow> (\<exists>m. ConsumePartitions topic m \<in> set opts
              \<and> map_of m = (\<lambda>q. if q \<in> set (cp_partitions p) then Some (exact_start offsets q) else None))
          \<and> \<not> (normalizeOffsetStrategyName (cp_offset_strategy p) = ''offset''
              \<and> (\<exists>q \<in> set (cp_partitions p). map_of offsets q = None)))"
proof -
  have set_ps: "set ps = set (cp_partitions p)" using normalizeConsumePartitions_spec [OF assms(1)] by simp
  let ?s = "cp_offset_strategy p"
  show ?thesis
  proof (cases "exact_loop ?s offsets ps []")
    case (Inl e)
    then have "buildConsumeOpts rfc3339 p topic g ps offsets lvl = Inl e"
      using assms(2,3) by (simp add: buildConsumeOpts_def Let_def)
    then show ?thesis using exact_loop_fails [OF Inl] set_ps by simp
  next
    case (Inr m)
    then have b: "buildConsumeOpts rfc3339 p topic g ps offsets lvl
        = Inr (FetchIsolationLevel lvl # (if g \<noteq> [] then [DisableAutoCommit] else []) @ [ConsumePartitions topic m])"
      using assms(2,3) by (simp add: buildConsumeOpts_def Let_def)
    have "map_of m = (\<lambda>q. if q \<in> set (cp_partitions p) then Some (exact_start offsets q) else None)"
      using exact_loop_spec [OF Inr] set_ps by auto
    moreover have "\<not> (normalizeOffsetStrategyName ?s = ''offset'' \<and> (\<exists>q \<in> set (cp_partitions p). map_of offsets q = None))"
      using exact_loop_spec [OF Inr] set_ps by (auto simp: dom_def)
    ultimately show ?thesis unfolding b by auto
  qed
qed

theorem exact_offsets_start_witness:
  "\<exists>p. cp_partitions p = [3, 1, 3] \<and> (case buildConsumeOpts (\<lambda>_. None) p ''orders'' [] [1, 3] [(1, 42)] ReadUncommitted of
      Inl e \<Rightarrow> False
    | Inr opts \<Rightarrow> \<exists>m. ConsumePartitions ''orders'' m \<in> set opts \<and> map_of m 1 = Some (At 42) \<and> map_of m 3 = Some AtStart)"
proof -
  let ?p = "(base_params ''c'' ''orders'')\<lparr>cp_partitions := [3, 1, 3]\<rparr>"
  have n: "normalizeConsumePartitions (cp_partitions ?p) = Inr [1, 3]" by code_simp
  have u: "usesExactOffsets (cp_offset_strategy ?p) [(1, 42)]" by (simp add: usesExactOffsets_def)
  have s: "normalizeOffsetStrategyName (cp_offset_strategy ?p) \<noteq> ''offset''" by (simp add: base_params_def normalizeOffsetStrategyName_def)
  show ?thesis
    using exact_offsets_start [OF n _ u, where ?rfc3339.0 = "\<lambda>_. None" and topic = "''orders''" and g = "[]"
        and lvl = ReadUncommitted] s
    by (intro exI [of _ ?p]) (auto simp: exact_start_def split: sum.splits)
qed

text \<open>
  Partitions and a consumer group together: the options turn off automatic commits but
  name no consumer group, a combination the client library refuses (as the comment above
  the option says). The parameter check that the comment on \<open>validateConsumeParams\<close> promises
  for this combination does not exist.
\<close>

theorem partitions_drop_group:
  assumes "buildConsumeOpts rfc3339 p topic g ps offsets lvl = Inr opts" "ps \<noteq> []" "g \<noteq> []"
  shows "DisableAutoCommit \<in> set opts \<and> (\<forall>h. ConsumerGroup h \<notin> set opts)"
  using assms by (auto simp: buildConsumeOpts_def Let_def ebind_Inr_iff split: if_splits)

theorem partitions_drop_group_witness:
  "\<exists>opts. buildConsumeOpts (\<lambda>_. None) (base_params ''c'' ''orders'') ''orders'' ''g'' [0] [] ReadUncommitted = Inr opts
     \<and> DisableAutoCommit \<in> set opts \<and> (\<forall>h. ConsumerGroup h \<notin> set opts)"
proof -
  obtain opts where o: "buildConsumeOpts (\<lambda>_. None) (base_params ''c'' ''orders'') ''orders'' ''g'' [0] [] ReadUncommitted = Inr opts"
    by (auto simp: buildConsumeOpts_def Let_def usesExactOffsets_def base_params_def normalizeOffsetStrategyName_def consumeOffset_def)
  show ?thesis using partitions_drop_group [OF o] o by auto
qed

end
