(* ===== verification/KafkaFilter.thy ===== *)
theory KafkaFilter
  imports KafkaConsume
begin

text \<open>
  The filters of a consumption, from \<open>kafkaconn/messages.go\<close>: the text matcher, the field
  filters, JSON paths, and the validation of the parameters. Case folding of arbitrary text,
  regular expressions and \<open>strconv.ParseFloat\<close> are the parameter \<open>tx\<close>; reading and printing
  JSON is \<open>jl\<close>.
\<close>

section \<open>Text matching\<close>

datatype go_float = Finite rat | PosInf | NegInf | NotANumber

fun float_less :: "go_float \<Rightarrow> go_float \<Rightarrow> bool" where
  "float_less (Finite a) (Finite b) = (a < b)"
| "float_less NegInf b = (b = PosInf \<or> (case b of Finite _ \<Rightarrow> True | _ \<Rightarrow> False))"
| "float_less (Finite a) b = (b = PosInf)"
| "float_less _ _ = False"

definition float_le :: "go_float \<Rightarrow> go_float \<Rightarrow> bool" where
  "float_le a b \<longleftrightarrow> float_less a b \<or> (a = b \<and> a \<noteq> NotANumber)"

record text_lib =
  tx_lower :: "string \<Rightarrow> string"                        \<comment> \<open>\<open>strings.ToLower\<close>\<close>
  tx_equal_fold :: "string \<Rightarrow> string \<Rightarrow> bool"            \<comment> \<open>\<open>strings.EqualFold\<close>\<close>
  tx_regexp :: "string \<Rightarrow> (string \<Rightarrow> bool) option"      \<comment> \<open>\<open>regexp.Compile\<close>, \<open>MatchString\<close>\<close>
  tx_float :: "string \<Rightarrow> go_float option"               \<comment> \<open>\<open>strconv.ParseFloat\<close>\<close>

record text_matcher =
  tm_mode :: string
  tm_patterns :: "string \<rightharpoonup> (string \<Rightarrow> bool)"

definition normalizeMatchMode :: "string \<Rightarrow> string res" where
  "normalizeMatchMode mode =
     (let m = word_of mode in
        if m \<in> set [[], ''contains''] then Inr ''contains''
        else if m \<in> set [''prefix'', ''starts_with'', ''starts-with''] then Inr ''prefix''
        else if m \<in> set [''exact'', ''equals''] then Inr ''exact''
        else if m \<in> set [''regex'', ''regexp''] then Inr ''regex''
        else Inl (Errf ''matchMode must be contains, prefix, exact, or regex'' []))"

definition normalizeFieldSource :: "string \<Rightarrow> string res" where
  "normalizeFieldSource source =
     (let s = word_of source in
        if s \<in> set [[], ''value'', ''payload'', ''message''] then Inr ''value''
        else if s = ''key'' then Inr ''key''
        else if s \<in> set [''header'', ''headers''] then Inr ''header''
        else if s \<in> set [''topic'', ''partition'', ''offset'', ''timestamp''] then Inr s
        else Inl (Errf ''source must be value, key, header, topic, partition, offset, or timestamp'' []))"

definition normalizeFieldOperator :: "string \<Rightarrow> string" where
  "normalizeFieldOperator operator =
     (let s = word_of operator in
        if s \<in> set [[], ''contains''] then ''contains''
        else if s \<in> set [''prefix'', ''starts_with'', ''starts-with''] then ''prefix''
        else if s \<in> set [''exact'', ''equals'', ''eq''] then ''exact''
        else if s = ''regexp'' then ''regex''
        else if s \<in> set [''not_exists'', ''not-exists'', ''missing''] then ''not_exists''
        else if s = ''>'' then ''gt'' else if s = ''>='' then ''gte''
        else if s = ''<'' then ''lt'' else if s = ''<='' then ''lte''
        else s)"

definition isNumericOperator :: "string \<Rightarrow> bool" where
  "isNumericOperator operator \<longleftrightarrow> operator \<in> set [''gt'', ''gte'', ''lt'', ''lte'']"

definition fieldFilterEnabled :: "field_filter \<Rightarrow> bool" where
  "fieldFilterEnabled f \<longleftrightarrow> ff_enabled f = None \<or> ff_enabled f = Some True"

definition hasFieldFilters :: "field_filter list \<Rightarrow> bool" where
  "hasFieldFilters filters = list_ex fieldFilterEnabled filters"

text \<open>The two loops of \<open>newConsumeTextMatcher\<close>; \<open>f\<close> is the text of the error.\<close>

fun compile_queries ::
  "text_lib \<Rightarrow> string \<Rightarrow> string list \<Rightarrow> (string \<rightharpoonup> (string \<Rightarrow> bool)) \<Rightarrow> (string \<rightharpoonup> (string \<Rightarrow> bool)) res" where
  "compile_queries tx f [] patterns = Inr patterns"
| "compile_queries tx f (q # qs) patterns =
     (let query = trim_space q in
        if query = [] \<or> patterns query \<noteq> None then compile_queries tx f qs patterns
        else (case tx_regexp tx query of
                None \<Rightarrow> Inl (Wrapf f [query] (Ext ''regexp''))
              | Some re \<Rightarrow> compile_queries tx f qs (patterns(query \<mapsto> re))))"

definition newConsumeTextMatcher :: "text_lib \<Rightarrow> consume_params \<Rightarrow> text_matcher res" where
  "newConsumeTextMatcher tx params =
     ebind (normalizeMatchMode (cp_match_mode params)) (\<lambda>mode.
       if mode \<noteq> ''regex'' then Inr \<lparr>tm_mode = mode, tm_patterns = (\<lambda>_. None)\<rparr>
       else
         ebind (compile_queries tx ''invalid regex filter %q: %w''
                  [cp_filter params, cp_key_filter params, cp_value_filter params, cp_header_filter params] (\<lambda>_. None))
           (\<lambda>patterns.
         ebind (compile_queries tx ''invalid regex field filter %q: %w''
                  (map ff_value (filter (\<lambda>f. fieldFilterEnabled f \<and> normalizeFieldOperator (ff_operator f) = ''regex'')
                     (cp_field_filters params))) patterns)
           (\<lambda>patterns. Inr \<lparr>tm_mode = mode, tm_patterns = patterns\<rparr>)))"

definition matcher_match :: "text_lib \<Rightarrow> text_matcher \<Rightarrow> string \<Rightarrow> string \<Rightarrow> bool" where
  "matcher_match tx m value query =
     (let query = trim_space query in
        if query = [] then True
        else if tm_mode m = ''prefix'' then prefix (tx_lower tx query) (tx_lower tx value)
        else if tm_mode m = ''exact'' then tx_equal_fold tx value query
        else if tm_mode m = ''regex'' then
          (case tx_regexp tx query of None \<Rightarrow> False | Some re \<Rightarrow> re value)
        else sublist (tx_lower tx query) (tx_lower tx value))"

section \<open>Records\<close>

definition partitionAllowed :: "int list \<Rightarrow> int \<Rightarrow> bool" where
  "partitionAllowed partitions p \<longleftrightarrow> partitions = [] \<or> p \<in> set partitions"

definition bytes_of :: "string option \<Rightarrow> string" where
  "bytes_of v = (case v of None \<Rightarrow> [] | Some s \<Rightarrow> s)"

text \<open>The builder's loop: a space before every header once the text is not empty.\<close>

definition headersText :: "kgo_header list \<Rightarrow> string" where
  "headersText headers =
     foldl (\<lambda>b h. b @ (if b \<noteq> [] then '' '' else []) @ h_key h @ ''='' @ h_value h) [] headers"

definition recordSearchText :: "kgo_record \<Rightarrow> string" where
  "recordSearchText r =
     join_with '' '' [r_topic r, format_int (r_partition r), format_int (r_offset r), format_int (r_millis r),
       bytes_of (r_key r), bytes_of (r_value r), headersText (r_headers r)]"

definition recordMatches :: "text_lib \<Rightarrow> consume_params \<Rightarrow> text_matcher \<Rightarrow> kgo_record \<Rightarrow> bool" where
  "recordMatches tx params m r \<longleftrightarrow>
     partitionAllowed (cp_partitions params) (r_partition r)
     \<and> (case cp_timestamp_from params of Some t \<Rightarrow> \<not> r_millis r < t | None \<Rightarrow> True)
     \<and> (case cp_timestamp_to params of Some t \<Rightarrow> \<not> r_millis r > t | None \<Rightarrow> True)
     \<and> (case cp_offset_from params of Some t \<Rightarrow> \<not> r_offset r < t | None \<Rightarrow> True)
     \<and> (case cp_offset_to params of Some t \<Rightarrow> \<not> r_offset r > t | None \<Rightarrow> True)
     \<and> (let f = trim_space (cp_filter params) in f \<noteq> [] \<longrightarrow> matcher_match tx m (recordSearchText r) f)
     \<and> (let f = trim_space (cp_key_filter params) in f \<noteq> [] \<longrightarrow> matcher_match tx m (bytes_of (r_key r)) f)
     \<and> (let f = trim_space (cp_value_filter params) in f \<noteq> [] \<longrightarrow> matcher_match tx m (bytes_of (r_value r)) f)
     \<and> (let f = trim_space (cp_header_filter params) in f \<noteq> [] \<longrightarrow> matcher_match tx m (headersText (r_headers r)) f)"

text \<open>\<open>nextPartitionOffset\<close> on the map of next offsets.\<close>

definition nextPartitionOffset :: "(int \<rightharpoonup> int) \<Rightarrow> kgo_record \<Rightarrow> (int \<rightharpoonup> int)" where
  "nextPartitionOffset next' r =
     (let offset = i64 (r_offset r + 1) in
        case next' (r_partition r) of
          None \<Rightarrow> next'(r_partition r \<mapsto> offset)
        | Some current \<Rightarrow> if offset > current then next'(r_partition r \<mapsto> offset) else next')"

section \<open>JSON paths\<close>

datatype path_token = Key string | Index int

text \<open>The inner loop of \<open>parseJSONPath\<close> over one segment.\<close>

function path_segment :: "string \<Rightarrow> path_token list res" where
  "path_segment part =
     (if part = [] then Inr []
      else case index_byte (CHR ''['') part of
        None \<Rightarrow> Inr [Key part]
      | Some bracket \<Rightarrow>
          (let key = (if bracket > 0 then [Key (take bracket part)] else []) in
           case index_byte (CHR '']'') (drop bracket part) of
             None \<Rightarrow> Inl (Errf ''invalid array index'' [])
           | Some end' \<Rightarrow>
               if end' \<le> 1 then Inl (Errf ''invalid array index'' [])
               else
                 (let indexText = take (end' - 1) (drop (bracket + 1) part);
                      rest = drop (bracket + end' + 1) part in
                  case parse_int indexText of
                    None \<Rightarrow> Inl (Errf ''invalid array index %q'' [indexText])
                  | Some index \<Rightarrow>
                      if index < 0 then Inl (Errf ''invalid array index %q'' [indexText])
                      else if rest \<noteq> [] \<and> hd rest \<noteq> CHR ''['' then Inl (Errf ''unexpected path suffix %q'' [rest])
                      else ebind (path_segment rest) (\<lambda>ts. Inr (key @ Index index # ts)))))"
  by pat_completeness auto
termination
  by (relation "measure length") auto

declare path_segment.simps [simp del]

fun path_segments :: "string list \<Rightarrow> path_token list res" where
  "path_segments [] = Inr []"
| "path_segments (part # parts) =
     (if part = [] then Inl (Errf ''empty path segment'' [])
      else ebind (path_segment part) (\<lambda>ts. ebind (path_segments parts) (\<lambda>us. Inr (ts @ us))))"

definition parseJSONPath :: "string \<Rightarrow> path_token list res" where
  "parseJSONPath path =
     (let path = trim_prefix ''.'' (trim_prefix ''$'' (trim_space path)) in
        if path = [] then Inr [] else path_segments (split_on (CHR ''.'') path))"

definition jsonValueString :: "json_lib \<Rightarrow> json \<Rightarrow> string" where
  "jsonValueString jl v = (case v of
      JNull \<Rightarrow> []
    | JStr s \<Rightarrow> s
    | JNum q \<Rightarrow> jl_float jl q
    | JBool b \<Rightarrow> (if b then ''true'' else ''false'')
    | _ \<Rightarrow> jl_marshal jl v)"

fun walk_path :: "path_token list \<Rightarrow> json \<Rightarrow> json option" where
  "walk_path [] v = Some v"
| "walk_path (Index i # ts) (JArr items) =
     (if i < 0 \<or> i \<ge> int (length items) then None else walk_path ts (items ! nat i))"
| "walk_path (Key k # ts) (JObj members) =
     (case map_of members k of None \<Rightarrow> None | Some v \<Rightarrow> walk_path ts v)"
| "walk_path _ _ = None"

text \<open>\<open>None\<close> for the second result \<open>false\<close>; the data may be nil.\<close>

definition jsonPathValue :: "json_lib \<Rightarrow> string option \<Rightarrow> string \<Rightarrow> string option" where
  "jsonPathValue jl data path =
     (if blank path \<or> trim_space path = ''$'' then data
      else case jl_unmarshal jl (bytes_of data) of
             None \<Rightarrow> None
           | Some doc \<Rightarrow>
               (case parseJSONPath path of
                  Inl _ \<Rightarrow> None
                | Inr tokens \<Rightarrow> map_option (jsonValueString jl) (walk_path tokens doc)))"

definition headerPathValue :: "kgo_header list \<Rightarrow> string \<Rightarrow> string option" where
  "headerPathValue headers path =
     (if blank path \<or> trim_space path = ''$''
      then (if headers = [] then None else Some (headersText headers))
      else map_option h_value (find (\<lambda>h. h_key h = path) headers))"

section \<open>Field filters\<close>

definition check_field_filter :: "text_lib \<Rightarrow> field_filter \<Rightarrow> unit res" where
  "check_field_filter tx f =
     (case normalizeFieldSource (ff_source f) of
        Inl e \<Rightarrow> Inl e
      | Inr source \<Rightarrow>
          (let operator = normalizeFieldOperator (ff_operator f); value = trim_space (ff_value f) in
             if operator \<notin> set [''contains'', ''prefix'', ''exact'', ''regex'', ''exists'', ''not_exists'', ''gt'', ''gte'', ''lt'', ''lte'']
             then Inl (Errf ''operator must be contains, prefix, exact, regex, exists, not_exists, gt, gte, lt, or lte'' [])
             else if operator = ''regex'' \<and> value \<noteq> [] \<and> tx_regexp tx value = None
             then Inl (Wrapf ''invalid regex field filter %q: %w'' [value] (Ext ''regexp''))
             else if isNumericOperator operator \<and> tx_float tx value = None
             then Inl (Errf ''value must be numeric for %s'' [operator])
             else if (source = ''value'' \<or> source = ''key'') \<and> \<not> blank (ff_path f)
             then (case parseJSONPath (ff_path f) of
                     Inl e \<Rightarrow> Inl (Wrapf ''invalid path %q: %w'' [ff_path f] e)
                   | Inr _ \<Rightarrow> Inr ())
             else Inr ()))"

text \<open>The loop of \<open>validateFieldFilters\<close>; \<open>i\<close> is the index in the error text.\<close>

fun check_filters :: "text_lib \<Rightarrow> nat \<Rightarrow> field_filter list \<Rightarrow> unit res" where
  "check_filters tx i [] = Inr ()"
| "check_filters tx i (f # fs) =
     (if \<not> fieldFilterEnabled f then check_filters tx (Suc i) fs
      else case check_field_filter tx f of
             Inl e \<Rightarrow> Inl (Wrapf ''fieldFilters[%d]: %w'' [format_int (int i)] e)
           | Inr _ \<Rightarrow> check_filters tx (Suc i) fs)"

definition validateFieldFilters :: "text_lib \<Rightarrow> field_filter list \<Rightarrow> unit res" where
  "validateFieldFilters tx filters = check_filters tx 0 filters"

definition fieldFiltersNeedValue :: "field_filter list \<Rightarrow> bool" where
  "fieldFiltersNeedValue filters =
     list_ex (\<lambda>f. fieldFilterEnabled f \<and> normalizeFieldSource (ff_source f) = Inr ''value'') filters"

definition fieldFilterValue ::
  "json_lib \<Rightarrow> field_filter \<Rightarrow> kgo_record \<Rightarrow> string option \<Rightarrow> string option" where
  "fieldFilterValue jl f r decodedValue =
     (case normalizeFieldSource (ff_source f) of
        Inl _ \<Rightarrow> None
      | Inr source \<Rightarrow>
          (let path = trim_space (ff_path f) in
             if source = ''key'' then jsonPathValue jl (r_key r) path
             else if source = ''header'' then headerPathValue (r_headers r) path
             else if source = ''topic'' then Some (r_topic r)
             else if source = ''partition'' then Some (format_int (r_partition r))
             else if source = ''offset'' then Some (format_int (r_offset r))
             else if source = ''timestamp'' then Some (format_int (r_millis r))
             else jsonPathValue jl decodedValue path))"

definition fieldValueMatches :: "text_lib \<Rightarrow> string \<Rightarrow> string \<Rightarrow> string \<Rightarrow> text_matcher \<Rightarrow> bool" where
  "fieldValueMatches tx sourceValue query operator m =
     (let query = trim_space query in
        if operator = ''prefix'' then prefix (tx_lower tx query) (tx_lower tx sourceValue)
        else if operator = ''exact'' then tx_equal_fold tx sourceValue query
        else if operator = ''regex'' then
          (if query = [] then True
           else (case tm_patterns m query of
                   Some re \<Rightarrow> re sourceValue
                 | None \<Rightarrow> (case tx_regexp tx query of None \<Rightarrow> False | Some re \<Rightarrow> re sourceValue)))
        else if isNumericOperator operator then
          (case (tx_float tx (trim_space sourceValue), tx_float tx query) of
             (Some left, Some right) \<Rightarrow>
               if operator = ''gt'' then float_less right left
               else if operator = ''gte'' then float_le right left
               else if operator = ''lt'' then float_less left right
               else float_le left right
           | _ \<Rightarrow> False)
        else matcher_match tx m sourceValue query)"

fun fieldFiltersMatch ::
  "text_lib \<Rightarrow> json_lib \<Rightarrow> field_filter list \<Rightarrow> text_matcher \<Rightarrow> kgo_record \<Rightarrow> string option \<Rightarrow> bool" where
  "fieldFiltersMatch tx jl [] m r value = True"
| "fieldFiltersMatch tx jl (f # fs) m r value =
     (if \<not> fieldFilterEnabled f then fieldFiltersMatch tx jl fs m r value
      else
        let sourceValue = fieldFilterValue jl f r value; operator = normalizeFieldOperator (ff_operator f) in
        if operator = ''exists'' then (if sourceValue = None then False else fieldFiltersMatch tx jl fs m r value)
        else if operator = ''not_exists'' then (if sourceValue \<noteq> None then False else fieldFiltersMatch tx jl fs m r value)
        else (case sourceValue of
                None \<Rightarrow> False
              | Some v \<Rightarrow>
                  if \<not> fieldValueMatches tx v (ff_value f) operator m then False
                  else fieldFiltersMatch tx jl fs m r value))"

section \<open>Validation\<close>

definition hasConsumeFilter :: "consume_params \<Rightarrow> bool" where
  "hasConsumeFilter p \<longleftrightarrow>
     \<not> blank (cp_filter p) \<or> \<not> blank (cp_key_filter p) \<or> \<not> blank (cp_value_filter p) \<or> \<not> blank (cp_header_filter p)
     \<or> hasFieldFilters (cp_field_filters p)
     \<or> cp_timestamp_from p \<noteq> None \<or> cp_timestamp_to p \<noteq> None \<or> cp_offset_from p \<noteq> None \<or> cp_offset_to p \<noteq> None"

definition validateConsumeParams :: "text_lib \<Rightarrow> consume_params \<Rightarrow> unit res" where
  "validateConsumeParams tx p =
     ebind (validateRange (cp_timestamp_from p) (cp_timestamp_to p) ''timestamp'') (\<lambda>_.
     ebind (validateRange (cp_offset_from p) (cp_offset_to p) ''offset'') (\<lambda>_.
     ebind (reject_if (cp_max_scan p < 0) (Errf ''maxScanRecords must be greater than or equal to 0'' [])) (\<lambda>_.
     ebind (reject_if (cp_commit p \<and> blank (cp_group p)) (Errf ''commit=true requires groupId'' [])) (\<lambda>_.
     ebind (reject_if (cp_commit p \<and> hasConsumeFilter p) (Errf ''commit=true cannot be combined with filters'' [])) (\<lambda>_.
     ebind (validateFieldFilters tx (cp_field_filters p)) (\<lambda>_.
     ebind (newConsumeTextMatcher tx p) (\<lambda>_. Inr ())))))))"

section \<open>A printed path is read back\<close>

text \<open>A path as segments: a member name (which may be missing) and array indices.\<close>

type_synonym path_seg = "string \<times> int list"

definition index_text :: "int list \<Rightarrow> string" where
  "index_text is = concat (map (\<lambda>i. ''['' @ format_int i @ '']'') is)"

definition seg_text :: "path_seg \<Rightarrow> string" where
  "seg_text g = fst g @ index_text (snd g)"

definition seg_tokens :: "path_seg \<Rightarrow> path_token list" where
  "seg_tokens g = (if fst g = [] then [] else [Key (fst g)]) @ map Index (snd g)"

definition seg_ok :: "path_seg \<Rightarrow> bool" where
  "seg_ok g \<longleftrightarrow> (fst g \<noteq> [] \<or> snd g \<noteq> []) \<and> CHR ''.'' \<notin> set (fst g) \<and> CHR ''['' \<notin> set (fst g)
     \<and> list_all (\<lambda>i. 0 \<le> i \<and> i < 2 ^ 63) (snd g)"

definition path_text :: "path_seg list \<Rightarrow> string" where
  "path_text gs = ''$.'' @ join_with ''.'' (map seg_text gs)"

lemma format_int_chars:
  assumes "0 \<le> i" "c \<in> set (format_int i)"
  shows "c \<noteq> CHR '']'' \<and> c \<noteq> CHR ''['' \<and> c \<noteq> CHR ''.''"
proof -
  obtain d where d: "d < 10" "c = digit_char d"
    using assms nat_digits_digits [of c "nat i"] by (auto simp: format_int_def)
  then have "of_char c = 48 + d" by (simp add: digit_char_def)
  then have "of_char c \<noteq> (93::nat)" "of_char c \<noteq> (91::nat)" "of_char c \<noteq> (46::nat)" using d(1) by simp_all
  then show ?thesis by auto
qed

lemma index_byte_append: "c \<notin> set s \<Longrightarrow> index_byte c (s @ c # t) = Some (length s)"
  by (induction s) auto

lemma index_byte_None: "c \<notin> set s \<Longrightarrow> index_byte c s = None"
  by (induction s) auto

lemma format_int_not_Nil [simp]: "format_int i \<noteq> []"
  by (simp add: format_int_def)

lemma path_segment_text:
  assumes "CHR ''['' \<notin> set k" "list_all (\<lambda>i. 0 \<le> i \<and> i < 2 ^ 63) is"
  shows "path_segment (k @ index_text is) = Inr (seg_tokens (k, is))"
  using assms
proof (induction "is" arbitrary: k)
  case Nil
  then show ?case
    by (subst path_segment.simps) (simp add: index_text_def seg_tokens_def index_byte_None)
next
  case (Cons i "is")
  let ?rest = "index_text is"
  have part: "k @ index_text (i # is) = k @ CHR ''['' # format_int i @ CHR '']'' # ?rest"
    by (simp add: index_text_def)
  have i: "0 \<le> i" "in_i64 i" using Cons.prems(2) by (simp_all add: in_i64_def)
  have "CHR '']'' \<notin> set (format_int i)" using format_int_chars [OF i(1)] by auto
  then have e: "index_byte (CHR '']'') (format_int i @ CHR '']'' # ?rest) = Some (length (format_int i))"
    by (rule index_byte_append)
  have b: "index_byte (CHR ''['') (k @ CHR ''['' # format_int i @ CHR '']'' # ?rest) = Some (length k)"
    using Cons.prems(1) by (rule index_byte_append)
  have l: "0 < length (format_int i)" by simp
  have r: "?rest \<noteq> [] \<longrightarrow> hd ?rest = CHR ''[''" by (cases "is") (auto simp: index_text_def)
  have IH: "path_segment ?rest = Inr (seg_tokens ([], is))"
    using Cons.IH [of "[]"] Cons.prems(2) by simp
  show ?case
  proof -
    obtain R where R: "?rest = R" by simp
    show ?thesis
      unfolding part using l r i IH b e unfolding R
      by (subst path_segment.simps) (auto simp: parse_format_int seg_tokens_def)
  qed
qed

lemma path_segments_text:
  "list_all seg_ok gs \<Longrightarrow> path_segments (map seg_text gs) = Inr (concat (map seg_tokens gs))"
proof (induction gs)
  case (Cons g gs)
  have "seg_text g \<noteq> []" using Cons.prems by (cases "snd g") (auto simp: seg_ok_def seg_text_def index_text_def)
  moreover have "path_segment (seg_text g) = Inr (seg_tokens g)"
    using Cons.prems path_segment_text [of "fst g" "snd g"] by (simp add: seg_ok_def seg_text_def)
  ultimately show ?case using Cons by simp
qed simp

lemma seg_text_no_dot: "seg_ok g \<Longrightarrow> CHR ''.'' \<notin> set (seg_text g)"
proof -
  assume g: "seg_ok g"
  have "CHR ''.'' \<notin> set (format_int i)" if "i \<in> set (snd g)" for i
    using g that format_int_chars [of i "CHR ''.''"] by (auto simp: seg_ok_def list_all_iff)
  then show ?thesis using g by (auto simp: seg_ok_def seg_text_def index_text_def)
qed

text \<open>
  Every JSON path printed from member names and array indices is read back by
  \<open>parseJSONPath\<close> as those names and indices, in order.
\<close>

theorem json_path_roundtrip:
  assumes "gs \<noteq> []" "list_all seg_ok gs" "graphic (last (path_text gs))"
  shows "parseJSONPath (path_text gs) = Inr (concat (map seg_tokens gs))"
proof -
  let ?t = "join_with ''.'' (map seg_text gs)"
  have "trim_space (path_text gs) = path_text gs"
    using assms(3) by (intro trim_space_graphic) (simp add: path_text_def graphic_def)
  then have p: "trim_prefix ''.'' (trim_prefix ''$'' (trim_space (path_text gs))) = ?t"
    by (simp add: path_text_def trim_prefix_def)
  have split: "split_on (CHR ''.'') ?t = map seg_text gs"
    using assms(1,2) seg_text_no_dot by (intro split_on_join) (auto simp: list_all_iff)
  have "?t \<noteq> []"
  proof
    assume "?t = []"
    then have "map seg_text gs = [[]]" using split by simp
    then show False using path_segments_text [OF assms(2)] by (cases gs) auto
  qed
  then show ?thesis
    unfolding parseJSONPath_def p by (simp add: split path_segments_text [OF assms(2)])
qed

theorem json_path_roundtrip_witness:
  "parseJSONPath ''$.user.tags[2][0].name'' = Inr [Key ''user'', Key ''tags'', Index 2, Index 0, Key ''name'']"
proof -
  let ?gs = "[(''user'', []), (''tags'', [2, 0]), (''name'', [])] :: path_seg list"
  have t: "path_text ?gs = ''$.user.tags[2][0].name''" by code_simp
  have "graphic (last (path_text ?gs))" unfolding t by (simp add: graphic_def)
  then have "parseJSONPath (path_text ?gs) = Inr (concat (map seg_tokens ?gs))"
    by (intro json_path_roundtrip) (simp_all add: seg_ok_def)
  then show ?thesis unfolding t by (simp add: seg_tokens_def)
qed

section \<open>Committing never skips a record\<close>

lemma validate_commit:
  "validateConsumeParams tx p = Inr () \<Longrightarrow> cp_commit p \<Longrightarrow> \<not> hasConsumeFilter p \<and> \<not> blank (cp_group p)"
  by (auto simp: validateConsumeParams_def ebind_Inr_iff split: if_splits)

lemma no_field_filters: "\<not> hasFieldFilters fs \<Longrightarrow> fieldFiltersMatch tx jl fs m r v"
  by (induction fs) (auto simp: hasFieldFilters_def)

lemma no_filter_matches:
  "\<not> hasConsumeFilter p \<Longrightarrow> recordMatches tx p m r = partitionAllowed (cp_partitions p) (r_partition r)"
  by (auto simp: hasConsumeFilter_def recordMatches_def Let_def)

text \<open>
  A consumption that commits cannot drop a record: once its parameters pass validation,
  every record of an allowed partition passes every filter, whatever the matcher, so no
  offset is committed past a record that a filter hid.
\<close>

theorem commit_never_filters:
  assumes "validateConsumeParams tx p = Inr ()" "cp_commit p" "partitionAllowed (cp_partitions p) (r_partition r)"
  shows "recordMatches tx p m r \<and> fieldFiltersMatch tx jl (cp_field_filters p) m r v"
proof -
  have "\<not> hasConsumeFilter p" using validate_commit [OF assms(1,2)] by simp
  then show ?thesis
    using no_filter_matches [of p tx m r] no_field_filters [of "cp_field_filters p"] assms(3)
    by (simp add: hasConsumeFilter_def)
qed

definition commit_params :: consume_params where
  "commit_params = (base_params ''c'' ''orders'')\<lparr>cp_group := ''g'', cp_commit := True\<rparr>"

definition plain_text :: text_lib where
  "plain_text = \<lparr>tx_lower = to_lower, tx_equal_fold = (\<lambda>s t. to_lower s = to_lower t),
     tx_regexp = (\<lambda>_. None), tx_float = (\<lambda>_. None)\<rparr>"

definition sample_record :: "int \<Rightarrow> int \<Rightarrow> string \<Rightarrow> kgo_record" where
  "sample_record p off v = \<lparr>r_topic = ''orders'', r_partition = p, r_offset = off, r_millis = 1000,
     r_leader_epoch = 0, r_key = None, r_value = Some v, r_headers = []\<rparr>"

theorem commit_never_filters_witness:
  "validateConsumeParams plain_text commit_params = Inr ()
   \<and> recordMatches plain_text commit_params \<lparr>tm_mode = ''contains'', tm_patterns = (\<lambda>_. None)\<rparr> (sample_record 0 5 ''x'')"
proof -
  have v: "validateConsumeParams plain_text commit_params = Inr ()"
    by (simp add: validateConsumeParams_def commit_params_def base_params_def validateRange_def
        hasConsumeFilter_def hasFieldFilters_def validateFieldFilters_def newConsumeTextMatcher_def
        normalizeMatchMode_def trim_space_graphic graphic_def)
  show ?thesis using commit_never_filters [OF v, of "sample_record 0 5 ''x''"] v
    by (simp add: commit_params_def base_params_def partitionAllowed_def)
qed

end
