(* ===== verification/KafkaPool.thy ===== *)
theory KafkaPool
  imports KafkaConsume
begin

text \<open>
  \<open>kafkaconn/consume_pool.go\<close>: the pool of consumer clients kept for one-off consumptions.
  Entries are shared by pointer: a consumption keeps its entry while the pool may drop it,
  so entries live in a heap of references, and the pool maps keys to references. A client is
  a number; \<open>pl_closed\<close> collects the clients on which \<open>Close\<close> was called. The order of
  \<open>pl_table\<close> stands for the iteration order of the Go map. What runs under the pool's lock is
  one step; a release is two, since it marks its entry before it takes the lock. \<open>now\<close> is
  \<open>time.Now().UnixMilli()\<close>.
\<close>

section \<open>Policy and signature\<close>

text \<open>Whether the pool is used, and whether a reused client is reset to the start.\<close>

definition consumeReusePolicy :: "string \<Rightarrow> string \<Rightarrow> bool \<times> bool" where
  "consumeReusePolicy offsetStrategy groupID =
     (if \<not> blank groupID then (False, False)
      else (let s = normalizeOffsetStrategyName offsetStrategy in
              if s \<in> set [[], ''default'', ''earliest'', ''start''] then (True, True)
              else if s \<in> set [''latest'', ''end''] then (True, False)
              else (False, False)))"

definition nul :: string where
  "nul = [CHR 0x00]"

text \<open>\<open>hash\<close> stands for the first eight bytes of SHA-256 in hexadecimal.\<close>

definition consumeClientSignature ::
  "(string \<Rightarrow> string) \<Rightarrow> string \<Rightarrow> string \<Rightarrow> int list \<Rightarrow> string \<Rightarrow> string" where
  "consumeClientSignature hash topic offsetStrategy partitions isolationLevel =
     hash (join_with nul
       ([topic, normalizeOffsetStrategyName offsetStrategy, isolationLevel, format_int (int (length partitions))]
        @ map format_int partitions))"

definition consumePoolKey :: "string \<Rightarrow> string \<Rightarrow> string" where
  "consumePoolKey connID signature = connID @ nul @ signature"

section \<open>The pool\<close>

record pool_entry =
  pe_client :: "nat option"
  pe_conn :: string
  pe_sig :: string
  pe_in_use :: bool
  pe_at_start :: bool
  pe_seen :: "int list"
  pe_reset_failed :: bool
  pe_last_used :: int

record pool =
  pl_heap :: "nat \<Rightarrow> pool_entry option"
  pl_next :: nat
  pl_table :: "(string \<times> nat) list"
  pl_closed :: "nat list"

definition new_pool :: pool where
  "new_pool = \<lparr>pl_heap = (\<lambda>_. None), pl_next = 0, pl_table = [], pl_closed = []\<rparr>"

definition consumePoolIdleTTL :: int where
  "consumePoolIdleTTL = 120000"

definition consumePoolMaxEntries :: nat where
  "consumePoolMaxEntries = 8"

definition set_entry :: "nat \<Rightarrow> pool_entry \<Rightarrow> pool \<Rightarrow> pool" where
  "set_entry r e p = p\<lparr>pl_heap := (pl_heap p)(r := Some e)\<rparr>"

text \<open>The entry to use, and whether it is now reserved for the caller.\<close>

definition consumePoolAcquire :: "int \<Rightarrow> string \<Rightarrow> string \<Rightarrow> bool \<Rightarrow> pool \<Rightarrow> (nat option \<times> bool) \<times> pool" where
  "consumePoolAcquire now connID signature atStart p =
     (case map_of (pl_table p) (consumePoolKey connID signature) of
        None \<Rightarrow> ((None, False), p)
      | Some r \<Rightarrow>
          (case pl_heap p r of
             None \<Rightarrow> ((None, False), p)
           | Some e \<Rightarrow>
               if pe_in_use e \<or> pe_reset_failed e then ((Some r, False), p)
               else ((Some r, True),
                     set_entry r (e\<lparr>pe_in_use := True, pe_at_start := atStart, pe_last_used := now\<rparr>) p)))"

definition closeConsumePoolEntry :: "nat \<Rightarrow> string \<Rightarrow> pool \<Rightarrow> pool" where
  "closeConsumePoolEntry r key p =
     (let p = (if map_of (pl_table p) key = Some r then p\<lparr>pl_table := AList.delete key (pl_table p)\<rparr> else p)
      in case pl_heap p r of
           None \<Rightarrow> p
         | Some e \<Rightarrow>
             (case pe_client e of
                None \<Rightarrow> p
              | Some c \<Rightarrow> (set_entry r (e\<lparr>pe_client := None\<rparr>) p)\<lparr>pl_closed := c # pl_closed p\<rparr>))"

text \<open>The scan of \<open>evictConsumePoolLocked\<close>: \<open>oldestKey\<close> and \<open>oldestAt\<close>.\<close>

definition oldest_idle :: "pool \<Rightarrow> string \<Rightarrow> string option" where
  "oldest_idle p preserveKey =
     fst (foldl (\<lambda>(oldestKey, oldestAt) (key, r).
            case pl_heap p r of
              None \<Rightarrow> (oldestKey, oldestAt)
            | Some e \<Rightarrow>
                if key = preserveKey \<or> pe_in_use e then (oldestKey, oldestAt)
                else if pe_last_used e < oldestAt then (Some key, pe_last_used e)
                else (oldestKey, oldestAt))
          (None, 2 ^ 62) (pl_table p))"

lemma length_delete: "map_of m k = Some v \<Longrightarrow> length (AList.delete k m) < length m"
proof -
  assume "map_of m k = Some v"
  then have "(k, v) \<in> set m" by (rule map_of_SomeD)
  then show ?thesis unfolding AList.delete_eq by (rule length_filter_less) simp
qed

lemma close_table:
  "pl_table (closeConsumePoolEntry r key p)
     = (if map_of (pl_table p) key = Some r then AList.delete key (pl_table p) else pl_table p)"
  by (simp add: closeConsumePoolEntry_def Let_def set_entry_def split: option.splits)

function evictConsumePoolLocked :: "string \<Rightarrow> pool \<Rightarrow> pool" where
  "evictConsumePoolLocked preserveKey p =
     (if length (pl_table p) \<le> consumePoolMaxEntries then p
      else (case oldest_idle p preserveKey of
              None \<Rightarrow> p
            | Some key \<Rightarrow>
                (case map_of (pl_table p) key of
                   None \<Rightarrow> p
                 | Some r \<Rightarrow> evictConsumePoolLocked preserveKey (closeConsumePoolEntry r key p))))"
  by pat_completeness auto
termination
  by (relation "measure (\<lambda>(k, p). length (pl_table p))") (auto simp: close_table length_delete)

declare evictConsumePoolLocked.simps [simp del]

definition consumePoolPut :: "int \<Rightarrow> string \<Rightarrow> string \<Rightarrow> nat \<Rightarrow> pool \<Rightarrow> nat \<times> pool" where
  "consumePoolPut now connID signature client p =
     (let key = consumePoolKey connID signature;
          p = (case map_of (pl_table p) key of None \<Rightarrow> p | Some old \<Rightarrow> closeConsumePoolEntry old key p);
          r = pl_next p;
          e = \<lparr>pe_client = Some client, pe_conn = connID, pe_sig = signature, pe_in_use = True,
               pe_at_start = False, pe_seen = [], pe_reset_failed = False, pe_last_used = now\<rparr>;
          p = (set_entry r e p)\<lparr>pl_next := r + 1, pl_table := AList.update key r (pl_table p)\<rparr>
      in (r, evictConsumePoolLocked key p))"

text \<open>
  \<open>for key, entry := range s.consumePool { if ... { s.closeConsumePoolEntry(entry, key) } }\<close>;
  the loop runs over the entries the map had when it started.
\<close>

definition close_round :: "(pool_entry \<Rightarrow> bool) \<Rightarrow> pool \<Rightarrow> string \<times> nat \<Rightarrow> pool" where
  "close_round doomed p kr =
     (case pl_heap p (snd kr) of
        None \<Rightarrow> p
      | Some e \<Rightarrow> if doomed e then closeConsumePoolEntry (snd kr) (fst kr) p else p)"

definition close_all :: "(pool_entry \<Rightarrow> bool) \<Rightarrow> pool \<Rightarrow> pool" where
  "close_all doomed p = foldl (close_round doomed) p (pl_table p)"

text \<open>
  \<open>consumePoolRelease\<close> marks the entry before it takes the pool's lock and sweeps the pool
  under it; other consumptions run between the two.
\<close>

definition release_mark :: "int \<Rightarrow> int list \<Rightarrow> bool \<Rightarrow> nat \<Rightarrow> pool \<Rightarrow> pool" where
  "release_mark now observed healthy r p =
     (case pl_heap p r of
        None \<Rightarrow> p
      | Some e \<Rightarrow>
          set_entry r (e\<lparr>pe_seen := pe_seen e @ observed,
                         pe_reset_failed := pe_reset_failed e \<or> \<not> healthy,
                         pe_in_use := False, pe_last_used := now\<rparr>) p)"

definition release_sweep :: "int \<Rightarrow> pool \<Rightarrow> pool" where
  "release_sweep now = close_all (\<lambda>e. \<not> pe_in_use e \<and> now - pe_last_used e > consumePoolIdleTTL)"

definition consumePoolRelease :: "int \<Rightarrow> int list \<Rightarrow> bool \<Rightarrow> nat \<Rightarrow> pool \<Rightarrow> pool" where
  "consumePoolRelease now observed healthy r p = release_sweep now (release_mark now observed healthy r p)"

definition consumePoolCloseFor :: "string \<Rightarrow> pool \<Rightarrow> pool" where
  "consumePoolCloseFor connID = close_all (\<lambda>e. pe_conn e = connID)"

definition consumePoolCloseAll :: "pool \<Rightarrow> pool" where
  "consumePoolCloseAll = close_all (\<lambda>_. True)"

text \<open>A client that never entered the pool is closed by the consumption that built it.\<close>

definition closeTempClient :: "nat \<Rightarrow> pool \<Rightarrow> pool" where
  "closeTempClient c p = p\<lparr>pl_closed := c # pl_closed p\<rparr>"

definition consumeStartupBudget :: "int \<Rightarrow> int" where
  "consumeStartupBudget fetchWindow =
     (let budget = i64 (2 * fetchWindow) in if budget < 12000000000 then 12000000000 else budget)"

section \<open>The invariant\<close>

definition holds_client :: "pool \<Rightarrow> nat \<Rightarrow> nat \<Rightarrow> bool" where
  "holds_client p r c \<longleftrightarrow> (\<exists>e. pl_heap p r = Some e \<and> pe_client e = Some c)"

definition pool_inv :: "pool \<Rightarrow> bool" where
  "pool_inv p \<longleftrightarrow>
     distinct (map fst (pl_table p)) \<and> distinct (map snd (pl_table p))
     \<and> (\<forall>(k, r) \<in> set (pl_table p). \<exists>e. pl_heap p r = Some e \<and> pe_client e \<noteq> None
           \<and> k = consumePoolKey (pe_conn e) (pe_sig e))
     \<and> (\<forall>r. pl_next p \<le> r \<longrightarrow> pl_heap p r = None)
     \<and> (\<forall>r c. holds_client p r c \<longrightarrow> c \<notin> set (pl_closed p))
     \<and> (\<forall>r r' c. holds_client p r c \<longrightarrow> holds_client p r' c \<longrightarrow> r = r')"

definition fresh_client :: "pool \<Rightarrow> nat \<Rightarrow> bool" where
  "fresh_client p c \<longleftrightarrow> c \<notin> set (pl_closed p) \<and> (\<forall>r. \<not> holds_client p r c)"

lemma pool_invI:
  assumes "distinct (map fst (pl_table p))" "distinct (map snd (pl_table p))"
    and "\<And>k r. (k, r) \<in> set (pl_table p) \<Longrightarrow> \<exists>e. pl_heap p r = Some e \<and> pe_client e \<noteq> None
           \<and> k = consumePoolKey (pe_conn e) (pe_sig e)"
    and "\<And>r. pl_next p \<le> r \<Longrightarrow> pl_heap p r = None"
    and "\<And>r c. holds_client p r c \<Longrightarrow> c \<notin> set (pl_closed p)"
    and "\<And>r r' c. holds_client p r c \<Longrightarrow> holds_client p r' c \<Longrightarrow> r = r'"
  shows "pool_inv p"
  using assms unfolding pool_inv_def by blast

lemma pool_invD:
  assumes "pool_inv p"
  shows "distinct (map fst (pl_table p))" "distinct (map snd (pl_table p))"
    "pl_next p \<le> r \<Longrightarrow> pl_heap p r = None" "holds_client p r c \<Longrightarrow> c \<notin> set (pl_closed p)"
    "holds_client p r c \<Longrightarrow> holds_client p r' c \<Longrightarrow> r = r'"
  using assms unfolding pool_inv_def by blast+

lemma set_entry_simps [simp]:
  "pl_table (set_entry r e p) = pl_table p" "pl_next (set_entry r e p) = pl_next p"
  "pl_closed (set_entry r e p) = pl_closed p" "pl_heap (set_entry r e p) = (pl_heap p)(r := Some e)"
  by (simp_all add: set_entry_def)

lemma pool_inv_new: "pool_inv new_pool"
  by (simp add: pool_inv_def new_pool_def holds_client_def)

lemma pool_inv_table:
  assumes "pool_inv p" "(k, r) \<in> set (pl_table p)"
  obtains e c where "pl_heap p r = Some e" "pe_client e = Some c" "k = consumePoolKey (pe_conn e) (pe_sig e)"
    "map_of (pl_table p) k = Some r" "c \<notin> set (pl_closed p)"
proof -
  obtain e where e: "pl_heap p r = Some e" "pe_client e \<noteq> None" "k = consumePoolKey (pe_conn e) (pe_sig e)"
    using assms by (auto simp: pool_inv_def)
  moreover obtain c where c: "pe_client e = Some c" using e(2) by auto
  moreover have "c \<notin> set (pl_closed p)"
  proof -
    have "holds_client p r c" using e(1) c by (simp add: holds_client_def)
    then show ?thesis using assms(1) unfolding pool_inv_def by blast
  qed
  moreover have "map_of (pl_table p) k = Some r" using assms by (simp add: pool_inv_def)
  ultimately show ?thesis using that by blast
qed

text \<open>Changing the marks of an entry keeps the invariant.\<close>

lemma pool_inv_mark:
  assumes "pool_inv p" "pl_heap p r = Some e"
    and "pe_client e' = pe_client e" "pe_conn e' = pe_conn e" "pe_sig e' = pe_sig e"
  shows "pool_inv (set_entry r e' p)"
proof -
  have h: "holds_client (set_entry r e' p) r' c \<longleftrightarrow> holds_client p r' c" for r' c
    using assms(2,3) by (auto simp: holds_client_def set_entry_def)
  have "\<exists>e. pl_heap (set_entry r e' p) r' = Some e \<and> pe_client e \<noteq> None
      \<and> k = consumePoolKey (pe_conn e) (pe_sig e)" if m: "(k, r') \<in> set (pl_table p)" for k r'
  proof -
    obtain d c where "pl_heap p r' = Some d" "pe_client d = Some c" "k = consumePoolKey (pe_conn d) (pe_sig d)"
      using pool_inv_table [OF assms(1) m] by metis
    then show ?thesis using assms(2-5) by (cases "r' = r") (auto simp: set_entry_def)
  qed
  moreover have "pl_heap (set_entry r e' p) r' = None" if "pl_next p \<le> r'" for r'
    using pool_invD(3) [OF assms(1)] assms(2) that by (cases "r' = r") auto
  ultimately show ?thesis
    using pool_invD [OF assms(1)] by - (intro pool_invI; (unfold set_entry_simps(1-3) h)?; blast)
qed

lemma close_entry:
  assumes "pool_inv p" "(k, r) \<in> set (pl_table p)" "pl_heap p r = Some e" "pe_client e = Some c"
  shows "closeConsumePoolEntry r k p = p\<lparr>pl_table := AList.delete k (pl_table p),
    pl_heap := (pl_heap p)(r := Some (e\<lparr>pe_client := None\<rparr>)), pl_closed := c # pl_closed p\<rparr>"
proof -
  have "map_of (pl_table p) k = Some r" using assms(1,2) by (simp add: pool_inv_def)
  then show ?thesis using assms(3,4) by (simp add: closeConsumePoolEntry_def set_entry_def)
qed

lemma pool_inv_close:
  assumes "pool_inv p" "(k, r) \<in> set (pl_table p)"
  shows "pool_inv (closeConsumePoolEntry r k p)"
proof -
  obtain e c where e: "pl_heap p r = Some e" "pe_client e = Some c" using pool_inv_table [OF assms] by metis
  let ?q = "closeConsumePoolEntry r k p"
  note q = close_entry [OF assms e]
  have h: "holds_client ?q r' c' \<longleftrightarrow> holds_client p r' c' \<and> r' \<noteq> r" for r' c'
    by (auto simp: q holds_client_def)
  have rc: "holds_client p r c" using e by (simp add: holds_client_def)
  have d: "distinct (map fst (pl_table p))" "distinct (map snd (pl_table p))"
    using assms(1) by (simp_all add: pool_inv_def)
  have sub: "set (AList.delete k (pl_table p)) \<subseteq> {(k', r') \<in> set (pl_table p). k' \<noteq> k}"
    by (auto simp: AList.delete_eq)
  have other: "r' \<noteq> r" if "(k', r') \<in> set (AList.delete k (pl_table p))" for k' r'
  proof
    assume "r' = r"
    then have "(k', r) \<in> set (pl_table p)" "k' \<noteq> k" using that sub by auto
    moreover have "inj_on snd (set (pl_table p))" using d(2) by (simp add: distinct_map)
    ultimately have "(k', r) = (k, r)"
      using inj_onD [of snd "set (pl_table p)" "(k', r)" "(k, r)"] assms(2) by simp
    then show False using \<open>k' \<noteq> k\<close> by simp
  qed
  have "distinct (map fst (AList.delete k (pl_table p)))" "distinct (map snd (AList.delete k (pl_table p)))"
    using d by (simp_all add: AList.delete_eq distinct_map_filter)
  moreover have "\<exists>e. pl_heap ?q r' = Some e \<and> pe_client e \<noteq> None \<and> k' = consumePoolKey (pe_conn e) (pe_sig e)"
    if "(k', r') \<in> set (AList.delete k (pl_table p))" for k' r'
  proof -
    have "(k', r') \<in> set (pl_table p)" using that sub by auto
    then obtain e' c' where "pl_heap p r' = Some e'" "pe_client e' = Some c'"
      "k' = consumePoolKey (pe_conn e') (pe_sig e')" using pool_inv_table [OF assms(1)] by metis
    then show ?thesis using other [OF that] by (simp add: q)
  qed
  moreover have "pl_heap ?q r' = None" if "pl_next ?q \<le> r'" for r'
    using pool_invD(3) [OF assms(1), of r'] e(1) that by (cases "r' = r") (auto simp: q)
  moreover have "c' \<notin> set (c # pl_closed p)" if "holds_client p r' c' \<and> r' \<noteq> r" for r' c'
    using pool_invD(4,5) [OF assms(1)] rc that by auto
  moreover have "pl_table ?q = AList.delete k (pl_table p)" "pl_closed ?q = c # pl_closed p"
    by (simp_all add: q)
  ultimately show ?thesis
    using pool_invD(5) [OF assms(1)] by - (intro pool_invI; simp only: h; blast)
qed

lemma delete_middle:
  "distinct (map fst (pre @ (k, r) # kvs)) \<Longrightarrow> AList.delete k (pre @ (k, r) # kvs) = pre @ kvs"
  by (induction pre) (auto simp: AList.delete_idem image_iff)

lemma close_rounds:
  fixes doomed :: "pool_entry \<Rightarrow> bool"
  assumes "pool_inv p" "pl_table p = pre @ kvs"
  defines "q \<equiv> foldl (close_round doomed) p kvs"
    and "dm \<equiv> \<lambda>r. \<exists>e. pl_heap p r = Some e \<and> doomed e"
  shows "pool_inv q \<and> pl_table q = pre @ filter (\<lambda>(k, r). \<not> dm r) kvs \<and> pl_next q = pl_next p
    \<and> (\<forall>r. pl_heap q r = (if r \<in> snd ` set kvs \<and> dm r
                         then map_option (\<lambda>e. e\<lparr>pe_client := None\<rparr>) (pl_heap p r) else pl_heap p r))
    \<and> (\<forall>c. c \<in> set (pl_closed q) \<longleftrightarrow> c \<in> set (pl_closed p) \<or> (\<exists>r \<in> snd ` set kvs. dm r \<and> holds_client p r c))"
  using assms(1,2) unfolding q_def dm_def
proof (induction kvs arbitrary: p pre)
  case (Cons kr kvs)
  obtain k r where kr: "kr = (k, r)" by (cases kr)
  have mem: "(k, r) \<in> set (pl_table p)" using Cons.prems(2) kr by simp
  obtain e c where e: "pl_heap p r = Some e" "pe_client e = Some c"
    using pool_inv_table [OF Cons.prems(1) mem] by metis
  have "distinct (map snd (pl_table p))" by (rule pool_invD(2) [OF Cons.prems(1)])
  then have r: "r \<notin> snd ` set kvs" using Cons.prems(2) kr by auto
  show ?case
  proof (cases "doomed e")
    case False
    then have "close_round doomed p kr = p" using e kr by (simp add: close_round_def)
    then show ?thesis
      using Cons.IH [OF Cons.prems(1), of "pre @ [kr]"] Cons.prems(2) False e kr r by auto
  next
    case True
    let ?p = "closeConsumePoolEntry r k p"
    have round: "close_round doomed p kr = ?p" using e kr True by (simp add: close_round_def)
    note c = close_entry [OF Cons.prems(1) mem e]
    have "distinct (map fst (pl_table p))" by (rule pool_invD(1) [OF Cons.prems(1)])
    then have table: "pl_table ?p = pre @ kvs" using Cons.prems(2) kr by (simp add: c delete_middle)
    have heap: "pl_heap ?p = (pl_heap p)(r := Some (e\<lparr>pe_client := None\<rparr>))" by (simp add: c)
    have hold: "holds_client ?p r' c' \<longleftrightarrow> holds_client p r' c' \<and> r' \<noteq> r" for r' c'
      by (auto simp: holds_client_def heap)
    have rc: "holds_client p r c' \<longleftrightarrow> c' = c" for c' using e by (auto simp: holds_client_def)
    have *: "r' \<noteq> r" if "r' \<in> snd ` set kvs" for r' using r that by auto
    have "filter (\<lambda>(k, r'). \<not> (\<exists>e. pl_heap ?p r' = Some e \<and> doomed e)) kvs
        = filter (\<lambda>(k, r'). \<not> (\<exists>e. pl_heap p r' = Some e \<and> doomed e)) kvs"
      using * by (intro filter_cong) (force simp: heap)+
    moreover have "pl_closed ?p = c # pl_closed p" "pl_next ?p = pl_next p" by (simp_all add: c)
    ultimately show ?thesis
      using Cons.IH [OF pool_inv_close [OF Cons.prems(1) mem] table] round e kr True r *
      by (auto simp: heap hold rc)
  qed
qed simp

lemma close_all_spec:
  fixes doomed :: "pool_entry \<Rightarrow> bool"
  assumes "pool_inv p"
  defines "q \<equiv> close_all doomed p" and "dm \<equiv> \<lambda>r. \<exists>e. pl_heap p r = Some e \<and> doomed e"
  shows "pool_inv q" "pl_table q = filter (\<lambda>(k, r). \<not> dm r) (pl_table p)" "pl_next q = pl_next p"
    "pl_heap q r = (if r \<in> snd ` set (pl_table p) \<and> dm r
       then map_option (\<lambda>e. e\<lparr>pe_client := None\<rparr>) (pl_heap p r) else pl_heap p r)"
    "c \<in> set (pl_closed q) \<longleftrightarrow> c \<in> set (pl_closed p) \<or> (\<exists>r \<in> snd ` set (pl_table p). dm r \<and> holds_client p r c)"
  using close_rounds [OF assms(1), of "[]" "pl_table p" doomed]
  unfolding q_def dm_def close_all_def by simp_all

section \<open>Eviction\<close>

abbreviation evict_step :: "pool \<Rightarrow> string \<Rightarrow> string option \<times> int \<Rightarrow> string \<times> nat \<Rightarrow> string option \<times> int" where
  "evict_step p preserveKey \<equiv> (\<lambda>(oldestKey, oldestAt) (key, r).
            case pl_heap p r of
              None \<Rightarrow> (oldestKey, oldestAt)
            | Some e \<Rightarrow>
                if key = preserveKey \<or> pe_in_use e then (oldestKey, oldestAt)
                else if pe_last_used e < oldestAt then (Some key, pe_last_used e)
                else (oldestKey, oldestAt))"

definition idle_at :: "pool \<Rightarrow> string \<Rightarrow> string \<times> nat \<Rightarrow> int \<Rightarrow> bool" where
  "idle_at p preserveKey kr t \<longleftrightarrow> (\<exists>e. pl_heap p (snd kr) = Some e \<and> fst kr \<noteq> preserveKey \<and> \<not> pe_in_use e
     \<and> pe_last_used e = t)"

lemma evict_scan:
  assumes "foldl (evict_step p pk) (k0, t0) xs = (k1, t1)"
  shows "t1 \<le> t0 \<and> (\<forall>kr \<in> set xs. \<forall>t. idle_at p pk kr t \<longrightarrow> t1 \<le> t)
    \<and> (k1 = k0 \<and> t1 = t0 \<or> (\<exists>kr \<in> set xs. k1 = Some (fst kr) \<and> idle_at p pk kr t1 \<and> t1 < t0))"
  using assms
proof (induction xs arbitrary: k0 t0)
  case (Cons kr xs)
  obtain k r where kr: "kr = (k, r)" by (cases kr)
  obtain k' t' where st: "evict_step p pk (k0, t0) kr = (k', t')" by (cases "evict_step p pk (k0, t0) kr")
  have IH: "t1 \<le> t'" "\<forall>kr \<in> set xs. \<forall>t. idle_at p pk kr t \<longrightarrow> t1 \<le> t"
    "k1 = k' \<and> t1 = t' \<or> (\<exists>kr \<in> set xs. k1 = Some (fst kr) \<and> idle_at p pk kr t1 \<and> t1 < t')"
    using Cons.IH [of k' t'] Cons.prems st by simp_all
  have head: "t' \<le> t0" "\<forall>t. idle_at p pk kr t \<longrightarrow> t' \<le> t"
    "k' = k0 \<and> t' = t0 \<or> (k' = Some k \<and> idle_at p pk kr t' \<and> t' < t0)"
    using st by (auto simp: kr idle_at_def split: option.splits if_splits)
  show ?case
  proof (intro conjI)
    show "t1 \<le> t0" using IH(1) head(1) by simp
    show "\<forall>kr \<in> set (kr # xs). \<forall>t. idle_at p pk kr t \<longrightarrow> t1 \<le> t"
      using IH(1,2) head(2) by (auto intro: order_trans)
    show "k1 = k0 \<and> t1 = t0 \<or> (\<exists>kr \<in> set (kr # xs). k1 = Some (fst kr) \<and> idle_at p pk kr t1 \<and> t1 < t0)"
      using IH(3) head(1,3) kr by (auto intro: less_le_trans)
  qed
qed simp

lemma oldest_idle_scan:
  "\<exists>t. t \<le> 2 ^ 62 \<and> (\<forall>kr \<in> set (pl_table p). \<forall>u. idle_at p pk kr u \<longrightarrow> t \<le> u)
    \<and> (oldest_idle p pk = None \<and> t = 2 ^ 62
       \<or> (\<exists>kr \<in> set (pl_table p). oldest_idle p pk = Some (fst kr) \<and> idle_at p pk kr t))"
proof -
  obtain k1 t1 where f: "foldl (evict_step p pk) (None, 2 ^ 62) (pl_table p) = (k1, t1)"
    by (cases "foldl (evict_step p pk) (None, 2 ^ 62) (pl_table p)")
  then have "oldest_idle p pk = k1" by (simp add: oldest_idle_def)
  then show ?thesis using evict_scan [OF f] by (intro exI [of _ t1]) auto
qed

definition evict_ok :: "string \<Rightarrow> pool \<Rightarrow> pool \<Rightarrow> bool" where
  "evict_ok pk p q \<longleftrightarrow> pool_inv q \<and> pl_next q = pl_next p
     \<and> (length (pl_table q) \<le> consumePoolMaxEntries \<or> oldest_idle q pk = None)
     \<and> set (pl_table q) \<subseteq> set (pl_table p)
     \<and> (\<forall>k r e. (k, r) \<in> set (pl_table p) \<and> pl_heap p r = Some e \<and> (k = pk \<or> pe_in_use e)
          \<longrightarrow> (k, r) \<in> set (pl_table q) \<and> pl_heap q r = Some e)
     \<and> set (pl_closed p) \<subseteq> set (pl_closed q)
     \<and> (\<forall>c \<in> set (pl_closed q) - set (pl_closed p).
          \<exists>r e. pl_heap p r = Some e \<and> \<not> pe_in_use e \<and> pe_client e = Some c)"

lemma evict_spec: "pool_inv p \<Longrightarrow> evict_ok pk p (evictConsumePoolLocked pk p)"
proof (induction pk p rule: evictConsumePoolLocked.induct)
  case (1 pk p)
  show ?case
  proof (cases "length (pl_table p) \<le> consumePoolMaxEntries \<or> oldest_idle p pk = None")
    case True
    then have "evictConsumePoolLocked pk p = p"
      by (subst evictConsumePoolLocked.simps) (auto split: option.splits)
    then show ?thesis using True "1.prems" by (auto simp: evict_ok_def)
  next
    case False
    then obtain key where key: "oldest_idle p pk = Some key" by auto
    then obtain r e where mem: "(key, r) \<in> set (pl_table p)" and e: "pl_heap p r = Some e"
      "key \<noteq> pk" "\<not> pe_in_use e"
      using oldest_idle_scan [of p pk] by (auto simp: idle_at_def)
    obtain c where c: "pe_client e = Some c"
      using pool_inv_table [OF "1.prems" mem] e(1) by (metis option.sel)
    have m: "map_of (pl_table p) key = Some r"
      using mem pool_invD(1) [OF "1.prems"] by simp
    let ?p = "closeConsumePoolEntry r key p"
    have run: "evictConsumePoolLocked pk p = evictConsumePoolLocked pk ?p"
      using False key m by (subst evictConsumePoolLocked.simps) simp
    note cl = close_entry [OF "1.prems" mem e(1) c]
    have IH: "evict_ok pk ?p (evictConsumePoolLocked pk ?p)"
      using "1.IH" [OF _ key m] False pool_inv_close [OF "1.prems" mem] by simp
    let ?q = "evictConsumePoolLocked pk ?p"
    have table: "set (pl_table ?p) = set (pl_table p) - {kr. fst kr = key}"
      by (auto simp: cl AList.delete_eq)
    have uniq: "r' \<noteq> r" if "(k', r') \<in> set (pl_table p)" "k' \<noteq> key" for k' r'
      using pool_inv_table [OF "1.prems" that(1)] pool_inv_table [OF "1.prems" mem] that(2)
      by (metis option.sel)
    show ?thesis unfolding run evict_ok_def
    proof (intro conjI allI impI ballI)
      show "pool_inv ?q" "pl_next ?q = pl_next p"
        "length (pl_table ?q) \<le> consumePoolMaxEntries \<or> oldest_idle ?q pk = None"
        "set (pl_table ?q) \<subseteq> set (pl_table p)" "set (pl_closed p) \<subseteq> set (pl_closed ?q)"
        using IH table by (auto simp: evict_ok_def cl)
    next
      fix k' r' e'
      assume a: "(k', r') \<in> set (pl_table p) \<and> pl_heap p r' = Some e' \<and> (k' = pk \<or> pe_in_use e')"
      have "k' \<noteq> key"
      proof
        assume "k' = key"
        then have "r' = r" using a m pool_invD(1) [OF "1.prems"] by (metis map_of_is_SomeI option.sel)
        then show False using a e \<open>k' = key\<close> by simp
      qed
      then have "(k', r') \<in> set (pl_table ?p)" "pl_heap ?p r' = Some e'"
        using a table uniq [of k' r'] by (auto simp: cl)
      then show "(k', r') \<in> set (pl_table ?q)" "pl_heap ?q r' = Some e'"
        using IH a unfolding evict_ok_def by blast+
    next
      fix d assume d: "d \<in> set (pl_closed ?q) - set (pl_closed p)"
      show "\<exists>r e. pl_heap p r = Some e \<and> \<not> pe_in_use e \<and> pe_client e = Some d"
      proof (cases "d = c")
        case True
        then show ?thesis using e c by blast
      next
        case False
        then have "d \<in> set (pl_closed ?q) - set (pl_closed ?p)" using d by (simp add: cl)
        then obtain r' e' where "pl_heap ?p r' = Some e'" "\<not> pe_in_use e'" "pe_client e' = Some d"
          using IH unfolding evict_ok_def by blast
        then show ?thesis by (auto simp: cl split: if_splits)
      qed
    qed
  qed
qed

text \<open>The entry a new client is put into, before the pool is trimmed.\<close>

definition put_entry :: "int \<Rightarrow> string \<Rightarrow> string \<Rightarrow> nat \<Rightarrow> pool \<Rightarrow> pool" where
  "put_entry now connID signature client p =
     (set_entry (pl_next p) \<lparr>pe_client = Some client, pe_conn = connID, pe_sig = signature, pe_in_use = True,
        pe_at_start = False, pe_seen = [], pe_reset_failed = False, pe_last_used = now\<rparr> p)
     \<lparr>pl_next := pl_next p + 1,
      pl_table := AList.update (consumePoolKey connID signature) (pl_next p) (pl_table p)\<rparr>"

definition drop_old :: "string \<Rightarrow> pool \<Rightarrow> pool" where
  "drop_old key p = (case map_of (pl_table p) key of None \<Rightarrow> p | Some old \<Rightarrow> closeConsumePoolEntry old key p)"

lemma consumePoolPut_steps:
  "consumePoolPut now connID signature client p =
     (pl_next (drop_old (consumePoolKey connID signature) p),
      evictConsumePoolLocked (consumePoolKey connID signature)
        (put_entry now connID signature client (drop_old (consumePoolKey connID signature) p)))"
  by (simp add: consumePoolPut_def put_entry_def drop_old_def Let_def)

lemma drop_old_spec:
  assumes "pool_inv p"
  shows "pool_inv (drop_old key p)" "key \<notin> fst ` set (pl_table (drop_old key p))"
    "set (pl_table (drop_old key p)) = {kr \<in> set (pl_table p). fst kr \<noteq> key}"
    "pl_next (drop_old key p) = pl_next p"
    "fresh_client p c \<Longrightarrow> fresh_client (drop_old key p) c"
    "(k, r) \<in> set (pl_table p) \<Longrightarrow> k \<noteq> key \<Longrightarrow> pl_heap (drop_old key p) r = pl_heap p r"
proof -
  consider "map_of (pl_table p) key = None" | old where "map_of (pl_table p) key = Some old" by fastforce
  then have "pool_inv (drop_old key p) \<and> key \<notin> fst ` set (pl_table (drop_old key p))
    \<and> set (pl_table (drop_old key p)) = {kr \<in> set (pl_table p). fst kr \<noteq> key}
    \<and> pl_next (drop_old key p) = pl_next p \<and> (fresh_client p c \<longrightarrow> fresh_client (drop_old key p) c)
    \<and> ((k, r) \<in> set (pl_table p) \<longrightarrow> k \<noteq> key \<longrightarrow> pl_heap (drop_old key p) r = pl_heap p r)"
  proof cases
    case 1
    then have "key \<notin> fst ` set (pl_table p)" by (simp add: map_of_eq_None_iff)
    then show ?thesis using 1 assms by (auto simp: drop_old_def)
  next
    case 2
    then have mem: "(key, old) \<in> set (pl_table p)" by (rule map_of_SomeD)
    obtain e d where e: "pl_heap p old = Some e" "pe_client e = Some d"
      using pool_inv_table [OF assms mem] by metis
    note cl = close_entry [OF assms mem e]
    have "r \<noteq> old" if "(k, r) \<in> set (pl_table p)" "k \<noteq> key"
      using pool_inv_table [OF assms that(1)] pool_inv_table [OF assms mem] that(2) by (metis option.sel)
    then show ?thesis
      using 2 pool_inv_close [OF assms mem] e
      by (auto simp: drop_old_def cl AList.delete_eq fresh_client_def holds_client_def)
  qed
  then show "pool_inv (drop_old key p)" "key \<notin> fst ` set (pl_table (drop_old key p))"
    "set (pl_table (drop_old key p)) = {kr \<in> set (pl_table p). fst kr \<noteq> key}"
    "pl_next (drop_old key p) = pl_next p"
    "fresh_client p c \<Longrightarrow> fresh_client (drop_old key p) c"
    "(k, r) \<in> set (pl_table p) \<Longrightarrow> k \<noteq> key \<Longrightarrow> pl_heap (drop_old key p) r = pl_heap p r"
    by blast+
qed

lemma pool_inv_put_entry:
  assumes "pool_inv p" "fresh_client p c" "consumePoolKey i g \<notin> fst ` set (pl_table p)"
  shows "pool_inv (put_entry now i g c p)"
    "pl_table (put_entry now i g c p) = pl_table p @ [(consumePoolKey i g, pl_next p)]"
proof -
  let ?q = "put_entry now i g c p" and ?k = "consumePoolKey i g" and ?r = "pl_next p"
  have "AList.update k v m = m @ [(k, v)]" if "k \<notin> fst ` set m" for k :: string and v :: nat and m
    using that by (induction m) auto
  then show table: "pl_table ?q = pl_table p @ [(?k, ?r)]" using assms(3) by (simp add: put_entry_def)
  have none: "pl_heap p ?r = None" using pool_invD(3) [OF assms(1)] by simp
  have new: "r \<noteq> ?r" if "(k, r) \<in> set (pl_table p)" for k r
    using pool_inv_table [OF assms(1) that] none by (metis option.distinct(1))
  have hold: "holds_client ?q r c' \<longleftrightarrow> (if r = ?r then c' = c else holds_client p r c')" for r c'
    by (auto simp: holds_client_def put_entry_def)
  have closed: "pl_closed ?q = pl_closed p" by (simp add: put_entry_def)
  show "pool_inv ?q"
  proof (rule pool_invI)
    show "distinct (map fst (pl_table ?q))" using pool_invD(1) [OF assms(1)] assms(3) by (simp add: table)
    show "distinct (map snd (pl_table ?q))" using pool_invD(2) [OF assms(1)] new [of _ ?r] by (auto simp: table)
    show "\<exists>e. pl_heap ?q r = Some e \<and> pe_client e \<noteq> None \<and> k = consumePoolKey (pe_conn e) (pe_sig e)"
      if m: "(k, r) \<in> set (pl_table ?q)" for k r
    proof (cases "(k, r) \<in> set (pl_table p)")
      case True
      then show ?thesis using pool_inv_table [OF assms(1) True] new [OF True]
        by (auto simp: put_entry_def intro: pool_inv_table [OF assms(1) True])
    next
      case False
      then show ?thesis using m by (simp add: table) (simp add: put_entry_def)
    qed
    show "pl_heap ?q r = None" if "pl_next ?q \<le> r" for r
      using pool_invD(3) [OF assms(1), of r] that by (simp add: put_entry_def)
    show "c' \<notin> set (pl_closed ?q)" if "holds_client ?q r c'" for r c'
      using that assms(2) pool_invD(4) [OF assms(1), of r c']
      by (auto simp: hold closed fresh_client_def split: if_splits)
    show "r = r'" if "holds_client ?q r c'" "holds_client ?q r' c'" for r r' c'
      using that assms(2) pool_invD(5) [OF assms(1), of r c' r']
      by (auto simp: hold fresh_client_def split: if_splits)
  qed
qed

lemma put_spec:
  assumes "pool_inv p" "fresh_client p c" "consumePoolPut now i g c p = (r, q)"
  shows "pool_inv q" "(consumePoolKey i g, r) \<in> set (pl_table q)"
    "\<exists>e. pl_heap q r = Some e \<and> pe_client e = Some c \<and> pe_in_use e \<and> pe_conn e = i \<and> \<not> pe_reset_failed e"
    "length (pl_table q) \<le> consumePoolMaxEntries \<or> oldest_idle q (consumePoolKey i g) = None"
    "(k, r') \<in> set (pl_table p) \<Longrightarrow> pl_heap p r' = Some e' \<Longrightarrow> pe_in_use e' \<Longrightarrow> k \<noteq> consumePoolKey i g
      \<Longrightarrow> (k, r') \<in> set (pl_table q) \<and> pl_heap q r' = Some e'"
proof -
  let ?k = "consumePoolKey i g"
  let ?d = "drop_old ?k p"
  let ?p = "put_entry now i g c ?d"
  have d: "pool_inv ?d" "?k \<notin> fst ` set (pl_table ?d)" "fresh_client ?d c"
    "set (pl_table ?d) = {kr \<in> set (pl_table p). fst kr \<noteq> ?k}"
    using drop_old_spec [OF assms(1), where key = ?k] assms(2) by blast+
  have pi: "pool_inv ?p" "pl_table ?p = pl_table ?d @ [(?k, pl_next ?d)]"
    using pool_inv_put_entry [OF d(1,3,2)] by blast+
  have q: "r = pl_next ?d" "q = evictConsumePoolLocked ?k ?p" using assms(3) by (simp_all add: consumePoolPut_steps)
  have ev: "evict_ok ?k ?p q" unfolding q(2) by (rule evict_spec [OF pi(1)])
  have keep: "(k, r') \<in> set (pl_table q) \<and> pl_heap q r' = Some e'"
    if "(k, r') \<in> set (pl_table ?p)" "pl_heap ?p r' = Some e'" "k = ?k \<or> pe_in_use e'" for k r' e'
    using ev that unfolding evict_ok_def by blast
  show "pool_inv q" "length (pl_table q) \<le> consumePoolMaxEntries \<or> oldest_idle q ?k = None"
    using ev by (simp_all add: evict_ok_def)
  have "pl_heap ?p r = Some \<lparr>pe_client = Some c, pe_conn = i, pe_sig = g, pe_in_use = True,
        pe_at_start = False, pe_seen = [], pe_reset_failed = False, pe_last_used = now\<rparr>"
    by (simp add: put_entry_def q(1))
  from keep [OF _ this, where k = ?k] show "(?k, r) \<in> set (pl_table q)"
    "\<exists>e. pl_heap q r = Some e \<and> pe_client e = Some c \<and> pe_in_use e \<and> pe_conn e = i \<and> \<not> pe_reset_failed e"
    by (simp_all add: pi(2) q(1))
  assume a: "(k, r') \<in> set (pl_table p)" "pl_heap p r' = Some e'" "pe_in_use e'" "k \<noteq> ?k"
  then have m: "(k, r') \<in> set (pl_table ?d)" using d(4) by simp
  have h: "pl_heap ?d r' = Some e'" using drop_old_spec(6) [OF assms(1) a(1,4)] a(2) by simp
  then have "r' \<noteq> pl_next ?d" using pool_invD(3) [OF d(1), of "pl_next ?d"] by auto
  then have "pl_heap ?p r' = Some e'" using h by (simp add: put_entry_def)
  then show "(k, r') \<in> set (pl_table q) \<and> pl_heap q r' = Some e'"
    using keep [of k r' e'] a(3) m by (simp add: pi(2))
qed

lemma acquire_spec:
  assumes "pool_inv p" "consumePoolAcquire now i g b p = ((x, ok), q)"
  shows "pool_inv q"
    "ok \<Longrightarrow> \<exists>r e c. x = Some r \<and> pl_heap p r = Some e \<and> \<not> pe_in_use e \<and> \<not> pe_reset_failed e
       \<and> pe_client e = Some c \<and> c \<notin> set (pl_closed q) \<and> pl_table q = pl_table p
       \<and> map_of (pl_table p) (consumePoolKey i g) = Some r
       \<and> pl_heap q r = Some (e\<lparr>pe_in_use := True, pe_at_start := b, pe_last_used := now\<rparr>)"
proof -
  have *: "pool_inv q \<and> (ok \<longrightarrow> (\<exists>r e c. x = Some r \<and> pl_heap p r = Some e \<and> \<not> pe_in_use e \<and> \<not> pe_reset_failed e
       \<and> pe_client e = Some c \<and> c \<notin> set (pl_closed q) \<and> pl_table q = pl_table p
       \<and> map_of (pl_table p) (consumePoolKey i g) = Some r
       \<and> pl_heap q r = Some (e\<lparr>pe_in_use := True, pe_at_start := b, pe_last_used := now\<rparr>)))"
  proof (cases "map_of (pl_table p) (consumePoolKey i g)")
    case None
    then show ?thesis using assms by (simp add: consumePoolAcquire_def)
  next
    case (Some r)
    then obtain e c where e: "pl_heap p r = Some e" "pe_client e = Some c" "c \<notin> set (pl_closed p)"
      using pool_inv_table [OF assms(1) map_of_SomeD [OF Some]] by metis
    show ?thesis
    proof (cases "pe_in_use e \<or> pe_reset_failed e")
      case True
      then show ?thesis using assms Some e by (auto simp: consumePoolAcquire_def)
    next
      case False
      then have "q = set_entry r (e\<lparr>pe_in_use := True, pe_at_start := b, pe_last_used := now\<rparr>) p" "x = Some r"
        using assms(2) Some e by (auto simp: consumePoolAcquire_def)
      then show ?thesis using False Some e pool_inv_mark [OF assms(1) e(1)] by simp
    qed
  qed
  then show "pool_inv q" by blast
  assume ok
  with * show "\<exists>r e c. x = Some r \<and> pl_heap p r = Some e \<and> \<not> pe_in_use e \<and> \<not> pe_reset_failed e
       \<and> pe_client e = Some c \<and> c \<notin> set (pl_closed q) \<and> pl_table q = pl_table p
       \<and> map_of (pl_table p) (consumePoolKey i g) = Some r
       \<and> pl_heap q r = Some (e\<lparr>pe_in_use := True, pe_at_start := b, pe_last_used := now\<rparr>)" by blast
qed

lemma pool_inv_release_mark: "pool_inv p \<Longrightarrow> pool_inv (release_mark now observed healthy r p)"
  by (cases "pl_heap p r") (simp_all add: release_mark_def pool_inv_mark)

lemma pool_inv_release_sweep: "pool_inv p \<Longrightarrow> pool_inv (release_sweep now p)"
  unfolding release_sweep_def by (rule close_all_spec(1))

section \<open>Reachable pools\<close>

text \<open>
  Any interleaving of the operations by any number of consumptions. A client that is put is
  one \<open>kgo.NewClient\<close> has just returned, so the pool has not seen it before.
\<close>

inductive reachable_pool :: "pool \<Rightarrow> bool" where
  Start: "reachable_pool new_pool"
| Acquire: "reachable_pool p \<Longrightarrow> consumePoolAcquire now i g b p = (x, q) \<Longrightarrow> reachable_pool q"
| Put: "reachable_pool p \<Longrightarrow> fresh_client p c \<Longrightarrow> consumePoolPut now i g c p = (r, q) \<Longrightarrow> reachable_pool q"
| Mark: "reachable_pool p \<Longrightarrow> reachable_pool (release_mark now observed healthy r p)"
| Sweep: "reachable_pool p \<Longrightarrow> reachable_pool (release_sweep now p)"
| CloseFor: "reachable_pool p \<Longrightarrow> reachable_pool (consumePoolCloseFor i p)"
| CloseAll: "reachable_pool p \<Longrightarrow> reachable_pool (consumePoolCloseAll p)"
| CloseTemp: "reachable_pool p \<Longrightarrow> fresh_client p c \<Longrightarrow> reachable_pool (closeTempClient c p)"

lemma pool_inv_temp: "pool_inv p \<Longrightarrow> fresh_client p c \<Longrightarrow> pool_inv (closeTempClient c p)"
proof -
  assume a: "pool_inv p" "fresh_client p c"
  have h: "holds_client (closeTempClient c p) r d = holds_client p r d" for r d
    by (simp add: holds_client_def closeTempClient_def)
  then have "d \<notin> set (pl_closed (closeTempClient c p))" if "holds_client p r d" for r d
    using a that pool_invD(4) [OF a(1) that] by (auto simp: closeTempClient_def fresh_client_def)
  then show ?thesis using a(1) h unfolding pool_inv_def by (simp add: closeTempClient_def holds_client_def)
qed

lemma reachable_pool_inv: "reachable_pool p \<Longrightarrow> pool_inv p"
proof (induction rule: reachable_pool.induct)
  case Start
  show ?case by (rule pool_inv_new)
next
  case (Acquire p now i g b x q)
  then show ?case using acquire_spec(1) [of p now i g b "fst x" "snd x" q] by simp
next
  case (Put p c now i g r q)
  then show ?case using put_spec(1) by blast
next
  case (Mark p now observed healthy r)
  then show ?case by (intro pool_inv_release_mark)
next
  case (Sweep p now)
  then show ?case by (intro pool_inv_release_sweep)
next
  case (CloseFor p i)
  then show ?case unfolding consumePoolCloseFor_def by (intro close_all_spec(1))
next
  case (CloseAll p)
  then show ?case unfolding consumePoolCloseAll_def by (intro close_all_spec(1))
next
  case (CloseTemp p c)
  then show ?case by (intro pool_inv_temp)
qed

lemma reachable_pool_release: "reachable_pool p \<Longrightarrow> reachable_pool (consumePoolRelease now observed healthy r p)"
  unfolding consumePoolRelease_def by (intro reachable_pool.Sweep reachable_pool.Mark)

section \<open>Tracking entries and clients\<close>

text \<open>
  What each operation does to the entries in use and to the clients the pool does not know;
  a consumption composes these facts.
\<close>

definition busy :: "pool \<Rightarrow> nat \<Rightarrow> bool" where
  "busy p r \<longleftrightarrow> (\<exists>e. pl_heap p r = Some e \<and> pe_in_use e)"

lemma busy_close: "busy (closeConsumePoolEntry r k p) r' = busy p r'"
  by (auto simp: busy_def closeConsumePoolEntry_def Let_def split: option.splits)

lemma fresh_close: "fresh_client p c \<Longrightarrow> fresh_client (closeConsumePoolEntry r k p) c"
  by (auto simp: fresh_client_def holds_client_def closeConsumePoolEntry_def Let_def split: option.splits if_splits)

lemma busy_close_all: "busy (close_all doomed p) r = busy p r"
proof -
  have "busy (foldl (close_round doomed) p kvs) r = busy p r" for kvs
    by (induction kvs arbitrary: p) (simp_all add: close_round_def busy_close split: option.split)
  then show ?thesis by (simp add: close_all_def)
qed

lemma busy_release_mark: "busy p r' \<Longrightarrow> r' \<noteq> r \<Longrightarrow> busy (release_mark now observed healthy r p) r'"
  by (auto simp: busy_def release_mark_def split: option.splits)

lemma busy_fresh_evict:
  "busy (evictConsumePoolLocked k p) r = busy p r
   \<and> (fresh_client p c \<longrightarrow> fresh_client (evictConsumePoolLocked k p) c)"
proof (induction k p rule: evictConsumePoolLocked.induct)
  case (1 k p)
  show ?case
  proof (cases "length (pl_table p) \<le> consumePoolMaxEntries \<or> oldest_idle p k = None
      \<or> map_of (pl_table p) (the (oldest_idle p k)) = None")
    case True
    then have "evictConsumePoolLocked k p = p"
      by (subst evictConsumePoolLocked.simps) (auto split: option.splits)
    then show ?thesis by simp
  next
    case False
    then obtain key r' where k: "oldest_idle p k = Some key" "map_of (pl_table p) key = Some r'" by auto
    then have "evictConsumePoolLocked k p = evictConsumePoolLocked k (closeConsumePoolEntry r' key p)"
      using False by (subst evictConsumePoolLocked.simps) simp
    then show ?thesis using "1.IH" [OF _ k] False by (simp add: busy_close fresh_close)
  qed
qed

lemma busy_fresh_put:
  assumes "consumePoolPut now i g c p = (r, q)" "pool_inv p"
  shows "busy q r' \<longleftrightarrow> busy p r' \<or> r' = r"
    and "fresh_client p d \<Longrightarrow> d \<noteq> c \<Longrightarrow> fresh_client q d"
proof -
  let ?d = "drop_old (consumePoolKey i g) p"
  have q: "r = pl_next ?d" "q = evictConsumePoolLocked (consumePoolKey i g) (put_entry now i g c ?d)"
    using assms(1) by (simp_all add: consumePoolPut_steps)
  have d: "busy ?d r' = busy p r'" "fresh_client p d \<Longrightarrow> fresh_client ?d d"
    by (auto simp: drop_old_def busy_close fresh_close split: option.splits)
  have "busy (put_entry now i g c ?d) r' \<longleftrightarrow> busy ?d r' \<or> r' = r"
    by (auto simp: busy_def put_entry_def q(1))
  then show "busy q r' \<longleftrightarrow> busy p r' \<or> r' = r" unfolding q(2) using busy_fresh_evict d(1) by simp
  assume "fresh_client p d" "d \<noteq> c"
  then have "fresh_client (put_entry now i g c ?d) d"
    using d(2) by (auto simp: fresh_client_def holds_client_def put_entry_def)
  then show "fresh_client q d" unfolding q(2) using busy_fresh_evict by blast
qed

lemma busy_fresh_acquire:
  assumes "consumePoolAcquire now i g b p = ((x, ok), q)"
  shows "busy q r' \<longleftrightarrow> busy p r' \<or> (ok \<and> x = Some r')" and "fresh_client q d = fresh_client p d"
proof -
  show "busy q r' \<longleftrightarrow> busy p r' \<or> (ok \<and> x = Some r')"
    using assms by (auto simp: consumePoolAcquire_def busy_def split: option.splits if_splits)
  have "holds_client q r d = holds_client p r d" for r
    using assms by (cases "Some r = x") (auto simp: consumePoolAcquire_def holds_client_def split: option.splits if_splits)
  moreover have "pl_closed q = pl_closed p"
    using assms by (auto simp: consumePoolAcquire_def split: option.splits if_splits)
  ultimately show "fresh_client q d = fresh_client p d" by (simp add: fresh_client_def)
qed

text \<open>A released entry stays in the pool, idle, with its client and its mark.\<close>

lemma release_spec:
  fixes now :: int and observed :: "int list" and healthy :: bool
  assumes "pool_inv p" "pl_heap p r = Some e"
  defines "q \<equiv> consumePoolRelease now observed healthy r p"
  shows "busy q r' \<longleftrightarrow> busy p r' \<and> r' \<noteq> r"
    and "fresh_client p d \<Longrightarrow> fresh_client q d"
    and "(k, r) \<in> set (pl_table p) \<Longrightarrow> (k, r) \<in> set (pl_table q)"
    and "pl_heap q r = Some (e\<lparr>pe_seen := pe_seen e @ observed,
      pe_reset_failed := pe_reset_failed e \<or> \<not> healthy, pe_in_use := False, pe_last_used := now\<rparr>)"
    and "set (pl_closed p) \<subseteq> set (pl_closed q)"
proof -
  let ?e = "e\<lparr>pe_seen := pe_seen e @ observed, pe_reset_failed := pe_reset_failed e \<or> \<not> healthy,
    pe_in_use := False, pe_last_used := now\<rparr>"
  let ?p = "set_entry r ?e p"
  let ?dm = "\<lambda>e. \<not> pe_in_use e \<and> now - pe_last_used e > consumePoolIdleTTL"
  have q: "q = close_all ?dm ?p" using assms(2) by (simp add: q_def consumePoolRelease_def release_mark_def release_sweep_def)
  have inv: "pool_inv ?p" by (rule pool_inv_mark [OF assms(1,2)]) simp_all
  note c = close_all_spec [OF inv, where doomed = ?dm, folded q]
  have nr: "\<not> (\<exists>e. pl_heap ?p r = Some e \<and> ?dm e)" by (simp add: consumePoolIdleTTL_def)
  have h: "pl_heap q r = Some ?e" using c(4) [of r] nr by auto
  have "busy q x = busy ?p x" for x
    using c(4) [of x] by (auto simp: busy_def split: if_splits)
  then show b: "busy q r' \<longleftrightarrow> busy p r' \<and> r' \<noteq> r" by (auto simp: busy_def)
  show "fresh_client q d" if "fresh_client p d"
  proof -
    have f: "fresh_client ?p d" using that assms(2) by (auto simp: fresh_client_def holds_client_def)
    have "\<not> holds_client q x d" for x
      using f c(4) [of x] by (auto simp: fresh_client_def holds_client_def split: if_splits)
    moreover have "d \<notin> set (pl_closed q)" using f c(5) [of d] by (auto simp: fresh_client_def)
    ultimately show ?thesis by (simp add: fresh_client_def)
  qed
  show "pl_heap q r = Some ?e" by (rule h)
  show "set (pl_closed p) \<subseteq> set (pl_closed q)" using c(5) by auto
  assume "(k, r) \<in> set (pl_table p)"
  then show "(k, r) \<in> set (pl_table q)" unfolding c(2) using nr by auto
qed

text \<open>Clients an acquisition can return, and clients that sit in marked entries only.\<close>

definition handed_out :: "pool \<Rightarrow> nat \<Rightarrow> bool" where
  "handed_out p c \<longleftrightarrow>
     (\<exists>now i g b r q. consumePoolAcquire now i g b p = ((Some r, True), q) \<and> holds_client q r c)"

definition spoilt :: "pool \<Rightarrow> nat \<Rightarrow> bool" where
  "spoilt p c \<longleftrightarrow> (\<forall>r e. pl_heap p r = Some e \<longrightarrow> pe_client e = Some c \<longrightarrow> pe_reset_failed e)"

lemma handed_out_iff:
  assumes "pool_inv p"
  shows "handed_out p c \<longleftrightarrow> (\<exists>k r e. (k, r) \<in> set (pl_table p) \<and> pl_heap p r = Some e \<and> pe_client e = Some c
    \<and> \<not> pe_in_use e \<and> \<not> pe_reset_failed e)" (is "_ \<longleftrightarrow> ?idle")
proof
  assume "handed_out p c"
  then obtain now i g b r q where a: "consumePoolAcquire now i g b p = ((Some r, True), q)" "holds_client q r c"
    unfolding handed_out_def by blast
  from acquire_spec(2) [OF assms a(1)] a(2) show ?idle
    by (fastforce simp: holds_client_def dest: map_of_SomeD)
next
  assume ?idle
  then obtain k r e where e: "(k, r) \<in> set (pl_table p)" "pl_heap p r = Some e" "pe_client e = Some c"
    "\<not> pe_in_use e" "\<not> pe_reset_failed e" by blast
  moreover from this have "map_of (pl_table p) (consumePoolKey (pe_conn e) (pe_sig e)) = Some r"
    using pool_inv_table [OF assms e(1)] by (metis option.sel)
  ultimately have "\<exists>q. consumePoolAcquire 0 (pe_conn e) (pe_sig e) True p = ((Some r, True), q) \<and> holds_client q r c"
    by (simp add: consumePoolAcquire_def holds_client_def)
  then show "handed_out p c" unfolding handed_out_def by blast
qed

lemma spoilt_not_handed_out: "pool_inv p \<Longrightarrow> spoilt p c \<Longrightarrow> \<not> handed_out p c"
  by (auto simp: handed_out_iff spoilt_def)

lemma spoilt_close: "spoilt p c \<Longrightarrow> spoilt (closeConsumePoolEntry r k p) c"
  by (auto simp: spoilt_def closeConsumePoolEntry_def Let_def split: option.splits)

lemma spoilt_close_all: "spoilt p c \<Longrightarrow> spoilt (close_all doomed p) c"
proof -
  have "spoilt p c \<Longrightarrow> spoilt (foldl (close_round doomed) p kvs) c" for kvs
    by (induction kvs arbitrary: p) (simp_all add: close_round_def spoilt_close split: option.split)
  then show "spoilt p c \<Longrightarrow> ?thesis" by (simp add: close_all_def)
qed

lemma spoilt_evict: "spoilt p c \<Longrightarrow> spoilt (evictConsumePoolLocked k p) c"
proof (induction k p rule: evictConsumePoolLocked.induct)
  case (1 k p)
  then show ?case by (subst evictConsumePoolLocked.simps) (auto simp: spoilt_close split: option.splits)
qed

lemma spoilt_put:
  assumes "spoilt p c" "c \<noteq> c'" "consumePoolPut now i g c' p = (r, q)"
  shows "spoilt q c"
proof -
  have "spoilt (drop_old (consumePoolKey i g) p) c"
    using assms(1) by (simp add: drop_old_def spoilt_close split: option.splits)
  then have "spoilt (put_entry now i g c' (drop_old (consumePoolKey i g) p)) c"
    using assms(2) by (auto simp: spoilt_def put_entry_def)
  then show ?thesis using assms(3) by (auto simp: consumePoolPut_steps intro: spoilt_evict)
qed

lemma spoilt_release: "spoilt p c \<Longrightarrow> spoilt (consumePoolRelease now observed healthy r p) c"
  unfolding consumePoolRelease_def release_sweep_def
  by (intro spoilt_close_all) (auto simp: spoilt_def release_mark_def split: option.splits)

lemma spoilt_temp: "spoilt p c \<Longrightarrow> spoilt (closeTempClient c' p) c"
  by (simp add: spoilt_def closeTempClient_def)

section \<open>What the pool guarantees\<close>

text \<open>
  The pools that come after \<open>q\<close> by any operations of any consumptions, as long as nobody
  releases the entry \<open>r\<close>.
\<close>

inductive not_released :: "nat \<Rightarrow> pool \<Rightarrow> pool \<Rightarrow> bool" for r q where
  Now: "not_released r q q"
| Acquire: "not_released r q p \<Longrightarrow> consumePoolAcquire now i g b p = (x, p') \<Longrightarrow> not_released r q p'"
| Put: "not_released r q p \<Longrightarrow> fresh_client p c \<Longrightarrow> consumePoolPut now i g c p = (r', p') \<Longrightarrow> not_released r q p'"
| Mark: "not_released r q p \<Longrightarrow> r' \<noteq> r \<Longrightarrow> not_released r q (release_mark now observed healthy r' p)"
| Sweep: "not_released r q p \<Longrightarrow> not_released r q (release_sweep now p)"
| CloseFor: "not_released r q p \<Longrightarrow> not_released r q (consumePoolCloseFor i p)"
| CloseAll: "not_released r q p \<Longrightarrow> not_released r q (consumePoolCloseAll p)"
| CloseTemp: "not_released r q p \<Longrightarrow> fresh_client p c \<Longrightarrow> not_released r q (closeTempClient c p)"

lemma not_released_reachable: "not_released r q p \<Longrightarrow> reachable_pool q \<Longrightarrow> reachable_pool p"
  by (induction rule: not_released.induct) (blast intro: reachable_pool.intros)+

lemma not_released_busy: "not_released r q p \<Longrightarrow> reachable_pool q \<Longrightarrow> busy q r \<Longrightarrow> busy p r"
proof (induction rule: not_released.induct)
  case (Acquire p now i g b x p')
  then show ?case using busy_fresh_acquire(1) [of now i g b p "fst x" "snd x" p'] by simp
next
  case (Put p c now i g r' p')
  then show ?case
    using busy_fresh_put(1) [OF Put.hyps(3) reachable_pool_inv [OF not_released_reachable [OF Put.hyps(1)]]] by simp
next
  case (Mark p r' now observed healthy)
  then show ?case by (simp add: busy_release_mark)
next
  case (CloseTemp p c)
  then show ?case by (simp add: busy_def closeTempClient_def)
qed (simp_all add: release_sweep_def consumePoolCloseFor_def consumePoolCloseAll_def busy_close_all)

lemma busy_not_acquired: "busy p r \<Longrightarrow> fst (consumePoolAcquire now i g b p) \<noteq> (Some r, True)"
  by (auto simp: busy_def consumePoolAcquire_def split: option.splits)

text \<open>
  C5. Whatever consumptions and disconnects went before, an entry handed out for reuse was
  idle and had survived every earlier use unmarked, and its client has not been closed; and
  until this entry is released, no acquisition hands it out a second time, whatever other
  consumptions acquire, put and release and whatever is disconnected meanwhile.
\<close>

theorem pool_hands_out_open_idle_client:
  assumes "reachable_pool p" "consumePoolAcquire now i g b p = ((Some r, True), q)"
  shows "(\<exists>e c. pl_heap p r = Some e \<and> \<not> pe_in_use e \<and> \<not> pe_reset_failed e \<and> pe_client e = Some c
            \<and> c \<notin> set (pl_closed q))
    \<and> (\<forall>q'. not_released r q q' \<longrightarrow>
         (\<nexists>now' i' g' b'. fst (consumePoolAcquire now' i' g' b' q') = (Some r, True)))"
proof -
  have inv: "pool_inv p" by (rule reachable_pool_inv [OF assms(1)])
  have a: "\<exists>e c. pl_heap p r = Some e \<and> \<not> pe_in_use e \<and> \<not> pe_reset_failed e \<and> pe_client e = Some c
      \<and> c \<notin> set (pl_closed q)" "busy q r"
    using acquire_spec [OF inv assms(2)] by (auto simp: busy_def)
  have "reachable_pool q" by (rule reachable_pool.Acquire [OF assms])
  then show ?thesis using a not_released_busy busy_not_acquired by blast
qed

definition sample_pool :: pool where
  "sample_pool =
     (let (r, p) = consumePoolPut 100 ''c1'' ''s1'' 7 new_pool in consumePoolRelease 200 [0] True r p)"

lemma sample_pool_eq:
  "sample_pool = \<lparr>pl_heap = [0 \<mapsto> \<lparr>pe_client = Some 7, pe_conn = ''c1'', pe_sig = ''s1'', pe_in_use = False,
     pe_at_start = False, pe_seen = [0], pe_reset_failed = False, pe_last_used = 200\<rparr>], pl_next = 1,
     pl_table = [(consumePoolKey ''c1'' ''s1'', 0)], pl_closed = []\<rparr>"
  by (simp add: sample_pool_def consumePoolPut_def new_pool_def evictConsumePoolLocked.simps
      consumePoolMaxEntries_def consumePoolRelease_def release_mark_def release_sweep_def close_all_def close_round_def
      consumePoolIdleTTL_def set_entry_def)

lemma sample_pool_reachable: "reachable_pool sample_pool"
proof -
  obtain r p where put: "consumePoolPut 100 ''c1'' ''s1'' 7 new_pool = (r, p)"
    by (cases "consumePoolPut 100 ''c1'' ''s1'' 7 new_pool")
  have "fresh_client new_pool 7" by (simp add: fresh_client_def new_pool_def holds_client_def)
  then have "reachable_pool p" using put reachable_pool.intros(1,3) by blast
  then show ?thesis unfolding sample_pool_def put by (simp add: reachable_pool_release)
qed

theorem pool_hands_out_open_idle_client_witness:
  "\<exists>q. consumePoolAcquire 300 ''c1'' ''s1'' True sample_pool = ((Some 0, True), q)
     \<and> fst (consumePoolAcquire 400 ''c1'' ''s1'' False
          (release_sweep 320 (snd (consumePoolPut 310 ''c2'' ''s2'' 8 q)))) \<noteq> (Some 0, True)"
proof -
  obtain q where q: "consumePoolAcquire 300 ''c1'' ''s1'' True sample_pool = ((Some 0, True), q)"
    by (simp add: sample_pool_eq consumePoolAcquire_def)
  have "fresh_client sample_pool 8" by (simp add: sample_pool_eq fresh_client_def holds_client_def)
  then have "fresh_client q 8" using busy_fresh_acquire(2) [OF q] by simp
  then have "not_released 0 q (release_sweep 320 (snd (consumePoolPut 310 ''c2'' ''s2'' 8 q)))"
    by (intro not_released.Sweep not_released.Put [OF not_released.Now _ surjective_pairing])
  then show ?thesis
    using q pool_hands_out_open_idle_client [OF sample_pool_reachable q] by blast
qed

definition times_ok :: "pool \<Rightarrow> bool" where
  "times_ok p \<longleftrightarrow> (\<forall>r. case pl_heap p r of None \<Rightarrow> True | Some e \<Rightarrow> pe_last_used e < 2 ^ 62)"

lemma times_ok_close: "times_ok p \<Longrightarrow> times_ok (closeConsumePoolEntry r k p)"
  by (auto simp: times_ok_def closeConsumePoolEntry_def Let_def split: option.splits)

lemma times_ok_evict: "times_ok p \<Longrightarrow> times_ok (evictConsumePoolLocked k p)"
proof (induction k p rule: evictConsumePoolLocked.induct)
  case (1 k p)
  then show ?case
    by (subst evictConsumePoolLocked.simps) (auto simp: times_ok_close split: option.splits)
qed

lemma times_ok_put:
  assumes "times_ok p" "now < 2 ^ 62" "consumePoolPut now i g c p = (r, q)"
  shows "times_ok q"
proof -
  let ?d = "drop_old (consumePoolKey i g) p"
  have "times_ok ?d" using assms(1) by (simp add: drop_old_def times_ok_close split: option.splits)
  then have "times_ok (put_entry now i g c ?d)" using assms(2) by (simp add: times_ok_def put_entry_def)
  then show ?thesis using assms(3) by (auto simp: consumePoolPut_steps intro: times_ok_evict)
qed

text \<open>
  After a client is put, the pool holds at most eight entries unless every other entry
  is in use, and trimming it never drops or closes an entry that another key has in use.
\<close>

theorem pool_put_bounded:
  assumes "reachable_pool p" "fresh_client p c" "times_ok p" "now < 2 ^ 62"
    and "consumePoolPut now i g c p = (r, q)"
  shows "(length (pl_table q) \<le> consumePoolMaxEntries
      \<or> (\<forall>(k, r') \<in> set (pl_table q). k = consumePoolKey i g \<or> (\<exists>e. pl_heap q r' = Some e \<and> pe_in_use e)))
    \<and> (\<forall>(k, r') \<in> set (pl_table p). k \<noteq> consumePoolKey i g \<longrightarrow> (\<exists>e. pl_heap p r' = Some e \<and> pe_in_use e)
        \<longrightarrow> (k, r') \<in> set (pl_table q) \<and> pl_heap q r' = pl_heap p r')"
proof -
  have inv: "pool_inv p" by (rule reachable_pool_inv [OF assms(1)])
  note q = put_spec [OF inv assms(2,5)]
  have t: "times_ok q" by (rule times_ok_put [OF assms(3-5)])
  have "k = consumePoolKey i g \<or> (\<exists>e. pl_heap q r' = Some e \<and> pe_in_use e)"
    if full: "oldest_idle q (consumePoolKey i g) = None" and m: "(k, r') \<in> set (pl_table q)" for k r'
  proof (rule ccontr)
    assume no: "\<not> ?thesis"
    obtain e where e: "pl_heap q r' = Some e" using pool_inv_table [OF q(1) m] by metis
    then have "idle_at q (consumePoolKey i g) (k, r') (pe_last_used e)" using no by (auto simp: idle_at_def)
    then have "2 ^ 62 \<le> pe_last_used e"
      using oldest_idle_scan [of q "consumePoolKey i g"] full m by auto
    moreover have "pe_last_used e < 2 ^ 62"
      using t e unfolding times_ok_def by (metis option.simps(5))
    ultimately show False by simp
  qed
  then show ?thesis using q(4,5) by fastforce
qed

theorem pool_put_bounded_witness:
  "\<exists>r q. consumePoolPut 400 ''c2'' ''s2'' 9 sample_pool = (r, q)
     \<and> (length (pl_table q) \<le> consumePoolMaxEntries
        \<or> (\<forall>(k, r') \<in> set (pl_table q). k = consumePoolKey ''c2'' ''s2'' \<or> (\<exists>e. pl_heap q r' = Some e \<and> pe_in_use e)))"
proof -
  have f: "fresh_client sample_pool 9" "times_ok sample_pool"
    by (auto simp: sample_pool_eq fresh_client_def holds_client_def times_ok_def)
  obtain r q where q: "consumePoolPut 400 ''c2'' ''s2'' 9 sample_pool = (r, q)"
    by (cases "consumePoolPut 400 ''c2'' ''s2'' 9 sample_pool")
  have "(400::int) < 2 ^ 62" by simp
  then show ?thesis using pool_put_bounded [OF sample_pool_reachable f _ q] q by blast
qed

text \<open>
  Disconnecting closes exactly the clients the pool holds for that connection and drops
  their entries; the entries of every other connection stay.
\<close>

theorem pool_close_for_exact:
  assumes "reachable_pool p"
  shows "pl_table (consumePoolCloseFor i p)
      = filter (\<lambda>(k, r). \<not> (\<exists>e. pl_heap p r = Some e \<and> pe_conn e = i)) (pl_table p)
    \<and> set (pl_closed (consumePoolCloseFor i p)) = set (pl_closed p)
        \<union> {c. \<exists>k r e. (k, r) \<in> set (pl_table p) \<and> pl_heap p r = Some e \<and> pe_conn e = i \<and> pe_client e = Some c}"
proof -
  note c = close_all_spec [OF reachable_pool_inv [OF assms], where doomed = "\<lambda>e. pe_conn e = i"]
  have "set (pl_closed (consumePoolCloseFor i p)) = set (pl_closed p)
        \<union> {c. \<exists>k r e. (k, r) \<in> set (pl_table p) \<and> pl_heap p r = Some e \<and> pe_conn e = i \<and> pe_client e = Some c}"
    unfolding consumePoolCloseFor_def set_eq_iff c(5) by (force simp: holds_client_def)
  then show ?thesis using c(2) by (simp add: consumePoolCloseFor_def)
qed

theorem pool_close_for_exact_witness:
  "set (pl_closed (consumePoolCloseFor ''c1'' sample_pool)) = {7}"
  using pool_close_for_exact [OF sample_pool_reachable, of "''c1''"] by (auto simp: sample_pool_eq)

text \<open>Putting a client closes the one its key had.\<close>

lemma put_closes_old:
  assumes "pool_inv p" "fresh_client p c'" "consumePoolPut now i g c' p = (r', q)"
    and "map_of (pl_table p) (consumePoolKey i g) = Some r" "pl_heap p r = Some e" "pe_client e = Some c"
  shows "c \<in> set (pl_closed q)"
proof -
  let ?k = "consumePoolKey i g"
  let ?d = "drop_old ?k p"
  have "closeConsumePoolEntry r ?k p = ?d" using assms(4) by (simp add: drop_old_def)
  then have "c \<in> set (pl_closed ?d)"
    using close_entry [OF assms(1) map_of_SomeD [OF assms(4)] assms(5,6)]
    by (metis list.set_intros(1) pool.select_convs(4) pool.update_convs(4) pool.surjective)
  then have "c \<in> set (pl_closed (put_entry now i g c' ?d))" by (simp add: put_entry_def)
  moreover have "pool_inv (put_entry now i g c' ?d)"
    using drop_old_spec(1,2,5) [OF assms(1), where key = ?k] assms(2) by (intro pool_inv_put_entry(1))
  then have "evict_ok ?k (put_entry now i g c' ?d) q"
    using evict_spec assms(3) by (auto simp: consumePoolPut_steps)
  ultimately show ?thesis by (auto simp: evict_ok_def)
qed

text \<open>
  The file's header says that a request that finds its entry in use builds a client of
  its own that does not enter the pool. It does enter it: putting a client under a key whose
  entry is in use closes the client of the consumption that is using it.
\<close>

theorem pool_put_closes_busy_client:
  assumes "reachable_pool p" "fresh_client p c'" "consumePoolPut now i g c' p = (r', q)"
    and "map_of (pl_table p) (consumePoolKey i g) = Some r" "pl_heap p r = Some e" "pe_in_use e" "pe_client e = Some c"
  shows "fst (consumePoolAcquire now i g b p) = (Some r, False) \<and> c \<notin> set (pl_closed p) \<and> c \<in> set (pl_closed q)"
proof -
  have inv: "pool_inv p" by (rule reachable_pool_inv [OF assms(1)])
  have "c \<in> set (pl_closed q)" by (rule put_closes_old [OF inv assms(2-5,7)])
  moreover have "holds_client p r c" using assms(5,7) by (simp add: holds_client_def)
  ultimately show ?thesis using pool_invD(4) [OF inv] assms(4-6) by (simp add: consumePoolAcquire_def)
qed

definition busy_pool :: pool where
  "busy_pool = snd (consumePoolPut 100 ''c1'' ''s1'' 7 new_pool)"

theorem pool_put_closes_busy_client_witness:
  "7 \<notin> set (pl_closed busy_pool) \<and> 7 \<in> set (pl_closed (snd (consumePoolPut 150 ''c1'' ''s1'' 8 busy_pool)))"
proof -
  have f: "fresh_client new_pool 7" by (simp add: fresh_client_def new_pool_def holds_client_def)
  have r: "reachable_pool busy_pool"
    using reachable_pool.Put [OF reachable_pool.Start f surjective_pairing] by (simp add: busy_pool_def)
  have e: "busy_pool = \<lparr>pl_heap = [0 \<mapsto> \<lparr>pe_client = Some 7, pe_conn = ''c1'', pe_sig = ''s1'', pe_in_use = True,
     pe_at_start = False, pe_seen = [], pe_reset_failed = False, pe_last_used = 100\<rparr>], pl_next = 1,
     pl_table = [(consumePoolKey ''c1'' ''s1'', 0)], pl_closed = []\<rparr>"
    by (simp add: busy_pool_def consumePoolPut_def new_pool_def evictConsumePoolLocked.simps
        consumePoolMaxEntries_def set_entry_def)
  have "fresh_client busy_pool 8" by (auto simp: e fresh_client_def holds_client_def)
  from pool_put_closes_busy_client [OF r this surjective_pairing, where now = 150 and i = "''c1''" and g = "''s1''"
      and r = 0 and c = 7]
  show ?thesis by (simp add: e)
qed

end
