(* ===== verification/KafkaMessages.thy ===== *)
theory KafkaMessages
  imports KafkaFilter KafkaPool
begin

text \<open>
  Messages and the one-off consumption, from \<open>kafkaconn/messages.go\<close>: decoding a value, the
  shape of a message, \<open>consumeMessages\<close> with the pool, the limits of an export, the name of
  an exported file. The decompressors are the parameter \<open>cl\<close>, the schema decoder of a
  consumption is \<open>sdec\<close>, and the broker is a function that answers the polls.
\<close>

section \<open>Decoding\<close>

record codec_lib =
  cl_gzip :: "string \<Rightarrow> string + string"       \<comment> \<open>error text or data\<close>
  cl_lz4 :: "string \<Rightarrow> string + string"
  cl_zstd :: "string \<Rightarrow> string + string"
  cl_snappy_block :: "string \<Rightarrow> string + string"
  cl_snappy_stream :: "string \<Rightarrow> string + string"
  cl_base64_error :: "string \<Rightarrow> string"          \<comment> \<open>text of \<open>CorruptInputError\<close>\<close>

definition normalizeDecodeMethod :: "string \<Rightarrow> string res" where
  "normalizeDecodeMethod decode =
     (let m = word_of decode in
        if m \<in> set [[], ''none'', ''base64''] then Inr m else Inl (Errf ''decode must be none or base64'' []))"

definition decompression_error :: goerr where
  "decompression_error = Errf ''decompression must be none, gzip, lz4, zstd, or snappy'' []"

definition normalizeDecompressMethod :: "string \<Rightarrow> string res" where
  "normalizeDecompressMethod decompression =
     (let m = word_of decompression in
        if m \<in> set [[], ''none'', ''gzip'', ''lz4'', ''zstd'', ''snappy''] then Inr m else Inl decompression_error)"

definition decompressSnappy :: "codec_lib \<Rightarrow> string \<Rightarrow> string + string" where
  "decompressSnappy cl value =
     (case cl_snappy_block cl value of
        Inr decoded \<Rightarrow> Inr decoded
      | Inl blockErr \<Rightarrow>
          (case cl_snappy_stream cl value of
             Inr decoded \<Rightarrow> Inr decoded
           | Inl streamErr \<Rightarrow>
               Inl (''snappy decompression failed: block: '' @ blockErr @ ''; framed: '' @ streamErr)))"

definition decompressPayload :: "codec_lib \<Rightarrow> string \<Rightarrow> string \<Rightarrow> string + string" where
  "decompressPayload cl value method =
     (let m = word_of method in
        if m = ''gzip'' then cl_gzip cl value
        else if m = ''lz4'' then cl_lz4 cl value
        else if m = ''zstd'' then cl_zstd cl value
        else if m = ''snappy'' then decompressSnappy cl value
        else Inl ''decompression must be none, gzip, lz4, zstd, or snappy'')"

text \<open>Value, whether it was decoded, error text.\<close>

definition decodeConsumeValue ::
  "codec_lib \<Rightarrow> string option \<Rightarrow> string \<Rightarrow> string \<Rightarrow> string option \<times> bool \<times> string" where
  "decodeConsumeValue cl value decodeMethod decompressMethod =
     (let decompress = (\<lambda>value decoded.
            if decompressMethod = [] \<or> decompressMethod = ''none'' then (value, decoded, [])
            else (case decompressPayload cl (bytes_of value) decompressMethod of
                    Inl err \<Rightarrow> (value, decoded, err)
                  | Inr out \<Rightarrow> (Some out, True, [])))
      in if decodeMethod = ''base64'' then
           (case b64_decode (bytes_of value) of
              None \<Rightarrow> (value, False, cl_base64_error cl (bytes_of value))
            | Some out \<Rightarrow> decompress (Some out) True)
         else decompress value False)"

section \<open>The shape of a message\<close>

definition maxMessageBytes :: nat where
  "maxMessageBytes = 512 * 1024"

record schema_info =
  si_id :: int
  si_subject :: string
  si_version :: int

definition isProbablyUTF8 :: "string \<Rightarrow> bool" where
  "isProbablyUTF8 data \<longleftrightarrow> utf8_valid data \<and> CHR 0x00 \<notin> set data"

definition safeUTF8Preview :: "string \<Rightarrow> string" where
  "safeUTF8Preview data = (if utf8_valid data then data else to_valid_utf8 False data)"

definition encodeBase64WithLimit :: "string \<Rightarrow> nat \<Rightarrow> string \<times> bool" where
  "encodeBase64WithLimit data limit =
     (if length data > limit then (b64_encode (take limit data), True) else (b64_encode data, False))"

definition recordHeadersMap :: "kgo_header list \<Rightarrow> (string \<times> string) list option" where
  "recordHeadersMap headers =
     (if headers = [] then None
      else Some (foldl (\<lambda>m h. AList.update (h_key h) (safeUTF8Preview (h_value h)) m) [] headers))"

definition messageFromRecordWithSchema ::
  "kgo_record \<Rightarrow> string option \<Rightarrow> string \<Rightarrow> bool \<Rightarrow> schema_info option \<Rightarrow> consumed_message" where
  "messageFromRecordWithSchema r value decodeErr committed schemaInfo =
     (let (valueBase64, truncated) = encodeBase64WithLimit (bytes_of value) maxMessageBytes;
          text_key = isProbablyUTF8 (bytes_of (r_key r))
      in \<lparr>m_topic = r_topic r, m_partition = r_partition r, m_offset = r_offset r, m_timestamp = r_millis r,
          m_leader_epoch = r_leader_epoch r,
          m_key = (if text_key then bytes_of (r_key r) else []),
          m_key_base64 = (if text_key then [] else b64_encode (bytes_of (r_key r))),
          m_value_text = safeUTF8Preview (bytes_of value), m_value_base64 = valueBase64,
          m_headers = recordHeadersMap (r_headers r), m_truncated = truncated, m_committed = committed,
          m_decode_error = decodeErr,
          m_schema_id = (case schemaInfo of Some i \<Rightarrow> si_id i | None \<Rightarrow> 0),
          m_schema_subject = (case schemaInfo of Some i \<Rightarrow> si_subject i | None \<Rightarrow> []),
          m_schema_version = (case schemaInfo of Some i \<Rightarrow> si_version i | None \<Rightarrow> 0)\<rparr>)"

section \<open>One scan\<close>

text \<open>What one \<open>PollRecords\<close> returned, and whether the scan's context had ended after it.\<close>

datatype poll_error = PollDeadline | PollFailed goerr

record poll =
  po_records :: "kgo_record list"
  po_error :: "poll_error option"
  po_expired :: bool

text \<open>The schema decoder, if mounted: a value to an error text or the decoded value.\<close>

type_synonym schema_decoder = "(string \<Rightarrow> string + (string \<times> schema_info)) option"

record scan_setup =
  sc_tx :: text_lib
  sc_jl :: json_lib
  sc_cl :: codec_lib
  sc_params :: consume_params
  sc_matcher :: text_matcher
  sc_decode :: string
  sc_decompress :: string
  sc_schema :: schema_decoder
  sc_schema_subject :: string    \<comment> \<open>\<open>trimSpace(params.Schema.Subject)\<close>\<close>
  sc_limit :: int
  sc_max_scan :: int
  sc_committed :: bool

text \<open>\<open>ensureValueDecoded\<close>: value, error text, schema information.\<close>

definition decoded_value :: "scan_setup \<Rightarrow> kgo_record \<Rightarrow> string option \<times> string \<times> schema_info option" where
  "decoded_value sc r =
     (let (value, decoded, decodeErr) = decodeConsumeValue (sc_cl sc) (r_value r) (sc_decode sc) (sc_decompress sc)
      in case sc_schema sc of
           None \<Rightarrow> (value, decodeErr, None)
         | Some decode \<Rightarrow>
             (case decode (bytes_of value) of
                Inl err \<Rightarrow> (value, (if decodeErr = [] then ''schema: '' @ err else decodeErr @ ''; schema: '' @ err), None)
              | Inr (out, info) \<Rightarrow>
                  (Some out, decodeErr, Some (info\<lparr>si_subject := firstNonEmpty [si_subject info, sc_schema_subject sc]\<rparr>))))"

text \<open>Whether a record passes every filter; field filters on the value see it decoded.\<close>

definition record_passes :: "scan_setup \<Rightarrow> kgo_record \<Rightarrow> bool" where
  "record_passes sc r \<longleftrightarrow>
     recordMatches (sc_tx sc) (sc_params sc) (sc_matcher sc) r
     \<and> fieldFiltersMatch (sc_tx sc) (sc_jl sc) (cp_field_filters (sc_params sc)) (sc_matcher sc) r
         (if fieldFiltersNeedValue (cp_field_filters (sc_params sc)) then fst (decoded_value sc r) else r_value r)"

definition message_of :: "scan_setup \<Rightarrow> kgo_record \<Rightarrow> consumed_message" where
  "message_of sc r =
     (let (value, decodeErr, info) = decoded_value sc r
      in messageFromRecordWithSchema r value decodeErr (sc_committed sc) info)"

lemma message_of_offset: "m_offset (message_of sc r) = r_offset r"
  by (simp add: message_of_def messageFromRecordWithSchema_def Let_def case_prod_beta)

text \<open>
  C26. A message carries its record's bytes. Topic, partition, offset and time are the record's.
  The value is the record's value after the decoding asked for (the record's own bytes when
  none is); its base64 decodes to it, or to its first 512 KB exactly when the message is marked
  truncated, and the text preview is well-formed UTF-8 and is the value itself whenever that is
  well-formed. The key is given as text exactly if it is well-formed UTF-8 without a zero byte,
  and otherwise in base64 that decodes to it.
\<close>

theorem message_keeps_bytes:
  fixes sc r
  defines "m \<equiv> message_of sc r" and "v \<equiv> bytes_of (fst (decoded_value sc r))" and "k \<equiv> bytes_of (r_key r)"
  shows "m_topic m = r_topic r \<and> m_partition m = r_partition r \<and> m_offset m = r_offset r \<and> m_timestamp m = r_millis r
    \<and> (sc_decode sc \<noteq> ''base64'' \<and> sc_decompress sc \<in> {[], ''none''} \<and> sc_schema sc = None \<longrightarrow> v = bytes_of (r_value r))
    \<and> b64_decode (m_value_base64 m) = Some (take maxMessageBytes v)
    \<and> m_truncated m = (maxMessageBytes < length v)
    \<and> utf8_valid (m_value_text m) \<and> (utf8_valid v \<longrightarrow> m_value_text m = v)
    \<and> (if utf8_valid k \<and> CHR 0x00 \<notin> set k then m_key m = k \<and> m_key_base64 m = []
       else m_key m = [] \<and> b64_decode (m_key_base64 m) = Some k)"
  unfolding m_def v_def k_def
  by (simp add: message_of_def messageFromRecordWithSchema_def encodeBase64WithLimit_def safeUTF8Preview_def
      isProbablyUTF8_def Let_def case_prod_beta b64.dec_enc to_valid_utf8_valid)
     (auto simp: decoded_value_def decodeConsumeValue_def)

record scan_state =
  ss_messages :: "consumed_message list"
  ss_next :: "int \<rightharpoonup> int"
  ss_scanned :: int
  ss_matched :: int
  ss_observed :: "int list"

definition scan_start :: scan_state where
  "scan_start = \<lparr>ss_messages = [], ss_next = (\<lambda>_. None), ss_scanned = 0, ss_matched = 0, ss_observed = []\<rparr>"

text \<open>The body of the loop over the polled records.\<close>

definition scan_record :: "scan_setup \<Rightarrow> scan_state \<Rightarrow> kgo_record \<Rightarrow> scan_state" where
  "scan_record sc st r =
     (let st = st\<lparr>ss_scanned := ss_scanned st + 1, ss_observed := ss_observed st @ [r_partition r],
                  ss_next := nextPartitionOffset (ss_next st) r\<rparr>
      in if \<not> record_passes sc r then st
         else
           let st = st\<lparr>ss_matched := ss_matched st + 1\<rparr> in
           if int (length (ss_messages st)) \<ge> sc_limit sc then st
           else st\<lparr>ss_messages := ss_messages st @ [message_of sc r]\<rparr>)"

text \<open>
  The loop of \<open>consumeMessages\<close>. \<open>broker i n\<close> is the answer to the \<open>i\<close>-th poll, for at most
  \<open>n\<close> records. The second result says whether time ran out; \<open>None\<close> is running out of fuel.
\<close>

fun scan_loop ::
  "nat \<Rightarrow> scan_setup \<Rightarrow> (nat \<Rightarrow> int \<Rightarrow> poll) \<Rightarrow> nat \<Rightarrow> scan_state
     \<Rightarrow> ((goerr \<times> scan_state) + (scan_state \<times> bool)) option" where
  "scan_loop fuel sc broker i st =
     (if \<not> (ss_scanned st < sc_max_scan sc \<and> ss_matched st < sc_limit sc) then Some (Inr (st, False))
      else case fuel of
        0 \<Rightarrow> None
      | Suc fuel \<Rightarrow>
          (let fetches = broker i (consumeScanBatchSize (sc_max_scan sc - ss_scanned st));
               st = foldl (scan_record sc) st (po_records fetches)
           in case po_error fetches of
                Some PollDeadline \<Rightarrow> Some (Inr (st, True))
              | Some (PollFailed e) \<Rightarrow> Some (Inl (e, st))
              | None \<Rightarrow> if po_expired fetches then Some (Inr (st, True)) else scan_loop fuel sc broker (Suc i) st))"

declare scan_loop.simps [simp del]

text \<open>
  What the client library documents of \<open>PollRecords(ctx, n)\<close>: it returns at most \<open>n\<close> records,
  and it returns without a record only on an error or when the context has ended.
\<close>

definition polls_well :: "(nat \<Rightarrow> int \<Rightarrow> poll) \<Rightarrow> bool" where
  "polls_well broker \<longleftrightarrow>
     (\<forall>i n. 0 < n \<longrightarrow> int (length (po_records (broker i n))) \<le> n
        \<and> (po_records (broker i n) = [] \<longrightarrow> po_error (broker i n) \<noteq> None \<or> po_expired (broker i n)))"

text \<open>The state after scanning the records \<open>rs\<close>, in closed form.\<close>

definition scanned_state :: "scan_setup \<Rightarrow> kgo_record list \<Rightarrow> scan_state \<Rightarrow> bool" where
  "scanned_state sc rs st \<longleftrightarrow>
     ss_messages st = map (message_of sc) (take (nat (sc_limit sc)) (filter (record_passes sc) rs))
     \<and> ss_matched st = int (length (filter (record_passes sc) rs))
     \<and> ss_scanned st = int (length rs)
     \<and> ss_next st = foldl nextPartitionOffset (\<lambda>_. None) rs
     \<and> ss_observed st = map r_partition rs"

lemma scan_record_state: "scanned_state sc rs st \<Longrightarrow> scanned_state sc (rs @ [r]) (scan_record sc st r)"
  by (auto simp: scanned_state_def scan_record_def Let_def)

lemma scan_records_state:
  "scanned_state sc rs st \<Longrightarrow> scanned_state sc (rs @ xs) (foldl (scan_record sc) st xs)"
proof (induction xs arbitrary: rs st)
  case (Cons x xs)
  then show ?case using Cons.IH [OF scan_record_state [OF Cons.prems]] by simp
qed simp

text \<open>
  What the broker is polled for, without the loop: the records of the first \<open>k\<close> polls, each
  of which asks for a batch of what is left of the scan limit; the answer to the \<open>k\<close>-th poll;
  and the condition to poll again.
\<close>

fun polled :: "scan_setup \<Rightarrow> (nat \<Rightarrow> int \<Rightarrow> poll) \<Rightarrow> nat \<Rightarrow> kgo_record list" where
  "polled sc broker 0 = []"
| "polled sc broker (Suc k) =
     (let rs = polled sc broker k
      in rs @ po_records (broker k (consumeScanBatchSize (sc_max_scan sc - int (length rs)))))"

definition poll_at :: "scan_setup \<Rightarrow> (nat \<Rightarrow> int \<Rightarrow> poll) \<Rightarrow> nat \<Rightarrow> poll" where
  "poll_at sc broker k = broker k (consumeScanBatchSize (sc_max_scan sc - int (length (polled sc broker k))))"

lemma polled_Suc: "polled sc broker (Suc k) = polled sc broker k @ po_records (poll_at sc broker k)"
  by (simp add: poll_at_def Let_def)

definition goes_on :: "scan_setup \<Rightarrow> kgo_record list \<Rightarrow> bool" where
  "goes_on sc rs \<longleftrightarrow> int (length rs) < sc_max_scan sc \<and> int (length (filter (record_passes sc) rs)) < sc_limit sc"

definition quiet_poll :: "poll \<Rightarrow> bool" where
  "quiet_poll po \<longleftrightarrow> po_error po = None \<and> \<not> po_expired po"

text \<open>Why a scan stopped after \<open>k\<close> polls: the last one failed, time ran out in it, or a limit was reached.\<close>

definition scan_stop ::
  "scan_setup \<Rightarrow> (nat \<Rightarrow> int \<Rightarrow> poll) \<Rightarrow> nat \<Rightarrow> (goerr \<times> scan_state) + (scan_state \<times> bool) \<Rightarrow> bool" where
  "scan_stop sc broker k r \<longleftrightarrow>
     (case r of
        Inl (e, _) \<Rightarrow> \<exists>j. k = Suc j \<and> po_error (poll_at sc broker j) = Some (PollFailed e)
      | Inr (_, True) \<Rightarrow> \<exists>j. k = Suc j \<and> (po_error (poll_at sc broker j) = Some PollDeadline
           \<or> po_error (poll_at sc broker j) = None \<and> po_expired (poll_at sc broker j))
      | Inr (_, False) \<Rightarrow> \<not> goes_on sc (polled sc broker k) \<and> (\<forall>j<k. quiet_poll (poll_at sc broker j)))"

definition scan_end :: "(goerr \<times> scan_state) + (scan_state \<times> bool) \<Rightarrow> scan_state" where
  "scan_end r = (case r of Inl (_, st) \<Rightarrow> st | Inr (st, _) \<Rightarrow> st)"

lemma scan_loop_state:
  assumes "polls_well broker" "scanned_state sc (polled sc broker i) st"
    and "int (length (polled sc broker i)) \<le> max 0 (sc_max_scan sc)"
    and "\<forall>j<i. goes_on sc (polled sc broker j) \<and> quiet_poll (poll_at sc broker j)"
    and "scan_loop fuel sc broker i st = Some r"
  shows "\<exists>k. scanned_state sc (polled sc broker k) (scan_end r) \<and> int (length (polled sc broker k)) \<le> max 0 (sc_max_scan sc)
    \<and> (\<forall>j<k. goes_on sc (polled sc broker j)) \<and> (\<forall>j. Suc j < k \<longrightarrow> quiet_poll (poll_at sc broker j))
    \<and> scan_stop sc broker k r"
  using assms(2-5)
proof (induction fuel arbitrary: st i)
  case 0
  then have "r = Inr (st, False)" "\<not> (ss_scanned st < sc_max_scan sc \<and> ss_matched st < sc_limit sc)"
    by (auto simp: scan_loop.simps split: if_splits)
  moreover from this 0(1) have "\<not> goes_on sc (polled sc broker i)" by (auto simp: goes_on_def scanned_state_def)
  ultimately show ?case using 0(1-3) by (intro exI [of _ i]) (simp add: scan_stop_def scan_end_def)
next
  case (Suc fuel)
  have cond: "ss_scanned st < sc_max_scan sc \<and> ss_matched st < sc_limit sc \<longleftrightarrow> goes_on sc (polled sc broker i)"
    and len: "ss_scanned st = int (length (polled sc broker i))"
    using Suc.prems(1) by (simp_all add: scanned_state_def goes_on_def)
  show ?case
  proof (cases "goes_on sc (polled sc broker i)")
    case False
    then have "r = Inr (st, False)" using Suc.prems(4) cond by (auto simp: scan_loop.simps)
    then show ?thesis using Suc.prems(1-3) False by (intro exI [of _ i]) (simp add: scan_stop_def scan_end_def)
  next
    case True
    let ?f = "poll_at sc broker i"
    let ?st = "foldl (scan_record sc) st (po_records ?f)"
    let ?n = "consumeScanBatchSize (sc_max_scan sc - int (length (polled sc broker i)))"
    have poll: "broker i (consumeScanBatchSize (sc_max_scan sc - ss_scanned st)) = ?f" by (simp add: poll_at_def len)
    have n: "0 < ?n" "?n \<le> sc_max_scan sc - int (length (polled sc broker i))"
      using True by (simp_all add: consumeScanBatchSize_def goes_on_def)
    have "int (length (po_records ?f)) \<le> ?n" using assms(1) n(1) by (simp add: polls_well_def poll_at_def)
    then have fit: "int (length (polled sc broker (Suc i))) \<le> max 0 (sc_max_scan sc)"
      using n(2) unfolding polled_Suc by simp
    have st: "scanned_state sc (polled sc broker (Suc i)) ?st"
      unfolding polled_Suc by (rule scan_records_state [OF Suc.prems(1)])
    have run: "(case po_error ?f of Some PollDeadline \<Rightarrow> Some (Inr (?st, True)) | Some (PollFailed e) \<Rightarrow> Some (Inl (e, ?st))
       | None \<Rightarrow> if po_expired ?f then Some (Inr (?st, True)) else scan_loop fuel sc broker (Suc i) ?st) = Some r"
      using Suc.prems(4) True cond poll by (subst (asm) scan_loop.simps) (simp add: Let_def)
    have before: "\<forall>j<Suc i. goes_on sc (polled sc broker j)" "\<forall>j. Suc j < Suc i \<longrightarrow> quiet_poll (poll_at sc broker j)"
      using Suc.prems(3) True by (simp_all add: less_Suc_eq)
    show ?thesis
    proof (cases "quiet_poll ?f")
      case True
      then have loop: "scan_loop fuel sc broker (Suc i) ?st = Some r" using run by (simp add: quiet_poll_def)
      have "\<forall>j<Suc i. goes_on sc (polled sc broker j) \<and> quiet_poll (poll_at sc broker j)"
        using before(1) Suc.prems(3) True by (simp add: less_Suc_eq)
      from Suc.IH [OF st fit this loop] show ?thesis .
    next
      case False
      then have "scan_end r = ?st \<and> scan_stop sc broker (Suc i) r"
        using run by (auto simp: quiet_poll_def scan_end_def scan_stop_def split: option.splits poll_error.splits if_splits)
      then show ?thesis using st fit before by (intro exI [of _ "Suc i"]) simp
    qed
  qed
qed

lemma scan_loop_returns:
  assumes "polls_well broker" "nat (sc_max_scan sc - ss_scanned st) \<le> fuel"
  shows "scan_loop fuel sc broker i st \<noteq> None"
  using assms(2)
proof (induction fuel arbitrary: st i)
  case 0
  then show ?case by (simp add: scan_loop.simps)
next
  case (Suc fuel)
  let ?f = "broker i (consumeScanBatchSize (sc_max_scan sc - ss_scanned st))"
  let ?st = "foldl (scan_record sc) st (po_records ?f)"
  have scanned: "ss_scanned (foldl (scan_record sc) s rs) = ss_scanned s + int (length rs)" for s rs
    by (induction rs arbitrary: s) (simp_all add: scan_record_def Let_def)
  have step: "scan_loop fuel sc broker (Suc i) ?st \<noteq> None"
    if "ss_scanned st < sc_max_scan sc" "po_error ?f = None" "\<not> po_expired ?f"
  proof -
    have "0 < consumeScanBatchSize (sc_max_scan sc - ss_scanned st)" by (simp add: consumeScanBatchSize_def)
    then have "po_records ?f \<noteq> []" using assms(1) that(2,3) unfolding polls_well_def by blast
    then have "0 < length (po_records ?f)" by simp
    then have "nat (sc_max_scan sc - ss_scanned ?st) \<le> fuel"
      using Suc.prems that(1) unfolding scanned by linarith
    then show ?thesis by (rule Suc.IH)
  qed
  then show ?case
    by (subst scan_loop.simps) (auto simp: Let_def split: option.splits poll_error.splits)
qed

lemma scan_start_state: "scanned_state sc (polled sc broker 0) scan_start"
  by (simp add: scanned_state_def scan_start_def)

lemma scan_from_start:
  assumes "polls_well broker" "0 \<le> sc_max_scan sc" "scan_loop fuel sc broker 0 scan_start = Some r"
  shows "\<exists>k. scanned_state sc (polled sc broker k) (scan_end r) \<and> int (length (polled sc broker k)) \<le> sc_max_scan sc
    \<and> (\<forall>j<k. goes_on sc (polled sc broker j)) \<and> (\<forall>j. Suc j < k \<longrightarrow> quiet_poll (poll_at sc broker j))
    \<and> scan_stop sc broker k r"
  using scan_loop_state [OF assms(1) scan_start_state [of sc broker] _ _ assms(3)] assms(2) by simp

text \<open>
  C2. A scan of a broker whose polls answer as documented always returns: as many polls as the
  scan limit are enough. It polls the broker
  as long as neither limit is reached, each time for a batch of what is left of the scan limit,
  and stops at the first poll that fails or in which time runs out, or when a limit is reached.
  However it ends, its messages are the first ones that pass the filters among all the records
  these polls brought, in the order they came, as many as the limit allows; the counts are those
  of these records, which never exceed the scan limit.
\<close>

theorem scan_returns_first_matches:
  assumes "polls_well broker" "0 \<le> sc_max_scan sc"
  shows "\<exists>r k. scan_loop (nat (sc_max_scan sc)) sc broker 0 scan_start = Some r
    \<and> (\<forall>j<k. goes_on sc (polled sc broker j)) \<and> (\<forall>j. Suc j < k \<longrightarrow> quiet_poll (poll_at sc broker j))
    \<and> scan_stop sc broker k r
    \<and> (let rs = polled sc broker k; ms = filter (record_passes sc) rs; st = scan_end r in
         ss_messages st = map (message_of sc) (take (nat (sc_limit sc)) ms)
         \<and> ss_matched st = int (length ms) \<and> ss_scanned st = int (length rs) \<and> int (length rs) \<le> sc_max_scan sc
         \<and> ss_observed st = map r_partition rs)"
proof -
  have "scan_loop (nat (sc_max_scan sc)) sc broker 0 scan_start \<noteq> None"
    by (rule scan_loop_returns [OF assms(1)]) (simp add: scan_start_def)
  then obtain r where r: "scan_loop (nat (sc_max_scan sc)) sc broker 0 scan_start = Some r" by blast
  from scan_from_start [OF assms r] show ?thesis
    by (intro exI [of _ r]) (auto simp: r Let_def scanned_state_def)
qed

definition no_codecs :: codec_lib where
  "no_codecs = \<lparr>cl_gzip = Inl, cl_lz4 = Inl, cl_zstd = Inl, cl_snappy_block = Inl, cl_snappy_stream = Inl,
     cl_base64_error = (\<lambda>_. ''illegal base64 data'')\<rparr>"

definition no_json :: json_lib where
  "no_json = \<lparr>jl_unmarshal = (\<lambda>_. None), jl_marshal = (\<lambda>_. []), jl_float = (\<lambda>_. [])\<rparr>"

text \<open>A scan without filters, decoding or schema, with a limit of one message.\<close>

definition sample_scan :: scan_setup where
  "sample_scan = \<lparr>sc_tx = plain_text, sc_jl = no_json, sc_cl = no_codecs, sc_params = base_params ''c'' ''orders'',
     sc_matcher = \<lparr>tm_mode = ''contains'', tm_patterns = (\<lambda>_. None)\<rparr>, sc_decode = [], sc_decompress = [],
     sc_schema = None, sc_schema_subject = [], sc_limit = 1, sc_max_scan = 1000, sc_committed = False\<rparr>"

definition sample_broker :: "nat \<Rightarrow> int \<Rightarrow> poll" where
  "sample_broker i n =
     (if n = 256 then \<lparr>po_records = [sample_record 0 5 ''a'', sample_record 0 6 ''b''], po_error = None, po_expired = False\<rparr>
      else \<lparr>po_records = [], po_error = Some PollDeadline, po_expired = True\<rparr>)"

lemma sample_passes: "record_passes sample_scan (sample_record p off v)"
  by (simp add: record_passes_def sample_scan_def recordMatches_def base_params_def partitionAllowed_def)

lemma sample_scan_run:
  "scan_loop 1000 sample_scan sample_broker 0 scan_start
   = Some (Inr (\<lparr>ss_messages = [message_of sample_scan (sample_record 0 5 ''a'')], ss_next = [0 \<mapsto> 7], ss_scanned = 2,
       ss_matched = 2, ss_observed = [0, 0]\<rparr>, False))"
proof -
  have sc: "sc_max_scan sample_scan = 1000" "sc_limit sample_scan = 1" by (simp_all add: sample_scan_def)
  have b: "consumeScanBatchSize 1000 = 256" by (simp add: consumeScanBatchSize_def)
  have st: "foldl (scan_record sample_scan) scan_start [sample_record 0 5 ''a'', sample_record 0 6 ''b'']
      = \<lparr>ss_messages = [message_of sample_scan (sample_record 0 5 ''a'')], ss_next = [0 \<mapsto> 7], ss_scanned = 2,
         ss_matched = 2, ss_observed = [0, 0]\<rparr>"
    by (simp add: scan_record_def sample_passes sc scan_start_def nextPartitionOffset_def Let_def)
       (simp add: sample_record_def i64_def)
  have "scan_loop (Suc 999) sample_scan sample_broker 0 scan_start
      = scan_loop 999 sample_scan sample_broker 1 (foldl (scan_record sample_scan) scan_start [sample_record 0 5 ''a'', sample_record 0 6 ''b''])"
    by (subst scan_loop.simps) (simp add: sc b scan_start_def sample_broker_def)
  then show ?thesis unfolding st by (simp add: scan_loop.simps [of 999] sc)
qed

lemma sample_broker_well: "polls_well sample_broker"
  by (simp add: polls_well_def sample_broker_def)

text \<open>The scan stops after one poll, with the first of the two records it brought.\<close>

theorem scan_returns_first_matches_witness:
  "\<exists>r k. scan_loop 1000 sample_scan sample_broker 0 scan_start = Some r \<and> scan_stop sample_scan sample_broker k r
     \<and> ss_scanned (scan_end r) = 2 \<and> int (length (polled sample_scan sample_broker k)) = 2
     \<and> map m_offset (ss_messages (scan_end r)) = [5]"
proof -
  have m: "0 \<le> sc_max_scan sample_scan" "nat (sc_max_scan sample_scan) = 1000" by (simp_all add: sample_scan_def)
  obtain r k where rk: "scan_loop 1000 sample_scan sample_broker 0 scan_start = Some r"
    "scan_stop sample_scan sample_broker k r"
    "ss_scanned (scan_end r) = int (length (polled sample_scan sample_broker k))"
    using scan_returns_first_matches [OF sample_broker_well m(1)] unfolding m(2) Let_def by blast
  then have "scan_end r = \<lparr>ss_messages = [message_of sample_scan (sample_record 0 5 ''a'')],
      ss_next = [0 \<mapsto> 7], ss_scanned = 2, ss_matched = 2, ss_observed = [0, 0]\<rparr>"
    by (auto simp: sample_scan_run scan_end_def)
  then show ?thesis using rk by (intro exI [of _ r] exI [of _ k]) (simp add: message_of_offset, simp add: sample_record_def)
qed

text \<open>A consumption that decodes nothing; a value of one byte that is not text, with a key that is.\<close>

theorem message_keeps_bytes_witness:
  "\<exists>m. m = message_of sample_scan ((sample_record 0 5 [])\<lparr>r_value := Some [CHR 0xFF], r_key := Some ''k''\<rparr>)
     \<and> b64_decode (m_value_base64 m) = Some [CHR 0xFF] \<and> utf8_valid (m_value_text m) \<and> m_value_text m \<noteq> [CHR 0xFF]
     \<and> m_key m = ''k''"
proof -
  let ?r = "(sample_record 0 5 [])\<lparr>r_value := Some [CHR 0xFF], r_key := Some ''k''\<rparr>"
  have b: "bytes_of (Some [CHR 0xFF]) = [CHR 0xFF]" "take maxMessageBytes [CHR 0xFF] = [CHR 0xFF]" "\<not> utf8_valid [CHR 0xFF]"
    "bytes_of (Some ''k'') = ''k''" "utf8_valid ''k''"
    by (simp add: bytes_of_def) (simp add: maxMessageBytes_def, code_simp, simp add: bytes_of_def, code_simp)
  have sc: "sc_decode sample_scan = []" "sc_decompress sample_scan = []" "sc_schema sample_scan = None"
    by (simp_all add: sample_scan_def)
  have r: "r_value ?r = Some [CHR 0xFF]" "r_key ?r = Some ''k''" by simp_all
  have v: "bytes_of (fst (decoded_value sample_scan ?r)) = [CHR 0xFF]"
    using message_keeps_bytes [of sample_scan ?r] by (simp add: sc b(1))
  let ?m = "message_of sample_scan ?r"
  have m: "b64_decode (m_value_base64 ?m) = Some [CHR 0xFF]" "utf8_valid (m_value_text ?m)" "m_key ?m = ''k''"
    using message_keeps_bytes [of sample_scan ?r] unfolding v r b(1,2,4) by (auto simp: b(5))
  moreover have "m_value_text ?m \<noteq> [CHR 0xFF]" using m(2) b(3) by metis
  ultimately show ?thesis by blast
qed

section \<open>The cursor\<close>

text \<open>The next offset of a partition lies beyond every record of it that was scanned.\<close>

lemma next_beyond:
  assumes "\<forall>r \<in> set rs. 0 \<le> r_offset r \<and> r_offset r < 2 ^ 63 - 1"
  shows "r \<in> set rs \<Longrightarrow> \<exists>n. foldl nextPartitionOffset next' rs (r_partition r) = Some n \<and> r_offset r < n"
  using assms
proof (induction rs rule: rev_induct)
  case (snoc x rs)
  let ?m = "foldl nextPartitionOffset next' rs"
  have x: "i64 (r_offset x + 1) = r_offset x + 1" using snoc.prems(2) by (intro i64_id) auto
  have step: "foldl nextPartitionOffset next' (rs @ [x]) = nextPartitionOffset ?m x" by simp
  show ?case
  proof (cases "r \<in> set rs")
    case True
    then obtain n where "?m (r_partition r) = Some n" "r_offset r < n" using snoc.IH snoc.prems(2) by auto
    then show ?thesis unfolding step
      by (auto simp: nextPartitionOffset_def Let_def x split: option.split)
  next
    case False
    then have "r = x" using snoc.prems(1) by simp
    then show ?thesis unfolding step by (auto simp: nextPartitionOffset_def Let_def x split: option.split)
  qed
qed simp



end
