(* ===== verification/KafkaRun.thy ===== *)
theory KafkaRun
  imports KafkaMessages
begin

text \<open>
  \<open>consumeMessages\<close> of \<open>kafkaconn/messages.go\<close> from its checks to the release of its client,
  with \<open>resetConsumeClientForReuse\<close> of \<open>consume_pool.go\<close> and the export around it. What the
  client library and the rest of the service answer during the call is the record
  \<open>consume_env\<close>: the drain and the listing of a reset, the new client, the ping, the polls,
  the commit (told whether the scan's context has ended), and the mounting of the schema
  decoder. The pool is passed through; the call runs alone on it.
\<close>

section \<open>Resetting a pooled client\<close>

record listed_offset =
  lo_partition :: int
  lo_offset :: int
  lo_epoch :: int
  lo_failed :: bool

text \<open>The positions passed to \<open>SetOffsets\<close>: partition to (epoch, offset).\<close>

definition reset_positions :: "listed_offset list \<Rightarrow> (int \<times> (int \<times> int)) list" where
  "reset_positions items =
     foldl (\<lambda>m o'. if lo_failed o' \<or> lo_offset o' < 0 then m
                   else AList.update (lo_partition o') (lo_epoch o', lo_offset o') m) [] items"

definition resetConsumeClientForReuse ::
  "goerr option \<Rightarrow> listed_offset list res \<Rightarrow> bool \<Rightarrow> string \<Rightarrow> (int \<times> (int \<times> int)) list res" where
  "resetConsumeClientForReuse drainErr listed atStart topic =
     (case drainErr of
        Some e \<Rightarrow> Inl e
      | None \<Rightarrow>
          (case listed of
             Inl e \<Rightarrow> Inl (Wrapf ''list %s offsets for consumer reset: %w'' [if atStart then ''start'' else ''end''] e)
           | Inr items \<Rightarrow>
               if reset_positions items = []
               then Inl (Errf ''no partitions listed for topic %q; cannot reset pooled consumer'' [topic])
               else Inr (reset_positions items)))"

section \<open>The environment of one call\<close>

record consume_env =
  en_now :: int
  en_tx :: text_lib
  en_jl :: json_lib
  en_cl :: codec_lib
  en_rfc3339 :: "string \<Rightarrow> int option"
  en_hash :: "string \<Rightarrow> string"
  en_schema :: "schema_decoder res"              \<comment> \<open>used when a schema is requested\<close>
  en_drain :: "nat \<Rightarrow> goerr option"
  en_listed :: "nat \<Rightarrow> bool \<Rightarrow> listed_offset list res"
  en_client :: "kgo_opt list \<Rightarrow> nat res"
  en_ping :: "nat \<Rightarrow> goerr option"
  en_broker :: "nat \<Rightarrow> nat \<Rightarrow> int \<Rightarrow> poll"
  en_commit :: "nat \<Rightarrow> bool \<Rightarrow> goerr option"

record consume_plan =
  pn_topic :: string
  pn_group :: string
  pn_partitions :: "int list"
  pn_offsets :: "(int \<times> int) list"
  pn_opts :: "kgo_opt list"
  pn_setup :: scan_setup

text \<open>Everything before the client is chosen.\<close>

definition consume_plan_of :: "consume_env \<Rightarrow> consume_params \<Rightarrow> consume_plan res" where
  "consume_plan_of env p =
     (let topic = trim_space (cp_topic p) in
        if topic = [] then Inl (Errf ''topic is required'' [])
        else
          ebind (validateConsumeParams (en_tx env) p) (\<lambda>_.
          let limit = (if cp_limit p \<le> 0 then 100 else cp_limit p);
              maxScan = consumeMaxScanRecords limit (cp_max_scan p);
              groupID = trim_space (cp_group p) in
          ebind (normalizeDecodeMethod (cp_decode p)) (\<lambda>decodeMethod.
          ebind (normalizeDecompressMethod (cp_decompression p)) (\<lambda>decompressMethod.
          ebind (case cp_schema p of None \<Rightarrow> Inr None | Some _ \<Rightarrow> en_schema env) (\<lambda>schemaDec.
          ebind (newConsumeTextMatcher (en_tx env) p) (\<lambda>matcher.
          ebind (normalizeConsumePartitions (cp_partitions p)) (\<lambda>partitions.
          ebind (normalizeConsumePartitionOffsets (cp_partition_offsets p)) (\<lambda>partitionOffsets.
          let partitions = (if partitions = [] \<and> partitionOffsets \<noteq> [] then offsetPartitions partitionOffsets
                            else partitions) in
          ebind (isolationLevelValue (cp_isolation p)) (\<lambda>isolation.
          ebind (buildConsumeOpts (en_rfc3339 env) p topic groupID partitions partitionOffsets isolation) (\<lambda>opts.
          Inr \<lparr>pn_topic = topic, pn_group = groupID, pn_partitions = partitions, pn_offsets = partitionOffsets,
               pn_opts = opts,
               pn_setup = \<lparr>sc_tx = en_tx env, sc_jl = en_jl env, sc_cl = en_cl env, sc_params = p, sc_matcher = matcher,
                 sc_decode = decodeMethod, sc_decompress = decompressMethod, sc_schema = schemaDec,
                 sc_schema_subject = (case cp_schema p of None \<Rightarrow> [] | Some (_, subject) \<Rightarrow> trim_space subject),
                 sc_limit = limit, sc_max_scan = maxScan,
                 sc_committed = (cp_commit p \<and> groupID \<noteq> [])\<rparr>\<rparr>))))))))))"

section \<open>Choosing the client\<close>

text \<open>A client, where its reading position comes from, and its pool entry.\<close>

datatype origin = BuiltWith "kgo_opt list" | ResetTo "(int \<times> (int \<times> int)) list"

definition pooled_client ::
  "consume_env \<Rightarrow> string \<Rightarrow> string \<Rightarrow> bool \<Rightarrow> string \<Rightarrow> pool \<Rightarrow> (nat \<times> origin \<times> nat) option \<times> pool" where
  "pooled_client env conn signature atStart topic pool =
     (case consumePoolAcquire (en_now env) conn signature atStart pool of
        ((Some r, True), pool') \<Rightarrow>
          (case pl_heap pool' r of
             Some e \<Rightarrow>
               (case pe_client e of
                  Some c \<Rightarrow>
                    (case resetConsumeClientForReuse (en_drain env c) (en_listed env c atStart) atStart topic of
                       Inl _ \<Rightarrow> (None, consumePoolRelease (en_now env) [] False r pool')
                     | Inr positions \<Rightarrow> (Some (c, ResetTo positions, r), pool'))
                | None \<Rightarrow> (None, pool'))
           | None \<Rightarrow> (None, pool'))
      | ((_, _), pool') \<Rightarrow> (None, pool'))"

definition consume_client ::
  "consume_env \<Rightarrow> string \<Rightarrow> string \<Rightarrow> bool \<times> bool \<Rightarrow> consume_plan \<Rightarrow> pool
     \<Rightarrow> (nat \<times> origin \<times> nat option) res \<times> pool" where
  "consume_client env conn signature reuse pn pool =
     (let (reuseOK, atStart) = reuse;
          (got, pool) = (if reuseOK then pooled_client env conn signature atStart (pn_topic pn) pool else (None, pool))
      in case got of
           Some (c, origin, r) \<Rightarrow> (Inr (c, origin, Some r), pool)
         | None \<Rightarrow>
             (case en_client env (pn_opts pn) of
                Inl e \<Rightarrow> (Inl e, pool)
              | Inr c \<Rightarrow>
                  if reuseOK
                  then (let (r, pool) = consumePoolPut (en_now env) conn signature c pool
                        in (Inr (c, BuiltWith (pn_opts pn), Some r), pool))
                  else (Inr (c, BuiltWith (pn_opts pn), None), pool)))"

text \<open>The deferred function.\<close>

definition finish_client :: "consume_env \<Rightarrow> nat \<Rightarrow> nat option \<Rightarrow> int list \<Rightarrow> bool \<Rightarrow> pool \<Rightarrow> pool" where
  "finish_client env c pooled observed healthy pool =
     (case pooled of
        Some r \<Rightarrow> consumePoolRelease (en_now env) observed healthy r pool
      | None \<Rightarrow> closeTempClient c pool)"

section \<open>consumeMessages\<close>

record consume_result =
  rs_messages :: "consumed_message list"
  rs_scanned :: int
  rs_matched :: int
  rs_limited :: bool
  rs_has_more :: bool
  rs_next :: "int \<rightharpoonup> int"

text \<open>A panic runs the deferred release and then ends the process; it is kept as an error.\<close>

definition go_panic :: goerr where
  "go_panic = Ext ''panic: makeslice: cap out of range''"

text \<open>The size of a \<open>ConsumedMessage\<close> on a 64-bit machine, which \<open>make\<close> multiplies the limit by.\<close>

definition message_size :: int where
  "message_size = 176"

text \<open>What happens once the client is there; the flags say whether the client stays healthy.\<close>

definition run_scan ::
  "consume_env \<Rightarrow> consume_params \<Rightarrow> scan_setup \<Rightarrow> nat \<Rightarrow> consume_result res \<times> int list \<times> bool" where
  "run_scan env p sc c =
     (case en_ping env c of
        Some e \<Rightarrow> (Inl (Wrapf ''kafka cluster not ready within %s: %w'' [] e), [], False)
      | None \<Rightarrow>
          if \<not> makes (message_size * sc_limit sc) then (Inl go_panic, [], True)
          else
          (case scan_loop (nat (sc_max_scan sc)) sc (en_broker env c) 0 scan_start of
             None \<Rightarrow> (Inl (Ext ''still polling''), [], False)
           | Some (Inl (e, st)) \<Rightarrow> (Inl e, ss_observed st, False)
           | Some (Inr (st, timedOut)) \<Rightarrow>
               (let limited = (ss_matched st \<ge> sc_limit sc);
                    result = \<lparr>rs_messages = ss_messages st, rs_scanned = ss_scanned st, rs_matched = ss_matched st,
                      rs_limited = limited, rs_has_more = (limited \<or> ss_scanned st \<ge> sc_max_scan sc \<or> timedOut),
                      rs_next = ss_next st\<rparr>
                in if cp_commit p then
                     (case en_commit env c timedOut of
                        Some e \<Rightarrow> (Inl e, ss_observed st, False)
                      | None \<Rightarrow> (Inr result, ss_observed st, True))
                   else (Inr result, ss_observed st, True))))"

text \<open>The part of the handler that decides which client reads, and from where.\<close>

definition choose_client ::
  "consume_env \<Rightarrow> consume_params \<Rightarrow> consume_plan \<Rightarrow> pool \<Rightarrow> (nat \<times> origin \<times> nat option) res \<times> pool" where
  "choose_client env p pn pool =
     (let reuse = consumeReusePolicy (cp_offset_strategy p) (pn_group pn);
          signature = consumeClientSignature (en_hash env) (pn_topic pn) (cp_offset_strategy p)
                        (pn_partitions pn) (cp_isolation p)
      in consume_client env (cp_connection p) signature reuse pn pool)"

definition consumeMessages :: "consume_env \<Rightarrow> consume_params \<Rightarrow> pool \<Rightarrow> consume_result res \<times> pool" where
  "consumeMessages env p pool =
     (case consume_plan_of env p of
        Inl e \<Rightarrow> (Inl e, pool)
      | Inr pn \<Rightarrow>
          (case choose_client env p pn pool of
             (Inl e, pool) \<Rightarrow> (Inl e, pool)
           | (Inr (c, origin, pooled), pool) \<Rightarrow>
               (let (result, observed, healthy) = run_scan env p (pn_setup pn) c
                in (result, finish_client env c pooled observed healthy pool))))"

text \<open>The scan of a well-behaved broker never runs out of fuel, so that branch is dead.\<close>

lemma run_scan_fuel:
  assumes "polls_well (en_broker env c)" "0 \<le> sc_max_scan sc"
  shows "\<exists>x. scan_loop (nat (sc_max_scan sc)) sc (en_broker env c) 0 scan_start = Some x"
  using scan_loop_returns [OF assms(1), of sc scan_start "nat (sc_max_scan sc)" 0]
  by (auto simp: scan_start_def)

section \<open>No client is lost\<close>

text \<open>Settled: closed, or idle in the table.\<close>

definition idle_client :: "pool \<Rightarrow> nat \<Rightarrow> bool" where
  "idle_client p c \<longleftrightarrow> (\<exists>k r. (k, r) \<in> set (pl_table p) \<and> holds_client p r c \<and> \<not> busy p r)"

definition settled :: "pool \<Rightarrow> nat \<Rightarrow> bool" where
  "settled p c \<longleftrightarrow> c \<in> set (pl_closed p) \<or> idle_client p c"

definition released :: "pool \<Rightarrow> pool \<Rightarrow> bool" where
  "released p q \<longleftrightarrow> reachable_pool q \<and> (\<forall>r. busy q r \<longrightarrow> busy p r)
     \<and> (\<forall>c. fresh_client p c \<longrightarrow> fresh_client q c \<or> settled q c)"

text \<open>An entry of the table with this client and without the mark of a failure.\<close>

definition sound_entry :: "pool \<Rightarrow> nat \<Rightarrow> nat \<Rightarrow> bool" where
  "sound_entry p r c \<longleftrightarrow>
     (\<exists>k e. (k, r) \<in> set (pl_table p) \<and> pl_heap p r = Some e \<and> pe_client e = Some c \<and> \<not> pe_reset_failed e)"

lemma released_refl: "reachable_pool p \<Longrightarrow> released p p"
  by (simp add: released_def)

text \<open>
  After the release the client of a sound entry is idle in the pool, and an acquisition hands
  it out exactly if it was released as healthy.
\<close>

lemma release_sound:
  fixes now :: int and obs :: "int list" and healthy :: bool
  assumes "reachable_pool q" "sound_entry q r c"
  defines "q' \<equiv> consumePoolRelease now obs healthy r q"
  shows "reachable_pool q'" "idle_client q' c" "handed_out q' c \<longleftrightarrow> healthy"
proof -
  obtain k e where e: "(k, r) \<in> set (pl_table q)" "pl_heap q r = Some e" "pe_client e = Some c" "\<not> pe_reset_failed e"
    using assms(2) by (auto simp: sound_entry_def)
  note rel = release_spec [OF reachable_pool_inv [OF assms(1)] e(2), where now = now and observed = obs
      and healthy = healthy, folded q'_def]
  show r': "reachable_pool q'" unfolding q'_def by (rule reachable_pool_release [OF assms(1)])
  have h: "holds_client q' r c" "\<not> busy q' r" using rel(4) e(3) by (simp_all add: holds_client_def busy_def)
  then show "idle_client q' c" using rel(3) [OF e(1)] unfolding idle_client_def by blast
  have only: "r' = r" if "pl_heap q' r' = Some e'" "pe_client e' = Some c" for r' e'
  proof -
    have "holds_client q' r' c" using that by (simp add: holds_client_def)
    then show ?thesis using h(1) pool_invD(5) [OF reachable_pool_inv [OF r']] by blast
  qed
  show "handed_out q' c \<longleftrightarrow> healthy"
    unfolding handed_out_iff [OF reachable_pool_inv [OF r']]
  proof
    assume "\<exists>k r e. (k, r) \<in> set (pl_table q') \<and> pl_heap q' r = Some e \<and> pe_client e = Some c
      \<and> \<not> pe_in_use e \<and> \<not> pe_reset_failed e"
    then obtain r' e' where "pl_heap q' r' = Some e'" "pe_client e' = Some c" "\<not> pe_reset_failed e'" by blast
    then show healthy using only rel(4) e(4) by fastforce
  next
    assume healthy
    then show "\<exists>k r e. (k, r) \<in> set (pl_table q') \<and> pl_heap q' r = Some e \<and> pe_client e = Some c
      \<and> \<not> pe_in_use e \<and> \<not> pe_reset_failed e"
      using rel(3) [OF e(1)] rel(4) e(3,4) by (intro exI [of _ k] exI [of _ r]) simp
  qed
qed

text \<open>A failed reset marks the entry.\<close>

definition reset_fails ::
  "consume_env \<Rightarrow> string \<Rightarrow> string \<Rightarrow> bool \<Rightarrow> string \<Rightarrow> pool \<Rightarrow> nat \<Rightarrow> bool" where
  "reset_fails env conn signature atStart topic pool c \<longleftrightarrow>
     (case consumePoolAcquire (en_now env) conn signature atStart pool of
        ((Some r, True), pool') \<Rightarrow> holds_client pool' r c
          \<and> (\<exists>e. resetConsumeClientForReuse (en_drain env c) (en_listed env c atStart) atStart topic = Inl e)
      | _ \<Rightarrow> False)"

text \<open>The client is idle under its key, in an entry that is marked.\<close>

definition marked_at :: "pool \<Rightarrow> string \<Rightarrow> nat \<Rightarrow> bool" where
  "marked_at p key c \<longleftrightarrow>
     (\<exists>r e. (key, r) \<in> set (pl_table p) \<and> pl_heap p r = Some e \<and> pe_client e = Some c \<and> \<not> pe_in_use e
        \<and> pe_reset_failed e)"

lemma marked_spoilt: "pool_inv p \<Longrightarrow> marked_at p k c \<Longrightarrow> spoilt p c"
  unfolding spoilt_def
proof (intro allI impI)
  fix r e assume a: "pool_inv p" "marked_at p k c" "pl_heap p r = Some e" "pe_client e = Some c"
  then obtain r' e' where e': "pl_heap p r' = Some e'" "pe_client e' = Some c" "pe_reset_failed e'"
    unfolding marked_at_def by blast
  have "r = r'" using a(3,4) e'(1,2) pool_invD(5) [OF a(1), of r c r'] by (simp add: holds_client_def)
  then show "pe_reset_failed e" using a(3) e' by simp
qed

lemma marked_settled: "marked_at p k c \<Longrightarrow> settled p c"
  unfolding marked_at_def settled_def idle_client_def holds_client_def busy_def by force

text \<open>After a reset, either the entry is kept for the call or it was marked and released again.\<close>

lemma pooled_client_spec:
  assumes "reachable_pool p" "pooled_client env conn sig b topic p = (got, q)"
  shows "reachable_pool q" "fresh_client p c \<Longrightarrow> fresh_client q c"
    "got = None \<Longrightarrow> busy q r \<Longrightarrow> busy p r"
    "got = None \<Longrightarrow> reset_fails env conn sig b topic p c \<Longrightarrow> marked_at q (consumePoolKey conn sig) c"
    "got = Some (d, o', r) \<Longrightarrow> (\<forall>r'. busy q r' \<longleftrightarrow> busy p r' \<or> r' = r) \<and> \<not> busy p r \<and> sound_entry q r d
       \<and> \<not> reset_fails env conn sig b topic p c"
proof -
  obtain x ok p1 where a: "consumePoolAcquire (en_now env) conn sig b p = ((x, ok), p1)"
    by (metis surj_pair)
  have inv: "pool_inv p" by (rule reachable_pool_inv [OF assms(1)])
  have r1: "reachable_pool p1" by (rule reachable_pool.Acquire [OF assms(1) a])
  note bf = busy_fresh_acquire [OF a]
  have *: "reachable_pool q \<and> (\<forall>c. fresh_client p c \<longrightarrow> fresh_client q c)
    \<and> (case got of None \<Rightarrow> (\<forall>r. busy q r \<longrightarrow> busy p r)
           \<and> (\<forall>c. reset_fails env conn sig b topic p c \<longrightarrow> marked_at q (consumePoolKey conn sig) c)
       | Some (d, _, r) \<Rightarrow> (\<forall>r'. busy q r' \<longleftrightarrow> busy p r' \<or> r' = r) \<and> \<not> busy p r \<and> sound_entry q r d
           \<and> (\<forall>c. \<not> reset_fails env conn sig b topic p c))"
  proof (cases "ok \<and> x \<noteq> None")
    case False
    then have "got = None" "q = p1" "\<not> reset_fails env conn sig b topic p c" for c
      using assms(2) a by (auto simp: pooled_client_def reset_fails_def split: option.splits bool.splits)
    then show ?thesis using r1 bf False by auto
  next
    case True
    obtain r e c where e: "x = Some r" "pl_heap p r = Some e" "\<not> pe_in_use e" "\<not> pe_reset_failed e" "pe_client e = Some c"
      "pl_heap p1 r = Some (e\<lparr>pe_in_use := True, pe_at_start := b, pe_last_used := en_now env\<rparr>)"
      "(consumePoolKey conn sig, r) \<in> set (pl_table p1)"
      using acquire_spec(2) [OF inv a] True by (metis map_of_SomeD)
    have nb: "\<not> busy p r" using e(2,3) by (simp add: busy_def)
    have fails: "reset_fails env conn sig b topic p d \<longleftrightarrow> d = c
        \<and> (\<exists>e. resetConsumeClientForReuse (en_drain env c) (en_listed env c b) b topic = Inl e)" for d
      using a True e(1,5,6) by (auto simp: reset_fails_def holds_client_def)
    show ?thesis
    proof (cases "resetConsumeClientForReuse (en_drain env c) (en_listed env c b) b topic")
      case (Inl err)
      then have g: "got = None" "q = consumePoolRelease (en_now env) [] False r p1"
        using assms(2) a True e by (auto simp: pooled_client_def)
      note rel = release_spec [OF reachable_pool_inv [OF r1] e(6), where now = "en_now env" and observed = "[]"
          and healthy = False, folded g(2)]
      have "marked_at q (consumePoolKey conn sig) c"
        using rel(3) [OF e(7)] rel(4) e(5) unfolding marked_at_def by (intro exI [of _ r]) simp
      moreover have "reachable_pool q" unfolding g(2) by (rule reachable_pool_release [OF r1])
      ultimately show ?thesis using rel(1,2) bf g(1) True e(1) fails by auto
    next
      case (Inr positions)
      then have "got = Some (c, ResetTo positions, r)" "q = p1"
        using assms(2) a True e by (auto simp: pooled_client_def)
      then show ?thesis using r1 bf nb True e(1,4-7) fails Inr by (auto simp: sound_entry_def)
    qed
  qed
  show "reachable_pool q" "fresh_client p c \<Longrightarrow> fresh_client q c"
    "got = None \<Longrightarrow> busy q r \<Longrightarrow> busy p r"
    "got = None \<Longrightarrow> reset_fails env conn sig b topic p c \<Longrightarrow> marked_at q (consumePoolKey conn sig) c"
    "got = Some (d, o', r) \<Longrightarrow> (\<forall>r'. busy q r' \<longleftrightarrow> busy p r' \<or> r' = r) \<and> \<not> busy p r \<and> sound_entry q r d
       \<and> \<not> reset_fails env conn sig b topic p c"
    using * by (auto split: option.splits)
qed

lemma finish_pooled:
  assumes "\<And>r'. busy q r' \<Longrightarrow> busy p r' \<or> r' = r" "reachable_pool q" "sound_entry q r c"
    and "\<And>d. fresh_client p d \<Longrightarrow> fresh_client q d \<or> d = c"
  shows "released p (finish_client env c (Some r) obs healthy q)"
proof -
  obtain e where e: "pl_heap q r = Some e" using assms(3) by (auto simp: sound_entry_def)
  note rel = release_spec [OF reachable_pool_inv [OF assms(2)] e, where now = "en_now env" and observed = obs
      and healthy = healthy]
  show ?thesis
    unfolding released_def finish_client_def option.case
    using release_sound(1,2) [OF assms(2,3)] rel(1,2) assms(1,4) unfolding settled_def by blast
qed

text \<open>
  What choosing the client leads to, however the scan ends: nothing is lost, the client read
  with is closed or back in the pool, and a client whose reset failed is not handed out again.
\<close>

lemma consume_client_spec:
  assumes "reachable_pool p" "\<forall>opts c. en_client env opts = Inr c \<longrightarrow> fresh_client p c"
    and "consume_client env conn sig (reuseOK, b) pn p = (got, q)"
  defines "fails \<equiv> \<lambda>d. reuseOK \<and> reset_fails env conn sig b (pn_topic pn) p d"
    and "spent \<equiv> \<lambda>q d. settled q d \<and> \<not> handed_out q d"
  shows "case got of Inl e \<Rightarrow> released p q \<and> (\<forall>d. fails d \<longrightarrow> spent q d)
    | Inr (c, origin, pooled) \<Rightarrow>
        (let q' = finish_client env c pooled obs healthy q in
           released p q' \<and> (\<forall>d. fails d \<longrightarrow> spent q' d) 
           \<and> (if reuseOK then idle_client q' c \<and> (handed_out q' c \<longleftrightarrow> healthy) else c \<in> set (pl_closed q')))"
proof -
  let ?key = "consumePoolKey conn sig"
  let ?pc = "if reuseOK then pooled_client env conn sig b (pn_topic pn) p else (None, p)"
  obtain g1 p1 where pc: "?pc = (g1, p1)" by (cases ?pc)
  have r1: "reachable_pool p1" using pooled_client_spec(1) [OF assms(1)] pc assms(1) by (cases reuseOK) auto
  have f1: "fresh_client p1 d" if "fresh_client p d" for d
    using pooled_client_spec(2) [OF assms(1)] pc that by (cases reuseOK) auto
  have b1: "busy p r" if "g1 = None" "busy p1 r" for r
    using pooled_client_spec(3) [OF assms(1)] pc that by (cases reuseOK) auto
  have m1: "marked_at p1 ?key d" if "g1 = None" "fails d" for d
    using pooled_client_spec(4) [OF assms(1)] pc that by (cases reuseOK) (auto simp: fails_def)
  have inv1: "pool_inv p1" by (rule reachable_pool_inv [OF r1])
  have spent1: "spent p1 d" if "g1 = None" "fails d" for d
    using marked_settled spoilt_not_handed_out [OF inv1 marked_spoilt [OF inv1]] m1 [OF that]
    by (auto simp: spent_def)
  show ?thesis
  proof (cases g1)
    case (Some t)
    obtain c o' r where t: "t = (c, o', r)" by (cases t)
    have reuse: reuseOK using pc Some by (cases reuseOK) auto
    have run: "got = Inr (c, o', Some r)" "q = p1"
      using assms(3) pc Some t by (auto simp: consume_client_def)
    have s: "\<forall>r'. busy p1 r' \<longleftrightarrow> busy p r' \<or> r' = r" "sound_entry p1 r c" "\<not> fails d" for d
      using pooled_client_spec(5) [OF assms(1)] pc Some t reuse by (auto simp: fails_def)
    have "released p (finish_client env c (Some r) obs healthy p1)"
      using s(1) f1 by (intro finish_pooled [OF _ r1 s(2)]) auto
    then show ?thesis unfolding run using s(3) reuse release_sound(2,3) [OF r1 s(2)]
      by (simp add: Let_def finish_client_def)
  next
    case None
    show ?thesis
    proof (cases "en_client env (pn_opts pn)")
      case (Inl e)
      then have "got = Inl e" "q = p1" using assms(3) pc None by (auto simp: consume_client_def)
      then show ?thesis using r1 f1 b1 spent1 None by (auto simp: released_def)
    next
      case (Inr c)
      then have fc: "fresh_client p1 c" using assms(2) f1 by blast
      show ?thesis
      proof (cases reuseOK)
        case False
        then have run: "got = Inr (c, BuiltWith (pn_opts pn), None)" "q = p1"
          using assms(3) pc None Inr by (auto simp: consume_client_def)
        have "reachable_pool (closeTempClient c p1)" using r1 fc by (intro reachable_pool.CloseTemp) simp_all
        moreover have "busy (closeTempClient c p1) r = busy p1 r" for r by (simp add: busy_def closeTempClient_def)
        moreover have "fresh_client (closeTempClient c p1) d \<or> d = c" if "fresh_client p1 d" for d
          using that by (auto simp: fresh_client_def holds_client_def closeTempClient_def)
        moreover have "settled (closeTempClient c p1) c" "c \<in> set (pl_closed (closeTempClient c p1))"
          by (simp_all add: settled_def closeTempClient_def)
        ultimately have "released p (closeTempClient c p1)" using b1 [OF None] f1 unfolding released_def by metis
        moreover have "\<not> fails d" for d using False by (simp add: fails_def)
        ultimately show ?thesis unfolding run using False by (simp add: Let_def finish_client_def closeTempClient_def)
      next
        case True
        obtain r p2 where put: "consumePoolPut (en_now env) conn sig c p1 = (r, p2)"
          by (cases "consumePoolPut (en_now env) conn sig c p1")
        then have run: "got = Inr (c, BuiltWith (pn_opts pn), Some r)" "q = p2"
          using assms(3) pc None Inr True by (auto simp: consume_client_def)
        note ps = put_spec [OF inv1 fc put]
        note bf = busy_fresh_put [OF put inv1]
        have r2: "reachable_pool p2" by (rule reachable_pool.Put [OF r1 fc put])
        have snd2: "sound_entry p2 r c" using ps(2,3) unfolding sound_entry_def by blast
        let ?q = "consumePoolRelease (en_now env) obs healthy r p2"
        have spent2: "spent ?q d" if d: "fails d" for d
        proof -
          obtain r' e where m: "(?key, r') \<in> set (pl_table p1)" "pl_heap p1 r' = Some e" "pe_client e = Some d"
            using m1 [OF None d] unfolding marked_at_def by blast
          have "d \<noteq> c" using fc m(2,3) by (auto simp: fresh_client_def holds_client_def)
          then have "spoilt ?q d"
            using marked_spoilt [OF inv1 m1 [OF None d]] spoilt_put [OF _ _ put] by (intro spoilt_release) blast
          then have "\<not> handed_out ?q d"
            by (intro spoilt_not_handed_out reachable_pool_inv reachable_pool_release r2)
          moreover have "map_of (pl_table p1) ?key = Some r'" using m(1) inv1 by (simp add: pool_inv_def)
          then have "d \<in> set (pl_closed p2)" by (rule put_closes_old [OF inv1 fc put _ m(2,3)])
          moreover obtain e2 where "pl_heap p2 r = Some e2" using ps(3) by blast
          ultimately show ?thesis
            using release_spec(5) [OF reachable_pool_inv [OF r2]] unfolding spent_def settled_def by blast
        qed
        have "released p (finish_client env c (Some r) obs healthy p2)"
          using bf b1 [OF None] f1 by (intro finish_pooled [OF _ r2 snd2]) blast+
        then show ?thesis unfolding run using True spent2 release_sound(2,3) [OF r2 snd2]
          by (simp add: Let_def finish_client_def)
      qed
    qed
  qed
qed

text \<open>
  The client a consumption reads with: built for it or taken from the pool. Whether the
  consumption uses the pool at all, and the client it gave up because its reset failed.
\<close>

definition reads_with :: "consume_env \<Rightarrow> consume_params \<Rightarrow> pool \<Rightarrow> nat \<Rightarrow> bool" where
  "reads_with env params p c \<longleftrightarrow>
     (case consume_plan_of env params of
        Inl _ \<Rightarrow> False
      | Inr pn \<Rightarrow> (case fst (choose_client env params pn p) of Inl _ \<Rightarrow> False | Inr (c', _) \<Rightarrow> c' = c))"

definition uses_pool :: "consume_params \<Rightarrow> bool" where
  "uses_pool params \<longleftrightarrow> fst (consumeReusePolicy (cp_offset_strategy params) (trim_space (cp_group params)))"

definition gives_up :: "consume_env \<Rightarrow> consume_params \<Rightarrow> pool \<Rightarrow> nat \<Rightarrow> bool" where
  "gives_up env params p c \<longleftrightarrow>
     (case consume_plan_of env params of
        Inl _ \<Rightarrow> False
      | Inr pn \<Rightarrow>
          (let (reuseOK, atStart) = consumeReusePolicy (cp_offset_strategy params) (pn_group pn) in
             reuseOK \<and> reset_fails env (cp_connection params)
               (consumeClientSignature (en_hash env) (pn_topic pn) (cp_offset_strategy params)
                  (pn_partitions pn) (cp_isolation params)) atStart (pn_topic pn) p c))"

lemma plan_group: "consume_plan_of env params = Inr pn \<Longrightarrow> pn_group pn = trim_space (cp_group params)"
  by (auto simp: consume_plan_of_def ebind_Inr_iff Let_def split: if_splits)

text \<open>The scan leaves the client healthy exactly if it returns a result, the panic apart.\<close>

lemma run_scan_healthy:
  "run_scan env params sc c = (res, obs, healthy) \<Longrightarrow>
     (case res of Inr _ \<Rightarrow> healthy | Inl e \<Rightarrow> e = go_panic \<or> \<not> healthy)"
  by (auto simp: run_scan_def Let_def split: option.splits sum.splits if_splits prod.splits)

text \<open>
  C1. However a consumption ends (a refused parameter, a failed reset, ping, poll or commit,
  or a result), it leaves no entry of the pool in use that was not in use before. The client it
  read with is closed if the consumption does not use the pool; otherwise it is idle in the
  pool, where acquisitions hand it out if this consumption returned a result and do not if it
  failed (the panic of a limit no memory can hold apart). A pooled client whose reset failed is
  closed or idle, and no acquisition hands it out. No other client that was not known to the
  pool is lost.
\<close>

theorem consume_releases_client:
  assumes "reachable_pool p" "\<forall>opts c. en_client env opts = Inr c \<longrightarrow> fresh_client p c"
    and "consumeMessages env params p = (res, q)"
  shows "released p q
    \<and> (reads_with env params p c \<longrightarrow>
         (if uses_pool params
          then idle_client q c \<and> (case res of Inr _ \<Rightarrow> handed_out q c | Inl e \<Rightarrow> e = go_panic \<or> \<not> handed_out q c)
          else c \<in> set (pl_closed q)))
    \<and> (gives_up env params p c \<longrightarrow> settled q c \<and> \<not> handed_out q c)"
proof (cases "consume_plan_of env params")
  case (Inl e)
  then show ?thesis using released_refl [OF assms(1)] assms(3)
    by (simp add: consumeMessages_def reads_with_def gives_up_def)
next
  case (Inr pn)
  note plan = this
  obtain reuseOK b where reuse: "consumeReusePolicy (cp_offset_strategy params) (pn_group pn) = (reuseOK, b)"
    by (cases "consumeReusePolicy (cp_offset_strategy params) (pn_group pn)")
  let ?sig = "consumeClientSignature (en_hash env) (pn_topic pn) (cp_offset_strategy params)
    (pn_partitions pn) (cp_isolation params)"
  obtain got p1 where c: "consume_client env (cp_connection params) ?sig (reuseOK, b) pn p = (got, p1)"
    by (cases "consume_client env (cp_connection params) ?sig (reuseOK, b) pn p")
  have pool: "uses_pool params = reuseOK" using reuse plan_group [OF plan] by (simp add: uses_pool_def)
  have gives: "gives_up env params p d \<longleftrightarrow>
      reuseOK \<and> reset_fails env (cp_connection params) ?sig b (pn_topic pn) p d" for d
    by (simp add: gives_up_def plan reuse)
  have choose: "choose_client env params pn p = (got, p1)" using c reuse by (simp add: choose_client_def)
  show ?thesis
  proof (cases got)
    case (Inl e)
    then have "q = p1" using assms(3) plan choose by (simp add: consumeMessages_def)
    then show ?thesis using consume_client_spec [OF assms(1,2) c] Inl gives plan choose by (simp add: reads_with_def)
  next
    case (Inr t)
    obtain k o' pooled where t: "t = (k, o', pooled)" by (cases t)
    obtain r obs healthy where run: "run_scan env params (pn_setup pn) k = (r, obs, healthy)"
      by (cases "run_scan env params (pn_setup pn) k")
    have q: "res = r" "q = finish_client env k pooled obs healthy p1"
      using assms(3) plan choose Inr t run by (auto simp: consumeMessages_def)
    have "case res of Inr _ \<Rightarrow> healthy | Inl e \<Rightarrow> e = go_panic \<or> \<not> healthy"
      using run_scan_healthy [OF run] q(1) by simp
    then show ?thesis using consume_client_spec [OF assms(1,2) c, of obs healthy] Inr t q(2) gives plan choose pool
      by (auto simp: reads_with_def Let_def split: sum.splits if_splits)
  qed
qed

text \<open>A service without any broker: no client can be built, and no poll brings anything.\<close>

definition offline_env :: consume_env where
  "offline_env = \<lparr>en_now = 0, en_tx = plain_text, en_jl = no_json, en_cl = no_codecs, en_rfc3339 = (\<lambda>_. None),
     en_hash = id, en_schema = Inr None, en_drain = (\<lambda>_. None), en_listed = (\<lambda>_ _. Inr []),
     en_client = (\<lambda>_. Inl (Ext ''no broker'')), en_ping = (\<lambda>_. None),
     en_broker = (\<lambda>_ _ _. \<lparr>po_records = [], po_error = Some PollDeadline, po_expired = True\<rparr>),
     en_commit = (\<lambda>_ _. None)\<rparr>"

text \<open>A broker that builds client \<open>c\<close> and lists partition 0 from offset 0 on.\<close>

definition online_env :: "nat \<Rightarrow> consume_env" where
  "online_env c = offline_env\<lparr>en_client := (\<lambda>_. Inr c),
     en_listed := (\<lambda>_ _. Inr [\<lparr>lo_partition = 0, lo_offset = 0, lo_epoch = 0, lo_failed = False\<rparr>])\<rparr>"

lemma plain_plan:
  "\<exists>pn. consume_plan_of (online_env 7) (base_params ''c'' ''orders'') = Inr pn
     \<and> sc_limit (pn_setup pn) = 100 \<and> sc_max_scan (pn_setup pn) = consumeMaxScanRecords 100 0"
  by (simp add: consume_plan_of_def online_env_def offline_env_def base_params_def Let_def
      validateConsumeParams_def validateRange_def hasConsumeFilter_def hasFieldFilters_def validateFieldFilters_def
      newConsumeTextMatcher_def normalizeMatchMode_def trim_space_graphic graphic_def normalizeDecodeMethod_def
      normalizeDecompressMethod_def normalizeConsumePartitions_def offsetPartitions_def isolationLevelValue_def
      buildConsumeOpts_def usesExactOffsets_def normalizeOffsetStrategyName_def)

text \<open>A consumption that times out without a message: its client can be taken by the next one.\<close>

theorem consume_releases_client_witness:
  "\<exists>res q. consumeMessages (online_env 7) (base_params ''c'' ''orders'') new_pool = (Inr res, q)
     \<and> idle_client q 7 \<and> handed_out q 7"
proof -
  let ?env = "online_env 7" and ?params = "base_params ''c'' ''orders''"
  have r: "reachable_pool new_pool" by (rule reachable_pool.Start)
  have f: "\<forall>opts c. en_client ?env opts = Inr c \<longrightarrow> fresh_client new_pool c"
    by (simp add: fresh_client_def new_pool_def holds_client_def)
  obtain pn where pn: "consume_plan_of ?env ?params = Inr pn" "sc_limit (pn_setup pn) = 100"
    "sc_max_scan (pn_setup pn) = consumeMaxScanRecords 100 0"
    using plain_plan by blast
  have env: "en_client ?env opts = Inr 7" "en_ping ?env c = None" "cp_commit ?params = False"
    "en_broker ?env c i n = \<lparr>po_records = [], po_error = Some PollDeadline, po_expired = True\<rparr>" for opts c i n
    by (simp_all add: online_env_def offline_env_def base_params_def)
  have m: "nat (sc_max_scan (pn_setup pn)) = Suc 999" "0 < sc_max_scan (pn_setup pn)"
    by (simp_all add: pn(3) consumeMaxScanRecords_def i64_def)
  have "scan_loop (nat (sc_max_scan (pn_setup pn))) (pn_setup pn) (en_broker ?env 7) 0 scan_start
      = Some (Inr (scan_start, True))"
    unfolding m(1) by (subst scan_loop.simps) (use m(2) in \<open>simp add: scan_start_def pn(2) env\<close>)
  then have run: "\<exists>x. run_scan ?env ?params (pn_setup pn) 7 = (Inr x, [], True)"
    by (simp add: run_scan_def env pn(2) makes_def message_size_def Let_def scan_start_def)
  have reads: "reads_with ?env ?params new_pool 7" and
    "\<exists>o' r p1. choose_client ?env ?params pn new_pool = (Inr (7, o', r), p1)"
    by (auto simp: reads_with_def pn(1) choose_client_def consume_client_def pooled_client_def consumePoolAcquire_def
        new_pool_def Let_def env case_prod_beta)
  then obtain res q where c: "consumeMessages ?env ?params new_pool = (Inr res, q)"
    using run by (auto simp: consumeMessages_def pn(1))
  have "uses_pool ?params"
    by (simp add: uses_pool_def base_params_def consumeReusePolicy_def normalizeOffsetStrategyName_def)
  then show ?thesis using consume_releases_client [OF r f c, of 7] reads c by auto
qed

section \<open>The pool and exact offsets\<close>

text \<open>A client that was reset starts at the listed bounds of the topic.\<close>

lemma pooled_client_reset:
  assumes "pooled_client env conn sig b topic p = (Some (c, origin, r), q)"
  shows "\<exists>items. en_listed env c b = Inr items \<and> origin = ResetTo (reset_positions items)"
  using assms
  by (auto simp: pooled_client_def resetConsumeClientForReuse_def
      split: option.splits sum.splits bool.splits prod.splits if_splits)

lemma consume_client_reset:
  assumes "consume_client env conn sig (reuseOK, b) pn p = (Inr (c, ResetTo ps, r), q)"
  shows "\<exists>r'. reuseOK \<and> r = Some r' \<and> pooled_client env conn sig b (pn_topic pn) p = (Some (c, ResetTo ps, r'), q)"
proof -
  obtain got p1 where g: "(if reuseOK then pooled_client env conn sig b (pn_topic pn) p else (None, p)) = (got, p1)"
    by (cases "if reuseOK then pooled_client env conn sig b (pn_topic pn) p else (None, p)")
  then show ?thesis using assms
    by (cases got) (auto simp: consume_client_def Let_def split: sum.splits if_splits prod.splits)
qed

lemma plan_topic: "consume_plan_of env params = Inr pn \<Longrightarrow> pn_topic pn = trim_space (cp_topic params)"
  by (auto simp: consume_plan_of_def ebind_Inr_iff Let_def split: if_splits)

text \<open>
  C25. Exact offsets are not part of what the pool compares. Take two requests that differ in
  their exact offsets only and read the same partitions: when the pool serves the first one,
  it serves the second one from the same pool with the same client, moved to the same
  positions; and these are the bounds of the topic that the broker lists (its start, or its
  end for the strategy \<open>latest\<close>), whatever offsets were asked for.
\<close>

theorem second_request_ignores_offset:
  assumes "consume_plan_of env params = Inr pn"
    and "consume_plan_of env (params\<lparr>cp_partition_offsets := offsets\<rparr>) = Inr pn'" "pn_partitions pn' = pn_partitions pn"
    and "choose_client env params pn p = (Inr (c, ResetTo ps, r), q)"
  shows "choose_client env (params\<lparr>cp_partition_offsets := offsets\<rparr>) pn' p = (Inr (c, ResetTo ps, r), q)
    \<and> (\<exists>items. en_listed env c (snd (consumeReusePolicy (cp_offset_strategy params) (trim_space (cp_group params))))
          = Inr items \<and> ps = reset_positions items)"
proof -
  have same: "pn_topic pn' = pn_topic pn" "pn_group pn' = pn_group pn"
    using plan_topic [OF assms(1)] plan_topic [OF assms(2)] plan_group [OF assms(1)] plan_group [OF assms(2)]
    by simp_all
  obtain reuseOK b where reuse: "consumeReusePolicy (cp_offset_strategy params) (pn_group pn) = (reuseOK, b)"
    by (cases "consumeReusePolicy (cp_offset_strategy params) (pn_group pn)")
  let ?sig = "consumeClientSignature (en_hash env) (pn_topic pn) (cp_offset_strategy params)
    (pn_partitions pn) (cp_isolation params)"
  obtain r' where hit: "reuseOK" "r = Some r'"
    "pooled_client env (cp_connection params) ?sig b (pn_topic pn) p = (Some (c, ResetTo ps, r'), q)"
    using consume_client_reset assms(4) reuse unfolding choose_client_def Let_def by metis
  then have "choose_client env (params\<lparr>cp_partition_offsets := offsets\<rparr>) pn' p = (Inr (c, ResetTo ps, r), q)"
    by (simp add: choose_client_def consume_client_def same assms(3) reuse)
  then show ?thesis using pooled_client_reset [OF hit(3)] reuse plan_group [OF assms(1)] by auto
qed

text \<open>Partition 0 from a given offset on, without a strategy.\<close>

definition from_offset :: "int \<Rightarrow> consume_params" where
  "from_offset off = (base_params ''c'' ''orders'')\<lparr>cp_partition_offsets := [(0, off)]\<rparr>"

lemma plan_from_offset:
  "0 \<le> off \<Longrightarrow> \<exists>pn. consume_plan_of (online_env 7) (from_offset off) = Inr pn \<and> pn_topic pn = ''orders'' \<and> pn_group pn = []
     \<and> pn_partitions pn = [0]
     \<and> pn_opts pn = [FetchIsolationLevel ReadUncommitted, ConsumePartitions ''orders'' [(0, At off)]]"
  by (simp add: consume_plan_of_def online_env_def offline_env_def from_offset_def base_params_def Let_def
      validateConsumeParams_def validateRange_def hasConsumeFilter_def hasFieldFilters_def validateFieldFilters_def
      newConsumeTextMatcher_def normalizeMatchMode_def trim_space_graphic graphic_def normalizeDecodeMethod_def
      normalizeDecompressMethod_def normalizeConsumePartitions_def offsetPartitions_def isolationLevelValue_def
      buildConsumeOpts_def usesExactOffsets_def normalizeOffsetStrategyName_def)

text \<open>
  The first consumption, from offset 42, builds a client that starts there; the same request
  again, and one from offset 17, get that client moved to the start of the topic.
\<close>

theorem second_request_ignores_offset_witness:
  "\<exists>pn pn' opts pool q. choose_client (online_env 7) (from_offset 42) pn new_pool = (Inr (7, BuiltWith opts, Some 0), pool)
     \<and> ConsumePartitions ''orders'' [(0, At 42)] \<in> set opts
     \<and> consume_plan_of (online_env 7) (from_offset 17) = Inr pn'
     \<and> ConsumePartitions ''orders'' [(0, At 17)] \<in> set (pn_opts pn')
     \<and> choose_client (online_env 7) (from_offset 17) pn' (finish_client (online_env 7) 7 (Some 0) [0] True pool)
       = (Inr (7, ResetTo [(0, (0, 0))], Some 0), q)"
proof -
  obtain pn where pn: "consume_plan_of (online_env 7) (from_offset 42) = Inr pn" "pn_topic pn = ''orders''" "pn_group pn = []"
    "pn_partitions pn = [0]" "pn_opts pn = [FetchIsolationLevel ReadUncommitted, ConsumePartitions ''orders'' [(0, At 42)]]"
    using plan_from_offset [of 42] by auto
  obtain pn' where pn': "consume_plan_of (online_env 7) (from_offset 17) = Inr pn'" "pn_partitions pn' = [0]"
    "pn_opts pn' = [FetchIsolationLevel ReadUncommitted, ConsumePartitions ''orders'' [(0, At 17)]]"
    using plan_from_offset [of 17] by auto
  let ?env = "online_env 7"
  let ?sig = "consumeClientSignature id ''orders'' [] [0] []"
  let ?key = "consumePoolKey ''c'' ?sig"
  let ?e = "\<lparr>pe_client = Some 7, pe_conn = ''c'', pe_sig = ?sig, pe_in_use = True, pe_at_start = False,
    pe_seen = [], pe_reset_failed = False, pe_last_used = 0\<rparr>"
  let ?p1 = "\<lparr>pl_heap = [0 \<mapsto> ?e], pl_next = 1, pl_table = [(?key, 0)], pl_closed = []\<rparr>"
  let ?e2 = "?e\<lparr>pe_in_use := False, pe_seen := [0]\<rparr>"
  let ?p2 = "?p1\<lparr>pl_heap := [0 \<mapsto> ?e2]\<rparr>"
  have reuse: "consumeReusePolicy [] [] = (True, True)"
    by (simp add: consumeReusePolicy_def normalizeOffsetStrategyName_def)
  have env: "en_now ?env = 0" "en_hash ?env = id" "en_client ?env opts = Inr 7" "en_drain ?env c = None"
    "en_listed ?env c b = Inr [\<lparr>lo_partition = 0, lo_offset = 0, lo_epoch = 0, lo_failed = False\<rparr>]"
    "cp_connection (from_offset off) = ''c''" "cp_isolation (from_offset off) = []"
    "cp_offset_strategy (from_offset off) = []"
    "(from_offset off)\<lparr>cp_partition_offsets := [(0, off')]\<rparr> = from_offset off'" for opts c b off off'
    by (simp_all add: online_env_def offline_env_def from_offset_def base_params_def)
  have miss: "pooled_client ?env ''c'' ?sig True ''orders'' new_pool = (None, new_pool)"
    by (simp add: pooled_client_def consumePoolAcquire_def new_pool_def)
  have put: "consumePoolPut 0 ''c'' ?sig 7 new_pool = (0, ?p1)"
    by (simp add: consumePoolPut_def new_pool_def set_entry_def evictConsumePoolLocked.simps consumePoolMaxEntries_def)
  have rel: "finish_client ?env 7 (Some 0) [0] True ?p1 = ?p2"
    by (simp add: finish_client_def consumePoolRelease_def release_mark_def release_sweep_def set_entry_def close_all_def
        close_round_def env consumePoolIdleTTL_def)
  have reset: "resetConsumeClientForReuse None
      (Inr [\<lparr>lo_partition = 0, lo_offset = 0, lo_epoch = 0, lo_failed = False\<rparr>]) True ''orders''
      = Inr [(0, (0, 0))]"
    by (simp add: resetConsumeClientForReuse_def reset_positions_def)
  have hit: "\<exists>q. pooled_client ?env ''c'' ?sig True ''orders'' ?p2 = (Some (7, ResetTo [(0, (0, 0))], 0), q)"
    by (simp add: pooled_client_def consumePoolAcquire_def set_entry_def env reset)
  have first: "choose_client ?env (from_offset 42) pn new_pool = (Inr (7, BuiltWith (pn_opts pn), Some 0), ?p1)"
    by (simp add: choose_client_def consume_client_def pn(2-4) reuse env miss put Let_def)
  obtain q where again: "choose_client ?env (from_offset 42) pn ?p2 = (Inr (7, ResetTo [(0, (0, 0))], Some 0), q)"
    using hit by (auto simp: choose_client_def consume_client_def pn(2-4) reuse env Let_def)
  have "choose_client ?env (from_offset 17) pn' ?p2 = (Inr (7, ResetTo [(0, (0, 0))], Some 0), q)"
    using second_request_ignores_offset [OF pn(1) _ _ again, of "[(0, 17)]" pn'] pn'(1,2) pn(4) by (simp add: env)
  then show ?thesis using first rel pn(5) pn'(1,3)
    by (intro exI [of _ pn] exI [of _ pn'] exI [of _ "pn_opts pn"] exI [of _ ?p1] exI [of _ q]) simp
qed

section \<open>Export\<close>

definition normalizeExportFormat :: "string \<Rightarrow> string res" where
  "normalizeExportFormat format =
     (let f = word_of format in
        if f \<in> set [[], ''json''] then Inr ''json'' else if f = ''csv'' then Inr ''csv''
        else Inl (Errf ''format must be json or csv'' []))"

definition maxExportRecords :: int where
  "maxExportRecords = 10000"

definition exportRecordLimit :: "int \<Rightarrow> int res" where
  "exportRecordLimit limit =
     (if limit < 0 then Inl (Errf ''limit must be greater than or equal to 0'' [])
      else (let effective = (if limit \<le> 0 then 1000 else limit)
            in Inr (if effective > maxExportRecords then maxExportRecords else effective)))"

text \<open>The consumption an export makes; serialising its messages is not part of this theory.\<close>

definition export_consume ::
  "consume_env \<Rightarrow> consume_params \<Rightarrow> string \<Rightarrow> int \<Rightarrow> pool \<Rightarrow> (string \<times> consume_result) res \<times> pool" where
  "export_consume env p format limit pool =
     (case normalizeExportFormat format of
        Inl e \<Rightarrow> (Inl e, pool)
      | Inr f \<Rightarrow>
          (case exportRecordLimit limit of
             Inl e \<Rightarrow> (Inl e, pool)
           | Inr l \<Rightarrow>
               (case consumeMessages env (p\<lparr>cp_commit := False, cp_limit := l\<rparr>) pool of
                  (Inl e, pool) \<Rightarrow> (Inl e, pool)
                | (Inr result, pool) \<Rightarrow> (Inr (f, result), pool))))"

end
