(* ===== verification/KafkaExport.thy ===== *)
theory KafkaExport
  imports KafkaRun
begin

text \<open>
  The export of messages (\<open>kafkaconn/messages.go\<close>, lines 360 to 391 and 1668 to 1765): JSON with the
  names of the struct tags, CSV as \<open>encoding/csv\<close> writes it, and the name of the file. The
  indented printer of \<open>encoding/json\<close> and the time stamp are parameters.
\<close>

section \<open>JSON\<close>

definition json_map :: "(string \<times> string) list \<Rightarrow> json" where
  "json_map m = JObj (map (\<lambda>(k, v). (k, JStr v)) m)"

definition jnum :: "int \<Rightarrow> json" where
  "jnum n = JNum (of_int n)"

definition omit_text :: "string \<Rightarrow> string \<Rightarrow> json_obj" where
  "omit_text name t = (if t = [] then [] else [(name, JStr t)])"

definition omit_num :: "string \<Rightarrow> int \<Rightarrow> json_obj" where
  "omit_num name n = (if n = 0 then [] else [(name, jnum n)])"

text \<open>A map is printed in the order of its keys.\<close>

definition message_json :: "consumed_message \<Rightarrow> json" where
  "message_json m = JObj
     ([(''topic'', JStr (m_topic m)), (''partition'', jnum (m_partition m)), (''offset'', jnum (m_offset m))]
      @ omit_num ''timestamp'' (m_timestamp m) @ omit_num ''leaderEpoch'' (m_leader_epoch m)
      @ omit_text ''key'' (m_key m) @ omit_text ''keyBase64'' (m_key_base64 m)
      @ [(''valueText'', JStr (m_value_text m)), (''valueBase64'', JStr (m_value_base64 m))]
      @ (case m_headers m of None \<Rightarrow> [] | Some hs \<Rightarrow> if hs = [] then [] else [(''headers'', json_map (sort_key fst hs))])
      @ (if m_truncated m then [(''truncated'', JBool True)] else [])
      @ (if m_committed m then [(''committed'', JBool True)] else [])
      @ omit_text ''decodeError'' (m_decode_error m) @ omit_num ''schemaId'' (m_schema_id m)
      @ omit_text ''schemaSubject'' (m_schema_subject m) @ omit_num ''schemaVersion'' (m_schema_version m))"

definition serializeJSON :: "(json \<Rightarrow> string) \<Rightarrow> consumed_message list \<Rightarrow> string" where
  "serializeJSON indent messages = indent (JArr (map message_json messages)) @ [CHR 0x0A]"

section \<open>CSV\<close>

definition headersExportText :: "(string \<times> string) list \<Rightarrow> string" where
  "headersExportText headers = join_with ''; '' (map (\<lambda>(k, v). k @ ''='' @ v) (sort_key fst headers))"

text \<open>\<open>csv.Writer\<close> with a comma and a line feed.\<close>

definition fieldNeedsQuotes :: "string \<Rightarrow> bool" where
  "fieldNeedsQuotes f \<longleftrightarrow>
     f = [CHR 0x5C, CHR ''.''] \<or> set f \<inter> {CHR 0x0A, CHR 0x0D, CHR 0x22, CHR '',''} \<noteq> {}
     \<or> space_head space_encodings f \<noteq> 0"

fun double_quotes :: "string \<Rightarrow> string" where
  "double_quotes [] = []"
| "double_quotes (c # f) = (if c = CHR 0x22 then [CHR 0x22, CHR 0x22] else [c]) @ double_quotes f"

definition csv_field :: "string \<Rightarrow> string" where
  "csv_field f = (if fieldNeedsQuotes f then [CHR 0x22] @ double_quotes f @ [CHR 0x22] else f)"

definition csv_row :: "string list \<Rightarrow> string" where
  "csv_row row = join_with '','' (map csv_field row) @ [CHR 0x0A]"

definition export_columns :: "string list" where
  "export_columns = [''topic'', ''partition'', ''offset'', ''timestamp'', ''key'', ''value'', ''headers'']"

definition export_row :: "consumed_message \<Rightarrow> string list" where
  "export_row m =
     [m_topic m, format_int (m_partition m), format_int (m_offset m), format_int (m_timestamp m),
      firstNonEmpty [m_key m, m_key_base64 m], m_value_text m,
      headersExportText (case m_headers m of None \<Rightarrow> [] | Some hs \<Rightarrow> hs)]"

definition serializeCSV :: "consumed_message list \<Rightarrow> string" where
  "serializeCSV messages = concat (map csv_row (export_columns # map export_row messages))"

definition serializeConsumedMessages :: "(json \<Rightarrow> string) \<Rightarrow> string \<Rightarrow> consumed_message list \<Rightarrow> string \<times> string" where
  "serializeConsumedMessages indent format messages =
     (if format = ''csv'' then (serializeCSV messages, ''text/csv; charset=utf-8'')
      else (serializeJSON indent messages, ''application/json; charset=utf-8''))"

section \<open>The file name\<close>

text \<open>Per rune: letters, digits and three signs are kept, everything else becomes a dash.\<close>

definition name_char :: "char \<Rightarrow> bool" where
  "name_char c \<longleftrightarrow> byte_in 0x61 0x7A c \<or> byte_in 0x41 0x5A c \<or> byte_in 0x30 0x39 c \<or> c \<in> {CHR ''-'', CHR ''_'', CHR ''.''}"

definition safe_rune :: "string \<Rightarrow> char" where
  "safe_rune r = (case r of [c] \<Rightarrow> if name_char c then c else CHR ''-'' | _ \<Rightarrow> CHR ''-'')"

text \<open>\<open>strings.ReplaceAll(name, "..", "-")\<close> until no two dots are left.\<close>

fun replace_dots :: "string \<Rightarrow> string" where
  "replace_dots [] = []"
| "replace_dots [c] = [c]"
| "replace_dots (c # d # s) =
     (if c = CHR ''.'' \<and> d = CHR ''.'' then CHR ''-'' # replace_dots s else c # replace_dots (d # s))"

lemma replace_dots_shorter: "length (replace_dots s) \<le> length s \<and> (sublist ''..'' s \<longrightarrow> length (replace_dots s) < length s)"
proof (induction s rule: replace_dots.induct)
  case (3 c d s)
  show ?case
  proof (cases "c = CHR ''.'' \<and> d = CHR ''.''")
    case True
    then show ?thesis using 3(1) by simp
  next
    case False
    then have "sublist ''..'' (c # d # s) \<longleftrightarrow> sublist ''..'' (d # s)"
      by (auto simp: sublist_Cons_right)
    then show ?thesis using 3(2) False by auto
  qed
qed (auto dest: sublist_length_le)

function fold_dots :: "string \<Rightarrow> string" where
  "fold_dots s = (if sublist ''..'' s then fold_dots (replace_dots s) else s)"
  by pat_completeness auto
termination
  by (relation "measure length") (use replace_dots_shorter in auto)

declare fold_dots.simps [simp del]

definition trim_dash_dot :: "string \<Rightarrow> string" where
  "trim_dash_dot s =
     (let strip = dropWhile (\<lambda>c. c \<in> {CHR ''-'', CHR ''.''}) in rev (strip (rev (strip s))))"

definition sanitizeFilenamePart :: "string \<Rightarrow> string" where
  "sanitizeFilenamePart value =
     (let name = trim_dash_dot (fold_dots (map safe_rune (runes_of (trim_space value))))
      in if name = [] then ''kafka-export'' else name)"

definition exportFilename :: "string \<Rightarrow> string \<Rightarrow> string \<Rightarrow> string" where
  "exportFilename topic format stamp = sanitizeFilenamePart topic @ ''-'' @ stamp @ ''.'' @ format"

section \<open>Export\<close>

record export_result =
  xr_content :: string
  xr_filename :: string
  xr_content_type :: string
  xr_scanned :: int
  xr_matched :: int
  xr_exported :: int
  xr_has_more :: bool

definition Export ::
  "(json \<Rightarrow> string) \<Rightarrow> string \<Rightarrow> consume_env \<Rightarrow> consume_params \<Rightarrow> string \<Rightarrow> int \<Rightarrow> pool \<Rightarrow> export_result res \<times> pool" where
  "Export indent stamp env p format limit pool =
     (case export_consume env p format limit pool of
        (Inl e, pool) \<Rightarrow> (Inl e, pool)
      | (Inr (f, result), pool) \<Rightarrow>
          (let (content, contentType) = serializeConsumedMessages indent f (rs_messages result) in
           (Inr \<lparr>xr_content = content, xr_filename = exportFilename (trim_space (cp_topic p)) f stamp,
                 xr_content_type = contentType, xr_scanned = rs_scanned result, xr_matched = rs_matched result,
                 xr_exported = int (length (rs_messages result)), xr_has_more = rs_has_more result\<rparr>, pool)))"

section \<open>A reader of RFC 4180\<close>

text \<open>At the start of a field, in a plain field, in a quoted field, after a quote in one.\<close>

datatype csv_state = AtStart | InPlain | InQuotes | AfterQuote

text \<open>\<open>None\<close>: a quote in a plain field, text after a closing quote, or no line end at the end.\<close>

fun csv_read :: "csv_state \<Rightarrow> string \<Rightarrow> string list \<Rightarrow> string \<Rightarrow> string list list option" where
  "csv_read st f row [] = (if st = AtStart \<and> row = [] then Some [] else None)"
| "csv_read st f row (c # s) =
     (if st = InQuotes then
        (if c = CHR 0x22 then csv_read AfterQuote f row s else csv_read InQuotes (f @ [c]) row s)
      else if c = CHR '','' then csv_read AtStart [] (row @ [f]) s
      else if c = CHR 0x0A then map_option (\<lambda>rs. (row @ [f]) # rs) (csv_read AtStart [] [] s)
      else if c = CHR 0x22 then
        (if st = AtStart then csv_read InQuotes [] row s
         else if st = AfterQuote then csv_read InQuotes (f @ [c]) row s
         else None)
      else if st = AfterQuote then None
      else csv_read InPlain (f @ [c]) row s)"

definition csv_parse :: "string \<Rightarrow> string list list option" where
  "csv_parse s = csv_read AtStart [] [] s"

lemma read_quoted: "csv_read InQuotes g row (double_quotes f @ [CHR 0x22] @ s) = csv_read AfterQuote (g @ f) row s"
  by (induction f arbitrary: g) auto

lemma read_plain:
  "set f \<inter> {CHR 0x0A, CHR 0x22, CHR '',''} = {} \<Longrightarrow> csv_read InPlain g row (f @ s) = csv_read InPlain (g @ f) row s"
  by (induction f arbitrary: g) auto

text \<open>A field is read back up to the sign that ends it.\<close>

lemma read_field:
  assumes "c = CHR '','' \<or> c = CHR 0x0A"
  shows "csv_read AtStart [] row (csv_field f @ c # s) =
     (if c = CHR '','' then csv_read AtStart [] (row @ [f]) s
      else map_option (\<lambda>rs. (row @ [f]) # rs) (csv_read AtStart [] [] s))"
proof (cases "fieldNeedsQuotes f")
  case True
  then have "csv_read AtStart [] row (csv_field f @ c # s) = csv_read AfterQuote f row (c # s)"
    using read_quoted [of "[]" row f "c # s"] by (simp add: csv_field_def)
  then show ?thesis using assms by auto
next
  case False
  then have ok: "set f \<inter> {CHR 0x0A, CHR 0x22, CHR '',''} = {}" by (auto simp: fieldNeedsQuotes_def)
  show ?thesis
  proof (cases f)
    case Nil
    then show ?thesis using False assms by (auto simp: csv_field_def)
  next
    case (Cons a f')
    then have "csv_read AtStart [] row (csv_field f @ c # s) = csv_read InPlain f row (c # s)"
      using False ok read_plain [of f' "[a]" row "c # s"] by (auto simp: csv_field_def)
    then show ?thesis using assms by auto
  qed
qed

lemma read_row:
  "fs \<noteq> [] \<Longrightarrow> csv_read AtStart [] row (csv_row fs @ s) = map_option (\<lambda>rs. (row @ fs) # rs) (csv_read AtStart [] [] s)"
proof (induction fs arbitrary: row)
  case (Cons f fs)
  show ?case
  proof (cases "fs = []")
    case True
    then show ?thesis using read_field [of "CHR 0x0A" row f s] by (simp add: csv_row_def)
  next
    case False
    then have "csv_row (f # fs) @ s = csv_field f @ CHR '','' # (csv_row fs @ s)"
      by (simp add: csv_row_def join_with_Cons)
    then show ?thesis using read_field [of "CHR '',''" row f "csv_row fs @ s"] Cons.IH [OF False, of "row @ [f]"] by simp
  qed
qed simp

lemma read_rows: "[] \<notin> set rows \<Longrightarrow> csv_parse (concat (map csv_row rows)) = Some rows"
proof (induction rows)
  case (Cons r rows)
  then show ?case using read_row [of r "[]" "concat (map csv_row rows)"] by (auto simp: csv_parse_def)
qed (simp add: csv_parse_def)

text \<open>
  C28. A CSV export can be read back: whatever bytes topics, keys, values and headers hold (quotes,
  commas, line ends, leading blanks), a reader of RFC 4180 finds the column names and then one row
  per message, in order, whose seven fields are exactly the exported ones; so no content of a
  message can add a field or a row.
\<close>

theorem csv_export_roundtrip:
  "csv_parse (fst (serializeConsumedMessages indent ''csv'' messages))
     = Some (export_columns # map export_row messages)"
  using read_rows [of "export_columns # map export_row messages"]
  by (auto simp: serializeConsumedMessages_def serializeCSV_def export_columns_def export_row_def)

section \<open>The file name is safe\<close>

lemma replace_dots_chars: "set (replace_dots s) \<subseteq> set s \<union> {CHR ''-''}"
  by (induction s rule: replace_dots.induct) auto

lemma fold_dots_spec: "\<not> sublist ''..'' (fold_dots s) \<and> set (fold_dots s) \<subseteq> set s \<union> {CHR ''-''}"
proof (induction s rule: fold_dots.induct)
  case (1 s)
  show ?case
  proof (cases "sublist ''..'' s")
    case True
    then show ?thesis using 1 replace_dots_chars [of s] by (subst (1 2) fold_dots.simps) auto
  next
    case False
    then show ?thesis by (subst (1 2) fold_dots.simps) auto
  qed
qed

lemma trim_dash_dot_sublist: "sublist (trim_dash_dot s) s"
proof -
  let ?strip = "dropWhile (\<lambda>c. c \<in> {CHR ''-'', CHR ''.''})"
  have "suffix (?strip s) s" by (rule suffix_dropWhile)
  moreover have "prefix (rev (?strip (rev (?strip s)))) (?strip s)"
    using suffix_dropWhile [of "\<lambda>c. c \<in> {CHR ''-'', CHR ''.''}" "rev (?strip s)"]
    by (simp add: suffix_to_prefix)
  ultimately show ?thesis
    unfolding trim_dash_dot_def Let_def by (meson prefix_imp_sublist suffix_imp_sublist sublist_order.order_trans)
qed

lemma trim_dash_dot_hd: "trim_dash_dot s \<noteq> [] \<Longrightarrow> hd (trim_dash_dot s) \<noteq> CHR ''.''"
proof -
  let ?strip = "dropWhile (\<lambda>c. c \<in> {CHR ''-'', CHR ''.''})"
  assume ne: "trim_dash_dot s \<noteq> []"
  then obtain r where r: "?strip s = trim_dash_dot s @ r"
    using suffix_dropWhile [of "\<lambda>c. c \<in> {CHR ''-'', CHR ''.''}" "rev (?strip s)"]
    by (auto simp: trim_dash_dot_def Let_def suffix_to_prefix prefix_def)
  then have "hd (?strip s) = hd (trim_dash_dot s)" "?strip s \<noteq> []" using ne by auto
  then show ?thesis using hd_dropWhile [of "\<lambda>c. c \<in> {CHR ''-'', CHR ''.''}" s] by auto
qed

lemma safe_rune_char: "name_char (safe_rune r)"
  by (auto simp: safe_rune_def name_char_def split: list.splits)

text \<open>
  The part of the file name that comes from the topic holds letters, digits, dashes, underscores
  and single dots only, is not empty and does not start with a dot: it is no path and no hidden
  file, whatever the topic is called.
\<close>

theorem export_name_safe:
  "list_all name_char (sanitizeFilenamePart topic) \<and> \<not> sublist ''..'' (sanitizeFilenamePart topic)
   \<and> sanitizeFilenamePart topic \<noteq> [] \<and> hd (sanitizeFilenamePart topic) \<noteq> CHR ''.''"
proof -
  let ?folded = "fold_dots (map safe_rune (runes_of (trim_space topic)))"
  let ?name = "trim_dash_dot ?folded"
  have chars: "\<forall>c \<in> set ?name. name_char c"
  proof
    fix c assume "c \<in> set ?name"
    then have "c \<in> set ?folded" using set_mono_sublist [OF trim_dash_dot_sublist] by blast
    then show "name_char c"
      using fold_dots_spec [of "map safe_rune (runes_of (trim_space topic))"] safe_rune_char
      by (auto simp: name_char_def)
  qed
  have dots: "\<not> sublist ''..'' ?name"
    using fold_dots_spec trim_dash_dot_sublist by (meson sublist_order.order_trans)
  show ?thesis
  proof (cases "?name = []")
    case True
    have "list_all name_char ''kafka-export''"
      by (simp add: name_char_def byte_in_def)
    moreover have "\<not> sublist ''..'' ''kafka-export''"
      by (simp add: sublist_Cons_right)
    ultimately show ?thesis using True by (simp add: sanitizeFilenamePart_def Let_def)
  next
    case False
    then show ?thesis
      using chars dots trim_dash_dot_hd [of ?folded]
      by (simp add: sanitizeFilenamePart_def Let_def list_all_iff)
  qed
qed

end
