(* ===== verification/KafkaRing.thy ===== *)
theory KafkaRing
  imports GoBase
begin

text \<open>
  The ring buffer of \<open>kafkaconn/stream.go\<close>, which keeps the last messages of a stream. The
  locale \<open>bounded_buffer\<close> is the contract: what a buffer of bounded capacity holds after a
  sequence of insertions. The ring interprets it. An index expression or a \<open>make\<close> that
  panics is \<open>None\<close>.
\<close>

section \<open>The contract\<close>

locale bounded_buffer =
  fixes well_formed :: "'b \<Rightarrow> bool"
    and capacity_of :: "'b \<Rightarrow> nat"
    and contents_of :: "'b \<Rightarrow> 'a list"
    and push :: "'a \<Rightarrow> 'b \<Rightarrow> 'b"
  assumes push_well_formed: "well_formed b \<Longrightarrow> well_formed (push x b)"
    and push_capacity: "well_formed b \<Longrightarrow> capacity_of (push x b) = capacity_of b"
    and push_contents:
      "well_formed b \<Longrightarrow> contents_of (push x b) = take_last (capacity_of b) (contents_of b @ [x])"
begin

lemma push_all:
  assumes "well_formed b"
  shows "well_formed (fold push xs b) \<and> capacity_of (fold push xs b) = capacity_of b
    \<and> (length (contents_of b) \<le> capacity_of b \<longrightarrow>
        contents_of (fold push xs b) = take_last (capacity_of b) (contents_of b @ xs))"
  using assms
proof (induction xs arbitrary: b)
  case Nil
  then show ?case by simp
next
  case (Cons x xs)
  note p = push_well_formed [OF Cons.prems] push_capacity [OF Cons.prems] push_contents [OF Cons.prems]
  have "length (contents_of (push x b)) \<le> capacity_of b" by (simp add: p(3))
  then show ?case
    using Cons.IH [OF p(1)] p by (simp add: take_last_take_last_append)
qed

end

section \<open>The ring\<close>

record 'a ring =
  rb_data :: "'a list"
  rb_head :: nat
  rb_size :: nat
  rb_capacity :: nat

definition StreamRingCapacity :: int where
  "StreamRingCapacity = 10000"

text \<open>\<open>zero\<close> is the zero value of the element type.\<close>

definition newRingBuffer :: "'a \<Rightarrow> int \<Rightarrow> 'a ring" where
  "newRingBuffer zero capacity =
     (let capacity = nat (if capacity \<le> 0 then StreamRingCapacity else capacity)
      in \<lparr>rb_data = replicate capacity zero, rb_head = 0, rb_size = 0, rb_capacity = capacity\<rparr>)"

definition ring_append :: "'a \<Rightarrow> 'a ring \<Rightarrow> 'a ring" where
  "ring_append msg rb =
     rb\<lparr>rb_data := (rb_data rb)[rb_head rb := msg],
        rb_head := (rb_head rb + 1) mod rb_capacity rb,
        rb_size := (if rb_size rb < rb_capacity rb then rb_size rb + 1 else rb_size rb)\<rparr>"

definition appendBatch :: "'a list \<Rightarrow> 'a ring \<Rightarrow> 'a ring" where
  "appendBatch msgs rb = fold ring_append msgs rb"

definition Page :: "int \<Rightarrow> int \<Rightarrow> 'a ring \<Rightarrow> 'a list option" where
  "Page offset limit rb =
     (let offset = (if offset < 0 then 0 else offset) in
        if offset \<ge> int (rb_size rb) then Some []
        else
          let end' = i64 (offset + limit);
              end' = (if end' > int (rb_size rb) then int (rb_size rb) else end');
              count = i64 (end' - offset);
              base = (rb_head rb + rb_capacity rb - rb_size rb) mod rb_capacity rb
          in if makes count
             then Some (map (\<lambda>i. rb_data rb ! ((base + nat offset + i) mod rb_capacity rb)) [0..<nat count])
             else None)"

section \<open>Refinement\<close>

definition ring_ok :: "'a ring \<Rightarrow> bool" where
  "ring_ok rb \<longleftrightarrow> 0 < rb_capacity rb \<and> length (rb_data rb) = rb_capacity rb
     \<and> rb_head rb < rb_capacity rb \<and> rb_size rb \<le> rb_capacity rb"

text \<open>The messages the ring holds, oldest first.\<close>

definition ring_contents :: "'a ring \<Rightarrow> 'a list" where
  "ring_contents rb =
     map (\<lambda>i. rb_data rb ! ((rb_head rb + rb_capacity rb - rb_size rb + i) mod rb_capacity rb)) [0..<rb_size rb]"

lemma ring_ok_new: "ring_ok (newRingBuffer z cap)"
  by (simp add: ring_ok_def newRingBuffer_def StreamRingCapacity_def Let_def)

lemma ring_ok_append: "ring_ok rb \<Longrightarrow> ring_ok (ring_append m rb)"
  by (simp add: ring_ok_def ring_append_def)

lemma ring_slot:
  assumes "ring_ok rb" "i < rb_size rb"
  shows "(rb_head rb + rb_capacity rb - rb_size rb + i) mod rb_capacity rb = rb_head rb
    \<longleftrightarrow> rb_size rb = rb_capacity rb \<and> i = 0"
proof -
  let ?c = "rb_capacity rb" and ?h = "rb_head rb" and ?s = "rb_size rb"
  have b: "0 < ?c" "?h < ?c" "?s \<le> ?c" using assms(1) by (simp_all add: ring_ok_def)
  let ?x = "?h + ?c - ?s + i"
  have x: "?x < ?h + ?c" "?h \<le> ?x" using b assms(2) by linarith+
  show ?thesis
  proof (cases "?x < ?c")
    case True
    then show ?thesis using x b assms(2) by auto
  next
    case False
    then have "?x mod ?c = ?x - ?c" using x b by (simp add: mod_if)
    then show ?thesis using x b assms(2) False by auto
  qed
qed

lemma ring_contents_append:
  assumes "ring_ok rb"
  shows "ring_contents (ring_append m rb) = take_last (rb_capacity rb) (ring_contents rb @ [m])"
proof -
  let ?c = "rb_capacity rb" and ?h = "rb_head rb" and ?s = "rb_size rb" and ?d = "rb_data rb"
  have b: "0 < ?c" "?h < ?c" "?s \<le> ?c" "length ?d = ?c" using assms by (simp_all add: ring_ok_def)
  have len: "length (ring_contents rb) = ?s" by (simp add: ring_contents_def)
  have nth: "ring_contents rb ! i = ?d ! ((?h + ?c - ?s + i) mod ?c)" if "i < ?s" for i
    using that by (simp add: ring_contents_def)
  have keep: "?d[?h := m] ! ((?h + ?c - ?s + i) mod ?c) = ring_contents rb ! i"
    if "i < ?s" "\<not> (?s = ?c \<and> i = 0)" for i
    using ring_slot [OF assms that(1)] that nth [OF that(1)] by (simp add: nth_list_update_neq)
  show ?thesis
  proof (cases "?s < ?c")
    case True
    have e: "(Suc ?h mod ?c + ?c - Suc ?s + i) mod ?c = (?h + ?c - ?s + i) mod ?c" for i
    proof -
      have "Suc ?h mod ?c + ?c - Suc ?s + i = Suc ?h mod ?c + (?c - Suc ?s + i)" using True by simp
      then have "(Suc ?h mod ?c + ?c - Suc ?s + i) mod ?c = (Suc ?h + (?c - Suc ?s + i)) mod ?c"
        by (simp only: mod_add_left_eq)
      also have "Suc ?h + (?c - Suc ?s + i) = ?h + ?c - ?s + i" using True by simp
      finally show ?thesis .
    qed
    have last: "?d[?h := m] ! ((?h + ?c - ?s + ?s) mod ?c) = m" using b True by simp
    have "ring_contents (ring_append m rb) = ring_contents rb @ [m]"
    proof (rule nth_equalityI)
      show "length (ring_contents (ring_append m rb)) = length (ring_contents rb @ [m])"
        using True by (simp add: ring_contents_def ring_append_def)
      fix i assume "i < length (ring_contents (ring_append m rb))"
      then have i: "i < Suc ?s" using True by (simp add: ring_contents_def ring_append_def)
      have "ring_contents (ring_append m rb) ! i = ?d[?h := m] ! ((?h + ?c - ?s + i) mod ?c)"
        using True i e [of i] by (simp add: ring_contents_def ring_append_def del: upt_Suc)
      then show "ring_contents (ring_append m rb) ! i = (ring_contents rb @ [m]) ! i"
        using i True last keep [of i] by (cases "i = ?s") (auto simp: nth_append len)
    qed
    then show ?thesis using True len by simp
  next
    case False
    then have s: "?s = ?c" using b by simp
    have e: "(Suc ?h mod ?c + i) mod ?c = (?h + Suc i) mod ?c" for i
      using mod_add_left_eq [of "Suc ?h" ?c i] by simp
    have "ring_contents (ring_append m rb) = tl (ring_contents rb) @ [m]"
    proof (rule nth_equalityI)
      show "length (ring_contents (ring_append m rb)) = length (tl (ring_contents rb) @ [m])"
        using s b by (simp add: ring_contents_def ring_append_def)
      fix i assume "i < length (ring_contents (ring_append m rb))"
      then have i: "i < ?c" using s by (simp add: ring_contents_def ring_append_def)
      have r: "ring_contents (ring_append m rb) ! i = ?d[?h := m] ! ((?h + Suc i) mod ?c)"
        using s i by (simp add: ring_contents_def ring_append_def e)
      show "ring_contents (ring_append m rb) ! i = (tl (ring_contents rb) @ [m]) ! i"
      proof (cases "Suc i = ?c")
        case True
        then have "(?h + Suc i) mod ?c = ?h" "\<not> i < ?c - Suc 0" using b by simp_all
        then show ?thesis using r True b s len by (simp add: nth_append)
      next
        case False
        then have "Suc i < ?c" "i < ?c - Suc 0" using i by simp_all
        then show ?thesis using r keep [of "Suc i"] s len by (simp add: nth_append nth_tl)
      qed
    qed
    moreover have "take_last ?c (ring_contents rb @ [m]) = tl (ring_contents rb) @ [m]"
      using s b len by (cases "ring_contents rb") (auto simp: take_last_def)
    ultimately show ?thesis by simp
  qed
qed

interpretation ring: bounded_buffer ring_ok rb_capacity ring_contents ring_append
  by unfold_locales (simp_all add: ring_ok_append ring_contents_append, simp add: ring_append_def)

lemma ring_contents_new: "ring_contents (newRingBuffer z cap) = []"
  by (simp add: ring_contents_def newRingBuffer_def Let_def)

lemma appendBatch_contents:
  assumes "ring_ok rb"
  shows "ring_ok (appendBatch msgs rb) \<and> rb_capacity (appendBatch msgs rb) = rb_capacity rb
    \<and> ring_contents (appendBatch msgs rb) = take_last (rb_capacity rb) (ring_contents rb @ msgs)"
proof -
  have "length (ring_contents rb) \<le> rb_capacity rb"
    using assms by (simp add: ring_contents_def ring_ok_def)
  then show ?thesis using ring.push_all [OF assms, of msgs] by (simp add: appendBatch_def)
qed

lemma Page_contents:
  assumes "ring_ok rb" "rb_capacity rb < 2 ^ 48" "0 \<le> limit" "offset + limit < 2 ^ 63" "limit < 2 ^ 63"
  shows "Page offset limit rb = Some (take (nat limit) (drop (nat offset) (ring_contents rb)))"
proof -
  let ?o = "max offset 0"
  let ?s = "rb_size rb" and ?c = "rb_capacity rb"
  have b: "0 < ?c" "rb_head rb < ?c" "?s \<le> ?c" using assms(1) by (simp_all add: ring_ok_def)
  have len: "length (ring_contents rb) = ?s" by (simp add: ring_contents_def)
  show ?thesis
  proof (cases "int ?s \<le> ?o")
    case True
    then have "?s \<le> nat offset" by (auto simp: max_def split: if_splits)
    then show ?thesis using True len by (auto simp: Page_def Let_def max_def split: if_splits)
  next
    case False
    let ?stop = "min (?o + limit) (int ?s)"
    let ?n = "nat (?stop - ?o)"
    have e: "i64 (?o + limit) = ?o + limit" using assms(3-5) by (intro i64_id) auto
    have "?stop - ?o \<le> int ?s" "0 \<le> ?stop - ?o" using False assms(3) by auto
    then have c: "i64 (?stop - ?o) = ?stop - ?o" "makes (?stop - ?o)"
      using b(3) assms(2) by (auto simp: makes_def intro!: i64_id)
    have idx: "((rb_head rb + ?c - ?s) mod ?c + nat ?o + i) mod ?c = (rb_head rb + ?c - ?s + (nat ?o + i)) mod ?c" for i
      using mod_add_left_eq [of "rb_head rb + ?c - ?s" ?c "nat ?o + i"] by (simp add: add.assoc)
    have "Page offset limit rb = Some (map (\<lambda>i. rb_data rb ! (((rb_head rb + ?c - ?s) mod ?c + nat ?o + i) mod ?c)) [0..<?n])"
    proof -
      have "(if offset < 0 then 0 else offset) = ?o" by auto
      moreover have "(if i64 (?o + limit) > int ?s then int ?s else i64 (?o + limit)) = ?stop"
        unfolding e by (simp add: min_def)
      ultimately show ?thesis using False c by (simp add: Page_def Let_def)
    qed
    moreover have "map (\<lambda>i. rb_data rb ! (((rb_head rb + ?c - ?s) mod ?c + nat ?o + i) mod ?c)) [0..<?n]
        = take (nat limit) (drop (nat ?o) (ring_contents rb))"
    proof (rule nth_equalityI)
      show l: "length (map (\<lambda>i. rb_data rb ! (((rb_head rb + ?c - ?s) mod ?c + nat ?o + i) mod ?c)) [0..<?n])
          = length (take (nat limit) (drop (nat ?o) (ring_contents rb)))"
        using False assms(3) by (simp add: len) linarith
      fix i assume "i < length (map (\<lambda>i. rb_data rb ! (((rb_head rb + ?c - ?s) mod ?c + nat ?o + i) mod ?c)) [0..<?n])"
      then have i: "i < ?n" by simp
      then have "nat ?o + i < ?s" "i < nat limit" using False by linarith+
      then show "map (\<lambda>i. rb_data rb ! (((rb_head rb + ?c - ?s) mod ?c + nat ?o + i) mod ?c)) [0..<?n] ! i
          = take (nat limit) (drop (nat ?o) (ring_contents rb)) ! i"
        using i by (simp add: idx len) (simp add: ring_contents_def)
    qed
    moreover have "nat ?o = nat offset" by (simp add: max_def)
    ultimately show ?thesis by simp
  qed
qed

lemma Page_negative:
  assumes "ring_ok rb" "rb_size rb < 2 ^ 62" "- (2 ^ 63) \<le> limit" "limit < 0" "offset < int (rb_size rb)" "0 < rb_size rb"
  shows "Page offset limit rb = None"
proof -
  define from' where "from' = (if offset < 0 then 0 else offset)"
  have o: "0 \<le> from'" "from' < int (rb_size rb)" using assms(5,6) by (auto simp: from'_def)
  have size: "int (rb_size rb) < 2 ^ 62" using assms(2) by simp
  have e: "i64 (from' + limit) = from' + limit" using o size assms(3,4) by (intro i64_id) simp_all
  have c: "i64 limit = limit" using assms(3,4) by (intro i64_id) simp_all
  show ?thesis using o assms(4) unfolding Page_def Let_def from'_def [symmetric] e by (simp add: c makes_def)
qed

text \<open>
  C29. After any sequence of batches the ring buffer of a stream holds exactly the last
  messages, as many as its capacity, oldest first. A page of it is that part of them, for every
  offset and every non-negative limit whose sum is an \<open>int64\<close>. For a negative limit the
  call panics, unless no message lies at or after the offset.
\<close>

theorem ring_pages_last_messages:
  assumes "rb = appendBatch msgs (newRingBuffer z StreamRingCapacity)"
    and "- (2 ^ 63) \<le> limit" "limit < 2 ^ 63" "offset + limit < 2 ^ 63"
  defines "kept \<equiv> drop (nat offset) (take_last (nat StreamRingCapacity) msgs)"
  shows "Page offset limit rb = (if 0 \<le> limit \<or> kept = [] then Some (take (nat limit) kept) else None)"
proof -
  have c: "rb_capacity (newRingBuffer z StreamRingCapacity) = nat StreamRingCapacity"
    by (simp add: newRingBuffer_def StreamRingCapacity_def)
  note a = appendBatch_contents [OF ring_ok_new, of msgs z StreamRingCapacity]
  have small: "nat StreamRingCapacity < 2 ^ 48" by (simp add: StreamRingCapacity_def)
  have ok: "ring_ok rb" "rb_capacity rb = nat StreamRingCapacity"
    "ring_contents rb = take_last (nat StreamRingCapacity) msgs"
    using a assms(1) by (simp_all add: c ring_contents_new)
  have size: "length (take_last (nat StreamRingCapacity) msgs) = rb_size rb"
    unfolding ok(3) [symmetric] by (simp add: ring_contents_def)
  show ?thesis
  proof (cases "0 \<le> limit")
    case True
    then show ?thesis using Page_contents [of rb limit offset] ok assms(3,4) small by (simp add: kept_def)
  next
    case False
    show ?thesis
    proof (cases "int (rb_size rb) \<le> offset \<or> rb_size rb = 0")
      case True
      then have "kept = []" "Page offset limit rb = Some []" using size by (auto simp: kept_def Page_def)
      then show ?thesis by simp
    next
      case no: False
      have "rb_size rb < 2 ^ 62" using ok(1,2) small by (simp add: ring_ok_def)
      then have "Page offset limit rb = None" using Page_negative [OF ok(1)] no False assms(2) by simp
      moreover have "kept \<noteq> []" using no size by (auto simp: kept_def)
      ultimately show ?thesis using False by simp
    qed
  qed
qed

theorem ring_pages_last_messages_witness:
  "Page 1 5 (appendBatch [10, 20, 30::int] (newRingBuffer 0 StreamRingCapacity)) = Some [20, 30]"
  using ring_pages_last_messages [OF refl, of 5 1 "[10, 20, 30::int]" 0]
  by (simp add: StreamRingCapacity_def take_last_def)

text \<open>
  A page request whose offset and limit sum past \<open>int64\<close> panics as soon as the buffer
  has more messages than the offset: the end wraps to a negative number, and the slice to
  allocate gets the length \<open>limit\<close>. Neither \<open>StreamMessages\<close> nor its handler in \<open>main.go\<close>
  bounds the limit.
\<close>

theorem ring_page_overflow_panics:
  assumes "ring_ok rb" "0 \<le> offset" "offset < int (rb_size rb)" "rb_size rb < 2 ^ 47"
    and "limit < 2 ^ 63" "2 ^ 63 \<le> offset + limit"
  shows "Page offset limit rb = None"
proof -
  have "i64 (offset + limit) = i64 (offset + limit - 2 ^ 64)" by (simp only: i64_wrap)
  also have "\<dots> = offset + limit - 2 ^ 64" using assms(2-6) by (intro i64_id) simp_all
  finally have "i64 (offset + limit) = offset + limit - 2 ^ 64" .
  moreover have "i64 (offset + limit - 2 ^ 64 - offset) = i64 (limit - 2 ^ 64)" by simp
  moreover have "i64 (limit - 2 ^ 64) = limit" unfolding i64_wrap using assms(2-6) by (intro i64_id) simp_all
  moreover have "\<not> makes limit" using assms(2-6) by (simp add: makes_def)
  ultimately show ?thesis using assms(2-6) by (simp add: Page_def Let_def)
qed

theorem ring_page_overflow_panics_witness:
  "Page 1 (2 ^ 63 - 1) (appendBatch [1, 2::int] (newRingBuffer 0 4)) = None"
proof -
  have "ring_ok (appendBatch [1, 2::int] (newRingBuffer 0 4))"
    by (rule appendBatch_contents [OF ring_ok_new, THEN conjunct1])
  moreover have "rb_size (appendBatch [1, 2::int] (newRingBuffer 0 4)) = 2" by code_simp
  ultimately show ?thesis by (intro ring_page_overflow_panics) simp_all
qed

end
