(* ===== verification/KafkaStreams.thy ===== *)
theory KafkaStreams
  imports KafkaRing KafkaMessages
begin

text \<open>
  The streaming sessions of \<open>kafkaconn/stream.go\<close>: the registry with its operations and the
  loop of one session. A session holds its client as a number; \<open>sr_closed\<close> collects the
  clients of the sessions on which \<open>shutdownSession\<close> ran. The order of \<open>sr_sessions\<close> stands
  for the iteration order of the Go map. The loop is a function of its turns: what the
  ticker, the context and the broker answered in each. The scan of a record is that of
  \<open>KafkaMessages\<close>, and the history is the ring of \<open>KafkaRing\<close>.
\<close>

section \<open>Sessions and registry\<close>

definition StreamMaxSessions :: nat where
  "StreamMaxSessions = 20"

definition StreamIdleTimeout :: int where
  "StreamIdleTimeout = 1800000"      \<comment> \<open>milliseconds\<close>

definition StreamBatchSize :: nat where
  "StreamBatchSize = 50"

definition StreamMinRetryDelay :: int where
  "StreamMinRetryDelay = 500000000"      \<comment> \<open>nanoseconds\<close>

definition StreamMaxRetryDelay :: int where
  "StreamMaxRetryDelay = 30000000000"

definition zero_message :: consumed_message where
  "zero_message =
     \<lparr>m_topic = [], m_partition = 0, m_offset = 0, m_timestamp = 0, m_leader_epoch = 0, m_key = [],
      m_key_base64 = [], m_value_text = [], m_value_base64 = [], m_headers = None, m_truncated = False,
      m_committed = False, m_decode_error = [], m_schema_id = 0, m_schema_subject = [],
      m_schema_version = 0\<rparr>"

record stream_session =
  sn_id :: string
  sn_connection :: string
  sn_topic :: string
  sn_client :: nat
  sn_ring :: "consumed_message ring"
  sn_offsets :: "int \<rightharpoonup> int"
  sn_scanned :: int
  sn_matched :: int
  sn_paused :: bool
  sn_last :: int

datatype stream_event =
    EmitStreamMessages string "consumed_message list" int int bool
  | EmitStreamError string goerr

record stream_status =
  su_session :: string
  su_topic :: string
  su_paused :: bool
  su_scanned :: int
  su_matched :: int
  su_size :: int
  su_capacity :: int
  su_offsets :: "int \<rightharpoonup> int"

record stream_registry =
  sr_next :: int
  sr_sessions :: "(string \<times> stream_session) list"
  sr_closed :: "nat list"

definition NewStreamRegistry :: stream_registry where
  "NewStreamRegistry = \<lparr>sr_next = 0, sr_sessions = [], sr_closed = []\<rparr>"

definition new_session :: "string \<Rightarrow> string \<Rightarrow> string \<Rightarrow> nat \<Rightarrow> int \<Rightarrow> stream_session" where
  "new_session sid conn topic client now =
     \<lparr>sn_id = sid, sn_connection = conn, sn_topic = topic, sn_client = client,
      sn_ring = newRingBuffer zero_message StreamRingCapacity, sn_offsets = (\<lambda>_. None),
      sn_scanned = 0, sn_matched = 0, sn_paused = False, sn_last = now\<rparr>"

text \<open>The two critical sections of \<open>StartStream\<close>.\<close>

definition reserve_session :: "int \<Rightarrow> stream_registry \<Rightarrow> (string \<times> stream_registry) res" where
  "reserve_session nanos r =
     (if StreamMaxSessions \<le> length (sr_sessions r)
      then Inl (Errf ''maximum %d concurrent stream sessions reached'' [format_int (int StreamMaxSessions)])
      else (let n = i64 (sr_next r + 1)
            in Inr (''kafka-stream-'' @ format_int nanos @ ''-'' @ format_int n, r\<lparr>sr_next := n\<rparr>)))"

definition insert_session :: "stream_session \<Rightarrow> stream_registry \<Rightarrow> stream_registry" where
  "insert_session s r = r\<lparr>sr_sessions := AList.update (sn_id s) s (sr_sessions r)\<rparr>"

section \<open>Registry operations\<close>

definition shutdownSession :: "stream_session \<Rightarrow> stream_registry \<Rightarrow> stream_registry" where
  "shutdownSession s r = r\<lparr>sr_closed := sn_client s # sr_closed r\<rparr>"

definition Stop :: "string \<Rightarrow> stream_registry \<Rightarrow> stream_registry" where
  "Stop sid r =
     (case map_of (sr_sessions r) sid of
        None \<Rightarrow> r
      | Some s \<Rightarrow> shutdownSession s (r\<lparr>sr_sessions := AList.delete sid (sr_sessions r)\<rparr>))"

text \<open>Removing the sessions that satisfy a test, then shutting them down one by one.\<close>

definition stop_where :: "(stream_session \<Rightarrow> bool) \<Rightarrow> stream_registry \<Rightarrow> stream_registry" where
  "stop_where doomed r =
     fold shutdownSession (filter doomed (map snd (sr_sessions r)))
       (r\<lparr>sr_sessions := filter (\<lambda>(i, s). \<not> doomed s) (sr_sessions r)\<rparr>)"

definition StopAll :: "stream_registry \<Rightarrow> stream_registry" where
  "StopAll = stop_where (\<lambda>_. True)"

definition StopAllForConnection :: "string \<Rightarrow> stream_registry \<Rightarrow> stream_registry" where
  "StopAllForConnection conn = stop_where (\<lambda>s. sn_connection s = conn)"

definition idle_session :: "int \<Rightarrow> stream_session \<Rightarrow> bool" where
  "idle_session now s \<longleftrightarrow> i64 (now - sn_last s) > StreamIdleTimeout"

definition EvictIdle :: "int \<Rightarrow> stream_registry \<Rightarrow> string list \<times> stream_registry" where
  "EvictIdle now r =
     (map fst (filter (\<lambda>(i, s). idle_session now s) (sr_sessions r)), stop_where (idle_session now) r)"

definition session_not_found :: "string \<Rightarrow> goerr" where
  "session_not_found sid = Errf ''stream session %q not found'' [sid]"

definition setPaused :: "string \<Rightarrow> bool \<Rightarrow> stream_registry \<Rightarrow> stream_registry res" where
  "setPaused sid paused r =
     (case map_of (sr_sessions r) sid of
        None \<Rightarrow> Inl (session_not_found sid)
      | Some s \<Rightarrow> Inr (r\<lparr>sr_sessions := AList.update sid (s\<lparr>sn_paused := paused\<rparr>) (sr_sessions r)\<rparr>))"

definition status_of_session :: "stream_session \<Rightarrow> stream_status" where
  "status_of_session s =
     \<lparr>su_session = sn_id s, su_topic = sn_topic s, su_paused = sn_paused s, su_scanned = sn_scanned s,
      su_matched = sn_matched s, su_size = int (rb_size (sn_ring s)),
      su_capacity = int (rb_capacity (sn_ring s)), su_offsets = sn_offsets s\<rparr>"

definition Status :: "string \<Rightarrow> stream_registry \<Rightarrow> stream_status res" where
  "Status sid r =
     (case map_of (sr_sessions r) sid of
        None \<Rightarrow> Inl (session_not_found sid)
      | Some s \<Rightarrow> Inr (status_of_session s))"

definition PauseStream :: "string \<Rightarrow> stream_registry \<Rightarrow> stream_status res \<times> stream_registry" where
  "PauseStream sid r = (case setPaused sid True r of Inl e \<Rightarrow> (Inl e, r) | Inr r' \<Rightarrow> (Status sid r', r'))"

definition ResumeStream :: "string \<Rightarrow> stream_registry \<Rightarrow> stream_status res \<times> stream_registry" where
  "ResumeStream sid r = (case setPaused sid False r of Inl e \<Rightarrow> (Inl e, r) | Inr r' \<Rightarrow> (Status sid r', r'))"

definition StopStream :: "string \<Rightarrow> bool \<Rightarrow> stream_registry \<Rightarrow> stream_registry" where
  "StopStream sid all r = (if all then StopAll r else Stop sid r)"

definition StatusesFor :: "string \<Rightarrow> stream_registry \<Rightarrow> stream_status list" where
  "StatusesFor conn r =
     sort_key su_session
       (List.map_filter (\<lambda>s. case Status (sn_id s) r of Inl _ \<Rightarrow> None | Inr st \<Rightarrow> Some st)
         (filter (\<lambda>s. conn = [] \<or> sn_connection s = conn) (map snd (sr_sessions r))))"

record stream_page =
  sg_total :: int
  sg_offset :: int
  sg_limit :: int
  sg_messages :: "consumed_message list"

text \<open>A page that panics is \<open>None\<close>.\<close>

definition StreamMessages :: "string \<Rightarrow> int \<Rightarrow> int \<Rightarrow> stream_registry \<Rightarrow> stream_page option res" where
  "StreamMessages sid offset limit r =
     (case map_of (sr_sessions r) sid of
        None \<Rightarrow> Inl (session_not_found sid)
      | Some s \<Rightarrow>
          (let limit = (if limit \<le> 0 then 100 else limit)
           in Inr (map_option (\<lambda>msgs. \<lparr>sg_total = int (rb_size (sn_ring s)), sg_offset = offset,
                                       sg_limit = limit, sg_messages = msgs\<rparr>)
                     (Page offset limit (sn_ring s)))))"

section \<open>The loop of one session\<close>

text \<open>
  What one turn of \<open>runLoop\<close> meets. \<open>lt_pause\<close> is a \<open>setPaused\<close> that other requests ran
  before the turn; \<open>lt_done\<close> and \<open>lt_tick\<close> are the branch the first \<open>select\<close> takes;
  \<open>lt_stop_wait\<close> says whether the session ended while waiting to retry; \<open>po_expired\<close> of the
  poll whether its context had ended after the records were handled.
\<close>

record loop_turn =
  lt_pause :: "bool option"
  lt_done :: bool
  lt_tick :: bool
  lt_poll :: poll
  lt_stop_wait :: bool
  lt_now :: int

record loop_state =
  ls_session :: stream_session
  ls_batch :: "consumed_message list"
  ls_delay :: int
  ls_events :: "stream_event list"

definition flush :: "bool \<Rightarrow> int \<Rightarrow> loop_state \<Rightarrow> loop_state" where
  "flush emitter now st =
     (if ls_batch st = [] then st
      else
        let s = (ls_session st)\<lparr>sn_last := now, sn_ring := appendBatch (ls_batch st) (sn_ring (ls_session st))\<rparr>;
            st' = st\<lparr>ls_session := s, ls_batch := []\<rparr>
        in if \<not> emitter \<or> sn_paused s then st'
           else st'\<lparr>ls_events := ls_events st @
                  [EmitStreamMessages (sn_id s) (ls_batch st) (sn_scanned s) (sn_matched s) (sn_paused s)]\<rparr>)"

definition emitError :: "bool \<Rightarrow> goerr \<Rightarrow> loop_state \<Rightarrow> loop_state" where
  "emitError emitter e st =
     (if \<not> emitter then st
      else st\<lparr>ls_events := ls_events st @ [EmitStreamError (sn_id (ls_session st)) e]\<rparr>)"

definition stream_record :: "bool \<Rightarrow> scan_setup \<Rightarrow> int \<Rightarrow> loop_state \<Rightarrow> kgo_record \<Rightarrow> loop_state" where
  "stream_record emitter sc now st r =
     (let s = ls_session st;
          st = st\<lparr>ls_session := s\<lparr>sn_scanned := sn_scanned s + 1,
                                  sn_offsets := nextPartitionOffset (sn_offsets s) r\<rparr>\<rparr>
      in if \<not> record_passes sc r then st
         else
           let s = ls_session st;
               st = st\<lparr>ls_session := s\<lparr>sn_matched := sn_matched s + 1\<rparr>,
                       ls_batch := ls_batch st @ [message_of sc r]\<rparr>
           in if StreamBatchSize \<le> length (ls_batch st) then flush emitter now st else st)"

text \<open>One turn; the second result says whether the loop returns.\<close>

definition stream_turn :: "bool \<Rightarrow> scan_setup \<Rightarrow> loop_turn \<Rightarrow> loop_state \<Rightarrow> loop_state \<times> bool" where
  "stream_turn emitter sc t st =
     (let st = (case lt_pause t of None \<Rightarrow> st
                | Some p \<Rightarrow> st\<lparr>ls_session := (ls_session st)\<lparr>sn_paused := p\<rparr>\<rparr>)
      in if lt_done t then (st, True)
         else
           let st = (if lt_tick t then flush emitter (lt_now t) st else st)
           in case po_error (lt_poll t) of
                Some (PollFailed e) \<Rightarrow>
                  (let st = emitError emitter e st in
                     if lt_stop_wait t then (st, True)
                     else (st\<lparr>ls_delay := (if ls_delay st * 2 > StreamMaxRetryDelay then StreamMaxRetryDelay
                                          else ls_delay st * 2)\<rparr>, False))
              | _ \<Rightarrow>
                  (let st = st\<lparr>ls_delay := StreamMinRetryDelay\<rparr>;
                       st = foldl (stream_record emitter sc (lt_now t)) st (po_records (lt_poll t))
                   in (st, po_expired (lt_poll t))))"

text \<open>The turns one after the other; when the loop returns the deferred flush runs.\<close>

fun run_turns :: "bool \<Rightarrow> scan_setup \<Rightarrow> loop_turn list \<Rightarrow> loop_state \<Rightarrow> loop_state \<times> bool" where
  "run_turns emitter sc [] st = (st, False)"
| "run_turns emitter sc (t # ts) st =
     (let (st', returns) = stream_turn emitter sc t st
      in if returns then (flush emitter (lt_now t) st', True) else run_turns emitter sc ts st')"

definition loop_start :: "stream_session \<Rightarrow> loop_state" where
  "loop_start s = \<lparr>ls_session = s, ls_batch = [], ls_delay = StreamMinRetryDelay, ls_events = []\<rparr>"

text \<open>
  The whole of \<open>runLoop\<close>: a request whose filters or decoders are invalid ends the loop with
  an error event, and the session stays in the registry.
\<close>

definition runLoop ::
  "bool \<Rightarrow> text_lib \<Rightarrow> json_lib \<Rightarrow> codec_lib \<Rightarrow> schema_decoder \<Rightarrow> consume_params \<Rightarrow> loop_turn list
     \<Rightarrow> stream_session \<Rightarrow> loop_state \<times> bool" where
  "runLoop emitter tx jl cl schemaDec req turns s =
     (case ebind (newConsumeTextMatcher tx req) (\<lambda>matcher.
           ebind (normalizeDecodeMethod (cp_decode req)) (\<lambda>decodeMethod.
           ebind (normalizeDecompressMethod (cp_decompression req)) (\<lambda>decompressMethod.
           Inr \<lparr>sc_tx = tx, sc_jl = jl, sc_cl = cl, sc_params = req, sc_matcher = matcher,
                sc_decode = decodeMethod, sc_decompress = decompressMethod, sc_schema = schemaDec,
                sc_schema_subject = (case cp_schema req of None \<Rightarrow> [] | Some (_, subject) \<Rightarrow> trim_space subject),
                sc_limit = 0, sc_max_scan = 0, sc_committed = False\<rparr>))) of
        Inl e \<Rightarrow> (emitError emitter e (loop_start s), True)
      | Inr sc \<Rightarrow> run_turns emitter sc turns (loop_start s))"

section \<open>What the loop delivers\<close>

text \<open>The records of the polls without an error, up to the turn that ends the loop.\<close>

fun polled_records :: "loop_turn list \<Rightarrow> kgo_record list" where
  "polled_records [] = []"
| "polled_records (t # ts) =
     (if lt_done t then []
      else case po_error (lt_poll t) of
             Some (PollFailed e) \<Rightarrow> if lt_stop_wait t then [] else polled_records ts
           | _ \<Rightarrow> po_records (lt_poll t) @ (if po_expired (lt_poll t) then [] else polled_records ts))"

fun emitted_messages :: "stream_event list \<Rightarrow> consumed_message list" where
  "emitted_messages [] = []"
| "emitted_messages (EmitStreamMessages sid ms a b p # es) = ms @ emitted_messages es"
| "emitted_messages (EmitStreamError sid e # es) = emitted_messages es"

lemma emitted_messages_append: "emitted_messages (es @ fs) = emitted_messages es @ emitted_messages fs"
  by (induction es rule: emitted_messages.induct) simp_all

fun batch_event_ok :: "stream_event \<Rightarrow> bool" where
  "batch_event_ok (EmitStreamMessages sid ms a b p) = (ms \<noteq> [] \<and> length ms \<le> StreamBatchSize)"
| "batch_event_ok (EmitStreamError sid e) = True"

text \<open>
  The state after scanning \<open>rs\<close>, of whose matches \<open>sent\<close> were flushed. \<open>live\<close> says that
  the session was never paused and events have an outlet.
\<close>

definition loop_inv :: "bool \<Rightarrow> scan_setup \<Rightarrow> kgo_record list \<Rightarrow> loop_state \<Rightarrow> bool" where
  "loop_inv live sc rs st \<longleftrightarrow>
     (\<exists>sent. sent @ ls_batch st = map (message_of sc) (filter (record_passes sc) rs)
        \<and> ring_ok (sn_ring (ls_session st))
        \<and> rb_capacity (sn_ring (ls_session st)) = nat StreamRingCapacity
        \<and> ring_contents (sn_ring (ls_session st)) = take_last (nat StreamRingCapacity) sent
        \<and> (live \<longrightarrow> emitted_messages (ls_events st) = sent))
     \<and> length (ls_batch st) \<le> StreamBatchSize
     \<and> list_all batch_event_ok (ls_events st)
     \<and> sn_scanned (ls_session st) = int (length rs)
     \<and> sn_matched (ls_session st) = int (length (filter (record_passes sc) rs))
     \<and> sn_offsets (ls_session st) = foldl nextPartitionOffset (\<lambda>_. None) rs
     \<and> StreamMinRetryDelay \<le> ls_delay st \<and> ls_delay st \<le> StreamMaxRetryDelay
     \<and> (live \<longrightarrow> \<not> sn_paused (ls_session st))"

lemma loop_inv_flush:
  assumes "loop_inv live sc rs st" "live \<longrightarrow> emitter"
  shows "loop_inv live sc rs (flush emitter now st)" and "ls_batch (flush emitter now st) = []"
proof -
  show "ls_batch (flush emitter now st) = []" by (simp add: flush_def Let_def)
  show "loop_inv live sc rs (flush emitter now st)"
  proof (cases "ls_batch st = []")
    case True
    then show ?thesis using assms(1) by (simp add: flush_def)
  next
    case False
    let ?b = "ls_batch st" and ?ring = "sn_ring (ls_session st)"
    obtain sent where s: "sent @ ?b = map (message_of sc) (filter (record_passes sc) rs)" "ring_ok ?ring"
      "rb_capacity ?ring = nat StreamRingCapacity" "ring_contents ?ring = take_last (nat StreamRingCapacity) sent"
      "live \<longrightarrow> emitted_messages (ls_events st) = sent"
      using assms(1) unfolding loop_inv_def by blast
    note a = appendBatch_contents [OF s(2), of ?b]
    have "ring_contents (appendBatch ?b ?ring) = take_last (nat StreamRingCapacity) (sent @ ?b)"
      using a s(3,4) by (simp add: take_last_take_last_append)
    then have "\<exists>sent'. sent' @ [] = map (message_of sc) (filter (record_passes sc) rs)
        \<and> ring_ok (appendBatch ?b ?ring) \<and> rb_capacity (appendBatch ?b ?ring) = nat StreamRingCapacity
        \<and> ring_contents (appendBatch ?b ?ring) = take_last (nat StreamRingCapacity) sent'
        \<and> (live \<longrightarrow> emitted_messages (ls_events (flush emitter now st)) = sent')"
      using a s assms False
      by (intro exI [of _ "sent @ ?b"])
         (auto simp: flush_def Let_def emitted_messages_append loop_inv_def)
    then show ?thesis using assms(1,2) False
      by (auto simp: loop_inv_def flush_def Let_def)
  qed
qed

lemma loop_inv_record:
  assumes "loop_inv live sc rs st" "live \<longrightarrow> emitter" "length (ls_batch st) < StreamBatchSize"
  shows "loop_inv live sc (rs @ [r]) (stream_record emitter sc now st r)
    \<and> length (ls_batch (stream_record emitter sc now st r)) < StreamBatchSize"
proof -
  let ?s = "ls_session st"
  let ?st1 = "st\<lparr>ls_session := ?s\<lparr>sn_scanned := sn_scanned ?s + 1, sn_offsets := nextPartitionOffset (sn_offsets ?s) r\<rparr>\<rparr>"
  show ?thesis
  proof (cases "record_passes sc r")
    case False
    then show ?thesis using assms by (simp add: loop_inv_def stream_record_def Let_def)
  next
    case True
    let ?st2 = "st\<lparr>ls_session := ?s\<lparr>sn_scanned := sn_scanned ?s + 1, sn_offsets := nextPartitionOffset (sn_offsets ?s) r,
                     sn_matched := sn_matched ?s + 1\<rparr>, ls_batch := ls_batch st @ [message_of sc r]\<rparr>"
    obtain sent where s: "sent @ ls_batch st = map (message_of sc) (filter (record_passes sc) rs)"
      "ring_ok (sn_ring ?s)" "rb_capacity (sn_ring ?s) = nat StreamRingCapacity"
      "ring_contents (sn_ring ?s) = take_last (nat StreamRingCapacity) sent"
      "live \<longrightarrow> emitted_messages (ls_events st) = sent"
      using assms(1) unfolding loop_inv_def by blast
    have "sent @ ls_batch ?st2 = map (message_of sc) (filter (record_passes sc) (rs @ [r]))"
      using True s(1) by (simp flip: append_assoc)
    then have inv: "loop_inv live sc (rs @ [r]) ?st2"
      using assms(1,3) s True by (auto simp: loop_inv_def)
    have "stream_record emitter sc now st r = (if StreamBatchSize \<le> length (ls_batch ?st2) then flush emitter now ?st2 else ?st2)"
      using True by (simp add: stream_record_def Let_def)
    then show ?thesis using inv loop_inv_flush [OF inv assms(2), of now] assms(3) by auto
  qed
qed

lemma loop_inv_records:
  assumes "loop_inv live sc rs st" "live \<longrightarrow> emitter" "length (ls_batch st) < StreamBatchSize"
  shows "loop_inv live sc (rs @ xs) (foldl (stream_record emitter sc now) st xs)
    \<and> length (ls_batch (foldl (stream_record emitter sc now) st xs)) < StreamBatchSize"
  using assms
proof (induction xs arbitrary: rs st)
  case (Cons x xs)
  note r = loop_inv_record [OF Cons.prems, of x now]
  show ?case
    using Cons.IH [of "rs @ [x]" "stream_record emitter sc now st x"] r Cons.prems(2) by simp
qed simp

text \<open>Only events are added by an error, only the delay changes by a retry.\<close>

lemma loop_inv_error: "loop_inv live sc rs st \<Longrightarrow> loop_inv live sc rs (emitError emitter e st)"
  by (auto simp: loop_inv_def emitError_def emitted_messages_append)

lemma loop_inv_delay:
  "loop_inv live sc rs st \<Longrightarrow> StreamMinRetryDelay \<le> d \<Longrightarrow> d \<le> StreamMaxRetryDelay
     \<Longrightarrow> loop_inv live sc rs (st\<lparr>ls_delay := d\<rparr>)"
  by (auto simp: loop_inv_def)

lemma batch_emitError [simp]: "ls_batch (emitError emitter e st) = ls_batch st"
  by (simp add: emitError_def)

lemma delay_emitError [simp]: "ls_delay (emitError emitter e st) = ls_delay st"
  by (simp add: emitError_def)

definition turn_live :: "bool \<Rightarrow> loop_turn \<Rightarrow> bool" where
  "turn_live live t \<longleftrightarrow> live \<longrightarrow> lt_pause t \<noteq> Some True"

lemma loop_inv_turn:
  assumes "loop_inv live sc rs st" "live \<longrightarrow> emitter" "length (ls_batch st) < StreamBatchSize" "turn_live live t"
    and "stream_turn emitter sc t st = (st', returns)"
  shows "\<exists>xs. loop_inv live sc (rs @ xs) st' \<and> length (ls_batch st') < StreamBatchSize
    \<and> (\<forall>ts. polled_records (t # ts) = xs @ (if returns then [] else polled_records ts))"
proof -
  define st1 where "st1 = (case lt_pause t of None \<Rightarrow> st | Some p \<Rightarrow> st\<lparr>ls_session := (ls_session st)\<lparr>sn_paused := p\<rparr>\<rparr>)"
  have i1: "loop_inv live sc rs st1" "length (ls_batch st1) < StreamBatchSize"
    using assms(1,3,4) by (auto simp: loop_inv_def st1_def turn_live_def split: option.splits)
  define st2 where "st2 = (if lt_tick t then flush emitter (lt_now t) st1 else st1)"
  have i2: "loop_inv live sc rs st2" "length (ls_batch st2) < StreamBatchSize"
    using i1 loop_inv_flush [OF i1(1) assms(2), of "lt_now t"] by (auto simp: st2_def)
  have turn: "stream_turn emitter sc t st = (if lt_done t then (st1, True)
      else case po_error (lt_poll t) of
        Some (PollFailed e) \<Rightarrow> (let st = emitError emitter e st2 in
            if lt_stop_wait t then (st, True)
            else (st\<lparr>ls_delay := (if ls_delay st * 2 > StreamMaxRetryDelay then StreamMaxRetryDelay else ls_delay st * 2)\<rparr>, False))
      | _ \<Rightarrow> (let st = st2\<lparr>ls_delay := StreamMinRetryDelay\<rparr>;
                 st = foldl (stream_record emitter sc (lt_now t)) st (po_records (lt_poll t))
             in (st, po_expired (lt_poll t))))"
    unfolding stream_turn_def st2_def st1_def Let_def by (rule refl)
  consider (done') "lt_done t" | (fail) e where "\<not> lt_done t" "po_error (lt_poll t) = Some (PollFailed e)"
    | (ok) "\<not> lt_done t" "\<And>e. po_error (lt_poll t) \<noteq> Some (PollFailed e)"
    by (cases "lt_done t") blast+
  then show ?thesis
  proof cases
    case done'
    then show ?thesis using assms(5) turn i1 by (intro exI [of _ "[]"]) auto
  next
    case fail
    have d: "StreamMinRetryDelay \<le> ls_delay st2" "ls_delay st2 \<le> StreamMaxRetryDelay"
      using i2(1) by (simp_all add: loop_inv_def)
    then have "StreamMinRetryDelay \<le> (if ls_delay st2 * 2 > StreamMaxRetryDelay then StreamMaxRetryDelay else ls_delay st2 * 2)"
      by (auto simp: StreamMinRetryDelay_def StreamMaxRetryDelay_def)
    then have "loop_inv live sc rs st' \<and> length (ls_batch st') < StreamBatchSize \<and> returns = lt_stop_wait t"
      using fail assms(5) turn i2 loop_inv_error [OF i2(1), of emitter e]
      by (auto simp: Let_def intro!: loop_inv_delay split: if_splits)
    then show ?thesis using fail by (intro exI [of _ "[]"]) auto
  next
    case ok
    let ?r = "foldl (stream_record emitter sc (lt_now t)) (st2\<lparr>ls_delay := StreamMinRetryDelay\<rparr>) (po_records (lt_poll t))"
    have "loop_inv live sc rs (st2\<lparr>ls_delay := StreamMinRetryDelay\<rparr>)"
      using i2(1) by (rule loop_inv_delay) (simp_all add: StreamMinRetryDelay_def StreamMaxRetryDelay_def)
    note r = loop_inv_records [OF this assms(2), of "po_records (lt_poll t)" "lt_now t"]
    have "st' = ?r" "returns = po_expired (lt_poll t)"
      using ok assms(5) turn by (auto simp: Let_def split: option.splits poll_error.splits)
    moreover have "polled_records (t # ts) = po_records (lt_poll t) @ (if po_expired (lt_poll t) then [] else polled_records ts)" for ts
      using ok by (auto split: option.splits poll_error.splits)
    ultimately show ?thesis using r i2(2) by (intro exI [of _ "po_records (lt_poll t)"]) auto
  qed
qed

lemma loop_inv_turns:
  assumes "loop_inv live sc rs st" "live \<longrightarrow> emitter" "length (ls_batch st) < StreamBatchSize"
    and "\<forall>t \<in> set ts. turn_live live t" "run_turns emitter sc ts st = (st', returned)"
  shows "loop_inv live sc (rs @ polled_records ts) st' \<and> (returned \<longrightarrow> ls_batch st' = [])"
  using assms
proof (induction ts arbitrary: rs st)
  case Nil
  then show ?case by simp
next
  case (Cons t ts)
  obtain st1 rt where t: "stream_turn emitter sc t st = (st1, rt)" by (metis surj_pair)
  have "turn_live live t" using Cons.prems(4) by simp
  from loop_inv_turn [OF Cons.prems(1-3) this t] obtain xs where
    x: "loop_inv live sc (rs @ xs) st1" "length (ls_batch st1) < StreamBatchSize"
      "\<And>ts. polled_records (t # ts) = xs @ (if rt then [] else polled_records ts)" by blast
  show ?case
  proof (cases rt)
    case True
    then have "st' = flush emitter (lt_now t) st1" "returned" using Cons.prems(5) t by simp_all
    then show ?thesis using loop_inv_flush [OF x(1) assms(2)] x(3) [of ts] True by simp
  next
    case False
    then have "run_turns emitter sc ts st1 = (st', returned)" using Cons.prems(5) t by simp
    then show ?thesis using Cons.IH [OF x(1) Cons.prems(2) x(2)] Cons.prems(4) x(3) [of ts] False by simp
  qed
qed

lemma loop_inv_start:
  "loop_inv True sc [] (loop_start (new_session sid conn topic c now))"
  using ring_ok_new [of zero_message StreamRingCapacity]
  using ring_contents_new [of zero_message StreamRingCapacity]
  by (simp add: loop_inv_def loop_start_def new_session_def newRingBuffer_def
      StreamMinRetryDelay_def StreamMaxRetryDelay_def StreamRingCapacity_def take_last_def)

lemma loop_inv_unlive: "loop_inv live sc rs st \<Longrightarrow> loop_inv False sc rs st"
  unfolding loop_inv_def by blast

text \<open>A session that is cancelled is left at the next turn, and nothing stays behind.\<close>

lemma run_turns_done: "lt_done t \<Longrightarrow> snd (run_turns emitter sc (ts @ [t]) st)"
  by (induction ts arbitrary: st) (simp_all add: stream_turn_def Let_def split: prod.splits)

text \<open>
  C3. When the loop of a stream has ended, its ring holds exactly the last messages, in
  order, of the records that passed the filters among all polls that did not fail, whether
  or not the session was paused; the counters are the numbers of such records; if it was
  never paused, the events carried every one of these messages once and in order, in batches
  of 1 to 50. The records a poll returned together with an error are in neither.
\<close>

theorem stream_delivers_matches:
  assumes "run_turns True sc ts (loop_start (new_session sid conn topic c now)) = (st, True)"
    and "matches = map (message_of sc) (filter (record_passes sc) (polled_records ts))"
  shows "ring_contents (sn_ring (ls_session st)) = take_last (nat StreamRingCapacity) matches
    \<and> sn_scanned (ls_session st) = int (length (polled_records ts))
    \<and> sn_matched (ls_session st) = int (length matches)
    \<and> list_all batch_event_ok (ls_events st)
    \<and> ((\<forall>t \<in> set ts. lt_pause t \<noteq> Some True) \<longrightarrow> emitted_messages (ls_events st) = matches)"
proof -
  let ?s = "loop_start (new_session sid conn topic c now)"
  have b: "length (ls_batch ?s) < StreamBatchSize" by (simp add: loop_start_def StreamBatchSize_def)
  have inv: "loop_inv live sc (polled_records ts) st \<and> ls_batch st = []"
    if "\<forall>t \<in> set ts. turn_live live t" "loop_inv live sc [] ?s" for live
    using loop_inv_turns [OF that(2) _ b that(1) assms(1)] by simp
  have "loop_inv False sc (polled_records ts) st \<and> ls_batch st = []"
    by (rule inv) (simp_all add: turn_live_def loop_inv_unlive [OF loop_inv_start])
  moreover have "loop_inv True sc (polled_records ts) st" if "\<forall>t \<in> set ts. lt_pause t \<noteq> Some True"
    using inv [OF _ loop_inv_start] that by (simp add: turn_live_def)
  ultimately show ?thesis using assms(2) by (auto simp: loop_inv_def)
qed

definition sample_turn :: "kgo_record list \<Rightarrow> bool \<Rightarrow> loop_turn" where
  "sample_turn rs d =
     \<lparr>lt_pause = None, lt_done = d, lt_tick = False,
      lt_poll = \<lparr>po_records = rs, po_error = None, po_expired = False\<rparr>, lt_stop_wait = False, lt_now = 7\<rparr>"

lemma lt_done_sample: "lt_done (sample_turn rs d) = d"
  by (simp add: sample_turn_def)

text \<open>Two records in one poll, then the session is stopped.\<close>

theorem stream_delivers_matches_witness:
  "\<exists>st. run_turns True sample_scan [sample_turn [sample_record 0 5 ''x'', sample_record 1 9 ''y''] False, sample_turn [] True]
      (loop_start (new_session ''s'' ''c'' ''t'' 1 0)) = (st, True)
    \<and> sn_matched (ls_session st) = 2
    \<and> emitted_messages (ls_events st)
        = [message_of sample_scan (sample_record 0 5 ''x''), message_of sample_scan (sample_record 1 9 ''y'')]"
proof -
  let ?ts = "[sample_turn [sample_record 0 5 ''x'', sample_record 1 9 ''y''] False, sample_turn [] True]"
  obtain st where st: "run_turns True sample_scan ?ts (loop_start (new_session ''s'' ''c'' ''t'' 1 0)) = (st, True)"
    using run_turns_done [of "sample_turn [] True" True sample_scan "[sample_turn [sample_record 0 5 ''x'', sample_record 1 9 ''y''] False]"]
    by (metis append_Cons append_Nil lt_done_sample prod.collapse)
  have "polled_records ?ts = [sample_record 0 5 ''x'', sample_record 1 9 ''y'']"
    by (simp add: sample_turn_def)
  then show ?thesis
    using stream_delivers_matches [OF st refl] st
    by (auto simp: sample_turn_def sample_passes)
qed

section \<open>The limit on sessions\<close>

text \<open>
  Concurrent requests: \<open>StartStream\<close> checks the limit in one critical section and inserts
  the session in another. The second component holds the ids of the requests in between.
\<close>

inductive stream_step :: "stream_registry \<times> string list \<Rightarrow> stream_registry \<times> string list \<Rightarrow> bool" where
  Reserve: "reserve_session nanos r = Inr (sid, r') \<Longrightarrow> stream_step (r, ids) (r', sid # ids)"
| Insert: "stream_step (r, ids @ sid # jds) (insert_session (new_session sid conn topic client now) r, ids @ jds)"
| Abort: "stream_step (r, ids @ sid # jds) (r, ids @ jds)"
| StopOne: "stream_step (r, ids) (Stop sid r, ids)"

abbreviation stream_reachable :: "stream_registry \<times> string list \<Rightarrow> bool" where
  "stream_reachable \<equiv> stream_step\<^sup>*\<^sup>* (NewStreamRegistry, [])"

text \<open>One request at a time, the limit is kept.\<close>

lemma length_insert_session: "length (sr_sessions (insert_session s r)) \<le> Suc (length (sr_sessions r))"
  by (simp add: insert_session_def length_update_le)

lemma sequential_limit:
  assumes "reserve_session nanos r = Inr (sid, r')"
  shows "length (sr_sessions (insert_session s r')) \<le> StreamMaxSessions"
  using assms length_insert_session [of s r'] by (auto simp: reserve_session_def Let_def split: if_splits)

definition stream_id :: "nat \<Rightarrow> string" where
  "stream_id n = ''kafka-stream-'' @ format_int 0 @ ''-'' @ format_int (int n)"

lemma stream_id_inj: "m < 2 ^ 63 \<Longrightarrow> n < 2 ^ 63 \<Longrightarrow> stream_id m = stream_id n \<Longrightarrow> m = n"
proof -
  assume a: "m < 2 ^ 63" "n < 2 ^ 63" "stream_id m = stream_id n"
  then have "parse_int (format_int (int m)) = parse_int (format_int (int n))" by (simp add: stream_id_def)
  moreover have "in_i64 (int m)" "in_i64 (int n)" using a(1,2) by (simp_all add: in_i64_def)
  ultimately show "m = n" by simp
qed

lemma reserve_many:
  "n < 2 ^ 63 \<Longrightarrow> stream_reachable (\<lparr>sr_next = int n, sr_sessions = [], sr_closed = []\<rparr>, rev (map stream_id [1..<Suc n]))"
proof (induction n)
  case 0
  then show ?case by (simp add: NewStreamRegistry_def)
next
  case (Suc n)
  let ?r = "\<lambda>n. \<lparr>sr_next = int n, sr_sessions = [], sr_closed = []\<rparr>"
  have "i64 (int n + 1) = int (Suc n)" using Suc.prems by (subst i64_id) auto
  then have "reserve_session 0 (?r n) = Inr (stream_id (Suc n), ?r (Suc n))"
    by (simp add: reserve_session_def StreamMaxSessions_def stream_id_def Let_def)
  then have "stream_step (?r n, rev (map stream_id [1..<Suc n])) (?r (Suc n), rev (map stream_id [1..<Suc (Suc n)]))"
    using stream_step.Reserve [of 0 "?r n"] by simp
  then show ?case using Suc by (meson Suc_lessD rtranclp.rtrancl_into_rtrancl)
qed

lemma insert_many:
  assumes "stream_reachable (r, ids)" "distinct ids" "set ids \<inter> fst ` set (sr_sessions r) = {}"
  shows "\<exists>r'. stream_reachable (r', []) \<and> length (sr_sessions r') = length (sr_sessions r) + length ids"
  using assms
proof (induction ids arbitrary: r)
  case Nil
  then show ?case by auto
next
  case (Cons sid ids)
  let ?r = "insert_session (new_session sid [] [] 0 0) r"
  have new: "sid \<notin> fst ` set (sr_sessions r)" using Cons.prems(3) by simp
  have s: "sr_sessions ?r = sr_sessions r @ [(sid, new_session sid [] [] 0 0)]"
    using new by (simp add: insert_session_def new_session_def update_fresh)
  have "stream_reachable (?r, ids)"
    using Cons.prems(1) stream_step.Insert [of r "[]" sid ids "[]" "[]" 0 0, simplified] by (rule rtranclp.rtrancl_into_rtrancl)
  moreover have "set ids \<inter> fst ` set (sr_sessions ?r) = {}" using Cons.prems(2,3) by (auto simp: s)
  ultimately show ?case using Cons.IH [of ?r] Cons.prems(2) by (auto simp: s)
qed

text \<open>
  The limit of 20 sessions holds for requests one after the other only: concurrent
  requests all pass the check before any of them inserts its session, so every number of
  sessions can be reached.
\<close>

theorem stream_limit_raced:
  assumes "n < 2 ^ 63"
  shows "\<exists>r. stream_reachable (r, []) \<and> length (sr_sessions r) = n"
proof -
  let ?ids = "rev (map stream_id [1..<Suc n])"
  have "inj_on stream_id (set [1..<Suc n])" using assms by (intro inj_onI stream_id_inj) auto
  then have "distinct ?ids" by (simp add: distinct_map)
  from insert_many [OF reserve_many [OF assms] this] show ?thesis by (simp del: upt_Suc)
qed

theorem stream_limit_raced_witness:
  "\<exists>r. stream_reachable (r, []) \<and> StreamMaxSessions < length (sr_sessions r)"
  using stream_limit_raced [of 21] by (auto simp: StreamMaxSessions_def)

end
