(* ===== verification/Lifecycle.thy ===== *)
theory Lifecycle
  imports GoJson
begin

text \<open>
  \<open>backend/internal/lifecycle/lifecycle.go\<close>: the connection parameters the host sends, and
  the accessors that read them. A configuration value is a JSON value (\<open>encoding/json\<close> never
  yields \<open>json.Number\<close> or \<open>[]string\<close> there); a number is printed by \<open>jl_float\<close>.
\<close>

record runtime_proxy =
  rp_type :: string
  rp_kind :: string
  rp_host :: string
  rp_port :: int
  rp_username :: string
  rp_password :: string

record lc_connection =
  lc_id :: string
  lc_name :: string
  lc_host :: string
  lc_port :: int
  lc_username :: string
  lc_password :: string
  lc_read_only :: bool
  ExternalConfig :: "string \<rightharpoonup> json"
  Secrets :: "string \<rightharpoonup> json"

record lc_runtime =
  rt_host :: string
  rt_port :: int
  rt_proxy :: "runtime_proxy option"

record lc_params =
  lp_provider_id :: string
  lp_database_type :: string
  lp_connection :: lc_connection
  lp_runtime :: lc_runtime
  lp_operation_id :: string

definition ConnectionID :: "lc_params \<Rightarrow> string" where
  "ConnectionID p = trim_space (lc_id (lp_connection p))"

text \<open>The fresh identifier of \<open>uuid.NewString\<close> is an argument.\<close>

definition OperationIDOrUUID :: "string \<Rightarrow> lc_params \<Rightarrow> string" where
  "OperationIDOrUUID fresh p =
     (let i = trim_space (lp_operation_id p) in if i \<noteq> [] then i else fresh)"

text \<open>A missing key reads as nil.\<close>

fun anyToString :: "json_lib \<Rightarrow> json option \<Rightarrow> string" where
  "anyToString jl (Some (JStr s)) = trim_space s"
| "anyToString jl (Some (JNum q)) = jl_float jl q"
| "anyToString jl (Some (JBool b)) = (if b then ''true'' else ''false'')"
| "anyToString jl _ = []"

definition ConfigString :: "json_lib \<Rightarrow> lc_params \<Rightarrow> string \<Rightarrow> string" where
  "ConfigString jl p key = anyToString jl (ExternalConfig (lp_connection p) key)"

definition SecretString :: "json_lib \<Rightarrow> lc_params \<Rightarrow> string \<Rightarrow> string" where
  "SecretString jl p key = anyToString jl (Secrets (lp_connection p) key)"

text \<open>\<open>strconv.ParseBool\<close>\<close>

definition parse_bool :: "string \<Rightarrow> bool option" where
  "parse_bool s =
     (if s \<in> set [''1'', ''t'', ''T'', ''true'', ''TRUE'', ''True''] then Some True
      else if s \<in> set [''0'', ''f'', ''F'', ''false'', ''FALSE'', ''False''] then Some False
      else None)"

definition ConfigBool :: "lc_params \<Rightarrow> string \<Rightarrow> bool" where
  "ConfigBool p key =
     (case ExternalConfig (lp_connection p) key of
        Some (JBool b) \<Rightarrow> b
      | Some (JStr s) \<Rightarrow> (case parse_bool (trim_space s) of Some b \<Rightarrow> b | None \<Rightarrow> False)
      | _ \<Rightarrow> False)"

definition ConfigInt :: "lc_params \<Rightarrow> string \<Rightarrow> int" where
  "ConfigInt p key =
     (case ExternalConfig (lp_connection p) key of
        Some (JNum q) \<Rightarrow> float_to_int q
      | Some (JStr s) \<Rightarrow> (case parse_int (trim_space s) of Some n \<Rightarrow> n | None \<Rightarrow> 0)
      | _ \<Rightarrow> 0)"

definition newline :: char where
  "newline = CHR 0x0A"

text \<open>\<open>splitBootstrapLines\<close>; \<open>splitPropsList\<close> of \<open>props.go\<close> has the same body.\<close>

definition splitBootstrapLines :: "string \<Rightarrow> string list" where
  "splitBootstrapLines value =
     filter (\<lambda>t. t \<noteq> [])
       (concat (map (\<lambda>line. map trim_space (split_on (CHR '','') line)) (split_on newline value)))"

definition ConfigStringSlice :: "json_lib \<Rightarrow> lc_params \<Rightarrow> string \<Rightarrow> string list" where
  "ConfigStringSlice jl p key =
     (case ExternalConfig (lp_connection p) key of
        Some (JArr items) \<Rightarrow> filter (\<lambda>s. s \<noteq> []) (map (\<lambda>v. anyToString jl (Some v)) items)
      | Some (JStr s) \<Rightarrow> splitBootstrapLines s
      | _ \<Rightarrow> [])"

lemma splitBootstrapLines_items:
  assumes "t \<in> set (splitBootstrapLines value)"
  shows "t \<noteq> [] \<and> trim_space t = t \<and> CHR '','' \<notin> set t \<and> newline \<notin> set t"
proof -
  obtain line part where t: "t = trim_space part" "t \<noteq> []" "part \<in> set (split_on (CHR '','') line)"
    "line \<in> set (split_on newline value)"
    using assms by (auto simp: splitBootstrapLines_def)
  have sub: "set part \<subseteq> set line" if "part \<in> set (split_on d line)" for d and part line :: string
    using that
  proof (induction line arbitrary: part)
    case (Cons c line)
    obtain q qs where q: "split_on d line = q # qs" by (cases "split_on d line") auto
    then have "set q \<subseteq> set line" "\<forall>r \<in> set qs. set r \<subseteq> set line" using Cons.IH by auto
    with Cons.prems q show ?case by (auto split: if_splits)
  qed simp
  have "CHR '','' \<notin> set part" "newline \<notin> set part"
    using split_on_no_sep [OF t(3)] split_on_no_sep [OF t(4)] sub [OF t(3)] by auto
  then show ?thesis using t(1,2) set_trim_space [of part] by auto
qed

lemma splitBootstrapLines_join:
  assumes "\<forall>t \<in> set ts. t \<noteq> [] \<and> trim_space t = t \<and> CHR '','' \<notin> set t \<and> newline \<notin> set t"
  shows "splitBootstrapLines (join_with '','' ts) = ts"
proof (cases "ts = []")
  case True
  then show ?thesis by (simp add: splitBootstrapLines_def)
next
  case False
  have "newline \<notin> set (join_with '','' ts)"
    using set_join_with [of "'',''" ts] assms by (auto simp: newline_def)
  moreover have "map trim_space ts = ts" using assms by (simp add: map_idI)
  moreover have "filter (\<lambda>t. t \<noteq> []) ts = ts" using assms by (simp add: filter_id_conv)
  ultimately show ?thesis
    using split_on_join [OF False, of "CHR '',''"] assms
    by (simp add: splitBootstrapLines_def split_on_single)
qed

text \<open>
  The list of bootstrap servers read from the connection form is printed with commas
  in \<open>kafka/connections/statuses\<close> and in the test message; reading that text again gives the
  same list, and no server in it is empty, padded, or holds a separator.
\<close>

theorem bootstrap_list_roundtrip:
  "splitBootstrapLines (join_with '','' (splitBootstrapLines value)) = splitBootstrapLines value
   \<and> list_all (\<lambda>t. t \<noteq> [] \<and> trim_space t = t \<and> CHR '','' \<notin> set t \<and> newline \<notin> set t)
       (splitBootstrapLines value)"
  using splitBootstrapLines_join [of "splitBootstrapLines value"] splitBootstrapLines_items
  by (simp add: list_all_iff)

end
