(* ===== verification/KafkaProfile.thy ===== *)
theory KafkaProfile
  imports KafkaTypes Lifecycle
begin

text \<open>
  The connection profile of \<open>kafkaconn/types.go\<close> and \<open>client.go\<close>: the value sets of its
  fields, its normalisation, the checks a connection must pass, and the fingerprint and seed
  addresses a client is built from. The summary of a pasted properties text
  (\<open>PropertiesImport\<close>) is the list of mapped and of ignored keys.
\<close>

section \<open>Value sets\<close>

definition NormalizeSchemaRegistry :: "string \<Rightarrow> string" where
  "NormalizeSchemaRegistry value =
     (let v = word_of value in
        if v \<in> set [''confluent'', ''aws_glue'', ''none'', []] then v else ''none'')"

definition NormalizeConnectionSource :: "string \<Rightarrow> string" where
  "NormalizeConnectionSource value =
     (if word_of value = ''zookeeper'' then ''zookeeper'' else ''bootstrap'')"

definition NormalizeSecurityProtocol :: "string \<Rightarrow> string" where
  "NormalizeSecurityProtocol value =
     (let v = to_upper (trim_space value) in
        if v \<in> set [''SSL'', ''SASL_PLAINTEXT'', ''SASL_SSL''] then v else ''PLAINTEXT'')"

definition NormalizeSASLMechanism :: "string \<Rightarrow> string" where
  "NormalizeSASLMechanism value =
     (let v = trim_space value in
        if v \<in> set [''PLAIN'', ''SCRAM-SHA-256'', ''SCRAM-SHA-512'', ''GSSAPI'', ''OAUTHBEARER'']
        then v else [])"

definition NormalizeOauthTokenSource :: "string \<Rightarrow> string" where
  "NormalizeOauthTokenSource value =
     (let v = word_of value in
        if v = [] \<or> v = ''msk_iam'' then ''msk_iam''
        else if v = ''static_token'' then ''static_token'' else [])"

section \<open>The profile\<close>

record props_summary =
  ps_mapped :: int
  ps_mapped_keys :: "string list"
  ps_ignored :: int
  ps_ignored_keys :: "string list"

record profile =
  pf_id :: string
  pf_name :: string
  BootstrapServers :: "string list"
  SecurityProtocol :: string
  SASLMechanism :: string
  pf_username :: string
  TLSCACert :: string
  TLSClientCert :: string
  TLSInsecureSkipVerify :: bool
  ClientID :: string
  ReadOnly :: bool
  AllowDelete :: bool
  ConnectionSource :: string
  ZKServers :: "string list"
  KerberosServiceName :: string
  KerberosRealm :: string
  KerberosPrincipal :: string
  KerberosKeytabPath :: string
  KerberosKrb5ConfPath :: string
  SchemaRegistry :: string
  SRURL :: string
  SRUsername :: string
  GlueRegion :: string
  GlueRegistryName :: string
  GlueAuthMode :: string
  GlueAccessKeyID :: string
  OauthTokenSource :: string
  MSKRegion :: string
  MSKAccessKeyID :: string
  PropertiesImport :: "props_summary option"

record conn_secrets =
  SASLPassword :: string
  TLSClientKey :: string
  SRPassword :: string
  GlueSecretAccessKey :: string
  GlueSessionToken :: string
  MSKSecretAccessKey :: string
  MSKSessionToken :: string
  OauthStaticToken :: string

record conn_target =
  tgt_host :: string
  tgt_port :: int
  tgt_proxy :: "runtime_proxy option"

text \<open>\<open>Profile{}\<close> and \<open>connSecrets{}\<close>\<close>

definition zero_profile :: profile where
  "zero_profile =
     \<lparr>pf_id = [], pf_name = [], BootstrapServers = [], SecurityProtocol = [], SASLMechanism = [],
      pf_username = [], TLSCACert = [], TLSClientCert = [], TLSInsecureSkipVerify = False,
      ClientID = [], ReadOnly = False, AllowDelete = False, ConnectionSource = [], ZKServers = [],
      KerberosServiceName = [], KerberosRealm = [], KerberosPrincipal = [], KerberosKeytabPath = [],
      KerberosKrb5ConfPath = [], SchemaRegistry = [], SRURL = [], SRUsername = [], GlueRegion = [],
      GlueRegistryName = [], GlueAuthMode = [], GlueAccessKeyID = [], OauthTokenSource = [],
      MSKRegion = [], MSKAccessKeyID = [], PropertiesImport = None\<rparr>"

definition kerberosEnabled :: "profile \<Rightarrow> bool" where
  "kerberosEnabled p \<longleftrightarrow> SASLMechanism p = ''GSSAPI''"

definition srEnabled :: "profile \<Rightarrow> bool" where
  "srEnabled p =
     (if SchemaRegistry p = ''confluent'' then True
      else if SchemaRegistry p = ''none'' \<or> SchemaRegistry p = ''aws_glue'' then False
      else \<not> blank (SRURL p))"

definition glueEnabled :: "profile \<Rightarrow> bool" where
  "glueEnabled p =
     (if SchemaRegistry p = ''aws_glue'' then True
      else if SchemaRegistry p = ''none'' \<or> SchemaRegistry p = ''confluent'' then False
      else \<not> blank (GlueRegion p) \<and> \<not> blank (GlueRegistryName p))"

definition hasSASL :: "profile \<Rightarrow> bool" where
  "hasSASL p \<longleftrightarrow> SecurityProtocol p = ''SASL_PLAINTEXT'' \<or> SecurityProtocol p = ''SASL_SSL''"

definition hasTLS :: "profile \<Rightarrow> bool" where
  "hasTLS p \<longleftrightarrow> SecurityProtocol p = ''SSL'' \<or> SecurityProtocol p = ''SASL_SSL''"

section \<open>NormalizeProfile\<close>

text \<open>The regular expression \<open>(?i)^(?:plaintext|sasl_plaintext|ssl|sasl_ssl)://\<close>\<close>

definition scheme_words :: "string list" where
  "scheme_words = map (\<lambda>w. w @ ''://'') [''plaintext'', ''sasl_plaintext'', ''ssl'', ''sasl_ssl'']"

definition stripBootstrapScheme :: "string \<Rightarrow> string" where
  "stripBootstrapScheme server =
     (case List.map_filter (\<lambda>w. strip_fold w server) scheme_words of
        [] \<Rightarrow> server
      | rest # _ \<Rightarrow> trim_space rest)"

definition trimmed_items :: "string list \<Rightarrow> string list" where
  "trimmed_items xs = filter (\<lambda>s. s \<noteq> []) (map trim_space xs)"

definition NormalizeProfile :: "profile \<Rightarrow> profile" where
  "NormalizeProfile p = p\<lparr>
     pf_id := trim_space (pf_id p),
     pf_name := trim_space (pf_name p),
     ClientID := trim_space (ClientID p),
     pf_username := trim_space (pf_username p),
     TLSCACert := trim_space (TLSCACert p),
     TLSClientCert := trim_space (TLSClientCert p),
     SecurityProtocol := NormalizeSecurityProtocol (SecurityProtocol p),
     SASLMechanism := NormalizeSASLMechanism (SASLMechanism p),
     ConnectionSource := NormalizeConnectionSource (ConnectionSource p),
     SchemaRegistry := NormalizeSchemaRegistry (SchemaRegistry p),
     KerberosServiceName := trim_space (KerberosServiceName p),
     KerberosRealm := trim_space (KerberosRealm p),
     KerberosPrincipal := trim_space (KerberosPrincipal p),
     KerberosKeytabPath := trim_space (KerberosKeytabPath p),
     KerberosKrb5ConfPath := trim_space (KerberosKrb5ConfPath p),
     SRURL := trim_space (SRURL p),
     SRUsername := trim_space (SRUsername p),
     GlueRegion := trim_space (GlueRegion p),
     GlueRegistryName := trim_space (GlueRegistryName p),
     GlueAuthMode := trim_space (GlueAuthMode p),
     GlueAccessKeyID := trim_space (GlueAccessKeyID p),
     OauthTokenSource := NormalizeOauthTokenSource (OauthTokenSource p),
     MSKRegion := trim_space (MSKRegion p),
     MSKAccessKeyID := trim_space (MSKAccessKeyID p),
     BootstrapServers := map stripBootstrapScheme (trimmed_items (BootstrapServers p)),
     ZKServers := trimmed_items (ZKServers p)\<rparr>"

section \<open>Validation\<close>

definition Validate :: "profile \<Rightarrow> unit res" where
  "Validate p =
     (if pf_id p = [] then Inl (Errf ''connection.id is required'' [])
      else if ConnectionSource p = ''zookeeper'' \<and> ZKServers p = []
      then Inl (Errf ''zkServers is required for zookeeper connection source'' [])
      else if ConnectionSource p \<noteq> ''zookeeper'' \<and> BootstrapServers p = []
      then Inl (Errf ''bootstrapServers is required'' [])
      else reject_if (hasSASL p \<and> SASLMechanism p = [])
             (Errf ''saslMechanism is required for %s'' [SecurityProtocol p]))"

definition invalid_if :: "bool \<Rightarrow> string \<Rightarrow> string list \<Rightarrow> unit res" where
  "invalid_if c f args = reject_if c (InvalidParams f args)"

definition check_registry :: "profile \<Rightarrow> conn_secrets \<Rightarrow> unit res" where
  "check_registry p s =
     (if SchemaRegistry p = ''confluent'' then
        ebind (invalid_if (blank (SRURL p)) ''srUrl is required when schemaRegistry is \"confluent\"'' []) (\<lambda>_.
        let scheme = to_lower (SRURL p) in
        invalid_if (\<not> prefix ''http://'' scheme \<and> \<not> prefix ''https://'' scheme)
          ''srUrl must start with http:// or https:// (got %q)'' [SRURL p])
      else if SchemaRegistry p = ''aws_glue'' then
        ebind (invalid_if (blank (GlueRegion p)) ''glueRegion is required when schemaRegistry is \"aws_glue\"'' []) (\<lambda>_.
        ebind (invalid_if (blank (GlueRegistryName p)) ''glueRegistryName is required when schemaRegistry is \"aws_glue\"'' []) (\<lambda>_.
        if equal_fold (trim_space (GlueAuthMode p)) ''static'' then
          ebind (invalid_if (blank (GlueAccessKeyID p)) ''glueAccessKeyId is required when glueAuthMode is \"static\"'' []) (\<lambda>_.
          invalid_if (blank (GlueSecretAccessKey s)) ''glueSecretAccessKey is required when glueAuthMode is \"static\"'' [])
        else Inr ()))
      else Inr ())"

definition check_oauth :: "profile \<Rightarrow> conn_secrets \<Rightarrow> unit res" where
  "check_oauth p s =
     (if hasSASL p \<and> SASLMechanism p = ''OAUTHBEARER'' then
        ebind (invalid_if (SecurityProtocol p \<noteq> ''SASL_SSL'')
                 ''OAUTHBEARER requires security_protocol SASL_SSL (got %s)'' [SecurityProtocol p]) (\<lambda>_.
        if OauthTokenSource p = ''msk_iam'' then
          ebind (invalid_if (blank (MSKRegion p)) ''mskRegion is required when oauthTokenSource is \"msk_iam\"'' []) (\<lambda>_.
          ebind (invalid_if (blank (MSKAccessKeyID p) \<noteq> blank (MSKSecretAccessKey s))
                   ''mskAccessKeyID and mskSecretAccessKey must be provided together to override the default AWS credential chain'' []) (\<lambda>_.
          invalid_if (\<not> blank (MSKSessionToken s) \<and> blank (MSKAccessKeyID p))
            ''mskSessionToken requires mskAccessKeyID and mskSecretAccessKey (STS session credentials are never used alone)'' []))
        else if OauthTokenSource p = ''static_token'' then
          invalid_if (blank (OauthStaticToken s)) ''oauthStaticToken is required when oauthTokenSource is \"static_token\"'' []
        else Inl (InvalidParams ''oauthTokenSource must be msk_iam or static_token'' []))
      else Inr ())"

definition check_sasl :: "profile \<Rightarrow> conn_secrets \<Rightarrow> unit res" where
  "check_sasl p s =
     (if \<not> hasSASL p then Inr ()
      else if SASLMechanism p = ''GSSAPI'' then
        ebind (invalid_if (blank (KerberosPrincipal p)) ''kerberosPrincipal is required for GSSAPI'' []) (\<lambda>_.
        invalid_if (blank (KerberosKeytabPath p)) ''kerberosKeytabPath is required for GSSAPI'' [])
      else if SASLMechanism p = ''OAUTHBEARER'' then Inr ()
      else
        ebind (invalid_if (pf_username p = []) ''sasl username is required for %s'' [SecurityProtocol p]) (\<lambda>_.
        invalid_if (blank (SASLPassword s)) ''sasl password is required for %s'' [SecurityProtocol p]))"

definition validateRequiredCombination :: "profile \<Rightarrow> conn_secrets \<Rightarrow> unit res" where
  "validateRequiredCombination p s =
     ebind (check_registry p s) (\<lambda>_.
     ebind (invalid_if (blank (TLSClientCert p) \<noteq> blank (TLSClientKey s))
              ''tls_client_cert and tls_client_key must be provided together for mutual TLS'' []) (\<lambda>_.
     ebind (check_oauth p s) (\<lambda>_. check_sasl p s)))"

end
