(* ===== verification/KafkaProps.thy ===== *)
theory KafkaProps
  imports KafkaProfile
begin

text \<open>
  \<open>kafkaconn/props.go\<close>: the Kafka client properties text a user pastes into the connection
  form. The reader (logical lines, key and value, escapes) is modelled on bytes, as the code
  scans them; the recognised keys are merged into the profile and its secrets. A Go map of
  the parsed text is an association list with distinct keys. The specification of the reader
  is the printer \<open>store_line\<close>, which escapes as Java's \<open>Properties.store\<close> may.
\<close>

section \<open>Escapes\<close>

abbreviation "backslash \<equiv> CHR 0x5C"

definition prop_space :: "char \<Rightarrow> bool" where
  "prop_space c \<longleftrightarrow> c = CHR 0x20 \<or> c = CHR 0x09 \<or> c = CHR 0x0C"

definition trim_end :: "(char \<Rightarrow> bool) \<Rightarrow> string \<Rightarrow> string" where
  "trim_end p s = rev (dropWhile p (rev s))"

definition hex_val :: "char \<Rightarrow> nat option" where
  "hex_val c =
     (let n = of_char c :: nat in
        if 48 \<le> n \<and> n \<le> 57 then Some (n - 48)
        else if 97 \<le> n \<and> n \<le> 102 then Some (n - 87)
        else if 65 \<le> n \<and> n \<le> 70 then Some (n - 55) else None)"

definition isHex4 :: "string \<Rightarrow> bool" where
  "isHex4 s = list_all (\<lambda>c. hex_val c \<noteq> None) s"

definition hex4 :: "string \<Rightarrow> nat" where
  "hex4 s = foldl (\<lambda>n c. n * 16 + (case hex_val c of Some d \<Rightarrow> d | None \<Rightarrow> 0)) 0 s"

text \<open>\<open>string(rune(n))\<close> below \<open>0x10000\<close>; a surrogate becomes U+FFFD.\<close>

definition rune_string :: "nat \<Rightarrow> string" where
  "rune_string n =
     (if n < 0x80 then [char_of n]
      else if n < 0x800 then [char_of (0xC0 + n div 64), char_of (0x80 + n mod 64)]
      else if 0xD800 \<le> n \<and> n \<le> 0xDFFF then rune_error
      else [char_of (0xE0 + n div 4096), char_of (0x80 + n div 64 mod 64), char_of (0x80 + n mod 64)])"

text \<open>
  \<open>decodeEscape\<close> on a text that starts with a backslash: the decoded text and the number of
  bytes consumed. In the last case the code converts one byte with \<open>string(line[1])\<close>, which
  prints the byte as a rune.
\<close>

definition decodeEscape :: "string \<Rightarrow> string \<times> nat" where
  "decodeEscape line =
     (if length line < 2 then ([backslash], 1)
      else if line ! 1 = CHR ''t'' then ([CHR 0x09], 2)
      else if line ! 1 = CHR ''n'' then ([CHR 0x0A], 2)
      else if line ! 1 = CHR ''r'' then ([CHR 0x0D], 2)
      else if line ! 1 = CHR ''f'' then ([CHR 0x0C], 2)
      else if line ! 1 = CHR ''u'' then
        (if 6 \<le> length line \<and> isHex4 (take 4 (drop 2 line))
         then (rune_string (hex4 (take 4 (drop 2 line))), 6)
         else (take 2 line, 2))
      else (rune_string (of_char (line ! 1)), 2))"

lemma rune_string_escaped:
  "rune_string 32 = [CHR 0x20]" "rune_string 92 = [backslash]" "rune_string 61 = ''=''"
  "rune_string 58 = '':''" "rune_string 35 = ''#''" "rune_string 33 = ''!''"
  by code_simp+

lemma decodeEscape_size: "0 < snd (decodeEscape line)"
  by (simp add: decodeEscape_def)

text \<open>The loop of \<open>decodeEscapedString\<close>; without a backslash it copies its argument.\<close>

function unescape :: "string \<Rightarrow> string" where
  "unescape s =
     (if s = [] then []
      else if hd s = backslash \<and> 2 \<le> length s
      then fst (decodeEscape s) @ unescape (drop (snd (decodeEscape s)) s)
      else hd s # unescape (tl s))"
  by pat_completeness auto
termination
  by (relation "measure length") (auto simp: decodeEscape_size)

declare unescape.simps [simp del]

definition decodeEscapedString :: "string \<Rightarrow> string" where
  "decodeEscapedString value = (if backslash \<notin> set value then value else unescape value)"

section \<open>Lines\<close>

text \<open>The loop of \<open>splitLogicalLines\<close> with the continued text \<open>pending\<close>.\<close>

fun logical_lines :: "string \<Rightarrow> string list \<Rightarrow> string list" where
  "logical_lines pending [] = (if pending \<noteq> [] then [pending] else [])"
| "logical_lines pending (raw # raws) =
     (let raw = trim_end (\<lambda>c. c = CHR 0x0D) raw;
          raw = (if pending \<noteq> [] then dropWhile prop_space raw else raw);
          line = pending @ raw;
          trailing = length (takeWhile (\<lambda>c. c = backslash) (rev line))
      in if odd trailing then logical_lines (butlast line) raws
         else line # logical_lines [] raws)"

definition splitLogicalLines :: "string \<Rightarrow> string list" where
  "splitLogicalLines text = logical_lines [] (split_on newline text)"

definition key_stop :: "char \<Rightarrow> bool" where
  "key_stop c \<longleftrightarrow> c = CHR ''='' \<or> c = CHR '':'' \<or> prop_space c"

text \<open>The first loop of \<open>splitPropertyLine\<close>: the decoded key and what follows it.\<close>

function scan_key :: "string \<Rightarrow> string \<times> string" where
  "scan_key s =
     (if s = [] then ([], [])
      else if hd s = backslash \<and> 2 \<le> length s
      then (let (k, rest) = scan_key (drop (snd (decodeEscape s)) s) in (fst (decodeEscape s) @ k, rest))
      else if key_stop (hd s) then ([], s)
      else (let (k, rest) = scan_key (tl s) in (hd s # k, rest)))"
  by pat_completeness auto
termination
  by (relation "measure length") (auto simp: decodeEscape_size)

declare scan_key.simps [simp del]

definition splitPropertyLine :: "string \<Rightarrow> string \<times> string" where
  "splitPropertyLine line =
     (let (key, rest) = scan_key line;
          rest = dropWhile prop_space rest;
          rest = (if rest \<noteq> [] \<and> (hd rest = CHR ''='' \<or> hd rest = CHR '':'')
                  then dropWhile prop_space (tl rest) else rest)
      in (key, decodeEscapedString (trim_end prop_space rest)))"

definition parse_line :: "(string \<times> string) list \<Rightarrow> string \<Rightarrow> (string \<times> string) list" where
  "parse_line result line =
     (let trimmed = dropWhile prop_space line in
        if trimmed = [] \<or> hd trimmed = CHR ''#'' \<or> hd trimmed = CHR ''!'' then result
        else (let (key, v) = splitPropertyLine trimmed in
                if key = [] then result else AList.update key v result))"

definition parseJavaProperties :: "string \<Rightarrow> (string \<times> string) list" where
  "parseJavaProperties text = foldl parse_line [] (splitLogicalLines text)"

section \<open>Merging into the profile\<close>

definition splitUserInfo :: "string \<Rightarrow> (string \<times> string) option" where
  "splitUserInfo value =
     (case index_byte (CHR '':'') value of
        None \<Rightarrow> None
      | Some i \<Rightarrow>
          if i = 0 \<or> blank (take i value) then None
          else Some (trim_space (take i value), drop (i + 1) value))"

text \<open>
  The regular expression of \<open>jaasFieldPattern\<close>, for a lower-case ASCII name: at the start of
  the text or after a space or semicolon, the name in any case, an equals sign between
  optional spaces, and a quoted value. The leftmost match wins.
\<close>

definition regexp_space :: "char \<Rightarrow> bool" where
  "regexp_space c \<longleftrightarrow> c \<in> set [CHR 0x09, CHR 0x0A, CHR 0x0C, CHR 0x0D, CHR 0x20]"

definition quoted_value :: "string \<Rightarrow> string option" where
  "quoted_value s =
     (if s \<noteq> [] \<and> (hd s = CHR 0x22 \<or> hd s = CHR 0x27) \<and> hd s \<in> set (tl s)
      then Some (takeWhile (\<lambda>c. c \<noteq> hd s) (tl s)) else None)"

definition jaas_value_at :: "string \<Rightarrow> string \<Rightarrow> string option" where
  "jaas_value_at name s =
     (case strip_fold name s of
        None \<Rightarrow> None
      | Some rest \<Rightarrow>
          (let rest = dropWhile regexp_space rest in
             if rest \<noteq> [] \<and> hd rest = CHR ''='' then quoted_value (dropWhile regexp_space (tl rest))
             else None))"

fun jaas_search :: "string \<Rightarrow> string \<Rightarrow> string option" where
  "jaas_search name [] = None"
| "jaas_search name (c # s) =
     (case (if regexp_space c \<or> c = CHR '';'' then jaas_value_at name s else None) of
        Some v \<Rightarrow> Some v
      | None \<Rightarrow> jaas_search name s)"

definition jaasField :: "string \<Rightarrow> string \<Rightarrow> string" where
  "jaasField jaas name =
     (case jaas_value_at name jaas of
        Some v \<Rightarrow> v
      | None \<Rightarrow> (case jaas_search name jaas of Some v \<Rightarrow> v | None \<Rightarrow> []))"

text \<open>The profile and the secrets are changed in place; the flag says whether the key is mapped.\<close>

definition mapJAASConfig :: "profile \<Rightarrow> conn_secrets \<Rightarrow> string \<Rightarrow> (profile \<times> conn_secrets) \<times> bool" where
  "mapJAASConfig profile secrets jaas =
     (if SASLMechanism profile = ''GSSAPI'' then
        (let principal = jaasField jaas ''principal''; keytab = jaasField jaas ''keytab'' in
           if principal = [] \<and> keytab = [] then ((profile, secrets), False)
           else (((let profile = (if principal \<noteq> [] then profile\<lparr>KerberosPrincipal := principal\<rparr> else profile)
                   in if keytab \<noteq> [] then profile\<lparr>KerberosKeytabPath := keytab\<rparr> else profile), secrets), True))
      else if SASLMechanism profile = ''OAUTHBEARER'' then ((profile, secrets), False)
      else
        (let username = jaasField jaas ''username''; password = jaasField jaas ''password'' in
           if username = [] \<and> password = [] then ((profile, secrets), False)
           else ((if username \<noteq> [] then profile\<lparr>pf_username := username\<rparr> else profile,
                  if password \<noteq> [] then secrets\<lparr>SASLPassword := password\<rparr> else secrets), True)))"

definition prop_value :: "(string \<times> string) list \<Rightarrow> string \<Rightarrow> string" where
  "prop_value props key = (case map_of props key of Some v \<Rightarrow> v | None \<Rightarrow> [])"

definition mapProperty ::
  "(string \<times> string) list \<Rightarrow> profile \<Rightarrow> conn_secrets \<Rightarrow> string \<Rightarrow> string \<Rightarrow> (profile \<times> conn_secrets) \<times> bool" where
  "mapProperty props profile secrets key value =
     (let k = word_of key; v = trim_space value; same = (profile, secrets) in
        if k = ''bootstrap.servers'' then
          ((profile\<lparr>BootstrapServers := splitBootstrapLines value\<rparr>, secrets), True)
        else if k = ''security.protocol'' then
          (let protocol = NormalizeSecurityProtocol value in
             if protocol = ''PLAINTEXT'' \<and> \<not> equal_fold v ''plaintext'' then (same, False)
             else ((profile\<lparr>SecurityProtocol := protocol\<rparr>, secrets), True))
        else if k = ''sasl.mechanism'' then
          (let mechanism = NormalizeSASLMechanism value in
             if mechanism = [] then (same, False)
             else ((profile\<lparr>SASLMechanism := mechanism\<rparr>, secrets), True))
        else if k = ''sasl.kerberos.service.name'' then
          ((profile\<lparr>KerberosServiceName := v\<rparr>, secrets), True)
        else if k = ''ssl.endpoint.identification.algorithm'' then
          ((profile\<lparr>TLSInsecureSkipVerify := equal_fold v ''none''\<rparr>, secrets), True)
        else if k = ''ssl.truststore.certificates'' then ((profile\<lparr>TLSCACert := v\<rparr>, secrets), True)
        else if k = ''ssl.keystore.certificate.chain'' then ((profile\<lparr>TLSClientCert := v\<rparr>, secrets), True)
        else if k = ''ssl.keystore.key'' then ((profile, secrets\<lparr>TLSClientKey := v\<rparr>), True)
        else if k = ''schema.registry.url'' then
          ((profile\<lparr>SRURL := v, SchemaRegistry := ''confluent''\<rparr>, secrets), True)
        else if k = ''basic.auth.credentials.source'' then (same, equal_fold v ''user_info'')
        else if k = ''basic.auth.user.info'' \<or> k = ''schema.registry.basic.auth.user.info'' then
          (let source = trim_space (prop_value props ''basic.auth.credentials.source'') in
             if source \<noteq> [] \<and> \<not> equal_fold source ''user_info'' then (same, False)
             else (case splitUserInfo value of
                     None \<Rightarrow> (same, False)
                   | Some (username, password) \<Rightarrow>
                       ((profile\<lparr>SRUsername := username\<rparr>, secrets\<lparr>SRPassword := password\<rparr>), True)))
        else if k = ''client.id'' then ((profile\<lparr>ClientID := v\<rparr>, secrets), True)
        else (same, False))"

definition note_key :: "string \<Rightarrow> bool \<Rightarrow> props_summary \<Rightarrow> props_summary" where
  "note_key key mapped s =
     (if mapped then s\<lparr>ps_mapped := ps_mapped s + 1, ps_mapped_keys := ps_mapped_keys s @ [key]\<rparr>
      else s\<lparr>ps_ignored := ps_ignored s + 1, ps_ignored_keys := ps_ignored_keys s @ [key]\<rparr>)"

text \<open>One round of the loop over the sorted keys.\<close>

definition import_key ::
  "(string \<times> string) list \<Rightarrow> (profile \<times> conn_secrets) \<times> props_summary \<Rightarrow> string
     \<Rightarrow> (profile \<times> conn_secrets) \<times> props_summary" where
  "import_key props st key =
     (let ((profile, secrets), summary) = st; value = prop_value props key in
        if blank value \<or> key = ''sasl.jaas.config'' then st
        else (let (ps, mapped) = mapProperty props profile secrets key value
              in (ps, note_key key mapped summary)))"

definition applyPropertiesImport ::
  "profile \<Rightarrow> conn_secrets \<Rightarrow> string \<Rightarrow> (profile \<times> conn_secrets) \<times> props_summary" where
  "applyPropertiesImport profile secrets text =
     (let props = parseJavaProperties text;
          start = ((profile, secrets), \<lparr>ps_mapped = 0, ps_mapped_keys = [], ps_ignored = 0, ps_ignored_keys = []\<rparr>);
          ((profile, secrets), summary) = foldl (import_key props) start (sort (map fst props));
          jaas = trim_space (prop_value props ''sasl.jaas.config'');
          (ps, summary) =
            (if jaas \<noteq> []
             then (let (ps, mapped) = mapJAASConfig profile secrets jaas
                   in (ps, note_key ''sasl.jaas.config'' mapped summary))
             else ((profile, secrets), summary))
      in (ps, summary\<lparr>ps_mapped_keys := sort (ps_mapped_keys summary),
                       ps_ignored_keys := sort (ps_ignored_keys summary)\<rparr>))"

section \<open>The reader inverts a printer\<close>

definition store_char :: "char \<Rightarrow> string" where
  "store_char c =
     (if c = CHR 0x09 then [backslash, CHR ''t''] else if c = CHR 0x0A then [backslash, CHR ''n'']
      else if c = CHR 0x0D then [backslash, CHR ''r''] else if c = CHR 0x0C then [backslash, CHR ''f'']
      else if c = CHR 0x20 then [backslash, CHR ''u'', CHR ''0'', CHR ''0'', CHR ''2'', CHR ''0'']
      else if c \<in> set [backslash, CHR ''='', CHR '':'', CHR ''#'', CHR ''!''] then [backslash, c]
      else [c])"

definition store :: "string \<Rightarrow> string" where
  "store s = concat (map store_char s)"

definition store_line :: "string \<times> string \<Rightarrow> string" where
  "store_line e = store (fst e) @ CHR ''='' # store (snd e)"

lemma store_simps [simp]:
  "store [] = []" "store (c # s) = store_char c @ store s" "store (s @ t) = store s @ store t"
  by (simp_all add: store_def)

definition plain :: "char \<Rightarrow> bool" where
  "plain c \<longleftrightarrow> c \<notin> set [CHR 0x09, CHR 0x0A, CHR 0x0D, CHR 0x0C, CHR 0x20, backslash,
     CHR ''='', CHR '':'', CHR ''#'', CHR ''!'']"

lemma plain_store: "plain c \<Longrightarrow> store_char c = [c]"
  by (simp add: plain_def store_char_def)

text \<open>An escaped character: what \<open>decodeEscape\<close> makes of it, whatever follows.\<close>

lemma escaped_store:
  assumes "\<not> plain c"
  shows "2 \<le> length (store_char c)" "hd (store_char c) = backslash"
    "decodeEscape (store_char c @ t) = ([c], length (store_char c))"
proof -
  have "c \<in> set [CHR 0x09, CHR 0x0A, CHR 0x0D, CHR 0x0C, CHR 0x20, backslash, CHR ''='', CHR '':'', CHR ''#'', CHR ''!'']"
    using assms by (simp add: plain_def)
  then have "2 \<le> length (store_char c) \<and> hd (store_char c) = backslash
      \<and> decodeEscape (store_char c @ t) = ([c], length (store_char c))"
    by (auto simp: store_char_def decodeEscape_def isHex4_def hex4_def hex_val_def rune_string_escaped)
  then show "2 \<le> length (store_char c)" "hd (store_char c) = backslash"
    "decodeEscape (store_char c @ t) = ([c], length (store_char c))" by auto
qed

lemma store_char_not_Nil [simp]: "store_char c \<noteq> []"
  by (simp add: store_char_def)

lemma scan_key_store_char:
  "scan_key (store_char c @ t) = (let (k, rest) = scan_key t in (c # k, rest))"
proof (cases "plain c")
  case True
  then have "c \<noteq> backslash" "\<not> key_stop c" by (simp_all add: plain_def key_stop_def prop_space_def)
  then show ?thesis by (subst scan_key.simps) (simp add: plain_store [OF True])
next
  case False
  note e = escaped_store [OF False]
  have "hd (store_char c @ t) = backslash" "2 \<le> length (store_char c @ t)" using e(1,2) by simp_all
  then show ?thesis by (subst scan_key.simps) (simp add: e(3))
qed

lemma scan_key_store: "scan_key (store k @ CHR ''='' # r) = (k, CHR ''='' # r)"
proof (induction k)
  case Nil
  show ?case by (subst scan_key.simps) (simp add: key_stop_def)
next
  case (Cons c k)
  then show ?case by (simp add: scan_key_store_char)
qed

lemma unescape_store: "unescape (store v) = v"
proof (induction v)
  case Nil
  show ?case by (subst unescape.simps) simp
next
  case (Cons c v)
  show ?case
  proof (cases "plain c")
    case True
    then have "c \<noteq> backslash" by (simp add: plain_def)
    then show ?thesis using Cons.IH by (subst unescape.simps) (simp add: plain_store [OF True])
  next
    case False
    note e = escaped_store [OF False]
    have "hd (store_char c @ store v) = backslash" "2 \<le> length (store_char c @ store v)"
      using e(1,2) by simp_all
    then show ?thesis using Cons.IH by (subst unescape.simps) (simp add: e(3))
  qed
qed

lemma unescape_id: "backslash \<notin> set s \<Longrightarrow> unescape s = s"
  by (induction s) (subst unescape.simps, auto)+

lemma decodeEscapedString_store: "decodeEscapedString (store v) = v"
  using unescape_store [of v] unescape_id [of "store v"] by (auto simp: decodeEscapedString_def)

lemma store_char_no_space:
  "d \<in> set (store_char c) \<Longrightarrow> \<not> prop_space d \<and> d \<noteq> CHR 0x0A \<and> d \<noteq> CHR 0x0D"
  by (auto simp: store_char_def prop_space_def split: if_splits)

lemma store_no_space: "d \<in> set (store s) \<Longrightarrow> \<not> prop_space d \<and> d \<noteq> CHR 0x0A \<and> d \<noteq> CHR 0x0D"
  using store_char_no_space by (auto simp: store_def)

lemma trim_end_id: "\<forall>c \<in> set s. \<not> p c \<Longrightarrow> trim_end p s = s"
proof -
  assume "\<forall>c \<in> set s. \<not> p c"
  then have "dropWhile p (rev s) = rev s" by (cases s rule: rev_cases) auto
  then show ?thesis by (simp add: trim_end_def)
qed

lemma dropWhile_id: "\<forall>c \<in> set s. \<not> p c \<Longrightarrow> dropWhile p s = s"
  by (cases s) auto

lemma splitPropertyLine_store: "splitPropertyLine (store_line (k, v)) = (k, v)"
proof -
  have v: "\<forall>c \<in> set (store v). \<not> prop_space c" using store_no_space by blast
  have "\<not> prop_space (CHR ''='')" by (simp add: prop_space_def)
  then show ?thesis
    by (simp add: splitPropertyLine_def store_line_def scan_key_store dropWhile_id [OF v] trim_end_id [OF v]
        decodeEscapedString_store)
qed

abbreviation trailing_backslashes :: "string \<Rightarrow> nat" where
  "trailing_backslashes line \<equiv> length (takeWhile (\<lambda>c. c = backslash) (rev line))"

lemma store_char_last: "c \<noteq> backslash \<Longrightarrow> last (store_char c) \<noteq> backslash"
  by (auto simp: store_char_def)

lemma even_trailing: "even (trailing_backslashes (pre @ CHR ''='' # store v))"
proof (induction v rule: rev_induct)
  case (snoc c v)
  show ?case
  proof (cases "c = backslash")
    case True
    then have "rev (store_char c) = [backslash, backslash]" by (simp add: store_char_def)
    then show ?thesis using snoc.IH by simp
  next
    case False
    then have "hd (rev (store_char c)) \<noteq> backslash" by (simp add: hd_rev store_char_last)
    then show ?thesis by (cases "rev (store_char c)") auto
  qed
qed simp

lemma store_line_no_space:
  "d \<in> set (store_line e) \<Longrightarrow> \<not> prop_space d \<and> d \<noteq> CHR 0x0A \<and> d \<noteq> CHR 0x0D"
  using store_no_space by (auto simp: store_line_def prop_space_def)

lemma logical_lines_store: "logical_lines [] (map store_line kvs) = map store_line kvs"
proof (induction kvs)
  case (Cons e kvs)
  have "trim_end (\<lambda>c. c = CHR 0x0D) (store_line e) = store_line e"
    by (rule trim_end_id) (use store_line_no_space in blast)
  moreover have "even (trailing_backslashes (store_line e))"
    unfolding store_line_def by (rule even_trailing)
  ultimately show ?case using Cons.IH by simp
qed simp

lemma parse_line_store:
  assumes "k \<noteq> []"
  shows "parse_line m (store_line (k, v)) = AList.update k v m"
proof -
  have d: "dropWhile prop_space (store_line (k, v)) = store_line (k, v)"
    by (rule dropWhile_id) (use store_line_no_space in blast)
  obtain c k' where k: "k = c # k'" using assms by (cases k) auto
  have "hd (store_char c) \<noteq> CHR ''#'' \<and> hd (store_char c) \<noteq> CHR ''!''" by (simp add: store_char_def)
  then have "store_line (k, v) \<noteq> []" "hd (store_line (k, v)) \<noteq> CHR ''#''" "hd (store_line (k, v)) \<noteq> CHR ''!''"
    by (simp_all add: store_line_def k hd_append)
  then show ?thesis using assms by (simp add: parse_line_def d splitPropertyLine_store)
qed

lemma update_new: "k \<notin> fst ` set m \<Longrightarrow> AList.update k v m = m @ [(k, v)]"
  by (induction m) auto

lemma parse_lines_store:
  assumes "distinct (map fst (m @ kvs))" "[] \<notin> fst ` set kvs"
  shows "foldl parse_line m (map store_line kvs) = m @ kvs"
  using assms
proof (induction kvs arbitrary: m)
  case (Cons e kvs)
  obtain k v where e: "e = (k, v)" by (cases e)
  have "parse_line m (store_line e) = m @ [e]"
    using Cons.prems by (auto simp: e parse_line_store update_new)
  then show ?case using Cons.IH [of "m @ [e]"] Cons.prems by simp
qed simp

text \<open>
  C39. Any table of non-empty, pairwise distinct keys and arbitrary values (of any bytes,
  spaces, separators, comment signs, line ends and backslashes included), printed one escaped
  \<open>key=value\<close> per line, is read back exactly by \<open>parseJavaProperties\<close>.
\<close>

theorem properties_roundtrip:
  assumes "distinct (map fst kvs)" "[] \<notin> fst ` set kvs"
  shows "parseJavaProperties (join_with [newline] (map store_line kvs)) = kvs"
proof (cases "kvs = []")
  case True
  then show ?thesis
    by (simp add: parseJavaProperties_def splitLogicalLines_def parse_line_def trim_end_def Let_def)
next
  case False
  have "split_on newline (join_with [newline] (map store_line kvs)) = map store_line kvs"
    using False store_line_no_space by (intro split_on_join) (auto simp: newline_def)
  then show ?thesis
    using parse_lines_store [of "[]" kvs] assms
    by (simp add: parseJavaProperties_def splitLogicalLines_def logical_lines_store)
qed

theorem properties_roundtrip_witness:
  "parseJavaProperties (join_with [newline] (map store_line
     [(''client.id'', ''a b=c''), (''sasl.jaas.config'', ''x;''), (''k y'', [backslash, CHR 0x0A])]))
   = [(''client.id'', ''a b=c''), (''sasl.jaas.config'', ''x;''), (''k y'', [backslash, CHR 0x0A])]"
  by (rule properties_roundtrip) simp_all

text \<open>
  An escaped character outside ASCII is damaged: for a backslash before a character
  encoded by several bytes, \<open>decodeEscape\<close> prints the first byte as a rune of its own, so a
  well-formed text becomes an ill-formed one.
\<close>

theorem escaped_multibyte_damaged:
  "utf8_valid [backslash, CHR 0xC3, CHR 0xA9]
   \<and> decodeEscapedString [backslash, CHR 0xC3, CHR 0xA9] = [CHR 0xC3, CHR 0x83, CHR 0xA9]
   \<and> \<not> utf8_valid (decodeEscapedString [backslash, CHR 0xC3, CHR 0xA9])"
  by (intro conjI) code_simp+

section \<open>What an import may change and report\<close>

lemma distinct_parse_lines: "distinct (map fst m) \<Longrightarrow> distinct (map fst (foldl parse_line m ls))"
proof (induction ls arbitrary: m)
  case (Cons l ls)
  have "distinct (map fst (parse_line m l))"
    using Cons.prems by (simp add: parse_line_def Let_def case_prod_beta distinct_update)
  then show ?case using Cons.IH by simp
qed simp

lemma distinct_parsed: "distinct (map fst (parseJavaProperties text))"
  unfolding parseJavaProperties_def by (rule distinct_parse_lines) simp

text \<open>The fields that decide what the connection may do, and whose it is.\<close>

definition policy_fields :: "profile \<Rightarrow> string \<times> string \<times> bool \<times> bool \<times> string \<times> string list" where
  "policy_fields p = (pf_id p, pf_name p, ReadOnly p, AllowDelete p, ConnectionSource p, ZKServers p)"

lemma mapProperty_policy: "policy_fields (fst (fst (mapProperty props p s k v))) = policy_fields p"
  by (simp add: mapProperty_def Let_def policy_fields_def split: option.splits prod.splits)

lemma mapJAASConfig_policy: "policy_fields (fst (fst (mapJAASConfig p s jaas))) = policy_fields p"
  by (simp add: mapJAASConfig_def Let_def policy_fields_def)

definition summary_ok :: "string list \<Rightarrow> props_summary \<Rightarrow> bool" where
  "summary_ok ks s \<longleftrightarrow>
     ps_mapped s = int (length (ps_mapped_keys s)) \<and> ps_ignored s = int (length (ps_ignored_keys s))
     \<and> distinct (ps_mapped_keys s @ ps_ignored_keys s)
     \<and> set (ps_mapped_keys s @ ps_ignored_keys s) = set ks"

lemma summary_ok_note:
  "summary_ok ks s \<Longrightarrow> k \<notin> set ks \<Longrightarrow> summary_ok (ks @ [k]) (note_key k mapped s)"
  by (auto simp: summary_ok_def note_key_def)

lemma import_keys:
  assumes "distinct (keys @ ks)" "summary_ok (filter counted keys) sm" "policy_fields (fst ps) = q"
    and counted: "\<And>k. counted k \<longleftrightarrow> \<not> blank (prop_value props k) \<and> k \<noteq> ''sasl.jaas.config''"
  shows "summary_ok (filter counted (keys @ ks)) (snd (foldl (import_key props) (ps, sm) ks))
    \<and> policy_fields (fst (fst (foldl (import_key props) (ps, sm) ks))) = q"
  using assms(1-3)
proof (induction ks arbitrary: keys ps sm)
  case (Cons k ks)
  obtain p s where ps: "ps = (p, s)" by (cases ps)
  let ?m = "mapProperty props p s k (prop_value props k)"
  let ?st = "import_key props (ps, sm) k"
  have st: "?st = (if counted k then (fst ?m, note_key k (snd ?m) sm) else (ps, sm))"
    using counted [of k] by (auto simp: import_key_def ps Let_def case_prod_beta)
  have "summary_ok (filter counted (keys @ [k])) (snd ?st)"
    using Cons.prems(1,2) summary_ok_note [of "filter counted keys" sm k] by (auto simp: st)
  moreover have "policy_fields (fst (fst ?st)) = q"
    using Cons.prems(3) unfolding st by (simp add: mapProperty_policy ps)
  ultimately show ?case
    using Cons.IH [of "keys @ [k]" "snd ?st" "fst ?st"] Cons.prems(1) by simp
qed simp

lemma summary_ok_sorted:
  "summary_ok ks s \<Longrightarrow> summary_ok ks (s\<lparr>ps_mapped_keys := sort (ps_mapped_keys s), ps_ignored_keys := sort (ps_ignored_keys s)\<rparr>)"
  by (simp add: summary_ok_def)

lemma summary_ok_set: "summary_ok ks s \<Longrightarrow> set ks = set ks' \<Longrightarrow> summary_ok ks' s"
  by (simp add: summary_ok_def)

lemma import_key_policy: "policy_fields (fst (fst (import_key props st k))) = policy_fields (fst (fst st))"
  by (cases st) (simp add: import_key_def Let_def case_prod_beta mapProperty_policy)

lemma import_policy: "policy_fields (fst (fst (applyPropertiesImport p s text))) = policy_fields p"
proof -
  have "policy_fields (fst (fst (foldl (import_key props) st ks))) = policy_fields (fst (fst st))" for props st ks
    by (induction ks arbitrary: st) (simp_all add: import_key_policy)
  then show ?thesis
    by (simp add: applyPropertiesImport_def Let_def case_prod_beta mapJAASConfig_policy)
qed

text \<open>
  C40. Importing pasted properties cannot widen what the connection may do: its id, name,
  read-only and allow-delete switches, connection source and ZooKeeper servers stay as they
  were. The summary lists every key with a value that is not blank exactly once, as mapped
  or as ignored, and its two counts are the lengths of those lists.
\<close>

theorem import_keeps_policy_and_counts:
  "policy_fields (fst (fst (applyPropertiesImport p s text))) = policy_fields p
   \<and> summary_ok (filter (\<lambda>k. \<not> blank (prop_value (parseJavaProperties text) k)) (map fst (parseJavaProperties text)))
       (snd (applyPropertiesImport p s text))"
proof -
  let ?props = "parseJavaProperties text" and ?jaas = "''sasl.jaas.config''"
  let ?keys = "map fst ?props"
  let ?counted = "\<lambda>k. \<not> blank (prop_value ?props k) \<and> k \<noteq> ?jaas"
  let ?start = "((p, s), \<lparr>ps_mapped = 0, ps_mapped_keys = [], ps_ignored = 0, ps_ignored_keys = []\<rparr>)"
  let ?run = "foldl (import_key ?props) ?start (sort ?keys)"
  have run: "summary_ok (filter ?counted (sort ?keys)) (snd ?run)"
    "policy_fields (fst (fst ?run)) = policy_fields p"
    using import_keys [where keys = "[]" and ks = "sort ?keys" and counted = ?counted and
        sm = "snd ?start" and ps = "(p, s)" and q = "policy_fields p" and props = ?props]
      distinct_parsed [of "text"] by (simp_all add: summary_ok_def)
  have jaas_key: "?jaas \<in> set ?keys" if "\<not> blank (prop_value ?props ?jaas)"
    using that by (force simp: prop_value_def dest: map_of_SomeD split: option.splits)
  have mem: "?jaas \<notin> set (filter ?counted (sort ?keys))" by simp
  show ?thesis
  proof (cases "blank (prop_value ?props ?jaas)")
    case True
    have "set (filter ?counted (sort ?keys)) = set (filter (\<lambda>k. \<not> blank (prop_value ?props k)) ?keys)"
      using True by auto
    then show ?thesis
      using summary_ok_sorted [OF summary_ok_set [OF run(1)]] run(2) True
      by (simp add: applyPropertiesImport_def Let_def case_prod_beta)
  next
    case False
    have "set (filter ?counted (sort ?keys) @ [?jaas]) = set (filter (\<lambda>k. \<not> blank (prop_value ?props k)) ?keys)"
      using False jaas_key by auto
    then show ?thesis
      using summary_ok_sorted [OF summary_ok_set [OF summary_ok_note [OF run(1) mem]]] run(2) False
      by (simp add: applyPropertiesImport_def Let_def case_prod_beta mapJAASConfig_policy)
  qed
qed

end
