(* ===== verification/KafkaClient.thy ===== *)
theory KafkaClient
  imports KafkaProps KafkaPool KafkaMessages
begin

text \<open>
  How a connection becomes the options of a client of the Kafka library: \<open>client.go\<close> (profile
  from the host's parameters, fingerprint, seed brokers, TLS, SASL and proxy options),
  \<open>kerberos.go\<close>, \<open>oauth.go\<close>, the discovery of brokers in \<open>zk.go\<close>, and the labels of
  \<open>diag.go\<close>. Files, certificates, the network and ZooKeeper are the record \<open>net_lib\<close>; an
  option of the library is a value of \<open>client_opt\<close>.
\<close>

section \<open>Package net\<close>

text \<open>\<open>net.SplitHostPort\<close>; every error is \<open>None\<close>.\<close>

definition SplitHostPort :: "string \<Rightarrow> (string \<times> string) option" where
  "SplitHostPort hostport =
     (case split_last (CHR '':'') hostport of
        None \<Rightarrow> None
      | Some (before, port) \<Rightarrow>
          if take 1 hostport = ''['' then
            (case index_byte (CHR '']'') hostport of
               None \<Rightarrow> None
             | Some stop \<Rightarrow>
                 if stop + 1 \<noteq> length before then None
                 else if CHR ''['' \<in> set (drop 1 hostport) \<or> CHR '']'' \<in> set (drop (stop + 1) hostport) then None
                 else Some (take (stop - 1) (drop 1 hostport), port))
          else if CHR '':'' \<in> set before \<or> CHR ''['' \<in> set hostport \<or> CHR '']'' \<in> set hostport then None
          else Some (before, port))"

definition JoinHostPort :: "string \<Rightarrow> string \<Rightarrow> string" where
  "JoinHostPort host port =
     (if CHR '':'' \<in> set host then ''['' @ host @ '']:'' @ port else host @ '':'' @ port)"

text \<open>\<open>strings.Trim(s, cutset)\<close> for a cut set of ASCII characters.\<close>

definition trim_chars :: "string \<Rightarrow> string \<Rightarrow> string" where
  "trim_chars seps s = rev (dropWhile (\<lambda>c. c \<in> set seps) (rev (dropWhile (\<lambda>c. c \<in> set seps) s)))"

text \<open>The first position of a text in another one.\<close>

fun find_text :: "string \<Rightarrow> string \<Rightarrow> nat option" where
  "find_text w [] = (if w = [] then Some 0 else None)"
| "find_text w (c # s) = (if prefix w (c # s) then Some 0 else map_option Suc (find_text w s))"

section \<open>What the environment answers\<close>

record net_lib =
  nl_pem :: "string \<Rightarrow> bool"                          \<comment> \<open>\<open>AppendCertsFromPEM\<close>\<close>
  nl_keypair :: "string \<Rightarrow> string \<Rightarrow> goerr option"      \<comment> \<open>\<open>tls.X509KeyPair\<close>\<close>
  nl_keytab :: "string \<Rightarrow> goerr option"               \<comment> \<open>\<open>keytab.Load\<close>\<close>
  nl_krb5 :: "string \<Rightarrow> goerr option"                 \<comment> \<open>\<open>config.Load\<close>\<close>
  nl_krb5_env :: string                             \<comment> \<open>\<open>$KRB5_CONFIG\<close>\<close>
  nl_is_file :: "string \<Rightarrow> bool"                      \<comment> \<open>\<open>os.Stat\<close>, not a directory\<close>
  nl_socks :: "string \<Rightarrow> goerr option"                \<comment> \<open>\<open>xproxy.SOCKS5\<close>\<close>
  nl_zk_dial :: "string \<Rightarrow> goerr option"
  nl_zk_connect :: "string list \<Rightarrow> goerr option"
  nl_zk_children :: "string list res"
  nl_zk_get :: "string \<Rightarrow> string res"
  nl_zk_config :: "string \<Rightarrow> (string \<times> int) res"      \<comment> \<open>\<open>json.Unmarshal\<close> of a broker node\<close>

section \<open>Kerberos and OAuth\<close>

record kerberos_params =
  kb_service :: string
  kb_principal :: string
  kb_username :: string
  kb_realm :: string
  kb_keytab :: string
  kb_krb5 :: string

definition normalizeKerberosServiceName :: "string \<Rightarrow> string" where
  "normalizeKerberosServiceName service =
     (let s = trim_space service in if s = [] then ''kafka'' else s)"

definition principal_error :: "string \<Rightarrow> goerr" where
  "principal_error pr = Errf ''kerberos principal %q must be in user@REALM form'' [pr]"

definition parseKerberosPrincipal :: "string \<Rightarrow> (string \<times> string) res" where
  "parseKerberosPrincipal pr =
     (let pr = trim_space pr in
        if pr = [] then Inl (Errf ''kerberos principal is required'' [])
        else (case split_last (CHR ''@'') pr of
                None \<Rightarrow> Inl (principal_error pr)
              | Some (user, realm) \<Rightarrow>
                  if user = [] \<or> realm = [] then Inl (principal_error pr)
                  else
                    let username = trim_space user; realm = trim_space realm in
                    if username = [] \<or> realm = [] then Inl (principal_error pr)
                    else if CHR ''@'' \<in> set username then Inl (principal_error pr)
                    else Inr (username, realm)))"

definition resolveKrb5ConfPath :: "net_lib \<Rightarrow> string \<Rightarrow> string \<Rightarrow> string \<Rightarrow> string" where
  "resolveKrb5ConfPath nl explicit envValue defaultPath =
     (let path = trim_space explicit; env = trim_space envValue; first = hd (split_on (CHR '':'') env) in
        if path \<noteq> [] then path
        else if env \<noteq> [] \<and> first \<noteq> [] then trim_space first
        else if defaultPath \<noteq> [] \<and> nl_is_file nl defaultPath then defaultPath
        else [])"

definition buildKerberosParams :: "net_lib \<Rightarrow> profile \<Rightarrow> kerberos_params res" where
  "buildKerberosParams nl profile =
     (if SASLMechanism profile \<noteq> ''GSSAPI''
      then Inl (Errf ''sasl mechanism %q is not GSSAPI'' [SASLMechanism profile])
      else
        ebind (parseKerberosPrincipal (trim_space (KerberosPrincipal profile))) (\<lambda>(username, realm).
        let explicit = trim_space (KerberosRealm profile); keytab = trim_space (KerberosKeytabPath profile) in
        if keytab = []
        then Inl (Errf ''kerberos keytab path is required for GSSAPI (file path, not content)'' [])
        else Inr \<lparr>kb_service = normalizeKerberosServiceName (KerberosServiceName profile),
                  kb_principal = trim_space (KerberosPrincipal profile), kb_username = username,
                  kb_realm = (if explicit = [] then realm else explicit), kb_keytab = keytab,
                  kb_krb5 = resolveKrb5ConfPath nl (KerberosKrb5ConfPath profile) (nl_krb5_env nl) ''/etc/krb5.conf''\<rparr>))"

definition buildKerberosSASLMechanism :: "net_lib \<Rightarrow> kerberos_params \<Rightarrow> kerberos_params res" where
  "buildKerberosSASLMechanism nl params =
     (case nl_keytab nl (kb_keytab params) of
        Some e \<Rightarrow> Inl (Wrapf ''load kerberos keytab %q: %w'' [kb_keytab params] e)
      | None \<Rightarrow>
          if kb_krb5 params = []
          then Inl (Errf ''krb5.conf not found: set kerberosKrb5ConfPath, KRB5_CONFIG, or install /etc/krb5.conf'' [])
          else (case nl_krb5 nl (kb_krb5 params) of
                  Some e \<Rightarrow> Inl (Wrapf ''load kerberos config %q: %w'' [kb_krb5 params] e)
                | None \<Rightarrow> Inr params))"

text \<open>
  The host a service ticket is requested for: an address given by number is looked up by
  \<open>ptr\<close> (\<open>None\<close>: the lookup failed); \<open>is_ip\<close> is \<open>net.ParseIP(host) != nil\<close>.
\<close>

definition canonicalizeKerberosAuthHost ::
  "(string \<Rightarrow> bool) \<Rightarrow> (string \<Rightarrow> string list option) \<Rightarrow> string \<Rightarrow> string" where
  "canonicalizeKerberosAuthHost is_ip ptr addr =
     (let (host, port) = (case SplitHostPort addr of Some hp \<Rightarrow> hp | None \<Rightarrow> (trim_chars ''[]'' addr, [])) in
        if \<not> is_ip host then addr
        else (case ptr host of
                Some (n # ns) \<Rightarrow>
                  (let t = trim_space n; name = (if suffix ''.'' t then butlast t else t) in
                     if name = [] then addr else if port = [] then name else JoinHostPort name port)
              | _ \<Rightarrow> addr))"

datatype oauth_provider =
    StaticToken string
  | MskIam string string string string      \<comment> \<open>region, access key id, secret key, session token\<close>

definition newOauthTokenProvider :: "profile \<Rightarrow> conn_secrets \<Rightarrow> oauth_provider res" where
  "newOauthTokenProvider profile secrets =
     (let source = NormalizeOauthTokenSource (OauthTokenSource profile) in
        if source = ''static_token'' then Inr (StaticToken (OauthStaticToken secrets))
        else if source = ''msk_iam'' then
          (let ak = trim_space (MSKAccessKeyID profile); sk = trim_space (MSKSecretAccessKey secrets) in
             if (ak = []) \<noteq> (sk = [])
             then Inl (Errf ''mskAccessKeyID and mskSecretAccessKey must be provided together to override the default AWS credential chain'' [])
             else Inr (MskIam (trim_space (MSKRegion profile)) ak sk (trim_space (MSKSessionToken secrets))))
        else Inl (Errf ''oauthTokenSource must be msk_iam or static_token'' []))"

text \<open>The token of one session; the two arguments are the signer with and without explicit keys.\<close>

fun oauth_token ::
  "(string \<Rightarrow> string \<Rightarrow> string \<Rightarrow> string \<Rightarrow> string res) \<Rightarrow> (string \<Rightarrow> string res) \<Rightarrow> oauth_provider \<Rightarrow> string res" where
  "oauth_token sign sign_default (StaticToken token) =
     (if blank token then Inl (Errf ''oauthStaticToken is required when oauthTokenSource is \"static_token\"'' [])
      else Inr token)"
| "oauth_token sign sign_default (MskIam region ak sk st) =
     (if blank region then Inl (Errf ''mskRegion is required for OAUTHBEARER token_source=msk_iam'' [])
      else if ak \<noteq> [] \<and> sk \<noteq> [] then sign (trim_space region) ak sk st
      else sign_default (trim_space region))"

datatype sasl_mechanism =
    SaslPlain string string
  | SaslScramSha256 string string
  | SaslScramSha512 string string
  | SaslGssapi kerberos_params
  | SaslOauth oauth_provider

definition buildSASLOpt :: "net_lib \<Rightarrow> profile \<Rightarrow> conn_secrets \<Rightarrow> sasl_mechanism res" where
  "buildSASLOpt nl profile secrets =
     (let m = SASLMechanism profile in
        if m = ''PLAIN'' then Inr (SaslPlain (pf_username profile) (SASLPassword secrets))
        else if m = ''SCRAM-SHA-256'' then Inr (SaslScramSha256 (pf_username profile) (SASLPassword secrets))
        else if m = ''SCRAM-SHA-512'' then Inr (SaslScramSha512 (pf_username profile) (SASLPassword secrets))
        else if m = ''GSSAPI'' then
          ebind (buildKerberosParams nl profile) (\<lambda>params.
          ebind (buildKerberosSASLMechanism nl params) (\<lambda>auth. Inr (SaslGssapi auth)))
        else if m = ''OAUTHBEARER'' then
          ebind (newOauthTokenProvider profile secrets) (\<lambda>p. Inr (SaslOauth p))
        else if m = [] then Inl (Errf ''saslMechanism is required for %s'' [SecurityProtocol profile])
        else Inl (Errf ''unsupported SASL mechanism %q (PLAIN, SCRAM-SHA-256, SCRAM-SHA-512, GSSAPI, OAUTHBEARER)'' [m]))"

section \<open>TLS and the proxy\<close>

text \<open>\<open>tls.Config\<close>, with \<open>MinVersion\<close> always TLS 1.2.\<close>

record tls_config =
  tc_roots :: "string option"                \<comment> \<open>\<open>None\<close>: the roots of the system\<close>
  tc_pair :: "(string \<times> string) option"
  tc_skip_verify :: bool
  tc_server_name :: string

definition buildTLSConfig :: "net_lib \<Rightarrow> profile \<Rightarrow> conn_secrets \<Rightarrow> tls_config res" where
  "buildTLSConfig nl profile secrets =
     (let caCert = trim_space (TLSCACert profile) in
        if caCert \<noteq> [] \<and> \<not> nl_pem nl caCert
        then Inl (Errf ''tlsCaCert contains no valid PEM certificate'' [])
        else
          let roots = (if caCert = [] then None else Some caCert) in
          if \<not> blank (TLSClientCert profile) \<or> \<not> blank (TLSClientKey secrets) then
            (case nl_keypair nl (TLSClientCert profile) (TLSClientKey secrets) of
               Some e \<Rightarrow> Inl (Wrapf ''load tls client certificate/key: %w'' [] e)
             | None \<Rightarrow> Inr \<lparr>tc_roots = roots, tc_pair = Some (TLSClientCert profile, TLSClientKey secrets),
                            tc_skip_verify = TLSInsecureSkipVerify profile, tc_server_name = []\<rparr>)
          else Inr \<lparr>tc_roots = roots, tc_pair = None, tc_skip_verify = TLSInsecureSkipVerify profile,
                    tc_server_name = []\<rparr>)"

definition kafkaSeedHost :: "string list \<Rightarrow> string" where
  "kafkaSeedHost seeds =
     (case seeds of
        [] \<Rightarrow> []
      | s # _ \<Rightarrow>
          (let seed = trim_space s;
               seed = (case find_text ''://'' seed of None \<Rightarrow> seed | Some i \<Rightarrow> drop (i + 3) seed)
           in case SplitHostPort seed of
                Some (host, port) \<Rightarrow> trim_chars ''[]'' host
              | None \<Rightarrow> trim_space seed))"

text \<open>
  \<open>runtimeProxyDialer\<close>: what the dialer is made of. When it dials, an empty server name
  becomes the host of the address dialled.
\<close>

record proxy_dialer =
  pd_address :: string
  pd_auth :: "(string \<times> string) option"
  pd_tls :: "tls_config option"

definition runtimeProxyDialer :: "net_lib \<Rightarrow> conn_target \<Rightarrow> tls_config option \<Rightarrow> proxy_dialer res" where
  "runtimeProxyDialer nl target tls =
     (case tgt_proxy target of
        None \<Rightarrow> Inl (Errf ''runtime proxy is not configured'' [])
      | Some p \<Rightarrow>
          (let typeName = word_of (rp_type p);
               typeName = (if typeName = [] then word_of (rp_kind p) else typeName)
           in if typeName \<noteq> ''socks5'' \<and> typeName \<noteq> ''socks5h''
              then Inl (Errf ''unsupported runtime proxy type %q (only socks5 is supported)'' [typeName])
              else if blank (rp_host p) \<or> rp_port p \<le> 0 \<or> rp_port p > 65535
              then Inl (Errf ''runtime SOCKS5 proxy host and port are required'' [])
              else
                let address = JoinHostPort (rp_host p) (format_int (rp_port p)) in
                case nl_socks nl address of
                  Some e \<Rightarrow> Inl (Wrapf ''create runtime SOCKS5 dialer: %v'' [] e)
                | None \<Rightarrow> Inr \<lparr>pd_address = address,
                    pd_auth = (if rp_username p \<noteq> [] \<or> rp_password p \<noteq> []
                               then Some (rp_username p, rp_password p) else None),
                    pd_tls = tls\<rparr>))"

definition dial_server_name :: "tls_config \<Rightarrow> string \<Rightarrow> string" where
  "dial_server_name tls address =
     (if tc_server_name tls = [] then kafkaSeedHost [address] else tc_server_name tls)"

section \<open>ZooKeeper\<close>

record zk_address =
  za_host :: string
  za_port :: int
  za_chroot :: string
  za_raw :: string

definition parseZKServerAddress :: "string \<Rightarrow> zk_address res" where
  "parseZKServerAddress raw =
     (let item = trim_space raw in
        if item = [] then Inl (Errf ''zkServers contains an empty address'' [])
        else
          let (hostPort, chroot) = (case index_byte (CHR ''/'') item of
                None \<Rightarrow> (item, []) | Some i \<Rightarrow> (take i item, drop i item))
          in if chroot \<noteq> [] \<and> blank (trim_chars ''/'' chroot)
             then Inl (Errf ''zkServers entry %q has an empty chroot path'' [item])
             else (case SplitHostPort hostPort of
                     None \<Rightarrow> Inl (Errf ''zkServers entry %q must be host:port[/chroot]'' [item])
                   | Some (host, portText) \<Rightarrow>
                       (let bad = Inl (Errf ''zkServers entry %q has an invalid port %q'' [item, portText])
                        in case parse_int portText of
                             None \<Rightarrow> bad
                           | Some port \<Rightarrow>
                               if port \<le> 0 \<or> port > 65535 then bad
                               else if blank host
                               then Inl (Errf ''zkServers entry %q is missing the host'' [item])
                               else Inr \<lparr>za_host = trim_space host, za_port = port, za_chroot = chroot,
                                         za_raw = item\<rparr>)))"

fun zk_addresses :: "string list \<Rightarrow> zk_address list res" where
  "zk_addresses [] = Inr []"
| "zk_addresses (s # ss) =
     ebind (parseZKServerAddress s) (\<lambda>a. ebind (zk_addresses ss) (\<lambda>as. Inr (a # as)))"

definition parseZKServers :: "string list \<Rightarrow> string list res" where
  "parseZKServers raw =
     (let expanded = filter (\<lambda>p. p \<noteq> [])
            (map trim_space (concat (map (fields_func [CHR '','', CHR '' '', CHR 0x09]) raw)))
      in if expanded = [] then Inl (Errf ''zkServers is required for zookeeper connection source'' [])
         else ebind (zk_addresses expanded) (\<lambda>as. Inr (map za_raw as)))"

definition parseZKBrokerConfig :: "net_lib \<Rightarrow> string \<Rightarrow> (string \<times> int) res" where
  "parseZKBrokerConfig nl data =
     (case nl_zk_config nl data of
        Inl e \<Rightarrow> Inl (Wrapf ''parse broker config from ZooKeeper: %w'' [] e)
      | Inr (h, port) \<Rightarrow>
          (let host = trim_space h in
             if host = [] \<or> port \<le> 0
             then Inl (Errf ''broker config from ZooKeeper is missing host/port'' [])
             else Inr (host, port)))"

record broker_info =
  br_node :: int
  br_host :: string
  br_port :: int
  br_rack :: string

text \<open>
  \<open>strconv.ParseInt(s, 10, 32)\<close> with its error dropped: 0 for a text that is no number, the
  nearest bound for one out of range.
\<close>

definition parse_int32 :: "string \<Rightarrow> int" where
  "parse_int32 s =
     (let neg = (take 1 s = ''-'');
          body = (if take 1 s = ''-'' \<or> take 1 s = ''+'' then drop 1 s else s)
      in if body = [] then 0
         else case parse_digits 0 body of
                None \<Rightarrow> 0
              | Some n \<Rightarrow> (if neg then max (- (2 ^ 31)) (- int n) else min (2 ^ 31 - 1) (int n)))"

definition i32 :: "int \<Rightarrow> int" where
  "i32 x = (x + 2 ^ 31) mod 2 ^ 32 - 2 ^ 31"

text \<open>\<open>dialZKServer\<close> for each address: the first error stops.\<close>

definition dial_all :: "net_lib \<Rightarrow> zk_address list \<Rightarrow> unit res" where
  "dial_all nl as =
     (case find (\<lambda>a. nl_zk_dial nl (JoinHostPort (za_host a) (format_int (za_port a))) \<noteq> None) as of
        None \<Rightarrow> Inr ()
      | Some a \<Rightarrow> Inl (Wrapf ''zookeeper %s is unreachable: %w'' [za_raw a]
          (the (nl_zk_dial nl (JoinHostPort (za_host a) (format_int (za_port a)))))))"

definition zk_path :: string where
  "zk_path = ''/brokers/ids''"

fun zk_brokers :: "net_lib \<Rightarrow> string list \<Rightarrow> broker_info list res" where
  "zk_brokers nl [] = Inr []"
| "zk_brokers nl (i # is) =
     (case nl_zk_get nl (zk_path @ ''/'' @ i) of
        Inl e \<Rightarrow> Inl (Wrapf ''read %s/%s from ZooKeeper: %w'' [zk_path, i] e)
      | Inr data \<Rightarrow>
          (case parseZKBrokerConfig nl data of
             Inl e \<Rightarrow> Inl (Wrapf ''broker %s: %w'' [i] e)
           | Inr (host, port) \<Rightarrow>
               ebind (zk_brokers nl is) (\<lambda>bs.
                 Inr (\<lparr>br_node = parse_int32 (trim_space i), br_host = host, br_port = i32 port, br_rack = []\<rparr> # bs))))"

definition discoverBrokersViaZK :: "net_lib \<Rightarrow> profile \<Rightarrow> broker_info list res" where
  "discoverBrokersViaZK nl profile =
     ebind (parseZKServers (ZKServers profile)) (\<lambda>servers.
     ebind (zk_addresses servers) (\<lambda>addresses.
     ebind (dial_all nl addresses) (\<lambda>_.
     case nl_zk_connect nl servers of
       Some e \<Rightarrow> Inl (Wrapf ''connect to ZooKeeper %s: %w'' [join_with '','' servers] e)
     | None \<Rightarrow>
         (case nl_zk_children nl of
            Inl e \<Rightarrow> Inl (Wrapf ''list %s from ZooKeeper: %w'' [zk_path] e)
          | Inr children \<Rightarrow>
              ebind (zk_brokers nl (sort children)) (\<lambda>brokers.
                if brokers = []
                then Inl (Errf ''zookeeper %s reports no brokers under %s'' [join_with '','' servers, zk_path])
                else Inr brokers)))))"

definition zkSeedsForTest :: "net_lib \<Rightarrow> profile \<Rightarrow> string list res" where
  "zkSeedsForTest nl profile =
     ebind (discoverBrokersViaZK nl profile) (\<lambda>brokers.
       Inr (map (\<lambda>b. br_host b @ '':'' @ format_int (br_port b)) brokers))"

section \<open>Client options\<close>

text \<open>\<open>computeFingerprint\<close>; \<open>hash\<close> stands for SHA-256 in hexadecimal.\<close>

definition fingerprint_parts :: "profile \<Rightarrow> conn_secrets \<Rightarrow> conn_target \<Rightarrow> string list" where
  "fingerprint_parts p s t =
     [join_with '','' (BootstrapServers p), tgt_host t, format_int (tgt_port t), SecurityProtocol p,
      SASLMechanism p, pf_username p, SASLPassword s, TLSCACert p, TLSClientCert p, TLSClientKey s,
      (if TLSInsecureSkipVerify p then ''true'' else ''false''), ClientID p, ConnectionSource p,
      join_with '','' (ZKServers p), KerberosServiceName p, KerberosRealm p, KerberosPrincipal p,
      KerberosKeytabPath p, KerberosKrb5ConfPath p, SchemaRegistry p, SRURL p, SRUsername p, GlueRegion p,
      GlueRegistryName p, GlueAuthMode p, GlueAccessKeyID p, OauthTokenSource p, MSKRegion p,
      MSKAccessKeyID p, MSKSecretAccessKey s, MSKSessionToken s, OauthStaticToken s]
     @ (case tgt_proxy t of None \<Rightarrow> []
        | Some x \<Rightarrow> [rp_type x, rp_kind x, rp_host x, format_int (rp_port x), rp_username x, rp_password x])"

definition computeFingerprint ::
  "(string \<Rightarrow> string) \<Rightarrow> profile \<Rightarrow> conn_secrets \<Rightarrow> conn_target \<Rightarrow> string" where
  "computeFingerprint hash p s t = hash (join_with nul (fingerprint_parts p s t))"

definition seedBrokers :: "profile \<Rightarrow> conn_target \<Rightarrow> string list" where
  "seedBrokers p t =
     (if ConnectionSource p = ''zookeeper'' then []
      else if tgt_proxy t \<noteq> None \<and> BootstrapServers p \<noteq> [] then BootstrapServers p
      else if tgt_host t \<noteq> [] \<and> tgt_port t > 0 then [tgt_host t @ '':'' @ format_int (tgt_port t)]
      else BootstrapServers p)"

definition logicalTLSSeedHost :: "profile \<Rightarrow> conn_target \<Rightarrow> string list \<Rightarrow> string" where
  "logicalTLSSeedHost p t seeds =
     (if tgt_proxy t = None \<and> BootstrapServers p \<noteq> [] then kafkaSeedHost (BootstrapServers p)
      else kafkaSeedHost seeds)"

datatype 'e client_opt =
    SeedBrokers "string list"
  | ClientIDOpt string
  | RequestTimeoutOverhead int
  | DialTLSConfig tls_config
  | SASLOpt sasl_mechanism
  | ProxyDialer proxy_dialer
  | ExtraOpt 'e                  \<comment> \<open>what the caller adds\<close>

definition tls_for_client ::
  "net_lib \<Rightarrow> profile \<Rightarrow> conn_secrets \<Rightarrow> conn_target \<Rightarrow> string list \<Rightarrow> tls_config option res" where
  "tls_for_client nl p s t seeds =
     (if \<not> hasTLS p then Inr None
      else ebind (buildTLSConfig nl p s) (\<lambda>built.
        let host = logicalTLSSeedHost p t seeds in
        Inr (Some (if tgt_proxy t = None \<and> tgt_host t \<noteq> [] \<and> tgt_port t > 0 \<and> host \<noteq> []
                   then built\<lparr>tc_server_name := host\<rparr> else built))))"

definition buildClientOptsWithSeeds ::
  "net_lib \<Rightarrow> profile \<Rightarrow> conn_secrets \<Rightarrow> conn_target \<Rightarrow> string list \<Rightarrow> bool \<Rightarrow> 'e list
     \<Rightarrow> ('e client_opt list \<times> tls_config option) res" where
  "buildClientOptsWithSeeds nl p s t seeds withProbeDialer extra =
     ebind (tls_for_client nl p s t seeds) (\<lambda>tls.
     ebind (if hasSASL p then ebind (buildSASLOpt nl p s) (\<lambda>m. Inr [SASLOpt m]) else Inr []) (\<lambda>sasl.
     ebind (if tgt_proxy t = None then Inr []
            else ebind (runtimeProxyDialer nl t tls) (\<lambda>d. Inr [ProxyDialer d])) (\<lambda>proxy.
     Inr ([SeedBrokers seeds, ClientIDOpt (firstNonEmpty [ClientID p, ''dbx-kafka-plugin'']),
           RequestTimeoutOverhead 5000000000]
          @ (case tls of Some c \<Rightarrow> if tgt_proxy t = None \<and> \<not> withProbeDialer then [DialTLSConfig c] else []
             | None \<Rightarrow> [])
          @ sasl @ proxy @ map ExtraOpt extra, tls))))"

definition buildClientOpts ::
  "net_lib \<Rightarrow> profile \<Rightarrow> conn_secrets \<Rightarrow> conn_target \<Rightarrow> 'e list \<Rightarrow> 'e client_opt list res" where
  "buildClientOpts nl p s t extra =
     ebind (if seedBrokers p t = [] \<and> ConnectionSource p = ''zookeeper'' then zkSeedsForTest nl p
            else Inr (seedBrokers p t)) (\<lambda>seeds.
     if seeds = [] then Inl (Errf ''bootstrap servers or runtime endpoint is required'' [])
     else ebind (buildClientOptsWithSeeds nl p s t seeds False extra) (\<lambda>(opts, tls). Inr opts))"

section \<open>NewProfileFromLifecycle\<close>

definition profile_fields :: "json_lib \<Rightarrow> lc_params \<Rightarrow> profile" where
  "profile_fields jl params =
     (let cs = ConfigString jl params in
      \<lparr>pf_id = ConnectionID params,
       pf_name = firstNonEmpty [lc_name (lp_connection params), ''Kafka cluster''],
       BootstrapServers = ConfigStringSlice jl params ''bootstrap_servers'',
       SecurityProtocol = NormalizeSecurityProtocol (cs ''security_protocol''),
       SASLMechanism = cs ''sasl_mechanism'',
       pf_username = firstNonEmpty [cs ''sasl_username'', lc_username (lp_connection params)],
       TLSCACert = cs ''tls_ca_cert'', TLSClientCert = cs ''tls_client_cert'',
       TLSInsecureSkipVerify = ConfigBool params ''tls_insecure_skip_verify'',
       ClientID = cs ''client_id'',
       ReadOnly = (ConfigBool params ''read_only'' \<or> lc_read_only (lp_connection params)),
       AllowDelete = ConfigBool params ''allow_delete'',
       ConnectionSource = cs ''connection_source'',
       ZKServers = ConfigStringSlice jl params ''zk_servers'',
       KerberosServiceName = cs ''kerberos_service_name'', KerberosRealm = cs ''kerberos_realm'',
       KerberosPrincipal = cs ''kerberos_principal'', KerberosKeytabPath = cs ''kerberos_keytab_path'',
       KerberosKrb5ConfPath = cs ''kerberos_krb5_conf_path'',
       SchemaRegistry = cs ''schema_registry'', SRURL = cs ''sr_url'', SRUsername = cs ''sr_username'',
       GlueRegion = cs ''glue_region'', GlueRegistryName = cs ''glue_registry_name'',
       GlueAuthMode = cs ''glue_auth_mode'', GlueAccessKeyID = cs ''glue_access_key_id'',
       OauthTokenSource = cs ''oauth_token_source'', MSKRegion = cs ''msk_region'',
       MSKAccessKeyID = cs ''msk_access_key_id'', PropertiesImport = None\<rparr>)"

definition secret_fields :: "json_lib \<Rightarrow> lc_params \<Rightarrow> conn_secrets" where
  "secret_fields jl params =
     (let ss = SecretString jl params in
      \<lparr>SASLPassword = ss ''sasl_password'', TLSClientKey = ss ''tls_client_key'', SRPassword = ss ''sr_password'',
       GlueSecretAccessKey = ss ''glue_secret_access_key'', GlueSessionToken = ss ''glue_session_token'',
       MSKSecretAccessKey = ss ''msk_secret_access_key'', MSKSessionToken = ss ''msk_session_token'',
       OauthStaticToken = ss ''oauth_static_token''\<rparr>)"

definition NewProfileFromLifecycle :: "json_lib \<Rightarrow> lc_params \<Rightarrow> (profile \<times> conn_secrets) res" where
  "NewProfileFromLifecycle jl params =
     (let paste = SecretString jl params ''properties_import'';
          (profile, secrets) =
            (if paste = [] then (profile_fields jl params, secret_fields jl params)
             else (let ((p, s), summary) = applyPropertiesImport (profile_fields jl params) (secret_fields jl params) paste
                   in (p\<lparr>PropertiesImport := Some summary\<rparr>, s)));
          profile = NormalizeProfile profile
      in ebind (Validate profile) (\<lambda>_.
         ebind (validateRequiredCombination profile secrets) (\<lambda>_. Inr (profile, secrets))))"

section \<open>Labels of the connection test\<close>

definition seedSourceLabel :: "profile \<Rightarrow> conn_target \<Rightarrow> string" where
  "seedSourceLabel p t =
     (if tgt_proxy t \<noteq> None then ''proxy-route''
      else if ConnectionSource p = ''zookeeper'' then ''zookeeper''
      else if tgt_host t \<noteq> [] \<and> tgt_port t > 0 then ''runtime''
      else ''bootstrap'')"

definition securitySummary :: "profile \<Rightarrow> string" where
  "securitySummary p =
     SecurityProtocol p
     @ (if hasSASL p \<and> SASLMechanism p \<noteq> [] then ''/'' @ SASLMechanism p else [])
     @ (if hasTLS p then (if TLSInsecureSkipVerify p then '' tls=skip-verify'' else '' tls=verify'') else [])"

record dial_probe =
  dp_addr :: string
  dp_tcp :: int
  dp_tls :: int
  dp_err :: string

record test_summary =
  ts_seeds :: "string list"
  ts_source :: string
  ts_profile :: profile
  ts_elapsed :: string               \<comment> \<open>the rounded duration as text\<close>
  ts_status :: string
  ts_brokers :: int
  ts_err :: string

text \<open>\<open>quote\<close> is the verb \<open>%q\<close> of \<open>fmt\<close>.\<close>

definition formatProbes :: "(string \<Rightarrow> string) \<Rightarrow> dial_probe list \<Rightarrow> string" where
  "formatProbes quote probes =
     join_with '' '' (map (\<lambda>d. ''{addr='' @ dp_addr d @ '' tcp='' @ format_int (dp_tcp d) @ ''ms''
       @ (if dp_tls d > 0 then '' tls='' @ format_int (dp_tls d) @ ''ms'' else [])
       @ (if dp_err d \<noteq> [] then '' err='' @ quote (dp_err d) else []) @ ''}'') probes)"

definition bool_text :: "bool \<Rightarrow> string" where
  "bool_text b = (if b then ''true'' else ''false'')"

definition summary_line :: "(string \<Rightarrow> string) \<Rightarrow> test_summary \<Rightarrow> dial_probe list \<Rightarrow> string" where
  "summary_line quote s probes =
     (let p = ts_profile s in
      ''[dbx-plugin-kafka] connection/test status='' @ ts_status s
      @ '' seeds=['' @ join_with '','' (ts_seeds s) @ '']'' @ '' seed_source='' @ ts_source s
      @ '' security='' @ SecurityProtocol p
      @ (if hasSASL p then '' sasl='' @ SASLMechanism p else [])
      @ (if hasTLS p then '' tls=on'' @ (if TLSInsecureSkipVerify p then '' tls_skip_verify=on'' else [])
           @ '' ca_cert='' @ bool_text (\<not> blank (TLSCACert p))
           @ '' client_cert='' @ bool_text (\<not> blank (TLSClientCert p)) else [])
      @ '' elapsed='' @ ts_elapsed s
      @ (if probes \<noteq> [] then '' probes=['' @ formatProbes quote probes @ '']'' else [])
      @ (if ts_status s = ''ok'' then '' brokers='' @ format_int (ts_brokers s) else [])
      @ (if ts_err s \<noteq> [] then '' error='' @ quote (ts_err s) else []))"

section \<open>An accepted profile is well formed\<close>

definition sasl_mechanisms :: "string list" where
  "sasl_mechanisms = [''PLAIN'', ''SCRAM-SHA-256'', ''SCRAM-SHA-512'', ''GSSAPI'', ''OAUTHBEARER'']"

definition security_protocols :: "string list" where
  "security_protocols = [''PLAINTEXT'', ''SSL'', ''SASL_PLAINTEXT'', ''SASL_SSL'']"

lemma normalized_values:
  "SecurityProtocol (NormalizeProfile p) \<in> set security_protocols"
  "SASLMechanism (NormalizeProfile p) \<in> set ([] # sasl_mechanisms)"
  "ConnectionSource (NormalizeProfile p) \<in> {''bootstrap'', ''zookeeper''}"
  "OauthTokenSource (NormalizeProfile p) \<in> {''msk_iam'', ''static_token'', []}"
  "SchemaRegistry (NormalizeProfile p) \<in> {''confluent'', ''aws_glue'', ''none'', []}"
  by (simp_all add: NormalizeProfile_def NormalizeSecurityProtocol_def NormalizeSchemaRegistry_def NormalizeSASLMechanism_def
      NormalizeConnectionSource_def NormalizeOauthTokenSource_def security_protocols_def sasl_mechanisms_def Let_def)

lemma accepted_profile:
  assumes "NewProfileFromLifecycle jl params = Inr (p, s)"
  shows "\<exists>q. p = NormalizeProfile q" "Validate p = Inr ()" "validateRequiredCombination p s = Inr ()"
  using assms by (auto simp: NewProfileFromLifecycle_def Let_def ebind_Inr_iff split: prod.splits if_splits)

lemma accepted_policy:
  assumes "NewProfileFromLifecycle jl params = Inr (p, s)"
  shows "pf_id p = ConnectionID params"
    "ReadOnly p = (ConfigBool params ''read_only'' \<or> lc_read_only (lp_connection params))"
    "AllowDelete p = ConfigBool params ''allow_delete''"
proof -
  let ?f = "profile_fields jl params"
  obtain q where q: "p = NormalizeProfile q" "pf_id q = pf_id ?f" "ReadOnly q = ReadOnly ?f" "AllowDelete q = AllowDelete ?f"
    using assms import_policy [of ?f "secret_fields jl params" "SecretString jl params ''properties_import''"]
    by (auto simp: NewProfileFromLifecycle_def Let_def ebind_Inr_iff policy_fields_def split: prod.splits if_splits)
  then show "pf_id p = ConnectionID params"
    "ReadOnly p = (ConfigBool params ''read_only'' \<or> lc_read_only (lp_connection params))"
    "AllowDelete p = ConfigBool params ''allow_delete''"
    by (simp_all add: NormalizeProfile_def profile_fields_def Let_def ConnectionID_def)
qed

lemma normalize_source: "source \<in> {''msk_iam'', ''static_token''} \<Longrightarrow> NormalizeOauthTokenSource source = source"
  by (auto simp: NormalizeOauthTokenSource_def trim_space_graphic graphic_def lower_char_def)

lemma validated_oauth:
  assumes "check_oauth p s = Inr ()" "hasSASL p" "SASLMechanism p = ''OAUTHBEARER''"
  shows "\<exists>x. newOauthTokenProvider p s = Inr x"
proof -
  have src: "OauthTokenSource p \<in> {''msk_iam'', ''static_token''}"
    using assms by (auto simp: check_oauth_def invalid_if_def split: if_splits)
  have "OauthTokenSource p = ''msk_iam'' \<longrightarrow> (blank (MSKAccessKeyID p) \<longleftrightarrow> blank (MSKSecretAccessKey s))"
    using assms by (auto simp: check_oauth_def invalid_if_def split: if_splits)
  then show ?thesis using src normalize_source [OF src] by (auto simp: newOauthTokenProvider_def Let_def)
qed

text \<open>
  C27. Every profile the host's parameters are accepted as has the id and the read-only and
  allow-delete switches of the form, whatever was pasted into it. Its protocol, its mechanism,
  its connection source, its schema registry and its token source are each in their value set,
  and it names servers for its source. If its protocol uses SASL it names a mechanism, and
  building the mechanism then cannot fail, except for what Kerberos reads from its files and its
  principal.
\<close>

theorem accepted_profile_has_mechanism:
  assumes "NewProfileFromLifecycle jl params = Inr (p, s)"
  shows "pf_id p = ConnectionID params \<and> pf_id p \<noteq> []
    \<and> ReadOnly p = (ConfigBool params ''read_only'' \<or> lc_read_only (lp_connection params))
    \<and> AllowDelete p = ConfigBool params ''allow_delete''
    \<and> SecurityProtocol p \<in> set security_protocols
    \<and> SASLMechanism p \<in> set ([] # sasl_mechanisms)
    \<and> ConnectionSource p \<in> {''bootstrap'', ''zookeeper''}
    \<and> SchemaRegistry p \<in> {''confluent'', ''aws_glue'', ''none'', []}
    \<and> OauthTokenSource p \<in> {''msk_iam'', ''static_token'', []}
    \<and> (if ConnectionSource p = ''zookeeper'' then ZKServers p \<noteq> [] else BootstrapServers p \<noteq> [])
    \<and> (hasSASL p \<longrightarrow> SASLMechanism p \<noteq> []
         \<and> (SASLMechanism p \<noteq> ''GSSAPI'' \<longrightarrow> (\<exists>m. buildSASLOpt nl p s = Inr m)))"
proof -
  obtain q where q: "p = NormalizeProfile q" using accepted_profile(1) [OF assms] by blast
  note v = accepted_profile(2,3) [OF assms]
  have id: "pf_id p \<noteq> []" "if ConnectionSource p = ''zookeeper'' then ZKServers p \<noteq> [] else BootstrapServers p \<noteq> []"
    "hasSASL p \<longrightarrow> SASLMechanism p \<noteq> []"
    using v(1) by (auto simp: Validate_def split: if_splits)
  have "check_oauth p s = Inr ()" using v(2) by (auto simp: validateRequiredCombination_def go_simps)
  then have "\<exists>m. buildSASLOpt nl p s = Inr m" if "hasSASL p" "SASLMechanism p \<noteq> ''GSSAPI''"
    using that id(3) validated_oauth [of p s] normalized_values(2) [of q]
    by (auto simp: q [symmetric] buildSASLOpt_def Let_def sasl_mechanisms_def)
  then show ?thesis using id normalized_values [of q] accepted_policy [OF assms] unfolding q [symmetric] by blast
qed

definition sample_params :: lc_params where
  "sample_params =
     \<lparr>lp_provider_id = [], lp_database_type = [],
      lp_connection = \<lparr>lc_id = ''c1'', lc_name = [], lc_host = [], lc_port = 0, lc_username = [], lc_password = [],
        lc_read_only = False,
        ExternalConfig = [''bootstrap_servers'' \<mapsto> JStr ''k1:9092'', ''security_protocol'' \<mapsto> JStr ''SASL_SSL'',
          ''sasl_mechanism'' \<mapsto> JStr ''OAUTHBEARER'', ''oauth_token_source'' \<mapsto> JStr ''static_token''],
        Secrets = [''oauth_static_token'' \<mapsto> JStr ''t0'']\<rparr>,
      lp_runtime = \<lparr>rt_host = [], rt_port = 0, rt_proxy = None\<rparr>, lp_operation_id = []\<rparr>"

text \<open>An environment without files and network.\<close>

definition no_net :: net_lib where
  "no_net =
     \<lparr>nl_pem = (\<lambda>_. False), nl_keypair = (\<lambda>_ _. None), nl_keytab = (\<lambda>_. Some (Ext ''no file'')),
      nl_krb5 = (\<lambda>_. Some (Ext ''no file'')), nl_krb5_env = [], nl_is_file = (\<lambda>_. False), nl_socks = (\<lambda>_. None),
      nl_zk_dial = (\<lambda>_. Some (Ext ''refused'')), nl_zk_connect = (\<lambda>_. Some (Ext ''refused'')),
      nl_zk_children = Inl (Ext ''refused''), nl_zk_get = (\<lambda>_. Inl (Ext ''refused'')),
      nl_zk_config = (\<lambda>_. Inl (Ext ''syntax''))\<rparr>"

lemma sample_params_accepted:
  "\<exists>p s. NewProfileFromLifecycle no_json sample_params = Inr (p, s) \<and> hasSASL p \<and> SASLMechanism p \<noteq> ''GSSAPI''"
proof -
  note trim = trim_space_graphic graphic_def
  define p where "p = NormalizeProfile (profile_fields no_json sample_params)"
  have f: "SecretString no_json sample_params ''properties_import'' = []"
    "secret_fields no_json sample_params = \<lparr>SASLPassword = [], TLSClientKey = [], SRPassword = [],
       GlueSecretAccessKey = [], GlueSessionToken = [], MSKSecretAccessKey = [], MSKSessionToken = [], OauthStaticToken = ''t0''\<rparr>"
    by (simp_all add: SecretString_def secret_fields_def sample_params_def trim)
  have p: "SecurityProtocol p = ''SASL_SSL''" "SASLMechanism p = ''OAUTHBEARER''" "OauthTokenSource p = ''static_token''"
    "pf_id p = ''c1''" "ConnectionSource p = ''bootstrap''" "BootstrapServers p \<noteq> []" "SchemaRegistry p = []"
    "TLSClientCert p = []"
    by (simp_all add: p_def NormalizeProfile_def profile_fields_def Let_def ConfigString_def sample_params_def trim ConnectionID_def
        NormalizeSecurityProtocol_def NormalizeSASLMechanism_def NormalizeOauthTokenSource_def NormalizeConnectionSource_def
        NormalizeSchemaRegistry_def ConfigStringSlice_def splitBootstrapLines_def trimmed_items_def lower_char_def upper_char_def newline_def)
  have "NewProfileFromLifecycle no_json sample_params = Inr (p, secret_fields no_json sample_params)"
    by (simp add: NewProfileFromLifecycle_def f(1) flip: p_def)
       (simp add: p f Validate_def hasSASL_def validateRequiredCombination_def check_registry_def check_oauth_def
        check_sasl_def invalid_if_def trim)
  moreover have "hasSASL p" "SASLMechanism p \<noteq> ''GSSAPI''" by (simp_all add: hasSASL_def p)
  ultimately show ?thesis by blast
qed

theorem accepted_profile_has_mechanism_witness:
  "\<exists>p s m. NewProfileFromLifecycle no_json sample_params = Inr (p, s) \<and> hasSASL p \<and> buildSASLOpt no_net p s = Inr m"
  using sample_params_accepted accepted_profile_has_mechanism [of no_json sample_params _ _ no_net] by blast

end
