(* ===== verification/SchemaProvider.thy ===== *)
theory SchemaProvider
  imports KafkaProfile
begin

text \<open>
  The parts of \<open>kafkaconn/schema.go\<close> and \<open>kafkaconn/glue.go\<close> that need no registry: which
  backend a request goes to, the client of a Confluent registry, the names of formats and
  compatibility levels, and the references of a schema.
\<close>

section \<open>Choosing the backend\<close>

definition schemaProviderConfigured :: "profile \<Rightarrow> string" where
  "schemaProviderConfigured p =
     (if srEnabled p \<and> glueEnabled p then ''both''
      else if srEnabled p then ''confluent''
      else if glueEnabled p then ''glue''
      else ''none'')"

definition registry_disabled :: goerr where
  "registry_disabled =
     InvalidParams ''schema registry is disabled for this connection (schemaRegistry=\"none\")'' []"

definition resolveSchemaProvider :: "profile \<Rightarrow> string \<Rightarrow> string res" where
  "resolveSchemaProvider p registry =
     (let r = word_of registry in
        if r = ''confluent'' then
          (if SchemaRegistry p = ''none'' then Inl registry_disabled
           else if SchemaRegistry p = ''aws_glue''
           then Inl (InvalidParams ''confluent registry is not enabled for this connection (schemaRegistry=\"aws_glue\")'' [])
           else Inr ''confluent'')
        else if r = ''glue'' then
          (if SchemaRegistry p = ''none'' then Inl registry_disabled
           else if SchemaRegistry p = ''confluent''
           then Inl (InvalidParams ''AWS Glue registry is not enabled for this connection (schemaRegistry=\"confluent\")'' [])
           else Inr ''glue'')
        else if r \<noteq> [] then Inl (InvalidParams ''registry must be \"confluent\" or \"glue\"'' [])
        else if SchemaRegistry p = ''confluent'' then Inr ''confluent''
        else if SchemaRegistry p = ''aws_glue'' then Inr ''glue''
        else if SchemaRegistry p = ''none'' then Inr ''none''
        else if schemaProviderConfigured p = ''both''
        then Inl (InvalidParams ''connection has both srUrl and AWS Glue configured; pass registry \"confluent\" or \"glue\" explicitly'' [])
        else Inr (schemaProviderConfigured p))"

section \<open>The client of a Confluent registry\<close>

record sr_client =
  sl_base :: string
  sl_username :: string
  sl_password :: string

text \<open>\<open>strings.TrimRight(s, "/")\<close>\<close>

definition trim_slashes :: "string \<Rightarrow> string" where
  "trim_slashes s = rev (dropWhile (\<lambda>c. c = CHR ''/'') (rev s))"

text \<open>\<open>url_error\<close> is the error of \<open>url.ParseRequestURI\<close>, if any.\<close>

definition newSchemaRegistryClient ::
  "(string \<Rightarrow> goerr option) \<Rightarrow> profile \<Rightarrow> string \<Rightarrow> sr_client res" where
  "newSchemaRegistryClient url_error profile srPassword =
     (let baseURL = trim_slashes (trim_space (SRURL profile)) in
        if baseURL = []
        then Inl (Errf ''schema registry is not configured for connection %q (srUrl is empty)'' [pf_name profile])
        else (case url_error baseURL of
                Some e \<Rightarrow> Inl (Wrapf ''schema registry URL is invalid: %w'' [] e)
              | None \<Rightarrow> Inr \<lparr>sl_base = baseURL, sl_username = SRUsername profile, sl_password = srPassword\<rparr>))"

section \<open>Formats\<close>

definition format_error :: goerr where
  "format_error = Errf ''schema format must be AVRO, JSON, or PROTOBUF'' []"

abbreviation upper_word :: "string \<Rightarrow> string" where
  "upper_word s \<equiv> to_upper (trim_space s)"

definition normalizeKafkaSchemaFormat :: "string \<Rightarrow> string res" where
  "normalizeKafkaSchemaFormat format =
     (let f = upper_word format in
        if f \<in> set [[], ''AVRO''] then Inr ''AVRO''
        else if f \<in> set [''JSON'', ''JSON_SCHEMA'', ''JSONSCHEMA''] then Inr ''JSON''
        else if f \<in> set [''PROTOBUF'', ''PROTO''] then Inr ''PROTOBUF''
        else Inl format_error)"

definition normalizeConfluentSchemaType :: "string \<Rightarrow> string" where
  "normalizeConfluentSchemaType schemaType =
     (if blank schemaType then ''AVRO''
      else (case normalizeKafkaSchemaFormat schemaType of
              Inl _ \<Rightarrow> upper_word schemaType
            | Inr format \<Rightarrow> format))"

definition glueDataFormat :: "string \<Rightarrow> string" where
  "glueDataFormat format =
     (let f = upper_word format in
        if f = ''JSON'' then ''JSON'' else if f = ''PROTOBUF'' then ''PROTOBUF'' else ''AVRO'')"

section \<open>Compatibility levels\<close>

definition normalizeConfluentCompatibility :: "string \<Rightarrow> string res" where
  "normalizeConfluentCompatibility value =
     (let v = upper_word value in
        if v \<in> set [''NONE'', ''DISABLED'', []] then Inr ''NONE''
        else if v = ''BACKWARD'' then Inr ''BACKWARD''
        else if v \<in> set [''BACKWARD_ALL'', ''BACKWARD_TRANSITIVE''] then Inr ''BACKWARD_TRANSITIVE''
        else if v = ''FORWARD'' then Inr ''FORWARD''
        else if v \<in> set [''FORWARD_ALL'', ''FORWARD_TRANSITIVE''] then Inr ''FORWARD_TRANSITIVE''
        else if v = ''FULL'' then Inr ''FULL''
        else if v \<in> set [''FULL_ALL'', ''FULL_TRANSITIVE''] then Inr ''FULL_TRANSITIVE''
        else Inl (Errf ''level must be one of BACKWARD, BACKWARD_TRANSITIVE, FORWARD, FORWARD_TRANSITIVE, FULL, FULL_TRANSITIVE, or NONE'' []))"

definition normalizeGlueCompatibility :: "string \<Rightarrow> string res" where
  "normalizeGlueCompatibility value =
     (let v = upper_word value in
        if v \<in> set [[], ''NONE''] then Inr ''NONE''
        else if v = ''DISABLED'' then Inr ''DISABLED''
        else if v = ''BACKWARD'' then Inr ''BACKWARD''
        else if v \<in> set [''BACKWARD_ALL'', ''BACKWARD_TRANSITIVE''] then Inr ''BACKWARD_ALL''
        else if v = ''FORWARD'' then Inr ''FORWARD''
        else if v \<in> set [''FORWARD_ALL'', ''FORWARD_TRANSITIVE''] then Inr ''FORWARD_ALL''
        else if v = ''FULL'' then Inr ''FULL''
        else if v \<in> set [''FULL_ALL'', ''FULL_TRANSITIVE''] then Inr ''FULL_ALL''
        else Inl (Errf ''level must be one of BACKWARD, BACKWARD_ALL, FORWARD, FORWARD_ALL, FULL, FULL_ALL, NONE, or DISABLED'' []))"

definition compatibilityScope :: "string \<Rightarrow> string" where
  "compatibilityScope subject = (if blank subject then ''global'' else ''subject'')"

definition subjectOrGlobal :: "string \<Rightarrow> string" where
  "subjectOrGlobal subject = (if blank subject then ''<global>'' else trim_space subject)"

definition subjectOrVersion :: "string \<Rightarrow> int \<Rightarrow> string" where
  "subjectOrVersion subject version =
     (if version > 0 then trim_space subject @ ''@'' @ format_int version else subjectOrGlobal subject)"

section \<open>References\<close>

record schema_reference =
  rf_name :: string
  rf_subject :: string
  rf_version :: int

definition reference_bad :: "schema_reference \<Rightarrow> bool" where
  "reference_bad ref \<longleftrightarrow> blank (rf_name ref) \<or> blank (rf_subject ref) \<or> rf_version ref \<le> 0"

definition normalizeSchemaReferences :: "schema_reference list \<Rightarrow> schema_reference list res" where
  "normalizeSchemaReferences refs =
     (if list_ex reference_bad refs
      then Inl (Errf ''schema reference name, subject, and version are required'' [])
      else Inr (map (\<lambda>r. r\<lparr>rf_name := trim_space (rf_name r), rf_subject := trim_space (rf_subject r)\<rparr>) refs))"

section \<open>Properties\<close>

lemma provider_values:
  "resolveSchemaProvider p registry = Inr x \<Longrightarrow> x \<in> {''confluent'', ''glue'', ''none''}"
  by (auto simp: resolveSchemaProvider_def schemaProviderConfigured_def Let_def split: if_splits)

definition switched_backend :: "profile \<Rightarrow> string" where
  "switched_backend p = (if SchemaRegistry p = ''aws_glue'' then ''glue'' else SchemaRegistry p)"

text \<open>
  A request never reaches a registry that the connection's switch turns off: with the
  switch at confluent, aws_glue or none the chosen backend is that one, a request that names
  another one is a parameter error, and one that names none or that one is accepted; without
  the switch, a request that names no backend gets the only one that is configured, none if
  there is none, and a parameter error if there are two, and one that names a backend gets it.
\<close>

theorem provider_respects_switch:
  "(if SchemaRegistry p \<in> {''confluent'', ''aws_glue'', ''none''} then
      (case resolveSchemaProvider p registry of
         Inl e \<Rightarrow> (if switched_backend p = ''none'' then word_of registry \<noteq> []
                          else word_of registry \<notin> {[], switched_backend p})
           \<and> (\<exists>m. e = InvalidParams m [])
       | Inr x \<Rightarrow> x = switched_backend p \<and> word_of registry \<in> {[], x})
    else if word_of registry = [] then
      (case resolveSchemaProvider p registry of
         Inl e \<Rightarrow> srEnabled p \<and> glueEnabled p \<and> (\<exists>m. e = InvalidParams m [])
       | Inr x \<Rightarrow> srEnabled p = (x = ''confluent'') \<and> glueEnabled p = (x = ''glue'') \<and> x \<in> {''confluent'', ''glue'', ''none''})
    else
      (case resolveSchemaProvider p registry of
         Inl e \<Rightarrow> word_of registry \<notin> {''confluent'', ''glue''} \<and> (\<exists>m. e = InvalidParams m [])
       | Inr x \<Rightarrow> x = word_of registry))"
  by (auto simp: resolveSchemaProvider_def schemaProviderConfigured_def switched_backend_def registry_disabled_def Let_def)

end
