(* ===== verification/KafkaService.thy ===== *)
theory KafkaService
  imports KafkaStreams KafkaClient SchemaProvider
begin

text \<open>
  The service of \<open>kafkaconn/service.go\<close> with the connection entries of \<open>client.go\<close>: the
  table of connections, the shared admin client of each, the audit trail, the presets, and
  how connecting, disconnecting and starting a stream act on the table, on the consumer pool
  of \<open>KafkaPool\<close> and on the sessions of \<open>KafkaStreams\<close> together. Clients are numbers;
  \<open>sv_closed\<close> collects the admin clients that were closed. What the brokers and the
  registries hold is the field \<open>sv_world\<close>, of any type; only calls on a client change it.
\<close>

section \<open>State\<close>

record conn_entry =
  ce_profile :: profile
  ce_secrets :: conn_secrets
  ce_target :: conn_target
  ce_client :: "nat option"
  ce_fingerprint :: string
  ce_connected_at :: int
  ce_last_used :: int
  ce_status :: string
  ce_error :: "goerr option"        \<comment> \<open>\<open>None\<close>: the empty text\<close>

record audit_record =
  au_connection :: string
  au_action :: string
  au_target :: string
  au_result :: string
  au_detail :: "goerr option"       \<comment> \<open>the text is that of a format with its arguments\<close>
  au_source :: string

record preset =
  pr_id :: string
  pr_name :: string
  pr_params :: consume_params

record 'w service =
  sv_conns :: "(string \<times> conn_entry) list"
  sv_pool :: pool
  sv_streams :: stream_registry
  sv_audit :: "audit_record list"
  sv_closed :: "nat list"
  sv_world :: 'w

definition NewService :: "'w \<Rightarrow> 'w service" where
  "NewService w =
     \<lparr>sv_conns = [], sv_pool = new_pool, sv_streams = NewStreamRegistry, sv_audit = [], sv_closed = [],
      sv_world = w\<rparr>"

section \<open>Looking up\<close>

definition getEntry :: "string \<Rightarrow> 'w service \<Rightarrow> conn_entry option" where
  "getEntry conn sv = (let c = trim_space conn in if c = [] then None else map_of (sv_conns sv) c)"

definition profileOf :: "string \<Rightarrow> 'w service \<Rightarrow> profile" where
  "profileOf conn sv =
     (case getEntry conn sv of None \<Rightarrow> zero_profile\<lparr>ReadOnly := True\<rparr> | Some e \<Rightarrow> ce_profile e)"

definition errConnectionNotFound :: "string \<Rightarrow> goerr" where
  "errConnectionNotFound conn = Errf ''connection %q is not connected; call connection/connect first'' [conn]"

definition PolicyOf :: "string \<Rightarrow> 'w service \<Rightarrow> bool \<times> bool" where
  "PolicyOf conn sv = (let p = profileOf conn sv in (ReadOnly p, AllowDelete p))"

definition emitAuditSource ::
  "string \<Rightarrow> string \<Rightarrow> string \<Rightarrow> string \<Rightarrow> string \<Rightarrow> goerr option \<Rightarrow> 'w service \<Rightarrow> 'w service" where
  "emitAuditSource source conn action target result detail sv =
     sv\<lparr>sv_audit := sv_audit sv @
       [\<lparr>au_connection = conn, au_action = action, au_target = target, au_result = result,
         au_detail = detail, au_source = source\<rparr>]\<rparr>"

definition emitAudit :: "string \<Rightarrow> string \<Rightarrow> string \<Rightarrow> string \<Rightarrow> goerr option \<Rightarrow> 'w service \<Rightarrow> 'w service" where
  "emitAudit = emitAuditSource []"

section \<open>Connecting and disconnecting\<close>

text \<open>\<open>closeLocked\<close>: the client that is closed, and the entry (which no table holds any more).\<close>

definition closeLocked :: "conn_entry \<Rightarrow> nat list \<times> conn_entry" where
  "closeLocked e =
     (case ce_client e of
        None \<Rightarrow> ([], e\<lparr>ce_status := ''closed''\<rparr>)
      | Some c \<Rightarrow> ([c], e\<lparr>ce_client := None, ce_fingerprint := [], ce_status := ''closed''\<rparr>))"

definition new_entry :: "lc_params \<Rightarrow> profile \<Rightarrow> conn_secrets \<Rightarrow> conn_entry" where
  "new_entry params p s =
     (let r = lp_runtime params in
      \<lparr>ce_profile = p, ce_secrets = s,
       ce_target = \<lparr>tgt_host = rt_host r, tgt_port = rt_port r, tgt_proxy = rt_proxy r\<rparr>,
       ce_client = None, ce_fingerprint = [], ce_connected_at = 0, ce_last_used = 0, ce_status = ''idle'',
       ce_error = None\<rparr>)"

definition Connect :: "json_lib \<Rightarrow> lc_params \<Rightarrow> 'w service \<Rightarrow> unit res \<times> 'w service" where
  "Connect jl params sv =
     (case NewProfileFromLifecycle jl params of
        Inl e \<Rightarrow> (Inl e, sv)
      | Inr (p, s) \<Rightarrow>
          (let old = map_of (sv_conns sv) (pf_id p);
               sv = sv\<lparr>sv_conns := AList.update (pf_id p) (new_entry params p s) (sv_conns sv)\<rparr>
           in case old of
                None \<Rightarrow> (Inr (), sv)
              | Some e \<Rightarrow> (Inr (), sv\<lparr>sv_closed := fst (closeLocked e) @ sv_closed sv,
                                    sv_streams := StopAllForConnection (pf_id p) (sv_streams sv)\<rparr>)))"

definition Disconnect :: "string \<Rightarrow> 'w service \<Rightarrow> 'w service" where
  "Disconnect conn sv =
     (if conn = [] then sv
      else
        let entry = map_of (sv_conns sv) conn;
            sv = sv\<lparr>sv_streams := StopAllForConnection conn (sv_streams sv),
                    sv_pool := consumePoolCloseFor conn (sv_pool sv),
                    sv_conns := AList.delete conn (sv_conns sv)\<rparr>
        in case entry of
             None \<Rightarrow> sv
           | Some e \<Rightarrow> sv\<lparr>sv_closed := fst (closeLocked e) @ sv_closed sv\<rparr>)"

definition CloseAll :: "'w service \<Rightarrow> 'w service" where
  "CloseAll sv =
     sv\<lparr>sv_streams := StopAll (sv_streams sv), sv_pool := consumePoolCloseAll (sv_pool sv),
        sv_closed := concat (map (\<lambda>(i, e). fst (closeLocked e)) (sv_conns sv)) @ sv_closed sv,
        sv_conns := []\<rparr>"

section \<open>The shared admin client\<close>

text \<open>
  The environment of the client code: hashing, files and network, and \<open>kgo.NewClient\<close> for a
  list of options, whose extra options are those of a consumption.
\<close>

record client_env =
  cv_hash :: "string \<Rightarrow> string"
  cv_net :: net_lib
  cv_new_client :: "kgo_opt client_opt list \<Rightarrow> nat res"
  cv_now :: int
  cv_url_error :: "string \<Rightarrow> goerr option"

definition adminClientLocked :: "client_env \<Rightarrow> conn_entry \<Rightarrow> nat res \<times> conn_entry \<times> nat list" where
  "adminClientLocked cv e =
     (let want = computeFingerprint (cv_hash cv) (ce_profile e) (ce_secrets e) (ce_target e) in
        case ce_client e of
          Some c \<Rightarrow>
            if ce_fingerprint e = want then (Inr c, e, [])
            else
              (case ebind (buildClientOpts (cv_net cv) (ce_profile e) (ce_secrets e) (ce_target e) [])
                     (\<lambda>opts. case cv_new_client cv opts of Inl x \<Rightarrow> Inl (Wrapf ''create kafka client: %w'' [] x) | Inr d \<Rightarrow> Inr d) of
                 Inl x \<Rightarrow> (Inl x, e\<lparr>ce_client := None\<rparr>, [c])
               | Inr d \<Rightarrow> (Inr d, e\<lparr>ce_client := Some d, ce_fingerprint := want\<rparr>, [c]))
        | None \<Rightarrow>
            (case ebind (buildClientOpts (cv_net cv) (ce_profile e) (ce_secrets e) (ce_target e) [])
                   (\<lambda>opts. case cv_new_client cv opts of Inl x \<Rightarrow> Inl (Wrapf ''create kafka client: %w'' [] x) | Inr d \<Rightarrow> Inr d) of
               Inl x \<Rightarrow> (Inl x, e, [])
             | Inr d \<Rightarrow> (Inr d, e\<lparr>ce_client := Some d, ce_fingerprint := want\<rparr>, [])))"

text \<open>\<open>withAdmin\<close>; the callback acts on what is behind the client.\<close>

definition set_conn :: "string \<Rightarrow> conn_entry \<Rightarrow> 'w service \<Rightarrow> 'w service" where
  "set_conn conn e sv = sv\<lparr>sv_conns := AList.update (trim_space conn) e (sv_conns sv)\<rparr>"

definition withAdmin ::
  "client_env \<Rightarrow> string \<Rightarrow> (nat \<Rightarrow> 'w \<Rightarrow> 'a res \<times> 'w) \<Rightarrow> 'w service \<Rightarrow> 'a res \<times> 'w service" where
  "withAdmin cv conn fn sv =
     (case getEntry conn sv of
        None \<Rightarrow> (Inl (errConnectionNotFound conn), sv)
      | Some e \<Rightarrow>
          (let (client, e, closed) = adminClientLocked cv e;
               sv = sv\<lparr>sv_closed := closed @ sv_closed sv\<rparr>
           in case client of
                Inl x \<Rightarrow> (Inl x, set_conn conn (e\<lparr>ce_status := ''error'', ce_error := Some x\<rparr>) sv)
              | Inr c \<Rightarrow>
                  (let (r, w) = fn c (sv_world sv);
                       e = e\<lparr>ce_last_used := cv_now cv\<rparr>;
                       sv = sv\<lparr>sv_world := w\<rparr>
                   in case r of
                        Inr x \<Rightarrow> (Inr x, set_conn conn (e\<lparr>ce_status := ''connected'', ce_error := None\<rparr>) sv)
                      | Inl x \<Rightarrow> (Inl x, set_conn conn (e\<lparr>ce_status := ''error'', ce_error := Some x\<rparr>) sv))))"

definition consumeClient :: "client_env \<Rightarrow> string \<Rightarrow> kgo_opt list \<Rightarrow> 'w service \<Rightarrow> nat res" where
  "consumeClient cv conn extra sv =
     (case getEntry conn sv of
        None \<Rightarrow> Inl (errConnectionNotFound conn)
      | Some e \<Rightarrow>
          ebind (buildClientOpts (cv_net cv) (ce_profile e) (ce_secrets e) (ce_target e) extra) (\<lambda>opts.
          case cv_new_client cv opts of
            Inl x \<Rightarrow> Inl (Wrapf ''create kafka client: %w'' [] x)
          | Inr c \<Rightarrow> Inr c))"

section \<open>Statuses\<close>

record registry_status =
  rg_enabled :: bool
  rg_provider :: string
  rg_mode :: string
  rg_url :: string
  rg_name :: string

record connection_status =
  cs_id :: string
  cs_name :: string
  cs_bootstrap :: string
  cs_status :: string
  cs_read_only :: bool
  cs_connected_at :: int
  cs_last_used :: int
  cs_error :: "goerr option"
  cs_source :: string
  cs_registry :: registry_status
  cs_kerberos :: bool
  cs_import :: "props_summary option"

definition statusForContract :: "string \<Rightarrow> string" where
  "statusForContract status =
     (if status = ''connected'' then ''connected'' else if status = ''error'' then ''error'' else ''idle'')"

definition registry_status_of :: "profile \<Rightarrow> registry_status" where
  "registry_status_of p =
     (let v = schemaProviderConfigured p in
        \<lparr>rg_enabled = (v \<noteq> ''none''), rg_provider = v, rg_mode = SchemaRegistry p,
         rg_url = (if v \<in> {''confluent'', ''both''} then SRURL p else []),
         rg_name = (if v \<in> {''glue'', ''both''} then GlueRegistryName p else [])\<rparr>)"

definition status_of_entry :: "conn_entry \<Rightarrow> connection_status" where
  "status_of_entry e =
     (let p = ce_profile e in
        \<lparr>cs_id = pf_id p, cs_name = pf_name p, cs_bootstrap = join_with '','' (BootstrapServers p),
         cs_status = statusForContract (ce_status e), cs_read_only = ReadOnly p,
         cs_connected_at = ce_connected_at e, cs_last_used = ce_last_used e, cs_error = ce_error e,
         cs_source = ConnectionSource p, cs_registry = registry_status_of p,
         cs_kerberos = kerberosEnabled p, cs_import = PropertiesImport p\<rparr>)"

definition SnapshotStatuses :: "'w service \<Rightarrow> connection_status list" where
  "SnapshotStatuses sv = map (status_of_entry \<circ> snd) (sv_conns sv)"

section \<open>Presets\<close>

text \<open>The store: what loading gives and whether saving a list fails; \<open>None\<close> is no store.\<close>

record preset_store =
  pt_load :: "preset list res"
  pt_save :: "preset list \<Rightarrow> goerr option"

definition no_preset_store :: goerr where
  "no_preset_store = Errf ''preset store is unavailable'' []"

definition save_presets :: "preset_store \<Rightarrow> preset list \<Rightarrow> preset list res" where
  "save_presets st ps = (case pt_save st ps of None \<Rightarrow> Inr ps | Some e \<Rightarrow> Inl e)"

definition ListPresets :: "preset_store option \<Rightarrow> preset list res" where
  "ListPresets st = (case st of None \<Rightarrow> Inl no_preset_store | Some st \<Rightarrow> pt_load st)"

text \<open>Replacing the first preset with the same id, or appending.\<close>

fun put_preset :: "preset \<Rightarrow> preset list \<Rightarrow> preset list" where
  "put_preset p [] = [p]"
| "put_preset p (q # qs) = (if pr_id q = pr_id p then p # qs else q # put_preset p qs)"

text \<open>The stored preset and the list that was saved; \<open>fresh\<close> is a new identifier.\<close>

definition SavePreset :: "string \<Rightarrow> preset_store option \<Rightarrow> preset \<Rightarrow> (preset \<times> preset list) res" where
  "SavePreset fresh st p =
     (case st of
        None \<Rightarrow> Inl no_preset_store
      | Some st \<Rightarrow>
          (let i = trim_space (pr_id p);
               p = p\<lparr>pr_id := (if i = [] then fresh else i), pr_name := trim_space (pr_name p)\<rparr>
           in if pr_name p = [] then Inl (Errf ''preset name is required'' [])
              else ebind (pt_load st) (\<lambda>presets.
                   ebind (save_presets st (put_preset p presets)) (\<lambda>saved. Inr (p, saved)))))"

definition RemovePreset :: "preset_store option \<Rightarrow> string \<Rightarrow> preset list res" where
  "RemovePreset st i =
     (case st of
        None \<Rightarrow> Inl no_preset_store
      | Some st \<Rightarrow>
          (let i = trim_space i in
             if i = [] then Inl (Errf ''preset id is required'' [])
             else ebind (pt_load st) (\<lambda>presets.
                    if list_ex (\<lambda>p. pr_id p = i) presets
                    then save_presets st (filter (\<lambda>p. pr_id p \<noteq> i) presets)
                    else Inl (Errf ''preset %q not found'' [i]))))"

section \<open>Starting a stream\<close>

definition schemaMountSupported :: "string \<Rightarrow> string \<Rightarrow> string \<Rightarrow> 'w service \<Rightarrow> unit res" where
  "schemaMountSupported conn registry action sv =
     (case getEntry conn sv of
        None \<Rightarrow> Inl (errConnectionNotFound conn)
      | Some e \<Rightarrow>
          ebind (resolveSchemaProvider (ce_profile e) registry) (\<lambda>provider.
          if provider = ''glue''
          then Inl (Errf ''schema-aware %s currently supports Confluent wire format; AWS Glue schema management is available'' [action])
          else if provider = ''none''
          then Inl (Errf ''schema registry is not enabled for connection %q (schemaRegistry is none)'' [pf_name (ce_profile e)])
          else Inr ()))"

definition confluentClientFor :: "client_env \<Rightarrow> string \<Rightarrow> 'w service \<Rightarrow> sr_client res" where
  "confluentClientFor cv conn sv =
     (case getEntry conn sv of
        None \<Rightarrow> Inl (errConnectionNotFound conn)
      | Some e \<Rightarrow> newSchemaRegistryClient (cv_url_error cv) (ce_profile e) (SRPassword (ce_secrets e)))"

text \<open>What \<open>StartStream\<close> computes between its two critical sections: the client.\<close>

definition stream_client ::
  "client_env \<Rightarrow> (string \<Rightarrow> int option) \<Rightarrow> consume_params \<Rightarrow> string \<Rightarrow> 'w service \<Rightarrow> nat res" where
  "stream_client cv rfc3339 p topic sv =
     ebind (normalizeConsumePartitions (cp_partitions p)) (\<lambda>partitions.
     ebind (normalizeConsumePartitionOffsets (cp_partition_offsets p)) (\<lambda>partitionOffsets.
     let partitions = (if partitions = [] \<and> partitionOffsets \<noteq> [] then offsetPartitions partitionOffsets
                       else partitions) in
     ebind (isolationLevelValue (cp_isolation p)) (\<lambda>isolation.
     ebind (buildConsumeOpts rfc3339 p topic (trim_space (cp_group p)) partitions partitionOffsets isolation) (\<lambda>opts.
     ebind (case cp_schema p of
              None \<Rightarrow> Inr ()
            | Some (registry, subject) \<Rightarrow>
                ebind (schemaMountSupported (cp_connection p) registry ''consume'' sv) (\<lambda>_.
                ebind (confluentClientFor cv (cp_connection p) sv) (\<lambda>_. Inr ()))) (\<lambda>_.
     consumeClient cv (cp_connection p) opts sv)))))"

definition StartStream ::
  "client_env \<Rightarrow> text_lib \<Rightarrow> (string \<Rightarrow> int option) \<Rightarrow> int \<Rightarrow> consume_params \<Rightarrow> 'w service
     \<Rightarrow> stream_status res \<times> 'w service" where
  "StartStream cv tx rfc3339 nanos p sv =
     (case getEntry (cp_connection p) sv of
        None \<Rightarrow> (Inl (errConnectionNotFound (cp_connection p)), sv)
      | Some e \<Rightarrow>
          (let topic = trim_space (cp_topic p) in
             if topic = [] then (Inl (Errf ''topic is required'' []), sv)
             else case validateConsumeParams tx p of
               Inl x \<Rightarrow> (Inl x, sv)
             | Inr _ \<Rightarrow>
                 if cp_commit p \<and> ReadOnly (ce_profile e)
                 then (Inl (Errf ''kafka profile %q is read-only; commit is blocked'' [pf_name (ce_profile e)]), sv)
                 else (case reserve_session nanos (sv_streams sv) of
                         Inl x \<Rightarrow> (Inl x, sv)
                       | Inr (sid, streams) \<Rightarrow>
                           (let sv = sv\<lparr>sv_streams := streams\<rparr> in
                            case stream_client cv rfc3339 p topic sv of
                              Inl x \<Rightarrow> (Inl x, sv)
                            | Inr c \<Rightarrow>
                                (let session = new_session sid (cp_connection p) topic c (cv_now cv);
                                     streams = insert_session session (sv_streams sv)
                                 in (Status sid streams, sv\<lparr>sv_streams := streams\<rparr>))))))"

section \<open>Testing a connection\<close>

text \<open>The options the test adds to those of a client.\<close>

datatype test_opt =
    TestOverhead int
  | TestLogger
  | ProbeDialer "tls_config option"

definition test_seeds :: "net_lib \<Rightarrow> profile \<Rightarrow> conn_target \<Rightarrow> string list res" where
  "test_seeds nl p t =
     (if ConnectionSource p = ''zookeeper'' then zkSeedsForTest nl p else Inr (seedBrokers p t))"

text \<open>
  \<open>new_client\<close> makes a client and \<open>list_brokers\<close> counts the brokers it finds; \<open>elapsed\<close> is
  the rounded duration. The message, and the summary written to the log, if the client was
  made; a client that was made is closed at the end.
\<close>

definition TestConnection ::
  "json_lib \<Rightarrow> net_lib \<Rightarrow> (test_opt client_opt list \<Rightarrow> nat res) \<Rightarrow> (nat \<Rightarrow> int res) \<Rightarrow> string \<Rightarrow> (goerr \<Rightarrow> string)
     \<Rightarrow> lc_params \<Rightarrow> string res \<times> test_summary option \<times> nat list" where
  "TestConnection jl nl new_client list_brokers elapsed err_text params =
     (case ebind (NewProfileFromLifecycle jl params) (\<lambda>(p, s).
           let e = new_entry params p s in
           ebind (test_seeds nl p (ce_target e)) (\<lambda>seeds.
           ebind (buildClientOptsWithSeeds nl p s (ce_target e) seeds True []) (\<lambda>(opts, tls).
           ebind (new_client (opts @ [ExtraOpt (TestOverhead 7000000000), ExtraOpt TestLogger]
                    @ (if tgt_proxy (ce_target e) = None then [ExtraOpt (ProbeDialer tls)] else []))) (\<lambda>c.
           Inr (p, ce_target e, seeds, c))))) of
        Inl x \<Rightarrow> (Inl x, None, [])
      | Inr (p, t, seeds, c) \<Rightarrow>
          (let summary = \<lparr>ts_seeds = seeds, ts_source = seedSourceLabel p t, ts_profile = p, ts_elapsed = elapsed,
                 ts_status = ''ok'', ts_brokers = 0, ts_err = []\<rparr>
           in case list_brokers c of
                Inl x \<Rightarrow>
                  (Inl (Wrapf ''connect to %s failed after %s (%s): %w''
                     [join_with '','' seeds, elapsed, securitySummary p] x),
                   Some (summary\<lparr>ts_status := ''failed'', ts_err := err_text x\<rparr>), [c])
              | Inr n \<Rightarrow>
                  (Inr (''connected to '' @ join_with '','' (BootstrapServers p) @ '' ('' @ format_int n
                     @ '' broker(s), protocol='' @ SecurityProtocol p @ '')''),
                   Some (summary\<lparr>ts_brokers := n\<rparr>), [c])))"

section \<open>What a connection holds\<close>

definition holds_admin :: "string \<Rightarrow> nat \<Rightarrow> 'w service \<Rightarrow> bool" where
  "holds_admin conn c sv \<longleftrightarrow> (\<exists>e. map_of (sv_conns sv) conn = Some e \<and> ce_client e = Some c)"

definition holds_session :: "string \<Rightarrow> nat \<Rightarrow> stream_registry \<Rightarrow> bool" where
  "holds_session conn c r \<longleftrightarrow> (\<exists>s \<in> snd ` set (sr_sessions r). sn_connection s = conn \<and> sn_client s = c)"

definition holds_pooled :: "string \<Rightarrow> nat \<Rightarrow> pool \<Rightarrow> bool" where
  "holds_pooled conn c p \<longleftrightarrow>
     (\<exists>r \<in> snd ` set (pl_table p). \<exists>e. pl_heap p r = Some e \<and> pe_conn e = conn \<and> pe_client e = Some c)"

definition holds_conn :: "string \<Rightarrow> nat \<Rightarrow> 'w service \<Rightarrow> bool" where
  "holds_conn conn c sv \<longleftrightarrow>
     holds_admin conn c sv \<or> holds_session conn c (sv_streams sv) \<or> holds_pooled conn c (sv_pool sv)"

definition closed_clients :: "'w service \<Rightarrow> nat set" where
  "closed_clients sv = set (sv_closed sv) \<union> set (sr_closed (sv_streams sv)) \<union> set (pl_closed (sv_pool sv))"

lemma shutdown_all:
  "sr_sessions (fold shutdownSession ss r) = sr_sessions r
   \<and> set (sr_closed (fold shutdownSession ss r)) = set (sr_closed r) \<union> sn_client ` set ss"
  by (induction ss arbitrary: r) (auto simp: shutdownSession_def)

lemma stop_where_spec:
  "sr_sessions (stop_where doomed r) = filter (\<lambda>(i, s). \<not> doomed s) (sr_sessions r)"
  "set (sr_closed (stop_where doomed r)) = set (sr_closed r) \<union> sn_client ` {s \<in> snd ` set (sr_sessions r). doomed s}"
  by (simp_all add: stop_where_def shutdown_all)

lemma holds_session_stop:
  "holds_session conn c (StopAllForConnection i r) \<longleftrightarrow> conn \<noteq> i \<and> holds_session conn c r"
  "holds_session i c r \<Longrightarrow> c \<in> set (sr_closed (StopAllForConnection i r))"
  "set (sr_closed r) \<subseteq> set (sr_closed (StopAllForConnection i r))"
  unfolding StopAllForConnection_def stop_where_spec holds_session_def by force+

lemma holds_pooled_close:
  assumes "pool_inv p"
  shows "holds_pooled conn c (consumePoolCloseFor i p) \<longleftrightarrow> conn \<noteq> i \<and> holds_pooled conn c p"
    and "holds_pooled i c p \<Longrightarrow> c \<in> set (pl_closed (consumePoolCloseFor i p))"
proof -
  note c = close_all_spec [OF assms, where doomed = "\<lambda>e. pe_conn e = i", folded consumePoolCloseFor_def]
  show "holds_pooled conn c (consumePoolCloseFor i p) \<longleftrightarrow> conn \<noteq> i \<and> holds_pooled conn c p"
  proof -
    let ?dm = "\<lambda>r. \<exists>e. pl_heap p r = Some e \<and> pe_conn e = i"
    have m: "r \<in> snd ` set (pl_table (consumePoolCloseFor i p)) \<longleftrightarrow> r \<in> snd ` set (pl_table p) \<and> \<not> ?dm r" for r
      unfolding c(2) by force
    have h: "pl_heap (consumePoolCloseFor i p) r = pl_heap p r" if "\<not> ?dm r" for r
      using that unfolding c(4) by auto
    have "(r \<in> snd ` set (pl_table (consumePoolCloseFor i p))
          \<and> (\<exists>e. pl_heap (consumePoolCloseFor i p) r = Some e \<and> pe_conn e = conn \<and> pe_client e = Some c))
        \<longleftrightarrow> conn \<noteq> i \<and> r \<in> snd ` set (pl_table p) \<and> (\<exists>e. pl_heap p r = Some e \<and> pe_conn e = conn \<and> pe_client e = Some c)" for r
      unfolding m using h [of r] by (cases "?dm r") auto
    then show ?thesis unfolding holds_pooled_def Bex_def by blast
  qed
  show "holds_pooled i c p \<Longrightarrow> c \<in> set (pl_closed (consumePoolCloseFor i p))"
    unfolding holds_pooled_def c(5) by (auto simp: holds_client_def)
qed

lemma closeLocked_client: "set (fst (closeLocked e)) = {c. ce_client e = Some c}"
  by (auto simp: closeLocked_def split: option.splits)

text \<open>
  C20. Disconnecting releases exactly what the connection held: afterwards it has no entry,
  no session and no pooled client, every client it had is closed, and what the other
  connections hold is as before. A session or a pooled client belongs to the connection id
  as the request spelt it, so one started under a padded spelling counts as another.
\<close>

theorem disconnect_releases:
  assumes "pool_inv (sv_pool sv)" "distinct (map fst (sv_conns sv))" "conn \<noteq> []"
  shows "map_of (sv_conns (Disconnect conn sv)) conn = None
    \<and> {c. holds_conn conn c sv} \<subseteq> closed_clients (Disconnect conn sv)
    \<and> (\<forall>other c. holds_conn other c (Disconnect conn sv) = (other \<noteq> conn \<and> holds_conn other c sv))"
proof -
  let ?sv = "Disconnect conn sv"
  note pool = holds_pooled_close [OF assms(1)]
  have parts: "sv_streams ?sv = StopAllForConnection conn (sv_streams sv)"
    "sv_pool ?sv = consumePoolCloseFor conn (sv_pool sv)" "sv_conns ?sv = AList.delete conn (sv_conns sv)"
    "set (sv_closed ?sv) = set (sv_closed sv) \<union> {c. holds_admin conn c sv}"
    using assms(3) by (auto simp: Disconnect_def Let_def holds_admin_def closeLocked_client split: option.splits)
  have adm: "holds_admin other c ?sv \<longleftrightarrow> other \<noteq> conn \<and> holds_admin other c sv" for other c
    by (simp add: holds_admin_def parts delete_conv)
  have "holds_conn other c ?sv \<longleftrightarrow> other \<noteq> conn \<and> holds_conn other c sv" for other c
    unfolding holds_conn_def adm parts pool(1) holds_session_stop(1) by blast
  moreover have "c \<in> closed_clients ?sv" if "holds_conn conn c sv" for c
    using that holds_session_stop(2) pool(2) unfolding holds_conn_def closed_clients_def parts by blast
  ultimately show ?thesis by (auto simp: parts delete_conv)
qed

definition sample_entry :: conn_entry where
  "sample_entry =
     \<lparr>ce_profile = zero_profile\<lparr>pf_id := ''c1''\<rparr>, ce_secrets = secret_fields no_json sample_params,
      ce_target = \<lparr>tgt_host = [], tgt_port = 0, tgt_proxy = None\<rparr>, ce_client = Some 3, ce_fingerprint = [],
      ce_connected_at = 0, ce_last_used = 0, ce_status = ''connected'', ce_error = None\<rparr>"

text \<open>A connection with an admin client, a session and a session under a padded spelling.\<close>

definition sample_service :: "unit service" where
  "sample_service =
     (NewService ())\<lparr>sv_conns := [(''c1'', sample_entry)],
       sv_streams := insert_session (new_session ''s2'' '' c1'' ''t'' 5 0)
         (insert_session (new_session ''s1'' ''c1'' ''t'' 4 0) NewStreamRegistry)\<rparr>"

theorem disconnect_releases_witness:
  "{3, 4} \<subseteq> closed_clients (Disconnect ''c1'' sample_service)
   \<and> holds_conn '' c1'' 5 (Disconnect ''c1'' sample_service)"
proof -
  have "pool_inv (sv_pool sample_service)" "distinct (map fst (sv_conns sample_service))"
    by (simp_all add: sample_service_def NewService_def pool_inv_new)
  note d = disconnect_releases [OF this, of "''c1''"]
  have "holds_conn ''c1'' 3 sample_service" "holds_conn ''c1'' 4 sample_service" "holds_conn '' c1'' 5 sample_service"
    by (simp_all add: holds_conn_def holds_admin_def holds_session_def sample_service_def sample_entry_def
        insert_session_def new_session_def NewStreamRegistry_def)
  then show ?thesis using d by auto
qed

text \<open>
  Connecting again under an id closes the old admin client and stops the id's sessions,
  but leaves the pool alone: a one-off consumption after it is handed exactly the clients
  that were built for the previous configuration.
\<close>

theorem reconnect_keeps_pooled_clients:
  assumes "Connect jl params sv = (Inr (), sv')" "map_of (sv_conns sv) (ConnectionID params) \<noteq> None"
    and "i = ConnectionID params"
  shows "{c. holds_admin i c sv \<or> holds_session i c (sv_streams sv)} \<subseteq> closed_clients sv'
    \<and> (\<forall>c. \<not> holds_admin i c sv' \<and> \<not> holds_session i c (sv_streams sv'))
    \<and> (\<forall>c. holds_pooled i c (sv_pool sv') = holds_pooled i c (sv_pool sv))
    \<and> consumePoolAcquire now i g b (sv_pool sv') = consumePoolAcquire now i g b (sv_pool sv)"
proof -
  obtain p s where p: "NewProfileFromLifecycle jl params = Inr (p, s)"
    using assms(1) by (auto simp: Connect_def split: sum.splits)
  have id: "pf_id p = i" using accepted_policy(1) [OF p] assms(3) by simp
  obtain e where e: "map_of (sv_conns sv) i = Some e" using assms(2,3) by auto
  have sv': "sv_streams sv' = StopAllForConnection i (sv_streams sv)" "sv_pool sv' = sv_pool sv"
    "sv_conns sv' = AList.update i (new_entry params p s) (sv_conns sv)"
    "set (sv_closed sv') = set (sv_closed sv) \<union> {c. holds_admin i c sv}"
    using assms(1) p e by (auto simp: Connect_def Let_def id holds_admin_def closeLocked_client)
  have "\<not> holds_admin i c sv'" for c by (simp add: holds_admin_def sv' update_conv new_entry_def Let_def)
  then show ?thesis
    using holds_session_stop(1) [of i _ i] holds_session_stop(2) [of i] by (auto simp: sv' closed_clients_def)
qed

text \<open>The pool of the sample holds a client of \<open>c1\<close>.\<close>

theorem reconnect_keeps_pooled_clients_witness:
  "\<exists>sv'. Connect no_json sample_params (sample_service\<lparr>sv_pool := sample_pool\<rparr>) = (Inr (), sv')
     \<and> {3, 4} \<subseteq> closed_clients sv' \<and> holds_pooled ''c1'' 7 (sv_pool sv')"
proof -
  let ?sv = "sample_service\<lparr>sv_pool := sample_pool\<rparr>"
  have i: "''c1'' = ConnectionID sample_params"
    by (simp add: ConnectionID_def sample_params_def trim_space_graphic graphic_def)
  obtain sv' where c: "Connect no_json sample_params ?sv = (Inr (), sv')"
  proof -
    obtain p s where "NewProfileFromLifecycle no_json sample_params = Inr (p, s)" using sample_params_accepted by blast
    then have "fst (Connect no_json sample_params ?sv) = Inr ()" by (simp add: Connect_def Let_def split: option.splits)
    then show ?thesis using that by (metis prod.collapse)
  qed
  have old: "map_of (sv_conns ?sv) (ConnectionID sample_params) \<noteq> None"
    by (simp add: sample_service_def flip: i)
  have "holds_admin ''c1'' 3 ?sv" "holds_session ''c1'' 4 (sv_streams ?sv)" "holds_pooled ''c1'' 7 (sv_pool ?sv)"
    by (simp_all add: holds_admin_def holds_session_def holds_pooled_def sample_service_def sample_entry_def
        insert_session_def new_session_def NewStreamRegistry_def sample_pool_eq)
  then show ?thesis using reconnect_keeps_pooled_clients [OF c old i] c by blast
qed

end
