(* ===== verification/KafkaPolicy.thy ===== *)
theory KafkaPolicy
  imports KafkaProfile
begin

text \<open>
  \<open>kafkaconn/policy.go\<close> and \<open>kafkaconn/helpers.go\<close>: the write and delete guards, the
  confirmation of a topic deletion, and the normalisation of requests. A Go map the code
  ranges over is an association list with distinct keys. \<open>time.Parse(time.RFC3339, \<dots>)\<close>
  is the argument \<open>rfc3339\<close> (milliseconds, or None for a text it rejects).
\<close>

section \<open>policy.go\<close>

definition ensureWriteAllowed :: "profile \<Rightarrow> string \<Rightarrow> unit res" where
  "ensureWriteAllowed profile action =
     (if ReadOnly profile
      then Inl (Errf ''kafka profile %q is read-only; %s is blocked'' [pf_name profile, action])
      else Inr ())"

definition ensureDeleteAllowed :: "profile \<Rightarrow> string \<Rightarrow> unit res" where
  "ensureDeleteAllowed profile action =
     ebind (ensureWriteAllowed profile action) (\<lambda>_.
       if \<not> AllowDelete profile
       then Inl (Errf ''kafka profile %q does not allow delete operations; %s is blocked'' [pf_name profile, action])
       else Inr ())"

text \<open>The loop of \<open>normalizeTopicNames\<close> with its set \<open>seen\<close>.\<close>

fun topic_names_loop :: "string list \<Rightarrow> string list \<Rightarrow> string list" where
  "topic_names_loop seen [] = []"
| "topic_names_loop seen (t # ts) =
     (let topic = trim_space t in
        if topic = [] \<or> topic \<in> set seen then topic_names_loop seen ts
        else topic # topic_names_loop (topic # seen) ts)"

definition normalizeTopicNames :: "string list \<Rightarrow> string list" where
  "normalizeTopicNames topics = topic_names_loop [] topics"

record topics_delete_request =
  td_connection :: string
  td_topics :: "string list"
  td_confirm :: string
  td_confirms :: "string list"
  td_source :: string

definition ensureTopicDeleteConfirm :: "topics_delete_request \<Rightarrow> unit res" where
  "ensureTopicDeleteConfirm req =
     (let topics = normalizeTopicNames (td_topics req) in
        if topics = [] then Inl (InvalidParams ''topics is required'' [])
        else if length topics > 1 then
          (if length (td_confirms req) \<noteq> length topics
           then Inl (InvalidParams ''confirmTopics must list exactly the topics to delete (got %d, want %d)''
                       [format_int (int (length (td_confirms req))), format_int (int (length topics))])
           else
             (let confirmed = normalizeTopicNames (td_confirms req) in
                case find (\<lambda>t. t \<notin> set confirmed) topics of
                  Some t \<Rightarrow> Inl (InvalidParams ''confirmTopics mismatch: topic %q not confirmed (confirmTopic guard)'' [t])
                | None \<Rightarrow> Inr ()))
        else if trim_space (td_confirm req) = []
        then Inl (InvalidParams ''confirmTopic must match the topic name to delete (confirmTopic guard)'' [])
        else if trim_space (td_confirm req) \<noteq> hd topics
        then Inl (InvalidParams ''confirmTopic %q does not match topic %q (confirmTopic guard)''
                    [trim_space (td_confirm req), hd topics])
        else Inr ())"

section \<open>helpers.go\<close>

definition joinNames :: "string list \<Rightarrow> string" where
  "joinNames names = join_with '','' names"

definition joinMapKeys :: "(string \<times> 'a) list \<Rightarrow> string" where
  "joinMapKeys m = join_with '','' (sort (map fst m))"

text \<open>\<open>config[key]\<close>: the zero value for a key the map does not have.\<close>

definition lookup_or :: "'a \<Rightarrow> (string \<times> 'a) list \<Rightarrow> string \<Rightarrow> 'a" where
  "lookup_or z m key = (case map_of m key of Some v \<Rightarrow> v | None \<Rightarrow> z)"

text \<open>The loop of \<open>createTopicConfigsFromMap\<close> over the sorted keys; \<open>out\<close> is a map.\<close>

fun create_configs_loop ::
  "(string \<times> string) list \<Rightarrow> string list \<Rightarrow> (string \<times> string) list \<Rightarrow> (string \<times> string) list res" where
  "create_configs_loop config [] out = Inr out"
| "create_configs_loop config (k # ks) out =
     (let key = trim_space k in
        if key = [] then Inl (Errf ''config key cannot be empty'' [])
        else create_configs_loop config ks (AList.update key (lookup_or [] config key) out))"

definition createTopicConfigsFromMap :: "(string \<times> string) list \<Rightarrow> (string \<times> string) list res" where
  "createTopicConfigsFromMap config =
     (if config = [] then Inr [] else create_configs_loop config (sort (map fst config)) [])"

datatype alter_config =
    SetConfig string string      \<comment> \<open>name, value\<close>
  | DeleteConfig string

fun set_configs_loop :: "(string \<times> string) list \<Rightarrow> string list \<Rightarrow> alter_config list res" where
  "set_configs_loop config [] = Inr []"
| "set_configs_loop config (k # ks) =
     (let key = trim_space k in
        if key = [] then Inl (Errf ''config key cannot be empty'' [])
        else ebind (set_configs_loop config ks) (\<lambda>cs. Inr (SetConfig key (lookup_or [] config key) # cs)))"

fun delete_configs_loop :: "string list \<Rightarrow> alter_config list res" where
  "delete_configs_loop [] = Inr []"
| "delete_configs_loop (k # ks) =
     (let key = trim_space k in
        if key = [] then Inl (Errf ''deleteKeys cannot contain empty keys'' [])
        else ebind (delete_configs_loop ks) (\<lambda>cs. Inr (DeleteConfig key # cs)))"

definition alterConfigsFromMap :: "(string \<times> string) list \<Rightarrow> string list \<Rightarrow> alter_config list res" where
  "alterConfigsFromMap config deleteKeys =
     ebind (set_configs_loop config (sort (map fst config))) (\<lambda>sets.
     ebind (delete_configs_loop deleteKeys) (\<lambda>deletes. Inr (sets @ deletes)))"

text \<open>\<open>result[count] = append(result[count], topic)\<close>\<close>

definition append_at :: "int \<Rightarrow> string \<Rightarrow> (int \<times> string list) list \<Rightarrow> (int \<times> string list) list" where
  "append_at count topic m =
     AList.update count ((case map_of m count of Some ts \<Rightarrow> ts | None \<Rightarrow> []) @ [topic]) m"

fun partition_loop :: "(string \<times> int) list \<Rightarrow> (int \<times> string list) list \<Rightarrow> (int \<times> string list) list res" where
  "partition_loop [] m = Inr m"
| "partition_loop ((t, count) # ps) m =
     (let topic = trim_space t in
        if topic = [] then Inl (Errf ''topic is required'' [])
        else if count \<le> 0 then Inl (Errf ''partition count for %q must be greater than 0'' [topic])
        else partition_loop ps (append_at count topic m))"

definition normalizePartitionUpdates :: "(string \<times> int) list \<Rightarrow> (int \<times> string list) list res" where
  "normalizePartitionUpdates partitions =
     (if partitions = [] then Inl (Errf ''partitions is required'' [])
      else ebind (partition_loop partitions []) (\<lambda>m. Inr (map (\<lambda>(c, ts). (c, sort ts)) m)))"

definition offset_time_error :: goerr where
  "offset_time_error =
     Errf ''offsetTime must be earliest, latest, max-timestamp, log-start, unix milliseconds, or RFC3339'' []"

definition parseOffsetTime :: "(string \<Rightarrow> int option) \<Rightarrow> string \<Rightarrow> (string \<times> int) res" where
  "parseOffsetTime rfc3339 value =
     (let raw = trim_space value; normalized = to_lower raw in
        if normalized \<in> set [[], ''latest'', ''end''] then Inr (''latest'', 0)
        else if normalized \<in> set [''earliest'', ''start'', ''beginning''] then Inr (''earliest'', 0)
        else if normalized \<in> set [''max-timestamp'', ''max_timestamp'', ''maxtimestamp'', ''max'']
        then Inr (''max-timestamp'', 0)
        else if normalized \<in> set [''log-start'', ''log_start'', ''logstart''] then Inr (''log-start'', 0)
        else (case parse_int raw of
                Some parsed \<Rightarrow> if parsed < 0 then Inl offset_time_error else Inr (''timestamp'', parsed)
              | None \<Rightarrow> (case rfc3339 raw of
                          Some millis \<Rightarrow> Inr (''timestamp'', millis)
                        | None \<Rightarrow> Inl offset_time_error)))"

text \<open>A response of the admin client: the topic and its error text, if any.\<close>

record mutation_result =
  mr_topic :: string
  mr_ok :: bool
  mr_error :: string

text \<open>
  \<open>mutationResultsTopic\<close>, \<open>mutationResultsCreatePartitions\<close> and \<open>mutationResultsTopicDelete\<close>:
  the same loop over the sorted responses (\<open>Sorted\<close> sorts by topic); the responses are a map
  from topics.
\<close>

definition mutation_item :: "string \<Rightarrow> string option \<Rightarrow> mutation_result" where
  "mutation_item topic err =
     \<lparr>mr_topic = topic, mr_ok = (err = None), mr_error = (case err of Some e \<Rightarrow> e | None \<Rightarrow> [])\<rparr>"

definition mutationResults :: "(string \<times> string option) list \<Rightarrow> mutation_result list" where
  "mutationResults responses = map (\<lambda>(t, e). mutation_item t e) (sort_key fst responses)"

definition alterConfigResults :: "string option list \<Rightarrow> string \<Rightarrow> mutation_result list" where
  "alterConfigResults responses resource = map (mutation_item resource) responses"

section \<open>Topic names\<close>

lemma topic_names_loop:
  "set (topic_names_loop seen ts) = (trim_space ` set ts) - {[]} - set seen
   \<and> distinct (topic_names_loop seen ts)"
proof (induction ts arbitrary: seen)
  case (Cons t ts)
  show ?case
    using Cons.IH [of seen] Cons.IH [of "trim_space t # seen"] by (auto simp: Let_def)
qed simp

lemma set_normalizeTopicNames: "set (normalizeTopicNames ts) = trim_space ` set ts - {[]}"
  using topic_names_loop [of "[]" ts] by (simp add: normalizeTopicNames_def)

lemma distinct_normalizeTopicNames [simp]: "distinct (normalizeTopicNames ts)"
  using topic_names_loop [of "[]" ts] by (simp add: normalizeTopicNames_def)

lemma length_normalizeTopicNames: "length (normalizeTopicNames ts) \<le> length ts"
proof -
  have "length (topic_names_loop seen ts) \<le> length ts" for seen
    by (induction ts arbitrary: seen) (auto simp: Let_def le_SucI)
  then show ?thesis by (simp add: normalizeTopicNames_def)
qed

lemma topic_names_loop_fixed:
  assumes "\<forall>t \<in> set ts. trim_space t = t \<and> t \<noteq> []" "distinct ts" "set ts \<inter> set seen = {}"
  shows "topic_names_loop seen ts = ts"
  using assms by (induction ts arbitrary: seen) auto

lemma normalizeTopicNames_idem [simp]:
  "normalizeTopicNames (normalizeTopicNames ts) = normalizeTopicNames ts"
  unfolding normalizeTopicNames_def [of "normalizeTopicNames ts"]
  using set_normalizeTopicNames [of ts] by (intro topic_names_loop_fixed) auto

definition confirmed_names :: "topics_delete_request \<Rightarrow> string list" where
  "confirmed_names req =
     (if length (normalizeTopicNames (td_topics req)) > 1 then normalizeTopicNames (td_confirms req)
      else normalizeTopicNames [td_confirm req])"

lemma confirm_exact:
  assumes "ensureTopicDeleteConfirm req = Inr ()"
  shows "normalizeTopicNames (td_topics req) \<noteq> []
    \<and> set (confirmed_names req) = set (normalizeTopicNames (td_topics req))"
proof -
  let ?t = "normalizeTopicNames (td_topics req)" and ?c = "normalizeTopicNames (td_confirms req)"
  have ne: "?t \<noteq> []" using assms by (auto simp: ensureTopicDeleteConfirm_def)
  show ?thesis
  proof (cases "length ?t > 1")
    case True
    then have l: "length (td_confirms req) = length ?t" and sub: "set ?t \<subseteq> set ?c"
      using assms ne
      by (auto simp: ensureTopicDeleteConfirm_def Let_def find_None_iff split: if_splits option.splits)
    have "card (set ?c) = length ?c" "card (set ?t) = length ?t" by (simp_all add: distinct_card)
    then have "card (set ?c) \<le> card (set ?t)" using length_normalizeTopicNames [of "td_confirms req"] l by simp
    then have "set ?c = set ?t" using sub card_seteq [of "set ?c" "set ?t"] by simp
    then show ?thesis using ne True by (simp add: confirmed_names_def)
  next
    case False
    then obtain t where t: "?t = [t]" using ne by (cases ?t) auto
    then have "trim_space (td_confirm req) = t" "t \<noteq> []"
      using assms set_normalizeTopicNames [of "td_topics req"]
      by (auto simp: ensureTopicDeleteConfirm_def Let_def split: if_splits)
    then show ?thesis using t by (simp add: confirmed_names_def normalizeTopicNames_def)
  qed
qed

end
