(* ===== verification/GoIO.thy ===== *)
theory GoIO
  imports GoBase
begin

text \<open>
  Calls that talk to the outside: a function from the state of the outside world, of any
  type, to a result and the new state. \<open>io_bind\<close> stops at the first error, as
  \<open>if err != nil { return err }\<close> does; \<open>io_try\<close> hands the error to the code that follows.
\<close>

type_synonym ('w, 'a) io = "'w \<Rightarrow> 'a res \<times> 'w"

definition io_res :: "'a res \<Rightarrow> ('w, 'a) io" where
  "io_res r = (\<lambda>w. (r, w))"

definition io_bind :: "('w, 'a) io \<Rightarrow> ('a \<Rightarrow> ('w, 'b) io) \<Rightarrow> ('w, 'b) io" where
  "io_bind m f = (\<lambda>w. case m w of (Inl e, w') \<Rightarrow> (Inl e, w') | (Inr x, w') \<Rightarrow> f x w')"

definition io_try :: "('w, 'a) io \<Rightarrow> ('a res \<Rightarrow> ('w, 'b) io) \<Rightarrow> ('w, 'b) io" where
  "io_try m f = (\<lambda>w. case m w of (r, w') \<Rightarrow> f r w')"

abbreviation io_fail :: "goerr \<Rightarrow> ('w, 'a) io" where
  "io_fail e \<equiv> io_res (Inl e)"

abbreviation io_ok :: "'a \<Rightarrow> ('w, 'a) io" where
  "io_ok x \<equiv> io_res (Inr x)"

text \<open>The calls of a list one after the other, with their results.\<close>

fun io_list :: "('a \<Rightarrow> ('w, 'b) io) \<Rightarrow> 'a list \<Rightarrow> ('w, 'b list) io" where
  "io_list f [] = io_ok []"
| "io_list f (x # xs) = io_bind (f x) (\<lambda>y. io_bind (io_list f xs) (\<lambda>ys. io_ok (y # ys)))"

lemma io_simps [simp]:
  "io_res r w = (r, w)"
  "io_bind (io_res (Inl e)) f = io_res (Inl e)"
  "io_bind (io_res (Inr x)) f = f x"
  "io_try (io_res r) g = g r"
  by (simp_all add: io_res_def io_bind_def io_try_def fun_eq_iff)

lemma io_res_eq_iff [simp]: "io_res r = io_res s \<longleftrightarrow> r = s"
  by (auto simp: io_res_def dest: fun_cong)

lemma io_bind_eq: "io_bind m f w = (case m w of (Inl e, w') \<Rightarrow> (Inl e, w') | (Inr x, w') \<Rightarrow> f x w')"
  by (simp add: io_bind_def)

lemma io_try_eq: "io_try m f w = (case m w of (r, w') \<Rightarrow> f r w')"
  by (simp add: io_try_def)

text \<open>A call that leaves the outside as it is.\<close>

definition io_pure :: "('w, 'a) io \<Rightarrow> bool" where
  "io_pure m \<longleftrightarrow> (\<forall>w. snd (m w) = w)"

lemma io_pure_intros [intro, simp]:
  "io_pure (io_res r)"
  "io_pure m \<Longrightarrow> (\<And>x. io_pure (f x)) \<Longrightarrow> io_pure (io_bind m f)"
  "io_pure m \<Longrightarrow> (\<And>r. io_pure (g r)) \<Longrightarrow> io_pure (io_try m g)"
  by (auto simp: io_pure_def io_bind_def io_try_def split: prod.splits sum.splits) (metis snd_conv)+

lemma io_pure_list [intro, simp]: "(\<And>x. io_pure (f x)) \<Longrightarrow> io_pure (io_list f xs)"
  by (induction xs) auto

end
