(* ===== verification/KafkaAdmin.thy ===== *)
theory KafkaAdmin
  imports KafkaService KafkaPolicy GoIO "HOL-Library.Multiset"
begin

text \<open>
  The management methods of \<open>topics.go\<close>, \<open>groups.go\<close> and \<open>acls.go\<close>, with the ACL names of
  \<open>helpers.go\<close>. The calls on the admin client are the record \<open>admin_lib\<close>: each is given the
  client and changes what is behind it. A map of the library that the code looks up in is an
  association list; its order is that of the library's \<open>Each\<close> and \<open>Sorted\<close> is by key.
\<close>

section \<open>What the admin client answers\<close>

record broker_meta =
  bm_node :: int
  bm_host :: string
  bm_port :: int
  bm_rack :: "string option"

record partition_meta =
  pm_partition :: int
  pm_leader :: int
  pm_epoch :: int
  pm_replicas :: "int list"
  pm_isr :: "int list"
  pm_offline :: "int list"
  pm_error :: "goerr option"

record topic_meta =
  tm_topic :: string
  tm_id :: string
  tm_internal :: bool
  tm_replicas :: int                   \<comment> \<open>\<open>Partitions.NumReplicas()\<close>\<close>
  tm_partitions :: "partition_meta list"
  tm_error :: "goerr option"

record config_meta =
  cf_key :: string
  cf_value :: string                   \<comment> \<open>\<open>MaybeValue()\<close>\<close>
  cf_sensitive :: bool
  cf_source :: string

record listed =
  li_topic :: string
  li_partition :: int
  li_offset :: int
  li_timestamp :: int
  li_epoch :: int
  li_error :: "goerr option"

record committed =
  cm_topic :: string
  cm_partition :: int
  cm_at :: int
  cm_error :: "goerr option"

record target =
  ta_topic :: string
  ta_partition :: int
  ta_at :: int
  ta_epoch :: int

record deleted_records =
  dr_topic :: string
  dr_partition :: int
  dr_low :: int
  dr_error :: "goerr option"

record group_meta =
  gm_group :: string
  gm_state :: string
  gm_protocol_type :: string
  gm_coordinator :: int

record member_meta =
  mm_id :: string
  mm_instance :: "string option"
  mm_client :: string
  mm_host :: string
  mm_assigned :: "(string \<times> int list) list option"      \<comment> \<open>\<open>AsConsumer()\<close>\<close>

record described_group =
  dg_group :: string
  dg_state :: string
  dg_protocol_type :: string
  dg_protocol :: string
  dg_coordinator :: int
  dg_members :: "member_meta list"
  dg_error :: "goerr option"

datatype acl_resource = AnyResource | Topics | Groups | Clusters | TransactionalIDs | DelegationTokens

record acl_builder =
  ab_pattern :: string
  ab_resource :: acl_resource
  ab_name :: string
  ab_operation :: string
  ab_deny :: bool
  ab_principal :: string
  ab_host :: string

record acl_binding =
  ac_resource_type :: string
  ac_resource_name :: string
  ac_pattern_type :: string
  ac_principal :: string
  ac_host :: string
  ac_operation :: string
  ac_permission :: string
  ac_error :: "goerr option"

text \<open>
  The calls. A call that acts on several resources answers with one result for each; a
  listing of several topics with one item for each partition.
\<close>

record 'w admin_lib =
  ad_brokers :: "nat \<Rightarrow> ('w, broker_meta list) io"
  ad_broker_configs :: "nat \<Rightarrow> int \<Rightarrow> ('w, config_meta list list) io"
  ad_topics :: "nat \<Rightarrow> bool \<Rightarrow> string list \<Rightarrow> ('w, topic_meta list) io"      \<comment> \<open>with internal topics?\<close>
  ad_create_topics :: "nat \<Rightarrow> int \<Rightarrow> int \<Rightarrow> (string \<times> string) list \<Rightarrow> string list \<Rightarrow> ('w, (string \<times> string option) list) io"
  ad_delete_topics :: "nat \<Rightarrow> string list \<Rightarrow> ('w, (string \<times> string option) list) io"
  ad_update_partitions :: "nat \<Rightarrow> int \<Rightarrow> string list \<Rightarrow> ('w, (string \<times> string option) list) io"
  ad_topic_configs :: "nat \<Rightarrow> string \<Rightarrow> ('w, config_meta list list) io"
  ad_alter_configs :: "nat \<Rightarrow> alter_config list \<Rightarrow> string \<Rightarrow> ('w, string option list) io"
  ad_list_offsets :: "nat \<Rightarrow> string \<Rightarrow> int \<Rightarrow> string list \<Rightarrow> ('w, listed list) io"    \<comment> \<open>which, milliseconds\<close>
  ad_delete_records :: "nat \<Rightarrow> target list \<Rightarrow> ('w, deleted_records list) io"
  ad_groups :: "nat \<Rightarrow> ('w, group_meta list) io"
  ad_describe_group :: "nat \<Rightarrow> string \<Rightarrow> ('w, described_group list) io"
  ad_fetch_offsets :: "nat \<Rightarrow> string \<Rightarrow> string list \<Rightarrow> ('w, committed list) io"
  ad_delete_group :: "nat \<Rightarrow> string \<Rightarrow> ('w, (string \<times> goerr option) list) io"
  ad_commit_offsets :: "nat \<Rightarrow> string \<Rightarrow> target list \<Rightarrow> 'w \<Rightarrow> committed list \<times> goerr option \<times> 'w"
  ad_describe_acls :: "nat \<Rightarrow> acl_builder \<Rightarrow> ('w, (acl_binding list + goerr) list) io"
  ad_create_acls :: "nat \<Rightarrow> acl_builder \<Rightarrow> ('w, goerr option list) io"
  ad_delete_acls :: "nat \<Rightarrow> acl_builder \<Rightarrow> ('w, (acl_binding list + goerr) list) io"

section \<open>Shaping the answers\<close>

record topic_info =
  ti_name :: string
  ti_id :: string
  ti_internal :: bool
  ti_partitions :: int
  ti_replication :: int
  ti_error :: "goerr option"
  ti_healthy :: bool
  ti_unhealthy :: int

record partition_info =
  pi_partition :: int
  pi_leader :: int
  pi_epoch :: int
  pi_replicas :: "int list"
  pi_isr :: "int list"
  pi_offline :: "int list"
  pi_healthy :: bool
  pi_error :: "goerr option"

record config_entry =
  ci_name :: string
  ci_value :: string
  ci_source :: string
  ci_sensitive :: bool
  ci_default :: bool

definition partitionIsHealthy :: "int \<Rightarrow> int list \<Rightarrow> int list \<Rightarrow> int list \<Rightarrow> goerr option \<Rightarrow> bool" where
  "partitionIsHealthy leader isr replicas offline err \<longleftrightarrow>
     err = None \<and> 0 \<le> leader \<and> offline = [] \<and> length isr = length replicas"

definition meta_healthy :: "partition_meta \<Rightarrow> bool" where
  "meta_healthy p = partitionIsHealthy (pm_leader p) (pm_isr p) (pm_replicas p) (pm_offline p) (pm_error p)"

definition topic_info_of :: "topic_meta \<Rightarrow> topic_info" where
  "topic_info_of t =
     (let unhealthy = length (filter (\<lambda>p. \<not> meta_healthy p) (tm_partitions t)) in
        \<lparr>ti_name = tm_topic t, ti_id = tm_id t, ti_internal = tm_internal t,
         ti_partitions = int (length (tm_partitions t)), ti_replication = tm_replicas t, ti_error = tm_error t,
         ti_healthy = (tm_error t = None \<and> unhealthy = 0), ti_unhealthy = int unhealthy\<rparr>)"

definition topicInfos :: "topic_meta list \<Rightarrow> topic_info list" where
  "topicInfos details = map topic_info_of (sort_key tm_topic details)"

definition partition_info_of :: "partition_meta \<Rightarrow> partition_info" where
  "partition_info_of p =
     \<lparr>pi_partition = pm_partition p, pi_leader = pm_leader p, pi_epoch = pm_epoch p, pi_replicas = pm_replicas p,
      pi_isr = pm_isr p, pi_offline = pm_offline p, pi_healthy = meta_healthy p, pi_error = pm_error p\<rparr>"

definition partitionInfos :: "topic_meta \<Rightarrow> partition_info list" where
  "partitionInfos detail = map partition_info_of (sort_key pm_partition (tm_partitions detail))"

definition configEntries :: "config_meta list \<Rightarrow> config_entry list" where
  "configEntries configs =
     map (\<lambda>c. \<lparr>ci_name = cf_key c, ci_value = cf_value c, ci_source = cf_source c, ci_sensitive = cf_sensitive c,
               ci_default = (cf_source c = ''DEFAULT_CONFIG'' \<or> cf_source c = ''INHERITED'')\<rparr>) configs"

text \<open>\<open>configs[0].Configs\<close>, if there is one.\<close>

definition first_configs :: "config_meta list list \<Rightarrow> config_entry list" where
  "first_configs configs = (case configs of [] \<Rightarrow> [] | c # _ \<Rightarrow> configEntries c)"

definition listed_row :: "listed \<Rightarrow> listed" where
  "listed_row i = i\<lparr>li_offset := (if li_offset i < 0 then 0 else li_offset i),
                    li_timestamp := (if li_timestamp i < 0 then 0 else li_timestamp i),
                    li_epoch := (if li_epoch i < 0 then 0 else li_epoch i)\<rparr>"

definition listedOffsetRows :: "listed list \<Rightarrow> listed list" where
  "listedOffsetRows offsets = sort_key (\<lambda>i. (li_topic i, li_partition i)) (map listed_row offsets)"

section \<open>Reading topics and brokers\<close>

definition trimmed_topic :: "string \<Rightarrow> string res" where
  "trimmed_topic topic =
     (let t = trim_space topic in if t = [] then Inl (Errf ''topic is required'' []) else Inr t)"

text \<open>A client call inside \<open>withAdmin\<close>, whose answer is shaped by \<open>f\<close>.\<close>

definition admin_call ::
  "client_env \<Rightarrow> string \<Rightarrow> (nat \<Rightarrow> ('w, 'a) io) \<Rightarrow> ('a \<Rightarrow> 'b res) \<Rightarrow> 'w service \<Rightarrow> 'b res \<times> 'w service" where
  "admin_call cv conn m f = withAdmin cv conn (\<lambda>c. io_bind (m c) (\<lambda>x. io_res (f x)))"

definition ListBrokers ::
  "client_env \<Rightarrow> 'w admin_lib \<Rightarrow> string \<Rightarrow> 'w service \<Rightarrow> (broker_info list \<times> string) res \<times> 'w service" where
  "ListBrokers cv ad conn sv =
     (if ConnectionSource (profileOf conn sv) = ''zookeeper'' then
        (ebind (discoverBrokersViaZK (cv_net cv) (profileOf conn sv)) (\<lambda>bs. Inr (bs, ''zookeeper'')), sv)
      else
        admin_call cv conn (ad_brokers ad)
          (\<lambda>bs. Inr (map (\<lambda>b. \<lparr>br_node = bm_node b, br_host = bm_host b, br_port = bm_port b,
                             br_rack = firstNonEmpty [case bm_rack b of Some r \<Rightarrow> r | None \<Rightarrow> [], []]\<rparr>) bs,
                     ''bootstrap'')) sv)"

definition DescribeBrokerConfig ::
  "client_env \<Rightarrow> 'w admin_lib \<Rightarrow> string \<Rightarrow> int \<Rightarrow> 'w service \<Rightarrow> config_entry list res \<times> 'w service" where
  "DescribeBrokerConfig cv ad conn brokerID =
     admin_call cv conn (\<lambda>c. ad_broker_configs ad c brokerID) (\<lambda>cs. Inr (first_configs cs))"

definition ListTopics ::
  "client_env \<Rightarrow> 'w admin_lib \<Rightarrow> string \<Rightarrow> bool \<Rightarrow> 'w service \<Rightarrow> topic_info list res \<times> 'w service" where
  "ListTopics cv ad conn internal =
     admin_call cv conn (\<lambda>c. ad_topics ad c internal []) (\<lambda>ts. Inr (topicInfos ts))"

definition DescribeTopic ::
  "client_env \<Rightarrow> 'w admin_lib \<Rightarrow> string \<Rightarrow> string \<Rightarrow> 'w service \<Rightarrow> (string \<times> partition_info list) res \<times> 'w service" where
  "DescribeTopic cv ad conn topic sv =
     (case trimmed_topic topic of
        Inl e \<Rightarrow> (Inl e, sv)
      | Inr topic \<Rightarrow>
          admin_call cv conn (\<lambda>c. ad_topics ad c False [topic])
            (\<lambda>details. case find (\<lambda>t. tm_topic t = topic) details of
                None \<Rightarrow> Inl (Errf ''topic %q not found'' [topic])
              | Some d \<Rightarrow> (case tm_error d of Some e \<Rightarrow> Inl e | None \<Rightarrow> Inr (topic, partitionInfos d))) sv)"

definition GetTopicConfig ::
  "client_env \<Rightarrow> 'w admin_lib \<Rightarrow> string \<Rightarrow> string \<Rightarrow> 'w service \<Rightarrow> config_entry list res \<times> 'w service" where
  "GetTopicConfig cv ad conn topic sv =
     (case trimmed_topic topic of
        Inl e \<Rightarrow> (Inl e, sv)
      | Inr topic \<Rightarrow> admin_call cv conn (\<lambda>c. ad_topic_configs ad c topic) (\<lambda>cs. Inr (first_configs cs)) sv)"

definition ListTopicOffsets ::
  "client_env \<Rightarrow> 'w admin_lib \<Rightarrow> (string \<Rightarrow> int option) \<Rightarrow> string \<Rightarrow> string list \<Rightarrow> string \<Rightarrow> 'w service
     \<Rightarrow> listed list res \<times> 'w service" where
  "ListTopicOffsets cv ad rfc3339 conn topics offsetTime sv =
     (let topics = normalizeTopicNames topics in
        if topics = [] then (Inl (Errf ''topics is required'' []), sv)
        else case parseOffsetTime rfc3339 offsetTime of
               Inl e \<Rightarrow> (Inl e, sv)
             | Inr (mode, millis) \<Rightarrow>
                 admin_call cv conn (\<lambda>c. ad_list_offsets ad c mode millis topics) (\<lambda>os. Inr (listedOffsetRows os)) sv)"

section \<open>Writing: guard, call, audit\<close>

text \<open>
  The shape of the write methods: a refused guard is recorded as blocked; a request that is
  not well formed is an error without a record; the outcome of the call is recorded.
\<close>

definition recorded ::
  "string \<Rightarrow> string \<Rightarrow> string \<Rightarrow> string \<Rightarrow> ('b \<Rightarrow> goerr option) \<Rightarrow> 'b res \<times> 'w service \<Rightarrow> 'b res \<times> 'w service" where
  "recorded source conn action target detail r =
     (case r of
        (Inl e, sv) \<Rightarrow> (Inl e, emitAuditSource source conn action target ''error'' (Some e) sv)
      | (Inr x, sv) \<Rightarrow> (Inr x, emitAuditSource source conn action target ''success'' (detail x) sv))"

definition blocked ::
  "string \<Rightarrow> string \<Rightarrow> string \<Rightarrow> string \<Rightarrow> goerr \<Rightarrow> 'w service \<Rightarrow> 'b res \<times> 'w service" where
  "blocked source conn action target e sv =
     (Inl e, emitAuditSource source conn action target ''blocked'' (Some e) sv)"

record topics_create_request =
  tq_connection :: string
  tq_topics :: "string list"
  tq_partitions :: int
  tq_replication :: int
  tq_config :: "(string \<times> string) list"

definition CreateTopics ::
  "client_env \<Rightarrow> 'w admin_lib \<Rightarrow> topics_create_request \<Rightarrow> 'w service \<Rightarrow> mutation_result list res \<times> 'w service" where
  "CreateTopics cv ad req sv =
     (let conn = tq_connection req in
      case ensureWriteAllowed (profileOf conn sv) ''topics/create'' of
        Inl e \<Rightarrow> blocked [] conn ''topics-create'' (joinNames (tq_topics req)) e sv
      | Inr _ \<Rightarrow>
          (let topics = normalizeTopicNames (tq_topics req) in
             if topics = [] then (Inl (Errf ''topics is required'' []), sv)
             else if tq_partitions req \<le> 0 then (Inl (Errf ''partitions must be greater than 0'' []), sv)
             else if tq_replication req \<le> 0 then (Inl (Errf ''replicationFactor must be greater than 0'' []), sv)
             else case createTopicConfigsFromMap (tq_config req) of
                    Inl e \<Rightarrow> (Inl e, sv)
                  | Inr configs \<Rightarrow>
                      recorded [] conn ''topics-create'' (joinNames topics)
                        (\<lambda>_. Some (Errf ''partitions=%d replicationFactor=%d''
                                [format_int (tq_partitions req), format_int (tq_replication req)]))
                        (admin_call cv conn
                           (\<lambda>c. ad_create_topics ad c (tq_partitions req) (tq_replication req) configs topics)
                           (\<lambda>rs. Inr (mutationResults rs)) sv)))"

definition DeleteTopics ::
  "client_env \<Rightarrow> 'w admin_lib \<Rightarrow> topics_delete_request \<Rightarrow> 'w service \<Rightarrow> mutation_result list res \<times> 'w service" where
  "DeleteTopics cv ad req sv =
     (let conn = td_connection req; source = td_source req; action = ''topics-delete'' in
      case ensureDeleteAllowed (profileOf conn sv) ''topics/delete'' of
        Inl e \<Rightarrow> blocked source conn action (joinNames (td_topics req)) e sv
      | Inr _ \<Rightarrow>
          (case ensureTopicDeleteConfirm req of
             Inl e \<Rightarrow> blocked source conn action (joinNames (td_topics req)) e sv
           | Inr _ \<Rightarrow>
               (let topics = normalizeTopicNames (td_topics req) in
                recorded source conn action (joinNames topics) (\<lambda>_. None)
                  (admin_call cv conn (\<lambda>c. ad_delete_topics ad c topics) (\<lambda>rs. Inr (mutationResults rs)) sv))))"

record records_clear_request =
  rq_connection :: string
  rq_topic :: string
  rq_confirm :: string
  rq_source :: string

record clear_row =
  cl_partition :: int
  cl_deleted :: "int option"
  cl_low :: "int option"
  cl_ok :: bool
  cl_error :: "goerr option"

text \<open>
  \<open>before\<close> and \<open>beforeErr\<close> have distinct partitions. The rows are in the order of the
  partitions.
\<close>

definition clear_row_of ::
  "string \<Rightarrow> (int \<times> int) list \<Rightarrow> (int \<times> goerr) list \<Rightarrow> deleted_records list \<Rightarrow> int \<Rightarrow> clear_row" where
  "clear_row_of topic before beforeErr deleted p =
     (let failed = (\<lambda>e. \<lparr>cl_partition = p, cl_deleted = None, cl_low = None, cl_ok = False, cl_error = Some e\<rparr>) in
      case map_of beforeErr p of
        Some e \<Rightarrow> failed e
      | None \<Rightarrow>
          (case find (\<lambda>d. dr_topic d = topic \<and> dr_partition d = p) deleted of
             None \<Rightarrow> failed (Errf ''no DeleteRecords response for partition'' [])
           | Some d \<Rightarrow>
               (case dr_error d of
                  Some e \<Rightarrow> failed e
                | None \<Rightarrow>
                    \<lparr>cl_partition = p,
                     cl_deleted = Some (i64 ((case map_of before p of Some b \<Rightarrow> b | None \<Rightarrow> 0) - dr_low d)),
                     cl_low = Some (dr_low d), cl_ok = True, cl_error = None\<rparr>)))"

definition clearRecordsRows ::
  "string \<Rightarrow> (int \<times> int) list \<Rightarrow> (int \<times> goerr) list \<Rightarrow> deleted_records list \<Rightarrow> clear_row list" where
  "clearRecordsRows topic before beforeErr deleted =
     map (clear_row_of topic before beforeErr deleted) (sort (map fst before @ map fst beforeErr))"

definition clear_targets :: "string \<Rightarrow> listed list \<Rightarrow> target list" where
  "clear_targets topic highs =
     map (\<lambda>i. \<lparr>ta_topic = topic, ta_partition = li_partition i, ta_at = max 0 (li_offset i), ta_epoch = 0\<rparr>)
       (filter (\<lambda>i. li_topic i = topic \<and> li_error i = None) highs)"

definition clear_before :: "string \<Rightarrow> listed list \<Rightarrow> (int \<times> int) list" where
  "clear_before topic highs = map (\<lambda>t. (ta_partition t, ta_at t)) (clear_targets topic highs)"

definition clear_errors :: "string \<Rightarrow> listed list \<Rightarrow> (int \<times> goerr) list" where
  "clear_errors topic highs =
     List.map_filter (\<lambda>i. if li_topic i = topic then map_option (Pair (li_partition i)) (li_error i) else None) highs"

text \<open>A wrong confirmation is recorded as it is and answered as invalid parameters with its text.\<close>

fun as_invalid_params :: "goerr \<Rightarrow> goerr" where
  "as_invalid_params (Errf f xs) = InvalidParams f xs"
| "as_invalid_params e = e"

definition ClearTopicRecords ::
  "client_env \<Rightarrow> 'w admin_lib \<Rightarrow> records_clear_request \<Rightarrow> 'w service \<Rightarrow> clear_row list res \<times> 'w service" where
  "ClearTopicRecords cv ad req sv =
     (let topic = trim_space (rq_topic req); conn = rq_connection req; source = rq_source req;
          action = ''topics.records.clear'' in
      case ensureDeleteAllowed (profileOf conn sv) ''topics/records/clear'' of
        Inl e \<Rightarrow> blocked source conn action topic e sv
      | Inr _ \<Rightarrow>
          if topic = [] then (Inl (Errf ''topic is required'' []), sv)
          else (case ensureTopicDeleteConfirm \<lparr>td_connection = [], td_topics = [topic], td_confirm = rq_confirm req,
                        td_confirms = [], td_source = []\<rparr> of
                  Inl e \<Rightarrow> (Inl (as_invalid_params e), snd (blocked source conn action topic e sv :: clear_row list res \<times> 'w service))
                | Inr _ \<Rightarrow>
                    recorded source conn action topic
                      (\<lambda>rows. Some (Errf ''partitions=%d'' [format_int (int (length rows))]))
                      (withAdmin cv conn (\<lambda>c.
                         io_bind (ad_list_offsets ad c ''latest'' 0 [topic]) (\<lambda>highs.
                         io_bind (ad_delete_records ad c (clear_targets topic highs)) (\<lambda>deleted.
                         io_ok (clearRecordsRows topic (clear_before topic highs) (clear_errors topic highs) deleted)))) sv)))"

text \<open>The partition counts in increasing order; the results of all groups by topic.\<close>

definition UpdatePartitions ::
  "client_env \<Rightarrow> 'w admin_lib \<Rightarrow> string \<Rightarrow> (string \<times> int) list \<Rightarrow> 'w service \<Rightarrow> mutation_result list res \<times> 'w service" where
  "UpdatePartitions cv ad conn partitions sv =
     (let action = ''partitions-update''; target = joinMapKeys partitions in
      case ensureWriteAllowed (profileOf conn sv) ''topics/partitions/update'' of
        Inl e \<Rightarrow> blocked [] conn action target e sv
      | Inr _ \<Rightarrow>
          (case normalizePartitionUpdates partitions of
             Inl e \<Rightarrow> (Inl e, sv)
           | Inr byCount \<Rightarrow>
               recorded [] conn action target (\<lambda>_. None)
                 (admin_call cv conn
                    (\<lambda>c. io_list (\<lambda>count. ad_update_partitions ad c count (the (map_of byCount count)))
                           (sort (map fst byCount)))
                    (\<lambda>rss. Inr (sort_key mr_topic (concat (map mutationResults rss)))) sv)))"

definition AlterTopicConfig ::
  "client_env \<Rightarrow> 'w admin_lib \<Rightarrow> string \<Rightarrow> string \<Rightarrow> (string \<times> string) list \<Rightarrow> string list \<Rightarrow> 'w service
     \<Rightarrow> mutation_result list res \<times> 'w service" where
  "AlterTopicConfig cv ad conn topic config deleteKeys sv =
     (let action = ''topic-config-alter'' in
      case ensureWriteAllowed (profileOf conn sv) ''topics/config/alter'' of
        Inl e \<Rightarrow> blocked [] conn action (trim_space topic) e sv
      | Inr _ \<Rightarrow>
          (case trimmed_topic topic of
             Inl e \<Rightarrow> (Inl e, sv)
           | Inr topic \<Rightarrow>
               (case alterConfigsFromMap config deleteKeys of
                  Inl e \<Rightarrow> (Inl e, sv)
                | Inr alters \<Rightarrow>
                    recorded [] conn action topic (\<lambda>_. None)
                      (admin_call cv conn (\<lambda>c. ad_alter_configs ad c alters topic)
                         (\<lambda>rs. Inr (alterConfigResults rs topic)) sv))))"

section \<open>Groups\<close>

definition ListGroups :: "client_env \<Rightarrow> 'w admin_lib \<Rightarrow> string \<Rightarrow> 'w service \<Rightarrow> group_meta list res \<times> 'w service" where
  "ListGroups cv ad conn = admin_call cv conn (ad_groups ad) (\<lambda>gs. Inr (sort_key gm_group gs))"

record group_member =
  gb_id :: string
  gb_instance :: string
  gb_client :: string
  gb_host :: string
  gb_assignments :: "(string \<rightharpoonup> int list) option"

record group_detail =
  gd_group :: string
  gd_state :: string
  gd_protocol_type :: string
  gd_protocol :: string
  gd_coordinator :: int
  gd_members :: "group_member list"
  gd_error :: "goerr option"

text \<open>A topic that the assignment lists twice keeps its last partitions.\<close>

definition groupDetail :: "described_group \<Rightarrow> group_detail" where
  "groupDetail g =
     \<lparr>gd_group = dg_group g, gd_state = dg_state g, gd_protocol_type = dg_protocol_type g,
      gd_protocol = dg_protocol g, gd_coordinator = dg_coordinator g,
      gd_members = map (\<lambda>m. \<lparr>gb_id = mm_id m,
          gb_instance = (case mm_instance m of Some i \<Rightarrow> i | None \<Rightarrow> []), gb_client = mm_client m,
          gb_host = mm_host m, gb_assignments = map_option (\<lambda>a. map_of (rev a)) (mm_assigned m)\<rparr>) (dg_members g),
      gd_error = dg_error g\<rparr>"

definition DescribeGroup ::
  "client_env \<Rightarrow> 'w admin_lib \<Rightarrow> string \<Rightarrow> string \<Rightarrow> 'w service \<Rightarrow> group_detail res \<times> 'w service" where
  "DescribeGroup cv ad conn gid sv =
     (let gid = trim_space gid in
        if gid = [] then (Inl (Errf ''group is required'' []), sv)
        else admin_call cv conn (\<lambda>c. ad_describe_group ad c gid)
               (\<lambda>gs. case find (\<lambda>g. dg_group g = gid) gs of
                   None \<Rightarrow> Inl (Errf ''group %q not found'' [gid])
                 | Some g \<Rightarrow> (case dg_error g of Some e \<Rightarrow> Inl e | None \<Rightarrow> Inr (groupDetail g))) sv)"

definition max64 :: "int \<Rightarrow> int \<Rightarrow> int" where
  "max64 a b = (if a > b then a else b)"

definition groupLag :: "int \<Rightarrow> int \<Rightarrow> int" where
  "groupLag end_offset committed =
     (if committed < 0 then end_offset else if end_offset \<le> committed then 0 else i64 (end_offset - committed))"

definition committedTopics :: "committed list \<Rightarrow> string list \<Rightarrow> string list" where
  "committedTopics cs topics =
     sort (remdups (filter (\<lambda>t. topics = [] \<or> t \<in> set topics) (map cm_topic cs)))"

record group_offset_row =
  go_topic :: string
  go_partition :: int
  go_start :: int
  go_end :: int
  go_committed :: int
  go_lag :: int
  go_error :: "goerr option"

definition find_listed :: "listed list \<Rightarrow> string \<times> int \<Rightarrow> listed option" where
  "find_listed xs k = find (\<lambda>i. (li_topic i, li_partition i) = k) xs"

definition find_committed :: "committed list \<Rightarrow> string \<times> int \<Rightarrow> committed option" where
  "find_committed xs k = find (\<lambda>i. (cm_topic i, cm_partition i) = k) xs"

definition first_error :: "goerr option list \<Rightarrow> goerr option" where
  "first_error es = (case filter (\<lambda>e. e \<noteq> None) es of [] \<Rightarrow> None | e # _ \<Rightarrow> e)"

definition group_offset_row_of ::
  "listed list \<Rightarrow> listed list \<Rightarrow> committed list \<Rightarrow> string \<times> int \<Rightarrow> group_offset_row" where
  "group_offset_row_of starts ends cs k =
     (let s = find_listed starts k; e = find_listed ends k; c = find_committed cs k;
          end_offset = (case e of Some i \<Rightarrow> max64 (li_offset i) 0 | None \<Rightarrow> 0);
          pos = (case c of Some i \<Rightarrow> max64 (cm_at i) (- 1) | None \<Rightarrow> 0)
      in \<lparr>go_topic = fst k, go_partition = snd k,
          go_start = (case s of Some i \<Rightarrow> max64 (li_offset i) 0 | None \<Rightarrow> 0),
          go_end = end_offset, go_committed = pos, go_lag = groupLag end_offset pos,
          go_error = first_error [Option.bind s li_error, Option.bind e li_error, Option.bind c cm_error]\<rparr>)"

definition groupOffsetRows :: "listed list \<Rightarrow> listed list \<Rightarrow> committed list \<Rightarrow> group_offset_row list" where
  "groupOffsetRows starts ends cs =
     map (group_offset_row_of starts ends cs)
       (sort (remdups (map (\<lambda>i. (li_topic i, li_partition i)) (starts @ ends)
                       @ map (\<lambda>c. (cm_topic c, cm_partition c)) cs)))"

record group_offsets =
  gs_committed :: bool
  gs_rows :: "group_offset_row list"
  gs_lag :: int

definition GetGroupOffsets ::
  "client_env \<Rightarrow> 'w admin_lib \<Rightarrow> string \<Rightarrow> string \<Rightarrow> string list \<Rightarrow> 'w service \<Rightarrow> group_offsets res \<times> 'w service" where
  "GetGroupOffsets cv ad conn gid topics sv =
     (let gid = trim_space gid; topics = normalizeTopicNames topics in
        if gid = [] then (Inl (Errf ''groupId is required'' []), sv)
        else withAdmin cv conn (\<lambda>c.
          io_bind (ad_fetch_offsets ad c gid topics) (\<lambda>cs.
          let hasCommitted = (cs \<noteq> []); scope = committedTopics cs topics in
          if scope = [] then io_ok \<lparr>gs_committed = hasCommitted, gs_rows = [], gs_lag = 0\<rparr>
          else
            io_bind (ad_list_offsets ad c ''earliest'' 0 scope) (\<lambda>starts.
            io_bind (ad_list_offsets ad c ''latest'' 0 scope) (\<lambda>ends.
            let rows = groupOffsetRows starts ends cs in
            io_ok \<lparr>gs_committed = hasCommitted, gs_rows = rows,
                   gs_lag = foldl (\<lambda>n r. i64 (n + go_lag r)) 0 rows\<rparr>)))) sv)"

definition DeleteGroup ::
  "client_env \<Rightarrow> 'w admin_lib \<Rightarrow> string \<Rightarrow> string \<Rightarrow> 'w service \<Rightarrow> unit res \<times> 'w service" where
  "DeleteGroup cv ad conn gid sv =
     (let gid = trim_space gid; action = ''groups-delete'' in
        if gid = [] then (Inl (Errf ''group is required'' []), sv)
        else case ensureDeleteAllowed (profileOf conn sv) ''groups/delete'' of
               Inl e \<Rightarrow> blocked [] conn action gid e sv
             | Inr _ \<Rightarrow>
                 recorded [] conn action gid (\<lambda>_. None)
                   (admin_call cv conn (\<lambda>c. ad_delete_group ad c gid)
                      (\<lambda>rs. case first_error (map snd (sort_key fst rs)) of Some e \<Rightarrow> Inl e | None \<Rightarrow> Inr ()) sv))"

datatype reset_mode = ResetEarliest | ResetLatest | ResetTimestamp | ResetPartitionOffsets

definition mode_text :: "reset_mode \<Rightarrow> string" where
  "mode_text m = (case m of ResetEarliest \<Rightarrow> ''earliest'' | ResetLatest \<Rightarrow> ''latest''
     | ResetTimestamp \<Rightarrow> ''timestamp'' | ResetPartitionOffsets \<Rightarrow> ''partitionOffset'')"

definition normalizeResetMode :: "string \<Rightarrow> reset_mode res" where
  "normalizeResetMode value =
     (let v = word_of value in
        if v = ''earliest'' then Inr ResetEarliest
        else if v = ''latest'' then Inr ResetLatest
        else if v = ''timestamp'' then Inr ResetTimestamp
        else if v \<in> set [''partitionoffset'', ''partition_offset'', ''partitionoffsets''] then Inr ResetPartitionOffsets
        else Inl (Errf ''resetTo must be earliest, latest, timestamp, or partitionOffset'' []))"

record offset_reset_request =
  or_connection :: string
  or_group :: string
  or_topics :: "string list"
  or_reset_to :: string
  or_timestamp :: int
  or_offsets :: "(string \<times> (int \<times> int) list) list"
  or_source :: string

record reset_row =
  rr_topic :: string
  rr_partition :: int
  rr_ok :: bool
  rr_error :: "goerr option"

text \<open>\<open>offsetResetRows\<close>: the row of a target and the failure it causes.\<close>

definition reset_row_of :: "committed list \<Rightarrow> goerr option \<Rightarrow> target \<Rightarrow> reset_row \<times> goerr option" where
  "reset_row_of commits commitErr t =
     (let row = (\<lambda>e. \<lparr>rr_topic = ta_topic t, rr_partition = ta_partition t, rr_ok = (e = None), rr_error = e\<rparr>);
          place = [ta_topic t, format_int (ta_partition t)]
      in case commitErr of
           Some e \<Rightarrow> (row (Some e), Some e)
         | None \<Rightarrow>
             (case find_committed commits (ta_topic t, ta_partition t) of
                None \<Rightarrow> (row (Some (Errf ''partition missing from commit response'' [])),
                         Some (Errf ''commit offset for %s/%d was not acknowledged by the broker'' place))
              | Some r \<Rightarrow>
                  (case cm_error r of
                     None \<Rightarrow> (row None, None)
                   | Some e \<Rightarrow> (row (Some e), Some (Wrapf ''commit offset for %s/%d was rejected: %v'' place e)))))"

definition offsetResetRows :: "target list \<Rightarrow> committed list \<Rightarrow> goerr option \<Rightarrow> reset_row list \<times> goerr option" where
  "offsetResetRows targets commits commitErr =
     (sort_key (\<lambda>r. (rr_topic r, rr_partition r)) (map (fst \<circ> reset_row_of commits commitErr) targets),
      first_error (map (snd \<circ> reset_row_of commits commitErr) targets))"

text \<open>The targets of an explicit reset; the first offending entry is the error.\<close>

fun partition_targets :: "string \<Rightarrow> (int \<times> int) list \<Rightarrow> target list res" where
  "partition_targets topic [] = Inr []"
| "partition_targets topic ((p, off) # ps) =
     (if p < 0 then Inl (Errf ''partition must be greater than or equal to 0'' [])
      else if off < 0
      then Inl (Errf ''offset for %s/%d must be greater than or equal to 0'' [topic, format_int p])
      else ebind (partition_targets topic ps)
             (\<lambda>ts. Inr (\<lparr>ta_topic = topic, ta_partition = p, ta_at = off, ta_epoch = - 1\<rparr> # ts)))"

fun explicit_targets :: "(string \<times> (int \<times> int) list) list \<Rightarrow> target list res" where
  "explicit_targets [] = Inr []"
| "explicit_targets ((topic, ps) # rest) =
     ebind (partition_targets topic ps) (\<lambda>ts. ebind (explicit_targets rest) (\<lambda>us. Inr (ts @ us)))"

text \<open>\<open>to_targets\<close> is \<open>ListedOffsets.Offsets()\<close> of the library.\<close>

definition reset_targets ::
  "'w admin_lib \<Rightarrow> (listed list \<Rightarrow> target list) \<Rightarrow> nat \<Rightarrow> reset_mode \<Rightarrow> string list \<Rightarrow> offset_reset_request
     \<Rightarrow> ('w, target list) io" where
  "reset_targets ad to_targets c mode topics req =
     (case mode of
        ResetEarliest \<Rightarrow> io_bind (ad_list_offsets ad c ''earliest'' 0 topics) (\<lambda>l. io_ok (to_targets l))
      | ResetLatest \<Rightarrow> io_bind (ad_list_offsets ad c ''latest'' 0 topics) (\<lambda>l. io_ok (to_targets l))
      | ResetTimestamp \<Rightarrow>
          io_bind (ad_list_offsets ad c ''timestamp'' (or_timestamp req) topics) (\<lambda>l. io_ok (to_targets l))
      | ResetPartitionOffsets \<Rightarrow>
          if or_offsets req = [] then io_fail (Errf ''partitionOffsets is required for partitionOffset reset'' [])
          else io_res (explicit_targets (or_offsets req)))"

definition ResetGroupOffsets ::
  "client_env \<Rightarrow> 'w admin_lib \<Rightarrow> (listed list \<Rightarrow> target list) \<Rightarrow> offset_reset_request \<Rightarrow> 'w service
     \<Rightarrow> reset_row list res \<times> 'w service" where
  "ResetGroupOffsets cv ad to_targets req sv =
     (let conn = or_connection req; source = or_source req; gid = trim_space (or_group req);
          action = ''group-offsets-reset'' in
      if gid = [] then (Inl (Errf ''group is required'' []), sv)
      else case ensureWriteAllowed (profileOf conn sv) ''groups/offsets/reset'' of
        Inl e \<Rightarrow> blocked source conn action gid e sv
      | Inr _ \<Rightarrow>
          (case normalizeResetMode (or_reset_to req) of
             Inl e \<Rightarrow> (Inl e, sv)
           | Inr mode \<Rightarrow>
               (let topics = normalizeTopicNames (or_topics req) in
                if mode \<noteq> ResetPartitionOffsets \<and> topics = []
                then (Inl (Errf ''topics is required for %s reset'' [mode_text mode]), sv)
                else if mode = ResetTimestamp \<and> or_timestamp req < 0
                then (Inl (Errf ''timestampMs must be greater than or equal to 0'' []), sv)
                else
                  recorded source conn action gid (\<lambda>_. Some (Errf ''resetTo=%s'' [mode_text mode]))
                    (withAdmin cv conn (\<lambda>c.
                       io_bind (reset_targets ad to_targets c mode topics req) (\<lambda>targets w.
                       let (commits, commitErr, w) = ad_commit_offsets ad c gid targets w;
                           (rows, failure) = offsetResetRows targets commits commitErr
                       in (case failure of Some e \<Rightarrow> Inl e | None \<Rightarrow> Inr rows, w))) sv))))"

section \<open>ACL names\<close>

text \<open>The names stand for the enumerations of the library.\<close>

definition aclResourceType :: "string \<Rightarrow> string res" where
  "aclResourceType value =
     (let v = word_of value in
        if v = ''any'' then Inr ''ANY''
        else if v = ''topic'' then Inr ''TOPIC''
        else if v = ''group'' then Inr ''GROUP''
        else if v = ''cluster'' then Inr ''CLUSTER''
        else if v \<in> set [''transactionalid'', ''transactional_id''] then Inr ''TRANSACTIONAL_ID''
        else if v \<in> set [''delegationtoken'', ''delegation_token''] then Inr ''DELEGATION_TOKEN''
        else if v = ''user'' then Inr ''USER''
        else Inl (Errf ''resourceType must be any, topic, group, cluster, transactionalId, delegationToken, or user'' []))"

definition aclPatternType :: "string \<Rightarrow> string res" where
  "aclPatternType value =
     (let v = word_of value in
        if v \<in> set [[], ''literal''] then Inr ''LITERAL''
        else if v \<in> set [''prefixed'', ''prefix''] then Inr ''PREFIXED''
        else if v = ''any'' then Inr ''ANY''
        else if v = ''match'' then Inr ''MATCH''
        else Inl (Errf ''patternType must be literal, prefixed, any, or match'' []))"

definition aclOperationType :: "string \<Rightarrow> string res" where
  "aclOperationType value =
     (let v = word_of value in
        if v \<in> set [[], ''any''] then Inr ''ANY''
        else if v = ''all'' then Inr ''ALL''
        else if v = ''read'' then Inr ''READ''
        else if v = ''write'' then Inr ''WRITE''
        else if v = ''create'' then Inr ''CREATE''
        else if v = ''delete'' then Inr ''DELETE''
        else if v = ''alter'' then Inr ''ALTER''
        else if v = ''describe'' then Inr ''DESCRIBE''
        else if v \<in> set [''clusteraction'', ''cluster_action''] then Inr ''CLUSTER_ACTION''
        else if v \<in> set [''describeconfigs'', ''describe_configs''] then Inr ''DESCRIBE_CONFIGS''
        else if v \<in> set [''alterconfigs'', ''alter_configs''] then Inr ''ALTER_CONFIGS''
        else if v \<in> set [''idempotentwrite'', ''idempotent_write''] then Inr ''IDEMPOTENT_WRITE''
        else if v \<in> set [''createtokens'', ''create_tokens''] then Inr ''CREATE_TOKENS''
        else if v \<in> set [''describetokens'', ''describe_tokens''] then Inr ''DESCRIBE_TOKENS''
        else Inl (Errf ''operation must be any, all, read, write, create, delete, alter, describe, clusterAction, describeConfigs, alterConfigs, idempotentWrite, createTokens, or describeTokens'' []))"

definition aclPermissionType :: "string \<Rightarrow> string res" where
  "aclPermissionType value =
     (let v = word_of value in
        if v = ''any'' then Inr ''ANY''
        else if v \<in> set [[], ''allow''] then Inr ''ALLOW''
        else if v = ''deny'' then Inr ''DENY''
        else Inl (Errf ''permission must be any, allow, or deny'' []))"

section \<open>ACL requests\<close>

record acl_filter =
  af_resource_type :: string
  af_resource_name :: string
  af_pattern_type :: string
  af_principal :: string
  af_host :: string
  af_operation :: string
  af_permission :: string

definition acl_resource_of :: "string \<Rightarrow> acl_resource" where
  "acl_resource_of t =
     (if t = ''TOPIC'' then Topics else if t = ''GROUP'' then Groups else if t = ''CLUSTER'' then Clusters
      else if t = ''TRANSACTIONAL_ID'' then TransactionalIDs
      else if t = ''DELEGATION_TOKEN'' then DelegationTokens else AnyResource)"

text \<open>
  \<open>applyACLResource\<close>, the operation and \<open>applyACLPermission\<close>: a cluster has no name; every
  permission but deny is an allow.
\<close>

definition build_acl :: "string \<Rightarrow> string \<Rightarrow> string \<Rightarrow> string \<Rightarrow> string \<Rightarrow> string \<Rightarrow> string \<Rightarrow> acl_builder" where
  "build_acl resourceType name pattern operation permission pr host =
     \<lparr>ab_pattern = pattern, ab_resource = acl_resource_of resourceType,
      ab_name = (if acl_resource_of resourceType = Clusters then [] else name), ab_operation = operation,
      ab_deny = (permission = ''DENY''), ab_principal = pr, ab_host = host\<rparr>"

definition aclBuilderFromFilter :: "acl_filter \<Rightarrow> acl_builder res" where
  "aclBuilderFromFilter f =
     ebind (aclResourceType (af_resource_type f)) (\<lambda>resourceType.
     if resourceType = ''ANY'' \<and> blank (af_resource_name f)
     then Inl (Errf ''filter is too broad: resourceType (or resourceName) is required'' [])
     else if resourceType = ''ANY'' \<and> blank (af_principal f) \<and> blank (af_operation f)
     then Inl (Errf ''filter is too broad: principal or operation is required alongside resourceName'' [])
     else
       ebind (aclOperationType (af_operation f)) (\<lambda>operation.
       ebind (aclPatternType (af_pattern_type f)) (\<lambda>pattern.
       ebind (aclPermissionType (af_permission f)) (\<lambda>permission.
       Inr (build_acl resourceType (af_resource_name f) pattern operation permission (af_principal f) (af_host f))))))"

definition aclBuilderFromACL :: "acl_binding \<Rightarrow> bool \<Rightarrow> acl_builder res" where
  "aclBuilderFromACL acl create =
     ebind (aclResourceType (ac_resource_type acl)) (\<lambda>resourceType.
     if create \<and> resourceType = ''ANY'' then Inl (Errf ''acl.resourceType must be a concrete type (not any)'' [])
     else if create \<and> blank (ac_resource_name acl) then Inl (Errf ''acl.resourceName is required'' [])
     else
       ebind (aclOperationType (ac_operation acl)) (\<lambda>operation.
       if create \<and> operation = ''ANY''
       then Inl (Errf ''acl.operation must be a concrete operation (not any)'' [])
       else
         ebind (aclPatternType (ac_pattern_type acl)) (\<lambda>pattern.
         ebind (aclPermissionType (ac_permission acl)) (\<lambda>permission.
         if blank (ac_principal acl) then Inl (Errf ''acl.principal is required'' [])
         else Inr (build_acl resourceType (ac_resource_name acl) pattern operation permission
                     (ac_principal acl) (ac_host acl))))))"

definition aclTarget :: "string \<Rightarrow> string \<Rightarrow> string \<Rightarrow> string" where
  "aclTarget t name pr = t @ ''/'' @ name @ ''/'' @ pr"

definition acl_bindings :: "(acl_binding list + goerr) list \<Rightarrow> acl_binding list" where
  "acl_bindings results =
     concat (map (\<lambda>r. case r of Inl bs \<Rightarrow> bs
        | Inr e \<Rightarrow> [\<lparr>ac_resource_type = [], ac_resource_name = [], ac_pattern_type = [], ac_principal = [],
                    ac_host = [], ac_operation = [], ac_permission = [], ac_error = Some e\<rparr>]) results)"

definition ListACLs ::
  "client_env \<Rightarrow> 'w admin_lib \<Rightarrow> string \<Rightarrow> acl_filter \<Rightarrow> 'w service \<Rightarrow> acl_binding list res \<times> 'w service" where
  "ListACLs cv ad conn f sv =
     (case aclBuilderFromFilter f of
        Inl e \<Rightarrow> (Inl e, sv)
      | Inr b \<Rightarrow> admin_call cv conn (\<lambda>c. ad_describe_acls ad c b) (\<lambda>rs. Inr (acl_bindings rs)) sv)"

definition CreateACL ::
  "client_env \<Rightarrow> 'w admin_lib \<Rightarrow> string \<Rightarrow> acl_binding \<Rightarrow> 'w service \<Rightarrow> unit res \<times> 'w service" where
  "CreateACL cv ad conn acl sv =
     (let tgt = aclTarget (ac_resource_type acl) (ac_resource_name acl) (ac_principal acl); action = ''acls-create'' in
      case ensureWriteAllowed (profileOf conn sv) ''acls/create'' of
        Inl e \<Rightarrow> blocked [] conn action tgt e sv
      | Inr _ \<Rightarrow>
          if ac_resource_name acl = [] then (Inl (Errf ''acl.resourceName is required'' []), sv)
          else if ac_principal acl = [] then (Inl (Errf ''acl.principal is required'' []), sv)
          else case aclBuilderFromACL acl True of
                 Inl e \<Rightarrow> (Inl e, sv)
               | Inr b \<Rightarrow>
                   recorded [] conn action tgt (\<lambda>_. None)
                     (admin_call cv conn (\<lambda>c. ad_create_acls ad c b)
                        (\<lambda>rs. case first_error rs of Some e \<Rightarrow> Inl e | None \<Rightarrow> Inr ()) sv))"

definition DeleteACLs ::
  "client_env \<Rightarrow> 'w admin_lib \<Rightarrow> string \<Rightarrow> acl_filter \<Rightarrow> 'w service \<Rightarrow> acl_binding list res \<times> 'w service" where
  "DeleteACLs cv ad conn f sv =
     (let tgt = aclTarget (af_resource_type f) (af_resource_name f) (af_principal f); action = ''acls-delete'' in
      case ensureDeleteAllowed (profileOf conn sv) ''acls/delete'' of
        Inl e \<Rightarrow> blocked [] conn action tgt e sv
      | Inr _ \<Rightarrow>
          (case aclBuilderFromFilter f of
             Inl e \<Rightarrow> (Inl e, sv)
           | Inr b \<Rightarrow>
               recorded [] conn action tgt (\<lambda>_. None)
                 (admin_call cv conn (\<lambda>c. ad_delete_acls ad c b) (\<lambda>rs. Inr (acl_bindings rs)) sv)))"

section \<open>What the methods leave alone\<close>

lemma getEntry_set_conn:
  "getEntry conn sv \<noteq> None
   \<Longrightarrow> getEntry i (set_conn conn e sv) = (if trim_space i = trim_space conn then Some e else getEntry i sv)"
  by (auto simp: getEntry_def set_conn_def Let_def update_conv split: if_splits)

lemma adminClientLocked_profile: "adminClientLocked cv e = (r, e', cs) \<Longrightarrow> ce_profile e' = ce_profile e"
  by (auto simp: adminClientLocked_def Let_def split: option.splits sum.splits if_splits)

lemma profileOf_set_conn:
  assumes "getEntry conn sv = Some e" "ce_profile e' = ce_profile e"
  shows "profileOf i (set_conn conn e' sv) = profileOf i sv"
proof -
  have "getEntry i sv = Some e" if "trim_space i = trim_space conn"
    using assms(1) that by (simp add: getEntry_def Let_def)
  then show ?thesis using assms by (simp add: profileOf_def getEntry_set_conn)
qed

lemma getEntry_cong [simp]:
  "getEntry i (sv\<lparr>sv_closed := x\<rparr>) = getEntry i sv" "getEntry i (sv\<lparr>sv_world := w\<rparr>) = getEntry i sv"
  "getEntry i (sv\<lparr>sv_audit := a\<rparr>) = getEntry i sv" "getEntry i (sv\<lparr>sv_streams := y\<rparr>) = getEntry i sv"
  by (simp_all add: getEntry_def Let_def)

lemma profileOf_cong [simp]:
  "profileOf i (sv\<lparr>sv_closed := x\<rparr>) = profileOf i sv" "profileOf i (sv\<lparr>sv_world := w\<rparr>) = profileOf i sv"
  "profileOf i (sv\<lparr>sv_audit := a\<rparr>) = profileOf i sv" "profileOf i (sv\<lparr>sv_streams := y\<rparr>) = profileOf i sv"
  by (simp_all add: profileOf_def)

lemma withAdmin_profile: "profileOf i (snd (withAdmin cv conn fn sv)) = profileOf i sv"
proof (cases "getEntry conn sv")
  case None
  then show ?thesis by (simp add: withAdmin_def)
next
  case (Some e)
  obtain r e' cs where a: "adminClientLocked cv e = (r, e', cs)" by (metis surj_pair)
  have "profileOf i (set_conn conn x (sv\<lparr>sv_closed := y, sv_world := w\<rparr>)) = profileOf i sv"
      "profileOf i (set_conn conn x (sv\<lparr>sv_closed := y\<rparr>)) = profileOf i sv"
    if "ce_profile x = ce_profile e" for x y w
    using that Some profileOf_set_conn [of conn "sv\<lparr>sv_closed := y, sv_world := w\<rparr>" e x i]
      profileOf_set_conn [of conn "sv\<lparr>sv_closed := y\<rparr>" e x i] by simp_all
  then show ?thesis
    using Some a adminClientLocked_profile [OF a]
    by (auto simp: withAdmin_def Let_def split: sum.splits prod.splits)
qed

lemma admin_call_profile [simp]: "profileOf i (snd (admin_call cv conn m f sv)) = profileOf i sv"
  by (simp add: admin_call_def withAdmin_profile)

lemma recorded_snd [simp]:
  "profileOf i (snd (recorded s c a t d r)) = profileOf i (snd r)" "sv_world (snd (recorded s c a t d r)) = sv_world (snd r)"
  by (cases r; cases "fst r"; simp add: recorded_def emitAuditSource_def)+

lemma blocked_snd [simp]:
  "profileOf i (snd (blocked s c a t e sv)) = profileOf i sv" "sv_world (snd (blocked s c a t e sv)) = sv_world sv"
  "fst (blocked s c a t e sv) = Inl e"
  by (simp_all add: blocked_def emitAuditSource_def)

lemma ensure_allowed_iff:
  "ensureWriteAllowed p a = Inr u \<longleftrightarrow> \<not> ReadOnly p"
  "ensureDeleteAllowed p a = Inr u \<longleftrightarrow> \<not> ReadOnly p \<and> AllowDelete p"
  by (auto simp: ensureWriteAllowed_def ensureDeleteAllowed_def)

lemma ensure_refused:
  "ReadOnly p \<Longrightarrow> \<exists>e. ensureWriteAllowed p a = Inl e"
  "ReadOnly p \<or> \<not> AllowDelete p \<Longrightarrow> \<exists>e. ensureDeleteAllowed p a = Inl e"
  by (auto simp: ensureWriteAllowed_def ensureDeleteAllowed_def)

section \<open>Properties\<close>

text \<open>A target the broker acknowledged: it answered for it, without an error.\<close>

definition acknowledged :: "committed list \<Rightarrow> goerr option \<Rightarrow> target \<Rightarrow> bool" where
  "acknowledged commits commitErr t \<longleftrightarrow>
     commitErr = None \<and> (\<exists>r. find_committed commits (ta_topic t, ta_partition t) = Some r \<and> cm_error r = None)"

lemma reset_row_of_spec:
  "rr_ok (fst (reset_row_of cs ce t)) = acknowledged cs ce t"
  "snd (reset_row_of cs ce t) = None \<longleftrightarrow> acknowledged cs ce t"
  "(rr_topic (fst (reset_row_of cs ce t)), rr_partition (fst (reset_row_of cs ce t))) = (ta_topic t, ta_partition t)"
  by (auto simp: reset_row_of_def acknowledged_def Let_def split: option.splits)

lemma first_error_None: "first_error es = None \<longleftrightarrow> set es \<subseteq> {None}"
  by (induction es) (auto simp: first_error_def split: list.splits)

lemma offsetResetRows_spec:
  "(snd (offsetResetRows targets commits commitErr) = None) = list_all (acknowledged commits commitErr) targets
   \<and> mset (map (\<lambda>r. (rr_topic r, rr_partition r, rr_ok r)) (fst (offsetResetRows targets commits commitErr)))
     = mset (map (\<lambda>t. (ta_topic t, ta_partition t, acknowledged commits commitErr t)) targets)
   \<and> sorted (map (\<lambda>r. (rr_topic r, rr_partition r)) (fst (offsetResetRows targets commits commitErr)))"
proof -
  note s = reset_row_of_spec [of commits commitErr]
  have "(snd (offsetResetRows targets commits commitErr) = None) = list_all (acknowledged commits commitErr) targets"
    by (auto simp: offsetResetRows_def first_error_None list_all_iff s(2) [symmetric])
  moreover have "mset (map (\<lambda>r. (rr_topic r, rr_partition r, rr_ok r)) (fst (offsetResetRows targets commits commitErr)))
      = mset (map (\<lambda>t. (ta_topic t, ta_partition t, acknowledged commits commitErr t)) targets)"
    using s(1,3) by (simp add: offsetResetRows_def mset_map image_mset.compositionality comp_def)
  ultimately show ?thesis by (simp add: offsetResetRows_def)
qed

text \<open>
  The commit a reset sends: the partitions with their offsets, and what the broker answered.
  \<open>None\<close> if it is refused, has no connection or client, or fails to list the offsets before.
\<close>

definition reset_commit ::
  "client_env \<Rightarrow> 'w admin_lib \<Rightarrow> (listed list \<Rightarrow> target list) \<Rightarrow> offset_reset_request \<Rightarrow> 'w service
     \<Rightarrow> (target list \<times> committed list \<times> goerr option) option" where
  "reset_commit cv ad to_targets req sv =
     (if trim_space (or_group req) = [] \<or> ReadOnly (profileOf (or_connection req) sv) then None
      else
        (case (normalizeResetMode (or_reset_to req), getEntry (or_connection req) sv) of
           (Inr mode, Some e) \<Rightarrow>
             (let topics = normalizeTopicNames (or_topics req) in
              if mode \<noteq> ResetPartitionOffsets \<and> topics = [] \<or> mode = ResetTimestamp \<and> or_timestamp req < 0 then None
              else
                (case fst (adminClientLocked cv e) of
                   Inl _ \<Rightarrow> None
                 | Inr c \<Rightarrow>
                     (case reset_targets ad to_targets c mode topics req (sv_world sv) of
                        (Inl _, _) \<Rightarrow> None
                      | (Inr targets, w) \<Rightarrow>
                          (let (commits, commitErr, _) = ad_commit_offsets ad c (trim_space (or_group req)) targets w
                           in Some (targets, commits, commitErr)))))
         | _ \<Rightarrow> None))"

lemma withAdmin_fst:
  "fst (withAdmin cv conn fn sv) =
     (case getEntry conn sv of
        None \<Rightarrow> Inl (errConnectionNotFound conn)
      | Some e \<Rightarrow> (case fst (adminClientLocked cv e) of Inl x \<Rightarrow> Inl x | Inr c \<Rightarrow> fst (fn c (sv_world sv))))"
  by (auto simp: withAdmin_def Let_def split: option.splits sum.splits prod.splits)

lemma recorded_fst [simp]: "fst (recorded s c a t d r) = fst r"
  by (cases r; cases "fst r"; simp add: recorded_def)

lemma ResetGroupOffsets_fst:
  "fst (ResetGroupOffsets cv ad to_targets req sv) = Inr rows \<longleftrightarrow>
     (\<exists>targets commits commitErr. reset_commit cv ad to_targets req sv = Some (targets, commits, commitErr)
        \<and> offsetResetRows targets commits commitErr = (rows, None))"
proof (cases "ReadOnly (profileOf (or_connection req) sv)")
  case True
  then show ?thesis using ensure_refused(1) [OF True, of "''groups/offsets/reset''"]
    by (auto simp: ResetGroupOffsets_def reset_commit_def Let_def)
next
  case False
  then have "ensureWriteAllowed (profileOf (or_connection req) sv) ''groups/offsets/reset'' = Inr ()"
    by (simp add: ensure_allowed_iff)
  then show ?thesis using False
    by (auto simp: ResetGroupOffsets_def reset_commit_def Let_def recorded_fst withAdmin_fst io_bind_def
        split: sum.splits option.splits prod.splits)
qed

text \<open>
  C18. Resetting a group's offsets is reported as a success only if a commit was sent and the
  broker acknowledged every partition in it: a refused request, a failed listing, a partition
  missing from the broker's answer or rejected by it fails the whole request. Conversely, a
  commit acknowledged throughout is a success, and its rows name every partition of the commit,
  in order, each as reset.
\<close>

theorem reset_success_means_acknowledged:
  "case reset_commit cv ad to_targets req sv of
     None \<Rightarrow> \<exists>e. fst (ResetGroupOffsets cv ad to_targets req sv) = Inl e
   | Some (targets, commits, commitErr) \<Rightarrow>
       if list_all (acknowledged commits commitErr) targets
       then \<exists>rows. fst (ResetGroupOffsets cv ad to_targets req sv) = Inr rows
         \<and> mset (map (\<lambda>r. (rr_topic r, rr_partition r, rr_ok r)) rows) = mset (map (\<lambda>t. (ta_topic t, ta_partition t, True)) targets)
         \<and> sorted (map (\<lambda>r. (rr_topic r, rr_partition r)) rows)
       else \<exists>e. fst (ResetGroupOffsets cv ad to_targets req sv) = Inl e"
proof -
  have inl: "\<exists>e. r = Inl e" if "\<And>rows. r \<noteq> Inr rows" for r :: "reset_row list res" using that by (cases r) auto
  note f = ResetGroupOffsets_fst [of cv ad to_targets req sv]
  show ?thesis
  proof (cases "reset_commit cv ad to_targets req sv")
    case None
    then show ?thesis using f by (auto intro: inl)
  next
    case (Some t)
    obtain targets commits commitErr where t: "t = (targets, commits, commitErr)" by (cases t)
    note spec = offsetResetRows_spec [of targets commits commitErr]
    show ?thesis
    proof (cases "list_all (acknowledged commits commitErr) targets")
      case True
      then have "snd (offsetResetRows targets commits commitErr) = None" using spec by simp
      then have "fst (ResetGroupOffsets cv ad to_targets req sv) = Inr (fst (offsetResetRows targets commits commitErr))"
        unfolding f Some t by (metis prod.collapse)
      moreover have same: "map (\<lambda>t. (ta_topic t, ta_partition t, acknowledged commits commitErr t)) targets
          = map (\<lambda>t. (ta_topic t, ta_partition t, True)) targets"
        using True by (simp add: list_all_iff)
      moreover note spec [unfolded same]
      ultimately show ?thesis using True unfolding Some t option.case prod.case by auto
    next
      case False
      then have "snd (offsetResetRows targets commits commitErr) \<noteq> None" using spec by simp
      then have "\<exists>e. fst (ResetGroupOffsets cv ad to_targets req sv) = Inl e" by (intro inl) (auto simp: f Some t)
      then show ?thesis using False by (simp add: Some t)
    qed
  qed
qed

lemma aclResourceType_words:
  "aclResourceType t = Inr x \<Longrightarrow> acl_resource_of x = AnyResource \<longleftrightarrow> word_of t \<in> {''any'', ''user''}"
  by (auto simp: aclResourceType_def acl_resource_of_def Let_def split: if_splits)

lemma aclResourceType_ANY: "aclResourceType t = Inr ''ANY'' \<longleftrightarrow> word_of t = ''any''"
  by (auto simp: aclResourceType_def Let_def)

text \<open>A filter over every type of resource that the guard refuses.\<close>

definition broad :: "acl_filter \<Rightarrow> bool" where
  "broad f \<longleftrightarrow> blank (af_resource_name f) \<or> blank (af_principal f) \<and> blank (af_operation f)"

lemma aclBuilderFromFilter_eq:
  "aclBuilderFromFilter f = ebind (aclResourceType (af_resource_type f)) (\<lambda>t.
     if t = ''ANY'' \<and> broad f then
       Inl (if blank (af_resource_name f) then Errf ''filter is too broad: resourceType (or resourceName) is required'' []
            else Errf ''filter is too broad: principal or operation is required alongside resourceName'' [])
     else
       ebind (aclOperationType (af_operation f)) (\<lambda>operation.
       ebind (aclPatternType (af_pattern_type f)) (\<lambda>pattern.
       ebind (aclPermissionType (af_permission f)) (\<lambda>permission.
       Inr (build_acl t (af_resource_name f) pattern operation permission (af_principal f) (af_host f))))))"
  unfolding aclBuilderFromFilter_def broad_def by (intro arg_cong2 [where f = ebind] refl ext) auto

lemma aclBuilderFromFilter_Inr:
  assumes "aclBuilderFromFilter f = Inr b"
  obtains t o' p m where "aclResourceType (af_resource_type f) = Inr t" "aclOperationType (af_operation f) = Inr o'"
    "aclPatternType (af_pattern_type f) = Inr p" "aclPermissionType (af_permission f) = Inr m"
    "t = ''ANY'' \<longrightarrow> \<not> broad f"
    "b = build_acl t (af_resource_name f) p o' m (af_principal f) (af_host f)"
  using assms unfolding aclBuilderFromFilter_eq ebind_Inr_iff by (auto simp: ebind_Inr_iff split: if_splits)

text \<open>
  C19. The guard against filters that are too broad, which protects the deletion of ACLs, is
  keyed to the type \<open>any\<close>: such a filter needs a name and a principal or an operation. The
  type \<open>user\<close> is turned into the same request over every type of resource without that
  guard, so for it a filter with no name, principal or operation is accepted, and with a name
  it reaches the ACLs of every type of resource under that name.
\<close>

theorem acl_filter_guard:
  assumes "aclBuilderFromFilter f = Inr b" "ab_resource b = AnyResource"
  shows "word_of (af_resource_type f) = ''any'' \<and> \<not> broad f
    \<or> word_of (af_resource_type f) = ''user''
        \<and> (\<exists>e. aclBuilderFromFilter (f\<lparr>af_resource_type := ''any''\<rparr>) = (if broad f then Inl e else Inr b))"
proof -
  obtain t o' p m where b: "aclResourceType (af_resource_type f) = Inr t" "aclOperationType (af_operation f) = Inr o'"
    "aclPatternType (af_pattern_type f) = Inr p" "aclPermissionType (af_permission f) = Inr m"
    "t = ''ANY'' \<longrightarrow> \<not> broad f" "b = build_acl t (af_resource_name f) p o' m (af_principal f) (af_host f)"
    using assms(1) by (rule aclBuilderFromFilter_Inr)
  have t: "acl_resource_of t = AnyResource" using assms(2) b(6) by (simp add: build_acl_def)
  then have w: "word_of (af_resource_type f) \<in> {''any'', ''user''}" using aclResourceType_words [OF b(1)] by simp
  show ?thesis
  proof (cases "word_of (af_resource_type f) = ''any''")
    case True
    then have "t = ''ANY''" using b(1) aclResourceType_ANY [of "af_resource_type f"] by simp
    then show ?thesis using b(5) True by simp
  next
    case False
    have any: "aclResourceType ''any'' = Inr ''ANY''"
      by (simp add: aclResourceType_def trim_space_graphic graphic_def lower_char_def)
    have "build_acl ''ANY'' n p o' m pr h = build_acl t n p o' m pr h" for n pr h
      using t by (simp add: build_acl_def acl_resource_of_def)
    then have "\<exists>e. aclBuilderFromFilter (f\<lparr>af_resource_type := ''any''\<rparr>) = (if broad f then Inl e else Inr b)"
      using b by (simp add: aclBuilderFromFilter_eq any broad_def)
    then show ?thesis using False w by simp
  qed
qed

definition user_filter :: acl_filter where
  "user_filter = \<lparr>af_resource_type = ''user'', af_resource_name = [], af_pattern_type = ''any'', af_principal = [],
     af_host = [], af_operation = [], af_permission = []\<rparr>"

theorem acl_filter_guard_witness:
  "\<exists>b. aclBuilderFromFilter user_filter = Inr b \<and> ab_resource b = AnyResource \<and> ab_name b = []
     \<and> \<not> is_ok (aclBuilderFromFilter (user_filter\<lparr>af_resource_type := ''any''\<rparr>))"
proof -
  note words = aclResourceType_def aclPatternType_def aclOperationType_def aclPermissionType_def
    trim_space_graphic graphic_def lower_char_def
  obtain b where b: "aclBuilderFromFilter user_filter = Inr b" "ab_resource b = AnyResource" "ab_name b = []"
    by (simp add: aclBuilderFromFilter_def user_filter_def words build_acl_def acl_resource_of_def)
  have "broad user_filter" by (simp add: broad_def user_filter_def)
  then show ?thesis using acl_filter_guard [OF b(1,2)] b by (auto simp: user_filter_def words)
qed

text \<open>
  The rows of a group's offsets name every partition of the three listings once, in order.
  The lag is what lies between the commit and the end, never negative, and everything up to
  the end if the commit is marked as absent. A partition the library returns no commit for is
  not marked so: it is shown as committed at 0.
\<close>

theorem group_rows_lag:
  assumes "\<forall>i \<in> set ends. li_offset i < 2 ^ 63"
  shows "sorted (map (\<lambda>r. (go_topic r, go_partition r)) (groupOffsetRows starts ends cs))
    \<and> distinct (map (\<lambda>r. (go_topic r, go_partition r)) (groupOffsetRows starts ends cs))
    \<and> (\<lambda>r. (go_topic r, go_partition r)) ` set (groupOffsetRows starts ends cs)
        = (\<lambda>i. (li_topic i, li_partition i)) ` set (starts @ ends) \<union> (\<lambda>c. (cm_topic c, cm_partition c)) ` set cs
    \<and> list_all (\<lambda>r. go_lag r = (if go_committed r < 0 then go_end r else max 0 (go_end r - go_committed r)) \<and> 0 \<le> go_lag r
        \<and> (find_committed cs (go_topic r, go_partition r) \<noteq> None \<or> go_committed r = 0)) (groupOffsetRows starts ends cs)"
proof -
  let ?keys = "sort (remdups (map (\<lambda>i. (li_topic i, li_partition i)) (starts @ ends)
                       @ map (\<lambda>c. (cm_topic c, cm_partition c)) cs))"
  have k: "map (\<lambda>r. (go_topic r, go_partition r)) (groupOffsetRows starts ends cs) = ?keys"
    unfolding groupOffsetRows_def map_map by (rule map_idI) (simp add: group_offset_row_of_def Let_def)
  let ?P = "\<lambda>r. go_lag r = (if go_committed r < 0 then go_end r else max 0 (go_end r - go_committed r)) \<and> 0 \<le> go_lag r
      \<and> (find_committed cs (go_topic r, go_partition r) \<noteq> None \<or> go_committed r = 0)"
  have "?P (group_offset_row_of starts ends cs x)" for x
  proof -
    let ?r = "group_offset_row_of starts ends cs x"
    have e: "0 \<le> go_end ?r" "go_end ?r < 2 ^ 63"
      using assms by (auto simp: group_offset_row_of_def Let_def max64_def find_listed_def find_Some_iff split: option.splits)
    have "go_lag ?r = groupLag (go_end ?r) (go_committed ?r)" by (simp add: group_offset_row_of_def Let_def)
    moreover have "i64 (go_end ?r - go_committed ?r) = go_end ?r - go_committed ?r" if "0 \<le> go_committed ?r" "go_committed ?r < go_end ?r"
      using that e by (intro i64_id) auto
    moreover have "find_committed cs (go_topic ?r, go_partition ?r) \<noteq> None \<or> go_committed ?r = 0"
      by (simp add: group_offset_row_of_def Let_def split: option.splits)
    ultimately show ?thesis using e by (auto simp: groupLag_def max_def)
  qed
  then have "list_all ?P (groupOffsetRows starts ends cs)" unfolding groupOffsetRows_def list_all_iff set_map by blast
  moreover have "(\<lambda>r. (go_topic r, go_partition r)) ` set (groupOffsetRows starts ends cs)
      = (\<lambda>i. (li_topic i, li_partition i)) ` set (starts @ ends) \<union> (\<lambda>c. (cm_topic c, cm_partition c)) ` set cs"
    using arg_cong [OF k, of set] by (simp add: image_Un Un_assoc)
  ultimately show ?thesis unfolding k by simp
qed

theorem group_rows_lag_witness:
  "\<exists>r. groupOffsetRows [] [\<lparr>li_topic = ''t'', li_partition = 0, li_offset = 40, li_timestamp = 0, li_epoch = 0, li_error = None\<rparr>] [] = [r]
     \<and> go_committed r = 0 \<and> go_lag r = 40"
proof -
  let ?e = "[\<lparr>li_topic = ''t'', li_partition = 0, li_offset = 40, li_timestamp = 0, li_epoch = 0, li_error = None\<rparr>]"
  have "groupOffsetRows [] ?e [] = [group_offset_row_of [] ?e [] (''t'', 0)]" by (simp add: groupOffsetRows_def)
  moreover have "go_end (group_offset_row_of [] ?e [] (''t'', 0)) = 40" "find_committed [] k = None" for k
    by (simp_all add: group_offset_row_of_def find_listed_def find_committed_def max64_def)
  ultimately show ?thesis using group_rows_lag [of ?e "[]" "[]"] by (auto simp: list_all_iff)
qed

text \<open>
  The broker answers a deletion of records with the new low watermark, which is the offset
  it was asked to delete up to. So the number of deleted records in the answer to
  \<open>topics/records/clear\<close>, the high watermark before minus that low watermark, is 0 for every
  partition that was cleared, however many records it held.
\<close>

theorem clear_reports_zero:
  assumes law: "\<forall>d \<in> set deleted. \<forall>t \<in> set (clear_targets topic highs).
      dr_error d = None \<longrightarrow> dr_partition d = ta_partition t \<longrightarrow> dr_low d = ta_at t"
    and row: "row \<in> set (clearRecordsRows topic (clear_before topic highs) (clear_errors topic highs) deleted)" "cl_ok row"
  shows "cl_deleted row = Some 0"
proof -
  let ?b = "clear_before topic highs"
  obtain p where p: "p \<in> set (map fst ?b @ map fst (clear_errors topic highs))"
    "row = clear_row_of topic ?b (clear_errors topic highs) deleted p"
    using row(1) by (auto simp: clearRecordsRows_def)
  let ?f = "find (\<lambda>d. dr_topic d = topic \<and> dr_partition d = p) deleted"
  have e: "map_of (clear_errors topic highs) p = None" using row(2) p(2) by (auto simp: clear_row_of_def Let_def split: option.splits)
  have "?f \<noteq> None" using row(2) p(2) e by (auto simp: clear_row_of_def Let_def split: option.splits)
  then obtain d where f: "?f = Some d" by blast
  have d: "d \<in> set deleted" "dr_partition d = p" using f by (auto simp: find_Some_iff)
  have de: "dr_error d = None" using row(2) p(2) e f by (auto simp: clear_row_of_def Let_def split: option.splits)
  then have del: "cl_deleted row = Some (i64 ((case map_of ?b p of Some b \<Rightarrow> b | None \<Rightarrow> 0) - dr_low d))"
    using p(2) e f by (simp add: clear_row_of_def Let_def)
  have "p \<in> set (map fst ?b)" using p(1) e by (auto simp: map_of_eq_None_iff)
  then obtain b where b: "map_of ?b p = Some b" by (metis map_of_eq_None_iff not_None_eq set_map)
  then obtain t where "t \<in> set (clear_targets topic highs)" "ta_partition t = p" "ta_at t = b"
    by (auto simp: clear_before_def dest!: map_of_SomeD)
  then have "dr_low d = b" using law d de by auto
  then show ?thesis using del b by (simp add: i64_def)
qed

theorem clear_reports_zero_witness:
  "clearRecordsRows ''t'' [(0, 500)] [] [\<lparr>dr_topic = ''t'', dr_partition = 0, dr_low = 500, dr_error = None\<rparr>]
     = [\<lparr>cl_partition = 0, cl_deleted = Some 0, cl_low = Some 500, cl_ok = True, cl_error = None\<rparr>]"
proof -
  let ?h = "[\<lparr>li_topic = ''t'', li_partition = 0, li_offset = 500, li_timestamp = 0, li_epoch = 0, li_error = None\<rparr>]"
  let ?d = "[\<lparr>dr_topic = ''t'', dr_partition = 0, dr_low = 500, dr_error = None\<rparr>]"
  have h: "clear_before ''t'' ?h = [(0, 500)]" "clear_errors ''t'' ?h = []" "clear_targets ''t'' ?h = [\<lparr>ta_topic = ''t'', ta_partition = 0, ta_at = 500, ta_epoch = 0\<rparr>]"
    by (simp_all add: clear_before_def clear_errors_def clear_targets_def List.map_filter_def)
  obtain r where r: "clearRecordsRows ''t'' [(0, 500)] [] ?d = [r]" "cl_ok r" "cl_partition r = 0" "cl_low r = Some 500" "cl_error r = None"
    by (simp add: clearRecordsRows_def clear_row_of_def Let_def)
  have "cl_deleted r = Some 0"
    using clear_reports_zero [of ?d "''t''" ?h r] r by (simp add: h)
  then show ?thesis using r by (cases r) simp
qed

end
