(* ===== verification/SchemaWire.thy ===== *)
theory SchemaWire
  imports GoBytes
begin

text \<open>
  The framing of \<open>kafkaconn/schema.go\<close>: the header with the schema id, the variable-length
  integers of \<open>encoding/binary\<close>, the message indexes that precede a Protobuf payload, and how
  the message of a Protobuf schema is chosen. A descriptor is the message with the enclosing
  messages and its file; the descriptors come from a library.
\<close>

section \<open>The frame\<close>

text \<open>\<open>uint32(id)\<close> in big-endian order.\<close>

definition byte_of :: "int \<Rightarrow> char" where
  "byte_of n = char_of (nat (n mod 256))"

definition encodeWireFrame :: "int \<Rightarrow> string \<Rightarrow> string" where
  "encodeWireFrame schemaID payload =
     [CHR 0x00, byte_of (schemaID div 2 ^ 24), byte_of (schemaID div 2 ^ 16), byte_of (schemaID div 2 ^ 8),
      byte_of schemaID] @ payload"

definition uint32_of :: "string \<Rightarrow> int" where
  "uint32_of bs = foldl (\<lambda>n b. n * 256 + int (of_char b)) 0 bs"

definition decodeWireFrame :: "string \<Rightarrow> (int \<times> string) res" where
  "decodeWireFrame value =
     (if length value < 5
      then Inl (Errf ''value is too short to use the Confluent wire format'' [])
      else if hd value \<noteq> CHR 0x00
      then Inl (Errf ''value does not use the Confluent wire format (magic byte %d != %d)''
                  [format_int (int (of_char (hd value))), format_int 0])
      else Inr (uint32_of (take 4 (drop 1 value)), drop 5 value))"

lemma of_char_byte_of [simp]: "int (of_char (byte_of n)) = n mod 256"
  by (simp add: byte_of_def of_char_of)

lemma mod_256_step: "m mod (256 * k) = 256 * (m div 256 mod k) + m mod 256" if "0 \<le> k" for m k :: int
  using zmod_zmult2_eq [OF that, of m 256] .

lemma uint32_bytes:
  "((n div 2 ^ 24 mod 256 * 256 + n div 2 ^ 16 mod 256) * 256 + n div 2 ^ 8 mod 256) * 256 + n mod 256
     = n mod (2 ^ 32 :: int)"
proof -
  have d: "n div 2 ^ 8 = n div 256" "n div 2 ^ 16 = n div 256 div 256" "n div 2 ^ 24 = n div 256 div 256 div 256"
    by (simp_all add: zdiv_zmult2_eq [symmetric])
  have "n mod 2 ^ 32 = 256 * (n div 256 mod 16777216) + n mod 256"
    using mod_256_step [of 16777216 n] by simp
  moreover have "n div 256 mod 16777216 = 256 * (n div 256 div 256 mod 65536) + n div 256 mod 256"
    using mod_256_step [of 65536 "n div 256"] by simp
  moreover have "n div 256 div 256 mod 65536 = 256 * (n div 256 div 256 div 256 mod 256) + n div 256 div 256 mod 256"
    using mod_256_step [of 256 "n div 256 div 256"] by simp
  moreover have "((c * 256 + b) * 256 + a) * 256 + m = 256 * (256 * (256 * c + b) + a) + m" for a b c m :: int
    by simp
  ultimately show ?thesis unfolding d by (simp only:)
qed

lemma decode_encode_frame [simp]: "decodeWireFrame (encodeWireFrame i p) = Inr (i mod 2 ^ 32, p)"
proof -
  have "uint32_of [byte_of (i div 2 ^ 24), byte_of (i div 2 ^ 16), byte_of (i div 2 ^ 8), byte_of i] = i mod 2 ^ 32"
    unfolding uint32_of_def foldl.simps of_char_byte_of by (simp only: uint32_bytes [of i] mult_zero_left add_0_left)
  then show ?thesis
    by (simp add: decodeWireFrame_def encodeWireFrame_def del: of_char_byte_of)
qed

section \<open>Variable-length integers\<close>

text \<open>\<open>binary.AppendUvarint(nil, x)\<close> for \<open>x\<close> of 64 bits.\<close>

fun uvarint_bytes :: "nat \<Rightarrow> string" where
  "uvarint_bytes x = (if x < 128 then [char_of x] else char_of (x mod 128 + 128) # uvarint_bytes (x div 128))"

declare uvarint_bytes.simps [simp del]

text \<open>
  \<open>binary.Uvarint\<close> from byte \<open>i\<close> on, with the value so far: the value and the number of bytes
  read, 0 if the buffer is too small, negative if the value exceeds 64 bits.
\<close>

fun uvarint_loop :: "nat \<Rightarrow> nat \<Rightarrow> string \<Rightarrow> nat \<times> int" where
  "uvarint_loop i x [] = (0, 0)"
| "uvarint_loop i x (b # bs) =
     (if i = 10 then (0, - int (i + 1))
      else if of_char b < (128::nat) then
        (if i = 9 \<and> of_char b > (1::nat) then (0, - int (i + 1))
         else (x + of_char b * 128 ^ i, int (i + 1)))
      else uvarint_loop (i + 1) (x + (of_char b - 128) * 128 ^ i) bs)"

definition Uvarint :: "string \<Rightarrow> nat \<times> int" where
  "Uvarint buf = uvarint_loop 0 0 buf"

lemma uvarint_index: "i < 10" if "n \<noteq> 0" "n * 128 ^ i < (2::nat) ^ 64"
proof (rule ccontr)
  assume "\<not> i < 10"
  then have "(128::nat) ^ 10 \<le> 128 ^ i" by (intro power_increasing) auto
  moreover have "1 * 128 ^ i \<le> n * 128 ^ i" using that by (intro mult_le_mono1) auto
  moreover have "(128::nat) ^ 10 = 2 ^ 70" by simp
  ultimately have "(2::nat) ^ 70 \<le> n * 128 ^ i" by linarith
  with that have "(2::nat) ^ 70 < 2 ^ 64" by linarith
  then show False by simp
qed

lemma uvarint_last: "\<not> (i = 9 \<and> n > 1)" if "n * 128 ^ i < (2::nat) ^ 64"
proof
  assume "i = 9 \<and> n > 1"
  then have "2 * 128 ^ 9 \<le> n * 128 ^ i" by (intro mult_le_mono) auto
  with that have "2 * 128 ^ 9 < (2::nat) ^ 64" by linarith
  then show False by simp
qed

lemma of_char_small: "n < 256 \<Longrightarrow> of_char (char_of (n :: nat) :: char) = n"
  by (simp add: of_char_of)

lemma uvarint_roundtrip:
  assumes "n * 128 ^ i < 2 ^ 64" "i < 10"
  shows "uvarint_loop i x (uvarint_bytes n @ rest) = (x + n * 128 ^ i, int (i + length (uvarint_bytes n)))"
  using assms
proof (induction n arbitrary: i x rule: uvarint_bytes.induct)
  case (1 n)
  show ?case
  proof (cases "n < 128")
    case True
    then show ?thesis using "1.prems" uvarint_last [OF "1.prems"(1)]
      by (simp add: uvarint_bytes.simps [of n] of_char_small)
  next
    case False
    have d: "n = n mod 128 + 128 * (n div 128)" by simp
    have "n div 128 * 128 ^ (i + 1) = (n div 128 * 128) * 128 ^ i" by simp
    also have "\<dots> \<le> n * 128 ^ i" by (intro mult_le_mono1) simp
    finally have lt: "n div 128 * 128 ^ (i + 1) < 2 ^ 64" using "1.prems"(1) by linarith
    have "i + 1 < 10" using uvarint_index [OF _ lt] False by simp
    note IH = "1.IH" [OF False lt this]
    have "x + n mod 128 * 128 ^ i + n div 128 * 128 ^ (i + 1) = x + n * 128 ^ i"
      unfolding add.assoc by (subst (3) d) (simp only: algebra_simps power_add power_one_right)
    then show ?thesis using False "1.prems"(2) IH [of "x + n mod 128 * 128 ^ i"]
      by (simp add: uvarint_bytes.simps [of n] of_char_small)
  qed
qed

lemma Uvarint_append: "n < 2 ^ 64 \<Longrightarrow> Uvarint (uvarint_bytes n @ rest) = (n, int (length (uvarint_bytes n)))"
  using uvarint_roundtrip [of n 0 0 rest] by (simp add: Uvarint_def)

lemma uvarint_bytes_pos: "0 < length (uvarint_bytes n)"
  by (simp add: uvarint_bytes.simps [of n])

section \<open>Message indexes\<close>

definition encodeProtobufMessageIndexes :: "nat list \<Rightarrow> string" where
  "encodeProtobufMessageIndexes indexes = concat (map uvarint_bytes indexes)"

fun strip_indexes :: "nat \<Rightarrow> string \<Rightarrow> string option" where
  "strip_indexes 0 rest = Some rest"
| "strip_indexes (Suc d) rest =
     (let n = snd (Uvarint rest) in if n \<le> 0 then None else strip_indexes d (drop (nat n) rest))"

definition stripProtobufMessageIndexes :: "string \<Rightarrow> int \<Rightarrow> string option" where
  "stripProtobufMessageIndexes payload depth =
     (if depth \<le> 0 then Some payload else strip_indexes (nat depth) payload)"

lemma strip_indexes_encode:
  "(\<And>i. i \<in> set is \<Longrightarrow> i < 2 ^ 64)
   \<Longrightarrow> strip_indexes (length is) (encodeProtobufMessageIndexes is @ p) = Some p"
proof (induction "is")
  case (Cons i "is")
  then have "strip_indexes (length is) (encodeProtobufMessageIndexes is @ p) = Some p" by simp
  with Cons.prems [of i] show ?case
    using Uvarint_append [of i "encodeProtobufMessageIndexes is @ p"] uvarint_bytes_pos [of i]
    by (simp add: encodeProtobufMessageIndexes_def)
qed (simp add: encodeProtobufMessageIndexes_def)

lemma strip_encode:
  "(\<And>i. i \<in> set is \<Longrightarrow> i < 2 ^ 64)
   \<Longrightarrow> stripProtobufMessageIndexes (encodeProtobufMessageIndexes is @ p) (int (length is)) = Some p"
  using strip_indexes_encode [of "is" p]
  by (auto simp: stripProtobufMessageIndexes_def encodeProtobufMessageIndexes_def)

section \<open>Descriptors\<close>

text \<open>
  A message of a file, by its full name, with the messages declared in it; a descriptor adds
  the messages around it, the innermost first, and the messages at the top of its file:
  \<open>Parent()\<close> is the first message around it, or the file.
\<close>

datatype pmessage = Message (full_name: string) (nested: "pmessage list")

record descriptor =
  de_message :: pmessage
  de_around :: "pmessage list"
  de_file :: "pmessage list"

fun append_nested :: "pmessage list \<Rightarrow> pmessage list \<Rightarrow> pmessage \<Rightarrow> descriptor list" where
  "append_nested file around (Message n ms) =
     concat (map (\<lambda>m. \<lparr>de_message = m, de_around = Message n ms # around, de_file = file\<rparr>
                      # append_nested file (Message n ms # around) m) ms)"

text \<open>\<open>files\<close>: the files in the order in which \<open>RangeFiles\<close> visits them.\<close>

definition collectProtobufMessages :: "pmessage list list \<Rightarrow> descriptor list" where
  "collectProtobufMessages files =
     concat (map (\<lambda>file. concat (map (\<lambda>m. \<lparr>de_message = m, de_around = [], de_file = file\<rparr> # append_nested file [] m) file))
        files)"

fun first_named :: "string \<Rightarrow> pmessage list \<Rightarrow> nat option" where
  "first_named n [] = None"
| "first_named n (m # ms) = (if full_name m = n then Some 0 else map_option Suc (first_named n ms))"

definition siblings :: "descriptor \<Rightarrow> pmessage list" where
  "siblings d = (case de_around d of [] \<Rightarrow> de_file d | p # _ \<Rightarrow> nested p)"

definition protobufSiblingIndex :: "descriptor \<Rightarrow> nat" where
  "protobufSiblingIndex d = (case first_named (full_name (de_message d)) (siblings d) of None \<Rightarrow> 0 | Some i \<Rightarrow> i)"

function index_path :: "nat list \<Rightarrow> descriptor \<Rightarrow> nat list" where
  "index_path reversed d =
     (let reversed = reversed @ [protobufSiblingIndex d] in
        case de_around d of
          [] \<Rightarrow> rev reversed
        | p # around \<Rightarrow> index_path reversed (d\<lparr>de_message := p, de_around := around\<rparr>))"
  by pat_completeness auto
termination
  by (relation "measure (\<lambda>(r, d). length (de_around d))") auto

declare index_path.simps [simp del]

definition protobufMessageIndexPath :: "descriptor \<Rightarrow> nat list" where
  "protobufMessageIndexPath d = index_path [] d"

section \<open>Choosing the message\<close>

text \<open>\<open>desc.FullName()\<close>, its last segment, and the last segment of a subject.\<close>

definition messageFullNameTail :: "string \<Rightarrow> string" where
  "messageFullNameTail full = (case split_last (CHR ''.'') full of None \<Rightarrow> full | Some (_, t) \<Rightarrow> t)"

text \<open>The text after the last character that is one of \<open>seps\<close>.\<close>

definition after_last :: "string \<Rightarrow> string \<Rightarrow> string" where
  "after_last seps s = rev (takeWhile (\<lambda>c. c \<notin> set seps) (rev s))"

definition protobufSubjectTail :: "string \<Rightarrow> string" where
  "protobufSubjectTail subject =
     (let base = trim_space subject;
          base = (if suffix ''-key'' base then take (length base - 4) base
                  else if suffix ''-value'' base then take (length base - 6) base
                  else base)
      in trim_space (after_last ''./'' base))"

text \<open>
  \<open>unicode.ToUpper\<close> of the first rune: the full names are compared with the result, and they
  are ASCII identifiers, so \<open>to_upper\<close> is enough.
\<close>

definition pascal_word :: "string \<Rightarrow> string" where
  "pascal_word word = (case runes_of word of [] \<Rightarrow> [] | r # rs \<Rightarrow> to_upper r @ concat rs)"

definition pascalCase :: "string \<Rightarrow> string" where
  "pascalCase value = concat (map pascal_word (fields_func ''_- .'' value))"

definition selectProtobufMessage :: "descriptor list \<Rightarrow> string \<Rightarrow> descriptor res" where
  "selectProtobufMessage messages subject =
     (let names = map (\<lambda>d. full_name (de_message d)) messages;
          tail = protobufSubjectTail subject;
          matched = filter (\<lambda>d. messageFullNameTail (full_name (de_message d)) = pascalCase tail) messages
      in case messages of
           [] \<Rightarrow> Inl (Errf ''protobuf FileDescriptorSet contains no message'' [])
         | [d] \<Rightarrow> Inr d
         | _ \<Rightarrow>
             if tail \<noteq> [] \<and> length matched = 1 then Inr (hd matched)
             else Inl (Errf ''protobuf schema contains multiple messages and subject %q does not identify exactly one (strip -key/-value suffix, PascalCase tail match); candidates: %s''
                         [subject, join_with '', '' (sort names)]))"

lemma selected_in: "selectProtobufMessage ds subject = Inr d \<Longrightarrow> d \<in> set ds"
proof -
  assume a: "selectProtobufMessage ds subject = Inr d"
  let ?m = "filter (\<lambda>d. messageFullNameTail (full_name (de_message d)) = pascalCase (protobufSubjectTail subject)) ds"
  have "length ?m = 1 \<Longrightarrow> hd ?m \<in> set ds" using hd_in_set [of ?m] by force
  with a show ?thesis
    by (auto simp: selectProtobufMessage_def Let_def split: list.splits if_splits)
qed

section \<open>The path leads to the message\<close>

fun follow :: "pmessage list \<Rightarrow> nat list \<Rightarrow> pmessage option" where
  "follow ms [] = None"
| "follow ms [i] = (if i < length ms then Some (ms ! i) else None)"
| "follow ms (i # is) = (if i < length ms then follow (nested (ms ! i)) is else None)"

text \<open>
  What \<open>protodesc.NewFiles\<close> ensures: no two messages of a scope have the same name; and a
  slice has fewer than \<open>2 ^ 63\<close> elements.
\<close>

definition scope_ok :: "pmessage list \<Rightarrow> bool" where
  "scope_ok ms \<longleftrightarrow> distinct (map full_name ms) \<and> int (length ms) < 2 ^ 63"

fun message_ok :: "pmessage \<Rightarrow> bool" where
  "message_ok (Message n ms) = (scope_ok ms \<and> list_all message_ok ms)"

definition file_ok :: "pmessage list \<Rightarrow> bool" where
  "file_ok ms \<longleftrightarrow> scope_ok ms \<and> list_all message_ok ms"

fun placed :: "pmessage list \<Rightarrow> pmessage list \<Rightarrow> pmessage \<Rightarrow> bool" where
  "placed file [] m = (m \<in> set file \<and> scope_ok file)"
| "placed file (p # ps) m = (m \<in> set (nested p) \<and> scope_ok (nested p) \<and> placed file ps p)"

abbreviation placed_desc :: "descriptor \<Rightarrow> bool" where
  "placed_desc d \<equiv> placed (de_file d) (de_around d) (de_message d)"

lemma append_nested_placed:
  "\<lbrakk>placed file around m; message_ok m; d \<in> set (append_nested file around m)\<rbrakk> \<Longrightarrow> placed_desc d"
proof (induction m arbitrary: around)
  case (Message n ms)
  from Message.prems(3) obtain m where m: "m \<in> set ms"
    "d = \<lparr>de_message = m, de_around = Message n ms # around, de_file = file\<rparr>
       \<or> d \<in> set (append_nested file (Message n ms # around) m)" by auto
  have "placed file (Message n ms # around) m" "message_ok m"
    using Message.prems(1,2) m(1) by (simp_all add: list_all_iff)
  with m Message.IH [of m "Message n ms # around"] show ?case by auto
qed

lemma collected_placed:
  assumes "list_all file_ok files" "d \<in> set (collectProtobufMessages files)"
  shows "placed_desc d"
proof -
  from assms(2) obtain fm m where m: "fm \<in> set files" "m \<in> set fm"
    "d = \<lparr>de_message = m, de_around = [], de_file = fm\<rparr> \<or> d \<in> set (append_nested fm [] m)"
    by (auto simp: collectProtobufMessages_def)
  have "placed fm [] m" "message_ok m"
    using assms(1) m(1,2) by (auto simp: file_ok_def list_all_iff)
  with m append_nested_placed [of fm "[]" m d] show ?thesis by auto
qed

lemma first_named_nth:
  "\<lbrakk>i < length ms; distinct (map full_name ms)\<rbrakk> \<Longrightarrow> first_named (full_name (ms ! i)) ms = Some i"
proof (induction ms arbitrary: i)
  case (Cons m ms)
  then show ?case by (cases i) auto
qed simp

lemma placed_siblings: "placed_desc d \<Longrightarrow> de_message d \<in> set (siblings d) \<and> scope_ok (siblings d)"
  by (cases "de_around d") (simp_all add: siblings_def)

lemma sibling_index:
  assumes "placed_desc d"
  shows "protobufSiblingIndex d < length (siblings d)" "siblings d ! protobufSiblingIndex d = de_message d"
    "protobufSiblingIndex d < 2 ^ 64"
proof -
  from placed_siblings [OF assms] obtain i where i: "i < length (siblings d)" "siblings d ! i = de_message d"
    by (auto simp: in_set_conv_nth)
  with placed_siblings [OF assms] have "protobufSiblingIndex d = i"
    using first_named_nth [of i "siblings d"] by (simp add: protobufSiblingIndex_def scope_ok_def)
  with i placed_siblings [OF assms] show "protobufSiblingIndex d < length (siblings d)"
    "siblings d ! protobufSiblingIndex d = de_message d" "protobufSiblingIndex d < 2 ^ 64"
    by (auto simp: scope_ok_def)
qed

lemma index_path_acc: "index_path r d = index_path [] d @ rev r"
proof (induction "de_around d" arbitrary: r d)
  case Nil
  then show ?case by (simp add: index_path.simps [of r d] index_path.simps [of "[]" d] split: list.splits)
next
  case (Cons p ps)
  let ?d = "d\<lparr>de_message := p, de_around := ps\<rparr>"
  have "index_path r d = index_path (r @ [protobufSiblingIndex d]) ?d"
    "index_path [] d = index_path [protobufSiblingIndex d] ?d"
    using Cons(2) [symmetric] by (simp_all add: index_path.simps [of r d] index_path.simps [of "[]" d])
  moreover note Cons(1) [of ?d "r @ [protobufSiblingIndex d]"] Cons(1) [of ?d "[protobufSiblingIndex d]"]
  ultimately show ?case by simp
qed

lemma path_top: "de_around d = [] \<Longrightarrow> protobufMessageIndexPath d = [protobufSiblingIndex d]"
  by (simp add: protobufMessageIndexPath_def index_path.simps [of "[]" d])

lemma path_inside:
  "de_around d = p # ps \<Longrightarrow> protobufMessageIndexPath d
     = protobufMessageIndexPath (d\<lparr>de_message := p, de_around := ps\<rparr>) @ [protobufSiblingIndex d]"
  using index_path_acc [of "[protobufSiblingIndex d]"]
  by (simp add: protobufMessageIndexPath_def index_path.simps [of "[]" d])

lemma follow_snoc:
  "follow ms is = Some m \<Longrightarrow> follow ms (is @ [i]) = (if i < length (nested m) then Some (nested m ! i) else None)"
  by (induction ms "is" rule: follow.induct) (auto split: if_splits)

lemma follow_path:
  "placed_desc d \<Longrightarrow> follow (de_file d) (protobufMessageIndexPath d) = Some (de_message d)
     \<and> (\<forall>i\<in>set (protobufMessageIndexPath d). i < 2 ^ 64)"
proof (induction "de_around d" arbitrary: d)
  case Nil
  then show ?case using sibling_index [OF Nil.prems] by (simp add: path_top siblings_def)
next
  case (Cons p ps)
  let ?d = "d\<lparr>de_message := p, de_around := ps\<rparr>"
  have "placed_desc ?d" using Cons.prems Cons(2) [symmetric] by simp
  with Cons(1) [of ?d] have "follow (de_file d) (protobufMessageIndexPath ?d) = Some p"
    "\<forall>i\<in>set (protobufMessageIndexPath ?d). i < 2 ^ 64" by simp_all
  then show ?case
    using sibling_index [OF Cons.prems] Cons(2) [symmetric] follow_snoc [of "de_file d" "protobufMessageIndexPath ?d" p]
    by (simp add: path_inside siblings_def)
qed

text \<open>
  C17. The message indexes of a Protobuf payload lead a reader to the message: for every
  message of a set of files that is chosen for a subject, the path computed from its place
  among its siblings, taken from the top of its file, ends at that message, and a reader that
  strips as many indexes as the path has from a payload that starts with them gets the
  payload back. It rests on a scope having no two messages of the same name.
\<close>

theorem message_indexes_lead_back:
  assumes "list_all file_ok files" "selectProtobufMessage (collectProtobufMessages files) subject = Inr d"
  shows "follow (de_file d) (protobufMessageIndexPath d) = Some (de_message d)
    \<and> protobufMessageIndexPath d \<noteq> []
    \<and> stripProtobufMessageIndexes (encodeProtobufMessageIndexes (protobufMessageIndexPath d) @ payload)
        (int (length (protobufMessageIndexPath d))) = Some payload"
proof -
  have p: "placed_desc d" by (rule collected_placed [OF assms(1) selected_in [OF assms(2)]])
  note f = follow_path [OF p]
  then have "protobufMessageIndexPath d \<noteq> []" by auto
  with f show ?thesis using strip_encode [of "protobufMessageIndexPath d" payload] by simp
qed

definition sample_files :: "pmessage list list" where
  "sample_files = [[Message ''shop.Order'' [Message ''shop.Order.Item'' [], Message ''shop.Order.Note'' []],
                    Message ''shop.Payment'' [Message ''shop.Payment.Note'' [], Message ''shop.Payment.Line'' []]]]"

lemma sample_files_ok: "list_all file_ok sample_files"
  by (simp add: sample_files_def file_ok_def scope_ok_def)

lemma sample_selected:
  "selectProtobufMessage (collectProtobufMessages sample_files) ''line-value'' = Inr (collectProtobufMessages sample_files ! 5)"
proof -
  have t: "protobufSubjectTail ''line-value'' = ''line''"
    by (simp add: protobufSubjectTail_def after_last_def trim_space_graphic graphic_def Let_def suffix_def)
  have p: "pascalCase ''line'' = ''Line''"
    by (simp add: pascalCase_def pascal_word_def fields_func_def runes_of.simps byte_in_def rune_width_def upper_char_def)
       (simp add: char_of_eq_iff)
  show ?thesis
    by (simp add: selectProtobufMessage_def t p sample_files_def collectProtobufMessages_def messageFullNameTail_def split_last_def)
qed

lemma message_indexes_lead_back_witness:
  "list_all file_ok sample_files
   \<and> (\<exists>d. selectProtobufMessage (collectProtobufMessages sample_files) ''line-value'' = Inr d
        \<and> full_name (de_message d) = ''shop.Payment.Line'' \<and> protobufMessageIndexPath d = [1, 1]
        \<and> follow (de_file d) (protobufMessageIndexPath d) = Some (de_message d))"
proof -
  let ?d = "collectProtobufMessages sample_files ! 5"
  have i: "protobufMessageIndexPath ?d = [1, 1]"
    by (simp add: sample_files_def collectProtobufMessages_def path_inside path_top protobufSiblingIndex_def siblings_def)
  have n: "full_name (de_message ?d) = ''shop.Payment.Line''"
    by (simp add: sample_files_def collectProtobufMessages_def)
  show ?thesis
    using message_indexes_lead_back [OF sample_files_ok sample_selected] sample_files_ok sample_selected i n by blast
qed

end
