(* ===== verification/SchemaRegistry.thy ===== *)
theory SchemaRegistry
  imports SchemaProvider GoIO
begin

text \<open>
  The REST client of a Confluent registry and its management backend, from
  \<open>kafkaconn/schema.go\<close>. The transport and the JSON of the responses are the record
  \<open>rest_lib\<close>; a call is a function of the state of the world behind the transport.
\<close>

section \<open>Paths\<close>

text \<open>\<open>url.PathEscape\<close>\<close>

definition path_plain :: "char \<Rightarrow> bool" where
  "path_plain c \<longleftrightarrow>
     (let n = of_char c :: nat in
        48 \<le> n \<and> n \<le> 57 \<or> 65 \<le> n \<and> n \<le> 90 \<or> 97 \<le> n \<and> n \<le> 122) \<or> c \<in> set ''-_.~$&+:=@''"

definition hex_digit :: "nat \<Rightarrow> char" where
  "hex_digit n = ''0123456789ABCDEF'' ! n"

definition escape_char :: "char \<Rightarrow> string" where
  "escape_char c =
     (if path_plain c then [c] else [CHR ''%'', hex_digit (of_char c div 16), hex_digit (of_char c mod 16)])"

definition path_escape :: "string \<Rightarrow> string" where
  "path_escape s = concat (map escape_char s)"

section \<open>The client\<close>

record schema_meta =
  mt_subject :: string
  mt_version :: int
  mt_id :: int
  mt_schema :: string
  mt_type :: string
  mt_references :: "schema_reference list"
  mt_version_id :: string

definition empty_meta :: schema_meta where
  "empty_meta = \<lparr>mt_subject = [], mt_version = 0, mt_id = 0, mt_schema = [], mt_type = [],
                 mt_references = [], mt_version_id = []\<rparr>"

text \<open>What is sent: \<open>schemaRegisterRequest\<close>, a compatibility level, or nothing.\<close>

datatype sr_payload =
    NoPayload
  | RegisterPayload string string "schema_reference list"   \<comment> \<open>schema, type, references\<close>
  | LevelPayload string

record sr_request =
  sq_method :: string
  sq_url :: string
  sq_auth :: "(string \<times> string) option"
  sq_payload :: sr_payload

record sr_response =
  sp_status :: int
  sp_body :: string

record compat_response =
  cr_compatibility :: string
  cr_level :: string

text \<open>
  \<open>rl_send\<close> builds and sends the request; the others are \<open>json.Unmarshal\<close> of a body into the
  type the caller passes.
\<close>

record 'w rest_lib =
  rl_send :: "sr_request \<Rightarrow> ('w, sr_response) io"
  rl_texts :: "string \<Rightarrow> string list res"
  rl_numbers :: "string \<Rightarrow> int list res"
  rl_number :: "string \<Rightarrow> int res"
  rl_raw :: "string \<Rightarrow> string res"
  rl_meta :: "string \<Rightarrow> schema_meta res"
  rl_registered :: "string \<Rightarrow> int res"
  rl_compat :: "string \<Rightarrow> compat_response res"
  rl_check :: "string \<Rightarrow> (bool \<times> string list) res"
  rl_metadata :: "string \<Rightarrow> string res"

definition auth_of :: "sr_client \<Rightarrow> (string \<times> string) option" where
  "auth_of c = (if \<not> blank (sl_username c) \<or> sl_password c \<noteq> []
                then Some (trim_space (sl_username c), sl_password c) else None)"

text \<open>
  \<open>request\<close>: \<open>decode\<close> is the unmarshalling into the target, whose value before is \<open>zero\<close>.
\<close>

definition sr_send ::
  "'w rest_lib \<Rightarrow> sr_client \<Rightarrow> string \<Rightarrow> string \<Rightarrow> sr_payload \<Rightarrow> (string \<Rightarrow> 'a res) \<Rightarrow> 'a \<Rightarrow> ('w, 'a) io" where
  "sr_send rl c method path payload decode zero =
     io_bind (rl_send rl \<lparr>sq_method = method, sq_url = sl_base c @ path, sq_auth = auth_of c, sq_payload = payload\<rparr>)
       (\<lambda>resp.
          let data = take (4 * 1024 * 1024) (sp_body resp) in
          if sp_status resp < 200 \<or> sp_status resp \<ge> 300
          then io_fail (Errf ''schema registry %s %s failed (HTTP %d): %s''
                          [method, path, format_int (sp_status resp), trim_space data])
          else if data = [] then io_ok zero
          else (case decode data of
                  Inl e \<Rightarrow> io_fail (Wrapf ''decode schema registry response: %w'' [] e)
                | Inr x \<Rightarrow> io_ok x))"

definition version_path :: "int \<Rightarrow> string" where
  "version_path version = (if version > 0 then format_int version else ''latest'')"

definition subject_path :: "string \<Rightarrow> string" where
  "subject_path subject = ''/subjects/'' @ path_escape subject"

definition sr_listSubjects :: "'w rest_lib \<Rightarrow> sr_client \<Rightarrow> ('w, string list) io" where
  "sr_listSubjects rl c =
     io_bind (sr_send rl c ''GET'' ''/subjects'' NoPayload (rl_texts rl) [])
       (\<lambda>subjects. io_ok (sort (filter (\<lambda>s. s \<noteq> [] \<and> \<not> suffix ''/'' s) (map trim_space subjects))))"

definition sr_listVersions :: "'w rest_lib \<Rightarrow> sr_client \<Rightarrow> string \<Rightarrow> ('w, int list) io" where
  "sr_listVersions rl c subject =
     io_bind (sr_send rl c ''GET'' (subject_path subject @ ''/versions'') NoPayload (rl_numbers rl) [])
       (\<lambda>versions. io_ok (sort versions))"

definition sr_getSchema :: "'w rest_lib \<Rightarrow> sr_client \<Rightarrow> string \<Rightarrow> int \<Rightarrow> ('w, schema_meta) io" where
  "sr_getSchema rl c subject version =
     io_bind (sr_send rl c ''GET'' (subject_path subject @ ''/versions/'' @ version_path version) NoPayload
                (rl_meta rl) empty_meta)
       (\<lambda>meta. io_ok (if mt_subject meta = [] then meta\<lparr>mt_subject := subject\<rparr> else meta))"

definition sr_getSchemaByID :: "'w rest_lib \<Rightarrow> sr_client \<Rightarrow> int \<Rightarrow> ('w, schema_meta) io" where
  "sr_getSchemaByID rl c i =
     io_bind (sr_send rl c ''GET'' (''/schemas/ids/'' @ format_int i) NoPayload (rl_meta rl) empty_meta)
       (\<lambda>meta. io_ok (meta\<lparr>mt_id := i\<rparr>))"

definition sr_registerSchema ::
  "'w rest_lib \<Rightarrow> sr_client \<Rightarrow> string \<Rightarrow> string \<Rightarrow> string \<Rightarrow> schema_reference list \<Rightarrow> bool \<Rightarrow> ('w, schema_meta) io" where
  "sr_registerSchema rl c subject format schema refs normal =
     io_bind (sr_send rl c ''POST''
                (subject_path subject @ ''/versions'' @ (if normal then ''?normalize=true'' else []))
                (RegisterPayload schema format refs) (rl_registered rl) 0)
       (\<lambda>registered.
          io_try (sr_getSchema rl c subject 0)
            (\<lambda>r. case r of
                Inl _ \<Rightarrow> io_ok (empty_meta\<lparr>mt_subject := subject, mt_id := registered, mt_schema := schema, mt_type := format\<rparr>)
              | Inr meta \<Rightarrow> io_ok (meta\<lparr>mt_id := registered\<rparr>)))"

text \<open>\<open>raw\<close>: the JSON text; \<open>[]\<close> is the \<open>RawMessage\<close> that nothing was stored in.\<close>

definition decodeDeletedVersions :: "'w rest_lib \<Rightarrow> string \<Rightarrow> int list res" where
  "decodeDeletedVersions rl raw =
     (let wrap = (\<lambda>r. case r of Inl e \<Rightarrow> Inl (Wrapf ''decode schema registry response: %w'' [] e) | Inr x \<Rightarrow> Inr x);
          trimmed = dropWhile (\<lambda>c. c \<in> set [CHR '' '', CHR 0x09, CHR 0x0D, CHR 0x0A]) raw
      in if take 1 trimmed = ''['' then wrap (rl_numbers rl raw)
         else wrap (ebind (rl_number rl raw) (\<lambda>n. Inr [n])))"

definition sr_deleteSubject :: "'w rest_lib \<Rightarrow> sr_client \<Rightarrow> string \<Rightarrow> ('w, int list) io" where
  "sr_deleteSubject rl c subject =
     io_bind (sr_send rl c ''DELETE'' (subject_path subject) NoPayload (rl_raw rl) [])
       (\<lambda>raw. io_res (decodeDeletedVersions rl raw))"

definition sr_deleteVersion :: "'w rest_lib \<Rightarrow> sr_client \<Rightarrow> string \<Rightarrow> int \<Rightarrow> ('w, int list) io" where
  "sr_deleteVersion rl c subject version =
     io_bind (sr_send rl c ''DELETE'' (subject_path subject @ ''/versions/'' @ format_int version) NoPayload (rl_raw rl) [])
       (\<lambda>raw. io_res (decodeDeletedVersions rl raw))"

definition compat_level :: "compat_response \<Rightarrow> string" where
  "compat_level r = (let v = trim_space (cr_compatibility r) in if v \<noteq> [] then v else trim_space (cr_level r))"

definition empty_compat :: compat_response where
  "empty_compat = \<lparr>cr_compatibility = [], cr_level = []\<rparr>"

definition config_path :: "string \<Rightarrow> string" where
  "config_path subject = (if subject \<noteq> [] then ''/config/'' @ path_escape subject else ''/config'')"

definition sr_getCompatibility :: "'w rest_lib \<Rightarrow> sr_client \<Rightarrow> string \<Rightarrow> ('w, compat_response) io" where
  "sr_getCompatibility rl c subject =
     sr_send rl c ''GET'' (config_path subject) NoPayload (rl_compat rl) empty_compat"

definition sr_setCompatibility :: "'w rest_lib \<Rightarrow> sr_client \<Rightarrow> string \<Rightarrow> string \<Rightarrow> ('w, compat_response) io" where
  "sr_setCompatibility rl c subject level =
     sr_send rl c ''PUT'' (config_path subject) (LevelPayload level) (rl_compat rl) empty_compat"

definition sr_checkCompatibility ::
  "'w rest_lib \<Rightarrow> sr_client \<Rightarrow> string \<Rightarrow> int \<Rightarrow> string \<Rightarrow> string \<Rightarrow> schema_reference list \<Rightarrow> ('w, bool \<times> string list) io" where
  "sr_checkCompatibility rl c subject version format schema refs =
     sr_send rl c ''POST'' (''/compatibility'' @ subject_path subject @ ''/versions/'' @ version_path version)
       (RegisterPayload schema format refs) (rl_check rl) (False, [])"

section \<open>The Confluent backend\<close>

record subject_info =
  sb_subject :: string
  sb_formats :: "string list"
  sb_latest :: int
  sb_compatibility :: string
  sb_description :: string

record version_info =
  vi_version :: int
  vi_id :: int
  vi_format :: string
  vi_version_id :: string

definition cb_test :: "'w rest_lib \<Rightarrow> sr_client \<Rightarrow> ('w, int \<times> string) io" where
  "cb_test rl c =
     io_bind (sr_listSubjects rl c) (\<lambda>subjects.
       io_try (sr_send rl c ''GET'' ''/v1/metadata/id'' NoPayload (rl_metadata rl) [])
         (\<lambda>r. io_ok (int (length subjects), case r of Inl _ \<Rightarrow> [] | Inr v \<Rightarrow> trim_space v)))"

text \<open>The row of a subject: what cannot be read is left out.\<close>

definition subject_row :: "'w rest_lib \<Rightarrow> sr_client \<Rightarrow> string \<Rightarrow> ('w, subject_info) io" where
  "subject_row rl c subject =
     io_try (sr_getSchema rl c subject 0) (\<lambda>m.
       io_try (sr_getCompatibility rl c subject) (\<lambda>k.
         io_ok \<lparr>sb_subject = subject,
                sb_formats = [case m of Inl _ \<Rightarrow> ''UNKNOWN'' | Inr meta \<Rightarrow> normalizeConfluentSchemaType (mt_type meta)],
                sb_latest = (case m of Inl _ \<Rightarrow> 0 | Inr meta \<Rightarrow> mt_version meta),
                sb_compatibility = (case k of Inl _ \<Rightarrow> [] | Inr level_resp \<Rightarrow> compat_level level_resp),
                sb_description = []\<rparr>))"

definition cb_listSubjects :: "'w rest_lib \<Rightarrow> sr_client \<Rightarrow> ('w, subject_info list) io" where
  "cb_listSubjects rl c = io_bind (sr_listSubjects rl c) (io_list (subject_row rl c))"

definition schemaIDForVersion :: "'w rest_lib \<Rightarrow> sr_client \<Rightarrow> string \<Rightarrow> int \<Rightarrow> ('w, int) io" where
  "schemaIDForVersion rl c subject version =
     io_try (sr_getSchema rl c subject version) (\<lambda>r. io_ok (case r of Inl _ \<Rightarrow> 0 | Inr meta \<Rightarrow> mt_id meta))"

definition version_row :: "'w rest_lib \<Rightarrow> sr_client \<Rightarrow> string \<Rightarrow> int \<Rightarrow> ('w, version_info) io" where
  "version_row rl c subject version =
     io_try (sr_getSchema rl c subject version) (\<lambda>m.
       io_bind (schemaIDForVersion rl c subject version) (\<lambda>i.
         io_ok \<lparr>vi_version = version, vi_id = i,
                vi_format = (case m of Inl _ \<Rightarrow> ''UNKNOWN'' | Inr meta \<Rightarrow> normalizeConfluentSchemaType (mt_type meta)),
                vi_version_id = []\<rparr>))"

definition cb_listVersions :: "'w rest_lib \<Rightarrow> sr_client \<Rightarrow> string \<Rightarrow> ('w, version_info list) io" where
  "cb_listVersions rl c subject =
     io_bind (sr_listVersions rl c subject) (io_list (version_row rl c subject))"

definition cb_getCompatibility :: "'w rest_lib \<Rightarrow> sr_client \<Rightarrow> string \<Rightarrow> ('w, string) io" where
  "cb_getCompatibility rl c subject =
     io_bind (sr_getCompatibility rl c subject)
       (\<lambda>level_resp. if compat_level level_resp = [] then io_fail (Errf ''schema compatibility level is empty'' [])
                 else io_ok (compat_level level_resp))"

definition cb_setCompatibility :: "'w rest_lib \<Rightarrow> sr_client \<Rightarrow> string \<Rightarrow> string \<Rightarrow> ('w, string) io" where
  "cb_setCompatibility rl c subject level =
     (case normalizeConfluentCompatibility level of
        Inl e \<Rightarrow> io_fail e
      | Inr normalized \<Rightarrow>
          io_bind (sr_setCompatibility rl c subject normalized)
            (\<lambda>level_resp. io_ok (if compat_level level_resp \<noteq> [] then compat_level level_resp else normalized)))"

definition cb_deleteSchema :: "'w rest_lib \<Rightarrow> sr_client \<Rightarrow> string \<Rightarrow> int \<Rightarrow> ('w, int list) io" where
  "cb_deleteSchema rl c subject version =
     (if version > 0 then sr_deleteVersion rl c subject version else sr_deleteSubject rl c subject)"

section \<open>Paths are kept apart\<close>

lemma hex_digit_inj: "i < 16 \<Longrightarrow> j < 16 \<Longrightarrow> hex_digit i = hex_digit j \<longleftrightarrow> i = j"
  unfolding hex_digit_def by (subst nth_eq_iff_index_eq) auto

lemma hex_bounds: "(of_char c :: nat) div 16 < 16" "(of_char c :: nat) mod 16 < 16"
  using nat_of_char_less_256 [of c] by (auto simp: less_mult_imp_div_less)

lemma hex_digit_in: "i < 16 \<Longrightarrow> hex_digit i \<in> set ''0123456789ABCDEF''"
  unfolding hex_digit_def by (rule nth_mem) simp

lemma escape_char_inj:
  assumes "escape_char c @ s = escape_char d @ t" shows "c = d \<and> s = t"
proof -
  have p: "\<not> path_plain (CHR ''%'')" by (simp add: path_plain_def)
  have q: "c = d" if "(of_char c :: nat) div 16 = of_char d div 16" "(of_char c :: nat) mod 16 = of_char d mod 16"
  proof -
    have "(of_char c :: nat) = of_char d" using that by (metis div_mult_mod_eq)
    then show ?thesis by (simp only: of_char_eq_iff)
  qed
  show ?thesis
  proof (cases "path_plain c = path_plain d")
    case True
    have "c = d \<and> s = t" if "\<not> path_plain c"
    proof -
      from assms True that have h: "hex_digit (of_char c div 16) = hex_digit (of_char d div 16)"
        "hex_digit (of_char c mod 16) = hex_digit (of_char d mod 16)" "s = t"
        by (simp_all only: escape_char_def if_False append.simps list.inject)
      from h(1,2) have "c = d" using q by (simp only: hex_digit_inj hex_bounds)
      with h(3) show ?thesis by simp
    qed
    moreover have "c = d \<and> s = t" if "path_plain c"
      using assms True that by (simp only: escape_char_def if_True append.simps list.inject)
    ultimately show ?thesis by blast
  next
    case False
    then have "c = CHR ''%'' \<and> path_plain c \<or> d = CHR ''%'' \<and> path_plain d"
      using assms by (cases "path_plain c") (simp_all add: escape_char_def)
    with p show ?thesis by blast
  qed
qed

lemma path_escape_inj: "path_escape s = path_escape t \<longleftrightarrow> s = t"
proof
  show "path_escape s = path_escape t \<Longrightarrow> s = t"
  proof (induction s arbitrary: t)
    case Nil
    then show ?case by (cases t) (auto simp: path_escape_def escape_char_def split: if_splits)
  next
    case (Cons c s)
    then obtain d t' where t: "t = d # t'" by (cases t) (auto simp: path_escape_def escape_char_def split: if_splits)
    with Cons.prems have "c = d \<and> path_escape s = path_escape t'"
      by (intro escape_char_inj) (simp_all add: path_escape_def)
    with Cons.IH t show ?case by simp
  qed
qed simp

lemma hex_digit_no_slash: "i < 16 \<Longrightarrow> hex_digit i \<noteq> CHR ''/''"
proof
  assume "i < 16" "hex_digit i = CHR ''/''"
  then have "CHR ''/'' \<in> set ''0123456789ABCDEF''" using hex_digit_in [of i] by (simp only:)
  then show False by simp
qed

lemma path_escape_no_slash: "CHR ''/'' \<notin> set (path_escape s)"
proof -
  have p: "\<not> path_plain (CHR ''/'')" by (simp add: path_plain_def)
  have "CHR ''/'' \<notin> set (escape_char c)" for c
  proof (cases "path_plain c")
    case True
    with p have "c \<noteq> CHR ''/''" by blast
    with True show ?thesis by (simp add: escape_char_def)
  next
    case False
    have "CHR ''%'' \<noteq> CHR ''/''" by simp
    with hex_digit_no_slash [OF hex_bounds(1) [of c]] hex_digit_no_slash [OF hex_bounds(2) [of c]] False
    show ?thesis by (simp only: escape_char_def if_False list.set insert_iff empty_iff) metis
  qed
  then show ?thesis by (auto simp: path_escape_def)
qed

end
