(* ===== verification/SchemaCodec.thy ===== *)
theory SchemaCodec
  imports SchemaWire SchemaRegistry KafkaMessages
begin

text \<open>
  Values with a schema, from \<open>kafkaconn/schema.go\<close>: encoding and decoding of a payload, the
  cache of schema metadata of a consumption, the decoder of a consumption and the encoder of a
  production. The libraries for Avro, JSON Schema and Protobuf are the record \<open>schema_lib\<close>;
  \<open>'n\<close> is a native Avro value and \<open>'m\<close> a dynamic Protobuf message.
\<close>

section \<open>Payloads\<close>

record ('n, 'm) schema_lib =
  sx_avro_codec :: "string \<Rightarrow> goerr option"
  sx_avro_from_text :: "string \<Rightarrow> string \<Rightarrow> 'n res"
  sx_avro_to_binary :: "string \<Rightarrow> 'n \<Rightarrow> string res"
  sx_avro_from_binary :: "string \<Rightarrow> string \<Rightarrow> 'n res"
  sx_avro_to_text :: "string \<Rightarrow> 'n \<Rightarrow> string res"
  sx_json_valid :: "string \<Rightarrow> bool"
  sx_json_schema :: "string \<Rightarrow> goerr option"
  sx_json_resolve :: "string \<Rightarrow> goerr option"
  sx_json_value :: "string \<Rightarrow> goerr option"
  sx_json_validate :: "string \<Rightarrow> string \<Rightarrow> goerr option"
  sx_base64_error :: "string \<Rightarrow> goerr"
  sx_fdset :: "string \<Rightarrow> goerr option"
  sx_files :: "string \<Rightarrow> pmessage list list res"
  sx_pb_from_json :: "descriptor \<Rightarrow> string \<Rightarrow> 'm res"
  sx_pb_marshal :: "'m \<Rightarrow> string res"
  sx_pb_unmarshal :: "descriptor \<Rightarrow> string \<Rightarrow> 'm res"
  sx_pb_to_json :: "'m \<Rightarrow> string res"

definition wrapped :: "string \<Rightarrow> 'a res \<Rightarrow> 'a res" where
  "wrapped f r = (case r of Inl e \<Rightarrow> Inl (Wrapf f [] e) | Inr x \<Rightarrow> Inr x)"

definition checked :: "string \<Rightarrow> goerr option \<Rightarrow> unit res" where
  "checked f r = (case r of Some e \<Rightarrow> Inl (Wrapf f [] e) | None \<Rightarrow> Inr ())"

lemma wrapped_Inr [simp]: "wrapped f r = Inr x \<longleftrightarrow> r = Inr x"
  by (simp add: wrapped_def split: sum.split)

lemma checked_Inr [simp]: "checked f r = Inr u \<longleftrightarrow> r = None"
  by (simp add: checked_def split: option.split)

definition protobufFilesFromSchema :: "('n, 'm) schema_lib \<Rightarrow> string \<Rightarrow> pmessage list list res" where
  "protobufFilesFromSchema xl fdsetB64 =
     (case b64_decode (trim_space fdsetB64) of
        None \<Rightarrow> Inl (Wrapf ''decode protobuf FileDescriptorSet base64: %w'' [] (sx_base64_error xl (trim_space fdsetB64)))
      | Some raw \<Rightarrow>
          ebind (checked ''parse protobuf FileDescriptorSet: %w'' (sx_fdset xl raw)) (\<lambda>_.
            wrapped ''build protobuf descriptors: %w'' (sx_files xl raw)))"

definition resolveProtobufMessage :: "('n, 'm) schema_lib \<Rightarrow> string \<Rightarrow> string \<Rightarrow> descriptor res" where
  "resolveProtobufMessage xl fdsetB64 subject =
     ebind (protobufFilesFromSchema xl fdsetB64) (\<lambda>files.
       selectProtobufMessage (collectProtobufMessages files) subject)"

definition protobufMessageIndexesFromSchema :: "('n, 'm) schema_lib \<Rightarrow> string \<Rightarrow> string \<Rightarrow> nat list res" where
  "protobufMessageIndexesFromSchema xl fdsetB64 subject =
     ebind (protobufFilesFromSchema xl fdsetB64) (\<lambda>files.
       ebind (selectProtobufMessage (collectProtobufMessages files) subject) (\<lambda>desc.
         Inr (protobufMessageIndexPath desc)))"

definition encodeProtobufPayload :: "('n, 'm) schema_lib \<Rightarrow> string \<Rightarrow> string \<Rightarrow> string \<Rightarrow> string res" where
  "encodeProtobufPayload xl text' fdsetB64 subject =
     ebind (resolveProtobufMessage xl fdsetB64 subject) (\<lambda>desc.
       ebind (wrapped ''encode protobuf JSON payload: %w'' (sx_pb_from_json xl desc text')) (\<lambda>msg.
         wrapped ''encode protobuf payload: %w'' (sx_pb_marshal xl msg)))"

definition decodeProtobufPayload :: "('n, 'm) schema_lib \<Rightarrow> string \<Rightarrow> string \<Rightarrow> string \<Rightarrow> string res" where
  "decodeProtobufPayload xl payload fdsetB64 subject =
     ebind (resolveProtobufMessage xl fdsetB64 subject) (\<lambda>desc.
       ebind (wrapped ''decode protobuf payload: %w'' (sx_pb_unmarshal xl desc payload)) (\<lambda>msg.
         wrapped ''render protobuf payload as JSON: %w'' (sx_pb_to_json xl msg)))"

definition validateJSONSchemaPayload :: "('n, 'm) schema_lib \<Rightarrow> string \<Rightarrow> string \<Rightarrow> unit res" where
  "validateJSONSchemaPayload xl text' schema =
     (if \<not> sx_json_valid xl text' then Inl (Errf ''JSON schema payload must be valid JSON'' [])
      else
        ebind (checked ''parse JSON schema: %w'' (sx_json_schema xl schema)) (\<lambda>_.
        ebind (checked ''resolve JSON schema: %w'' (sx_json_resolve xl schema)) (\<lambda>_.
        ebind (checked ''decode JSON schema payload: %w'' (sx_json_value xl text')) (\<lambda>_.
        checked ''validate JSON schema payload: %w'' (sx_json_validate xl schema text')))))"

definition encodeSchemaPayload :: "('n, 'm) schema_lib \<Rightarrow> string \<Rightarrow> string \<Rightarrow> string \<Rightarrow> string \<Rightarrow> string res" where
  "encodeSchemaPayload xl text' schema format subject =
     (let f = upper_word format in
        if f \<in> set [[], ''AVRO''] then
          ebind (checked ''parse Avro schema: %w'' (sx_avro_codec xl schema)) (\<lambda>_.
          ebind (wrapped ''encode Avro JSON: %w'' (sx_avro_from_text xl schema text')) (\<lambda>native.
          sx_avro_to_binary xl schema native))
        else if f = ''JSON'' then ebind (validateJSONSchemaPayload xl text' schema) (\<lambda>_. Inr text')
        else if f = ''PROTOBUF'' then encodeProtobufPayload xl text' schema subject
        else Inl format_error)"

definition decodeSchemaPayload :: "('n, 'm) schema_lib \<Rightarrow> string \<Rightarrow> string \<Rightarrow> string \<Rightarrow> string \<Rightarrow> string res" where
  "decodeSchemaPayload xl payload schema format subject =
     (let f = upper_word format in
        if f \<in> set [[], ''AVRO''] then
          ebind (checked ''parse Avro schema: %w'' (sx_avro_codec xl schema)) (\<lambda>_.
          ebind (wrapped ''decode Avro payload: %w'' (sx_avro_from_binary xl schema payload)) (\<lambda>native.
          sx_avro_to_text xl schema native))
        else if f = ''JSON'' then ebind (validateJSONSchemaPayload xl payload schema) (\<lambda>_. Inr payload)
        else if f = ''PROTOBUF'' then decodeProtobufPayload xl payload schema subject
        else Inl format_error)"

section \<open>The cache of a consumption\<close>

record meta_cache =
  mc_by_id :: "int \<rightharpoonup> schema_meta"
  mc_by_subject :: "string \<rightharpoonup> schema_meta"

definition newSchemaMetaCache :: meta_cache where
  "newSchemaMetaCache = \<lparr>mc_by_id = (\<lambda>_. None), mc_by_subject = (\<lambda>_. None)\<rparr>"

definition subjectVersionKey :: "string \<Rightarrow> int \<Rightarrow> string" where
  "subjectVersionKey subject version =
     subject @ [CHR 0x00] @ (if version > 0 then format_int version else ''latest'')"

definition lookupByID :: "meta_cache \<Rightarrow> int \<Rightarrow> schema_meta option" where
  "lookupByID c i = (if i \<le> 0 then None else mc_by_id c i)"

definition lookupBySubjectVersion :: "meta_cache \<Rightarrow> string \<Rightarrow> int \<Rightarrow> schema_meta option" where
  "lookupBySubjectVersion c subject version =
     (if blank subject then None else mc_by_subject c (subjectVersionKey subject version))"

definition store_meta :: "schema_meta \<Rightarrow> meta_cache \<Rightarrow> meta_cache" where
  "store_meta meta c =
     (if mt_id meta \<le> 0 then c
      else
        let c = c\<lparr>mc_by_id := (mc_by_id c)(mt_id meta \<mapsto> meta)\<rparr> in
        if \<not> blank (mt_subject meta) \<and> mt_version meta > 0
        then c\<lparr>mc_by_subject := (mc_by_subject c)(subjectVersionKey (mt_subject meta) (mt_version meta) \<mapsto> meta)\<rparr>
        else c)"

definition storeSubjectLookup :: "string \<Rightarrow> int \<Rightarrow> schema_meta \<Rightarrow> meta_cache \<Rightarrow> meta_cache" where
  "storeSubjectLookup subject version meta c =
     (if blank subject \<or> mt_id meta \<le> 0 then c
      else c\<lparr>mc_by_subject := (mc_by_subject c)(subjectVersionKey subject version \<mapsto> meta),
             mc_by_id := (mc_by_id c)(mt_id meta \<mapsto> meta)\<rparr>)"

section \<open>The decoder of a consumption\<close>

record schema_ref =
  sf_registry :: string
  sf_subject :: string
  sf_version :: int
  sf_format :: string

definition subject_of :: "schema_ref option \<Rightarrow> string" where
  "subject_of req = (case req of None \<Rightarrow> [] | Some ref \<Rightarrow> trim_space (sf_subject ref))"

text \<open>The metadata for a value with a schema id, and the cache after.\<close>

definition decoder_meta ::
  "'w rest_lib \<Rightarrow> sr_client \<Rightarrow> schema_ref option \<Rightarrow> meta_cache \<Rightarrow> int \<Rightarrow> ('w, schema_meta \<times> meta_cache) io" where
  "decoder_meta rl client req cache schemaID =
     (let subject = subject_of req; version = (case req of None \<Rightarrow> 0 | Some ref \<Rightarrow> sf_version ref) in
      if subject \<noteq> [] then
        (case lookupBySubjectVersion cache subject version of
           Some cached \<Rightarrow> io_ok (cached, cache)
         | None \<Rightarrow>
             io_bind (sr_getSchema rl client subject version) (\<lambda>meta.
               let meta = (if mt_id meta = 0 then meta\<lparr>mt_id := schemaID\<rparr> else meta) in
               io_ok (meta, storeSubjectLookup subject version meta cache)))
      else
        (case lookupByID cache schemaID of
           Some cached \<Rightarrow> io_ok (cached, cache)
         | None \<Rightarrow> io_bind (sr_getSchemaByID rl client schemaID) (\<lambda>meta. io_ok (meta, store_meta meta cache))))"

definition decoder_format :: "schema_ref option \<Rightarrow> schema_meta \<Rightarrow> string" where
  "decoder_format req meta =
     (case req of
        Some ref \<Rightarrow> if \<not> blank (sf_format ref) then normalizeConfluentSchemaType (sf_format ref)
                    else normalizeConfluentSchemaType (mt_type meta)
      | None \<Rightarrow> normalizeConfluentSchemaType (mt_type meta))"

text \<open>The payload after the message indexes, if they could be stripped.\<close>

definition stripped_payload :: "('n, 'm) schema_lib \<Rightarrow> string \<Rightarrow> schema_meta \<Rightarrow> string \<Rightarrow> string option" where
  "stripped_payload xl format meta payload =
     (if format = ''PROTOBUF'' then
        (case protobufMessageIndexesFromSchema xl (mt_schema meta) (mt_subject meta) of
           Inl _ \<Rightarrow> None
         | Inr indexes \<Rightarrow> stripProtobufMessageIndexes payload (int (length indexes)))
      else None)"

definition decode_with ::
  "('n, 'm) schema_lib \<Rightarrow> schema_ref option \<Rightarrow> schema_meta \<Rightarrow> string \<Rightarrow> (string \<times> schema_info) res" where
  "decode_with xl req meta payload =
     (let format = decoder_format req meta;
          decode = (\<lambda>p. decodeSchemaPayload xl p (mt_schema meta) format (mt_subject meta));
          decoded = (case stripped_payload xl format meta payload of
                       None \<Rightarrow> decode payload
                     | Some rest \<Rightarrow>
                         (case decode rest of
                            Inr out \<Rightarrow> Inr out
                          | Inl e \<Rightarrow> (case decode payload of Inr out \<Rightarrow> Inr out | Inl _ \<Rightarrow> Inl e)))
      in ebind decoded (\<lambda>out. Inr (out, \<lparr>si_id = mt_id meta, si_subject = mt_subject meta, si_version = mt_version meta\<rparr>)))"

text \<open>\<open>decode\<close>: the result, and the cache after (as it was when the metadata cannot be read).\<close>

definition decoder_decode ::
  "'w rest_lib \<Rightarrow> ('n, 'm) schema_lib \<Rightarrow> sr_client \<Rightarrow> schema_ref option \<Rightarrow> string \<Rightarrow> meta_cache \<Rightarrow> 'w
     \<Rightarrow> ((string \<times> schema_info) res \<times> meta_cache) \<times> 'w" where
  "decoder_decode rl xl client req value cache w =
     (case decodeWireFrame value of
        Inl e \<Rightarrow> ((Inl e, cache), w)
      | Inr (schemaID, payload) \<Rightarrow>
          (case decoder_meta rl client req cache schemaID w of
             (Inl e, w) \<Rightarrow> ((Inl e, cache), w)
           | (Inr (meta, cache), w) \<Rightarrow> ((decode_with xl req meta payload, cache), w)))"

text \<open>The values of a consumption, one after the other.\<close>

fun decode_values ::
  "'w rest_lib \<Rightarrow> ('n, 'm) schema_lib \<Rightarrow> sr_client \<Rightarrow> schema_ref option \<Rightarrow> string list \<Rightarrow> meta_cache \<Rightarrow> 'w
     \<Rightarrow> (string \<times> schema_info) res list" where
  "decode_values rl xl client req [] cache w = []"
| "decode_values rl xl client req (v # vs) cache w =
     (case decoder_decode rl xl client req v cache w of
        ((r, cache), w) \<Rightarrow> r # decode_values rl xl client req vs cache w)"

section \<open>The encoder of a production\<close>

record schema_result =
  gr_subject :: string
  gr_version :: int
  gr_id :: int
  gr_schema :: string
  gr_format :: string
  gr_references :: "schema_reference list"
  gr_version_id :: string

definition encodeForProduce ::
  "'w rest_lib \<Rightarrow> ('n, 'm) schema_lib \<Rightarrow> sr_client \<Rightarrow> schema_ref \<Rightarrow> string \<Rightarrow> ('w, string \<times> schema_result) io" where
  "encodeForProduce rl xl client ref payload =
     (let subject = trim_space (sf_subject ref) in
      if subject = [] then io_fail (Errf ''schema.subject is required'' [])
      else io_bind (sr_getSchema rl client subject (sf_version ref)) (\<lambda>meta.
        let format = normalizeConfluentSchemaType (firstNonEmpty [sf_format ref, mt_type meta]) in
        io_res (ebind (encodeSchemaPayload xl payload (mt_schema meta) format subject) (\<lambda>encoded.
          ebind (if format = ''PROTOBUF''
                 then ebind (protobufMessageIndexesFromSchema xl (mt_schema meta) subject)
                        (\<lambda>indexes. Inr (encodeProtobufMessageIndexes indexes @ encoded))
                 else Inr encoded) (\<lambda>encoded.
            Inr (encodeWireFrame (mt_id meta) encoded,
                 \<lparr>gr_subject = mt_subject meta, gr_version = mt_version meta, gr_id = mt_id meta, gr_schema = [],
                  gr_format = format, gr_references = [], gr_version_id = []\<rparr>))))))"

section \<open>The cache is transparent\<close>

text \<open>A transport whose answer to a request is always the same.\<close>

definition steady :: "'w rest_lib \<Rightarrow> bool" where
  "steady rl \<longleftrightarrow> (\<exists>answer. \<forall>rq. rl_send rl rq = io_res (answer rq))"

definition fixed :: "('w, 'a) io \<Rightarrow> bool" where
  "fixed m \<longleftrightarrow> (\<exists>r. m = io_res r)"

lemma fixed_intros [intro, simp]:
  "fixed (io_res r)"
  "fixed m \<Longrightarrow> (\<And>x. fixed (f x)) \<Longrightarrow> fixed (io_bind m f)"
proof -
  assume "fixed m" and f: "\<And>x. fixed (f x)"
  then obtain r where "m = io_res r" by (auto simp: fixed_def)
  with f show "fixed (io_bind m f)" by (cases r) (auto simp: fixed_def)
qed (auto simp: fixed_def)

lemma fixed_send: "steady rl \<Longrightarrow> fixed (sr_send rl c method path payload d z)"
  by (auto simp: sr_send_def steady_def Let_def split: sum.split)

lemma fixed_reads:
  assumes "steady rl"
  shows "fixed (sr_getSchema rl c subject version)" "fixed (sr_getSchemaByID rl c i)"
  unfolding sr_getSchema_def sr_getSchemaByID_def
  by (auto intro!: fixed_intros(2) fixed_send [OF assms])

lemma by_id: "sr_getSchemaByID rl c i = io_res (Inr m) \<Longrightarrow> mt_id m = i"
proof -
  assume a: "sr_getSchemaByID rl c i = io_res (Inr m)"
  have "fst (sr_getSchemaByID rl c i undefined) = Inr m" by (simp add: a)
  then show ?thesis
    by (auto simp: sr_getSchemaByID_def io_bind_def split: prod.splits sum.splits)
qed

definition ref_version :: "schema_ref option \<Rightarrow> int" where
  "ref_version req = (case req of None \<Rightarrow> 0 | Some ref \<Rightarrow> sf_version ref)"

text \<open>Every entry a decoder can look up is what the registry answers.\<close>

definition cache_sound :: "'w rest_lib \<Rightarrow> sr_client \<Rightarrow> schema_ref option \<Rightarrow> meta_cache \<Rightarrow> bool" where
  "cache_sound rl client req cache \<longleftrightarrow>
     (if subject_of req \<noteq> []
      then \<forall>m. lookupBySubjectVersion cache (subject_of req) (ref_version req) = Some m
               \<longrightarrow> sr_getSchema rl client (subject_of req) (ref_version req) = io_res (Inr m)
      else \<forall>i m. lookupByID cache i = Some m \<longrightarrow> sr_getSchemaByID rl client i = io_res (Inr m))"

lemma cache_sound_new: "cache_sound rl client req newSchemaMetaCache"
  by (simp add: cache_sound_def newSchemaMetaCache_def lookupBySubjectVersion_def lookupByID_def)

lemma decoder_meta_sound:
  assumes st: "steady rl" and sound: "cache_sound rl client req cache"
    and ids: "\<And>m. sr_getSchema rl client (subject_of req) (ref_version req) = io_res (Inr m) \<Longrightarrow> mt_id m \<noteq> 0"
  shows "\<exists>r. (\<forall>c. cache_sound rl client req c \<longrightarrow>
            (\<exists>c'. cache_sound rl client req c' \<and> decoder_meta rl client req c i
                    = io_res (case r of Inl e \<Rightarrow> Inl e | Inr m \<Rightarrow> Inr (m, c'))))"
proof (cases "subject_of req = []")
  case False
  obtain r where r: "sr_getSchema rl client (subject_of req) (ref_version req) = io_res r"
    using fixed_reads(1) [OF st, of client "subject_of req" "ref_version req"] unfolding fixed_def by blast
  have "\<exists>c'. cache_sound rl client req c' \<and> decoder_meta rl client req c i
          = io_res (case r of Inl e \<Rightarrow> Inl e | Inr m \<Rightarrow> Inr (m, c'))" if c: "cache_sound rl client req c" for c
  proof (cases "lookupBySubjectVersion c (subject_of req) (ref_version req)")
    case None
    show ?thesis
    proof (cases r)
      case (Inl e)
      with None r False c show ?thesis
        by (intro exI [of _ c]) (simp add: decoder_meta_def ref_version_def Let_def fun_eq_iff io_bind_eq)
    next
      case (Inr m)
      let ?c = "storeSubjectLookup (subject_of req) (ref_version req) m c"
      have "cache_sound rl client req ?c"
        using c r Inr False by (simp add: cache_sound_def storeSubjectLookup_def lookupBySubjectVersion_def)
      with None r False Inr ids [of m] show ?thesis
        by (intro exI [of _ ?c]) (simp add: decoder_meta_def ref_version_def Let_def fun_eq_iff io_bind_eq)
    qed
  next
    case (Some m)
    with c False r have "r = Inr m" by (auto simp: cache_sound_def io_res_def fun_eq_iff)
    with Some False c show ?thesis
      by (intro exI [of _ c]) (simp add: decoder_meta_def ref_version_def Let_def fun_eq_iff io_bind_eq)
  qed
  then show ?thesis by blast
next
  case True
  obtain r where r: "sr_getSchemaByID rl client i = io_res r"
    using fixed_reads(2) [OF st, of client i] unfolding fixed_def by blast
  have "\<exists>c'. cache_sound rl client req c' \<and> decoder_meta rl client req c i
          = io_res (case r of Inl e \<Rightarrow> Inl e | Inr m \<Rightarrow> Inr (m, c'))" if c: "cache_sound rl client req c" for c
  proof (cases "lookupByID c i")
    case None
    show ?thesis
    proof (cases r)
      case (Inl e)
      with None r True c show ?thesis by (intro exI [of _ c]) (simp add: decoder_meta_def Let_def fun_eq_iff io_bind_eq)
    next
      case (Inr m)
      then have "mt_id m = i" using by_id [of rl client i m] r by simp
      then have "cache_sound rl client req (store_meta m c)"
        using c r Inr True by (simp add: cache_sound_def store_meta_def lookupByID_def Let_def)
      with None r True Inr show ?thesis by (intro exI [of _ "store_meta m c"]) (simp add: decoder_meta_def Let_def fun_eq_iff io_bind_eq)
    qed
  next
    case (Some m)
    with c True r have "r = Inr m" by (auto simp: cache_sound_def io_res_def fun_eq_iff)
    with Some True c show ?thesis by (intro exI [of _ c]) (simp add: decoder_meta_def Let_def fun_eq_iff io_bind_eq)
  qed
  then show ?thesis by blast
qed

lemma decoder_decode_sound:
  assumes st: "steady rl" and sound: "cache_sound rl client req c"
    and ids: "\<And>m. sr_getSchema rl client (subject_of req) (ref_version req) = io_res (Inr m) \<Longrightarrow> mt_id m \<noteq> 0"
  shows "\<exists>c'. cache_sound rl client req c' \<and> decoder_decode rl xl client req v c w
           = ((fst (fst (decoder_decode rl xl client req v newSchemaMetaCache w)), c'), w)"
proof (cases "decodeWireFrame v")
  case (Inl e)
  with sound show ?thesis by (simp add: decoder_decode_def)
next
  case (Inr a)
  obtain i p where a: "a = (i, p)" by (cases a)
  obtain r where "\<forall>c. cache_sound rl client req c \<longrightarrow>
      (\<exists>c'. cache_sound rl client req c' \<and> decoder_meta rl client req c i
              = io_res (case r of Inl e \<Rightarrow> Inl e | Inr m \<Rightarrow> Inr (m, c')))"
    using decoder_meta_sound [OF st sound ids, of i] by blast
  with sound cache_sound_new [of rl client req] obtain c' d' where
    "cache_sound rl client req c'" "decoder_meta rl client req c i = io_res (case r of Inl e \<Rightarrow> Inl e | Inr m \<Rightarrow> Inr (m, c'))"
    "decoder_meta rl client req newSchemaMetaCache i = io_res (case r of Inl e \<Rightarrow> Inl e | Inr m \<Rightarrow> Inr (m, d'))"
    by blast
  with Inr a sound show ?thesis by (cases r) (auto simp: decoder_decode_def)
qed

text \<open>
  C14. The cache of a consumption is transparent: over a registry that answers a request
  always the same way and gives every schema an id, the values of a consumption decode, one
  after the other with the cache that grows along the way, to what each of them decodes to with
  an empty cache.
\<close>

theorem decoder_cache_transparent:
  assumes "steady rl"
    and "\<And>m. sr_getSchema rl client (subject_of req) (ref_version req) = io_res (Inr m) \<Longrightarrow> mt_id m \<noteq> 0"
  shows "decode_values rl xl client req values newSchemaMetaCache w
    = map (\<lambda>v. fst (fst (decoder_decode rl xl client req v newSchemaMetaCache w))) values"
proof -
  have "decode_values rl xl client req values c w
      = map (\<lambda>v. fst (fst (decoder_decode rl xl client req v newSchemaMetaCache w))) values"
    if "cache_sound rl client req c" for c
    using that
  proof (induction "values" arbitrary: c)
    case (Cons v vs)
    obtain c' where "cache_sound rl client req c'"
      "decoder_decode rl xl client req v c w = ((fst (fst (decoder_decode rl xl client req v newSchemaMetaCache w)), c'), w)"
      using decoder_decode_sound [OF assms(1) Cons.prems assms(2)] by blast
    with Cons.IH show ?case by simp
  qed simp
  then show ?thesis using cache_sound_new .
qed

section \<open>What is produced with a schema is consumed with it\<close>

text \<open>
  The documented behaviour of the libraries: a value they wrote is read back, and the
  descriptors of a file set are well formed.
\<close>

definition codec_laws :: "('n, 'm) schema_lib \<Rightarrow> bool" where
  "codec_laws xl \<longleftrightarrow>
     (\<forall>s t n b. sx_avro_from_text xl s t = Inr n \<longrightarrow> sx_avro_to_binary xl s n = Inr b \<longrightarrow> sx_avro_from_binary xl s b = Inr n)
     \<and> (\<forall>d t m b. sx_pb_from_json xl d t = Inr m \<longrightarrow> sx_pb_marshal xl m = Inr b \<longrightarrow> sx_pb_unmarshal xl d b = Inr m)
     \<and> (\<forall>raw fs. sx_files xl raw = Inr fs \<longrightarrow> list_all file_ok fs)"

text \<open>The JSON text of the value that a text stands for, as the library prints it.\<close>

definition rendered :: "('n, 'm) schema_lib \<Rightarrow> string \<Rightarrow> string \<Rightarrow> string \<Rightarrow> string \<Rightarrow> string res" where
  "rendered xl text' schema format subject =
     (let f = upper_word format in
        if f \<in> set [[], ''AVRO''] then ebind (sx_avro_from_text xl schema text') (sx_avro_to_text xl schema)
        else if f = ''JSON'' then Inr text'
        else ebind (resolveProtobufMessage xl schema subject) (\<lambda>d.
               ebind (sx_pb_from_json xl d text') (sx_pb_to_json xl)))"

lemma payload_roundtrip:
  assumes "codec_laws xl" "encodeSchemaPayload xl t s f subject = Inr b" "rendered xl t s f subject = Inr out"
  shows "decodeSchemaPayload xl b s f subject = Inr out"
proof -
  consider (avro) "upper_word f \<in> set [[], ''AVRO'']" | (json) "upper_word f = ''JSON''" | (proto) "upper_word f = ''PROTOBUF''"
    using assms(2) by (auto simp: encodeSchemaPayload_def Let_def split: if_splits)
  then show ?thesis
  proof cases
    case avro
    with assms(2,3) obtain n where n: "sx_avro_codec xl s = None" "sx_avro_from_text xl s t = Inr n"
      "sx_avro_to_binary xl s n = Inr b" "sx_avro_to_text xl s n = Inr out"
      by (auto simp: encodeSchemaPayload_def rendered_def Let_def ebind_Inr_iff)
    with assms(1) have "sx_avro_from_binary xl s b = Inr n" by (simp add: codec_laws_def)
    with n avro show ?thesis
      by (auto simp: decodeSchemaPayload_def Let_def ebind_Inr_iff)
  next
    case json
    with assms(2,3) show ?thesis
      by (auto simp: encodeSchemaPayload_def decodeSchemaPayload_def rendered_def Let_def ebind_Inr_iff)
  next
    case proto
    with assms(2,3) obtain d m where m: "resolveProtobufMessage xl s subject = Inr d" "sx_pb_from_json xl d t = Inr m"
      "sx_pb_marshal xl m = Inr b" "sx_pb_to_json xl m = Inr out"
      by (auto simp: encodeSchemaPayload_def encodeProtobufPayload_def rendered_def Let_def ebind_Inr_iff)
    with assms(1) have "sx_pb_unmarshal xl d b = Inr m" by (simp add: codec_laws_def)
    with m proto show ?thesis
      by (auto simp: decodeSchemaPayload_def decodeProtobufPayload_def Let_def ebind_Inr_iff)
  qed
qed

lemma stripped_encoded:
  assumes "codec_laws xl" "protobufMessageIndexesFromSchema xl s subject = Inr is"
  shows "stripProtobufMessageIndexes (encodeProtobufMessageIndexes is @ p) (int (length is)) = Some p"
proof -
  from assms(2) obtain files d where d: "protobufFilesFromSchema xl s = Inr files"
    "selectProtobufMessage (collectProtobufMessages files) subject = Inr d" "is = protobufMessageIndexPath d"
    by (auto simp: protobufMessageIndexesFromSchema_def ebind_Inr_iff)
  have "list_all file_ok files"
    using d(1) assms(1) by (auto simp: protobufFilesFromSchema_def codec_laws_def ebind_Inr_iff split: option.splits)
  then have "placed_desc d" using collected_placed selected_in [OF d(2)] by blast
  with follow_path d(3) strip_encode [of "is" p] show ?thesis by blast
qed

lemma decoder_format_produced:
  "decoder_format (Some ref) meta = normalizeConfluentSchemaType (firstNonEmpty [sf_format ref, mt_type meta])"
  by (cases "blank (mt_type meta)") (auto simp: decoder_format_def normalizeConfluentSchemaType_def split: sum.split)

text \<open>
  C13. What is produced with a schema is consumed with it: over a registry that answers the
  same way, when a payload was encoded for a subject, a consumption with the same schema
  reference decodes it to the JSON text of the same value, with the id, subject and version of
  the schema; for Protobuf, the message indexes in front of the payload are stripped. It rests
  on the libraries reading back what they wrote, and on the registry returning the schema
  under the subject it was asked for.
\<close>

theorem produced_with_schema_is_decoded:
  assumes "steady rl" "codec_laws xl"
    and "encodeForProduce rl xl client ref payload w = (Inr (wire, result), w)"
    and "sr_getSchema rl client (trim_space (sf_subject ref)) (sf_version ref) w = (Inr meta, w)"
    and "mt_subject meta = trim_space (sf_subject ref)"
    and "rendered xl payload (mt_schema meta) (gr_format result) (mt_subject meta) = Inr out"
  shows "fst (fst (decoder_decode rl xl client (Some ref) wire newSchemaMetaCache w))
    = Inr (out, \<lparr>si_id = mt_id meta, si_subject = gr_subject result, si_version = gr_version result\<rparr>)"
proof -
  let ?subject = "trim_space (sf_subject ref)"
  let ?f = "normalizeConfluentSchemaType (firstNonEmpty [sf_format ref, mt_type meta])"
  have ne: "?subject \<noteq> []" using assms(3) by (auto simp: encodeForProduce_def)
  obtain encoded framed where e: "encodeSchemaPayload xl payload (mt_schema meta) ?f ?subject = Inr encoded"
    "(if ?f = ''PROTOBUF'' then ebind (protobufMessageIndexesFromSchema xl (mt_schema meta) ?subject)
        (\<lambda>is. Inr (encodeProtobufMessageIndexes is @ encoded)) else Inr encoded) = Inr framed"
    "wire = encodeWireFrame (mt_id meta) framed" "gr_format result = ?f" "gr_subject result = mt_subject meta"
    "gr_version result = mt_version meta"
    using assms(3,4) ne by (auto simp: encodeForProduce_def Let_def io_bind_eq ebind_Inr_iff)
  have r: "rendered xl payload (mt_schema meta) ?f ?subject = Inr out" using assms(5,6) e(4) by simp
  note rt = payload_roundtrip [OF assms(2) e(1) r]
  have decoded: "decode_with xl (Some ref) (m\<lparr>mt_id := i\<rparr>) framed
      = Inr (out, \<lparr>si_id = i, si_subject = gr_subject result, si_version = gr_version result\<rparr>)"
    if "m = meta" for m i
  proof (cases "?f = ''PROTOBUF''")
    case True
    then obtain ixs where ix: "protobufMessageIndexesFromSchema xl (mt_schema meta) ?subject = Inr ixs"
      "framed = encodeProtobufMessageIndexes ixs @ encoded" using e(2) by (auto simp: ebind_Inr_iff)
    have "stripped_payload xl ?f (m\<lparr>mt_id := i\<rparr>) framed = Some encoded"
      using ix True that assms(5) stripped_encoded [OF assms(2) ix(1), of encoded] by (simp add: stripped_payload_def)
    with rt that assms(5) e(5,6) show ?thesis
      by (simp add: decode_with_def decoder_format_produced Let_def)
  next
    case False
    with e(2) have "framed = encoded" by (simp split: if_splits)
    with False rt that assms(5) e(5,6) show ?thesis
      by (simp add: decode_with_def decoder_format_produced stripped_payload_def Let_def)
  qed
  have m: "fst (decoder_meta rl client (Some ref) newSchemaMetaCache i w)
      = Inr (if mt_id meta = 0 then meta\<lparr>mt_id := i\<rparr> else meta,
             storeSubjectLookup ?subject (sf_version ref) (if mt_id meta = 0 then meta\<lparr>mt_id := i\<rparr> else meta) newSchemaMetaCache)" for i
    using ne assms(4)
    by (simp add: decoder_meta_def subject_of_def newSchemaMetaCache_def lookupBySubjectVersion_def io_bind_eq Let_def)
  have "fst (fst (decoder_decode rl xl client (Some ref) wire newSchemaMetaCache w))
      = decode_with xl (Some ref) (if mt_id meta = 0 then meta\<lparr>mt_id := mt_id meta mod 2 ^ 32\<rparr> else meta) framed"
    using m [of "mt_id meta mod 2 ^ 32"] e(3)
    by (auto simp: decoder_decode_def split: prod.splits sum.splits)
  also have "\<dots> = decode_with xl (Some ref) (meta\<lparr>mt_id := mt_id meta\<rparr>) framed" by (cases meta) auto
  also have "\<dots> = Inr (out, \<lparr>si_id = mt_id meta, si_subject = gr_subject result, si_version = gr_version result\<rparr>)"
    by (rule decoded [OF refl])
  finally show ?thesis .
qed

definition sample_meta :: schema_meta where
  "sample_meta = \<lparr>mt_subject = ''line-value'', mt_version = 3, mt_id = 7, mt_schema = ''Zg=='', mt_type = ''PROTOBUF'',
                  mt_references = [], mt_version_id = []\<rparr>"

definition sample_rest :: "unit rest_lib" where
  "sample_rest =
     \<lparr>rl_send = (\<lambda>rq. io_ok \<lparr>sp_status = 200, sp_body = ''m''\<rparr>), rl_texts = (\<lambda>_. Inr []), rl_numbers = (\<lambda>_. Inr []),
      rl_number = (\<lambda>_. Inr 1), rl_raw = Inr, rl_meta = (\<lambda>_. Inr sample_meta), rl_registered = (\<lambda>_. Inr 7),
      rl_compat = (\<lambda>_. Inr empty_compat), rl_check = (\<lambda>_. Inr (True, [])), rl_metadata = Inr\<rparr>"

definition sample_schema_lib :: "(string, string) schema_lib" where
  "sample_schema_lib =
     \<lparr>sx_avro_codec = (\<lambda>_. None), sx_avro_from_text = (\<lambda>_. Inr), sx_avro_to_binary = (\<lambda>_. Inr),
      sx_avro_from_binary = (\<lambda>_. Inr), sx_avro_to_text = (\<lambda>_. Inr), sx_json_valid = (\<lambda>_. True),
      sx_json_schema = (\<lambda>_. None), sx_json_resolve = (\<lambda>_. None), sx_json_value = (\<lambda>_. None),
      sx_json_validate = (\<lambda>_ _. None), sx_base64_error = (\<lambda>_. Ext []), sx_fdset = (\<lambda>_. None),
      sx_files = (\<lambda>_. Inr sample_files), sx_pb_from_json = (\<lambda>_. Inr), sx_pb_marshal = Inr,
      sx_pb_unmarshal = (\<lambda>_. Inr), sx_pb_to_json = Inr\<rparr>"

definition sample_ref :: "string \<Rightarrow> schema_ref" where
  "sample_ref format = \<lparr>sf_registry = [], sf_subject = ''line-value'', sf_version = 3, sf_format = format\<rparr>"

abbreviation sample_client :: sr_client where
  "sample_client \<equiv> \<lparr>sl_base = ''http://sr'', sl_username = [], sl_password = []\<rparr>"

lemma sample_steady: "steady sample_rest"
  by (auto simp: steady_def sample_rest_def)

lemma sample_get: "sr_getSchema sample_rest sample_client ''line-value'' 3 = io_ok sample_meta"
  by (simp add: sr_getSchema_def sr_send_def sample_rest_def sample_meta_def Let_def fun_eq_iff io_bind_eq)

lemma sample_words [simp]:
  "trim_space ''line-value'' = ''line-value''" "trim_space ''json'' = ''json''" "trim_space ''PROTOBUF'' = ''PROTOBUF''"
  by (simp_all add: trim_space_graphic graphic_def)

lemma sample_formats [simp]:
  "normalizeConfluentSchemaType ''json'' = ''JSON''" "normalizeConfluentSchemaType ''PROTOBUF'' = ''PROTOBUF''"
  "upper_word ''JSON'' = ''JSON''" "to_upper ''PROTOBUF'' = ''PROTOBUF''"
  by (simp_all add: normalizeConfluentSchemaType_def normalizeKafkaSchemaFormat_def trim_space_graphic graphic_def
        upper_char_def char_of_eq_iff Let_def)

lemma decoder_cache_transparent_witness:
  "decode_values sample_rest sample_schema_lib sample_client (Some (sample_ref ''json''))
     [encodeWireFrame 7 ''1'', ''x'', encodeWireFrame 7 ''2''] newSchemaMetaCache ()
   = [Inr (''1'', \<lparr>si_id = 7, si_subject = ''line-value'', si_version = 3\<rparr>),
      Inl (Errf ''value is too short to use the Confluent wire format'' []),
      Inr (''2'', \<lparr>si_id = 7, si_subject = ''line-value'', si_version = 3\<rparr>)]"
proof -
  have ids: "mt_id m \<noteq> 0"
    if "sr_getSchema sample_rest sample_client (subject_of (Some (sample_ref ''json''))) (ref_version (Some (sample_ref ''json'')))
          = io_res (Inr m)" for m
    using that by (auto simp: subject_of_def ref_version_def sample_ref_def sample_get sample_meta_def)
  have m: "decoder_meta sample_rest sample_client (Some (sample_ref ''json'')) newSchemaMetaCache 7 ()
      = (Inr (sample_meta, storeSubjectLookup ''line-value'' 3 sample_meta newSchemaMetaCache), ())"
    by (simp add: decoder_meta_def subject_of_def sample_ref_def sample_get newSchemaMetaCache_def
          lookupBySubjectVersion_def sample_meta_def Let_def)
  have d: "decode_with sample_schema_lib (Some (sample_ref ''json'')) sample_meta p
      = Inr (p, \<lparr>si_id = 7, si_subject = ''line-value'', si_version = 3\<rparr>)" for p
    by (simp add: decode_with_def decoder_format_def sample_ref_def stripped_payload_def sample_meta_def
          decodeSchemaPayload_def validateJSONSchemaPayload_def sample_schema_lib_def checked_def wrapped_def Let_def)
  have short: "decodeWireFrame ''x'' = Inl (Errf ''value is too short to use the Confluent wire format'' [])"
    by (simp add: decodeWireFrame_def)
  show ?thesis
    by (subst decoder_cache_transparent [OF sample_steady ids]) (simp_all add: decoder_decode_def m d short)
qed

lemma produced_with_schema_is_decoded_witness:
  "\<exists>wire result. encodeForProduce sample_rest sample_schema_lib sample_client (sample_ref []) ''{}'' () = (Inr (wire, result), ())
     \<and> fst (fst (decoder_decode sample_rest sample_schema_lib sample_client (Some (sample_ref [])) wire newSchemaMetaCache ()))
       = Inr (''{}'', \<lparr>si_id = 7, si_subject = ''line-value'', si_version = 3\<rparr>)"
proof -
  have b: "b64_decode ''Zg=='' = Some ''f''"
    using b64_decode_encode [of "''f''"] by (simp add: b64_char_def b64_alphabet_def Let_def)
  have t: "trim_space ''Zg=='' = ''Zg==''" by (simp add: trim_space_graphic graphic_def)
  have f: "protobufFilesFromSchema sample_schema_lib ''Zg=='' = Inr sample_files"
    by (simp add: protobufFilesFromSchema_def b t sample_schema_lib_def checked_def wrapped_def)
  obtain d where d: "selectProtobufMessage (collectProtobufMessages sample_files) ''line-value'' = Inr d"
    using sample_selected by blast
  have r: "resolveProtobufMessage sample_schema_lib ''Zg=='' ''line-value'' = Inr d"
    by (simp add: resolveProtobufMessage_def f d)
  have i: "protobufMessageIndexesFromSchema sample_schema_lib ''Zg=='' ''line-value'' = Inr (protobufMessageIndexPath d)"
    by (simp add: protobufMessageIndexesFromSchema_def f d)
  have laws: "codec_laws sample_schema_lib"
    by (auto simp: codec_laws_def sample_schema_lib_def sample_files_ok)
  have e: "encodeForProduce sample_rest sample_schema_lib sample_client (sample_ref []) ''{}'' ()
     = (Inr (encodeWireFrame 7 (encodeProtobufMessageIndexes (protobufMessageIndexPath d) @ ''{}''),
         \<lparr>gr_subject = ''line-value'', gr_version = 3, gr_id = 7, gr_schema = [], gr_format = ''PROTOBUF'',
          gr_references = [], gr_version_id = []\<rparr>), ())"
    using r i by (simp add: encodeForProduce_def sample_ref_def sample_get sample_meta_def encodeSchemaPayload_def
          encodeProtobufPayload_def sample_schema_lib_def wrapped_def upper_char_def char_of_eq_iff Let_def)
  have out: "rendered sample_schema_lib ''{}'' (mt_schema sample_meta) ''PROTOBUF'' (mt_subject sample_meta) = Inr ''{}''"
    using r by (simp add: rendered_def sample_meta_def sample_schema_lib_def Let_def)
  from produced_with_schema_is_decoded [OF sample_steady laws e, of sample_meta "''{}''"] out
  have "fst (fst (decoder_decode sample_rest sample_schema_lib sample_client (Some (sample_ref []))
         (encodeWireFrame 7 (encodeProtobufMessageIndexes (protobufMessageIndexPath d) @ ''{}'')) newSchemaMetaCache ()))
       = Inr (''{}'', \<lparr>si_id = 7, si_subject = ''line-value'', si_version = 3\<rparr>)"
    by (simp add: sample_ref_def sample_get sample_meta_def)
  with e show ?thesis by blast
qed

end
