(* ===== verification/KafkaProduce.thy ===== *)
theory KafkaProduce
  imports KafkaAdmin SchemaCodec
begin

text \<open>
  Producing messages, from \<open>kafkaconn/messages.go\<close>: the options of a production, the payload and
  the key, the records and the answer of \<open>ProduceSync\<close>, and the method with its guard and audit.
\<close>

section \<open>The request\<close>

record produce_request =
  pq_connection :: string
  pq_topic :: string
  pq_key :: string
  pq_value :: string
  pq_headers :: "(string \<times> string) list"
  pq_partition :: "int option"
  pq_count :: int
  pq_compression :: string
  pq_key_base64 :: string
  pq_value_base64 :: string
  pq_schema :: "schema_ref option"
  pq_acks :: string
  pq_idempotence :: "bool option"
  pq_source :: string

text \<open>
  What the method needs of the outside: \<open>CorruptInputError\<close> of base64, the registry, the
  formats, and \<open>ProduceSync\<close>, whose results come in the order in which the records completed.
\<close>

record ('w, 'n, 'm) produce_lib =
  pr_base64_error :: "string \<Rightarrow> goerr"
  pr_rest :: "'w rest_lib"
  pr_formats :: "('n, 'm) schema_lib"
  pr_sync :: "nat \<Rightarrow> kgo_record list \<Rightarrow> 'w \<Rightarrow> (kgo_record \<times> goerr option) list \<times> 'w"

definition base64_field :: "('w, 'n, 'm) produce_lib \<Rightarrow> string \<Rightarrow> string \<Rightarrow> string res" where
  "base64_field pl f text' =
     (case b64_decode text' of None \<Rightarrow> Inl (Wrapf f [] (pr_base64_error pl text')) | Some d \<Rightarrow> Inr d)"

definition producePayloadBytes :: "('w, 'n, 'm) produce_lib \<Rightarrow> produce_request \<Rightarrow> string res" where
  "producePayloadBytes pl req =
     (let b64 = trim_space (pq_value_base64 req) in
        if b64 \<noteq> [] then
          (if \<not> blank (pq_value req) then Inl (Errf ''value and valueBase64 are mutually exclusive'' [])
           else base64_field pl ''valueBase64 is not valid base64: %w'' b64)
        else if blank (pq_value req) then Inl (Errf ''value (or valueBase64) is required'' [])
        else Inr (pq_value req))"

text \<open>The bytes of the key: never nil, empty without a key.\<close>

definition produce_key :: "('w, 'n, 'm) produce_lib \<Rightarrow> produce_request \<Rightarrow> string res" where
  "produce_key pl req =
     (let b64 = trim_space (pq_key_base64 req) in
        if b64 \<noteq> [] then
          (if \<not> blank (pq_key req) then Inl (Errf ''key and keyBase64 are mutually exclusive'' [])
           else base64_field pl ''keyBase64 is not valid base64: %w'' b64)
        else Inr (pq_key req))"

definition recordHeaders :: "(string \<times> string) list \<Rightarrow> kgo_header list" where
  "recordHeaders headers =
     map (\<lambda>k. \<lparr>h_key = k, h_value = the (map_of headers k)\<rparr>) (sort (remdups (map fst headers)))"

text \<open>Everything that is checked before the schema: options of the client, payload and key.\<close>

definition produce_inputs ::
  "('w, 'n, 'm) produce_lib \<Rightarrow> produce_request \<Rightarrow> (kgo_opt list \<times> string \<times> string) res" where
  "produce_inputs pl req =
     ebind (reject_if (case pq_partition req of None \<Rightarrow> False | Some p \<Rightarrow> p < 0)
              (Errf ''partition must be greater than or equal to 0'' [])) (\<lambda>_.
     ebind (produceCompressionCodec (pq_compression req)) (\<lambda>codec.
     ebind (normalizeProduceAcks (pq_acks req)) (\<lambda>acks.
     ebind (produceDeliveryOpts acks (pq_idempotence req)) (\<lambda>deliveryOpts.
     ebind (producePayloadBytes pl req) (\<lambda>payload.
     ebind (produce_key pl req) (\<lambda>keyBytes.
       Inr ((if pq_partition req = None then [] else [ManualPartitioner])
              @ (case codec of None \<Rightarrow> [] | Some c \<Rightarrow> [ProducerBatchCompression c]) @ map DeliveryOpt deliveryOpts,
            payload, keyBytes)))))))"

definition mounted_client :: "client_env \<Rightarrow> produce_request \<Rightarrow> 'w service \<Rightarrow> sr_client option res" where
  "mounted_client cv req sv =
     (case pq_schema req of
        None \<Rightarrow> Inr None
      | Some ref \<Rightarrow>
          ebind (schemaMountSupported (pq_connection req) (sf_registry ref) ''produce'' sv) (\<lambda>_.
          ebind (confluentClientFor cv (pq_connection req) sv) (\<lambda>c. Inr (Some c))))"

text \<open>The payload after the schema, and what the audit record says of it.\<close>

definition mounted_payload ::
  "('w, 'n, 'm) produce_lib \<Rightarrow> produce_request \<Rightarrow> sr_client option \<Rightarrow> string \<Rightarrow> ('w, string \<times> string) io" where
  "mounted_payload pl req schemaClient payload =
     (case (pq_schema req, schemaClient) of
        (Some ref, Some c) \<Rightarrow>
          io_bind (encodeForProduce (pr_rest pl) (pr_formats pl) c ref payload) (\<lambda>(wire, result).
            io_ok (wire, '' schema=subject:'' @ gr_subject result @ '',id:'' @ format_int (gr_id result)
                         @ '',version:'' @ format_int (gr_version result)))
      | _ \<Rightarrow> io_ok (payload, []))"

text \<open>A record as it is handed to the client: no offset yet, and the zero time.\<close>

definition produced_record :: "produce_request \<Rightarrow> string \<Rightarrow> string \<Rightarrow> kgo_record" where
  "produced_record req keyBytes payload =
     \<lparr>r_topic = trim_space (pq_topic req), r_partition = (case pq_partition req of None \<Rightarrow> 0 | Some p \<Rightarrow> p),
      r_offset = 0, r_millis = -62135596800000, r_leader_epoch = 0, r_key = Some keyBytes, r_value = Some payload,
      r_headers = recordHeaders (pq_headers req)\<rparr>"

definition produced_records :: "produce_request \<Rightarrow> string \<Rightarrow> string \<Rightarrow> kgo_record list" where
  "produced_records req keyBytes payload =
     replicate (nat (normalizeProduceCount (pq_count req))) (produced_record req keyBytes payload)"

text \<open>\<open>ProduceResults.First()\<close>: the record and the error of the first result.\<close>

definition first_result :: "(kgo_record \<times> goerr option) list \<Rightarrow> kgo_record res" where
  "first_result rs =
     (case rs of
        (r, None) # _ \<Rightarrow> Inr r
      | (_, Some e) # _ \<Rightarrow> Inl e
      | [] \<Rightarrow> Inl (Ext ''index out of range''))"

section \<open>Produce\<close>

definition produce_call ::
  "('w, 'n, 'm) produce_lib \<Rightarrow> produce_request \<Rightarrow> sr_client option \<Rightarrow> string \<Rightarrow> string \<Rightarrow> nat
     \<Rightarrow> ('w, kgo_record \<times> string) io" where
  "produce_call pl req schemaClient payload keyBytes client =
     io_bind (mounted_payload pl req schemaClient payload) (\<lambda>(payload, detail).
       (\<lambda>w. case pr_sync pl client (produced_records req keyBytes payload) w of
              (rs, w) \<Rightarrow> (ebind (first_result rs) (\<lambda>r. Inr (r, detail)), w)))"

text \<open>The client, made for this call and closed after it, and the call.\<close>

definition produce_send ::
  "client_env \<Rightarrow> ('w, 'n, 'm) produce_lib \<Rightarrow> produce_request \<Rightarrow> kgo_opt list \<Rightarrow> sr_client option \<Rightarrow> string \<Rightarrow> string
     \<Rightarrow> 'w service \<Rightarrow> (kgo_record \<times> string) res \<times> 'w service" where
  "produce_send cv pl req opts schemaClient payload keyBytes sv =
     (case consumeClient cv (pq_connection req) opts sv of
        Inl e \<Rightarrow> (Inl e, sv)
      | Inr client \<Rightarrow>
          (case produce_call pl req schemaClient payload keyBytes client (sv_world sv) of
             (r, w) \<Rightarrow> (r, sv\<lparr>sv_world := w, sv_closed := client # sv_closed sv\<rparr>)))"

text \<open>Result: the record, of which the caller gets topic, partition, offset and time.\<close>

definition Produce ::
  "client_env \<Rightarrow> ('w, 'n, 'm) produce_lib \<Rightarrow> produce_request \<Rightarrow> 'w service \<Rightarrow> (kgo_record \<times> string) res \<times> 'w service" where
  "Produce cv pl req sv =
     (let conn = pq_connection req; source = pq_source req; topic = trim_space (pq_topic req) in
      if topic = [] then (Inl (Errf ''topic is required'' []), sv)
      else case ensureWriteAllowed (profileOf conn sv) ''messages/produce'' of
        Inl e \<Rightarrow> blocked source conn ''produce'' topic e sv
      | Inr _ \<Rightarrow>
          (case produce_inputs pl req of
             Inl e \<Rightarrow> (Inl e, sv)
           | Inr (opts, payload, keyBytes) \<Rightarrow>
               (case mounted_client cv req sv of
                  Inl e \<Rightarrow> (Inl e, sv)
                | Inr schemaClient \<Rightarrow>
                    recorded source conn ''produce'' topic
                      (\<lambda>(_, detail). Some (Errf ''count=%d%s'' [format_int (normalizeProduceCount (pq_count req)), detail]))
                      (produce_send cv pl req opts schemaClient payload keyBytes sv))))"

section \<open>Properties\<close>

lemma first_result_Inr: "first_result rs = Inr r \<longleftrightarrow> (\<exists>rest. rs = (r, None) # rest)"
  by (auto simp: first_result_def split: list.splits prod.splits option.splits)

text \<open>The sending stage succeeds exactly with the first of the results.\<close>

lemma produce_call_Inr:
  "fst (produce_call pl req sc payload keyBytes client w) = Inr (r, detail)
   \<longleftrightarrow> (\<exists>wire. fst (mounted_payload pl req sc payload w) = Inr (wire, detail)
        \<and> (\<exists>rest. fst (pr_sync pl client (produced_records req keyBytes wire) (snd (mounted_payload pl req sc payload w)))
                  = (r, None) # rest))"
  by (auto simp: produce_call_def io_bind_eq ebind_Inr_iff first_result_Inr split: prod.splits sum.splits)


definition sample_producer :: "unit service" where
  "sample_producer =
     (NewService ())\<lparr>sv_conns := [(''c1'', sample_entry\<lparr>ce_profile :=
        zero_profile\<lparr>pf_id := ''c1'', BootstrapServers := [''b:9092''], SecurityProtocol := ''PLAINTEXT''\<rparr>\<rparr>)]\<rparr>"

definition sample_env :: client_env where
  "sample_env = \<lparr>cv_hash = id, cv_net = no_net, cv_new_client = (\<lambda>_. Inr 7), cv_now = 0, cv_url_error = (\<lambda>_. None)\<rparr>"

text \<open>A broker that takes the first record, at offset 41, and refuses the second.\<close>

definition sample_produce_lib :: "(unit, string, string) produce_lib" where
  "sample_produce_lib =
     \<lparr>pr_base64_error = (\<lambda>_. Ext ''illegal base64 data''), pr_rest = sample_rest, pr_formats = sample_schema_lib,
      pr_sync = (\<lambda>c rs w. ([((hd rs)\<lparr>r_offset := 41\<rparr>, None), (hd rs, Some (Ext ''not leader''))], w))\<rparr>"

definition sample_produce :: produce_request where
  "sample_produce =
     \<lparr>pq_connection = ''c1'', pq_topic = ''t'', pq_key = [], pq_value = ''v'', pq_headers = [], pq_partition = None,
      pq_count = 2, pq_compression = [], pq_key_base64 = [], pq_value_base64 = [], pq_schema = None, pq_acks = [],
      pq_idempotence = None, pq_source = []\<rparr>"


end
