(* ===== verification/SchemaGlue.thy ===== *)
theory SchemaGlue
  imports SchemaRegistry
begin

text \<open>
  The AWS Glue backend of the schema registry, from \<open>kafkaconn/glue.go\<close>. The SDK is the record
  \<open>glue_lib\<close>, one field for each operation of its client; a pointer of the SDK is an option.
\<close>

section \<open>The SDK\<close>

record glue_schema =
  gs_format :: string
  gs_compatibility :: string
  gs_latest :: "int option"

record glue_version =
  gv_number :: "int option"
  gv_id :: "string option"
  gv_definition :: "string option"
  gv_format :: string

text \<open>
  The first argument of an operation is the name of the registry, the second that of the
  schema. \<open>gl_config\<close> is \<open>LoadDefaultConfig\<close> with a region and static credentials;
  \<open>gl_code\<close> is the code of an error that is a \<open>smithy.APIError\<close>; \<open>gl_pages\<close> is the number
  of pages that can be listed before the context of the request expires.
\<close>

record 'w glue_lib =
  gl_config :: "string \<Rightarrow> (string \<times> string \<times> string) option \<Rightarrow> goerr option"
  gl_code :: "goerr \<Rightarrow> string option"
  gl_pages :: nat
  gl_list_schemas :: "string \<Rightarrow> string option \<Rightarrow> ('w, (string option \<times> string option) list \<times> string option) io"
  gl_list_versions :: "string \<Rightarrow> string \<Rightarrow> string option \<Rightarrow> ('w, (int option \<times> string option) list \<times> string option) io"
  gl_get_schema :: "string \<Rightarrow> string \<Rightarrow> ('w, glue_schema) io"
  gl_get_version :: "string \<Rightarrow> string \<Rightarrow> int \<Rightarrow> ('w, glue_version) io"
  gl_update :: "string \<Rightarrow> string \<Rightarrow> string \<Rightarrow> int \<Rightarrow> ('w, unit) io"
  gl_check :: "string \<Rightarrow> string \<Rightarrow> ('w, bool \<times> string option) io"
  gl_create :: "string \<Rightarrow> string \<Rightarrow> string \<Rightarrow> string \<Rightarrow> string \<Rightarrow> ('w, int option \<times> string option) io"
  gl_register :: "string \<Rightarrow> string \<Rightarrow> string \<Rightarrow> ('w, int option \<times> string option) io"
  gl_delete_versions :: "string \<Rightarrow> string \<Rightarrow> string \<Rightarrow> ('w, string option list) io"
  gl_delete :: "string \<Rightarrow> string \<Rightarrow> ('w, unit) io"

section \<open>The client\<close>

record glue_config =
  gc_region :: string
  gc_registry :: string
  gc_auth :: string
  gc_key :: string
  gc_secret :: string
  gc_token :: string

definition newGlueClient :: "'w glue_lib \<Rightarrow> glue_config \<Rightarrow> unit res" where
  "newGlueClient gl cfg =
     (let region = trim_space (gc_region cfg); mode = word_of (gc_auth cfg);
          load = (\<lambda>creds. case gl_config gl region creds of
                            Some e \<Rightarrow> Inl (Wrapf ''load AWS config: %w'' [] e) | None \<Rightarrow> Inr ())
      in if region = [] then Inl (Errf ''AWS Glue region is required'' [])
         else if mode \<in> set [[], ''default''] then load None
         else if mode = ''static'' then
           (if blank (gc_key cfg) \<or> blank (gc_secret cfg)
            then Inl (Errf ''AWS access key id and secret access key are required for glue_auth_mode=static'' [])
            else load (Some (trim_space (gc_key cfg), trim_space (gc_secret cfg), trim_space (gc_token cfg))))
         else if mode = ''profile''
         then Inl (Errf ''glue_auth_mode=profile is not supported in the sidecar; use default or static'' [])
         else Inl (Errf ''glue_auth_mode must be default or static'' []))"

text \<open>The backend is the name of the registry.\<close>

definition newGlueSchemaBackend :: "'w glue_lib \<Rightarrow> glue_config \<Rightarrow> string res" where
  "newGlueSchemaBackend gl cfg = ebind (newGlueClient gl cfg) (\<lambda>_. Inr (trim_space (gc_registry cfg)))"

definition requireRegistry :: "string \<Rightarrow> unit res" where
  "requireRegistry b = (if b = [] then Inl (Errf ''AWS Glue registryName is required'' []) else Inr ())"

definition glueCompatibilityFromGlue :: "glue_schema option \<Rightarrow> string" where
  "glueCompatibilityFromGlue out =
     (case out of None \<Rightarrow> ''NONE'' | Some g \<Rightarrow> if gs_compatibility g = [] then ''NONE'' else gs_compatibility g)"

fun contains_text :: "string \<Rightarrow> string \<Rightarrow> bool" where
  "contains_text w [] = (w = [])"
| "contains_text w (c # s) = (prefix w (c # s) \<or> contains_text w s)"

definition isAWSNotFound :: "'w glue_lib \<Rightarrow> goerr \<Rightarrow> bool" where
  "isAWSNotFound gl e =
     (case gl_code gl e of
        None \<Rightarrow> False
      | Some code \<Rightarrow> contains_text ''notfound'' (to_lower code) \<or> contains_text ''entitynotfound'' (to_lower code))"

definition awsStringValue :: "string option \<Rightarrow> string" where
  "awsStringValue v = (case v of None \<Rightarrow> [] | Some s \<Rightarrow> trim_space s)"

definition awsInt64Value :: "int option \<Rightarrow> int" where
  "awsInt64Value v = (case v of None \<Rightarrow> 0 | Some n \<Rightarrow> n)"

section \<open>The backend\<close>

definition required_subject :: "string \<Rightarrow> string \<Rightarrow> string res" where
  "required_subject msg subject =
     (let s = trim_space subject in if s = [] then Inl (Errf msg []) else Inr s)"

text \<open>The checks in front of a method: the registry, then the subject.\<close>

definition glue_call :: "string \<Rightarrow> string \<Rightarrow> string \<Rightarrow> (string \<Rightarrow> ('w, 'a) io) \<Rightarrow> ('w, 'a) io" where
  "glue_call b msg subject m =
     io_bind (io_res (requireRegistry b)) (\<lambda>_. io_bind (io_res (required_subject msg subject)) m)"

definition glueListPageCap :: nat where
  "glueListPageCap = 1000"

text \<open>The loop over the pages: \<open>rows\<close> are the rows that an item of a page gives.\<close>

fun glue_pages ::
  "nat \<Rightarrow> (string option \<Rightarrow> ('w, 'p list \<times> string option) io) \<Rightarrow> ('p \<Rightarrow> 'r list) \<Rightarrow> string option \<Rightarrow> 'r list
     \<Rightarrow> ('w, 'r list) io" where
  "glue_pages 0 page rows token out = io_fail (Ext ''context deadline exceeded'')"
| "glue_pages (Suc n) page rows token out =
     io_bind (page token) (\<lambda>(items, next_token).
       let out = out @ concat (map rows items) in
       if awsStringValue next_token = [] \<or> length out \<ge> glueListPageCap then io_ok out
       else glue_pages n page rows next_token out)"

definition glue_subject_rows :: "string option \<times> string option \<Rightarrow> subject_info list" where
  "glue_subject_rows item =
     (let name = awsStringValue (fst item) in
        if name = [] \<or> suffix ''/'' name then []
        else [\<lparr>sb_subject = name, sb_formats = [], sb_latest = 0, sb_compatibility = [],
               sb_description = awsStringValue (snd item)\<rparr>])"

text \<open>
  \<open>listSubjects\<close>. The names of Glue schemas are ASCII, so \<open>to_lower\<close> is \<open>strings.ToLower\<close> on
  them. \<open>sort.Slice\<close> may order names that differ only in their case either way; the model
  keeps them in the order in which they came.
\<close>

definition gb_listSubjects :: "'w glue_lib \<Rightarrow> string \<Rightarrow> ('w, subject_info list) io" where
  "gb_listSubjects gl b =
     io_bind (io_res (requireRegistry b)) (\<lambda>_.
     io_bind (glue_pages (gl_pages gl) (gl_list_schemas gl b) glue_subject_rows None []) (\<lambda>out.
     io_ok (sort_key (\<lambda>i. to_lower (sb_subject i)) out)))"

definition gb_test :: "'w glue_lib \<Rightarrow> string \<Rightarrow> ('w, int \<times> string) io" where
  "gb_test gl b = io_bind (gb_listSubjects gl b) (\<lambda>subjects. io_ok (int (length subjects), []))"

definition glue_version_rows :: "string \<Rightarrow> int option \<times> string option \<Rightarrow> version_info list" where
  "glue_version_rows format item =
     (let version = awsInt64Value (fst item) in
        if version \<le> 0 then []
        else [\<lparr>vi_version = version, vi_id = 0, vi_format = format, vi_version_id = awsStringValue (snd item)\<rparr>])"

definition gb_listVersions :: "'w glue_lib \<Rightarrow> string \<Rightarrow> string \<Rightarrow> ('w, version_info list) io" where
  "gb_listVersions gl b subject =
     glue_call b ''subject is required'' subject (\<lambda>subject.
       io_try (gl_get_schema gl b subject) (\<lambda>r.
         let format = (case r of Inl _ \<Rightarrow> ''UNKNOWN'' | Inr out \<Rightarrow> normalizeConfluentSchemaType (gs_format out)) in
         io_bind (glue_pages (gl_pages gl) (gl_list_versions gl b subject) (glue_version_rows format) None []) (\<lambda>out.
           io_ok (sort_key vi_version out))))"

definition gb_getSchema :: "'w glue_lib \<Rightarrow> string \<Rightarrow> string \<Rightarrow> int \<Rightarrow> ('w, schema_meta) io" where
  "gb_getSchema gl b subject version =
     glue_call b ''subject is required'' subject (\<lambda>subject.
       io_bind (if version \<le> 0
                then io_bind (gl_get_schema gl b subject) (\<lambda>out. io_ok (awsInt64Value (gs_latest out)))
                else io_ok version) (\<lambda>version.
       io_bind (gl_get_version gl b subject version) (\<lambda>v.
         io_ok \<lparr>mt_subject = subject, mt_version = awsInt64Value (gv_number v), mt_id = 0,
                mt_schema = awsStringValue (gv_definition v), mt_type = normalizeConfluentSchemaType (gv_format v),
                mt_references = [], mt_version_id = awsStringValue (gv_id v)\<rparr>)))"

definition per_schema_only :: string where
  "per_schema_only = ''subject is required for AWS Glue compatibility (per-schema; no global level)''"

definition gb_getCompatibility :: "'w glue_lib \<Rightarrow> string \<Rightarrow> string \<Rightarrow> ('w, string) io" where
  "gb_getCompatibility gl b subject =
     glue_call b per_schema_only subject (\<lambda>subject.
       io_bind (gl_get_schema gl b subject) (\<lambda>out. io_ok (glueCompatibilityFromGlue (Some out))))"

definition gb_setCompatibility :: "'w glue_lib \<Rightarrow> string \<Rightarrow> string \<Rightarrow> string \<Rightarrow> int \<Rightarrow> ('w, string) io" where
  "gb_setCompatibility gl b subject level version =
     glue_call b per_schema_only subject (\<lambda>subject.
       io_bind (io_res (normalizeGlueCompatibility level)) (\<lambda>compatibility.
       io_bind (if version \<le> 0
                then io_bind (gl_get_schema gl b subject) (\<lambda>out. io_ok (awsInt64Value (gs_latest out)))
                else io_ok version) (\<lambda>version.
         if version \<le> 0 then io_fail (Errf ''schema version checkpoint is required'' [])
         else io_bind (gl_update gl b subject compatibility version) (\<lambda>_.
                io_try (gl_get_schema gl b subject) (\<lambda>r.
                  io_ok (glueCompatibilityFromGlue (case r of Inl _ \<Rightarrow> None | Inr out \<Rightarrow> Some out)))))))"

definition glue_schema_checks :: "string \<Rightarrow> string \<Rightarrow> unit res" where
  "glue_schema_checks format schema =
     ebind (normalizeKafkaSchemaFormat format) (\<lambda>_.
       if blank schema then Inl (Errf ''schema is required'' []) else Inr ())"

definition gb_checkCompatibility ::
  "'w glue_lib \<Rightarrow> string \<Rightarrow> string \<Rightarrow> string \<Rightarrow> string \<Rightarrow> ('w, bool \<times> string list) io" where
  "gb_checkCompatibility gl b subject format schema =
     glue_call b ''subject is required'' subject (\<lambda>_.
       io_bind (io_res (glue_schema_checks format schema)) (\<lambda>_.
       io_bind (gl_check gl (glueDataFormat format) schema) (\<lambda>(valid, err).
         io_ok (valid,
                ''AWS Glue validity check has no side effects; registry compatibility is enforced when registering the schema version.''
                # (if awsStringValue err \<noteq> [] then [awsStringValue err] else [])))))"

definition gb_registerSchema ::
  "'w glue_lib \<Rightarrow> string \<Rightarrow> string \<Rightarrow> string \<Rightarrow> string \<Rightarrow> string \<Rightarrow> bool \<Rightarrow> ('w, schema_meta) io" where
  "gb_registerSchema gl b subject format schema compatibility normal =
     (if normal then io_fail (Errf ''normalize is not supported by the AWS Glue schema registry backend (Confluent-compatible registries only)'' [])
      else
        glue_call b ''subject is required'' subject (\<lambda>subject.
          let meta = (\<lambda>(version, i). io_ok \<lparr>mt_subject = subject, mt_version = awsInt64Value version, mt_id = 0, mt_schema = schema,
                         mt_type = normalizeConfluentSchemaType format, mt_references = [], mt_version_id = awsStringValue i\<rparr>)
          in io_bind (io_res (glue_schema_checks format schema)) (\<lambda>_.
             io_try (gl_get_schema gl b subject) (\<lambda>r.
               case r of
                 Inl e \<Rightarrow>
                   if \<not> isAWSNotFound gl e then io_fail e
                   else io_bind (io_res (normalizeGlueCompatibility compatibility)) (\<lambda>compatibility.
                          io_bind (gl_create gl b subject (glueDataFormat format) compatibility schema) meta)
               | Inr _ \<Rightarrow> io_bind (gl_register gl b subject schema) meta))))"

definition gb_deleteSchema :: "'w glue_lib \<Rightarrow> string \<Rightarrow> string \<Rightarrow> int \<Rightarrow> ('w, int list) io" where
  "gb_deleteSchema gl b subject version =
     glue_call b ''subject is required'' subject (\<lambda>subject.
       if version > 0 then
         io_bind (gl_delete_versions gl b subject (format_int version)) (\<lambda>errors.
           case errors of
             item # _ \<Rightarrow> io_fail (Errf ''delete schema version %d: %s'' [format_int version, awsStringValue item])
           | [] \<Rightarrow> io_ok [version])
       else io_bind (gl_delete gl b subject) (\<lambda>_. io_ok []))"

end
