(* ===== verification/SchemaDiff.thy ===== *)
theory SchemaDiff
  imports GoBase
begin

text \<open>
  The comparison of two versions of a schema, from \<open>kafkaconn/schema.go\<close>: the texts are cut
  into lines, a table of longest common subsequences is filled from the end, a walk through
  the table gives one operation per line, and neighbouring removals and additions are merged
  into hunks. Line counts are far below the range of \<open>int\<close> and are natural numbers.
\<close>

section \<open>Lines\<close>

text \<open>\<open>strings.ReplaceAll(text, "\r\n", "\n")\<close>\<close>

fun replace_crlf :: "string \<Rightarrow> string" where
  "replace_crlf (c # d # s) =
     (if c = CHR 0x0D \<and> d = CHR 0x0A then CHR 0x0A # replace_crlf s else c # replace_crlf (d # s))"
| "replace_crlf s = s"

definition splitSchemaLines :: "string \<Rightarrow> string list" where
  "splitSchemaLines s =
     (if s = [] then []
      else split_on CHR 0x0A (map (\<lambda>c. if c = CHR 0x0D then CHR 0x0A else c) (replace_crlf s)))"

section \<open>The table\<close>

text \<open>Row \<open>i\<close> from \<open>j\<close> on, given row \<open>i + 1\<close> from \<open>j\<close> on.\<close>

fun dp_row :: "string \<Rightarrow> string list \<Rightarrow> nat list \<Rightarrow> nat list" where
  "dp_row x [] below = [0]"
| "dp_row x (y # ys) below =
     (let right = dp_row x ys (tl below) in
        (if x = y then hd (tl below) + 1
         else if hd below \<ge> hd right then hd below
         else hd right) # right)"

fun dp_table :: "string list \<Rightarrow> string list \<Rightarrow> nat list list" where
  "dp_table [] ys = [replicate (length ys + 1) 0]"
| "dp_table (x # xs) ys = (let t = dp_table xs ys in dp_row x ys (hd t) # t)"

section \<open>The walk\<close>

datatype diff_kind = EqualLine | RemoveLine | AddLine

record diff_op =
  dl_kind :: diff_kind
  dl_line :: nat
  dl_text :: string

definition diff_op_at :: "diff_kind \<Rightarrow> string list \<Rightarrow> nat \<Rightarrow> diff_op" where
  "diff_op_at k lines i = \<lparr>dl_kind = k, dl_line = i + 1, dl_text = lines ! i\<rparr>"

function diff_ops :: "nat list list \<Rightarrow> string list \<Rightarrow> string list \<Rightarrow> nat \<Rightarrow> nat \<Rightarrow> diff_op list" where
  "diff_ops dp xs ys i j =
     (if i < length xs \<and> j < length ys then
        (if xs ! i = ys ! j then diff_op_at EqualLine xs i # diff_ops dp xs ys (i + 1) (j + 1)
         else if dp ! (i + 1) ! j \<ge> dp ! i ! (j + 1) then diff_op_at RemoveLine xs i # diff_ops dp xs ys (i + 1) j
         else diff_op_at AddLine ys j # diff_ops dp xs ys i (j + 1))
      else if i < length xs then diff_op_at RemoveLine xs i # diff_ops dp xs ys (i + 1) j
      else if j < length ys then diff_op_at AddLine ys j # diff_ops dp xs ys i (j + 1)
      else [])"
  by pat_completeness auto
termination
  by (relation "measure (\<lambda>(dp, xs, ys, i, j). (length xs - i) + (length ys - j))") auto

declare diff_ops.simps [simp del]

section \<open>Hunks and summary\<close>

record diff_hunk =
  hk_op :: string
  hk_path :: string
  hk_before :: string
  hk_after :: string

record diff_summary =
  sm_added :: nat
  sm_removed :: nat
  sm_unchanged :: nat
  sm_before :: nat
  sm_after :: nat

definition joinDiffLines :: "diff_op list \<Rightarrow> string" where
  "joinDiffLines ops = join_with [CHR 0x0A] (map dl_text ops)"

definition schemaDiffPath :: "nat \<Rightarrow> string" where
  "schemaDiffPath line = ''line '' @ format_int (int line)"

abbreviation removes :: "diff_op \<Rightarrow> bool" where "removes o' \<equiv> dl_kind o' = RemoveLine"
abbreviation adds :: "diff_op \<Rightarrow> bool" where "adds o' \<equiv> dl_kind o' = AddLine"

definition merge_hunk :: "diff_op list \<Rightarrow> diff_op list \<Rightarrow> diff_hunk" where
  "merge_hunk removed added =
     (if removed \<noteq> [] \<and> added \<noteq> [] then
        \<lparr>hk_op = ''modify'', hk_path = schemaDiffPath (dl_line (hd removed)),
         hk_before = joinDiffLines removed, hk_after = joinDiffLines added\<rparr>
      else if removed \<noteq> [] then
        \<lparr>hk_op = ''remove'', hk_path = schemaDiffPath (dl_line (hd removed)),
         hk_before = joinDiffLines removed, hk_after = []\<rparr>
      else
        \<lparr>hk_op = ''add'', hk_path = schemaDiffPath (dl_line (hd added)),
         hk_before = [], hk_after = joinDiffLines added\<rparr>)"

function merge_ops :: "diff_op list \<Rightarrow> diff_hunk list \<times> diff_summary \<Rightarrow> diff_hunk list \<times> diff_summary" where
  "merge_ops [] (hunks, sm) = (hunks, sm)"
| "merge_ops (o' # ops) (hunks, sm) =
     (if dl_kind o' = EqualLine then merge_ops ops (hunks, sm\<lparr>sm_unchanged := sm_unchanged sm + 1\<rparr>)
      else
        let removed = takeWhile removes (o' # ops);
            rest = dropWhile removes (o' # ops);
            added = takeWhile adds rest
        in merge_ops (dropWhile adds rest)
             (hunks @ [merge_hunk removed added],
              sm\<lparr>sm_removed := sm_removed sm + length removed, sm_added := sm_added sm + length added\<rparr>))"
  by pat_completeness auto
termination
proof (relation "measure (\<lambda>(ops, acc). length ops)", goal_cases)
  case (3 o' ops hunks sm removed rest added)
  have le: "length (dropWhile P zs) \<le> length zs" for P :: "diff_op \<Rightarrow> bool" and zs by (rule length_dropWhile_le)
  have "length (dropWhile adds rest) < length (o' # ops)"
  proof (cases "dl_kind o'")
    case RemoveLine
    then have "rest = dropWhile removes ops" using 3(3) by simp
    then show ?thesis using le [of adds rest] le [of removes ops] by simp
  next
    case AddLine
    then have "dropWhile adds rest = dropWhile adds ops" using 3(3) by simp
    then show ?thesis using le [of adds ops] by simp
  qed (use 3(1) in simp)
  then show ?case by simp
qed auto

definition schemaTextDiff :: "string \<Rightarrow> string \<Rightarrow> diff_hunk list \<times> diff_summary" where
  "schemaTextDiff before after =
     (let xs = splitSchemaLines before; ys = splitSchemaLines after in
        merge_ops (diff_ops (dp_table xs ys) xs ys 0 0)
          ([], \<lparr>sm_added = 0, sm_removed = 0, sm_unchanged = 0, sm_before = length xs, sm_after = length ys\<rparr>))"

section \<open>The table holds the lengths of longest common subsequences\<close>

text \<open>The reference definition, and the suffixes of a list, longest first.\<close>

fun lcs_len :: "'a list \<Rightarrow> 'a list \<Rightarrow> nat" where
  "lcs_len [] ys = 0"
| "lcs_len (x # xs) [] = 0"
| "lcs_len (x # xs) (y # ys) =
     (if x = y then lcs_len xs ys + 1 else max (lcs_len xs (y # ys)) (lcs_len (x # xs) ys))"

fun tails :: "'a list \<Rightarrow> 'a list list" where
  "tails [] = [[]]"
| "tails (x # xs) = (x # xs) # tails xs"

lemma tails_nth: "i \<le> length xs \<Longrightarrow> tails xs ! i = drop i xs"
  by (induction xs arbitrary: i) (auto simp: nth_Cons split: nat.splits)

lemma length_tails [simp]: "length (tails xs) = length xs + 1"
  by (induction xs) auto

lemma tails_hd [simp]: "tails xs \<noteq> []" "hd (tails xs) = xs"
  by (cases xs; simp)+

lemma hd_map_tails [simp]: "hd (map f (tails xs)) = f xs"
  by (cases xs) auto

lemma lcs_len_Nil [simp]: "lcs_len xs [] = 0"
  by (cases xs) auto

lemma dp_row_lcs: "dp_row x ys (map (lcs_len xs) (tails ys)) = map (lcs_len (x # xs)) (tails ys)"
  by (induction ys) (auto simp: Let_def max_def)

lemma dp_table_lcs: "dp_table xs ys = map (\<lambda>zs. map (lcs_len zs) (tails ys)) (tails xs)"
proof (induction xs)
  case Nil
  have "map (lcs_len []) (tails ys) = replicate (length ys + 1) 0" by (induction ys) auto
  then show ?case by simp
next
  case (Cons x xs)
  then show ?case by (simp add: Let_def dp_row_lcs)
qed

lemma dp_table_nth:
  "i \<le> length xs \<Longrightarrow> j \<le> length ys \<Longrightarrow> dp_table xs ys ! i ! j = lcs_len (drop i xs) (drop j ys)"
  by (simp add: dp_table_lcs tails_nth)

lemma subseq_Cons_both:
  assumes "subseq zs (x # xs)" "subseq zs (x # ys)"
  shows "length zs = 0 \<or> (subseq zs xs \<and> subseq zs ys)
    \<or> (\<exists>zs'. zs = x # zs' \<and> subseq zs' xs \<and> subseq zs' ys)"
  using assms by (cases zs) (auto split: if_splits)

lemma lcs_len_upper: "subseq zs xs \<Longrightarrow> subseq zs ys \<Longrightarrow> length zs \<le> lcs_len xs ys"
proof (induction xs ys arbitrary: zs rule: lcs_len.induct)
  case (3 x xs y ys)
  show ?case
  proof (cases "x = y")
    case True
    then show ?thesis
      using subseq_Cons_both [of zs x xs ys] "3.prems" "3.IH"(1) [OF True] by fastforce
  next
    case False
    then have "subseq zs xs \<or> subseq zs ys"
      using "3.prems" by (cases zs) (auto split: if_splits)
    then show ?thesis using "3.IH"(2,3) [OF False] "3.prems" False by (auto simp: max.coboundedI1 max.coboundedI2)
  qed
qed auto

lemma lcs_len_attained: "\<exists>zs. subseq zs xs \<and> subseq zs ys \<and> length zs = lcs_len xs ys"
proof (induction xs ys rule: lcs_len.induct)
  case (3 x xs y ys)
  show ?case
  proof (cases "x = y")
    case True
    then obtain zs where "subseq zs xs" "subseq zs ys" "length zs = lcs_len xs ys" using "3.IH"(1) by blast
    then show ?thesis using True by (intro exI [of _ "x # zs"]) simp
  next
    case False
    then obtain zs zs' where z: "subseq zs xs" "subseq zs (y # ys)" "length zs = lcs_len xs (y # ys)"
      "subseq zs' (x # xs)" "subseq zs' ys" "length zs' = lcs_len (x # xs) ys"
      using "3.IH"(2,3) by blast
    then have "subseq zs (x # xs)" "subseq zs' (y # ys)" by (auto intro: subseq_order.trans list_emb_Cons)
    then show ?thesis using False z by (auto simp: max_def)
  qed
qed auto

section \<open>What the walk and the hunks say\<close>

fun ops_ok :: "string list \<Rightarrow> string list \<Rightarrow> nat \<Rightarrow> nat \<Rightarrow> diff_op list \<Rightarrow> bool" where
  "ops_ok xs ys i j [] \<longleftrightarrow> i = length xs \<and> j = length ys"
| "ops_ok xs ys i j (o' # ops) \<longleftrightarrow>
     (case dl_kind o' of
        EqualLine \<Rightarrow> i < length xs \<and> j < length ys \<and> xs ! i = ys ! j \<and> ops_ok xs ys (i + 1) (j + 1) ops
      | RemoveLine \<Rightarrow> i < length xs \<and> o' = diff_op_at RemoveLine xs i \<and> ops_ok xs ys (i + 1) j ops
      | AddLine \<Rightarrow> j < length ys \<and> o' = diff_op_at AddLine ys j \<and> ops_ok xs ys i (j + 1) ops)"

lemma dl_kind_at [simp]: "dl_kind (diff_op_at k lines i) = k" "dl_line (diff_op_at k lines i) = i + 1"
    "dl_text (diff_op_at k lines i) = lines ! i"
  by (simp_all add: diff_op_at_def)

lemma diff_ops_ok: "i \<le> length xs \<Longrightarrow> j \<le> length ys \<Longrightarrow> ops_ok xs ys i j (diff_ops dp xs ys i j)"
proof (induction dp xs ys i j rule: diff_ops.induct)
  case (1 dp xs ys i j)
  then show ?case by (subst diff_ops.simps) auto
qed

definition n_of :: "diff_kind \<Rightarrow> diff_op list \<Rightarrow> nat" where
  "n_of k ops = length (filter (\<lambda>o'. dl_kind o' = k) ops)"

lemma n_of_simps [simp]:
  "n_of k [] = 0" "n_of k (o' # ops) = (if dl_kind o' = k then 1 else 0) + n_of k ops"
  "n_of k (ops @ ops') = n_of k ops + n_of k ops'"
  by (simp_all add: n_of_def)

lemma ops_ok_counts:
  "ops_ok xs ys i j ops \<Longrightarrow> i + n_of EqualLine ops + n_of RemoveLine ops = length xs
     \<and> j + n_of EqualLine ops + n_of AddLine ops = length ys"
proof (induction ops arbitrary: i j)
  case (Cons o' ops)
  then show ?case by (cases "dl_kind o'") fastforce+
qed simp

lemma diff_ops_equal:
  "i \<le> length xs \<Longrightarrow> j \<le> length ys \<Longrightarrow>
     n_of EqualLine (diff_ops (dp_table xs ys) xs ys i j) = lcs_len (drop i xs) (drop j ys)"
proof (induction "dp_table xs ys" xs ys i j rule: diff_ops.induct)
  case (1 xs ys i j)
  show ?case
  proof (cases "i < length xs \<and> j < length ys")
    case True
    then have "drop i xs = xs ! i # drop (i + 1) xs" "drop j ys = ys ! j # drop (j + 1) ys"
      by (simp_all add: Cons_nth_drop_Suc)
    then show ?thesis using 1 True dp_table_nth [of "i + 1" xs j ys] dp_table_nth [of i xs "j + 1" ys]
      by (subst diff_ops.simps) (auto simp: max_def)
  next
    case False
    have z: "n_of EqualLine (diff_ops dp xs ys i' j') = 0"
      if "i' \<ge> length xs \<or> j' \<ge> length ys" for dp i' j'
      using that
    proof (induction dp xs ys i' j' rule: diff_ops.induct)
      case (1 dp xs ys i' j')
      then show ?case by (subst diff_ops.simps) auto
    qed
    then show ?thesis using False z [of i j] 1(4,5) by auto
  qed
qed

lemma merge_ops_summary:
  "snd (merge_ops ops (hunks, sm)) = sm\<lparr>sm_added := sm_added sm + n_of AddLine ops,
     sm_removed := sm_removed sm + n_of RemoveLine ops, sm_unchanged := sm_unchanged sm + n_of EqualLine ops\<rparr>"
proof (induction ops "(hunks, sm)" arbitrary: hunks sm rule: merge_ops.induct)
  case (2 o' ops hunks sm)
  show ?case
  proof (cases "dl_kind o' = EqualLine")
    case True
    then show ?thesis using 2(1) by simp
  next
    case False
    let ?rem = "takeWhile removes (o' # ops)" and ?rest = "dropWhile removes (o' # ops)"
    let ?add = "takeWhile adds ?rest"
    have split: "n_of k (o' # ops) = n_of k ?rem + n_of k ?add + n_of k (dropWhile adds ?rest)" for k
      by (metis takeWhile_dropWhile_id n_of_simps(3) add.assoc)
    have run: "n_of k (takeWhile (\<lambda>o'. dl_kind o' = d) zs) = (if k = d then length (takeWhile (\<lambda>o'. dl_kind o' = d) zs) else 0)"
      for k d zs by (induction zs) auto
    show ?thesis using 2(2) [OF False refl refl refl] False
      by (simp add: Let_def split run del: takeWhile.simps dropWhile.simps n_of_simps(2))
  qed
qed simp

section \<open>The hunks determine the newer version\<close>

text \<open>
  What a reader does with the hunks: copy lines of the older text up to the place a hunk
  names (a line of the older text, or for an addition a line of the newer one), leave out
  the lines it removes, put in the lines it adds.
\<close>

definition hunk_line :: "diff_hunk \<Rightarrow> nat" where
  "hunk_line h = (case parse_int (drop 5 (hk_path h)) of Some n \<Rightarrow> nat n | None \<Rightarrow> 0)"

definition hunk_removed :: "diff_hunk \<Rightarrow> string list" where
  "hunk_removed h = (if hk_op h = ''add'' then [] else split_on CHR 0x0A (hk_before h))"

definition hunk_added :: "diff_hunk \<Rightarrow> string list" where
  "hunk_added h = (if hk_op h = ''remove'' then [] else split_on CHR 0x0A (hk_after h))"

fun patch :: "string list \<Rightarrow> nat \<Rightarrow> nat \<Rightarrow> diff_hunk list \<Rightarrow> string list" where
  "patch xs i j [] = drop i xs"
| "patch xs i j (h # hs) =
     (let k = hunk_line h - 1 - (if hk_op h = ''add'' then j else i) in
        take k (drop i xs) @ hunk_added h
        @ patch xs (i + k + length (hunk_removed h)) (j + k + length (hunk_added h)) hs)"

definition merged :: "diff_op list \<Rightarrow> diff_hunk list" where
  "merged ops = fst (merge_ops ops ([], \<lparr>sm_added = 0, sm_removed = 0, sm_unchanged = 0, sm_before = 0, sm_after = 0\<rparr>))"

lemma merge_ops_hunks: "fst (merge_ops ops (hs @ hunks, sm)) = hs @ fst (merge_ops ops (hunks, sm'))"
proof (induction ops "(hunks, sm)" arbitrary: hunks sm sm' rule: merge_ops.induct)
  case (2 o' ops hunks sm)
  show ?case
  proof (cases "dl_kind o' = EqualLine")
    case True
    then show ?thesis using 2(1) by simp
  next
    case False
    show ?thesis
      using 2(2) [OF False refl refl refl] False
      by (simp add: Let_def del: takeWhile.simps dropWhile.simps)
  qed
qed simp

lemma merged_simps:
  "merged [] = []"
  "dl_kind o' = EqualLine \<Longrightarrow> merged (o' # ops) = merged ops"
  "dl_kind o' \<noteq> EqualLine \<Longrightarrow> merged (o' # ops) =
     merge_hunk (takeWhile removes (o' # ops)) (takeWhile adds (dropWhile removes (o' # ops)))
     # merged (dropWhile adds (dropWhile removes (o' # ops)))"
proof -
  let ?z = "\<lparr>sm_added = 0, sm_removed = 0, sm_unchanged = 0, sm_before = 0, sm_after = 0\<rparr>"
  show "merged [] = []" by (simp add: merged_def)
  show "dl_kind o' = EqualLine \<Longrightarrow> merged (o' # ops) = merged ops"
    using merge_ops_hunks [of ops "[]" "[]" _ ?z] by (simp add: merged_def)
  show "dl_kind o' \<noteq> EqualLine \<Longrightarrow> merged (o' # ops) =
     merge_hunk (takeWhile removes (o' # ops)) (takeWhile adds (dropWhile removes (o' # ops)))
     # merged (dropWhile adds (dropWhile removes (o' # ops)))"
    using merge_ops_hunks [of _ "[_]" "[]" _ ?z]
    by (simp add: merged_def Let_def del: takeWhile.simps dropWhile.simps)
qed

lemma run_removes:
  assumes "ops_ok xs ys i j ops"
  defines "m \<equiv> length (takeWhile removes ops)"
  shows "takeWhile removes ops = map (diff_op_at RemoveLine xs) [i ..< i + m] \<and> i + m \<le> length xs
    \<and> ops_ok xs ys (i + m) j (dropWhile removes ops)"
  using assms(1) unfolding m_def
proof (induction ops arbitrary: i)
  case (Cons o' ops)
  show ?case
  proof (cases "removes o'")
    case True
    then have o': "o' = diff_op_at RemoveLine xs i" "ops_ok xs ys (i + 1) j ops" using Cons.prems by simp_all
    show ?thesis using Cons.IH [OF o'(2)] o'(1) by (simp add: upt_conv_Cons del: upt_Suc)
  qed (use Cons.prems ops_ok_counts [OF Cons.prems] in \<open>auto split: diff_kind.splits\<close>)
qed simp

lemma run_adds:
  assumes "ops_ok xs ys i j ops"
  defines "m \<equiv> length (takeWhile adds ops)"
  shows "takeWhile adds ops = map (diff_op_at AddLine ys) [j ..< j + m] \<and> j + m \<le> length ys
    \<and> ops_ok xs ys i (j + m) (dropWhile adds ops)"
  using assms(1) unfolding m_def
proof (induction ops arbitrary: j)
  case (Cons o' ops)
  show ?case
  proof (cases "adds o'")
    case True
    then have o': "o' = diff_op_at AddLine ys j" "ops_ok xs ys i (j + 1) ops" using Cons.prems by simp_all
    show ?thesis using Cons.IH [OF o'(2)] o'(1) by (simp add: upt_conv_Cons del: upt_Suc)
  qed (use Cons.prems ops_ok_counts [OF Cons.prems] in \<open>auto split: diff_kind.splits\<close>)
qed simp

lemma hunk_line_path: "int n < 2 ^ 63 \<Longrightarrow> hk_path h = schemaDiffPath n \<Longrightarrow> hunk_line h = n"
  by (simp add: hunk_line_def schemaDiffPath_def in_i64_def)

lemma map_nth_upt: "i + m \<le> length xs \<Longrightarrow> map (\<lambda>k. xs ! k) [i ..< i + m] = take m (drop i xs)"
  by (rule nth_equalityI) simp_all

lemma joined_lines:
  assumes "i + m \<le> length xs" "\<forall>l \<in> set xs. CHR 0x0A \<notin> set l" "0 < m"
  shows "split_on CHR 0x0A (joinDiffLines (map (diff_op_at k xs) [i ..< i + m])) = take m (drop i xs)"
proof -
  have "map dl_text (map (diff_op_at k xs) [i ..< i + m]) = take m (drop i xs)"
    using map_nth_upt [OF assms(1)] by (simp add: comp_def)
  moreover have "take m (drop i xs) \<noteq> []" using assms(1,3) by auto
  moreover have "set (take m (drop i xs)) \<subseteq> set xs" by (meson set_drop_subset set_take_subset subset_trans)
  ultimately show ?thesis using assms(2) by (simp only: joinDiffLines_def) (rule split_on_join; auto)
qed

text \<open>Before position \<open>(i + k, j + k)\<close> the two texts agree since \<open>(i, j)\<close>.\<close>

lemma patch_merged:
  assumes "ops_ok xs ys (i + k) (j + k) ops" "\<And>n. n < k \<Longrightarrow> xs ! (i + n) = ys ! (j + n)"
    and "i + k \<le> length xs" "j + k \<le> length ys"
    and "\<forall>l \<in> set xs \<union> set ys. CHR 0x0A \<notin> set l" "int (length xs) < 2 ^ 62" "int (length ys) < 2 ^ 62"
  shows "patch xs i j (merged ops) = drop j ys"
  using assms(1-4)
proof (induction ops arbitrary: i j k rule: measure_induct_rule [where f = length])
  case (less ops)
  have copied: "take k (drop i xs) = take k (drop j ys)"
    using less.prems(2-4) by (intro nth_equalityI) auto
  show ?case
  proof (cases ops)
    case Nil
    then have "length xs = i + k" "length ys = j + k" using less.prems(1) by auto
    then show ?thesis using Nil copied by (simp add: merged_simps)
  next
    case (Cons o' ops')
    show ?thesis
    proof (cases "dl_kind o' = EqualLine")
      case True
      then have e: "i + k < length xs" "j + k < length ys" "xs ! (i + k) = ys ! (j + k)"
        "ops_ok xs ys (i + (k + 1)) (j + (k + 1)) ops'" using less.prems(1) Cons by simp_all
      have "xs ! (i + n) = ys ! (j + n)" if "n < k + 1" for n
        using less.prems(2) e(3) that by (cases "n = k") auto
      then show ?thesis
        using less.IH [of ops' i "k + 1" j] e Cons True by (simp add: merged_simps)
    next
      case False
      define rem where "rem = takeWhile removes ops"
      define rest where "rest = dropWhile removes ops"
      define add where "add = takeWhile adds rest"
      define m n where "m = length rem" and "n = length add"
      note r = run_removes [OF less.prems(1), folded rem_def rest_def m_def]
      have rok: "ops_ok xs ys (i + k + m) (j + k) rest" using r by blast
      note a = run_adds [OF rok, folded add_def n_def]
      have "m \<noteq> 0 \<or> n \<noteq> 0"
        using False Cons by (cases "dl_kind o'") (simp_all add: m_def n_def rem_def rest_def add_def)
      have mg: "merged ops = merge_hunk rem add # merged (dropWhile adds rest)"
        unfolding rem_def rest_def add_def Cons by (rule merged_simps(3) [OF False])
      have shorter: "length (dropWhile adds rest) < length ops"
      proof -
        have "length ops = m + n + length (dropWhile adds rest)"
          unfolding m_def n_def add_def rem_def rest_def
          by (metis length_append takeWhile_dropWhile_id add.assoc)
        then show ?thesis using \<open>m \<noteq> 0 \<or> n \<noteq> 0\<close> by auto
      qed
      let ?h = "merge_hunk rem add"
      have rm: "rem = map (diff_op_at RemoveLine xs) [i + k ..< i + k + m]" and rlen: "i + k + m \<le> length xs"
        using r by blast+
      have ad: "add = map (diff_op_at AddLine ys) [j + k ..< j + k + n]" and alen: "j + k + n \<le> length ys"
        using a by blast+
      have rhd: "rem \<noteq> [] \<Longrightarrow> dl_line (hd rem) = i + k + 1" and ahd: "add \<noteq> [] \<Longrightarrow> dl_line (hd add) = j + k + 1"
        by (auto simp: rm ad hd_map upt_rec)
      have ne: "rem \<noteq> [] \<longleftrightarrow> 0 < m" "add \<noteq> [] \<longleftrightarrow> 0 < n" by (simp_all add: m_def n_def)
      have small: "int (i + k + 1) < 2 ^ 63" "int (j + k + 1) < 2 ^ 63"
        using less.prems(3,4) assms(6,7) by simp_all
      have lines: "hk_op ?h \<noteq> ''add'' \<Longrightarrow> hunk_line ?h = i + k + 1" "hk_op ?h = ''add'' \<Longrightarrow> hunk_line ?h = j + k + 1"
        using rhd ahd small ne \<open>m \<noteq> 0 \<or> n \<noteq> 0\<close>
        by (auto simp: merge_hunk_def intro!: hunk_line_path split: if_splits)
      have rtext: "0 < m \<Longrightarrow> split_on CHR 0x0A (joinDiffLines rem) = take m (drop (i + k) xs)"
        using joined_lines [OF rlen] assms(5) by (simp add: rm)
      have atext: "0 < n \<Longrightarrow> split_on CHR 0x0A (joinDiffLines add) = take n (drop (j + k) ys)"
        using joined_lines [OF alen] assms(5) by (simp add: ad)
      have removed: "hunk_removed ?h = take m (drop (i + k) xs)"
        using rtext ne by (auto simp: hunk_removed_def merge_hunk_def)
      have added: "hunk_added ?h = take n (drop (j + k) ys)"
        using atext ne \<open>m \<noteq> 0 \<or> n \<noteq> 0\<close> by (auto simp: hunk_added_def merge_hunk_def)
      have ih: "patch xs (i + k + m) (j + k + n) (merged (dropWhile adds rest)) = drop (j + k + n) ys"
        using less.IH [OF shorter, of "i + k + m" 0 "j + k + n"] a r by simp
      have len: "length (take m (drop (i + k) xs)) = m" "length (take n (drop (j + k) ys)) = n" using rlen alen by simp_all
      have "patch xs i j (merged ops) = take k (drop i xs) @ take n (drop (j + k) ys) @ drop (j + k + n) ys"
        using lines removed added ih len by (cases "hk_op ?h = ''add''") (simp_all add: mg Let_def)
      also have "\<dots> = take k (drop j ys) @ drop (j + k) ys"
        by (simp add: copied append_take_drop_id [of n "drop (j + k) ys", simplified] add.commute)
      also have "\<dots> = drop j ys" using append_take_drop_id [of k "drop j ys"] by (simp add: add.commute)
      finally show ?thesis .
    qed
  qed
qed

section \<open>Properties\<close>

lemma splitSchemaLines_no_newline: "l \<in> set (splitSchemaLines s) \<Longrightarrow> CHR 0x0A \<notin> set l"
  by (auto simp: splitSchemaLines_def dest: split_on_no_sep split: if_splits)

text \<open>
  C15. The comparison of two schema versions is exact and smallest: the unchanged lines are as
  many as a longest common subsequence of the two texts has, and with the removed ones they
  are all the lines of the older version, with the added ones all those of the newer.
\<close>

theorem diff_summary_minimal:
  "snd (schemaTextDiff before after) = sm \<longleftrightarrow>
     sm_unchanged sm = Max (length ` {zs. subseq zs (splitSchemaLines before) \<and> subseq zs (splitSchemaLines after)})
     \<and> sm_unchanged sm + sm_removed sm = length (splitSchemaLines before)
     \<and> sm_unchanged sm + sm_added sm = length (splitSchemaLines after)
     \<and> sm_before sm = length (splitSchemaLines before) \<and> sm_after sm = length (splitSchemaLines after)"
proof -
  let ?xs = "splitSchemaLines before" and ?ys = "splitSchemaLines after"
  let ?ops = "diff_ops (dp_table ?xs ?ys) ?xs ?ys 0 0"
  have counts: "n_of EqualLine ?ops + n_of RemoveLine ?ops = length ?xs"
    "n_of EqualLine ?ops + n_of AddLine ?ops = length ?ys"
    using ops_ok_counts [OF diff_ops_ok [of 0 ?xs 0 ?ys]] by simp_all
  have "Max (length ` {zs. subseq zs ?xs \<and> subseq zs ?ys}) = lcs_len ?xs ?ys"
  proof (rule Max_eqI)
    have "{zs. subseq zs ?xs \<and> subseq zs ?ys} \<subseteq> set (subseqs ?xs)" by auto
    then show "finite (length ` {zs. subseq zs ?xs \<and> subseq zs ?ys})"
      by (meson finite_imageI finite_set finite_subset)
  next
    show "lcs_len ?xs ?ys \<in> length ` {zs. subseq zs ?xs \<and> subseq zs ?ys}"
      using lcs_len_attained [of ?xs ?ys] by (force simp: image_iff)
  qed (auto intro: lcs_len_upper)
  moreover have "n_of EqualLine ?ops = lcs_len ?xs ?ys" using diff_ops_equal [of 0 ?xs 0 ?ys] by simp
  moreover have "snd (schemaTextDiff before after) = \<lparr>sm_added = n_of AddLine ?ops, sm_removed = n_of RemoveLine ?ops,
      sm_unchanged = n_of EqualLine ?ops, sm_before = length ?xs, sm_after = length ?ys\<rparr>"
    by (simp add: schemaTextDiff_def Let_def merge_ops_summary)
  ultimately show ?thesis using counts by (cases sm) auto
qed

text \<open>
  C16. The hunks lose nothing: reading the older text and applying them, line by line, gives
  exactly the lines of the newer text.
\<close>

theorem diff_hunks_rebuild:
  assumes "int (length (splitSchemaLines before)) < 2 ^ 62" "int (length (splitSchemaLines after)) < 2 ^ 62"
  shows "patch (splitSchemaLines before) 0 0 (fst (schemaTextDiff before after)) = splitSchemaLines after"
proof -
  let ?xs = "splitSchemaLines before" and ?ys = "splitSchemaLines after"
  have "fst (schemaTextDiff before after) = merged (diff_ops (dp_table ?xs ?ys) ?xs ?ys 0 0)"
    using merge_ops_hunks [of _ "[]" "[]"] by (simp add: schemaTextDiff_def Let_def merged_def)
  then show ?thesis
    using patch_merged [of ?xs ?ys 0 0 0] diff_ops_ok [of 0 ?xs 0 ?ys] assms splitSchemaLines_no_newline by auto
qed

text \<open>A field is renamed in the middle of three lines.\<close>

theorem diff_hunks_rebuild_witness:
  "patch [''a'', ''b'', ''c''] 0 0 (fst (schemaTextDiff ''a\<newline>b\<newline>c'' ''a\<newline>x\<newline>c\<newline>d'')) = [''a'', ''x'', ''c'', ''d'']"
proof -
  have l: "splitSchemaLines ''a\<newline>b\<newline>c'' = [''a'', ''b'', ''c'']" "splitSchemaLines ''a\<newline>x\<newline>c\<newline>d'' = [''a'', ''x'', ''c'', ''d'']"
    by code_simp+
  show ?thesis using diff_hunks_rebuild [of "''a\<newline>b\<newline>c''" "''a\<newline>x\<newline>c\<newline>d''", unfolded l] by simp
qed

end
