(* ===== verification/SchemaService.thy ===== *)
theory SchemaService
  imports SchemaGlue SchemaDiff SchemaWire KafkaAdmin
begin

text \<open>
  The schema methods of the service, from \<open>kafkaconn/schema.go\<close>: the interface
  \<open>schemaBackend\<close> with its two providers, the choice of the backend of a connection, and the
  methods with their checks, guards and audit records.
\<close>

section \<open>The interface schemaBackend\<close>

datatype schema_backend = Confluent sr_client | Glue string

record 'w registry_lib =
  lb_rest :: "'w rest_lib"
  lb_glue :: "'w glue_lib"

definition provider :: "schema_backend \<Rightarrow> string" where
  "provider b = (case b of Confluent _ \<Rightarrow> ''confluent'' | Glue _ \<Rightarrow> ''glue'')"

definition sb_test :: "'w registry_lib \<Rightarrow> schema_backend \<Rightarrow> ('w, int \<times> string) io" where
  "sb_test l b = (case b of Confluent c \<Rightarrow> cb_test (lb_rest l) c | Glue g \<Rightarrow> gb_test (lb_glue l) g)"

definition sb_listSubjects :: "'w registry_lib \<Rightarrow> schema_backend \<Rightarrow> ('w, subject_info list) io" where
  "sb_listSubjects l b =
     (case b of Confluent c \<Rightarrow> cb_listSubjects (lb_rest l) c | Glue g \<Rightarrow> gb_listSubjects (lb_glue l) g)"

definition sb_listVersions :: "'w registry_lib \<Rightarrow> schema_backend \<Rightarrow> string \<Rightarrow> ('w, version_info list) io" where
  "sb_listVersions l b subject =
     (case b of Confluent c \<Rightarrow> cb_listVersions (lb_rest l) c subject | Glue g \<Rightarrow> gb_listVersions (lb_glue l) g subject)"

definition sb_getSchema :: "'w registry_lib \<Rightarrow> schema_backend \<Rightarrow> string \<Rightarrow> int \<Rightarrow> ('w, schema_meta) io" where
  "sb_getSchema l b subject version =
     (case b of Confluent c \<Rightarrow> sr_getSchema (lb_rest l) c subject version
      | Glue g \<Rightarrow> gb_getSchema (lb_glue l) g subject version)"

definition sb_getCompatibility :: "'w registry_lib \<Rightarrow> schema_backend \<Rightarrow> string \<Rightarrow> ('w, string) io" where
  "sb_getCompatibility l b subject =
     (case b of Confluent c \<Rightarrow> cb_getCompatibility (lb_rest l) c subject
      | Glue g \<Rightarrow> gb_getCompatibility (lb_glue l) g subject)"

definition sb_setCompatibility :: "'w registry_lib \<Rightarrow> schema_backend \<Rightarrow> string \<Rightarrow> string \<Rightarrow> int \<Rightarrow> ('w, string) io" where
  "sb_setCompatibility l b subject level version =
     (case b of Confluent c \<Rightarrow> cb_setCompatibility (lb_rest l) c subject level
      | Glue g \<Rightarrow> gb_setCompatibility (lb_glue l) g subject level version)"

definition sb_checkCompatibility ::
  "'w registry_lib \<Rightarrow> schema_backend \<Rightarrow> string \<Rightarrow> int \<Rightarrow> string \<Rightarrow> string \<Rightarrow> schema_reference list \<Rightarrow> ('w, bool \<times> string list) io" where
  "sb_checkCompatibility l b subject version format schema refs =
     (case b of Confluent c \<Rightarrow> sr_checkCompatibility (lb_rest l) c subject version format schema refs
      | Glue g \<Rightarrow> gb_checkCompatibility (lb_glue l) g subject format schema)"

definition sb_registerSchema ::
  "'w registry_lib \<Rightarrow> schema_backend \<Rightarrow> string \<Rightarrow> string \<Rightarrow> string \<Rightarrow> schema_reference list \<Rightarrow> string \<Rightarrow> bool
     \<Rightarrow> ('w, schema_meta) io" where
  "sb_registerSchema l b subject format schema refs compatibility normal =
     (case b of Confluent c \<Rightarrow> sr_registerSchema (lb_rest l) c subject format schema refs normal
      | Glue g \<Rightarrow> gb_registerSchema (lb_glue l) g subject format schema compatibility normal)"

definition sb_deleteSchema :: "'w registry_lib \<Rightarrow> schema_backend \<Rightarrow> string \<Rightarrow> int \<Rightarrow> ('w, int list) io" where
  "sb_deleteSchema l b subject version =
     (case b of Confluent c \<Rightarrow> cb_deleteSchema (lb_rest l) c subject version
      | Glue g \<Rightarrow> gb_deleteSchema (lb_glue l) g subject version)"

section \<open>The backend of a connection\<close>

definition schemaBackendFor ::
  "client_env \<Rightarrow> 'w registry_lib \<Rightarrow> string \<Rightarrow> string \<Rightarrow> 'w service \<Rightarrow> schema_backend res" where
  "schemaBackendFor cv l conn registry sv =
     (case getEntry conn sv of
        None \<Rightarrow> Inl (errConnectionNotFound conn)
      | Some e \<Rightarrow>
          (let p = ce_profile e; s = ce_secrets e in
           ebind (resolveSchemaProvider p registry) (\<lambda>prov.
           if prov = ''confluent'' then ebind (newSchemaRegistryClient (cv_url_error cv) p (SRPassword s)) (\<lambda>c. Inr (Confluent c))
           else if prov = ''glue'' then
             ebind (newGlueSchemaBackend (lb_glue l)
                      \<lparr>gc_region = GlueRegion p, gc_registry = GlueRegistryName p, gc_auth = GlueAuthMode p,
                       gc_key = GlueAccessKeyID p, gc_secret = GlueSecretAccessKey s, gc_token = GlueSessionToken s\<rparr>)
               (\<lambda>g. Inr (Glue g))
           else Inl (Errf ''schema registry is not enabled for connection %q (set schemaRegistry to confluent or aws_glue)''
                       [pf_name p]))))"

text \<open>A call of the backend of a connection.\<close>

definition with_backend ::
  "client_env \<Rightarrow> 'w registry_lib \<Rightarrow> string \<Rightarrow> string \<Rightarrow> (schema_backend \<Rightarrow> ('w, 'a) io) \<Rightarrow> 'w service
     \<Rightarrow> 'a res \<times> 'w service" where
  "with_backend cv l conn registry m sv =
     (case schemaBackendFor cv l conn registry sv of
        Inl e \<Rightarrow> (Inl e, sv)
      | Inr b \<Rightarrow> (case m b (sv_world sv) of (r, w) \<Rightarrow> (r, sv\<lparr>sv_world := w\<rparr>)))"

section \<open>Reading\<close>

definition TestSchema ::
  "client_env \<Rightarrow> 'w registry_lib \<Rightarrow> string \<Rightarrow> string \<Rightarrow> 'w service
     \<Rightarrow> (int \<times> string \<times> string list \<times> string) res \<times> 'w service" where
  "TestSchema cv l conn registry =
     with_backend cv l conn registry (\<lambda>b.
       io_bind (sb_test l b) (\<lambda>(n, version). io_ok (n, version, [''AVRO'', ''JSON''], provider b)))"

definition ListSchemaSubjects ::
  "client_env \<Rightarrow> 'w registry_lib \<Rightarrow> string \<Rightarrow> string \<Rightarrow> 'w service \<Rightarrow> subject_info list res \<times> 'w service" where
  "ListSchemaSubjects cv l conn registry = with_backend cv l conn registry (sb_listSubjects l)"

definition given_subject :: "string \<Rightarrow> string res" where
  "given_subject subject =
     (let s = trim_space subject in if s = [] then Inl (Errf ''subject is required'' []) else Inr s)"

definition ListSchemaVersions ::
  "client_env \<Rightarrow> 'w registry_lib \<Rightarrow> string \<Rightarrow> string \<Rightarrow> string \<Rightarrow> 'w service \<Rightarrow> version_info list res \<times> 'w service" where
  "ListSchemaVersions cv l conn subject registry sv =
     (case given_subject subject of
        Inl e \<Rightarrow> (Inl e, sv)
      | Inr subject \<Rightarrow> with_backend cv l conn registry (\<lambda>b. sb_listVersions l b subject) sv)"

record schema_text =
  st_subject :: string
  st_version :: int
  st_id :: int
  st_schema :: string
  st_format :: string
  st_references :: "schema_reference list"
  st_version_id :: string

definition GetSchema ::
  "client_env \<Rightarrow> 'w registry_lib \<Rightarrow> string \<Rightarrow> string \<Rightarrow> int \<Rightarrow> string \<Rightarrow> 'w service \<Rightarrow> schema_text res \<times> 'w service" where
  "GetSchema cv l conn subject version registry sv =
     (case given_subject subject of
        Inl e \<Rightarrow> (Inl e, sv)
      | Inr subject \<Rightarrow>
          with_backend cv l conn registry (\<lambda>b.
            io_bind (sb_getSchema l b subject version) (\<lambda>meta.
              io_ok \<lparr>st_subject = mt_subject meta, st_version = mt_version meta, st_id = mt_id meta,
                     st_schema = mt_schema meta, st_format = normalizeConfluentSchemaType (mt_type meta),
                     st_references = mt_references meta, st_version_id = mt_version_id meta\<rparr>)) sv)"

definition CompareSchemaVersions ::
  "client_env \<Rightarrow> 'w registry_lib \<Rightarrow> string \<Rightarrow> string \<Rightarrow> int \<Rightarrow> int \<Rightarrow> string \<Rightarrow> 'w service
     \<Rightarrow> (string \<times> int \<times> int \<times> diff_hunk list \<times> diff_summary) res \<times> 'w service" where
  "CompareSchemaVersions cv l conn subject from_v to_v registry sv =
     (case given_subject subject of
        Inl e \<Rightarrow> (Inl e, sv)
      | Inr subject \<Rightarrow>
          if from_v \<le> 0 \<or> to_v \<le> 0
          then (Inl (Errf ''fromVersion and toVersion must be positive version numbers'' []), sv)
          else with_backend cv l conn registry (\<lambda>b.
            io_bind (sb_getSchema l b subject from_v) (\<lambda>from_meta.
            io_bind (sb_getSchema l b subject to_v) (\<lambda>to_meta.
              io_ok (subject, mt_version from_meta, mt_version to_meta,
                     schemaTextDiff (mt_schema from_meta) (mt_schema to_meta))))) sv)"

definition GetSchemaCompatibility ::
  "client_env \<Rightarrow> 'w registry_lib \<Rightarrow> string \<Rightarrow> string \<Rightarrow> string \<Rightarrow> 'w service \<Rightarrow> (string \<times> string) res \<times> 'w service" where
  "GetSchemaCompatibility cv l conn subject registry =
     with_backend cv l conn registry (\<lambda>b.
       io_bind (sb_getCompatibility l b (trim_space subject)) (\<lambda>level.
         io_ok (level, compatibilityScope (trim_space subject))))"

record check_request =
  kq_connection :: string
  kq_subject :: string
  kq_format :: string
  kq_schema :: string
  kq_version :: int
  kq_references :: "schema_reference list"
  kq_registry :: string

text \<open>The checks that \<open>check\<close> and \<open>register\<close> share: subject, format and references.\<close>

definition schema_checks ::
  "string \<Rightarrow> string \<Rightarrow> string \<Rightarrow> schema_reference list \<Rightarrow> (string \<times> string \<times> schema_reference list) res" where
  "schema_checks subject format schema refs =
     ebind (given_subject subject) (\<lambda>subject.
     ebind (normalizeKafkaSchemaFormat format) (\<lambda>format.
     if blank schema then Inl (Errf ''schema is required'' [])
     else ebind (normalizeSchemaReferences refs) (\<lambda>refs. Inr (subject, format, refs))))"

definition CheckSchemaCompatibility ::
  "client_env \<Rightarrow> 'w registry_lib \<Rightarrow> check_request \<Rightarrow> 'w service \<Rightarrow> (bool \<times> string list) res \<times> 'w service" where
  "CheckSchemaCompatibility cv l req sv =
     (case schema_checks (kq_subject req) (kq_format req) (kq_schema req) (kq_references req) of
        Inl e \<Rightarrow> (Inl e, sv)
      | Inr (subject, format, refs) \<Rightarrow>
          with_backend cv l (kq_connection req) (kq_registry req) (\<lambda>b.
            sb_checkCompatibility l b subject (kq_version req) format (kq_schema req) refs) sv)"

section \<open>Writing\<close>

record compatibility_request =
  oq_connection :: string
  oq_subject :: string
  oq_level :: string
  oq_registry :: string
  oq_version :: int

definition SetSchemaCompatibility ::
  "client_env \<Rightarrow> 'w registry_lib \<Rightarrow> compatibility_request \<Rightarrow> 'w service \<Rightarrow> (string \<times> string) res \<times> 'w service" where
  "SetSchemaCompatibility cv l req sv =
     (let conn = oq_connection req; subject = trim_space (oq_subject req); action = ''schema-compatibility-set'' in
      case ensureWriteAllowed (profileOf conn sv) ''schema/compatibility/set'' of
        Inl e \<Rightarrow> blocked [] conn action (subjectOrGlobal subject) e sv
      | Inr _ \<Rightarrow>
          recorded [] conn action (subjectOrGlobal subject) (\<lambda>(applied, _). Some (Errf ''level=%s'' [applied]))
            (with_backend cv l conn (oq_registry req) (\<lambda>b.
               io_bind (sb_setCompatibility l b subject (oq_level req) (oq_version req)) (\<lambda>applied.
                 io_ok (applied, compatibilityScope subject))) sv))"

record register_request =
  eq_connection :: string
  eq_subject :: string
  eq_format :: string
  eq_schema :: string
  eq_references :: "schema_reference list"
  eq_registry :: string
  eq_compatibility :: string
  eq_normalize :: bool

definition RegisterSchema ::
  "client_env \<Rightarrow> 'w registry_lib \<Rightarrow> register_request \<Rightarrow> 'w service \<Rightarrow> (int \<times> int \<times> string) res \<times> 'w service" where
  "RegisterSchema cv l req sv =
     (let conn = eq_connection req; action = ''schema-register'' in
      case ensureWriteAllowed (profileOf conn sv) ''schema/register'' of
        Inl e \<Rightarrow> blocked [] conn action (trim_space (eq_subject req)) e sv
      | Inr _ \<Rightarrow>
          (case schema_checks (eq_subject req) (eq_format req) (eq_schema req) (eq_references req) of
             Inl e \<Rightarrow> (Inl e, sv)
           | Inr (subject, format, refs) \<Rightarrow>
               recorded [] conn action subject
                 (\<lambda>(i, version, _). Some (Errf ''id=%d version=%d format=%s'' [format_int i, format_int version, format]))
                 (with_backend cv l conn (eq_registry req) (\<lambda>b.
                    io_bind (sb_registerSchema l b subject format (eq_schema req) refs (eq_compatibility req) (eq_normalize req))
                      (\<lambda>meta. io_ok (mt_id meta, mt_version meta, mt_version_id meta))) sv)))"

record delete_request =
  dq_connection :: string
  dq_subject :: string
  dq_version :: int
  dq_registry :: string

definition DeleteSchema ::
  "client_env \<Rightarrow> 'w registry_lib \<Rightarrow> delete_request \<Rightarrow> 'w service \<Rightarrow> int list res \<times> 'w service" where
  "DeleteSchema cv l req sv =
     (let conn = dq_connection req; subject = trim_space (dq_subject req);
          target = subjectOrVersion subject (dq_version req); action = ''schema-delete'' in
      case ensureDeleteAllowed (profileOf conn sv) ''schema/delete'' of
        Inl e \<Rightarrow> blocked [] conn action target e sv
      | Inr _ \<Rightarrow>
          (case given_subject subject of
             Inl e \<Rightarrow> (Inl e, sv)
           | Inr subject \<Rightarrow>
               recorded [] conn action target
                 (\<lambda>deleted. Some (Errf ''versions=%v'' (map format_int deleted)))
                 (with_backend cv l conn (dq_registry req) (\<lambda>b. sb_deleteSchema l b subject (dq_version req)) sv)))"

end
