(* ===== verification/KafkaWrites.thy ===== *)
theory KafkaWrites
  imports KafkaProduce SchemaService
begin

text \<open>
  All the methods that change a broker or a registry, together: a request is a value of
  \<open>write_request\<close>, and \<open>perform\<close> runs the method it belongs to. The locale states what a guarded
  method promises about the connection it was called for.
\<close>

section \<open>The write requests\<close>

datatype 't write_request =
    WCreateTopics topics_create_request
  | WDeleteTopics topics_delete_request
  | WClearRecords records_clear_request
  | WUpdatePartitions string "(string \<times> int) list"
  | WAlterConfig string string "(string \<times> string) list" "string list"
  | WDeleteGroup string string
  | WResetOffsets "listed list \<Rightarrow> 't list" offset_reset_request
  | WCreateACL string acl_binding
  | WDeleteACLs string acl_filter
  | WSetCompatibility compatibility_request
  | WRegister register_request
  | WDeleteSchema delete_request
  | WProduce produce_request

record ('w, 'n, 'm) write_env =
  we_client :: client_env
  we_admin :: "'w admin_lib"
  we_registry :: "'w registry_lib"
  we_produce :: "('w, 'n, 'm) produce_lib"

text \<open>The connection a request names, and whether it is one that needs \<open>allow_delete\<close>.\<close>

fun write_connection :: "target write_request \<Rightarrow> string" where
  "write_connection (WCreateTopics q) = tq_connection q"
| "write_connection (WDeleteTopics q) = td_connection q"
| "write_connection (WClearRecords q) = rq_connection q"
| "write_connection (WUpdatePartitions c _) = c"
| "write_connection (WAlterConfig c _ _ _) = c"
| "write_connection (WDeleteGroup c _) = c"
| "write_connection (WResetOffsets _ q) = or_connection q"
| "write_connection (WCreateACL c _) = c"
| "write_connection (WDeleteACLs c _) = c"
| "write_connection (WSetCompatibility q) = oq_connection q"
| "write_connection (WRegister q) = eq_connection q"
| "write_connection (WDeleteSchema q) = dq_connection q"
| "write_connection (WProduce q) = pq_connection q"

fun write_deletes :: "target write_request \<Rightarrow> bool" where
  "write_deletes (WDeleteTopics _) = True"
| "write_deletes (WClearRecords _) = True"
| "write_deletes (WDeleteGroup _ _) = True"
| "write_deletes (WDeleteACLs _ _) = True"
| "write_deletes (WDeleteSchema _) = True"
| "write_deletes _ = False"

text \<open>Whether the method returned a result, and the service after it.\<close>

definition outcome :: "'a res \<times> 'w service \<Rightarrow> bool \<times> 'w service" where
  "outcome r = (is_ok (fst r), snd r)"

fun perform :: "('w, 'n, 'm) write_env \<Rightarrow> target write_request \<Rightarrow> 'w service \<Rightarrow> bool \<times> 'w service" where
  "perform en (WCreateTopics q) sv = outcome (CreateTopics (we_client en) (we_admin en) q sv)"
| "perform en (WDeleteTopics q) sv = outcome (DeleteTopics (we_client en) (we_admin en) q sv)"
| "perform en (WClearRecords q) sv = outcome (ClearTopicRecords (we_client en) (we_admin en) q sv)"
| "perform en (WUpdatePartitions c ps) sv = outcome (UpdatePartitions (we_client en) (we_admin en) c ps sv)"
| "perform en (WAlterConfig c t cfg del) sv = outcome (AlterTopicConfig (we_client en) (we_admin en) c t cfg del sv)"
| "perform en (WDeleteGroup c g) sv = outcome (DeleteGroup (we_client en) (we_admin en) c g sv)"
| "perform en (WResetOffsets f q) sv = outcome (ResetGroupOffsets (we_client en) (we_admin en) f q sv)"
| "perform en (WCreateACL c a) sv = outcome (CreateACL (we_client en) (we_admin en) c a sv)"
| "perform en (WDeleteACLs c f) sv = outcome (DeleteACLs (we_client en) (we_admin en) c f sv)"
| "perform en (WSetCompatibility q) sv = outcome (SetSchemaCompatibility (we_client en) (we_registry en) q sv)"
| "perform en (WRegister q) sv = outcome (RegisterSchema (we_client en) (we_registry en) q sv)"
| "perform en (WDeleteSchema q) sv = outcome (DeleteSchema (we_client en) (we_registry en) q sv)"
| "perform en (WProduce q) sv = outcome (Produce (we_client en) (we_produce en) q sv)"

section \<open>What a guarded method promises\<close>

text \<open>
  \<open>run en q sv\<close> performs the request \<open>q\<close>, \<open>conn q\<close> is its connection and \<open>deletes q\<close> whether it
  deletes. The laws: a request its connection does not allow is refused without touching
  anything but the audit log, where at most one record, of a blocked request, is added; and no
  request changes what a connection allows.
\<close>

definition allowed :: "bool \<Rightarrow> profile \<Rightarrow> bool" where
  "allowed deletes p \<longleftrightarrow> \<not> ReadOnly p \<and> (deletes \<longrightarrow> AllowDelete p)"

definition only_blocked :: "'w service \<Rightarrow> 'w service \<Rightarrow> bool" where
  "only_blocked sv sv' \<longleftrightarrow>
     (\<exists>bs. list_all (\<lambda>a. au_result a = ''blocked'') bs \<and> sv' = sv\<lparr>sv_audit := sv_audit sv @ bs\<rparr>)"

lemma only_blocked_refl [intro, simp]: "only_blocked sv sv"
  by (auto simp: only_blocked_def intro: exI [of _ "[]"])

lemma only_blocked_trans: "only_blocked sv sv' \<Longrightarrow> only_blocked sv' sv'' \<Longrightarrow> only_blocked sv sv''"
proof -
  assume "only_blocked sv sv'" "only_blocked sv' sv''"
  then obtain bs cs where "list_all (\<lambda>a. au_result a = ''blocked'') (bs @ cs)"
    "sv'' = sv\<lparr>sv_audit := sv_audit sv @ bs @ cs\<rparr>"
    by (auto simp: only_blocked_def)
  then show ?thesis unfolding only_blocked_def by blast
qed

lemma blocked_only [intro, simp]: "only_blocked sv (snd (blocked s c a t e sv))"
  unfolding only_blocked_def blocked_def emitAuditSource_def
  by (rule exI [of _ "[\<lparr>au_connection = c, au_action = a, au_target = t, au_result = ''blocked'', au_detail = Some e,
        au_source = s\<rparr>]"]) simp

text \<open>The requests one after the other, with what each of them returned.\<close>

fun run_each :: "('q \<Rightarrow> 's \<Rightarrow> bool \<times> 's) \<Rightarrow> 'q list \<Rightarrow> 's \<Rightarrow> bool list \<times> 's" where
  "run_each run [] s = ([], s)"
| "run_each run (q # qs) s =
     (case run q s of (b, s) \<Rightarrow> (case run_each run qs s of (bs, s) \<Rightarrow> (b # bs, s)))"

locale guarded_writes =
  fixes run :: "'e \<Rightarrow> 'q \<Rightarrow> 'w service \<Rightarrow> bool \<times> 'w service"
    and conn :: "'q \<Rightarrow> string"
    and deletes :: "'q \<Rightarrow> bool"
  assumes refused: "\<not> allowed (deletes q) (profileOf (conn q) sv) \<Longrightarrow>
      \<not> fst (run en q sv) \<and> only_blocked sv (snd (run en q sv))"
    and keeps_profile: "profileOf i (snd (run en q sv)) = profileOf i sv"
begin

lemma run_each_profile: "profileOf i (snd (run_each (run en) qs sv)) = profileOf i sv"
proof (induction qs arbitrary: sv)
  case (Cons q qs)
  then show ?case using keeps_profile [of i en q sv] by (simp add: case_prod_beta)
qed simp

lemma run_each_refused:
  "(\<And>q. q \<in> set qs \<Longrightarrow> \<not> allowed (deletes q) (profileOf (conn q) sv)) \<Longrightarrow>
     True \<notin> set (fst (run_each (run en) qs sv)) \<and> only_blocked sv (snd (run_each (run en) qs sv))"
proof (induction qs arbitrary: sv)
  case (Cons q qs)
  let ?sv = "snd (run en q sv)"
  have "\<not> fst (run en q sv) \<and> only_blocked sv ?sv" using refused Cons.prems [of q] by simp
  moreover have "True \<notin> set (fst (run_each (run en) qs ?sv)) \<and> only_blocked ?sv (snd (run_each (run en) qs ?sv))"
    using Cons.prems by (intro Cons.IH) (simp add: keeps_profile)
  ultimately show ?case by (auto simp: case_prod_beta intro: only_blocked_trans)
qed simp

end

section \<open>The methods keep the promise\<close>

lemma write_refused: "\<not> allowed False p \<Longrightarrow> \<exists>f. \<forall>a. ensureWriteAllowed p a = Inl (f a)"
  by (intro exI [of _ "\<lambda>a. projl (ensureWriteAllowed p a)"]) (simp add: allowed_def ensureWriteAllowed_def)

lemma delete_refused: "\<not> allowed True p \<Longrightarrow> \<exists>f. \<forall>a. ensureDeleteAllowed p a = Inl (f a)"
  by (intro exI [of _ "\<lambda>a. projl (ensureDeleteAllowed p a)"]) (auto simp: allowed_def ensureDeleteAllowed_def ensureWriteAllowed_def)

lemma not_ok [simp]: "\<not> is_ok (fst (blocked s c a t e sv))"
  by simp

lemma perform_refused:
  assumes "\<not> allowed (write_deletes q) (profileOf (write_connection q) sv)"
  shows "\<not> fst (perform en q sv) \<and> only_blocked sv (snd (perform en q sv))"
proof (cases "write_deletes q")
  case True
  with assms obtain f where f: "ensureDeleteAllowed (profileOf (write_connection q) sv) a = Inl (f a)" for a
    using delete_refused by metis
  show ?thesis
    using True f
    by (cases q) (simp_all add: outcome_def DeleteTopics_def ClearTopicRecords_def DeleteGroup_def DeleteACLs_def
                    DeleteSchema_def Let_def)
next
  case False
  with assms obtain f where f: "ensureWriteAllowed (profileOf (write_connection q) sv) a = Inl (f a)" for a
    using write_refused by metis
  show ?thesis
    using False f
    by (cases q) (simp_all add: outcome_def CreateTopics_def UpdatePartitions_def AlterTopicConfig_def
                    ResetGroupOffsets_def CreateACL_def SetSchemaCompatibility_def RegisterSchema_def Produce_def Let_def)
qed

lemma with_backend_profile [simp]: "profileOf i (snd (with_backend cv l conn registry m sv)) = profileOf i sv"
  by (simp add: with_backend_def split: sum.splits prod.splits)

lemma produce_send_profile [simp]: "profileOf i (snd (produce_send cv pl req opts sc p k sv)) = profileOf i sv"
  by (simp add: produce_send_def split: sum.splits prod.splits)

lemma outcome_snd [simp]: "snd (outcome r) = snd r"
  by (simp add: outcome_def)

lemma admin_profiles [simp]:
  "profileOf i (snd (CreateTopics cv ad q sv)) = profileOf i sv"
  "profileOf i (snd (DeleteTopics cv ad dt sv)) = profileOf i sv"
  "profileOf i (snd (ClearTopicRecords cv ad rc sv)) = profileOf i sv"
  "profileOf i (snd (UpdatePartitions cv ad c ps sv)) = profileOf i sv"
  "profileOf i (snd (AlterTopicConfig cv ad c t cfg del sv)) = profileOf i sv"
  "profileOf i (snd (DeleteGroup cv ad c g sv)) = profileOf i sv"
  "profileOf i (snd (ResetGroupOffsets cv ad f ro sv)) = profileOf i sv"
  "profileOf i (snd (CreateACL cv ad c a sv)) = profileOf i sv"
  "profileOf i (snd (DeleteACLs cv ad c af sv)) = profileOf i sv"
  unfolding CreateTopics_def DeleteTopics_def ClearTopicRecords_def UpdatePartitions_def AlterTopicConfig_def
    DeleteGroup_def ResetGroupOffsets_def CreateACL_def DeleteACLs_def
  by (simp_all add: withAdmin_profile Let_def split: sum.split)

lemma registry_profiles [simp]:
  "profileOf i (snd (SetSchemaCompatibility cv l sc sv)) = profileOf i sv"
  "profileOf i (snd (RegisterSchema cv l rs sv)) = profileOf i sv"
  "profileOf i (snd (DeleteSchema cv l ds sv)) = profileOf i sv"
  "profileOf i (snd (Produce cv pl pq sv)) = profileOf i sv"
  unfolding SetSchemaCompatibility_def RegisterSchema_def DeleteSchema_def Produce_def
  by (simp_all add: Let_def split: sum.split prod.split)

lemma perform_profile: "profileOf i (snd (perform en q sv)) = profileOf i sv"
  by (cases q) simp_all

interpretation writes: guarded_writes perform write_connection write_deletes
  by unfold_locales (simp_all add: perform_refused perform_profile)

text \<open>
  C8. No sequence of write requests gets around the guard of its connections: if no request of
  the sequence is allowed by the profile of its connection (which is the case for every write
  on a read-only or unknown connection, and for every deletion without \<open>allow_delete\<close>), then
  none returns a result, and the brokers, the registries, the connection table, the pool and
  the streams are untouched: only records of blocked requests are added to the audit log.
\<close>

theorem blocked_writes_change_nothing:
  assumes "\<And>q. q \<in> set qs \<Longrightarrow>
    (let p = profileOf (write_connection q) sv in ReadOnly p \<or> write_deletes q \<and> \<not> AllowDelete p)"
  shows "True \<notin> set (fst (run_each (perform en) qs sv))
    \<and> (\<exists>bs. list_all (\<lambda>a. au_result a = ''blocked'') bs
          \<and> snd (run_each (perform en) qs sv) = sv\<lparr>sv_audit := sv_audit sv @ bs\<rparr>)"
  using writes.run_each_refused [of qs sv en] assms
  by (auto simp: allowed_def Let_def only_blocked_def)

text \<open>A deletion on a connection without \<open>allow_delete\<close>, and a production on an unknown one.\<close>

definition sample_writes :: "target write_request list" where
  "sample_writes = [WDeleteGroup ''c1'' ''g'', WProduce (sample_produce\<lparr>pq_connection := ''c9''\<rparr>)]"

lemma blocked_writes_change_nothing_witness:
  "\<forall>en :: (unit, string, string) write_env. True \<notin> set (fst (run_each (perform en) sample_writes sample_producer))
     \<and> sv_conns (snd (run_each (perform en) sample_writes sample_producer)) = sv_conns sample_producer"
proof (rule allI)
  fix en :: "(unit, string, string) write_env"
  note trim = trim_space_graphic graphic_def
  have "let p = profileOf (write_connection q) sample_producer in ReadOnly p \<or> write_deletes q \<and> \<not> AllowDelete p"
    if "q \<in> set sample_writes" for q
    using that by (auto simp: sample_writes_def sample_produce_def profileOf_def sample_producer_def sample_entry_def
                     NewService_def getEntry_def zero_profile_def trim Let_def)
  from blocked_writes_change_nothing [of sample_writes sample_producer en, OF this]
  show "True \<notin> set (fst (run_each (perform en) sample_writes sample_producer))
     \<and> sv_conns (snd (run_each (perform en) sample_writes sample_producer)) = sv_conns sample_producer"
    by auto
qed

end
