(* ===== verification/McpArgs.thy ===== *)
theory McpArgs
  imports McpUtil KafkaAdmin SchemaCodec
begin

text \<open>
  \<open>backend/internal/mcp/server.go\<close>, lines 147 to 209, 256 to 270 and 1053 to 1209: what the MCP
  tools make of their arguments before they call the service, and the suggestions in their
  error messages. \<open>fmt.Sprintf\<close> with the verb v on a decoded JSON value is \<open>fmt_v\<close>; the shortest
  rendering of a \<open>float64\<close> and \<open>strconv.ParseFloat\<close> are the record \<open>args_lib\<close>.
\<close>

record args_lib =
  al_float_g :: "rat \<Rightarrow> string"                 \<comment> \<open>\<open>strconv.FormatFloat(f, 'g', -1, 64)\<close> as \<open>%v\<close> uses it\<close>
  al_parse_float :: "string \<Rightarrow> go_float option"

text \<open>Maps are printed in the order of their keys.\<close>

fun fmt_v :: "args_lib \<Rightarrow> json \<Rightarrow> string" where
  "fmt_v al JNull = ''<nil>''"
| "fmt_v al (JBool b) = (if b then ''true'' else ''false'')"
| "fmt_v al (JNum q) = al_float_g al q"
| "fmt_v al (JStr s) = s"
| "fmt_v al (JArr vs) = ''['' @ join_with '' '' (map (fmt_v al) vs) @ '']''"
| "fmt_v al (JObj ms) = ''map['' @ join_with '' ''
     (map snd (sort_key fst (map (\<lambda>(k, v). (k, k @ '':'' @ fmt_v al v)) ms))) @ '']''"

definition fmt_arg :: "args_lib \<Rightarrow> json option \<Rightarrow> string" where
  "fmt_arg al raw = fmt_v al (case raw of None \<Rightarrow> JNull | Some j \<Rightarrow> j)"

text \<open>An argument that is absent or null.\<close>

definition absent :: "json option \<Rightarrow> bool" where
  "absent raw \<longleftrightarrow> raw = None \<or> raw = Some JNull"

definition text_arg :: "json_obj \<Rightarrow> string \<Rightarrow> string" where
  "text_arg args key = trim_space (stringField args key)"

section \<open>Tool names\<close>

definition toolNameList :: "string list" where
  "toolNameList =
     [''kafka_ui_search'', ''kafka_ui_focus'', ''kafka_ui_select'', ''kafka_ui_state'', ''kafka_ui_topics'',
      ''kafka_messages_digest'', ''kafka_cursor_next'', ''kafka_messages_produce'', ''kafka_topics_delete'',
      ''kafka_groups_offsets_reset'', ''kafka_topics_records_clear'']"

definition compact :: "string \<Rightarrow> string" where
  "compact s = to_lower (filter (\<lambda>c. c \<notin> {CHR ''-'', CHR ''_'', CHR '' ''}) s)"

definition contains_sub :: "string \<Rightarrow> string \<Rightarrow> bool" where
  "contains_sub s w = sublist w s"

text \<open>The last tool whose name contains the query or is contained in it, the first that equals it.\<close>

fun suggest :: "string \<Rightarrow> string list \<Rightarrow> string \<Rightarrow> string" where
  "suggest query [] suggestion = suggestion"
| "suggest query (tool # tools) suggestion =
     (let candidate = compact tool
      in if candidate = query then tool
         else suggest query tools
           (if length query \<ge> 4 \<and> (contains_sub candidate query \<or> contains_sub query candidate)
            then tool else suggestion))"

definition unknownToolMessage :: "string \<Rightarrow> goerr" where
  "unknownToolMessage name =
     (let suggestion = suggest (compact name) toolNameList [];
          hint = (if suggestion = [] then [] else ''Did you mean '' @ [CHR 0x27] @ suggestion @ [CHR 0x27] @ ''? '')
      in Errf ''unknown tool: %s. %sUse mcp/tools to list the %d available tools''
           [name, hint, format_int (int (length toolNameList))])"

section \<open>Lists and numbers\<close>

text \<open>\<open>coerceInt\<close> of an argument; an absent key is the nil interface.\<close>

definition coerce_arg :: "json option \<Rightarrow> int option" where
  "coerce_arg raw = (case raw of None \<Rightarrow> None | Some j \<Rightarrow> coerceInt j)"

definition non_negative :: "json option \<Rightarrow> int option" where
  "non_negative raw = (case coerce_arg raw of Some n \<Rightarrow> if n < 0 then None else Some n | None \<Rightarrow> None)"

definition locatorOf :: "args_lib \<Rightarrow> json_obj \<Rightarrow> (int \<times> int) res" where
  "locatorOf al args =
     (case missingRequired args [''partition'', ''offset''] of
        Some e \<Rightarrow> Inl e
      | None \<Rightarrow>
          (case non_negative (map_of args ''partition'') of
             None \<Rightarrow> Inl (Errf ''partition must be a non-negative integer (got %v)'' [fmt_arg al (map_of args ''partition'')])
           | Some p \<Rightarrow>
               (case non_negative (map_of args ''offset'') of
                  None \<Rightarrow> Inl (Errf ''offset must be a non-negative integer (got %v)'' [fmt_arg al (map_of args ''offset'')])
                | Some off \<Rightarrow> Inr (p, off))))"

text \<open>The items of an array with their indexes; \<open>int32(number)\<close> wraps.\<close>

fun int_items :: "args_lib \<Rightarrow> int \<Rightarrow> json list \<Rightarrow> int list res" where
  "int_items al i [] = Inr []"
| "int_items al i (item # items) =
     (case non_negative (Some item) of
        None \<Rightarrow> Inl (Errf ''partitions[%d] must be a non-negative integer (got %v)'' [format_int i, fmt_v al item])
      | Some n \<Rightarrow> ebind (int_items al (i + 1) items) (\<lambda>ns. Inr (i32 n # ns)))"

fun int_pieces :: "string list \<Rightarrow> int list res" where
  "int_pieces [] = Inr []"
| "int_pieces (piece # pieces) =
     (case parse_int (trim_space piece) of
        None \<Rightarrow> Inl (Errf ''partitions must be non-negative integers (got %q)'' [piece])
      | Some n \<Rightarrow> if n < 0 then Inl (Errf ''partitions must be non-negative integers (got %q)'' [piece])
                  else ebind (int_pieces pieces) (\<lambda>ns. Inr (i32 n # ns)))"

definition list_separators :: string where
  "list_separators = [CHR '','', CHR '' '', CHR 0x0A, CHR 0x0D, CHR 0x09]"

definition parseIntList :: "args_lib \<Rightarrow> json option \<Rightarrow> int list res" where
  "parseIntList al raw =
     (case raw of
        None \<Rightarrow> Inr []
      | Some JNull \<Rightarrow> Inr []
      | Some (JArr items) \<Rightarrow> int_items al 0 items
      | Some (JStr s) \<Rightarrow> int_pieces (fields_func list_separators s)
      | Some v \<Rightarrow> Inl (Errf ''partitions must be an array of non-negative integers (got %v)'' [fmt_v al v]))"

definition optionalInt64Arg :: "args_lib \<Rightarrow> json_obj \<Rightarrow> string \<Rightarrow> int option res" where
  "optionalInt64Arg al args key =
     (let raw = map_of args key in
      if absent raw then Inr None
      else case coerceInt64 (the raw) of
             None \<Rightarrow> Inl (Errf ''%s must be an integer (got %v)'' [key, fmt_arg al raw])
           | Some v \<Rightarrow> Inr (Some v))"

definition digestScanLimit :: "json_obj \<Rightarrow> int \<Rightarrow> int" where
  "digestScanLimit args fallback =
     (let limit = intArg (map_of args ''maxScanRecords'');
          limit = (if limit \<le> 0 then fallback else limit);
          limit = (if limit \<le> 0 then 1000 else limit)
      in if limit > 100000 then 100000 else limit)"

section \<open>Filters, schemas, offsets\<close>

fun filter_items :: "int \<Rightarrow> json list \<Rightarrow> field_filter list res" where
  "filter_items i [] = Inr []"
| "filter_items i (item # items) =
     (case item of
        JObj ob \<Rightarrow>
          ebind (filter_items (i + 1) items) (\<lambda>fs. Inr
            (\<lparr>ff_source = stringField ob ''source'', ff_path = stringField ob ''path'',
              ff_operator = stringField ob ''operator'', ff_value = stringField ob ''value'',
              ff_enabled = (case map_of ob ''enabled'' of Some (JBool b) \<Rightarrow> Some b | _ \<Rightarrow> None)\<rparr> # fs))
      | _ \<Rightarrow> Inl (Errf ''fieldFilters[%d] must be an object'' [format_int i]))"

definition parseFieldFilters :: "json option \<Rightarrow> field_filter list res" where
  "parseFieldFilters raw = (case raw of Some (JArr items) \<Rightarrow> filter_items 0 items | _ \<Rightarrow> Inr [])"

definition parseSchemaRef :: "args_lib \<Rightarrow> json \<Rightarrow> bool \<Rightarrow> schema_ref res" where
  "parseSchemaRef al raw requireSubject =
     (case raw of
        JObj ob \<Rightarrow>
          (let ref = \<lparr>sf_registry = text_arg ob ''registry'', sf_subject = text_arg ob ''subject'',
                      sf_version = 0, sf_format = text_arg ob ''format''\<rparr>;
               version = map_of ob ''version''
           in if requireSubject \<and> sf_subject ref = [] then Inl (Errf ''schema.subject is required'' [])
              else if absent version then Inr ref
              else case non_negative version of
                     None \<Rightarrow> Inl (Errf ''schema.version must be a non-negative integer (got %v)'' [fmt_arg al version])
                   | Some v \<Rightarrow> Inr (ref\<lparr>sf_version := v\<rparr>))
      | _ \<Rightarrow> Inl (Errf ''schema must be an object ({subject, version?, format?, registry?})'' []))"

text \<open>
  \<open>strconv.ParseInt(text, 10, 32)\<close>: a decimal number within \<open>int32\<close>. The offset is read with
  \<open>ParseFloat\<close> from its printed form; \<open>int64(f)\<close> of a value that is not a number or infinite is
  the least integer on amd64.
\<close>

definition parse_int_32 :: "string \<Rightarrow> int option" where
  "parse_int_32 s = (case parse_int s of Some n \<Rightarrow> if - (2 ^ 31) \<le> n \<and> n < 2 ^ 31 then Some n else None | None \<Rightarrow> None)"

fun go_float_to_int :: "go_float \<Rightarrow> int" where
  "go_float_to_int (Finite q) = float_to_int q"
| "go_float_to_int _ = - (2 ^ 63)"

fun offset_entries :: "args_lib \<Rightarrow> string \<Rightarrow> json_obj \<Rightarrow> (int \<times> int) list res" where
  "offset_entries al topic [] = Inr []"
| "offset_entries al topic ((part, off) # rest) =
     (case al_parse_float al (fmt_v al off) of
        None \<Rightarrow> Inl (Errf ''partitionOffsets[%q][%q] must be a non-negative integer'' [topic, part])
      | Some number \<Rightarrow>
          if float_less number (Finite 0)
          then Inl (Errf ''partitionOffsets[%q][%q] must be a non-negative integer'' [topic, part])
          else
            (case parse_int_32 (trim_space part) of
               None \<Rightarrow> Inl (Errf ''partitionOffsets[%q] partition %q must be a non-negative integer'' [topic, part])
             | Some p \<Rightarrow>
                 if p < 0
                 then Inl (Errf ''partitionOffsets[%q] partition %q must be a non-negative integer'' [topic, part])
                 else ebind (offset_entries al topic rest)
                        (\<lambda>out. Inr (if p \<in> fst ` set out then out else (p, go_float_to_int number) # out))))"

fun topic_entries :: "args_lib \<Rightarrow> json_obj \<Rightarrow> (string \<times> (int \<times> int) list) list res" where
  "topic_entries al [] = Inr []"
| "topic_entries al ((topic, partitions) # rest) =
     (case partitions of
        JObj ms \<Rightarrow>
          ebind (offset_entries al topic ms) (\<lambda>inner.
          ebind (topic_entries al rest) (\<lambda>out. Inr ((topic, inner) # out)))
      | _ \<Rightarrow> Inl (Errf ''partitionOffsets[%q] must be an object'' [topic]))"

text \<open>\<open>None\<close> is the nil map.\<close>

definition parsePartitionOffsets :: "args_lib \<Rightarrow> json option \<Rightarrow> (string \<times> (int \<times> int) list) list option res" where
  "parsePartitionOffsets al raw =
     (case raw of
        Some (JObj ms) \<Rightarrow> if ms = [] then Inr None else ebind (topic_entries al ms) (\<lambda>out. Inr (Some out))
      | _ \<Rightarrow> Inr None)"

section \<open>The check before a preview of a reset\<close>

record reset_args =
  ra_connection :: string
  ra_group :: string
  ra_topics :: "string list"
  ra_reset_to :: string
  ra_timestamp :: int
  ra_offsets :: "(string \<times> (int \<times> int) list) list"

definition validateResetRequest :: "reset_args \<Rightarrow> unit res" where
  "validateResetRequest req =
     (let mode = to_lower (ra_reset_to req) in
      if mode \<in> set [''earliest'', ''latest''] then
        reject_if (ra_topics req = []) (Errf ''topics is required for resetTo=%s (topic name list)'' [ra_reset_to req])
      else if mode = ''timestamp'' then
        ebind (reject_if (ra_topics req = [])
                 (Errf ''topics is required for resetTo=timestamp (topic name list)'' [])) (\<lambda>_.
          reject_if (ra_timestamp req \<le> 0)
            (Errf ''timestampMs is required (unix milliseconds > 0) for resetTo=timestamp'' []))
      else if mode \<in> set [''partitionoffset'', ''partition_offset'', ''partitionoffsets''] then
        reject_if (ra_offsets req = [])
          (Errf ''partitionOffsets is required for resetTo=partitionOffset (topic -> partition -> offset)'' [])
      else Inl (Errf ''resetTo must be earliest, latest, timestamp, or partitionOffset (got %q)'' [ra_reset_to req]))"

end
