(* ===== verification/McpServer.thy ===== *)
theory McpServer
  imports McpArgs McpAggregate McpIntent McpConfirm McpSettings KafkaProduce KafkaRun
begin

text \<open>
  \<open>backend/internal/mcp/server.go\<close>: the state of the MCP server and the tools over it. A value
  of a response map is an \<open>any\<close>, whose constructors are the Go types the tools put there. What
  differs from call to call (the clock, random names, what brokers answer) is the record
  \<open>mcp_env\<close>; what does not (hashing, JSON) is \<open>mcp_lib\<close>. \<open>Call\<close> runs alone on the state, except
  that a call which waits for the front end sees the reports that other requests make
  meanwhile: each turn of its loop carries them.
\<close>

section \<open>Requests, responses, state\<close>

record delete_args =
  xd_connection :: string
  xd_topics :: "string list"
  xd_confirm :: string
  xd_confirms :: "string list"

record clear_args =
  xc_connection :: string
  xc_topic :: string

datatype phase_args = PhaseDelete delete_args | PhaseReset reset_args | PhaseClear clear_args

datatype any =
    AString string
  | AInt int
  | ABool bool
  | AJson json
  | AStrings "string list"
  | AFields "(string \<times> string) list"
  | AMaps "(string \<times> any) list list"
  | ASettings settings
  | AStreams "stream_status list"
  | ACursorRows "cursor_row list"
  | AStats digest_stats
  | ASample "json_obj list"
  | AMutations "mutation_result list"
  | AResetRows "reset_row list"
  | AClearRows "clear_row list"
  | APhase phase_args

type_synonym response = "(string \<times> any) list"

record 'w mcp_server =
  mc_service :: "'w service"
  mc_store :: bool
  mc_saved :: "settings option"
  mc_intents :: intent_store
  mc_cursors :: cursor_store
  mc_confirms :: confirm_store
  mc_settings :: settings
  mc_emitted :: "(string \<times> string \<times> json_obj) list"

text \<open>Operations other requests perform on the intent table while a call waits.\<close>

datatype intent_op =
    OpRegister string string json_obj int
  | OpReport string intent_state json_obj string int
  | OpGet string int
  | OpSnapshot "json_obj option"

record wait_turn =
  wt_others :: "intent_op list"
  wt_get :: int
  wt_check :: int

record ('w, 'n, 'm) mcp_env =
  me_client :: client_env
  me_admin :: "'w admin_lib"
  me_produce :: "('w, 'n, 'm) produce_lib"
  me_consume :: consume_env
  me_targets :: "listed list \<Rightarrow> target list"
  me_now :: int
  me_fresh :: string                     \<comment> \<open>the random name drawn by this call\<close>
  me_turns :: "wait_turn list"

record mcp_lib =
  ml_args :: args_lib
  ml_json :: json_lib
  ml_quote :: "string \<Rightarrow> string"          \<comment> \<open>\<open>strconv.Quote\<close>\<close>
  ml_canonical :: "phase_args \<Rightarrow> string"  \<comment> \<open>\<open>json.Marshal\<close> of the request\<close>
  ml_hash :: "string \<Rightarrow> string"           \<comment> \<open>\<open>HashParams\<close>: SHA-256\<close>
  ml_size :: "response \<Rightarrow> int"            \<comment> \<open>\<open>payloadSize\<close>: the length of the marshalled response\<close>
  ml_rfc3339 :: "int \<Rightarrow> string"
  ml_emitter :: bool

definition NewServer :: "'w service \<Rightarrow> (settings option) res option \<Rightarrow> 'w mcp_server" where
  "NewServer sv st =
     (let settings = LoadSettings st in
      \<lparr>mc_service = sv, mc_store = (st \<noteq> None), mc_saved = None, mc_intents = NewIntentStore 0 0,
       mc_cursors = NewCursorStore (CursorTtlSecs settings * 10 ^ 9) (MaxCursorSessions settings) 0,
       mc_confirms = NewConfirmStore, mc_settings = settings, mc_emitted = []\<rparr>)"

section \<open>Settings\<close>

definition SettingsGet :: "'w mcp_server \<Rightarrow> response" where
  "SettingsGet s = [(''settings'', ASettings (mc_settings s)),
                    (''responseLimitBytes'', AInt (ResponseLimitBytes (mc_settings s)))]"

text \<open>\<open>save\<close> is what writing the settings file gave.\<close>

definition SettingsSet :: "goerr option \<Rightarrow> json_obj option \<Rightarrow> 'w mcp_server \<Rightarrow> response res \<times> 'w mcp_server" where
  "SettingsSet save updates s =
     (case updates of
        None \<Rightarrow> (Inl (Errf ''updates object is required'' []), s)
      | Some updates \<Rightarrow>
          (case applySettingsUpdate (mc_settings s) updates of
             (_, Some e) \<Rightarrow> (Inl e, s)
           | (settings, None) \<Rightarrow>
               (let s = s\<lparr>mc_settings := settings,
                          mc_cursors := cursor_SetCapacity (MaxCursorSessions settings)
                            (cursor_SetTTL (CursorTtlSecs settings * 10 ^ 9) (mc_cursors s)),
                          mc_confirms := confirm_SetTTL (ConfirmTtlSecs settings * 10 ^ 9) (mc_confirms s)\<rparr>
                in case SaveSettings (mc_store s) settings of
                     None \<Rightarrow> (Inr (SettingsGet s), s)
                   | Some saved \<Rightarrow>
                       (case save of
                          Some e \<Rightarrow> (Inl (Wrapf ''persist mcp settings: %w'' [] e), s)
                        | None \<Rightarrow> (Inr (SettingsGet s), s\<lparr>mc_saved := Some saved\<rparr>)))))"

section \<open>Intents\<close>

text \<open>A report with an intent id answers the intent; one without it is the latest snapshot.\<close>

definition ReportUIState :: "int \<Rightarrow> json_obj \<Rightarrow> 'w mcp_server \<Rightarrow> unit res \<times> 'w mcp_server" where
  "ReportUIState now params s =
     (let intentID = text_arg params ''intentId'';
          summary = (case map_of params ''summary'' of Some (JObj m) \<Rightarrow> m | _ \<Rightarrow> []);
          state = text_arg params ''status'' in
      if intentID = [] then (Inr (), s\<lparr>mc_intents := intent_SetSnapshot (Some summary) (mc_intents s)\<rparr>)
      else if state \<noteq> ''applied'' \<and> state \<noteq> ''rejected''
      then (Inl (Errf ''status must be applied or rejected'' []), s)
      else
        (let (it, known) = intent_Report intentID (if state = ''applied'' then IntentApplied else IntentRejected)
                             summary (text_arg params ''reason'') now (mc_intents s)
         in (if known then Inr () else Inl (Errf ''intent %q is unknown or expired'' [intentID]),
             s\<lparr>mc_intents := it\<rparr>)))"

fun intent_op_step :: "intent_store \<Rightarrow> intent_op \<Rightarrow> intent_store" where
  "intent_op_step s (OpRegister i act ps now) = fst (intent_Register i act ps now s)"
| "intent_op_step s (OpReport i st sm reason now) = fst (intent_Report i st sm reason now s)"
| "intent_op_step s (OpGet i now) = fst (intent_Get i now s)"
| "intent_op_step s (OpSnapshot sn) = intent_SetSnapshot sn s"

fun state_text :: "intent_state \<Rightarrow> string" where
  "state_text IntentPending = ''pending''"
| "state_text IntentApplied = ''applied''"
| "state_text IntentRejected = ''rejected''"
| "state_text (IntentOther t) = t"

text \<open>\<open>Register\<close> leaves the summary nil, a report sets one that is not nil.\<close>

definition intent_response :: "string \<Rightarrow> intent \<Rightarrow> response" where
  "intent_response i e =
     [(''intentId'', AString i), (''state'', AString (state_text (in_state e)))]
     @ (if in_state e = IntentPending then [] else [(''summary'', AJson (JObj (in_summary e)))])
     @ (if in_reason e = [] then [] else [(''reason'', AString (in_reason e))])"

definition expired_response :: "string \<Rightarrow> response" where
  "expired_response i = [(''intentId'', AString i), (''state'', AString ''expired'')]"

definition pending_response :: "string \<Rightarrow> response" where
  "pending_response i =
     [(''intentId'', AString i), (''state'', AString ''pending''),
      (''hint'', AString ''workbench not open or frontend did not respond; fall back to kafka_messages_digest (re-check later with kafka_ui_state)'')]"

text \<open>
  \<open>waitIntent\<close>: after each sleep the intent is read, and the deadline is checked. \<open>None\<close>: the
  turns given end before the loop does.
\<close>

fun waitIntent :: "string \<Rightarrow> int \<Rightarrow> wait_turn list \<Rightarrow> intent_store \<Rightarrow> (response \<times> intent_store) option" where
  "waitIntent i deadline [] s = None"
| "waitIntent i deadline (t # ts) s =
     (case intent_Get i (wt_get t) (foldl intent_op_step s (wt_others t)) of
        (s, _, LookupExpired) \<Rightarrow> Some (expired_response i, s)
      | (s, Some e, LookupFound) \<Rightarrow>
          if in_state e \<noteq> IntentPending then Some (intent_response i e, s)
          else if \<not> wt_check t < deadline then Some (pending_response i, s)
          else waitIntent i deadline ts s
      | (s, _, _) \<Rightarrow>
          if \<not> wt_check t < deadline then Some (pending_response i, s) else waitIntent i deadline ts s)"

section \<open>The tools for the user interface\<close>

definition runIntent ::
  "('w, 'n, 'm) mcp_env \<Rightarrow> mcp_lib \<Rightarrow> string \<Rightarrow> json_obj \<Rightarrow> 'w mcp_server \<Rightarrow> response res \<times> 'w mcp_server" where
  "runIntent en ml action params s =
     (let i = ''i-'' @ me_fresh en;
          it = fst (intent_Register i action params (me_now en) (mc_intents s));
          s = s\<lparr>mc_intents := it,
                mc_emitted := (if ml_emitter ml then mc_emitted s @ [(i, action, params)] else mc_emitted s)\<rparr>
      in case waitIntent i (me_now en + ReportWaitMs (mc_settings s) * 10 ^ 6) (me_turns en) it of
           None \<Rightarrow> (Inl (Ext ''still waiting''), s)
         | Some (out, it) \<Rightarrow> (Inr out, s\<lparr>mc_intents := it\<rparr>))"

definition uiSearch ::
  "('w, 'n, 'm) mcp_env \<Rightarrow> mcp_lib \<Rightarrow> json_obj \<Rightarrow> 'w mcp_server \<Rightarrow> response res \<times> 'w mcp_server" where
  "uiSearch en ml args s =
     (case missingRequired args [''topic''] of
        Some e \<Rightarrow> (Inl e, s)
      | None \<Rightarrow>
          (let topic = text_arg args ''topic''; raw = map_of args ''partitions'' in
           if topic = [] then (Inl (Errf ''topic is required'' []), s)
           else case parseIntList (ml_args ml) raw of
             Inl e \<Rightarrow> (Inl e, s)
           | Inr partitions \<Rightarrow>
               runIntent en ml ''search''
                 [(''topic'', JStr topic),
                  (''connectionId'', JStr (text_arg args ''connectionId'')),
                  (''offsetStrategy'', JStr (to_lower (text_arg args ''offsetStrategy''))),
                  (''limit'', case map_of args ''limit'' of None \<Rightarrow> JNull | Some j \<Rightarrow> j),
                  (''filter'', JStr (text_arg args ''filter'')),
                  (''keyFilter'', JStr (text_arg args ''keyFilter'')),
                  (''valueFilter'', JStr (text_arg args ''valueFilter'')),
                  (''headerFilter'', JStr (text_arg args ''headerFilter'')),
                  (''matchMode'', JStr (to_lower (text_arg args ''matchMode''))),
                  (''groupId'', JStr (text_arg args ''groupId'')),
                  (''partitions'', if absent raw then JNull else JArr (map jint partitions)),
                  (''offsetTime'', JStr (text_arg args ''offsetTime''))] s))"

definition uiFocus ::
  "('w, 'n, 'm) mcp_env \<Rightarrow> mcp_lib \<Rightarrow> json_obj \<Rightarrow> 'w mcp_server \<Rightarrow> response res \<times> 'w mcp_server" where
  "uiFocus en ml args s =
     (let panel = to_lower (text_arg args ''panel'') in
      if panel = [] then (Inl (Errf ''panel is required (messages | topics | groups | schemas)'' []), s)
      else if panel \<notin> set [''messages'', ''topics'', ''groups'', ''schemas'']
      then (Inl (Errf ''panel must be one of messages | topics | groups | schemas (got %q)'' [panel]), s)
      else runIntent en ml ''focus''
             [(''panel'', JStr panel), (''connectionId'', JStr (text_arg args ''connectionId''))] s)"

definition uiSelect ::
  "('w, 'n, 'm) mcp_env \<Rightarrow> mcp_lib \<Rightarrow> json_obj \<Rightarrow> 'w mcp_server \<Rightarrow> response res \<times> 'w mcp_server" where
  "uiSelect en ml args s =
     (case locatorOf (ml_args ml) args of
        Inl e \<Rightarrow> (Inl e, s)
      | Inr (part, off) \<Rightarrow>
          runIntent en ml ''select''
            [(''topic'', JStr (text_arg args ''topic'')), (''partition'', jint part), (''offset'', jint off),
             (''connectionId'', JStr (text_arg args ''connectionId''))] s)"

definition uiState ::
  "('w, 'n, 'm) mcp_env \<Rightarrow> json_obj \<Rightarrow> 'w mcp_server \<Rightarrow> response res \<times> 'w mcp_server" where
  "uiState en args s =
     (let i = text_arg args ''intentId''; conn = text_arg args ''connectionId'' in
      if i = [] then
        (Inr ((''snapshot'', AJson (case intent_Snapshot (mc_intents s) of None \<Rightarrow> JNull | Some m \<Rightarrow> JObj m))
              # (if conn = [] then [] else [(''streams'', AStreams (StatusesFor conn (sv_streams (mc_service s))))])), s)
      else
        (case intent_Get i (me_now en) (mc_intents s) of
           (it, Some e, LookupFound) \<Rightarrow> (Inr (intent_response i e), s\<lparr>mc_intents := it\<rparr>)
         | (it, _, LookupExpired) \<Rightarrow> (Inr (expired_response i), s\<lparr>mc_intents := it\<rparr>)
         | (it, _, _) \<Rightarrow> (Inl (Errf ''unknown intentId: %s'' [i]), s\<lparr>mc_intents := it\<rparr>)))"

definition uiTopicsLimit :: int where
  "uiTopicsLimit = 50"

definition uiTopics ::
  "('w, 'n, 'm) mcp_env \<Rightarrow> json_obj \<Rightarrow> 'w mcp_server \<Rightarrow> response res \<times> 'w mcp_server" where
  "uiTopics en args s =
     (case missingRequired args [''connectionId''] of
        Some e \<Rightarrow> (Inl e, s)
      | None \<Rightarrow>
          (let conn = text_arg args ''connectionId'' in
           if conn = [] then (Inl (Errf ''connectionId is required'' []), s)
           else case ListTopics (me_client en) (me_admin en) conn False (mc_service s) of
             (Inl e, sv) \<Rightarrow> (Inl e, s\<lparr>mc_service := sv\<rparr>)
           | (Inr topics, sv) \<Rightarrow>
               (let names = sort (map ti_name topics); kept = clampStrings names uiTopicsLimit in
                (Inr [(''topics'', AStrings kept), (''count'', AInt (int (length kept))),
                      (''truncated'', ABool (int (length names) > uiTopicsLimit)), (''limit'', AInt uiTopicsLimit)],
                 s\<lparr>mc_service := sv\<rparr>))))"

section \<open>Digest and cursor\<close>

text \<open>\<open>err.Error()\<close>: the verbs take the arguments in order, the wrapped error is the last one.\<close>

fun render :: "mcp_lib \<Rightarrow> string \<Rightarrow> string list \<Rightarrow> string" where
  "render ml [] xs = []"
| "render ml [c] xs = [c]"
| "render ml (c # v # f) xs =
     (if c \<noteq> CHR ''%'' then c # render ml (v # f) xs
      else case xs of
             [] \<Rightarrow> c # v # render ml f []
           | x # xs \<Rightarrow> (if v = CHR ''q'' then ml_quote ml x else x) @ render ml f xs)"

fun error_text :: "mcp_lib \<Rightarrow> goerr \<Rightarrow> string" where
  "error_text ml (Errf f xs) = render ml f xs"
| "error_text ml (InvalidParams f xs) = render ml f xs"
| "error_text ml (Wrapf f xs e) = render ml f (xs @ [error_text ml e])"
| "error_text ml (Ext t) = t"

definition topicNotFoundish :: "string \<Rightarrow> bool" where
  "topicNotFoundish message =
     list_ex (contains_sub (to_lower message))
       [''unknown topic'', ''unknown_topic'', ''topic not found'', ''not found'', ''does not host'', ''does not exist'']"

text \<open>The dash of the messages, in UTF-8.\<close>

definition dash :: string where
  "dash = [CHR 0xE2, CHR 0x80, CHR 0x94]"

definition annotateClusterError :: "mcp_lib \<Rightarrow> goerr \<Rightarrow> goerr" where
  "annotateClusterError ml e =
     (if topicNotFoundish (error_text ml e)
      then Wrapf (''%w; verify the topic name '' @ dash @ '' kafka_ui_topics lists valid topic names (workbench mode; standalone stdio has no topic listing, use a topic name from the user or cluster docs)'') [] e
      else if contains_sub (to_lower (error_text ml e)) ''is not connected''
      then Wrapf ''%w; verify the connectionId (or pass inline connection parameters in standalone stdio mode)'' [] e
      else e)"

text \<open>The failures to decode among the messages; a note when no requested path had a value.\<close>

definition digestNotes :: "consumed_message list \<Rightarrow> digest_result \<Rightarrow> (int \<times> goerr) option" where
  "digestNotes messages aggregated =
     (let failures = int (length (filter (\<lambda>m. m_decode_error m \<noteq> []) messages)) in
      if failures = 0 then None
      else Some (failures, Errf ''%d of %d matched messages failed decode; sample rows carry per-message decodeError (verify schema.subject/version when a schema is mounted)''
             [format_int failures, format_int (dr_matched aggregated)]))"

definition fieldsNoteOf :: "digest_result \<Rightarrow> string list \<Rightarrow> string" where
  "fieldsNoteOf aggregated paths =
     (if paths = [] \<or> dr_matched aggregated = 0 then []
      else if list_ex (\<lambda>f. fs_value_count f > 0) (ds_fields (dr_stats aggregated)) then []
      else ''projected fields matched 0 values across all matched messages; verify the JSON paths and that payloads are JSON (field projection skips non-JSON payloads)'')"

text \<open>The bounds of a digest, read in this order.\<close>

definition digest_bounds :: "args_lib \<Rightarrow> json_obj \<Rightarrow> consume_params \<Rightarrow> consume_params res" where
  "digest_bounds al args p =
     ebind (optionalInt64Arg al args ''timestampFrom'') (\<lambda>tf.
     ebind (optionalInt64Arg al args ''timestampTo'') (\<lambda>tt.
     ebind (optionalInt64Arg al args ''offsetFrom'') (\<lambda>f.
     ebind (optionalInt64Arg al args ''offsetTo'') (\<lambda>t.
       Inr (p\<lparr>cp_timestamp_from := tf, cp_timestamp_to := tt, cp_offset_from := f, cp_offset_to := t\<rparr>)))))"

text \<open>The parameters of the consumption behind a digest.\<close>

definition digest_params :: "args_lib \<Rightarrow> settings \<Rightarrow> json_obj \<Rightarrow> string \<Rightarrow> string \<Rightarrow> consume_params res" where
  "digest_params al settings args conn topic =
     (let strategy = text_arg args ''offsetStrategy'';
          scan = digestScanLimit args (DigestScanLimit settings);
          p = (base_params conn topic)\<lparr>
                cp_offset_strategy := (if strategy = [] then ''earliest'' else strategy),
                cp_max_scan := scan,
                cp_filter := text_arg args ''filter'', cp_key_filter := text_arg args ''keyFilter'',
                cp_value_filter := text_arg args ''valueFilter'', cp_header_filter := text_arg args ''headerFilter'',
                cp_match_mode := text_arg args ''matchMode'', cp_isolation := text_arg args ''isolationLevel'',
                cp_decode := text_arg args ''decode'', cp_decompression := text_arg args ''decompression''\<rparr>
      in
      ebind (parseIntList al (map_of args ''partitions'')) (\<lambda>partitions.
      ebind (digest_bounds al args
               (p\<lparr>cp_partitions := partitions, cp_group := text_arg args ''groupId'',
                  cp_offset_time := text_arg args ''offsetTime''\<rparr>)) (\<lambda>p.
      ebind (parseFieldFilters (map_of args ''fieldFilters'')) (\<lambda>filters.
      ebind (if absent (map_of args ''schema'') then Inr None
             else ebind (parseSchemaRef al (the (map_of args ''schema'')) False)
                    (\<lambda>r. Inr (Some (sf_registry r, sf_subject r)))) (\<lambda>schema.
        Inr (p\<lparr>cp_field_filters := filters, cp_schema := schema, cp_limit := scan\<rparr>))))))"

definition digest_payload ::
  "mcp_lib \<Rightarrow> settings \<Rightarrow> string list \<Rightarrow> string \<Rightarrow> string \<Rightarrow> string \<Rightarrow> consume_result \<Rightarrow> digest_result \<Rightarrow> cursor_session
     \<Rightarrow> response" where
  "digest_payload ml settings paths conn topic format result aggregated session =
     [(''connectionId'', AString conn), (''topic'', AString topic), (''matched'', AInt (dr_matched aggregated)),
      (''scanned'', AInt (rs_scanned result)), (''scanTruncated'', ABool (rs_has_more result)),
      (''cursorId'', AString (cs_id session)), (''cursorTruncated'', ABool (cs_truncated session))]
     @ (if format = ''rows'' then
          (let rowLimit = min (DigestRowLimit settings) (int (length (dr_rows aggregated)))
           in [(''rows'', ACursorRows (take (nat rowLimit) (dr_rows aggregated)))])
        else
          (case digestNotes (rs_messages result) aggregated of
             None \<Rightarrow> []
           | Some (n, note) \<Rightarrow> [(''decodeFailures'', AInt n), (''decodeNote'', AString (error_text ml note))])
          @ (let note = fieldsNoteOf aggregated paths in if note = [] then [] else [(''fieldsNote'', AString note)])
          @ [(''stats'', AStats (dr_stats aggregated)), (''sample'', ASample (dr_sample aggregated))])"

definition unknown_topic :: "string \<Rightarrow> goerr" where
  "unknown_topic topic = Errf (''topic %q does not exist on this connection; verify the name '' @ dash
     @ '' kafka_ui_topics lists valid topic names (workbench mode; standalone stdio has no topic listing, use a topic name from the user or cluster docs)'')
     [topic]"

text \<open>An empty scan is followed by a look at the topic.\<close>

definition scanned_topic ::
  "('w, 'n, 'm) mcp_env \<Rightarrow> mcp_lib \<Rightarrow> string \<Rightarrow> string \<Rightarrow> consume_result \<Rightarrow> 'w service \<Rightarrow> bool \<times> 'w service" where
  "scanned_topic en ml conn topic result sv =
     (if rs_scanned result \<noteq> 0 then (True, sv)
      else case DescribeTopic (me_client en) (me_admin en) conn topic sv of
             (Inl e, sv) \<Rightarrow> (\<not> topicNotFoundish (error_text ml e), sv)
           | (Inr _, sv) \<Rightarrow> (True, sv))"

definition digest_format :: "json_obj \<Rightarrow> string" where
  "digest_format args = (let f = to_lower (text_arg args ''format'') in if f = [] then ''digest'' else f)"

definition messagesDigest ::
  "('w, 'n, 'm) mcp_env \<Rightarrow> mcp_lib \<Rightarrow> json_obj \<Rightarrow> 'w mcp_server \<Rightarrow> response res \<times> 'w mcp_server" where
  "messagesDigest en ml args s =
     (let conn = text_arg args ''connectionId''; topic = text_arg args ''topic''; settings = mc_settings s;
          format = digest_format args; paths = stringSlice (map_of args ''fields'') in
      case missingRequired args [''connectionId'', ''topic''] of
        Some e \<Rightarrow> (Inl e, s)
      | None \<Rightarrow>
          if conn = [] then (Inl (Errf ''connectionId is required'' []), s)
          else if topic = [] then (Inl (Errf ''topic is required'' []), s)
          else if format \<noteq> ''digest'' \<and> format \<noteq> ''rows''
          then (Inl (Errf ''format must be \"digest\" or \"rows\" (got %q)'' [stringField args ''format'']), s)
          else
          (case digest_params (ml_args ml) settings args conn topic of
             Inl e \<Rightarrow> (Inl e, s)
           | Inr p \<Rightarrow>
               (case consumeMessages (me_consume en) p (sv_pool (mc_service s)) of
                  (Inl e, pool) \<Rightarrow>
                    (Inl (annotateClusterError ml e), s\<lparr>mc_service := (mc_service s)\<lparr>sv_pool := pool\<rparr>\<rparr>)
                | (Inr result, pool) \<Rightarrow>
                    (let (exists, sv) = scanned_topic en ml conn topic result ((mc_service s)\<lparr>sv_pool := pool\<rparr>);
                         s = s\<lparr>mc_service := sv\<rparr> in
                     if \<not> exists then (Inl (unknown_topic topic), s)
                     else
                       (let aggregated = AggregateDigest (ml_json ml)
                              \<lparr>di_messages = rs_messages result, di_topic = topic, di_fields = paths,
                               di_width = CellWidth settings, di_group_limit = DigestGroupLimit settings,
                               di_top_n = DigestTopN settings, di_sample_rows = DigestSampleRows settings\<rparr>;
                            (cursors, session) = cursor_Put (dr_rows aggregated) topic (me_now en) (me_fresh en)
                              (mc_cursors s)
                        in (Inr (digest_payload ml settings paths conn topic format result aggregated session),
                            s\<lparr>mc_cursors := cursors\<rparr>))))))"

definition cursor_row_map :: "cursor_row \<Rightarrow> response" where
  "cursor_row_map row =
     [(''topic'', AString (cr_topic row)), (''partition'', AInt (cr_partition row)), (''offset'', AInt (cr_offset row))]
     @ (if cr_key row = [] then [] else [(''key'', AString (cr_key row))])
     @ (case cr_fields row of None \<Rightarrow> [] | Some fs \<Rightarrow> [(''fields'', AFields fs)])"

definition batch_arg :: "args_lib \<Rightarrow> json_obj \<Rightarrow> int res" where
  "batch_arg al args =
     (let raw = map_of args ''n'' in
      if absent raw then Inr 0
      else case coerce_arg raw of
             None \<Rightarrow> Inl (Errf ''n must be a positive integer (got %v)'' [fmt_arg al raw])
           | Some n \<Rightarrow> if n \<le> 0 then Inl (Errf ''n must be a positive integer (got %v)'' [fmt_arg al raw]) else Inr n)"

definition cursorNext ::
  "('w, 'n, 'm) mcp_env \<Rightarrow> mcp_lib \<Rightarrow> json_obj \<Rightarrow> 'w mcp_server \<Rightarrow> response res \<times> 'w mcp_server" where
  "cursorNext en ml args s =
     (let i = text_arg args ''cursorId''; ttl = format_int (CursorTtlSecs (mc_settings s)) in
      case missingRequired args [''cursorId''] of
        Some e \<Rightarrow> (Inl e, s)
      | None \<Rightarrow>
          if i = [] then (Inl (Errf ''cursorId is required'' []), s)
          else (case batch_arg (ml_args ml) args of
            Inl e \<Rightarrow> (Inl e, s)
          | Inr n \<Rightarrow>
              (case cursor_Next i \<lparr>nr_n = n, nr_offset = offsetArg args\<rparr> (me_now en) (mc_cursors s) of
                 (cu, Some result, LookupFound) \<Rightarrow>
                   (Inr [(''rows'', AMaps (map cursor_row_map (nx_rows result))), (''offset'', AInt (nx_offset result)),
                         (''nextOffset'', AInt (nx_next result)), (''done'', ABool (nx_done result))],
                    s\<lparr>mc_cursors := cu\<rparr>)
               | (cu, _, LookupExpired) \<Rightarrow>
                   (Inl (Errf ''cursor expired (TTL %ds); re-run kafka_messages_digest'' [ttl]), s\<lparr>mc_cursors := cu\<rparr>)
               | (cu, _, _) \<Rightarrow>
                   (Inl (Errf (''unknown cursorId: %s '' @ dash @ '' the cursor may have expired (TTL %ds) or been evicted (at most %d digest sessions are kept); re-run kafka_messages_digest'')
                      [i, ttl, format_int (MaxCursorSessions (mc_settings s))]), s\<lparr>mc_cursors := cu\<rparr>))))"

section \<open>The guards of the tools\<close>

definition mcp_ensureWritable :: "string \<Rightarrow> 'w service \<Rightarrow> unit res" where
  "mcp_ensureWritable conn sv =
     reject_if (fst (PolicyOf conn sv))
       (Errf (''connection %q is read-only; write tools are refused '' @ dash @ '' standalone stdio inline connections open read-only by default: re-call with \"readOnly\": false on the inline connection (for a saved connection, change the setting in the DBX workbench)'')
          [conn])"

definition mcp_ensureDeleteAllowed :: "string \<Rightarrow> string \<Rightarrow> 'w service \<Rightarrow> unit res" where
  "mcp_ensureDeleteAllowed conn action sv =
     (let (readOnly, allowDelete) = PolicyOf conn sv in
      if readOnly then
        Inl (Errf (''connection %q is read-only; %s is refused '' @ dash @ '' re-call with \"readOnly\": false (and \"allowDelete\": true for delete-class tools) on the inline connection'')
          [conn, action])
      else if \<not> allowDelete then
        Inl (Errf (''connection %q does not allow delete operations (allow_delete=false); %s is refused '' @ dash @ '' re-call with \"allowDelete\": true on the inline connection'')
          [conn, action])
      else Inr ())"

section \<open>Production\<close>

definition mcpProduceMaxBytes :: int where "mcpProduceMaxBytes = 64 * 1024"
definition mcpHeaderKeyMaxBytes :: int where "mcpHeaderKeyMaxBytes = 1024"
definition mcpHeaderMaxCount :: int where "mcpHeaderMaxCount = 64"

fun header_entries :: "args_lib \<Rightarrow> json_obj \<Rightarrow> (string \<times> string) list res" where
  "header_entries al [] = Inr []"
| "header_entries al ((name, raw) # rest) =
     (if name = [] then Inl (Errf ''headers key cannot be empty (every header needs a non-empty name)'' [])
      else if int (length name) > mcpHeaderKeyMaxBytes
      then Inl (Errf ''header name exceeds %d bytes (got %d bytes)''
                  [format_int mcpHeaderKeyMaxBytes, format_int (int (length name))])
      else (case raw of
              JArr _ \<Rightarrow> Inl (Errf ''headers[%q] must be a scalar value (string/number/boolean, got %v)'' [name, fmt_v al raw])
            | JObj _ \<Rightarrow> Inl (Errf ''headers[%q] must be a scalar value (string/number/boolean, got %v)'' [name, fmt_v al raw])
            | _ \<Rightarrow> ebind (header_entries al rest) (\<lambda>hs. Inr ((name, fmt_v al raw) # hs))))"

definition produce_headers :: "args_lib \<Rightarrow> json option \<Rightarrow> (string \<times> string) list res" where
  "produce_headers al raw =
     (if absent raw then Inr []
      else case the raw of
             JObj ms \<Rightarrow>
               if int (length ms) > mcpHeaderMaxCount
               then Inl (Errf ''too many headers (%d > %d); use the workbench for header-heavy messages''
                           [format_int (int (length ms)), format_int mcpHeaderMaxCount])
               else header_entries al ms
           | v \<Rightarrow> Inl (Errf ''headers must be an object (header name -> scalar value, got %v)'' [fmt_v al v]))"

text \<open>The request for the service; \<open>int32(partitionValue)\<close> wraps.\<close>

definition produce_request_of :: "args_lib \<Rightarrow> json_obj \<Rightarrow> string \<Rightarrow> string \<Rightarrow> produce_request res" where
  "produce_request_of al args conn topic =
     (let raw = map_of args ''partition''; schema = map_of args ''schema'';
          size = int (length (stringField args ''value'') + length (stringField args ''valueBase64'')) in
      ebind (produce_headers al (map_of args ''headers'')) (\<lambda>headers.
      ebind (if absent raw then Inr None
             else case non_negative raw of
                    None \<Rightarrow> Inl (Errf ''partition must be a non-negative integer (got %v)'' [fmt_arg al raw])
                  | Some n \<Rightarrow> Inr (Some (i32 n))) (\<lambda>part.
      ebind (if absent schema then Inr None
             else ebind (parseSchemaRef al (the schema) True) (\<lambda>r. Inr (Some r))) (\<lambda>ref.
      ebind (reject_if (size > mcpProduceMaxBytes)
               (Errf ''value exceeds the MCP produce budget (%d > %d bytes); use the workbench for large payloads''
                  [format_int size, format_int mcpProduceMaxBytes])) (\<lambda>_.
        Inr \<lparr>pq_connection = conn, pq_topic = topic, pq_key = stringField args ''key'',
             pq_value = stringField args ''value'', pq_headers = headers, pq_partition = part, pq_count = 0,
             pq_compression = stringField args ''compression'', pq_key_base64 = stringField args ''keyBase64'',
             pq_value_base64 = stringField args ''valueBase64'', pq_schema = ref, pq_acks = [],
             pq_idempotence = None, pq_source = ''mcp''\<rparr>)))))"

definition messagesProduce ::
  "('w, 'n, 'm) mcp_env \<Rightarrow> mcp_lib \<Rightarrow> json_obj \<Rightarrow> 'w mcp_server \<Rightarrow> response res \<times> 'w mcp_server" where
  "messagesProduce en ml args s =
     (let conn = text_arg args ''connectionId''; topic = text_arg args ''topic'' in
      case missingRequired args [''connectionId'', ''topic''] of
        Some e \<Rightarrow> (Inl e, s)
      | None \<Rightarrow>
          if conn = [] then (Inl (Errf ''connectionId is required'' []), s)
          else if topic = [] then (Inl (Errf ''topic is required'' []), s)
          else (case mcp_ensureWritable conn (mc_service s) of
            Inl e \<Rightarrow> (Inl e, s)
          | Inr _ \<Rightarrow>
              (case produce_request_of (ml_args ml) args conn topic of
                 Inl e \<Rightarrow> (Inl e, s)
               | Inr req \<Rightarrow>
                   (case Produce (me_client en) (me_produce en) req (mc_service s) of
                      (Inl e, sv) \<Rightarrow> (Inl (annotateClusterError ml e), s\<lparr>mc_service := sv\<rparr>)
                    | (Inr (r, _), sv) \<Rightarrow>
                        (Inr [(''success'', ABool True), (''topic'', AString (r_topic r)),
                              (''partition'', AInt (r_partition r)), (''offset'', AInt (r_offset r)),
                              (''timestamp'', AInt (r_millis r))], s\<lparr>mc_service := sv\<rparr>)))))"

section \<open>Two-phase writes\<close>

text \<open>
  \<open>twoPhase\<close>: without a token a preview with a fresh one; with a token, which is spent by the
  attempt, the execution if the parameters hash as they did.
\<close>

definition twoPhase ::
  "('w, 'n, 'm) mcp_env \<Rightarrow> mcp_lib \<Rightarrow> phase_args \<Rightarrow> json_obj \<Rightarrow> ('w service \<Rightarrow> response res \<times> 'w service)
     \<Rightarrow> 'w mcp_server \<Rightarrow> response res \<times> 'w mcp_server" where
  "twoPhase en ml req args execute s =
     (let h = ml_hash ml (ml_canonical ml req); token = text_arg args ''confirmToken'' in
      if token = [] then
        (let (confirms, issued, expiresAt) = confirm_Issue h (me_now en) (me_fresh en) (mc_confirms s)
         in (Inr [(''preview'', APhase req), (''confirmToken'', AString issued),
                  (''expiresAt'', AString (ml_rfc3339 ml expiresAt)),
                  (''note'', AString ''nothing written yet; repeat the same arguments with confirmToken to execute'')],
             s\<lparr>mc_confirms := confirms\<rparr>))
      else
        (let (confirms, outcome) = confirm_Consume token h (me_now en) (mc_confirms s);
             s = s\<lparr>mc_confirms := confirms\<rparr> in
         case outcome of
           ConfirmOK \<Rightarrow> (let (r, sv) = execute (mc_service s) in (r, s\<lparr>mc_service := sv\<rparr>))
         | ConfirmExpired \<Rightarrow>
             (Inl (Errf ''confirmToken expired (TTL %ds); request a new preview''
                [format_int (co_ttl confirms div 10 ^ 9)]), s)
         | ConfirmHashMismatch \<Rightarrow>
             (Inl (Errf ''arguments changed since the preview; request a new confirmToken'' []), s)
         | ConfirmUnknown \<Rightarrow>
             (Inl (Errf ''confirmToken unknown or already used; request a new preview'' []), s)))"

text \<open>What a deletion, a reset and a clearing check before the first phase.\<close>

definition delete_plan :: "json_obj \<Rightarrow> 'w service \<Rightarrow> delete_args res" where
  "delete_plan args sv =
     (let conn = text_arg args ''connectionId''; topics = stringSlice (map_of args ''topics'') in
      case missingRequired args [''connectionId'', ''topics''] of
        Some e \<Rightarrow> Inl e
      | None \<Rightarrow>
          ebind (reject_if (conn = []) (Errf ''connectionId is required'' [])) (\<lambda>_.
          ebind (reject_if (topics = []) (Errf ''topics is required'' [])) (\<lambda>_.
          ebind (mcp_ensureDeleteAllowed conn ''topics/delete'' sv) (\<lambda>_.
            Inr \<lparr>xd_connection = conn, xd_topics = topics,
                 xd_confirm = (if length topics = 1 then hd topics else []),
                 xd_confirms = (if length topics = 1 then [] else topics)\<rparr>))))"

definition reset_plan :: "args_lib \<Rightarrow> json_obj \<Rightarrow> 'w service \<Rightarrow> reset_args res" where
  "reset_plan al args sv =
     (let conn = text_arg args ''connectionId''; gid = text_arg args ''group'';
          resetTo = text_arg args ''resetTo''; ts = map_of args ''timestampMs'' in
      case missingRequired args [''connectionId'', ''group'', ''resetTo''] of
        Some e \<Rightarrow> Inl e
      | None \<Rightarrow>
          ebind (reject_if (conn = []) (Errf ''connectionId is required'' [])) (\<lambda>_.
          ebind (reject_if (gid = []) (Errf ''group is required'' [])) (\<lambda>_.
          ebind (mcp_ensureWritable conn sv) (\<lambda>_.
          ebind (if absent ts then Inr 0
                 else case coerceInt64 (the ts) of
                        None \<Rightarrow> Inl (Errf ''timestampMs must be an integer (unix milliseconds, got %v)'' [fmt_arg al ts])
                      | Some v \<Rightarrow> Inr v) (\<lambda>timestamp.
          ebind (reject_if (resetTo = [])
                   (Errf ''resetTo is required (earliest | latest | timestamp | partitionOffset)'' [])) (\<lambda>_.
          ebind (parsePartitionOffsets al (map_of args ''partitionOffsets'')) (\<lambda>offsets.
          let req = \<lparr>ra_connection = conn, ra_group = gid, ra_topics = stringSlice (map_of args ''topics''),
                     ra_reset_to = resetTo, ra_timestamp = timestamp,
                     ra_offsets = (case offsets of None \<Rightarrow> [] | Some m \<Rightarrow> m)\<rparr> in
          ebind (validateResetRequest req) (\<lambda>_. Inr req))))))))"

definition clear_plan :: "json_obj \<Rightarrow> 'w service \<Rightarrow> clear_args res" where
  "clear_plan args sv =
     (let conn = text_arg args ''connectionId''; topic = text_arg args ''topic'' in
      case missingRequired args [''connectionId'', ''topic''] of
        Some e \<Rightarrow> Inl e
      | None \<Rightarrow>
          ebind (reject_if (conn = []) (Errf ''connectionId is required'' [])) (\<lambda>_.
          ebind (reject_if (topic = []) (Errf ''topic is required'' [])) (\<lambda>_.
          ebind (mcp_ensureDeleteAllowed conn ''topics/records/clear'' sv) (\<lambda>_.
            Inr \<lparr>xc_connection = conn, xc_topic = topic\<rparr>))))"

definition executed :: "string \<Rightarrow> string \<Rightarrow> ('r \<Rightarrow> any) \<Rightarrow> 'r res \<times> 'w service \<Rightarrow> response res \<times> 'w service" where
  "executed action key wrap r =
     (ebind (fst r) (\<lambda>x. Inr [(''success'', ABool True), (''action'', AString action), (key, wrap x)]), snd r)"

definition topicsDelete ::
  "('w, 'n, 'm) mcp_env \<Rightarrow> mcp_lib \<Rightarrow> json_obj \<Rightarrow> 'w mcp_server \<Rightarrow> response res \<times> 'w mcp_server" where
  "topicsDelete en ml args s =
     (case delete_plan args (mc_service s) of
        Inl e \<Rightarrow> (Inl e, s)
      | Inr req \<Rightarrow>
          twoPhase en ml (PhaseDelete req) args
            (\<lambda>sv. executed ''delete'' ''results'' AMutations
               (DeleteTopics (me_client en) (me_admin en)
                  \<lparr>td_connection = xd_connection req, td_topics = xd_topics req, td_confirm = xd_confirm req,
                   td_confirms = xd_confirms req, td_source = ''mcp''\<rparr> sv)) s)"

definition groupsOffsetsReset ::
  "('w, 'n, 'm) mcp_env \<Rightarrow> mcp_lib \<Rightarrow> json_obj \<Rightarrow> 'w mcp_server \<Rightarrow> response res \<times> 'w mcp_server" where
  "groupsOffsetsReset en ml args s =
     (case reset_plan (ml_args ml) args (mc_service s) of
        Inl e \<Rightarrow> (Inl e, s)
      | Inr req \<Rightarrow>
          twoPhase en ml (PhaseReset req) args
            (\<lambda>sv. executed ''offsetsReset'' ''rows'' AResetRows
               (ResetGroupOffsets (me_client en) (me_admin en) (me_targets en)
                  \<lparr>or_connection = ra_connection req, or_group = ra_group req, or_topics = ra_topics req,
                   or_reset_to = ra_reset_to req, or_timestamp = ra_timestamp req, or_offsets = ra_offsets req,
                   or_source = ''mcp''\<rparr> sv)) s)"

definition topicsRecordsClear ::
  "('w, 'n, 'm) mcp_env \<Rightarrow> mcp_lib \<Rightarrow> json_obj \<Rightarrow> 'w mcp_server \<Rightarrow> response res \<times> 'w mcp_server" where
  "topicsRecordsClear en ml args s =
     (case clear_plan args (mc_service s) of
        Inl e \<Rightarrow> (Inl e, s)
      | Inr req \<Rightarrow>
          twoPhase en ml (PhaseClear req) args
            (\<lambda>sv. executed ''recordsClear'' ''rows'' AClearRows
               (ClearTopicRecords (me_client en) (me_admin en)
                  \<lparr>rq_connection = xc_connection req, rq_topic = xc_topic req, rq_confirm = xc_topic req,
                   rq_source = ''mcp''\<rparr> sv)) s)"

section \<open>Dispatch\<close>

definition drop_key :: "string \<Rightarrow> response \<Rightarrow> response" where
  "drop_key key r = AList.update ''truncated'' (ABool True) (AList.delete key r)"

definition over_limit :: response where
  "over_limit =
     [(''truncated'', ABool True),
      (''note'', AString ''response exceeded the configured size limit; narrow the request or raise responseLimitBytes via mcp/settings/set'')]"

fun trim_response :: "mcp_lib \<Rightarrow> int \<Rightarrow> string list \<Rightarrow> response \<Rightarrow> response" where
  "trim_response ml limit [] r = over_limit"
| "trim_response ml limit (key # keys) r =
     (let r = drop_key key r in if ml_size ml r \<le> limit then r else trim_response ml limit keys r)"

definition enforceResponseLimit :: "mcp_lib \<Rightarrow> int \<Rightarrow> response \<Rightarrow> response" where
  "enforceResponseLimit ml limit r =
     (if ml_size ml r \<le> limit then r else trim_response ml limit [''sample'', ''rows'', ''stats''] r)"

definition call_tool ::
  "('w, 'n, 'm) mcp_env \<Rightarrow> mcp_lib \<Rightarrow> string \<Rightarrow> json_obj \<Rightarrow> 'w mcp_server \<Rightarrow> response res \<times> 'w mcp_server" where
  "call_tool en ml tool args s =
     (if tool = ''kafka_ui_search'' then uiSearch en ml args s
      else if tool = ''kafka_ui_focus'' then uiFocus en ml args s
      else if tool = ''kafka_ui_select'' then uiSelect en ml args s
      else if tool = ''kafka_ui_state'' then uiState en args s
      else if tool = ''kafka_ui_topics'' then uiTopics en args s
      else if tool = ''kafka_messages_digest'' then messagesDigest en ml args s
      else if tool = ''kafka_cursor_next'' then cursorNext en ml args s
      else if tool = ''kafka_messages_produce'' then messagesProduce en ml args s
      else if tool = ''kafka_topics_delete'' then topicsDelete en ml args s
      else if tool = ''kafka_groups_offsets_reset'' then groupsOffsetsReset en ml args s
      else if tool = ''kafka_topics_records_clear'' then topicsRecordsClear en ml args s
      else (Inl (unknownToolMessage tool), s))"

definition Call ::
  "('w, 'n, 'm) mcp_env \<Rightarrow> mcp_lib \<Rightarrow> string \<Rightarrow> json_obj option \<Rightarrow> 'w mcp_server \<Rightarrow> response res \<times> 'w mcp_server" where
  "Call en ml tool arguments s =
     (case call_tool en ml tool (case arguments of None \<Rightarrow> [] | Some a \<Rightarrow> a) s of
        (Inl e, s) \<Rightarrow> (Inl e, s)
      | (Inr r, s) \<Rightarrow> (Inr (enforceResponseLimit ml (ResponseLimitBytes (mc_settings s)) r), s))"

text \<open>The tools a connection may list, and the reasons why the others are left out.\<close>

definition writeToolNames :: "string list" where
  "writeToolNames = [''kafka_messages_produce'', ''kafka_topics_delete'', ''kafka_groups_offsets_reset'',
                     ''kafka_topics_records_clear'']"

definition omitted_reason :: "bool \<Rightarrow> bool \<Rightarrow> string \<Rightarrow> string option" where
  "omitted_reason readOnly allowDelete name =
     (if name \<in> set [''kafka_topics_delete'', ''kafka_topics_records_clear''] then
        (if readOnly \<or> \<not> allowDelete
         then Some (''connection is read-only or disallows delete (allow_delete=false); write tools are not registered (design '' @ [CHR 0xC2, CHR 0xA7] @ ''4)'')
         else None)
      else if readOnly
      then Some (''connection is configured read-only; write tools are not registered (design '' @ [CHR 0xC2, CHR 0xA7] @ ''4)'')
      else None)"

definition Tools :: "string \<Rightarrow> 'w mcp_server \<Rightarrow> string list \<times> (string \<times> string) list option" where
  "Tools conn s =
     (let (readOnly, allowDelete) = PolicyOf conn (mc_service s);
          omitted = List.map_filter (\<lambda>n. map_option (Pair n) (omitted_reason readOnly allowDelete n)) writeToolNames
      in if conn = [] \<or> (\<not> readOnly \<and> allowDelete) then (toolNameList, None)
         else (filter (\<lambda>n. n \<notin> fst ` set omitted) toolNameList, Some omitted))"

end
