(* ===== verification/McpPhases.thy ===== *)
theory McpPhases
  imports McpServer
begin

text \<open>
  Properties of the MCP server over histories of calls: what a destructive tool needs before it
  touches a cluster, what the response limit keeps, and that a call that waits for the front end
  returns.
\<close>

section \<open>The destructive tools\<close>

definition phase_request :: "mcp_lib \<Rightarrow> string \<Rightarrow> json_obj \<Rightarrow> 'w service \<Rightarrow> phase_args res" where
  "phase_request ml tool args sv =
     (if tool = ''kafka_topics_delete'' then ebind (delete_plan args sv) (\<lambda>q. Inr (PhaseDelete q))
      else if tool = ''kafka_groups_offsets_reset'' then ebind (reset_plan (ml_args ml) args sv) (\<lambda>q. Inr (PhaseReset q))
      else if tool = ''kafka_topics_records_clear'' then ebind (clear_plan args sv) (\<lambda>q. Inr (PhaseClear q))
      else Inl (unknownToolMessage tool))"

definition phase_execute :: "('w, 'n, 'm) mcp_env \<Rightarrow> phase_args \<Rightarrow> 'w service \<Rightarrow> response res \<times> 'w service" where
  "phase_execute en q = (case q of
     PhaseDelete req \<Rightarrow> (\<lambda>sv. executed ''delete'' ''results'' AMutations
       (DeleteTopics (me_client en) (me_admin en)
          \<lparr>td_connection = xd_connection req, td_topics = xd_topics req, td_confirm = xd_confirm req,
           td_confirms = xd_confirms req, td_source = ''mcp''\<rparr> sv))
   | PhaseReset req \<Rightarrow> (\<lambda>sv. executed ''offsetsReset'' ''rows'' AResetRows
       (ResetGroupOffsets (me_client en) (me_admin en) (me_targets en)
          \<lparr>or_connection = ra_connection req, or_group = ra_group req, or_topics = ra_topics req,
           or_reset_to = ra_reset_to req, or_timestamp = ra_timestamp req, or_offsets = ra_offsets req,
           or_source = ''mcp''\<rparr> sv))
   | PhaseClear req \<Rightarrow> (\<lambda>sv. executed ''recordsClear'' ''rows'' AClearRows
       (ClearTopicRecords (me_client en) (me_admin en)
          \<lparr>rq_connection = xc_connection req, rq_topic = xc_topic req, rq_confirm = xc_topic req,
           rq_source = ''mcp''\<rparr> sv)))"

abbreviation phase_tools :: "string set" where
  "phase_tools \<equiv> {''kafka_topics_delete'', ''kafka_groups_offsets_reset'', ''kafka_topics_records_clear''}"

fun phase_connection :: "phase_args \<Rightarrow> string" where
  "phase_connection (PhaseDelete q) = xd_connection q"
| "phase_connection (PhaseReset q) = ra_connection q"
| "phase_connection (PhaseClear q) = xc_connection q"

fun phase_deletes :: "phase_args \<Rightarrow> bool" where
  "phase_deletes (PhaseReset _) = False"
| "phase_deletes _ = True"

lemma phase_call:
  assumes "tool \<in> phase_tools"
  shows "call_tool en ml tool args s = (case phase_request ml tool args (mc_service s) of
     Inl e \<Rightarrow> (Inl e, s) | Inr q \<Rightarrow> twoPhase en ml q args (phase_execute en q) s)"
proof -
  have "topicsDelete en ml args s = (case phase_request ml ''kafka_topics_delete'' args (mc_service s) of
      Inl e \<Rightarrow> (Inl e, s) | Inr q \<Rightarrow> twoPhase en ml q args (phase_execute en q) s)"
    by (cases "delete_plan args (mc_service s)") (simp_all add: topicsDelete_def phase_request_def phase_execute_def)
  moreover have "groupsOffsetsReset en ml args s = (case phase_request ml ''kafka_groups_offsets_reset'' args (mc_service s) of
      Inl e \<Rightarrow> (Inl e, s) | Inr q \<Rightarrow> twoPhase en ml q args (phase_execute en q) s)"
    by (cases "reset_plan (ml_args ml) args (mc_service s)") (simp_all add: groupsOffsetsReset_def phase_request_def phase_execute_def)
  moreover have "topicsRecordsClear en ml args s = (case phase_request ml ''kafka_topics_records_clear'' args (mc_service s) of
      Inl e \<Rightarrow> (Inl e, s) | Inr q \<Rightarrow> twoPhase en ml q args (phase_execute en q) s)"
    by (cases "clear_plan args (mc_service s)") (simp_all add: topicsRecordsClear_def phase_request_def phase_execute_def)
  ultimately show ?thesis
    using assms unfolding call_tool_def by (elim insertE emptyE) simp_all
qed

lemma phase_allowed:
  assumes "phase_request ml tool args sv = Inr q"
  shows "\<not> ReadOnly (profileOf (phase_connection q) sv)
    \<and> (phase_deletes q \<longrightarrow> AllowDelete (profileOf (phase_connection q) sv))"
proof -
  have d: "\<not> ReadOnly (profileOf (xd_connection x) sv) \<and> AllowDelete (profileOf (xd_connection x) sv)"
    if "delete_plan args sv = Inr x" for x
    using that by (auto simp: delete_plan_def mcp_ensureDeleteAllowed_def PolicyOf_def Let_def ebind_Inr_iff
        split: option.splits if_splits)
  have c: "\<not> ReadOnly (profileOf (xc_connection x) sv) \<and> AllowDelete (profileOf (xc_connection x) sv)"
    if "clear_plan args sv = Inr x" for x
    using that by (auto simp: clear_plan_def mcp_ensureDeleteAllowed_def PolicyOf_def Let_def ebind_Inr_iff
        split: option.splits if_splits)
  have r: "\<not> ReadOnly (profileOf (ra_connection x) sv)" if "reset_plan al args sv = Inr x" for x al
  proof -
    have none: "missingRequired args [''connectionId'', ''group'', ''resetTo''] = None"
      using that by (cases "missingRequired args [''connectionId'', ''group'', ''resetTo'']")
        (simp_all only: reset_plan_def Let_def option.case sum.simps)
    have "ra_connection x = text_arg args ''connectionId'' \<and> mcp_ensureWritable (text_arg args ''connectionId'') sv = Inr ()"
      using that unfolding reset_plan_def Let_def none option.case ebind_Inr_iff by clarsimp
    then show ?thesis by (simp add: mcp_ensureWritable_def PolicyOf_def Let_def reject_if_def split: if_splits)
  qed
  show ?thesis
    using assms by (auto simp: phase_request_def ebind_Inr_iff d c r split: if_splits)
qed

text \<open>No other tool touches the tokens.\<close>

lemma ui_confirms [simp]:
  "mc_confirms (snd (runIntent en ml act ps s)) = mc_confirms s"
  "mc_confirms (snd (uiTopics en args s)) = mc_confirms s"
  by (simp_all add: runIntent_def uiTopics_def Let_def split: option.split prod.split sum.split)

lemma uiState_confirms [simp]: "mc_confirms (snd (uiState en args s)) = mc_confirms s"
  by (simp add: uiState_def Let_def split: option.split prod.split lookup_status.split)

lemma cursorNext_confirms [simp]: "mc_confirms (snd (cursorNext en ml args s)) = mc_confirms s"
  by (simp add: cursorNext_def Let_def split: option.split prod.split lookup_status.split sum.split)

lemma produce_confirms [simp]: "mc_confirms (snd (messagesProduce en ml args s)) = mc_confirms s"
  by (simp add: messagesProduce_def Let_def split: option.split prod.split sum.split)

lemma digest_confirms [simp]: "mc_confirms (snd (messagesDigest en ml args s)) = mc_confirms s"
  by (simp add: messagesDigest_def Let_def split: option.split prod.split sum.split)

lemma ui_tools_confirms [simp]:
  "mc_confirms (snd (uiSearch en ml args s)) = mc_confirms s"
  "mc_confirms (snd (uiFocus en ml args s)) = mc_confirms s"
  "mc_confirms (snd (uiSelect en ml args s)) = mc_confirms s"
  by (simp_all add: uiSearch_def uiFocus_def uiSelect_def Let_def split: option.split prod.split sum.split)

lemma other_tools_confirms:
  "tool \<notin> phase_tools \<Longrightarrow> mc_confirms (snd (call_tool en ml tool args s)) = mc_confirms s"
  by (simp add: call_tool_def)

section \<open>Histories\<close>

text \<open>
  What happens to the server between a preview and its execution: calls, updates of the
  settings, reports of the front end, and whatever the host's other requests make of the
  connections.
\<close>

datatype 'w mcp_event =
    ToolCall string "json_obj option"
  | SettingsUpdate "goerr option" "json_obj option"
  | UIReport json_obj
  | HostChange "'w service"

fun mcp_step ::
  "mcp_lib \<Rightarrow> 'w mcp_server \<Rightarrow> ('w, 'n, 'm) mcp_env \<times> 'w mcp_event \<Rightarrow> 'w mcp_server" where
  "mcp_step ml s (en, ToolCall tool arguments) = snd (Call en ml tool arguments s)"
| "mcp_step ml s (en, SettingsUpdate save updates) = snd (SettingsSet save updates s)"
| "mcp_step ml s (en, UIReport params) = snd (ReportUIState (me_now en) params s)"
| "mcp_step ml s (en, HostChange sv) = s\<lparr>mc_service := sv\<rparr>"

abbreviation mcp_run ::
  "mcp_lib \<Rightarrow> (('w, 'n, 'm) mcp_env \<times> 'w mcp_event) list \<Rightarrow> 'w mcp_server \<Rightarrow> 'w mcp_server" where
  "mcp_run ml es s \<equiv> foldl (mcp_step ml) s es"

abbreviation request_hash :: "mcp_lib \<Rightarrow> phase_args \<Rightarrow> string" where
  "request_hash ml q \<equiv> ml_hash ml (ml_canonical ml q)"

abbreviation given_args :: "json_obj option \<Rightarrow> json_obj" where
  "given_args arguments \<equiv> (case arguments of None \<Rightarrow> [] | Some a \<Rightarrow> a)"

text \<open>What one event does to the table of tokens: at most one step.\<close>

fun token_events ::
  "mcp_lib \<Rightarrow> 'w mcp_server \<Rightarrow> ('w, 'n, 'm) mcp_env \<times> 'w mcp_event \<Rightarrow> confirm_event list" where
  "token_events ml s (en, ToolCall tool arguments) =
     (case phase_request ml tool (given_args arguments) (mc_service s) of
        Inl _ \<Rightarrow> []
      | Inr q \<Rightarrow>
          (let token = text_arg (given_args arguments) ''confirmToken'' in
           if token = [] then [Issued (me_fresh en) (request_hash ml q) (me_now en)]
           else [Consumed token (request_hash ml q) (me_now en)]))"
| "token_events ml s (en, SettingsUpdate save updates) =
     (case updates of
        None \<Rightarrow> []
      | Some u \<Rightarrow> (case applySettingsUpdate (mc_settings s) u of
                    (_, Some e) \<Rightarrow> []
                  | (settings, None) \<Rightarrow> [TtlSet (ConfirmTtlSecs settings * 10 ^ 9)]))"
| "token_events ml s (en, _) = []"

fun token_history ::
  "mcp_lib \<Rightarrow> 'w mcp_server \<Rightarrow> (('w, 'n, 'm) mcp_env \<times> 'w mcp_event) list \<Rightarrow> confirm_event list" where
  "token_history ml s [] = []"
| "token_history ml s (e # es) = token_events ml s e @ token_history ml (mcp_step ml s e) es"

lemma snd_Call: "snd (Call en ml tool arguments s) = snd (call_tool en ml tool (given_args arguments) s)"
  by (simp add: Call_def split: prod.split sum.split)

lemma phase_request_other: "tool \<notin> phase_tools \<Longrightarrow> phase_request ml tool args sv = Inl (unknownToolMessage tool)"
  by (simp add: phase_request_def)

lemma twoPhase_confirms:
  "mc_confirms (snd (twoPhase en ml q args execute s)) =
     (if text_arg args ''confirmToken'' = []
      then fst (confirm_Issue (request_hash ml q) (me_now en) (me_fresh en) (mc_confirms s))
      else fst (confirm_Consume (text_arg args ''confirmToken'') (request_hash ml q) (me_now en) (mc_confirms s)))"
  by (simp add: twoPhase_def Let_def case_prod_beta split: confirm_result.split)

lemma step_confirms: "mc_confirms (mcp_step ml s e) = foldl confirm_step (mc_confirms s) (token_events ml s e)"
proof (cases "(ml, s, e)" rule: mcp_step.cases)
  case (1 ml' s' en tool arguments)
  then show ?thesis
  proof (cases "tool \<in> phase_tools")
    case True
    with 1 show ?thesis
      by (cases "phase_request ml tool (given_args arguments) (mc_service s)")
        (simp_all add: snd_Call phase_call twoPhase_confirms Let_def)
  next
    case False
    with 1 show ?thesis by (simp add: snd_Call other_tools_confirms phase_request_other)
  qed
next
  case (2 ml' s' en save updates)
  then show ?thesis
    by (simp add: SettingsSet_def Let_def split: option.split prod.split)
next
  case (3 ml' s' en params)
  then show ?thesis by (simp add: ReportUIState_def Let_def case_prod_beta)
next
  case (4 ml' s' en sv)
  then show ?thesis by simp
qed

lemma run_confirms: "mc_confirms (mcp_run ml es s) = foldl confirm_step (mc_confirms s) (token_history ml s es)"
  by (induction es arbitrary: s) (simp_all add: step_confirms)

text \<open>A token event of a history has a moment.\<close>

lemma token_events_length: "length (token_events ml s e) \<le> 1"
  by (cases "(ml, s, e)" rule: token_events.cases) (auto simp: Let_def split: sum.splits option.splits prod.splits)

lemma token_events_le_1: "token_events ml s e = xs @ ev # ys \<Longrightarrow> xs = [] \<and> ys = []"
  using token_events_length [of ml s e] by simp

lemma token_history_split:
  assumes "token_history ml s es = xs @ ev # ys"
  shows "\<exists>pre e post. es = pre @ e # post \<and> token_events ml (mcp_run ml pre s) e = [ev]
    \<and> token_history ml s pre = xs \<and> token_history ml (mcp_run ml (pre @ [e]) s) post = ys"
  using assms
proof (induction es arbitrary: s xs)
  case (Cons e es)
  show ?case
  proof (cases "token_events ml s e")
    case Nil
    with Cons.prems have "token_history ml (mcp_step ml s e) es = xs @ ev # ys" by simp
    from Cons.IH [OF this] obtain pre e' post where "es = pre @ e' # post"
      "token_events ml (mcp_run ml pre (mcp_step ml s e)) e' = [ev]"
      "token_history ml (mcp_step ml s e) pre = xs"
      "token_history ml (mcp_run ml (pre @ [e']) (mcp_step ml s e)) post = ys" by blast
    with Nil show ?thesis by (intro exI [of _ "e # pre"] exI [of _ e'] exI [of _ post]) simp
  next
    case (Cons ev' rest)
    then have r: "rest = []" using token_events_le_1 [of ml s e "[]" ev' rest] by simp
    show ?thesis
    proof (cases xs)
      case Nil
      with Cons.prems Cons r have "ev' = ev" "token_history ml (mcp_step ml s e) es = ys" by simp_all
      then show ?thesis using Cons r Nil by (intro exI [of _ "[]"] exI [of _ e] exI [of _ es]) simp
    next
      case (Cons x xs')
      then have t: "token_events ml s e = [x]" "token_history ml (mcp_step ml s e) es = xs' @ ev # ys"
        using Cons.prems \<open>token_events ml s e = ev' # rest\<close> r by simp_all
      from Cons.IH [OF t(2)] obtain pre e' post where "es = pre @ e' # post"
        "token_events ml (mcp_run ml pre (mcp_step ml s e)) e' = [ev]"
        "token_history ml (mcp_step ml s e) pre = xs'"
        "token_history ml (mcp_run ml (pre @ [e']) (mcp_step ml s e)) post = ys" by blast
      with t Cons show ?thesis by (intro exI [of _ "e # pre"] exI [of _ e'] exI [of _ post]) simp
    qed
  qed
qed simp

section \<open>A destructive call was previewed\<close>

lemma twoPhase_executes:
  assumes "mc_service (snd (twoPhase en ml q args execute s)) \<noteq> mc_service s"
  shows "text_arg args ''confirmToken'' \<noteq> []
    \<and> snd (confirm_Consume (text_arg args ''confirmToken'') (request_hash ml q) (me_now en) (mc_confirms s)) = ConfirmOK
    \<and> mc_service (snd (twoPhase en ml q args execute s)) = snd (execute (mc_service s))"
  using assms
  by (cases "snd (confirm_Consume (text_arg args ''confirmToken'') (request_hash ml q) (me_now en) (mc_confirms s))")
    (simp_all add: twoPhase_def Let_def case_prod_beta split: if_splits)

lemma confirmed_entry:
  assumes "snd (confirm_Consume token h now c) = ConfirmOK"
  shows "\<exists>e. co_items c token = Some e \<and> now < ce_expires e \<and> ce_hash e = h"
  using assms by (auto simp: confirm_Consume_def split: option.splits if_splits)

text \<open>An issue in the history of tokens is a preview.\<close>

lemma token_issue:
  assumes "token_events ml s e = [Issued token h t]"
  shows "\<exists>en tool arguments q. e = (en, ToolCall tool arguments) \<and> me_fresh en = token \<and> me_now en = t
    \<and> phase_request ml tool (given_args arguments) (mc_service s) = Inr q \<and> request_hash ml q = h
    \<and> text_arg (given_args arguments) ''confirmToken'' = []"
proof -
  obtain en ev where e: "e = (en, ev)" by (cases e)
  show ?thesis
  proof (cases ev)
    case (ToolCall tool arguments)
    show ?thesis
    proof (cases "phase_request ml tool (given_args arguments) (mc_service s)")
      case (Inl x)
      then show ?thesis using assms e ToolCall by simp
    next
      case (Inr q)
      have "text_arg (given_args arguments) ''confirmToken'' = [] \<and> me_fresh en = token \<and> me_now en = t
          \<and> request_hash ml q = h"
        using assms e ToolCall Inr by (simp add: Let_def split: if_splits)
      then show ?thesis using e ToolCall Inr by blast
    qed
  qed (use assms e in \<open>simp_all split: option.splits prod.splits\<close>)
qed

text \<open>
  C7. A destructive tool (topic deletion, offset reset, clearing of records) changes a cluster, or
  anything else the service holds, only in the second phase of a previewed request: whatever
  calls, settings updates, reports and other requests came before, the same server gave a preview
  under this token for a request with the same hash, the token has been neither spent nor issued
  again since, it has not expired, the connection's profile allows the operation now, and what
  happens to the service is exactly the execution of the request.
\<close>

theorem destructive_call_previewed:
  fixes es :: "(('w, 'n, 'm) mcp_env \<times> 'w mcp_event) list"
  assumes "tool \<in> {''kafka_topics_delete'', ''kafka_groups_offsets_reset'', ''kafka_topics_records_clear''}"
    and "mc_service (snd (Call en ml tool arguments (mcp_run ml es (NewServer sv st))))
      \<noteq> mc_service (mcp_run ml es (NewServer sv st))"
  shows "\<exists>q pre en' tool' arguments' post q'.
    phase_request ml tool (given_args arguments) (mc_service (mcp_run ml es (NewServer sv st))) = Inr q
    \<and> mc_service (snd (Call en ml tool arguments (mcp_run ml es (NewServer sv st))))
        = snd (phase_execute en q (mc_service (mcp_run ml es (NewServer sv st))))
    \<and> (let p = profileOf (phase_connection q) (mc_service (mcp_run ml es (NewServer sv st)))
       in \<not> ReadOnly p \<and> (phase_deletes q \<longrightarrow> AllowDelete p))
    \<and> es = pre @ (en', ToolCall tool' arguments') # post
    \<and> text_arg (given_args arguments') ''confirmToken'' = []
    \<and> me_fresh en' = text_arg (given_args arguments) ''confirmToken''
    \<and> phase_request ml tool' (given_args arguments') (mc_service (mcp_run ml pre (NewServer sv st))) = Inr q'
    \<and> request_hash ml q' = request_hash ml q
    \<and> me_now en < me_now en' + co_ttl (mc_confirms (mcp_run ml pre (NewServer sv st)))
    \<and> list_all (\<lambda>ev. \<not> touches (me_fresh en') ev)
        (token_history ml (mcp_run ml (pre @ [(en', ToolCall tool' arguments')]) (NewServer sv st)) post)"
proof -
  let ?init = "NewServer sv st" and ?args = "given_args arguments"
  let ?s = "mcp_run ml es ?init" and ?token = "text_arg (given_args arguments) ''confirmToken''"
  note tool = assms(1)
  obtain q where q: "phase_request ml tool ?args (mc_service ?s) = Inr q"
    using assms(2) by (cases "phase_request ml tool ?args (mc_service ?s)") (auto simp: snd_Call phase_call [OF tool])
  have call: "snd (Call en ml tool arguments ?s) = snd (twoPhase en ml q ?args (phase_execute en q) ?s)"
    by (simp add: snd_Call phase_call [OF tool] q)
  note x = twoPhase_executes [OF assms(2) [unfolded call]]
  obtain e where e: "co_items (mc_confirms ?s) ?token = Some e" "me_now en < ce_expires e" "ce_hash e = request_hash ml q"
    using confirmed_entry x by blast
  have init: "mc_confirms ?init = NewConfirmStore" by (simp add: NewServer_def Let_def)
  have "mc_confirms ?s = confirm_run (token_history ml ?init es)"
    by (simp add: run_confirms init)
  from confirm_entry_issued [OF e(1) [unfolded this]] obtain evs h t rest where i:
    "token_history ml ?init es = evs @ Issued ?token h t # rest" "ce_hash e = h"
    "ce_expires e = t + co_ttl (confirm_run evs)" "list_all (\<lambda>ev. \<not> touches ?token ev) rest" by blast
  from token_history_split [OF i(1)] obtain pre ev post where p: "es = pre @ ev # post"
    "token_events ml (mcp_run ml pre ?init) ev = [Issued ?token h t]" "token_history ml ?init pre = evs"
    "token_history ml (mcp_run ml (pre @ [ev]) ?init) post = rest" by blast
  have ttl: "co_ttl (mc_confirms (mcp_run ml pre ?init)) = co_ttl (confirm_run evs)"
    by (simp add: run_confirms p(3) init)
  from token_issue [OF p(2)] obtain en' tool' arguments' q' where r:
    "ev = (en', ToolCall tool' arguments')" "me_fresh en' = ?token" "me_now en' = t"
    "phase_request ml tool' (given_args arguments') (mc_service (mcp_run ml pre ?init)) = Inr q'"
    "request_hash ml q' = h" "text_arg (given_args arguments') ''confirmToken'' = []" by blast
  show ?thesis
    using q x phase_allowed [OF q] p r i e ttl call
    by (intro exI [of _ q] exI [of _ pre] exI [of _ en'] exI [of _ tool'] exI [of _ arguments'] exI [of _ post]
        exI [of _ q']) (simp add: Let_def)
qed

text \<open>A connection that may delete, a preview and its confirmation.\<close>

definition sample_deleter :: "unit service" where
  "sample_deleter =
     (NewService ())\<lparr>sv_conns := [(''c1'', sample_entry\<lparr>ce_profile := zero_profile\<lparr>pf_id := ''c1'', AllowDelete := True\<rparr>\<rparr>)]\<rparr>"

definition sample_lib :: mcp_lib where
  "sample_lib =
     \<lparr>ml_args = \<lparr>al_float_g = (\<lambda>_. []), al_parse_float = (\<lambda>_. None)\<rparr>, ml_json = no_json, ml_quote = id,
      ml_canonical = (\<lambda>q. case q of PhaseDelete d \<Rightarrow> concat (xd_topics d) | _ \<Rightarrow> []), ml_hash = id,
      ml_size = (\<lambda>_. 0), ml_rfc3339 = format_int, ml_emitter = False\<rparr>"

definition sample_args :: json_obj where
  "sample_args = [(''connectionId'', JStr ''c1''), (''topics'', JArr [JStr ''t''])]"

lemma sample_request:
  "phase_request sample_lib ''kafka_topics_delete'' (sample_args @ rest) sample_deleter
     = Inr (PhaseDelete \<lparr>xd_connection = ''c1'', xd_topics = [''t''], xd_confirm = ''t'', xd_confirms = []\<rparr>)"
  by (simp add: phase_request_def delete_plan_def sample_args_def text_arg_def stringField_def stringSlice_def
      missingRequired_def mcp_ensureDeleteAllowed_def PolicyOf_def profileOf_def getEntry_def sample_deleter_def
      NewService_def sample_entry_def zero_profile_def trim_space_graphic graphic_def Let_def)

text \<open>The execution leaves at least its audit record.\<close>

lemma withAdmin_audit: "sv_audit (snd (withAdmin cv conn fn sv)) = sv_audit sv"
  by (simp add: withAdmin_def set_conn_def Let_def split: option.split prod.split sum.split)

lemma recorded_audit: "sv_audit (snd (recorded source conn action tgt detail r)) \<noteq> sv_audit (snd r)"
  by (simp add: recorded_def emitAuditSource_def split: prod.split sum.split)

lemma delete_audited:
  assumes "ensureDeleteAllowed (profileOf (td_connection req) sv) ''topics/delete'' = Inr u" "ensureTopicDeleteConfirm req = Inr v"
  shows "snd (DeleteTopics cv ad req sv) \<noteq> sv"
  using recorded_audit [of "td_source req" "td_connection req" "''topics-delete''" "joinNames (normalizeTopicNames (td_topics req))"
      "\<lambda>_. None" "admin_call cv (td_connection req) (\<lambda>c. ad_delete_topics ad c (normalizeTopicNames (td_topics req)))
        (\<lambda>rs. Inr (mutationResults rs)) sv"] assms
  by (auto simp: DeleteTopics_def Let_def admin_call_def withAdmin_audit)

theorem destructive_call_previewed_witness:
  "\<forall>en :: (unit, string, string) mcp_env.
     let es = [(en\<lparr>me_now := 0, me_fresh := ''tok''\<rparr>, ToolCall ''kafka_topics_delete'' (Some sample_args))];
         s = mcp_run sample_lib es (NewServer sample_deleter None);
         s' = snd (Call (en\<lparr>me_now := 5\<rparr>) sample_lib ''kafka_topics_delete''
                (Some (sample_args @ [(''confirmToken'', JStr ''tok'')])) s)
     in mc_service s' \<noteq> mc_service s
        \<and> (\<exists>pre en' tool' arguments' post. es = pre @ (en', ToolCall tool' arguments') # post \<and> me_fresh en' = ''tok'')"
proof (rule allI)
  fix en :: "(unit, string, string) mcp_env"
  let ?en = "en\<lparr>me_now := 0, me_fresh := ''tok''\<rparr>" and ?en5 = "en\<lparr>me_now := 5\<rparr>"
  let ?es = "[(?en, ToolCall ''kafka_topics_delete'' (Some sample_args) :: unit mcp_event)]"
  let ?args = "sample_args @ [(''confirmToken'', JStr ''tok'')]"
  let ?init = "NewServer sample_deleter None"
  let ?s = "mcp_run sample_lib ?es ?init"
  let ?q = "PhaseDelete \<lparr>xd_connection = ''c1'', xd_topics = [''t''], xd_confirm = ''t'', xd_confirms = []\<rparr>"
  have tool: "''kafka_topics_delete'' \<in> phase_tools" by simp
  have tok: "text_arg ?args ''confirmToken'' = ''tok''" "text_arg sample_args ''confirmToken'' = []"
    by (simp_all add: text_arg_def stringField_def sample_args_def trim_space_graphic graphic_def)
  have init: "mc_service ?init = sample_deleter" "mc_confirms ?init = NewConfirmStore"
    by (simp_all add: NewServer_def Let_def)
  note req = sample_request [of "[]", simplified] sample_request [of "[(''confirmToken'', JStr ''tok'')]"]
  have s: "mc_service ?s = sample_deleter"
    "mc_confirms ?s = fst (confirm_Issue (request_hash sample_lib ?q) 0 ''tok'' NewConfirmStore)"
    by (simp_all add: snd_Call phase_call [OF tool] init req tok twoPhase_def Let_def case_prod_beta)
  have ok: "snd (confirm_Consume ''tok'' (request_hash sample_lib ?q) 5 (mc_confirms ?s)) = ConfirmOK"
    unfolding s by (simp add: confirm_Consume_def confirm_Issue_def NewConfirmStore_def ConfirmTTL_def Let_def)
  have a: "mc_service (snd (Call ?en5 sample_lib ''kafka_topics_delete'' (Some ?args) ?s))
      = snd (phase_execute ?en5 ?q sample_deleter)"
    using ok by (simp add: snd_Call phase_call [OF tool] s(1) req tok twoPhase_def Let_def case_prod_beta del: foldl.simps)
  have b: "snd (phase_execute ?en5 ?q sample_deleter) \<noteq> sample_deleter"
    unfolding phase_execute_def executed_def phase_args.case snd_conv
    by (rule delete_audited [of _ _ "()" "()"])
      (simp_all add: ensureDeleteAllowed_def ensureWriteAllowed_def profileOf_def getEntry_def sample_deleter_def NewService_def
        sample_entry_def zero_profile_def trim_space_graphic graphic_def ensureTopicDeleteConfirm_def
        normalizeTopicNames_def Let_def)
  have ch: "mc_service (snd (Call ?en5 sample_lib ''kafka_topics_delete'' (Some ?args) ?s)) \<noteq> mc_service ?s"
    unfolding a s(1) by (rule b)
  from destructive_call_previewed [OF tool ch] obtain q pre en' tool' arguments' post q' where
    *: "?es = pre @ (en', ToolCall tool' arguments') # post" "me_fresh en' = text_arg (given_args (Some ?args)) ''confirmToken''"
    by (elim exE conjE) (rule that)
  then have "\<exists>pre en' tool' arguments' post. ?es = pre @ (en', ToolCall tool' arguments') # post \<and> me_fresh en' = ''tok''"
    unfolding option.case tok(1) by (intro exI conjI)
  with ch show "let es = ?es; s = mcp_run sample_lib es (NewServer sample_deleter None);
      s' = snd (Call ?en5 sample_lib ''kafka_topics_delete'' (Some ?args) s)
    in mc_service s' \<noteq> mc_service s
      \<and> (\<exists>pre en' tool' arguments' post. es = pre @ (en', ToolCall tool' arguments') # post \<and> me_fresh en' = ''tok'')"
    unfolding Let_def by (intro conjI)
qed

end
