(* ===== verification/McpWaiting.thy ===== *)
theory McpWaiting
  imports McpServer
begin

text \<open>
  The calls that wait for the front end, and the response limit: a waiting call returns once its
  time has passed, what it answers is what the front end reported, and a response that is cut
  loses only whole sections.
\<close>

section \<open>What can be in an intent table\<close>

lemma dropped_entry: "(m(a := None)) j = Some e \<Longrightarrow> m j = Some e"
  by (simp split: if_splits)

lemma prune_entry: "snd (prune_loop expiry now is m) j = Some e \<Longrightarrow> m j = Some e"
proof (induction "is" arbitrary: m)
  case (Cons a "is")
  then show ?case
    by (cases "live_in expiry now m a") (auto simp: case_prod_beta simp del: fun_upd_apply intro: dropped_entry)
qed simp

lemma evict_entry: "snd (evict_loop cap is m) j = Some e \<Longrightarrow> m j = Some e"
proof (induction "is" arbitrary: m)
  case (Cons a "is")
  then show ?case
    by (cases "int (length (a # is)) > cap") (auto simp del: fun_upd_apply intro: dropped_entry)
qed simp

lemma register_entry:
  "it_items (fst (intent_Register i act ps now s)) j = Some e \<Longrightarrow>
     it_items s j = Some e \<or> in_state e = IntentPending"
  by (auto simp: intent_Register_def intent_evict_def intent_prune_def intent_remove_def Let_def case_prod_beta
      dest!: evict_entry prune_entry split: option.splits if_splits)

text \<open>An answered intent was answered before, or by this report.\<close>

lemma op_entry:
  assumes "it_items (intent_op_step s p) i = Some e" "in_state e \<noteq> IntentPending"
  shows "it_items s i = Some e
    \<or> (\<exists>now. p = OpReport i (in_state e) (in_summary e) (in_reason e) now \<and> in_state e \<in> {IntentApplied, IntentRejected})"
proof (cases p)
  case (OpRegister j act ps now)
  then show ?thesis using register_entry [of j act ps now s i e] assms by auto
next
  case (OpReport j st sm reason now)
  then show ?thesis
    using assms by (auto simp: intent_Report_def intent_remove_def split: option.splits if_splits)
next
  case (OpGet j now)
  then show ?thesis
    using assms by (auto simp: intent_Get_def intent_remove_def split: option.splits if_splits)
next
  case (OpSnapshot sn)
  then show ?thesis using assms by (simp add: intent_SetSnapshot_def)
qed

definition reported :: "string \<Rightarrow> intent_op list \<Rightarrow> intent \<Rightarrow> bool" where
  "reported i ps e \<longleftrightarrow> in_state e \<in> {IntentApplied, IntentRejected}
     \<and> (\<exists>now. OpReport i (in_state e) (in_summary e) (in_reason e) now \<in> set ps)"

lemma ops_entry:
  "it_items (foldl intent_op_step s ps) i = Some e \<Longrightarrow> in_state e \<noteq> IntentPending \<Longrightarrow>
     it_items s i = Some e \<or> reported i ps e"
proof (induction ps arbitrary: s)
  case (Cons p ps)
  then have "it_items (intent_op_step s p) i = Some e \<or> reported i ps e" by simp
  then show ?case
  proof
    assume "it_items (intent_op_step s p) i = Some e"
    from op_entry [OF this Cons.prems(2)] show ?thesis by (auto simp: reported_def)
  qed (auto simp: reported_def)
qed simp

lemma Get_cases:
  "intent_Get i now s = (s, None, LookupUnknown) \<and> it_items s i = None
   \<or> (\<exists>e. it_items s i = Some e \<and> intent_Get i now s = (intent_remove i s, None, LookupExpired))
   \<or> (\<exists>e. it_items s i = Some e \<and> intent_Get i now s = (s, Some e, LookupFound))"
  by (auto simp: intent_Get_def split: option.splits)

section \<open>Waiting ends\<close>

lemma waitIntent_returns:
  assumes "\<forall>k < length ts. start + step * (int k + 1) \<le> wt_check (ts ! k)" "deadline \<le> start + step * int (length ts)"
    and "ts \<noteq> []" "0 \<le> step"
  shows "waitIntent i deadline ts s \<noteq> None"
  using assms
proof (induction ts arbitrary: s start)
  case (Cons t ts)
  show ?case
  proof (cases "wt_check t < deadline")
    case False
    then show ?thesis by (auto split: prod.splits lookup_status.splits option.splits)
  next
    case True
    have "start + step \<le> wt_check t" using Cons.prems(1) by fastforce
    with True Cons.prems(2) have ne: "ts \<noteq> []" by auto
    have "\<forall>k < length ts. (start + step) + step * (int k + 1) \<le> wt_check (ts ! k)"
    proof (intro allI impI)
      fix k assume "k < length ts"
      then have "start + step * (int (Suc k) + 1) \<le> wt_check ((t # ts) ! Suc k)"
        using Cons.prems(1) by (intro Cons.prems(1) [rule_format]) simp
      then show "(start + step) + step * (int k + 1) \<le> wt_check (ts ! k)" by (simp add: algebra_simps)
    qed
    moreover have "deadline \<le> (start + step) + step * int (length ts)"
      using Cons.prems(2) by (simp add: algebra_simps)
    ultimately have "waitIntent i deadline ts s' \<noteq> None" for s'
      using Cons.IH ne Cons.prems(4) by blast
    then show ?thesis by (auto split: prod.splits lookup_status.splits option.splits)
  qed
qed simp

lemma waitIntent_answer:
  assumes "waitIntent i deadline ts s = Some (r, s')" "\<forall>e. it_items s i = Some e \<longrightarrow> in_state e = IntentPending"
  shows "r = pending_response i \<or> r = expired_response i
    \<or> (\<exists>e. r = intent_response i e \<and> reported i (concat (map wt_others ts)) e)"
  using assms
proof (induction ts arbitrary: s)
  case (Cons t ts)
  let ?s = "foldl intent_op_step s (wt_others t)"
  consider (unknown) "intent_Get i (wt_get t) ?s = (?s, None, LookupUnknown)" "it_items ?s i = None"
    | (expired) "intent_Get i (wt_get t) ?s = (intent_remove i ?s, None, LookupExpired)"
    | (found) e where "intent_Get i (wt_get t) ?s = (?s, Some e, LookupFound)" "it_items ?s i = Some e"
    using Get_cases [of i "wt_get t" ?s] by metis
  then show ?case
  proof cases
    case unknown
    show ?thesis
    proof (cases "wt_check t < deadline")
      case True
      then have "waitIntent i deadline ts ?s = Some (r, s')" using Cons.prems unknown by simp
      from Cons.IH [OF this] unknown(2) show ?thesis by (auto simp: reported_def)
    next
      case False
      then show ?thesis using Cons.prems unknown by simp
    qed
  next
    case expired
    then show ?thesis using Cons.prems by simp
  next
    case (found e)
    show ?thesis
    proof (cases "in_state e = IntentPending")
      case True
      show ?thesis
      proof (cases "wt_check t < deadline")
        case late: True
        then have "waitIntent i deadline ts ?s = Some (r, s')" using Cons.prems found True by simp
        from Cons.IH [OF this] found(2) True show ?thesis by (auto simp: reported_def)
      next
        case False
        then show ?thesis using Cons.prems found True by simp
      qed
    next
      case False
      then have "r = intent_response i e" using Cons.prems found by simp
      moreover have "reported i (wt_others t) e"
        using ops_entry [OF found(2) False] Cons.prems(2) False by blast
      ultimately show ?thesis by (auto simp: reported_def)
    qed
  qed
qed simp

section \<open>A waiting call returns\<close>

lemma registered_pending:
  "it_items (fst (intent_Register i act ps now s)) i = Some e \<Longrightarrow> in_state e = IntentPending"
  by (auto simp: intent_Register_def intent_evict_def Let_def case_prod_beta dest!: evict_entry)

text \<open>
  C32. A tool that drives the user interface always returns: when each turn of its loop sleeps
  for at least 25 ms, as many turns as it takes to fill \<open>reportWaitMs\<close> are enough. It answers
  pending or expired, or it answers what the front end reported for this very intent while the
  call was waiting, with its state, summary and reason; it never makes up an answer.
\<close>

theorem waiting_call_returns:
  assumes "\<forall>k < length (me_turns en). me_now en + 25 * 10 ^ 6 * (int k + 1) \<le> wt_check (me_turns en ! k)"
    and "ReportWaitMs (mc_settings s) \<le> 25 * int (length (me_turns en))" "me_turns en \<noteq> []"
  shows "\<exists>r. fst (runIntent en ml action params s) = Inr r
    \<and> (let i = ''i-'' @ me_fresh en in
        r = pending_response i \<or> r = expired_response i
        \<or> (\<exists>e. r = intent_response i e \<and> reported i (concat (map wt_others (me_turns en))) e))"
proof -
  let ?i = "''i-'' @ me_fresh en"
  let ?it = "fst (intent_Register ?i action params (me_now en) (mc_intents s))"
  let ?deadline = "me_now en + ReportWaitMs (mc_settings s) * 10 ^ 6"
  have "waitIntent ?i ?deadline (me_turns en) ?it \<noteq> None"
    using assms by (intro waitIntent_returns [where start = "me_now en" and step = "25 * 10 ^ 6"]) simp_all
  then obtain r it where w: "waitIntent ?i ?deadline (me_turns en) ?it = Some (r, it)" by auto
  moreover from this have "r = pending_response ?i \<or> r = expired_response ?i
      \<or> (\<exists>e. r = intent_response ?i e \<and> reported ?i (concat (map wt_others (me_turns en))) e)"
    by (rule waitIntent_answer) (auto dest: registered_pending)
  ultimately show ?thesis by (simp add: runIntent_def Let_def)
qed

text \<open>Two turns of 25 ms; the report comes during the second.\<close>

definition sample_turns :: "wait_turn list" where
  "sample_turns =
     [\<lparr>wt_others = [], wt_get = 25 * 10 ^ 6, wt_check = 25 * 10 ^ 6\<rparr>,
      \<lparr>wt_others = [OpReport ''i-7'' IntentApplied [(''count'', JNum 3)] [] (30 * 10 ^ 6)],
       wt_get = 50 * 10 ^ 6, wt_check = 50 * 10 ^ 6\<rparr>]"

theorem waiting_call_returns_witness:
  "\<forall>(en :: (unit, string, string) mcp_env) ml.
     let s = (NewServer (NewService ()) None)\<lparr>mc_settings := DefaultSettings\<lparr>ReportWaitMs := 50\<rparr>\<rparr>
     in \<exists>r. fst (runIntent (en\<lparr>me_now := 0, me_fresh := ''7'', me_turns := sample_turns\<rparr>) ml ''focus'' [] s) = Inr r"
proof (intro allI)
  fix en :: "(unit, string, string) mcp_env" and ml
  let ?s = "(NewServer (NewService ()) None)\<lparr>mc_settings := DefaultSettings\<lparr>ReportWaitMs := 50\<rparr>\<rparr>"
  let ?en = "en\<lparr>me_now := 0, me_fresh := ''7'', me_turns := sample_turns\<rparr>"
  have turns: "\<forall>k < length (me_turns ?en). me_now ?en + 25 * 10 ^ 6 * (int k + 1) \<le> wt_check (me_turns ?en ! k)"
    by (auto simp: sample_turns_def less_Suc_eq)
  have "ReportWaitMs (mc_settings ?s) \<le> 25 * int (length (me_turns ?en))" "me_turns ?en \<noteq> []"
    by (simp_all add: sample_turns_def)
  from waiting_call_returns [OF turns this]
  show "let s = ?s in \<exists>r. fst (runIntent ?en ml ''focus'' [] s) = Inr r" unfolding Let_def by blast
qed

section \<open>The response limit\<close>

abbreviation heavy_keys :: "string list" where
  "heavy_keys \<equiv> [''sample'', ''rows'', ''stats'']"

text \<open>The response with the first \<open>n\<close> of these sections dropped and marked as truncated, for \<open>n > 0\<close>.\<close>

definition cut_sections :: "nat \<Rightarrow> response \<Rightarrow> response" where
  "cut_sections n full = foldl (\<lambda>r key. drop_key key r) full (take n heavy_keys)"

lemma map_of_drop_key:
  "map_of (drop_key key r) k = (if k = ''truncated'' then Some (ABool True) else if k = key then None else map_of r k)"
  by (simp add: drop_key_def update_conv' delete_conv' restrict_map_def)

lemma map_of_cut:
  "0 < n \<Longrightarrow> map_of (cut_sections n full) k =
     (if k = ''truncated'' then Some (ABool True) else if k \<in> set (take n heavy_keys) then None else map_of full k)"
proof -
  have m: "map_of (foldl (\<lambda>r key. drop_key key r) full keys) k =
     (if keys = [] then map_of full k else if k = ''truncated'' then Some (ABool True)
      else if k \<in> set keys then None else map_of full k)" for keys
    by (induction keys rule: rev_induct) (auto simp: map_of_drop_key)
  assume "0 < n"
  then show ?thesis unfolding cut_sections_def m by simp
qed

lemma trim_response_cut:
  "\<exists>n. 0 < n \<and> n \<le> Suc (length keys)
     \<and> (\<forall>i. 0 < i \<longrightarrow> i < n \<longrightarrow> limit < ml_size ml (foldl (\<lambda>r key. drop_key key r) r (take i keys)))
     \<and> (if n \<le> length keys
        then trim_response ml limit keys r = foldl (\<lambda>r key. drop_key key r) r (take n keys)
          \<and> ml_size ml (trim_response ml limit keys r) \<le> limit
        else trim_response ml limit keys r = over_limit)"
proof (induction keys arbitrary: r)
  case Nil
  show ?case by (intro exI [of _ 1]) simp
next
  case (Cons key keys)
  let ?r = "drop_key key r"
  show ?case
  proof (cases "ml_size ml ?r \<le> limit")
    case True
    then show ?thesis by (intro exI [of _ 1]) (simp add: Let_def)
  next
    case False
    obtain n where n: "0 < n" "n \<le> Suc (length keys)"
      "\<forall>i. 0 < i \<longrightarrow> i < n \<longrightarrow> limit < ml_size ml (foldl (\<lambda>r key. drop_key key r) ?r (take i keys))"
      "if n \<le> length keys
       then trim_response ml limit keys ?r = foldl (\<lambda>r key. drop_key key r) ?r (take n keys)
         \<and> ml_size ml (trim_response ml limit keys ?r) \<le> limit
       else trim_response ml limit keys ?r = over_limit"
      using Cons.IH [of ?r] by blast
    have "limit < ml_size ml (foldl (\<lambda>r key. drop_key key r) r (take i (key # keys)))" if "0 < i" "i < Suc n" for i
      using that n(3) False by (cases "i = 1") (auto simp: take_Cons' not_le)
    then show ?thesis using n(1,2,4) False
      by (intro exI [of _ "Suc n"]) (auto simp: Let_def split: if_splits)
  qed
qed

text \<open>
  C35. The response limit: a response that fits is passed on as it is. From one that does not,
  whole sections are dropped, first the sample, then the rows, then the statistics, and only as
  many as it takes to make it fit; what is left is marked as truncated and every other entry is
  unchanged. Only if it does not fit without all three is it replaced by the fixed note. So a
  response larger than the limit is never sent, unless the limit is below the size of the note.
\<close>

theorem response_limited:
  assumes "fst (Call en ml tool arguments s) = Inr r"
  defines "limit \<equiv> ResponseLimitBytes (mc_settings (snd (Call en ml tool arguments s)))"
  shows "\<exists>full n. fst (call_tool en ml tool (case arguments of None \<Rightarrow> [] | Some a \<Rightarrow> a) s) = Inr full
    \<and> n \<le> 4 \<and> (\<forall>i<n. limit < ml_size ml (cut_sections i full))
    \<and> (if n = 4 then r = over_limit
       else ml_size ml r \<le> limit \<and> (if n = 0 then r = full
         else \<forall>k. map_of r k = (if k = ''truncated'' then Some (ABool True)
           else if k \<in> set (take n [''sample'', ''rows'', ''stats'']) then None else map_of full k)))"
proof -
  let ?c = "call_tool en ml tool (case arguments of None \<Rightarrow> [] | Some a \<Rightarrow> a) s"
  obtain full s' where c: "?c = (Inr full, s')" "r = enforceResponseLimit ml limit full"
    using assms(1) by (cases ?c) (auto simp: Call_def limit_def split: sum.splits)
  have zero: "cut_sections 0 full = full" by (simp add: cut_sections_def)
  have len: "length heavy_keys = 3" "Suc 3 = 4" by simp_all
  show ?thesis
  proof (cases "ml_size ml full \<le> limit")
    case True
    then show ?thesis using c by (intro exI [of _ full] exI [of _ 0]) (simp add: enforceResponseLimit_def)
  next
    case False
    then have r: "r = trim_response ml limit heavy_keys full" using c(2) by (simp add: enforceResponseLimit_def)
    obtain n where n: "0 < n" "n \<le> 4" "\<forall>i. 0 < i \<longrightarrow> i < n \<longrightarrow> limit < ml_size ml (cut_sections i full)"
      "if n \<le> 3 then r = cut_sections n full \<and> ml_size ml r \<le> limit else r = over_limit"
      using trim_response_cut [of heavy_keys limit ml full] unfolding r [symmetric] cut_sections_def [symmetric] len
      by auto
    have "\<forall>i<n. limit < ml_size ml (cut_sections i full)"
    proof (intro allI impI)
      fix i assume "i < n"
      then show "limit < ml_size ml (cut_sections i full)" using n(3) False zero by (cases i) auto
    qed
    then show ?thesis using n(1,2,4) c(1) map_of_cut [OF n(1)]
      by (intro exI [of _ full] exI [of _ n]) (auto split: if_splits)
  qed
qed

text \<open>A page of a cursor that is too large because of its rows: they are dropped, nothing else.\<close>

definition one_row :: cursor_store where
  "one_row = \<lparr>cu_ttl = 9, cu_capacity = 8, cu_max_rows = 9,
     cu_sessions = [''c'' \<mapsto> \<lparr>cs_id = ''c'', cs_topic = ''t'',
       cs_rows = [\<lparr>cr_topic = ''t'', cr_partition = 0, cr_offset = 7, cr_key = [], cr_fields = None\<rparr>],
       cs_truncated = False, cs_offset = 0, cs_expires = 9\<rparr>], cu_order = [''c'']\<rparr>"

definition row_size :: "response \<Rightarrow> int" where
  "row_size r = (if map_of r ''rows'' = None then 3 else 2 ^ 30)"

theorem response_limited_witness:
  "\<forall>(en :: (unit, string, string) mcp_env) ml. let s = (NewServer (NewService ()) None)\<lparr>mc_cursors := one_row\<rparr>
    in \<exists>r. fst (Call (en\<lparr>me_now := 5\<rparr>) (ml\<lparr>ml_size := row_size\<rparr>) ''kafka_cursor_next'' (Some [(''cursorId'', JStr ''c'')]) s) = Inr r
         \<and> map_of r ''rows'' = None \<and> map_of r ''offset'' = Some (AInt 0) \<and> map_of r ''truncated'' = Some (ABool True)"
proof (intro allI)
  fix en :: "(unit, string, string) mcp_env" and ml :: mcp_lib
  let ?s = "(NewServer (NewService ()) None)\<lparr>mc_cursors := one_row\<rparr>" and ?en = "en\<lparr>me_now := 5\<rparr>"
    and ?ml = "ml\<lparr>ml_size := row_size\<rparr>" and ?args = "[(''cursorId'', JStr ''c'')]"
  have lim: "ResponseLimitBytes (mc_settings ?s) = 16384"
    by (simp add: NewServer_def LoadSettings_def DefaultSettings_def defaultResponseLimitBytes_def Let_def)
  have size: "ml_size ?ml = row_size" by simp
  obtain full s' where full: "call_tool ?en ?ml ''kafka_cursor_next'' ?args ?s = (Inr full, s')"
    "map_of full ''rows'' \<noteq> None" "map_of full ''offset'' = Some (AInt 0)" "mc_settings s' = mc_settings ?s"
    by (auto simp: call_tool_def cursorNext_def missingRequired_def text_arg_def stringField_def batch_arg_def absent_def
        offsetArg_def cursor_Next_def cursor_prune_def cursor_touch_def trim_space_graphic graphic_def one_row_def Let_def)
  then obtain r where r: "fst (Call ?en ?ml ''kafka_cursor_next'' (Some ?args) ?s) = Inr r"
    "ResponseLimitBytes (mc_settings (snd (Call ?en ?ml ''kafka_cursor_next'' (Some ?args) ?s))) = 16384"
    using lim by (simp add: Call_def)
  obtain n where n: "n \<le> 4" "\<forall>i<n. 16384 < row_size (cut_sections i full)"
    "if n = 4 then r = over_limit
       else row_size r \<le> 16384 \<and> (if n = 0 then r = full
         else \<forall>k. map_of r k = (if k = ''truncated'' then Some (ABool True)
           else if k \<in> set (take n [''sample'', ''rows'', ''stats'']) then None else map_of full k))"
    using response_limited [OF r(1)] full(1) unfolding r(2) size by auto
  have "map_of (cut_sections 3 full) ''rows'' = None" using map_of_cut [of 3 full "''rows''"] by simp
  then have "\<not> 16384 < row_size (cut_sections 3 full)" by (simp add: row_size_def)
  then have "n \<noteq> 4" using n(2) by fastforce
  moreover have "row_size full = 2 ^ 30" using full(2) by (simp add: row_size_def)
  then have "n \<noteq> 0" using n(3) by (cases "n = 0") auto
  ultimately have small: "row_size r \<le> 16384"
    and m: "map_of r k = (if k = ''truncated'' then Some (ABool True)
      else if k \<in> set (take n [''sample'', ''rows'', ''stats'']) then None else map_of full k)" and "n \<in> {1, 2, 3}" for k
    using n(1,3) by auto
  have "map_of r ''rows'' = None" using small by (auto simp: row_size_def split: if_splits)
  moreover have "map_of r ''truncated'' = Some (ABool True)" by (simp add: m)
  moreover have "map_of r ''offset'' = Some (AInt 0)" using \<open>n \<in> {1, 2, 3}\<close> full(3) by (auto simp: m numeral_eq_Suc)
  ultimately have "map_of r ''rows'' = None \<and> map_of r ''offset'' = Some (AInt 0) \<and> map_of r ''truncated'' = Some (ABool True)"
    by blast
  then show "let s = ?s in \<exists>r. fst (Call ?en ?ml ''kafka_cursor_next'' (Some ?args) s) = Inr r
      \<and> map_of r ''rows'' = None \<and> map_of r ''offset'' = Some (AInt 0) \<and> map_of r ''truncated'' = Some (ABool True)"
    using r(1) by (auto simp: Let_def)
qed

end
