(* ===== verification/McpTools.thy ===== *)
theory McpTools
  imports McpPhases
begin

text \<open>
  \<open>mcp/tools.go\<close> and the tool list of \<open>mcp/stdio.go\<close>: the definitions of the tools, with their
  descriptions and schemas, as they are listed to a caller.
\<close>

section \<open>The definitions of the tools\<close>

definition connectionProperty :: json_obj where
  "connectionProperty = [(''type'', JStr ''string''),
     (''description'', JStr ''DBX saved Kafka connection id; credentials are resolved by the DBX host and never travel in tool arguments'')]"

text \<open>An empty list of required properties is left out.\<close>

definition toolEntry :: "string \<Rightarrow> string \<Rightarrow> string list \<Rightarrow> json_obj \<Rightarrow> json_obj" where
  "toolEntry name description required properties =
     (let schema = [(''type'', JStr ''object''), (''properties'', JObj properties)]
                   @ (if required \<noteq> [] then [(''required'', JArr (map JStr required))] else [])
      in [(''name'', JStr name), (''description'', JStr description), (''inputSchema'', JObj schema)])"

definition kafka_ui_search_entry :: json_obj where
  "kafka_ui_search_entry = toolEntry ''kafka_ui_search''
    ''Fill the Kafka workbench consume form with the given conditions (topic, offset strategy, limit, filter channels) and trigger the consume. Results stay visible in the Messages panel (the user can keep working with them); returns the applied state plus a small summary (count + first rows with partition/offset anchors). Requires the DBX workbench to be open: without a frontend the call reports state=pending with a hint, fall back to kafka_messages_digest instead.''
    [''topic'']
    [(''connectionId'', JObj connectionProperty),
     (''topic'', JObj [(''type'', JStr ''string''), (''description'', JStr ''Topic to consume'')]),
     (''offsetStrategy'', JObj [(''type'', JStr ''string''),
         (''enum'', JArr [JStr ''latest'', JStr ''recent'', JStr ''earliest'', JStr ''committed'', JStr ''timestamp'', JStr ''offset'']),
         (''description'', JStr ''Offset strategy (default latest; recent starts each partition scanWindow records before the log end)'')]),
     (''limit'', JObj [(''type'', JStr ''integer''), (''description'', JStr ''Max matched messages fetched'')]),
     (''filter'', JObj [(''type'', JStr ''string''), (''description'', JStr ''Full-text filter (key+value+headers)'')]),
     (''keyFilter'', JObj [(''type'', JStr ''string''), (''description'', JStr ''Key channel filter'')]),
     (''valueFilter'', JObj [(''type'', JStr ''string''), (''description'', JStr ''Value channel filter'')]),
     (''headerFilter'', JObj [(''type'', JStr ''string''), (''description'', JStr ''Header channel filter'')]),
     (''matchMode'', JObj [(''type'', JStr ''string''),
         (''enum'', JArr [JStr ''contains'', JStr ''prefix'', JStr ''exact'', JStr ''regex'']),
         (''description'', JStr ''Filter match mode (default contains)'')]),
     (''groupId'', JObj [(''type'', JStr ''string''),
         (''description'', JStr ''Consumer group id (mutually exclusive with partitions)'')]),
     (''partitions'', JObj [(''type'', JStr ''array''),
         (''items'', JObj [(''type'', JStr ''integer'')]),
         (''description'', JStr ''Explicit partition list (integers; numeric strings or one comma-separated string also accepted)'')]),
     (''offsetTime'', JObj [(''type'', JStr ''string''),
         (''description'', JStr ''RFC3339 / unix ms (offsetStrategy=timestamp)'')])]"

definition kafka_ui_focus_entry :: json_obj where
  "kafka_ui_focus_entry = toolEntry ''kafka_ui_focus''
    ''Focus a workbench panel (messages | topics | groups | schemas). Requires the DBX workbench to be open; without a frontend the call reports state=pending.''
    []
    [(''connectionId'', JObj connectionProperty),
     (''panel'', JObj [(''type'', JStr ''string''),
         (''enum'', JArr [JStr ''messages'', JStr ''topics'', JStr ''groups'', JStr ''schemas'']),
         (''description'', JStr ''Panel to focus (case-insensitive)'')])]"

definition kafka_ui_select_entry :: json_obj where
  "kafka_ui_select_entry = toolEntry ''kafka_ui_select''
    ''Locate a message by partition+offset in the current Messages panel results and open its detail drawer. Requires the DBX workbench to be open with matching results; reports rejected when the locator is not in the current results.''
    [''partition'', ''offset'']
    [(''connectionId'', JObj connectionProperty),
     (''topic'', JObj [(''type'', JStr ''string''),
         (''description'', JStr ''Optional topic check (locator = topic-partition-offset)'')]),
     (''partition'', JObj [(''type'', JStr ''integer''),
         (''description'', JStr ''Partition of the message (non-negative; numeric strings tolerated)'')]),
     (''offset'', JObj [(''type'', JStr ''integer''),
         (''description'', JStr ''Offset of the message (non-negative; numeric strings tolerated)'')])]"

definition kafka_ui_state_entry :: json_obj where
  "kafka_ui_state_entry = toolEntry ''kafka_ui_state''
    (''Read a UI intent result by intentId, or (without intentId) the latest workbench snapshot reported by the frontend (current panel, consume form values, result count, selected locator). The snapshot response additionally lists the connection'' @ [CHR 0x27] @ ''s stream sessions. Use it to re-check an intent that returned pending.'')
    []
    [(''connectionId'', JObj connectionProperty),
     (''intentId'', JObj [(''type'', JStr ''string''),
         (''description'', JStr ''intentId from a previous kafka_ui_* call; omit to read the latest snapshot (streams are appended when connectionId is given)'')])]"

definition kafka_ui_topics_entry :: json_obj where
  "kafka_ui_topics_entry = toolEntry ''kafka_ui_topics''
    ''List topic names on the connection (hard limit 50, locator-only) so a valid topic name can be picked before kafka_ui_search or kafka_messages_digest.''
    [''connectionId'']
    [(''connectionId'', JObj connectionProperty)]"

definition kafka_messages_digest_entry :: json_obj where
  "kafka_messages_digest_entry = toolEntry ''kafka_messages_digest''
    (''Consume a topic with the consume filter channels (server-side offsets, local filters) and aggregate the matches locally in the sidecar '' @ [CHR 0xE2, CHR 0x80, CHR 0x94] @ '' MCP never subscribes to a stream. Default format=digest returns counts and distributions only (per-partition counts, key group-by, time histogram, optional JSON-field projection distinct/topN, <=5 sample rows with partition/offset anchors); format=rows returns at most 20 locator rows. Every digest also materializes a cursor for kafka_cursor_next so pages are fetched without re-consuming. Message bodies never leave the sidecar (large values become placeholders plus a partition/offset locator).'')
    [''connectionId'', ''topic'']
    [(''connectionId'', JObj connectionProperty),
     (''topic'', JObj [(''type'', JStr ''string''), (''description'', JStr ''Topic to scan'')]),
     (''offsetStrategy'', JObj [(''type'', JStr ''string''),
         (''enum'', JArr [JStr ''latest'', JStr ''recent'', JStr ''earliest'', JStr ''committed'', JStr ''timestamp'', JStr ''offset'']),
         (''description'', JStr ''Offset strategy (default earliest; recent starts each partition scanWindow records before the log end)'')]),
     (''offsetTime'', JObj [(''type'', JStr ''string''),
         (''description'', JStr ''RFC3339 / unix ms (offsetStrategy=timestamp)'')]),
     (''partitions'', JObj [(''type'', JStr ''array''),
         (''items'', JObj [(''type'', JStr ''integer'')]),
         (''description'', JStr ''Explicit partition list (integers; numeric strings or one comma-separated string also accepted)'')]),
     (''maxScanRecords'', JObj [(''type'', JStr ''integer''),
         (''description'', JStr ''Scan budget (default 1000, max 100000; consume maxScanRecords semantics; numeric strings tolerated)'')]),
     (''filter'', JObj [(''type'', JStr ''string''), (''description'', JStr ''Full-text filter (key+value+headers)'')]),
     (''keyFilter'', JObj [(''type'', JStr ''string''), (''description'', JStr ''Key channel filter'')]),
     (''valueFilter'', JObj [(''type'', JStr ''string''), (''description'', JStr ''Value channel filter'')]),
     (''headerFilter'', JObj [(''type'', JStr ''string''), (''description'', JStr ''Header channel filter'')]),
     (''matchMode'', JObj [(''type'', JStr ''string''),
         (''enum'', JArr [JStr ''contains'', JStr ''prefix'', JStr ''exact'', JStr ''regex'']),
         (''description'', JStr ''Filter match mode (default contains)'')]),
     (''fieldFilters'', JObj [(''type'', JStr ''array''),
         (''items'', JObj [(''type'', JStr ''object''),
             (''properties'', JObj [(''source'', JObj [(''type'', JStr ''string'')]),
                 (''path'', JObj [(''type'', JStr ''string'')]),
                 (''operator'', JObj [(''type'', JStr ''string'')]),
                 (''value'', JObj [(''type'', JStr ''string'')])])]),
         (''description'', JStr ''Field-level filters (value/key/header channels with JSON path)'')]),
     (''decode'', JObj [(''type'', JStr ''string''),
         (''enum'', JArr [JStr ''none'', JStr ''base64'']),
         (''description'', JStr ''Value second-pass decode'')]),
     (''decompression'', JObj [(''type'', JStr ''string''),
         (''description'', JStr ''Decompression (gzip | lz4 | zstd | snappy)'')]),
     (''schema'', JObj [(''type'', JStr ''object''),
         (''properties'', JObj [(''registry'', JObj [(''type'', JStr ''string'')]),
             (''subject'', JObj [(''type'', JStr ''string'')]),
             (''version'', JObj [(''type'', JStr ''integer'')]),
             (''format'', JObj [(''type'', JStr ''string'')])]),
         (''description'', JStr (''Schema Registry mount to decode Confluent wire-format values into JSON before projection ({subject?, version?}; subject optional '' @ [CHR 0xE2, CHR 0x80, CHR 0x94] @ '' resolved from the wire schema id; requires schemaRegistry=confluent on the connection)''))]),
     (''fields'', JObj [(''type'', JStr ''array''),
         (''items'', JObj [(''type'', JStr ''string'')]),
         (''description'', JStr (''JSON-path projection fields aggregated as distinct/topN (after schema decode when mounted), e.g. ['' @ [CHR 0x22] @ ''$.user.id'' @ [CHR 0x22] @ '']''))]),
     (''format'', JObj [(''type'', JStr ''string''),
         (''enum'', JArr [JStr ''digest'', JStr ''rows'']),
         (''description'', JStr ''digest (default) = counts + sample; rows = at most 20 locator rows'')])]"

definition kafka_cursor_next_entry :: json_obj where
  "kafka_cursor_next_entry = toolEntry ''kafka_cursor_next''
    ''Fetch the next batch (n<=20) of locator rows from a digest session: topic-partition-offset (+ optional projected fields) only, no filter re-send and no re-scan. Expired cursors return an explicit error (with the effective TTL, default 10 minutes, adjustable via mcp/settings/set cursorTtlSecs) suggesting a fresh kafka_messages_digest.''
    [''cursorId'']
    [(''cursorId'', JObj [(''type'', JStr ''string''),
         (''description'', JStr ''cursorId returned by kafka_messages_digest'')]),
     (''n'', JObj [(''type'', JStr ''integer''),
         (''description'', JStr ''Batch size (default 20, max 20; numeric strings tolerated)'')]),
     (''offset'', JObj [(''type'', JStr ''integer''),
         (''description'', JStr ''Start offset; omit to continue where the previous batch stopped'')])]"

definition kafka_messages_produce_entry :: json_obj where
  "kafka_messages_produce_entry = toolEntry ''kafka_messages_produce''
    (''Produce one small message (single-phase, executed directly; audited with source=mcp). value/valueBase64 together are capped at 64 KiB '' @ [CHR 0xE2, CHR 0x80, CHR 0x94] @ '' larger payloads belong in the workbench. Refused on read-only connections.'')
    [''connectionId'', ''topic'']
    [(''connectionId'', JObj connectionProperty),
     (''topic'', JObj [(''type'', JStr ''string''), (''description'', JStr ''Target topic'')]),
     (''key'', JObj [(''type'', JStr ''string''), (''description'', JStr ''Message key (or keyBase64)'')]),
     (''value'', JObj [(''type'', JStr ''string''), (''description'', JStr ''Message value (or valueBase64)'')]),
     (''keyBase64'', JObj [(''type'', JStr ''string''), (''description'', JStr ''Binary key as base64'')]),
     (''valueBase64'', JObj [(''type'', JStr ''string''), (''description'', JStr ''Binary value as base64'')]),
     (''headers'', JObj [(''type'', JStr ''object''),
         (''additionalProperties'', JObj [(''type'', JStr ''string'')]),
         (''description'', JStr ''Message headers'')]),
     (''partition'', JObj [(''type'', JStr ''integer''),
         (''description'', JStr ''Explicit partition (optional; non-negative, numeric strings tolerated)'')]),
     (''compression'', JObj [(''type'', JStr ''string''),
         (''enum'', JArr [JStr ''none'', JStr ''gzip'', JStr ''lz4'', JStr ''zstd'', JStr ''snappy'']),
         (''description'', JStr ''Compression (default none)'')]),
     (''schema'', JObj [(''type'', JStr ''object''),
         (''properties'', JObj [(''registry'', JObj [(''type'', JStr ''string'')]),
             (''subject'', JObj [(''type'', JStr ''string'')]),
             (''version'', JObj [(''type'', JStr ''integer'')]),
             (''format'', JObj [(''type'', JStr ''string'')])]),
         (''description'', JStr ''Schema Registry mount for wire-format encoding'')])]"

definition kafka_topics_delete_entry :: json_obj where
  "kafka_topics_delete_entry = toolEntry ''kafka_topics_delete''
    (''Delete topics (two-phase: the first call without confirmToken returns a preview plus a one-time confirmToken (60s TTL, bound to the parameter hash) and writes nothing '' @ [CHR 0xE2, CHR 0x80, CHR 0x94] @ '' repeat the same arguments with the token to execute). Read-only or allow_delete=false connections never list this tool. Every write is audited with source=mcp.'')
    [''connectionId'', ''topics'']
    [(''connectionId'', JObj connectionProperty),
     (''topics'', JObj [(''type'', JStr ''array''),
         (''items'', JObj [(''type'', JStr ''string'')]),
         (''description'', JStr ''Topic names to delete'')]),
     (''confirmToken'', JObj [(''type'', JStr ''string''),
         (''description'', JStr ''One-time token returned by the preview call'')])]"

definition kafka_groups_offsets_reset_entry :: json_obj where
  "kafka_groups_offsets_reset_entry = toolEntry ''kafka_groups_offsets_reset''
    ''Reset consumer group offsets (two-phase preview/confirm like kafka_topics_delete). resetTo: earliest | latest | timestamp | partitionOffset (case-insensitive). Per mode the preview also requires: topics for earliest/latest/timestamp; a positive timestampMs (unix ms) for timestamp; partitionOffsets (topic -> partition -> offset) for partitionOffset. Read-only connections never list this tool. Audited with source=mcp.''
    [''connectionId'', ''group'', ''resetTo'']
    [(''connectionId'', JObj connectionProperty),
     (''group'', JObj [(''type'', JStr ''string''), (''description'', JStr ''Consumer group id'')]),
     (''topics'', JObj [(''type'', JStr ''array''),
         (''items'', JObj [(''type'', JStr ''string'')]),
         (''description'', JStr ''Topics to reset (required except for partitionOffset)'')]),
     (''resetTo'', JObj [(''type'', JStr ''string''),
         (''enum'', JArr [JStr ''earliest'', JStr ''latest'', JStr ''timestamp'', JStr ''partitionOffset'']),
         (''description'', JStr ''Reset target (case-insensitive)'')]),
     (''timestampMs'', JObj [(''type'', JStr ''integer''),
         (''description'', JStr ''resetTo=timestamp: target unix ms (>0; numeric strings tolerated)'')]),
     (''partitionOffsets'', JObj [(''type'', JStr ''object''),
         (''additionalProperties'', JObj [(''type'', JStr ''object'')]),
         (''description'', JStr ''resetTo=partitionOffset: topic -> partition -> offset'')]),
     (''confirmToken'', JObj [(''type'', JStr ''string''),
         (''description'', JStr ''One-time token returned by the preview call'')])]"

definition kafka_topics_records_clear_entry :: json_obj where
  "kafka_topics_records_clear_entry = toolEntry ''kafka_topics_records_clear''
    ''Clear all records of a topic (truncate to the current high watermark; two-phase preview/confirm like kafka_topics_delete). Read-only or allow_delete=false connections never list this tool. Audited with source=mcp.''
    [''connectionId'', ''topic'']
    [(''connectionId'', JObj connectionProperty),
     (''topic'', JObj [(''type'', JStr ''string''), (''description'', JStr ''Topic to clear'')]),
     (''confirmToken'', JObj [(''type'', JStr ''string''),
         (''description'', JStr ''One-time token returned by the preview call'')])]"

definition allToolDefinitions :: "json_obj list" where
  "allToolDefinitions =
    [kafka_ui_search_entry,
     kafka_ui_focus_entry,
     kafka_ui_select_entry,
     kafka_ui_state_entry,
     kafka_ui_topics_entry,
     kafka_messages_digest_entry,
     kafka_cursor_next_entry,
     kafka_messages_produce_entry,
     kafka_topics_delete_entry,
     kafka_groups_offsets_reset_entry,
     kafka_topics_records_clear_entry]"

text \<open>The definitions that \<open>Tools\<close> leaves in its list, and the reasons for those it omits.\<close>

definition tool_name :: "json_obj \<Rightarrow> string" where
  "tool_name t = stringField t ''name''"

definition tools_listed :: "string \<Rightarrow> 'w mcp_server \<Rightarrow> json_obj list \<times> (string \<times> string) list option" where
  "tools_listed conn s =
     (case Tools conn s of (names, omitted) \<Rightarrow> (filter (\<lambda>t. tool_name t \<in> set names) allToolDefinitions, omitted))"

section \<open>The list of the stdio mode\<close>

definition inlineRequiredKey :: string where
  "inlineRequiredKey = ''brokers''"

definition connectionBoundTools :: "string set" where
  "connectionBoundTools =
     {''kafka_messages_digest'', ''kafka_messages_produce'', ''kafka_topics_delete'', ''kafka_groups_offsets_reset'',
      ''kafka_topics_records_clear''}"

definition stdioConnectionProperties :: json_obj where
  "stdioConnectionProperties =
    [(''connectionId'', JObj [(''type'', JStr ''string''),
         (''description'', JStr (''Connection id: either pooled from an earlier inline-credential call in this stdio session (mcp-'' @ [CHR 0xE2, CHR 0x80, CHR 0xA6] @ ''), or a DBX saved connection id (forwarded through the running DBX app'' @ [CHR 0x27] @ ''s local bridge). Omit to connect by inline parameters instead; in DBX workbench/bridge mode credentials are resolved by the host and never travel in tool arguments''))]),
     (''brokers'', JObj [(''type'', JStr ''array''),
         (''items'', JObj [(''type'', JStr ''string'')]),
         (''description'', JStr (''Bootstrap broker list (also accepts a single comma/newline-separated string), e.g. ['' @ [CHR 0x22] @ ''broker1:9092'' @ [CHR 0x22] @ '']; inline mode is keyed by a hash of these parameters''))]),
     (''securityProtocol'', JObj [(''type'', JStr ''string''),
         (''enum'', JArr [JStr ''PLAINTEXT'', JStr ''SSL'', JStr ''SASL_PLAINTEXT'', JStr ''SASL_SSL'']),
         (''description'', JStr ''Security protocol (default PLAINTEXT)'')]),
     (''saslMechanism'', JObj [(''type'', JStr ''string''),
         (''enum'', JArr [JStr ''PLAIN'', JStr ''SCRAM-SHA-256'', JStr ''SCRAM-SHA-512'']),
         (''description'', JStr ''SASL mechanism (required for SASL_* protocols; GSSAPI/OAUTHBEARER need the workbench form)'')]),
     (''saslUsername'', JObj [(''type'', JStr ''string''), (''description'', JStr ''SASL username'')]),
     (''saslPassword'', JObj [(''type'', JStr ''string''),
         (''description'', JStr ''SASL password (inline credentials stay in process memory only)'')]),
     (''tlsCaCert'', JObj [(''type'', JStr ''string''),
         (''description'', JStr ''PEM CA certificate(s) (SSL protocols; empty = system roots)'')]),
     (''tlsClientCert'', JObj [(''type'', JStr ''string''), (''description'', JStr ''PEM client certificate for mTLS'')]),
     (''tlsClientKey'', JObj [(''type'', JStr ''string''), (''description'', JStr ''PEM client key for mTLS'')]),
     (''tlsInsecureSkipVerify'', JObj [(''type'', JStr ''boolean''), (''description'', JStr ''Skip TLS certificate verification'')]),
     (''schemaRegistry'', JObj [(''type'', JStr ''string''),
         (''enum'', JArr [JStr ''none'', JStr ''confluent'']),
         (''description'', JStr ''Schema Registry backend (default none; aws_glue needs the workbench form)'')]),
     (''schemaRegistryUrl'', JObj [(''type'', JStr ''string''),
         (''description'', JStr ''Confluent-compatible Schema Registry URL (schemaRegistry=confluent)'')]),
     (''schemaRegistryUsername'', JObj [(''type'', JStr ''string''), (''description'', JStr ''Schema Registry basic-auth username'')]),
     (''schemaRegistryPassword'', JObj [(''type'', JStr ''string''), (''description'', JStr ''Schema Registry basic-auth password'')]),
     (''clientId'', JObj [(''type'', JStr ''string''),
         (''description'', JStr ''Kafka client.id (default dbx-kafka-plugin)'')]),
     (''readOnly'', JObj [(''type'', JStr ''boolean''),
         (''description'', JStr (''Open read-only (default true, matching the connection form; write tools refused). Accepts boolean or the strings '' @ [CHR 0x22] @ ''true'' @ [CHR 0x22] @ ''/'' @ [CHR 0x22] @ ''false'' @ [CHR 0x22] @ ''/'' @ [CHR 0x22] @ ''1'' @ [CHR 0x22] @ ''/'' @ [CHR 0x22] @ ''0'' @ [CHR 0x22] @ ''/'' @ [CHR 0x22] @ ''yes'' @ [CHR 0x22] @ ''/'' @ [CHR 0x22] @ ''no'' @ [CHR 0x22] @ ''/'' @ [CHR 0x22] @ ''on'' @ [CHR 0x22] @ ''/'' @ [CHR 0x22] @ ''off'' @ [CHR 0x22]))]),
     (''allowDelete'', JObj [(''type'', JStr ''boolean''),
         (''description'', JStr (''Allow delete-class operations (default false; delete tools refused without it). Accepts boolean or the strings '' @ [CHR 0x22] @ ''true'' @ [CHR 0x22] @ ''/'' @ [CHR 0x22] @ ''false'' @ [CHR 0x22] @ ''/'' @ [CHR 0x22] @ ''1'' @ [CHR 0x22] @ ''/'' @ [CHR 0x22] @ ''0'' @ [CHR 0x22] @ ''/'' @ [CHR 0x22] @ ''yes'' @ [CHR 0x22] @ ''/'' @ [CHR 0x22] @ ''no'' @ [CHR 0x22] @ ''/'' @ [CHR 0x22] @ ''on'' @ [CHR 0x22] @ ''/'' @ [CHR 0x22] @ ''off'' @ [CHR 0x22]))])]"

text \<open>The list of required properties without the connection id; a schema without the list keeps it so.\<close>

definition relax_required :: "json option \<Rightarrow> json_obj \<Rightarrow> json_obj" where
  "relax_required required schema =
     (case required of
        Some (JArr entries) \<Rightarrow> AList.update ''required'' (JArr (filter (\<lambda>e. e \<noteq> JStr ''connectionId'') entries)) schema
      | _ \<Rightarrow> schema)"

definition either_connection :: json where
  "either_connection =
     JArr [JObj [(''required'', JArr [JStr ''connectionId''])], JObj [(''required'', JArr [JStr inlineRequiredKey])]]"

definition stdio_tool :: "json_obj \<Rightarrow> json_obj" where
  "stdio_tool tool =
     (if tool_name tool \<notin> connectionBoundTools then tool
      else case map_of tool ''inputSchema'' of
        Some (JObj schema) \<Rightarrow>
          (case map_of schema ''properties'' of
             Some (JObj properties) \<Rightarrow>
               (let properties = foldl (\<lambda>ps (k, v). AList.update k v ps) properties stdioConnectionProperties;
                    schema = AList.update ''properties'' (JObj properties) schema;
                    schema = relax_required (map_of schema ''required'') schema;
                    schema = AList.update ''anyOf'' either_connection schema
                in AList.update ''inputSchema'' (JObj schema) tool)
           | _ \<Rightarrow> tool)
      | _ \<Rightarrow> tool)"

definition stdioToolList :: "'w mcp_server \<Rightarrow> json_obj list" where
  "stdioToolList s = map stdio_tool (fst (tools_listed [] s))"

section \<open>The definitions agree with the tools\<close>

lemmas tool_entries = kafka_ui_search_entry_def kafka_ui_focus_entry_def kafka_ui_select_entry_def kafka_ui_state_entry_def
  kafka_ui_topics_entry_def kafka_messages_digest_entry_def kafka_cursor_next_entry_def kafka_messages_produce_entry_def
  kafka_topics_delete_entry_def kafka_groups_offsets_reset_entry_def kafka_topics_records_clear_entry_def

lemma toolEntry_name [simp]: "tool_name (toolEntry n d r ps) = n"
  by (simp add: tool_name_def toolEntry_def stringField_def)

lemma definitions_names: "map tool_name allToolDefinitions = toolNameList"
  by (simp add: allToolDefinitions_def tool_entries toolNameList_def del: char.inject)

lemma stdio_tool_name [simp]: "tool_name (stdio_tool t) = tool_name t"
  by (simp add: stdio_tool_def tool_name_def stringField_def Let_def update_conv' split: option.split json.split)

text \<open>Every tool is listed in the stdio mode, in the order of the registry.\<close>

lemma stdioToolList_names: "map tool_name (stdioToolList s) = toolNameList"
proof -
  have "filter (\<lambda>t. tool_name t \<in> set toolNameList) allToolDefinitions = allToolDefinitions"
    using definitions_names by (metis (mono_tags, lifting) filter_True image_eqI list.set_map)
  moreover have "fst (Tools [] s) = toolNameList"
    by (simp add: Tools_def case_prod_beta Let_def)
  ultimately show ?thesis
    using definitions_names by (simp add: stdioToolList_def tools_listed_def case_prod_beta comp_def)
qed

text \<open>What a schema requires.\<close>

definition required_of :: "json_obj \<Rightarrow> json list" where
  "required_of tool =
     (case map_of tool ''inputSchema'' of
        Some (JObj schema) \<Rightarrow> (case map_of schema ''required'' of Some (JArr es) \<Rightarrow> es | _ \<Rightarrow> [])
      | _ \<Rightarrow> [])"

lemma required_entry [simp]: "required_of (toolEntry n d r ps) = map JStr r"
  by (simp add: required_of_def toolEntry_def)

lemma required_stdio:
  "required_of (stdio_tool (toolEntry n d r ps)) =
     map JStr (if n \<in> connectionBoundTools then filter (\<lambda>k. k \<noteq> ''connectionId'') r else r)"
proof -
  have map_filter: "filter (\<lambda>e. e \<noteq> JStr ''connectionId'') (map JStr ks) = map JStr (filter (\<lambda>k. k \<noteq> ''connectionId'') ks)" for ks
    by (induction ks) simp_all
  have name: "tool_name (toolEntry n d r ps) = n" by simp
  show ?thesis
  proof (cases "n \<in> connectionBoundTools")
    case True
    then show ?thesis unfolding stdio_tool_def name
      by (simp add: toolEntry_def required_of_def relax_required_def map_filter Let_def del: filter_map)
  next
    case False
    then show ?thesis unfolding stdio_tool_def name by simp
  qed
qed

end
