(* ===== verification/StepSystems.thy ===== *)
theory StepSystems
  imports Main
begin

text \<open>
  The two things that are asked of a step relation, as interfaces: a property that every step keeps
  holds along every run, and a number that some step lowers as long as the end is not reached leads
  to the end. Interpreted on the server of the host protocol, on the cancellable dialler and on the
  pool of inline connections.
\<close>

locale kept =
  fixes step :: "'s \<Rightarrow> 's \<Rightarrow> bool"
    and inv :: "'s \<Rightarrow> bool"
  assumes step_keeps: "step s s' \<Longrightarrow> inv s \<Longrightarrow> inv s'"
begin

lemma run_keeps: "step\<^sup>*\<^sup>* s s' \<Longrightarrow> inv s \<Longrightarrow> inv s'"
  by (induction rule: rtranclp_induct) (auto intro: step_keeps)

end

locale ending = kept step inv
  for step :: "'s \<Rightarrow> 's \<Rightarrow> bool"
    and inv :: "'s \<Rightarrow> bool" +
  fixes to_go :: "'s \<Rightarrow> nat"
    and over :: "'s \<Rightarrow> bool"
  assumes goes_on: "inv s \<Longrightarrow> \<not> over s \<Longrightarrow> \<exists>s'. step s s' \<and> to_go s' < to_go s"
begin

lemma can_end: "inv s \<Longrightarrow> \<exists>s'. step\<^sup>*\<^sup>* s s' \<and> over s'"
proof (induction "to_go s" arbitrary: s rule: less_induct)
  case less
  show ?case
  proof (cases "over s")
    case False
    then obtain s1 where s1: "step s s1" "to_go s1 < to_go s" using goes_on less.prems by blast
    with less.hyps [OF s1(2) step_keeps [OF s1(1) less.prems]] show ?thesis
      by (meson converse_rtranclp_into_rtranclp)
  qed blast
qed

lemma run_can_end: "step\<^sup>*\<^sup>* s s' \<Longrightarrow> inv s \<Longrightarrow> \<exists>s''. step\<^sup>*\<^sup>* s' s'' \<and> over s''"
  by (rule can_end) (rule run_keeps)

end

end
