(* ===== verification/HostProtocol.thy ===== *)
theory HostProtocol
  imports GoBytes GoJson StepSystems "HOL-Library.Multiset"
begin

text \<open>
  \<open>shared/sdk/go/dbx-plugin-sdk/sdk.go\<close>: the protocol between the host and the plugin, one JSON
  message per line. \<open>Serve\<close> reads requests and hands each to a goroutine of its own; here a state
  carries the requests that are being worked on, and a step reads a line, ends one of the
  requests in work, or returns. Messages on the wire are values of \<open>message\<close>; the printer and the
  reader of \<open>encoding/json\<close> and what writing to the pipe gives are the record \<open>sdk_lib\<close>.
\<close>

section \<open>Errors, requests, messages\<close>

record plugin_error =
  pe_code :: int
  pe_message :: string
  pe_data :: "json option"

definition NewError :: "int \<Rightarrow> string \<Rightarrow> plugin_error" where
  "NewError code message = \<lparr>pe_code = code, pe_message = message, pe_data = None\<rparr>"

definition MethodNotFound :: "string \<Rightarrow> plugin_error" where
  "MethodNotFound name = NewError (-32601) (''Method not found: '' @ name)"

record metadata =
  md_id :: string
  md_version :: string
  md_capabilities :: "string list"

text \<open>The texts of \<open>json.RawMessage\<close> fields are kept as they are; a missing one is empty.\<close>

record protocol_request =
  hp_jsonrpc :: string
  hp_id :: string
  hp_driver :: string
  hp_method :: string
  hp_params :: string

record request_context =
  rc_request :: string
  rc_driver :: string

text \<open>What \<open>initialize\<close> answers, and what the handler gives, which is of any type.\<close>

datatype 'r answer =
    Initialized int "string list" string string
  | Result 'r
  | Failure plugin_error

datatype 'r message =
    Response string "'r answer"
  | Event string 'r

record 'r sdk_lib =
  sl_request :: "string \<Rightarrow> string + protocol_request"   \<comment> \<open>\<open>json.Unmarshal\<close> into a request\<close>
  sl_versions :: "string \<Rightarrow> int list option"              \<comment> \<open>and of the versions of the host\<close>
  sl_marshal :: "'r message \<Rightarrow> string + string"
  sl_write :: "nat \<Rightarrow> string option"                      \<comment> \<open>the error of the n-th write\<close>

definition ProtocolVersion :: int where
  "ProtocolVersion = 1"

definition maxJSONBytes :: nat where
  "maxJSONBytes = 8 * 1024 * 1024"

section \<open>Names and requests\<close>

definition name_start :: "char \<Rightarrow> bool" where
  "name_start c \<longleftrightarrow> byte_in 0x61 0x7A c \<or> byte_in 0x41 0x5A c \<or> byte_in 0x30 0x39 c"

text \<open>A byte of a rune beyond ASCII is neither kind of sign, as the rune is neither.\<close>

definition validProtocolName :: "string \<Rightarrow> bool" where
  "validProtocolName value \<longleftrightarrow>
     value \<noteq> [] \<and> length value \<le> 256 \<and> name_start (hd value)
     \<and> list_all (\<lambda>c. name_start c \<or> c \<in> {CHR ''.'', CHR ''_'', CHR '':'', CHR ''/'', CHR ''-''}) (tl value)"

definition decodeRequest :: "'r sdk_lib \<Rightarrow> string \<Rightarrow> string + protocol_request" where
  "decodeRequest sl payload =
     (case sl_request sl payload of
        Inl e \<Rightarrow> Inl e
      | Inr q \<Rightarrow>
          if hp_jsonrpc q \<noteq> ''2.0'' then Inl ''request does not declare jsonrpc 2.0''
          else if \<not> validProtocolName (hp_method q) then Inl ''request method is invalid''
          else Inr (if hp_params q = [] then q\<lparr>hp_params := ''null''\<rparr> else q))"

definition initialize :: "'r sdk_lib \<Rightarrow> metadata \<Rightarrow> string \<Rightarrow> 'r answer" where
  "initialize sl md params =
     (case sl_versions sl params of
        None \<Rightarrow> Failure (NewError (-32602) ''Invalid initialize parameters'')
      | Some versions \<Rightarrow>
          if ProtocolVersion \<in> set versions
          then Initialized ProtocolVersion (md_capabilities md) (md_id md) (md_version md)
          else Failure (NewError (-32001) ''DBX and plugin do not share a protocol version''))"

section \<open>Writing\<close>

text \<open>The messages written so far, whose lines are their printed forms, and what was logged.\<close>

record 'r channel =
  ch_sent :: "'r message list"
  ch_log :: "string list"

definition emitter_write :: "'r sdk_lib \<Rightarrow> 'r message \<Rightarrow> 'r channel \<Rightarrow> plugin_error option \<times> 'r channel" where
  "emitter_write sl m ch =
     (case sl_marshal sl m of
        Inl e \<Rightarrow> (Some (NewError (-32603) e), ch)
      | Inr payload \<Rightarrow>
          if length payload > maxJSONBytes then (Some (NewError (-32600) ''JSON message is too large''), ch)
          else case sl_write sl (length (ch_sent ch)) of
            Some e \<Rightarrow> (Some (NewError (-32000) e), ch)
          | None \<Rightarrow> (None, ch\<lparr>ch_sent := ch_sent ch @ [m]\<rparr>))"

definition respond :: "'r sdk_lib \<Rightarrow> string \<Rightarrow> 'r answer \<Rightarrow> 'r channel \<Rightarrow> plugin_error option \<times> 'r channel" where
  "respond sl i a ch = emitter_write sl (Response i a) ch"

definition emitter_Event :: "'r sdk_lib \<Rightarrow> string \<Rightarrow> 'r \<Rightarrow> 'r channel \<Rightarrow> plugin_error option \<times> 'r channel" where
  "emitter_Event sl name params ch =
     (if \<not> validProtocolName name then (Some (NewError (-32600) ''Invalid event method''), ch)
      else emitter_write sl (Event name params) ch)"

section \<open>The input\<close>

text \<open>
  \<open>bufio.Scanner\<close> by lines with the buffer grown up to \<open>maxJSONBytes\<close>: a line that fills the
  buffer ends the scan with an error; the last line may lack its line feed.
\<close>

definition drop_cr :: "string \<Rightarrow> string" where
  "drop_cr l = (if l \<noteq> [] \<and> last l = CHR 0x0D then butlast l else l)"

definition scan_input :: "string \<Rightarrow> string list \<times> string option" where
  "scan_input input =
     (let parts = split_on (CHR 0x0A) input;
          whole = (if last parts = [] then butlast parts else parts);
          fitting = takeWhile (\<lambda>l. length l < maxJSONBytes) whole
      in (map drop_cr fitting, if fitting = whole then None else Some ''bufio.Scanner: token too long''))"

section \<open>The server\<close>

text \<open>
  The handler gets the context, the method and the parameters and changes a state of its own; it
  gives the events it emits on the way, in order, and an error or a result.
\<close>

type_synonym ('r, 'h) handler =
  "request_context \<Rightarrow> string \<Rightarrow> string \<Rightarrow> 'h \<Rightarrow> (string \<times> 'r) list \<times> (plugin_error + 'r) \<times> 'h"

datatype phase = Reading "string list" "string option" | Returned "string option"

record ('r, 'h) sdk_server =
  sd_phase :: phase
  sd_workers :: "protocol_request list"
  sd_channel :: "'r channel"
  sd_handler :: 'h

definition log_line :: "string \<Rightarrow> 'r channel \<Rightarrow> 'r channel" where
  "log_line e ch = ch\<lparr>ch_log := ch_log ch @ [''[dbx-plugin-sdk-go] '' @ e]\<rparr>"

text \<open>One line of the input: what is logged or written, the request to work on, a fatal error.\<close>

definition serve_line ::
  "'r sdk_lib \<Rightarrow> metadata \<Rightarrow> string \<Rightarrow> 'r channel \<Rightarrow> 'r channel \<times> protocol_request list \<times> string option" where
  "serve_line sl md line ch =
     (let payload = trim_space line in
      if payload = [] then (ch, [], None)
      else case decodeRequest sl payload of
        Inl e \<Rightarrow> (log_line e ch, [], None)
      | Inr q \<Rightarrow>
          if hp_method q = ''plugin/initialize'' then
            if hp_id q = [] then (log_line ''plugin/initialize must be a request'' ch, [], None)
            else (case respond sl (hp_id q) (initialize sl md (hp_params q)) ch of
                    (None, ch) \<Rightarrow> (ch, [], None)
                  | (Some e, ch) \<Rightarrow> (ch, [], Some (pe_message e)))
          else (ch, [q], None))"

definition emit_all :: "'r sdk_lib \<Rightarrow> (string \<times> 'r) list \<Rightarrow> 'r channel \<Rightarrow> 'r channel" where
  "emit_all sl events ch = fold (\<lambda>(name, params) ch. snd (emitter_Event sl name params ch)) events ch"

text \<open>A worker: the handler with its events, then the response, or a line in the log.\<close>

definition work ::
  "'r sdk_lib \<Rightarrow> ('r, 'h) handler \<Rightarrow> protocol_request \<Rightarrow> 'h \<Rightarrow> 'r channel \<Rightarrow> 'r channel \<times> 'h" where
  "work sl handle q h ch =
     (case handle \<lparr>rc_request = hp_id q, rc_driver = hp_driver q\<rparr> (hp_method q) (hp_params q) h of
        (events, result, h) \<Rightarrow>
          (let ch = emit_all sl events ch in
           if hp_id q = [] then
             (case result of Inl e \<Rightarrow> (log_line (pe_message e) ch, h) | Inr _ \<Rightarrow> (ch, h))
           else
             (case respond sl (hp_id q) (case result of Inl e \<Rightarrow> Failure e | Inr r \<Rightarrow> Result r) ch of
                (None, ch) \<Rightarrow> (ch, h)
              | (Some e, ch) \<Rightarrow> (log_line (''failed to write response: '' @ pe_message e) ch, h))))"

definition serve_start :: "string \<Rightarrow> 'h \<Rightarrow> ('r, 'h) sdk_server" where
  "serve_start input h =
     (case scan_input input of (ls, e) \<Rightarrow>
        \<lparr>sd_phase = Reading ls e, sd_workers = [], sd_channel = \<lparr>ch_sent = [], ch_log = []\<rparr>, sd_handler = h\<rparr>)"

inductive sdk_step ::
  "'r sdk_lib \<Rightarrow> metadata \<Rightarrow> ('r, 'h) handler \<Rightarrow> ('r, 'h) sdk_server \<Rightarrow> ('r, 'h) sdk_server \<Rightarrow> bool"
  for sl md handle where
  read: "sd_phase s = Reading (l # ls) e \<Longrightarrow> serve_line sl md l (sd_channel s) = (ch, qs, None)
    \<Longrightarrow> sdk_step sl md handle s (s\<lparr>sd_phase := Reading ls e, sd_channel := ch, sd_workers := sd_workers s @ qs\<rparr>)"
| fatal: "sd_phase s = Reading (l # ls) e \<Longrightarrow> serve_line sl md l (sd_channel s) = (ch, qs, Some m)
    \<Longrightarrow> sdk_step sl md handle s (s\<lparr>sd_phase := Returned (Some m), sd_channel := ch\<rparr>)"
| end_work: "sd_phase s = Reading ls e \<Longrightarrow> sd_workers s = qs @ q # qs'
    \<Longrightarrow> work sl handle q (sd_handler s) (sd_channel s) = (ch, h)
    \<Longrightarrow> sdk_step sl md handle s (s\<lparr>sd_workers := qs @ qs', sd_channel := ch, sd_handler := h\<rparr>)"
| drained: "sd_phase s = Reading [] e \<Longrightarrow> sd_workers s = []
    \<Longrightarrow> sdk_step sl md handle s (s\<lparr>sd_phase := Returned e\<rparr>)"

text \<open>\<open>Serve\<close> refuses to start without a proper plugin id.\<close>

definition Serve :: "metadata \<Rightarrow> string \<Rightarrow> 'h \<Rightarrow> string + ('r, 'h) sdk_server" where
  "Serve md input h = (if \<not> validProtocolName (md_id md) then Inl ''plugin id is invalid'' else Inr (serve_start input h))"

section \<open>Every request is answered once\<close>

text \<open>The requests in the lines, those that ask for a response, and the responses sent.\<close>

definition line_requests :: "'r sdk_lib \<Rightarrow> string \<Rightarrow> protocol_request list" where
  "line_requests sl l =
     (if trim_space l = [] then []
      else case decodeRequest sl (trim_space l) of Inl _ \<Rightarrow> [] | Inr q \<Rightarrow> [q])"

definition ids_of :: "protocol_request list \<Rightarrow> string list" where
  "ids_of qs = filter (\<lambda>i. i \<noteq> []) (map hp_id qs)"

definition asked :: "'r sdk_lib \<Rightarrow> string list \<Rightarrow> string list" where
  "asked sl ls = ids_of (concat (map (line_requests sl) ls))"

fun response_ids :: "'r message list \<Rightarrow> string list" where
  "response_ids [] = []"
| "response_ids (Response i _ # ms) = i # response_ids ms"
| "response_ids (Event _ _ # ms) = response_ids ms"

definition answered :: "('r, 'h) sdk_server \<Rightarrow> string list" where
  "answered s = response_ids (ch_sent (sd_channel s))"

text \<open>
  The answer to a request, if the handler works on it in the state \<open>h\<close>; whether an answer it can
  get fails to be written (it cannot be printed, is longer than the limit, or the pipe refuses
  it); and the failures to write that were logged.
\<close>

definition answer_of :: "'r sdk_lib \<Rightarrow> metadata \<Rightarrow> ('r, 'h) handler \<Rightarrow> protocol_request \<Rightarrow> 'h \<Rightarrow> 'r answer" where
  "answer_of sl md handle q h =
     (if hp_method q = ''plugin/initialize'' then initialize sl md (hp_params q)
      else case handle \<lparr>rc_request = hp_id q, rc_driver = hp_driver q\<rparr> (hp_method q) (hp_params q) h of
             (_, Inl e, _) \<Rightarrow> Failure e
           | (_, Inr r, _) \<Rightarrow> Result r)"

definition unwritable :: "'r sdk_lib \<Rightarrow> metadata \<Rightarrow> ('r, 'h) handler \<Rightarrow> protocol_request \<Rightarrow> bool" where
  "unwritable sl md handle q \<longleftrightarrow>
     (\<exists>h ch e. fst (respond sl (hp_id q) (answer_of sl md handle q h) ch) = Some e)"

definition write_failures :: "'r channel \<Rightarrow> nat" where
  "write_failures ch = length (filter (prefix ''[dbx-plugin-sdk-go] failed to write response: '') (ch_log ch))"

lemma ids_of_simps [simp]:
  "ids_of [] = []"
  "ids_of (q # qs) = (if hp_id q = [] then ids_of qs else hp_id q # ids_of qs)"
  "ids_of (qs @ qs') = ids_of qs @ ids_of qs'"
  by (auto simp: ids_of_def)

lemma asked_simps [simp]: "asked sl [] = []" "asked sl (l # ls) = ids_of (line_requests sl l) @ asked sl ls"
  by (simp_all add: asked_def)

lemma response_ids_append [simp]: "response_ids (ms @ ms') = response_ids ms @ response_ids ms'"
  by (induction ms rule: response_ids.induct) auto

lemma log_line_sent [simp]: "ch_sent (log_line e ch) = ch_sent ch"
  by (simp add: log_line_def)

lemma write_cases:
  "emitter_write sl m ch = (None, ch\<lparr>ch_sent := ch_sent ch @ [m]\<rparr>) \<or> (\<exists>e. emitter_write sl m ch = (Some e, ch))"
  by (auto simp: emitter_write_def split: sum.split option.split)

lemma emit_all_keeps:
  "response_ids (ch_sent (emit_all sl events ch)) = response_ids (ch_sent ch)
   \<and> ch_log (emit_all sl events ch) = ch_log ch"
proof (induction events arbitrary: ch)
  case (Cons ev events)
  obtain name params where ev: "ev = (name, params)" by (cases ev)
  let ?ch = "snd (emitter_Event sl name params ch)"
  have "response_ids (ch_sent ?ch) = response_ids (ch_sent ch) \<and> ch_log ?ch = ch_log ch"
    using write_cases [of sl "Event name params" ch] by (auto simp: emitter_Event_def)
  then show ?case using Cons.IH [of ?ch] by (simp add: emit_all_def ev)
qed (simp add: emit_all_def)

lemma failures_log_line:
  "write_failures ch \<le> write_failures (log_line e ch)"
  "write_failures (log_line (''failed to write response: '' @ e) ch) = Suc (write_failures ch)"
  by (simp_all add: write_failures_def log_line_def)

text \<open>A worker answers its request, or its answer could not be written and that is logged.\<close>

lemma work_answers:
  assumes "work sl handle q h ch = (ch', h')" "hp_method q \<noteq> ''plugin/initialize''"
  shows "response_ids (ch_sent ch') = response_ids (ch_sent ch) @ ids_of [q] \<and> write_failures ch \<le> write_failures ch'
    \<or> hp_id q \<noteq> [] \<and> unwritable sl md handle q \<and> response_ids (ch_sent ch') = response_ids (ch_sent ch)
      \<and> write_failures ch' = Suc (write_failures ch)"
proof -
  obtain events result h1 where hd: "handle \<lparr>rc_request = hp_id q, rc_driver = hp_driver q\<rparr> (hp_method q) (hp_params q) h
      = (events, result, h1)" by (cases "handle \<lparr>rc_request = hp_id q, rc_driver = hp_driver q\<rparr> (hp_method q) (hp_params q) h")
  let ?ch = "emit_all sl events ch"
  have k: "response_ids (ch_sent ?ch) = response_ids (ch_sent ch)" "write_failures ?ch = write_failures ch"
    using emit_all_keeps [of sl events ch] by (simp_all add: write_failures_def)
  show ?thesis
  proof (cases "hp_id q = []")
    case True
    have "write_failures ch \<le> write_failures (log_line e ?ch)" for e
      using failures_log_line(1) [of ?ch e] k(2) by simp
    then show ?thesis using assms(1) hd k True by (auto simp: work_def Let_def split: sum.splits)
  next
    case False
    let ?a = "case result of Inl e \<Rightarrow> Failure e | Inr r \<Rightarrow> Result r"
    have a: "answer_of sl md handle q h = ?a" using assms(2) hd by (simp add: answer_of_def split: sum.split)
    show ?thesis
    proof (cases "fst (respond sl (hp_id q) ?a ?ch)")
      case None
      then have "respond sl (hp_id q) ?a ?ch = (None, ?ch\<lparr>ch_sent := ch_sent ?ch @ [Response (hp_id q) ?a]\<rparr>)"
        using write_cases [of sl "Response (hp_id q) ?a" ?ch] by (auto simp: respond_def)
      then have "ch' = ?ch\<lparr>ch_sent := ch_sent ?ch @ [Response (hp_id q) ?a]\<rparr>"
        using assms(1) hd False by (simp add: work_def Let_def)
      then show ?thesis using k False by (simp add: write_failures_def)
    next
      case (Some e)
      then have r: "respond sl (hp_id q) ?a ?ch = (Some e, ?ch)"
        using write_cases [of sl "Response (hp_id q) ?a" ?ch] by (auto simp: respond_def)
      then have ch': "ch' = log_line (''failed to write response: '' @ pe_message e) ?ch"
        using assms(1) hd False by (simp add: work_def Let_def)
      have "write_failures ch' = Suc (write_failures ch)" unfolding ch' failures_log_line(2) k(2) ..
      moreover have "response_ids (ch_sent ch') = response_ids (ch_sent ch)" unfolding ch' log_line_sent by (rule k(1))
      moreover have "unwritable sl md handle q" using Some a unfolding unwritable_def by metis
      ultimately show ?thesis using False by blast
    qed
  qed
qed

text \<open>A line is answered, taken up by a worker, or ends the server.\<close>

lemma serve_line_answers:
  assumes "serve_line sl md l ch = (ch', qs, None)"
  shows "mset (response_ids (ch_sent ch')) + mset (ids_of qs)
      = mset (response_ids (ch_sent ch)) + mset (ids_of (line_requests sl l))"
    "write_failures ch \<le> write_failures ch'"
    "set qs \<subseteq> {q \<in> set (line_requests sl l). hp_method q \<noteq> ''plugin/initialize''}"
proof -
  have resp: "ch' = ch\<lparr>ch_sent := ch_sent ch @ [Response i a]\<rparr>" if "respond sl i a ch = (None, ch')" for i a
    using that write_cases [of sl "Response i a" ch] by (auto simp: respond_def)
  show "mset (response_ids (ch_sent ch')) + mset (ids_of qs)
      = mset (response_ids (ch_sent ch)) + mset (ids_of (line_requests sl l))"
    "write_failures ch \<le> write_failures ch'"
    "set qs \<subseteq> {q \<in> set (line_requests sl l). hp_method q \<noteq> ''plugin/initialize''}"
    using assms failures_log_line(1)
    by (auto simp: serve_line_def line_requests_def Let_def write_failures_def log_line_def dest!: resp
        split: sum.splits if_splits prod.splits option.splits)
qed

lemma serve_line_fatal:
  assumes "serve_line sl md l ch = (ch', qs, Some m)"
  shows "ch' = ch" "\<exists>q \<in> set (line_requests sl l). hp_method q = ''plugin/initialize'' \<and> hp_id q \<noteq> []
    \<and> (\<exists>e. fst (respond sl (hp_id q) (initialize sl md (hp_params q)) ch) = Some e \<and> m = pe_message e)"
proof -
  have resp: "ch' = ch" if "respond sl i a ch = (Some e, ch')" for i a e
    using that write_cases [of sl "Response i a" ch] by (auto simp: respond_def)
  show "ch' = ch" "\<exists>q \<in> set (line_requests sl l). hp_method q = ''plugin/initialize'' \<and> hp_id q \<noteq> []
    \<and> (\<exists>e. fst (respond sl (hp_id q) (initialize sl md (hp_params q)) ch) = Some e \<and> m = pe_message e)"
    using assms
    by (auto simp: serve_line_def line_requests_def Let_def split: sum.splits if_splits prod.splits option.splits intro: resp)
qed

text \<open>The well-formed requests in the lines.\<close>

abbreviation requests_in :: "'r sdk_lib \<Rightarrow> string list \<Rightarrow> protocol_request list" where
  "requests_in sl ls \<equiv> concat (map (line_requests sl) ls)"

text \<open>
  What is sent, lost, in work and still to be read adds up; a lost answer could not be written
  and that was logged. \<open>broken\<close>: an answer to \<open>plugin/initialize\<close> could not be written.
\<close>

definition lost_ok ::
  "'r sdk_lib \<Rightarrow> metadata \<Rightarrow> ('r, 'h) handler \<Rightarrow> string list \<Rightarrow> protocol_request list \<Rightarrow> 'r channel \<Rightarrow> bool" where
  "lost_ok sl md handle all lost ch \<longleftrightarrow> length lost \<le> write_failures ch
     \<and> (\<forall>q \<in> set lost. q \<in> set (requests_in sl all) \<and> hp_id q \<noteq> [] \<and> unwritable sl md handle q)"

definition broken :: "'r sdk_lib \<Rightarrow> metadata \<Rightarrow> string list \<Rightarrow> string option \<Rightarrow> bool" where
  "broken sl md all r \<longleftrightarrow>
     (\<exists>q \<in> set (requests_in sl all). hp_method q = ''plugin/initialize'' \<and> hp_id q \<noteq> []
        \<and> (\<exists>ch e. fst (respond sl (hp_id q) (initialize sl md (hp_params q)) ch) = Some e \<and> r = Some (pe_message e)))"

definition accounted ::
  "'r sdk_lib \<Rightarrow> metadata \<Rightarrow> ('r, 'h) handler \<Rightarrow> string list \<Rightarrow> string option \<Rightarrow> ('r, 'h) sdk_server \<Rightarrow> bool" where
  "accounted sl md handle all err s \<longleftrightarrow>
     (case sd_phase s of
        Reading ls e \<Rightarrow> e = err
          \<and> (\<exists>lost. lost_ok sl md handle all lost (sd_channel s)
              \<and> mset (answered s) + mset (ids_of lost) + mset (ids_of (sd_workers s)) + mset (asked sl ls) = mset (asked sl all))
          \<and> set (requests_in sl ls) \<union> set (sd_workers s) \<subseteq> set (requests_in sl all)
          \<and> (\<forall>q \<in> set (sd_workers s). hp_method q \<noteq> ''plugin/initialize'')
      | Returned e \<Rightarrow>
          (e = err \<and> sd_workers s = []
             \<and> (\<exists>lost. lost_ok sl md handle all lost (sd_channel s)
                 \<and> mset (answered s) + mset (ids_of lost) = mset (asked sl all)))
          \<or> broken sl md all e \<and> mset (answered s) \<subseteq># mset (asked sl all))"

lemma lost_ok_log: "lost_ok sl md handle all lost ch \<Longrightarrow> write_failures ch \<le> write_failures ch'
    \<Longrightarrow> lost_ok sl md handle all lost ch'"
  by (auto simp: lost_ok_def)

lemma exchange: "s + q = t + l \<Longrightarrow> s + k + (w + q) + r = t + k + w + (l + r)" for s q t l w r k :: "'b multiset"
  by (metis add.assoc add.commute add.left_commute)

lemma accounted_step:
  assumes "sdk_step sl md handle s s'" "accounted sl md handle all err s"
  shows "accounted sl md handle all err s'"
  using assms(1)
proof cases
  case (read l ls e ch qs)
  note a = serve_line_answers [OF read(3)]
  obtain lost where lost: "lost_ok sl md handle all lost (sd_channel s)"
    "mset (answered s) + mset (ids_of lost) + mset (ids_of (sd_workers s)) + mset (asked sl (l # ls)) = mset (asked sl all)"
    and acc: "e = err" "set (requests_in sl (l # ls)) \<union> set (sd_workers s) \<subseteq> set (requests_in sl all)"
      "\<forall>q \<in> set (sd_workers s). hp_method q \<noteq> ''plugin/initialize''"
    using assms(2) read(2) by (auto simp: accounted_def simp del: asked_simps)
  have "mset (answered s') + mset (ids_of lost) + mset (ids_of (sd_workers s')) + mset (asked sl ls) = mset (asked sl all)"
    using exchange [OF a(1)] read(1) unfolding lost(2) [symmetric] by (simp add: answered_def)
  moreover have "lost_ok sl md handle all lost (sd_channel s')" using lost_ok_log [OF lost(1) a(2)] read(1) by simp
  moreover have "set (requests_in sl ls) \<union> set (sd_workers s') \<subseteq> set (requests_in sl all)"
    "\<forall>q \<in> set (sd_workers s'). hp_method q \<noteq> ''plugin/initialize''"
    using acc(2,3) a(3) read(1) by auto
  moreover have "sd_phase s' = Reading ls e" using read(1) by simp
  ultimately show ?thesis using acc(1) unfolding accounted_def by auto
next
  case (fatal l ls e ch qs m)
  note f = serve_line_fatal [OF fatal(3)]
  have "mset (answered s) \<subseteq># mset (asked sl all)" "set (requests_in sl (l # ls)) \<subseteq> set (requests_in sl all)"
    using assms(2) fatal(2) by (auto simp: accounted_def add.assoc dest!: sym [where t = "mset (asked sl all)"]
        simp del: asked_simps)
  then have "broken sl md all (Some m)" using f(2) unfolding broken_def by fastforce
  then show ?thesis using fatal(1) f(1) \<open>mset (answered s) \<subseteq># mset (asked sl all)\<close>
    by (simp add: accounted_def answered_def)
next
  case (end_work ls e qs q qs' ch h)
  obtain lost where lost: "lost_ok sl md handle all lost (sd_channel s)"
    "mset (answered s) + mset (ids_of lost) + mset (ids_of (sd_workers s)) + mset (asked sl ls) = mset (asked sl all)"
    and acc: "e = err" "set (requests_in sl ls) \<union> set (sd_workers s) \<subseteq> set (requests_in sl all)"
      "\<forall>q \<in> set (sd_workers s). hp_method q \<noteq> ''plugin/initialize''"
    using assms(2) end_work(2) by (auto simp: accounted_def)
  have q: "hp_method q \<noteq> ''plugin/initialize''" "q \<in> set (requests_in sl all)" using acc(2,3) end_work(3) by auto
  have rest: "set (requests_in sl ls) \<union> set (sd_workers s') \<subseteq> set (requests_in sl all)"
    "\<forall>q \<in> set (sd_workers s'). hp_method q \<noteq> ''plugin/initialize''" "sd_phase s' = Reading ls e"
    using acc(2,3) end_work(1-3) by auto
  have "\<exists>lost. lost_ok sl md handle all lost (sd_channel s')
      \<and> mset (answered s') + mset (ids_of lost) + mset (ids_of (sd_workers s')) + mset (asked sl ls) = mset (asked sl all)"
    using work_answers [OF end_work(4) q(1), of md]
  proof
    assume a: "response_ids (ch_sent ch) = response_ids (ch_sent (sd_channel s)) @ ids_of [q]
        \<and> write_failures (sd_channel s) \<le> write_failures ch"
    then show ?thesis using lost lost_ok_log [OF lost(1), of ch] end_work(1,3)
      by (intro exI [of _ lost]) (auto simp: answered_def)
  next
    assume a: "hp_id q \<noteq> [] \<and> unwritable sl md handle q
        \<and> response_ids (ch_sent ch) = response_ids (ch_sent (sd_channel s))
        \<and> write_failures ch = Suc (write_failures (sd_channel s))"
    then have "lost_ok sl md handle all (q # lost) (sd_channel s')"
      using lost(1) q(2) end_work(1) by (simp add: lost_ok_def)
    moreover have "mset (answered s') + mset (ids_of (q # lost)) + mset (ids_of (sd_workers s')) + mset (asked sl ls)
        = mset (asked sl all)"
      using lost(2) a end_work(1,3) by (auto simp: answered_def)
    ultimately show ?thesis by blast
  qed
  then show ?thesis using rest acc(1) unfolding accounted_def by simp
next
  case (drained e)
  then show ?thesis using assms(2) by (auto simp: accounted_def answered_def)
qed

lemma accounted_start: "scan_input input = (ls, err) \<Longrightarrow> accounted sl md handle ls err (serve_start input h)"
  by (simp add: serve_start_def accounted_def answered_def lost_ok_def exI [of _ "[]"])

text \<open>No state but a final one is stuck, and steps only ever lower this number.\<close>

definition to_do :: "('r, 'h) sdk_server \<Rightarrow> nat" where
  "to_do s = (case sd_phase s of Reading ls _ \<Rightarrow> Suc (2 * length ls + length (sd_workers s)) | Returned _ \<Rightarrow> 0)"

lemma serve_line_one: "serve_line sl md l ch = (ch', qs, e) \<Longrightarrow> length qs \<le> 1"
  by (auto simp: serve_line_def Let_def split: sum.splits if_splits prod.splits option.splits)

lemma step_progress:
  assumes "sd_phase s = Reading ls e"
  shows "\<exists>s'. sdk_step sl md handle s s' \<and> to_do s' < to_do s"
proof (cases ls)
  case (Cons l ls')
  with assms have ph: "sd_phase s = Reading (l # ls') e" by simp
  obtain ch qs m where r: "serve_line sl md l (sd_channel s) = (ch, qs, m)" by (metis prod_cases3)
  show ?thesis
  proof (cases m)
    case None
    with r have "serve_line sl md l (sd_channel s) = (ch, qs, None)" by simp
    from sdk_step.read [OF ph this] show ?thesis
      by (rule_tac exI, rule_tac conjI) (use serve_line_one [OF r] ph in \<open>auto simp: to_do_def\<close>)
  next
    case (Some x)
    with r have "serve_line sl md l (sd_channel s) = (ch, qs, Some x)" by simp
    from sdk_step.fatal [OF ph this] show ?thesis
      by (rule_tac exI, rule_tac conjI) (use ph in \<open>auto simp: to_do_def\<close>)
  qed
next
  case Nil
  with assms have ph: "sd_phase s = Reading [] e" by simp
  show ?thesis
  proof (cases "sd_workers s")
    case (Cons q qs)
    then have ws: "sd_workers s = [] @ q # qs" by simp
    obtain ch h where w: "work sl handle q (sd_handler s) (sd_channel s) = (ch, h)" by fastforce
    from sdk_step.end_work [OF ph ws w] show ?thesis
      by (rule_tac exI, rule_tac conjI) (use ph ws in \<open>auto simp: to_do_def\<close>)
  next
    case Nil
    from sdk_step.drained [OF ph this] show ?thesis
      by (rule_tac exI, rule_tac conjI) (use ph in \<open>auto simp: to_do_def\<close>)
  qed
qed

interpretation serving: ending "sdk_step sl md handle" "accounted sl md handle all err" to_do
    "\<lambda>s. \<exists>r. sd_phase s = Returned r"
  for sl md handle all err
proof unfold_locales
  fix s s' assume "sdk_step sl md handle s s'" "accounted sl md handle all err s"
  then show "accounted sl md handle all err s'" by (rule accounted_step)
next
  fix s :: "('a, 'b) sdk_server" assume "\<nexists>r. sd_phase s = Returned r"
  then obtain ls e where "sd_phase s = Reading ls e" by (cases "sd_phase s") auto
  then show "\<exists>s'. sdk_step sl md handle s s' \<and> to_do s' < to_do s" by (rule step_progress)
qed

lemma answered_once: "accounted sl md handle all err s \<Longrightarrow> mset (answered s) \<subseteq># mset (asked sl all)"
  by (auto simp: accounted_def add.assoc dest!: sym [where t = "mset (asked sl all)"] split: phase.splits)

lemma ids_of_lost: "lost_ok sl md handle all lost ch \<Longrightarrow> ids_of lost = map hp_id lost"
  by (auto simp: lost_ok_def ids_of_def filter_id_conv)

text \<open>
  C4. The host gets one response for each request. Whatever order the goroutines end in, whatever
  the handler answers and whatever events it emits on the way, from every state \<open>Serve\<close> can reach
  it can go on to return (given that the handler itself returns), and at no time has it written a
  response nobody asked for or a second one. When it has returned, either an answer to
  \<open>plugin/initialize\<close> could not be written and \<open>Serve\<close> returns that error; or it returns the
  error of a line that is too long, after which nothing is read, if there is one, nothing is left
  in work, and every well-formed request it has read has its one response (a notification has
  none), but for those whose own answer could not be printed, is longer than 8 MB or was refused
  by the pipe, each of which is logged. So if no answer is like that, the ids of the responses
  are, each as often, those of the requests.
\<close>

theorem requests_answered:
  assumes "Serve md input h = Inr s0"
    and "scan_input input = (ls, err)"
    and "(sdk_step sl md handle)\<^sup>*\<^sup>* s0 s"
  shows "(\<exists>s' r. (sdk_step sl md handle)\<^sup>*\<^sup>* s s' \<and> sd_phase s' = Returned r)
    \<and> mset (answered s) \<subseteq># mset (asked sl ls)
    \<and> (case sd_phase s of
         Reading _ _ \<Rightarrow> True
       | Returned r \<Rightarrow>
           broken sl md ls r
           \<or> r = err \<and> sd_workers s = []
             \<and> (\<exists>lost. mset (answered s) + mset (map hp_id lost) = mset (asked sl ls)
                  \<and> length lost \<le> write_failures (sd_channel s)
                  \<and> (\<forall>q \<in> set lost. q \<in> set (requests_in sl ls) \<and> unwritable sl md handle q)))
    \<and> (\<forall>r. sd_phase s = Returned r \<and> (\<forall>q \<in> set (requests_in sl ls). \<not> unwritable sl md handle q) \<longrightarrow>
         r = err \<and> mset (answered s) = mset (asked sl ls))"
proof -
  have s0: "accounted sl md handle ls err s0"
    using assms(1,2) accounted_start [of input ls err sl md handle h] by (auto simp: Serve_def split: if_splits)
  have acc: "accounted sl md handle ls err s" by (rule serving.run_keeps [OF assms(3) s0])
  have ret: "broken sl md ls r \<or> r = err \<and> sd_workers s = []
      \<and> (\<exists>lost. mset (answered s) + mset (map hp_id lost) = mset (asked sl ls)
           \<and> length lost \<le> write_failures (sd_channel s)
           \<and> (\<forall>q \<in> set lost. q \<in> set (requests_in sl ls) \<and> unwritable sl md handle q))"
    if r: "sd_phase s = Returned r" for r
  proof (cases "broken sl md ls r")
    case False
    then obtain lost where "r = err" "sd_workers s = []" "lost_ok sl md handle ls lost (sd_channel s)"
      "mset (answered s) + mset (ids_of lost) = mset (asked sl ls)"
      using acc r by (auto simp: accounted_def)
    then show ?thesis using ids_of_lost by (metis lost_ok_def)
  qed blast
  have "r = err \<and> mset (answered s) = mset (asked sl ls)"
    if r: "sd_phase s = Returned r" and fit: "\<forall>q \<in> set (requests_in sl ls). \<not> unwritable sl md handle q" for r
  proof -
    have "\<not> broken sl md ls r"
    proof
      assume "broken sl md ls r"
      then obtain q ch e where "q \<in> set (requests_in sl ls)" "hp_method q = ''plugin/initialize''"
        "fst (respond sl (hp_id q) (initialize sl md (hp_params q)) ch) = Some e"
        unfolding broken_def by blast
      then have "unwritable sl md handle q" unfolding unwritable_def answer_of_def by auto
      then show False using fit \<open>q \<in> set (requests_in sl ls)\<close> by blast
    qed
    then obtain lost where l: "r = err" "mset (answered s) + mset (map hp_id lost) = mset (asked sl ls)"
      "\<forall>q \<in> set lost. q \<in> set (requests_in sl ls) \<and> unwritable sl md handle q"
      using ret [OF r] by blast
    then have "lost = []" using fit by (cases lost) auto
    then show ?thesis using l by simp
  qed
  then show ?thesis using serving.run_can_end [OF assms(3) s0] answered_once [OF acc] ret
    by (auto split: phase.split)
qed

text \<open>
  Two lines, a request to start and a method call. The results of the handler are JSON texts, and
  messages are printed as JSON; the host reads everything.
\<close>

definition sample_print :: "string message \<Rightarrow> string" where
  "sample_print m =
     (case m of
        Response i (Initialized v caps pid version) \<Rightarrow>
          ''{\"jsonrpc\":\"2.0\",\"id\":'' @ i @ '',\"result\":{\"protocolVersion\":'' @ format_int v
          @ '',\"capabilities\":['' @ join_with '','' (map (\<lambda>c. ''\"'' @ c @ ''\"'') caps)
          @ ''],\"plugin\":{\"id\":\"'' @ pid @ ''\",\"version\":\"'' @ version @ ''\"}}}''
      | Response i (Result r) \<Rightarrow> ''{\"jsonrpc\":\"2.0\",\"id\":'' @ i @ '',\"result\":'' @ r @ ''}''
      | Response i (Failure e) \<Rightarrow>
          ''{\"jsonrpc\":\"2.0\",\"id\":'' @ i @ '',\"error\":{\"code\":'' @ format_int (pe_code e)
          @ '',\"message\":\"'' @ pe_message e @ ''\"}}''
      | Event name params \<Rightarrow> ''{\"jsonrpc\":\"2.0\",\"method\":\"'' @ name @ ''\",\"params\":'' @ params @ ''}'')"

definition sample_sdk :: "string sdk_lib" where
  "sample_sdk =
     \<lparr>sl_request = (\<lambda>l. Inr \<lparr>hp_jsonrpc = ''2.0'', hp_id = l, hp_driver = [],
                     hp_method = (if l = ''1'' then ''plugin/initialize'' else ''kafka/topics/list''), hp_params = []\<rparr>),
      sl_versions = (\<lambda>_. Some [1]), sl_marshal = (\<lambda>m. Inr (sample_print m)), sl_write = (\<lambda>_. None)\<rparr>"

definition sample_metadata :: metadata where
  "sample_metadata = \<lparr>md_id = ''io.dbx.kafka'', md_version = ''1'', md_capabilities = [''events'']\<rparr>"

definition sample_handler :: "(string, nat) handler" where
  "sample_handler c name params h = ([(''kafka/audit'', ''{}'')], Inr ''[\"orders\"]'', Suc h)"

lemma sample_writes:
  "length (sample_print m) \<le> 1000 \<Longrightarrow> emitter_write sample_sdk m ch = (None, ch\<lparr>ch_sent := ch_sent ch @ [m]\<rparr>)"
  by (simp add: emitter_write_def sample_sdk_def maxJSONBytes_def)

lemma sample_lengths:
  "length (sample_print (Response ''1'' (Initialized 1 [''events''] ''io.dbx.kafka'' ''1''))) \<le> 1000"
  "length (sample_print (Event ''kafka/audit'' ''{}'')) \<le> 1000"
  "length (sample_print (Response ''2'' (Result ''[\"orders\"]''))) \<le> 1000"
  by (simp_all add: sample_print_def format_int_def nat_digits.simps)

definition sample_input :: string where
  "sample_input = ''1'' @ [CHR 0x0D, CHR 0x0A, CHR 0x0A] @ ''2'' @ [CHR 0x0A]"

definition sample_channel :: "string channel" where
  "sample_channel = \<lparr>ch_sent = [Response ''1'' (Initialized 1 [''events''] ''io.dbx.kafka'' ''1''),
                                Event ''kafka/audit'' ''{}'', Response ''2'' (Result ''[\"orders\"]'')], ch_log = []\<rparr>"

definition sample_final :: "(string, nat) sdk_server" where
  "sample_final = \<lparr>sd_phase = Returned None, sd_workers = [], sd_channel = sample_channel, sd_handler = 1\<rparr>"

lemma sample_scan: "scan_input sample_input = ([''1'', [], ''2''], None)"
  by (simp add: scan_input_def sample_input_def drop_cr_def maxJSONBytes_def)

lemma sample_trim: "trim_space ''1'' = ''1''" "trim_space ''2'' = ''2''"
  by (simp_all add: trim_space_graphic graphic_def)

lemma sample_names:
  "validProtocolName ''plugin/initialize''" "validProtocolName ''kafka/topics/list''"
  "validProtocolName ''kafka/audit''" "validProtocolName ''io.dbx.kafka''"
  by (simp_all add: validProtocolName_def name_start_def byte_in_def)

lemma sample_versions: "sl_versions sample_sdk p = Some [1]"
  by (simp add: sample_sdk_def)

lemma sample_decode:
  "decodeRequest sample_sdk ''1'' = Inr \<lparr>hp_jsonrpc = ''2.0'', hp_id = ''1'', hp_driver = [],
     hp_method = ''plugin/initialize'', hp_params = ''null''\<rparr>"
  "decodeRequest sample_sdk ''2'' = Inr \<lparr>hp_jsonrpc = ''2.0'', hp_id = ''2'', hp_driver = [],
     hp_method = ''kafka/topics/list'', hp_params = ''null''\<rparr>"
  by (simp_all add: decodeRequest_def sample_sdk_def sample_names)

lemma sample_run:
  "(sdk_step sample_sdk sample_metadata sample_handler)\<^sup>*\<^sup>* (serve_start sample_input 0) sample_final"
proof -
  let ?step = "sdk_step sample_sdk sample_metadata sample_handler"
  let ?q = "\<lparr>hp_jsonrpc = ''2.0'', hp_id = ''2'', hp_driver = [], hp_method = ''kafka/topics/list'', hp_params = ''null''\<rparr>"
  let ?c0 = "\<lparr>ch_sent = [], ch_log = []\<rparr> :: string channel"
  let ?c1 = "\<lparr>ch_sent = [Response ''1'' (Initialized 1 [''events''] ''io.dbx.kafka'' ''1'')], ch_log = []\<rparr> :: string channel"
  let ?s = "\<lambda>ph ws ch h. \<lparr>sd_phase = ph, sd_workers = ws, sd_channel = ch, sd_handler = h\<rparr> :: (string, nat) sdk_server"
  have start: "serve_start sample_input 0 = ?s (Reading [''1'', [], ''2''] None) [] ?c0 0"
    by (simp add: serve_start_def sample_scan)
  have l1: "serve_line sample_sdk sample_metadata ''1'' ?c0 = (?c1, [], None)"
    by (simp add: serve_line_def sample_trim sample_decode respond_def sample_writes sample_lengths initialize_def
          sample_metadata_def ProtocolVersion_def sample_versions Let_def)
  have l2: "serve_line sample_sdk sample_metadata [] ?c1 = (?c1, [], None)"
    by (simp add: serve_line_def)
  have l3: "serve_line sample_sdk sample_metadata ''2'' ?c1 = (?c1, [?q], None)"
    by (simp add: serve_line_def sample_trim sample_decode)
  have w: "work sample_sdk sample_handler ?q 0 ?c1 = (sample_channel, 1)"
    by (simp add: work_def sample_handler_def emit_all_def emitter_Event_def respond_def sample_writes sample_lengths
          sample_names sample_channel_def)
  have "?step (?s (Reading [''1'', [], ''2''] None) [] ?c0 0) (?s (Reading [[], ''2''] None) [] ?c1 0)"
    using sdk_step.read [of "?s (Reading [''1'', [], ''2''] None) [] ?c0 0" "''1''" "[[], ''2'']" None sample_sdk
        sample_metadata ?c1 "[]" sample_handler] l1 by simp
  moreover have "?step (?s (Reading [[], ''2''] None) [] ?c1 0) (?s (Reading [''2''] None) [] ?c1 0)"
    using sdk_step.read [of "?s (Reading [[], ''2''] None) [] ?c1 0" "[]" "[''2'']" None sample_sdk
        sample_metadata ?c1 "[]" sample_handler] l2 by simp
  moreover have "?step (?s (Reading [''2''] None) [] ?c1 0) (?s (Reading [] None) [?q] ?c1 0)"
    using sdk_step.read [of "?s (Reading [''2''] None) [] ?c1 0" "''2''" "[]" None sample_sdk
        sample_metadata ?c1 "[?q]" sample_handler] l3 by simp
  moreover have "?step (?s (Reading [] None) [?q] ?c1 0) (?s (Reading [] None) [] sample_channel 1)"
    using sdk_step.end_work [of "?s (Reading [] None) [?q] ?c1 0" "[]" None "[]" ?q "[]" sample_sdk sample_handler
        sample_channel 1 sample_metadata] w by simp
  moreover have "?step (?s (Reading [] None) [] sample_channel 1) sample_final"
    using sdk_step.drained [of "?s (Reading [] None) [] sample_channel 1" None sample_sdk sample_metadata sample_handler]
    by (simp add: sample_final_def)
  ultimately show ?thesis unfolding start by (intro converse_rtranclp_into_rtranclp [OF _ converse_rtranclp_into_rtranclp
    [OF _ converse_rtranclp_into_rtranclp [OF _ converse_rtranclp_into_rtranclp [OF _ r_into_rtranclp]]]])
qed

theorem requests_answered_witness:
  "mset (answered sample_final) = mset (asked sample_sdk [''1'', [], ''2'']) \<and> answered sample_final = [''1'', ''2'']"
proof -
  have s0: "Serve sample_metadata sample_input 0 = Inr (serve_start sample_input 0)"
    by (simp add: Serve_def sample_metadata_def sample_names)
  have qs: "requests_in sample_sdk [''1'', [], ''2''] =
      [\<lparr>hp_jsonrpc = ''2.0'', hp_id = ''1'', hp_driver = [], hp_method = ''plugin/initialize'', hp_params = ''null''\<rparr>,
       \<lparr>hp_jsonrpc = ''2.0'', hp_id = ''2'', hp_driver = [], hp_method = ''kafka/topics/list'', hp_params = ''null''\<rparr>]"
    by (simp add: line_requests_def sample_trim sample_decode)
  have init: "initialize sample_sdk sample_metadata p = Initialized 1 [''events''] ''io.dbx.kafka'' ''1''" for p
    by (simp add: initialize_def sample_versions ProtocolVersion_def sample_metadata_def)
  have "\<forall>q \<in> set (requests_in sample_sdk [''1'', [], ''2'']). \<not> unwritable sample_sdk sample_metadata sample_handler q"
    unfolding qs unwritable_def
    by (simp add: answer_of_def sample_handler_def init respond_def sample_writes sample_lengths)
  moreover have "sd_phase sample_final = Returned None" by (simp add: sample_final_def)
  ultimately have "mset (answered sample_final) = mset (asked sample_sdk [''1'', [], ''2''])"
    using requests_answered [OF s0 sample_scan sample_run] by blast
  then show ?thesis by (simp add: sample_final_def answered_def sample_channel_def)
qed

end
