(* ===== verification/FileStore.thy ===== *)
theory FileStore
  imports GoBytes GoJson
begin

text \<open>
  \<open>internal/store/store.go\<close>: the data directory of the plugin, its JSON files and the audit log. The
  files are a map from paths to contents; what the operating system answers (errors, how far a
  write got) is an argument. Paths are those of Unix.
\<close>

section \<open>Paths\<close>

text \<open>\<open>path/filepath.Clean\<close>, component by component; the components kept are in reverse.\<close>

fun clean_parts :: "bool \<Rightarrow> string list \<Rightarrow> string list \<Rightarrow> string list" where
  "clean_parts rooted kept [] = rev kept"
| "clean_parts rooted kept (p # ps) =
     (if p = [] \<or> p = ''.'' then clean_parts rooted kept ps
      else if p = ''..'' then
        (if kept \<noteq> [] \<and> hd kept \<noteq> ''..'' then clean_parts rooted (tl kept) ps
         else if rooted then clean_parts rooted kept ps
         else clean_parts rooted (p # kept) ps)
      else clean_parts rooted (p # kept) ps)"

definition path_clean :: "string \<Rightarrow> string" where
  "path_clean p =
     (let rooted = (take 1 p = ''/'');
          body = join_with ''/'' (clean_parts rooted [] (split_on (CHR ''/'') p))
      in if rooted then ''/'' @ body else if body = [] then ''.'' else body)"

definition path_join :: "string list \<Rightarrow> string" where
  "path_join ps =
     (let ps = dropWhile (\<lambda>p. p = []) ps in if ps = [] then [] else path_clean (join_with ''/'' ps))"

section \<open>The data directory\<close>

definition DefaultDirName :: string where
  "DefaultDirName = ''io.dbx.kafka''"

definition EnvDataDir :: string where
  "EnvDataDir = ''DBX_PLUGIN_DATA_DIR''"

definition EnvDataRoot :: string where
  "EnvDataRoot = ''DBX_DATA_DIR''"

definition resolveDataDir :: "string \<Rightarrow> (string \<Rightarrow> string) \<Rightarrow> string \<Rightarrow> string" where
  "resolveDataDir temp getenv goos =
     (let env = (\<lambda>k. trim_space (getenv k));
          fallback = path_join [temp, ''dbx-plugin-data'', DefaultDirName]
      in
      if env EnvDataDir \<noteq> [] then env EnvDataDir
      else if env EnvDataRoot \<noteq> [] then path_join [env EnvDataRoot, ''plugin-data'', DefaultDirName]
      else if goos = ''darwin'' then
        (if env ''HOME'' \<noteq> []
         then path_join [env ''HOME'', ''Library'', ''Application Support'', ''dbx-plugin-data'', DefaultDirName]
         else fallback)
      else if goos = ''windows'' then
        (if env ''APPDATA'' \<noteq> [] then path_join [env ''APPDATA'', ''dbx-plugin-data'', DefaultDirName] else fallback)
      else if env ''XDG_DATA_HOME'' \<noteq> []
      then path_join [env ''XDG_DATA_HOME'', ''dbx-plugin-data'', DefaultDirName]
      else if env ''HOME'' \<noteq> []
      then path_join [env ''HOME'', ''.local'', ''share'', ''dbx-plugin-data'', DefaultDirName]
      else fallback)"

text \<open>The store is its directory. \<open>mkdir\<close> is what \<open>os.MkdirAll\<close> gave.\<close>

definition OpenAt :: "goerr option \<Rightarrow> string \<Rightarrow> string res" where
  "OpenAt mkdir dir =
     (if trim_space dir = [] then Inl (Errf ''store: data dir is required'' [])
      else case mkdir of Some e \<Rightarrow> Inl (Wrapf ''store: create data dir: %w'' [] e) | None \<Rightarrow> Inr dir)"

definition Open :: "goerr option \<Rightarrow> string \<Rightarrow> (string \<Rightarrow> string) \<Rightarrow> string \<Rightarrow> string res" where
  "Open mkdir temp getenv goos = OpenAt mkdir (resolveDataDir temp getenv goos)"

section \<open>JSON files\<close>

type_synonym files = "string \<Rightarrow> string option"

text \<open>
  What reading gives: \<open>read\<close> is an error other than that the file does not exist. \<open>None\<close> in the
  result: there is no file and the destination keeps its value.
\<close>

definition LoadJSON :: "(string \<Rightarrow> 'a res) \<Rightarrow> goerr option \<Rightarrow> string \<Rightarrow> string \<Rightarrow> files \<Rightarrow> 'a option res" where
  "LoadJSON unmarshal read dir name fs =
     (case read of
        Some e \<Rightarrow> Inl (Wrapf ''store: read %s: %w'' [name] e)
      | None \<Rightarrow>
          (case fs (path_join [dir, name]) of
             None \<Rightarrow> Inr None
           | Some data \<Rightarrow>
               (case unmarshal data of
                  Inl e \<Rightarrow> Inl (Wrapf ''store: parse %s: %w'' [name] e)
                | Inr v \<Rightarrow> Inr (Some v))))"

text \<open>
  How a write and a rename end. Writing truncates the file and then goes through contents that
  are beginnings of the data; after an error it stays at one of them.
\<close>

record save_faults =
  sx_lengths :: "nat list"
  sx_write :: "goerr option"
  sx_rename :: "goerr option"
  sx_removed :: bool                    \<comment> \<open>whether the temporary file could be removed\<close>

text \<open>
  \<open>SaveJSON\<close> with all states of the files it goes through, the last one being the final one: if
  the process dies, one of them is what is left.
\<close>

definition SaveJSON ::
  "('a \<Rightarrow> string res) \<Rightarrow> save_faults \<Rightarrow> string \<Rightarrow> string \<Rightarrow> 'a \<Rightarrow> files \<Rightarrow> unit res \<times> files list" where
  "SaveJSON marshal sx dir name v fs =
     (case marshal v of
        Inl e \<Rightarrow> (Inl (Wrapf ''store: encode %s: %w'' [name] e), [fs])
      | Inr data \<Rightarrow>
          (let data = data @ [CHR 0x0A]; path = path_join [dir, name]; tmp = path @ ''.tmp'';
               writing = fs # map (\<lambda>n. fs(tmp \<mapsto> take n data)) (0 # sx_lengths sx)
           in case sx_write sx of
                Some e \<Rightarrow> (Inl (Wrapf ''store: write %s: %w'' [name] e), writing)
              | None \<Rightarrow>
                  (let written = fs(tmp \<mapsto> data) in
                   case sx_rename sx of
                     Some e \<Rightarrow> (Inl (Wrapf ''store: rename %s: %w'' [name] e),
                                writing @ [written, if sx_removed sx then written(tmp := None) else written])
                   | None \<Rightarrow> (Inr (), writing @ [written, written(tmp := None, path \<mapsto> data)]))))"

definition LoadPrefs :: "(string \<Rightarrow> json_obj res) \<Rightarrow> goerr option \<Rightarrow> string \<Rightarrow> files \<Rightarrow> json_obj res" where
  "LoadPrefs unmarshal read dir fs =
     (case LoadJSON unmarshal read dir ''prefs.json'' fs of
        Inl e \<Rightarrow> Inl e
      | Inr None \<Rightarrow> Inr []
      | Inr (Some prefs) \<Rightarrow> Inr prefs)"

definition SavePrefs ::
  "(json_obj \<Rightarrow> string res) \<Rightarrow> save_faults \<Rightarrow> string \<Rightarrow> json_obj option \<Rightarrow> files \<Rightarrow> unit res \<times> files list" where
  "SavePrefs marshal sx dir prefs fs =
     SaveJSON marshal sx dir ''prefs.json'' (case prefs of None \<Rightarrow> [] | Some m \<Rightarrow> m) fs"

section \<open>The audit log\<close>

record audit_line =
  al_time :: string
  al_connection :: string
  al_action :: string
  al_target :: string
  al_result :: string
  al_source :: string

definition audit_filled :: "string \<Rightarrow> audit_line \<Rightarrow> audit_line" where
  "audit_filled now r =
     (let r = (if trim_space (al_time r) = [] then r\<lparr>al_time := now\<rparr> else r)
      in if trim_space (al_result r) = [] then r\<lparr>al_result := ''ok''\<rparr> else r)"

text \<open>\<open>open\<close> is the error of opening the file; \<open>write\<close> that of writing, with the bytes written before it.\<close>

definition AppendAudit ::
  "(audit_line \<Rightarrow> string res) \<Rightarrow> goerr option \<Rightarrow> (goerr \<times> nat) option \<Rightarrow> string \<Rightarrow> string \<Rightarrow> audit_line \<Rightarrow> files
     \<Rightarrow> unit res \<times> files" where
  "AppendAudit marshal open_error write now dir r fs =
     (let r = audit_filled now r in
      case marshal r of
        Inl e \<Rightarrow> (Inl (Wrapf ''store: encode audit record: %w'' [] e), fs)
      | Inr line \<Rightarrow>
          (let path = path_join [dir, ''audit.jsonl''];
               old = (case fs path of None \<Rightarrow> [] | Some t \<Rightarrow> t)
           in case open_error of
                Some e \<Rightarrow> (Inl (Wrapf ''store: open audit.jsonl: %w'' [] e), fs)
              | None \<Rightarrow>
                  (case write of
                     Some (e, n) \<Rightarrow>
                       (Inl (Wrapf ''store: append audit.jsonl: %w'' [] e),
                        fs(path \<mapsto> old @ take n (line @ [CHR 0x0A])))
                   | None \<Rightarrow> (Inr (), fs(path \<mapsto> old @ line @ [CHR 0x0A])))))"

text \<open>The records up to the first line that does not parse, and its error.\<close>

fun audit_lines :: "(string \<Rightarrow> audit_line res) \<Rightarrow> string list \<Rightarrow> audit_line list \<times> goerr option" where
  "audit_lines unmarshal [] = ([], None)"
| "audit_lines unmarshal (l # ls) =
     (if trim_space l = [] then audit_lines unmarshal ls
      else case unmarshal l of
        Inl e \<Rightarrow> ([], Some (Wrapf ''store: parse audit line: %w'' [] e))
      | Inr r \<Rightarrow> (case audit_lines unmarshal ls of (rs, e) \<Rightarrow> (r # rs, e)))"

definition ReadAuditLines ::
  "(string \<Rightarrow> audit_line res) \<Rightarrow> goerr option \<Rightarrow> string \<Rightarrow> files \<Rightarrow> audit_line list \<times> goerr option" where
  "ReadAuditLines unmarshal read dir fs =
     (case read of
        Some e \<Rightarrow> ([], Some e)
      | None \<Rightarrow>
          (case fs (path_join [dir, ''audit.jsonl'']) of
             None \<Rightarrow> ([], None)
           | Some data \<Rightarrow> audit_lines unmarshal (split_on (CHR 0x0A) (trim_space data))))"

section \<open>Saving is atomic\<close>

text \<open>
  C23. Saving a file is atomic: in every state the file system goes through, so also when the process
  dies at any point or an operation fails, the file has either its old content (or still does not
  exist) or the complete new one; after an error it has the old one, after a success the new one,
  and no other file but the temporary one is touched.
\<close>

theorem save_atomic:
  "case SaveJSON marshal sx dir name v fs of (r, states) \<Rightarrow>
     list_all (\<lambda>st.
        (st (path_join [dir, name]) = fs (path_join [dir, name])
         \<or> (\<exists>data. marshal v = Inr data \<and> st (path_join [dir, name]) = Some (data @ [CHR 0x0A])))
        \<and> {p. st p \<noteq> fs p} \<subseteq> {path_join [dir, name], path_join [dir, name] @ ''.tmp''}) states
     \<and> (last states) (path_join [dir, name]) =
         (case r of
            Inl _ \<Rightarrow> fs (path_join [dir, name])
          | Inr _ \<Rightarrow> map_option (\<lambda>data. data @ [CHR 0x0A]) (case marshal v of Inl _ \<Rightarrow> None | Inr d \<Rightarrow> Some d))"
  by (auto simp: SaveJSON_def Let_def list_all_iff last_map split: sum.splits option.splits if_splits)

section \<open>The audit log is complete\<close>

text \<open>
  What \<open>encoding/json\<close> does with a record of strings that satisfy \<open>fine\<close> (valid UTF-8): it prints an
  object on one line and reads it back.
\<close>

definition audit_format ::
  "(audit_line \<Rightarrow> string res) \<Rightarrow> (string \<Rightarrow> audit_line res) \<Rightarrow> (audit_line \<Rightarrow> bool) \<Rightarrow> bool" where
  "audit_format marshal unmarshal fine \<longleftrightarrow>
     (\<forall>r. fine r \<longrightarrow>
        (case marshal r of
           Inl _ \<Rightarrow> False
         | Inr l \<Rightarrow> unmarshal l = Inr r \<and> l \<noteq> [] \<and> hd l = CHR ''{'' \<and> last l = CHR ''}'' \<and> CHR 0x0A \<notin> set l))"

text \<open>Records appended one after the other, each with its time and the error of opening the file.\<close>

fun append_each ::
  "(audit_line \<Rightarrow> string res) \<Rightarrow> string \<Rightarrow> (goerr option \<times> string \<times> audit_line) list \<Rightarrow> files \<Rightarrow> bool list \<times> files" where
  "append_each marshal dir [] fs = ([], fs)"
| "append_each marshal dir ((e, now, r) # ops) fs =
     (case AppendAudit marshal e None now dir r fs of
        (res, fs) \<Rightarrow> (case append_each marshal dir ops fs of (oks, fs) \<Rightarrow> (is_ok res # oks, fs)))"

definition audit_path :: "string \<Rightarrow> string" where
  "audit_path dir = path_join [dir, ''audit.jsonl'']"

definition audit_text :: "(audit_line \<Rightarrow> string res) \<Rightarrow> audit_line list \<Rightarrow> string" where
  "audit_text marshal rs = concat (map (\<lambda>r. case marshal r of Inl _ \<Rightarrow> [] | Inr l \<Rightarrow> l @ [CHR 0x0A]) rs)"

lemma newline_encoding:
  "list_all (\<lambda>w. w \<noteq> [] \<and> (last w = CHR 0x0A \<longrightarrow> w = [CHR 0x0A])) space_encodings
   \<and> [CHR 0x0A] \<in> set space_encodings"
  by (simp add: space_encodings_def char_of_def bit_Suc_0_iff)

lemma space_head_newline: "space_head (map rev space_encodings) (CHR 0x0A # s) = 1"
proof (cases "find (\<lambda>w. prefix w (CHR 0x0A # s)) (map rev space_encodings)")
  case None
  then show ?thesis using newline_encoding by (force simp: find_None_iff)
next
  case (Some w)
  then have w: "prefix w (CHR 0x0A # s)" "w \<in> set (map rev space_encodings)"
    unfolding find_Some_iff by (auto intro: nth_mem)
  from w(2) have "w \<noteq> [] \<and> (hd w = CHR 0x0A \<longrightarrow> w = [CHR 0x0A])"
    using newline_encoding unfolding list_all_iff by (auto simp: hd_rev)
  then have "w = [CHR 0x0A]" using w(1) by (cases w) auto
  then show ?thesis using Some by (simp add: space_head_def)
qed

lemma trim_space_newline:
  assumes "s \<noteq> []" "graphic (hd s)" "graphic (last s)"
  shows "trim_space (s @ [CHR 0x0A]) = s"
proof -
  have enc: "\<forall>w \<in> set space_encodings. w \<noteq> [] \<and> \<not> graphic (hd w) \<and> \<not> graphic (last w)"
    using space_encodings_not_graphic by (simp add: list_all_iff)
  have left: "trim_left (s @ [CHR 0x0A]) = s @ [CHR 0x0A]"
    unfolding trim_left_def using assms enc by (intro strip_spaces_graphic) auto
  have head: "space_head (map rev space_encodings) (CHR 0x0A # rev s) = 1"
    by (rule space_head_newline)
  have "strip_spaces (map rev space_encodings) (rev s) = rev s"
    using assms enc by (intro strip_spaces_graphic) (auto simp: hd_rev)
  then have "strip_spaces (map rev space_encodings) (CHR 0x0A # rev s) = rev s"
    by (subst strip_spaces.simps) (simp add: head)
  then show ?thesis by (simp add: trim_space_def left) (simp add: trim_right_def)
qed

lemma audit_line_of:
  assumes "audit_format marshal unmarshal fine" "fine r"
  shows "\<exists>l. marshal r = Inr l \<and> unmarshal l = Inr r \<and> l \<noteq> [] \<and> hd l = CHR ''{'' \<and> last l = CHR ''}''
    \<and> CHR 0x0A \<notin> set l"
  using assms unfolding audit_format_def by (cases "marshal r") force+

text \<open>The text of a log is its lines with the line feeds between them, and one at the end.\<close>

lemma audit_text_lines:
  assumes "audit_format marshal unmarshal fine" "list_all fine rs" "rs \<noteq> []"
  shows "\<exists>ls. audit_text marshal rs = join_with [CHR 0x0A] ls @ [CHR 0x0A] \<and> ls \<noteq> []
    \<and> list_all2 (\<lambda>l r. unmarshal l = Inr r) ls rs
    \<and> list_all (\<lambda>l. l \<noteq> [] \<and> hd l = CHR ''{'' \<and> last l = CHR ''}'' \<and> CHR 0x0A \<notin> set l) ls"
  using assms(2,3)
proof (induction rs)
  case (Cons r rs)
  then obtain l where l: "marshal r = Inr l" "unmarshal l = Inr r" "l \<noteq> []" "hd l = CHR ''{''" "last l = CHR ''}''"
    "CHR 0x0A \<notin> set l"
    using audit_line_of [OF assms(1), of r] by auto
  show ?case
  proof (cases "rs = []")
    case True
    then show ?thesis by (intro exI [of _ "[l]"]) (simp add: audit_text_def l)
  next
    case False
    moreover have "list_all fine rs" using Cons.prems(1) by simp
    ultimately obtain ls where "audit_text marshal rs = join_with [CHR 0x0A] ls @ [CHR 0x0A]" "ls \<noteq> []"
      "list_all2 (\<lambda>l r. unmarshal l = Inr r) ls rs"
      "list_all (\<lambda>l. l \<noteq> [] \<and> hd l = CHR ''{'' \<and> last l = CHR ''}'' \<and> CHR 0x0A \<notin> set l) ls"
      using Cons.IH by blast
    then show ?thesis
      by (intro exI [of _ "l # ls"]) (simp add: audit_text_def join_with_Cons l)
  qed
qed simp

lemma audit_lines_read:
  "list_all2 (\<lambda>l r. unmarshal l = Inr r) ls rs \<Longrightarrow>
   list_all (\<lambda>l. l \<noteq> [] \<and> hd l = CHR ''{'' \<and> last l = CHR ''}'' \<and> CHR 0x0A \<notin> set l) ls \<Longrightarrow>
   audit_lines unmarshal ls = (rs, None)"
proof (induction ls rs rule: list_all2_induct)
  case (Cons l ls r rs)
  then have "trim_space l = l" by (simp add: trim_space_graphic graphic_def)
  then show ?case using Cons by simp
qed simp

lemma join_ends:
  "ls \<noteq> [] \<Longrightarrow> list_all (\<lambda>l. l \<noteq> [] \<and> hd l = a \<and> last l = b \<and> c \<notin> set l) ls \<Longrightarrow>
     join_with [c] ls \<noteq> [] \<and> hd (join_with [c] ls) = a \<and> last (join_with [c] ls) = b"
proof (induction ls)
  case (Cons l ls)
  then show ?case by (cases "ls = []") (simp_all add: join_with_Cons)
qed simp

lemma audit_text_read:
  assumes "audit_format marshal unmarshal fine" "list_all fine rs"
  shows "audit_lines unmarshal (split_on (CHR 0x0A) (trim_space (audit_text marshal rs))) = (rs, None)"
proof (cases "rs = []")
  case True
  then show ?thesis by (simp add: audit_text_def)
next
  case False
  then obtain ls where ls: "audit_text marshal rs = join_with [CHR 0x0A] ls @ [CHR 0x0A]" "ls \<noteq> []"
    "list_all2 (\<lambda>l r. unmarshal l = Inr r) ls rs"
    "list_all (\<lambda>l. l \<noteq> [] \<and> hd l = CHR ''{'' \<and> last l = CHR ''}'' \<and> CHR 0x0A \<notin> set l) ls"
    using audit_text_lines [OF assms] by blast
  have "join_with [CHR 0x0A] ls \<noteq> [] \<and> hd (join_with [CHR 0x0A] ls) = CHR ''{'' \<and> last (join_with [CHR 0x0A] ls) = CHR ''}''"
    using join_ends [OF ls(2,4)] .
  then have "trim_space (audit_text marshal rs) = join_with [CHR 0x0A] ls"
    using trim_space_newline [of "join_with [CHR 0x0A] ls"] ls(1) by (simp add: graphic_def)
  moreover have "split_on (CHR 0x0A) (join_with [CHR 0x0A] ls) = ls"
    using ls(2,4) by (intro split_on_join) (auto simp: list_all_iff)
  ultimately show ?thesis using audit_lines_read [OF ls(3,4)] by simp
qed

definition audit_holds :: "(audit_line \<Rightarrow> string res) \<Rightarrow> string \<Rightarrow> audit_line list \<Rightarrow> files \<Rightarrow> bool" where
  "audit_holds marshal dir rs fs \<longleftrightarrow>
     (case fs (audit_path dir) of None \<Rightarrow> rs = [] | Some t \<Rightarrow> t = audit_text marshal rs)"

text \<open>The records of the operations that open the file, as they are written.\<close>

definition appended :: "(goerr option \<times> string \<times> audit_line) list \<Rightarrow> audit_line list" where
  "appended ops = map (\<lambda>(_, now, r). audit_filled now r) (filter (\<lambda>op. fst op = None) ops)"

lemma append_holds:
  assumes "audit_format marshal unmarshal fine" "fine (audit_filled now r)" "audit_holds marshal dir rs fs"
  shows "(is_ok (fst (AppendAudit marshal e None now dir r fs)) \<longleftrightarrow> e = None)
     \<and> audit_holds marshal dir (if e = None then rs @ [audit_filled now r] else rs)
         (snd (AppendAudit marshal e None now dir r fs))"
proof -
  obtain l where "marshal (audit_filled now r) = Inr l" using audit_line_of [OF assms(1,2)] by blast
  then show ?thesis
    using assms(3)
    by (auto simp: AppendAudit_def audit_holds_def audit_path_def audit_text_def split: option.splits)
qed

lemma append_each_holds:
  assumes "audit_format marshal unmarshal fine"
  shows "audit_holds marshal dir rs fs \<Longrightarrow> list_all (\<lambda>(_, now, r). fine (audit_filled now r)) ops \<Longrightarrow>
    append_each marshal dir ops fs = (oks, fs') \<Longrightarrow>
    oks = map (\<lambda>op. fst op = None) ops \<and> audit_holds marshal dir (rs @ appended ops) fs'"
proof (induction ops arbitrary: rs fs oks fs')
  case (Cons op ops)
  obtain e now r where op: "op = (e, now, r)" by (cases op)
  obtain res fs1 where a: "AppendAudit marshal e None now dir r fs = (res, fs1)" by fastforce
  obtain oks1 fs2 where b: "append_each marshal dir ops fs1 = (oks1, fs2)" by fastforce
  have ok: "is_ok res \<longleftrightarrow> e = None"
    and h: "audit_holds marshal dir (if e = None then rs @ [audit_filled now r] else rs) fs1"
    using append_holds [OF assms, of now r dir rs fs e] Cons.prems(1,2) op a by simp_all
  have "oks1 = map (\<lambda>op. fst op = None) ops
      \<and> audit_holds marshal dir ((if e = None then rs @ [audit_filled now r] else rs) @ appended ops) fs2"
    using Cons.IH [OF h _ b] Cons.prems(2) by simp
  then show ?case using Cons.prems(3) op a b ok by (auto simp: appended_def)
qed (simp add: appended_def)

text \<open>
  C22. The audit log is complete and in order: starting without a log, after any sequence of
  appends, of which some may fail to open the file, \<open>ReadAuditLines\<close> returns exactly the records
  whose append reported success, each with its time and result filled in, and no error.
\<close>

theorem audit_log_complete:
  assumes "audit_format marshal unmarshal fine"
    and "fs (path_join [dir, ''audit.jsonl'']) = None"
    and "list_all (\<lambda>(_, now, r). fine (audit_filled now r)) ops"
    and "append_each marshal dir ops fs = (oks, fs')"
  shows "ReadAuditLines unmarshal None dir fs'
           = (map (\<lambda>((_, now, r), _). audit_filled now r) (filter snd (zip ops oks)), None)"
proof -
  have h: "oks = map (\<lambda>op. fst op = None) ops" "audit_holds marshal dir (appended ops) fs'"
    using append_each_holds [OF assms(1), of dir "[]" fs ops oks fs'] assms by (auto simp: audit_holds_def audit_path_def)
  have "map (\<lambda>((_, now, r), _). audit_filled now r) (filter snd (zip ops oks)) = appended ops"
    unfolding h(1) appended_def by (induction ops) auto
  moreover have "list_all fine (appended ops)"
    using assms(3) by (auto simp: appended_def list_all_iff)
  ultimately show ?thesis
    using h(2) audit_text_read [OF assms(1)]
    by (auto simp: ReadAuditLines_def audit_holds_def audit_path_def split: option.splits)
qed

text \<open>Records that differ in their target only, printed as an object around it.\<close>

definition sample_line :: "string \<Rightarrow> audit_line" where
  "sample_line t = \<lparr>al_time = ''t'', al_connection = ''c'', al_action = ''a'', al_target = t, al_result = ''ok'', al_source = []\<rparr>"

definition sample_fine :: "audit_line \<Rightarrow> bool" where
  "sample_fine r \<longleftrightarrow> r = sample_line (al_target r) \<and> CHR 0x0A \<notin> set (al_target r)"

lemma sample_format:
  "audit_format (\<lambda>r. Inr (''{'' @ al_target r @ ''}'')) (\<lambda>l. Inr (sample_line (butlast (tl l)))) sample_fine"
  by (auto simp: audit_format_def sample_fine_def butlast_append)

theorem audit_log_complete_witness:
  "ReadAuditLines (\<lambda>l. Inr (sample_line (butlast (tl l)))) None ''/d''
     (snd (append_each (\<lambda>r. Inr (''{'' @ al_target r @ ''}'')) ''/d''
        [(None, ''t'', sample_line ''x''), (Some (Ext ''full''), ''t'', sample_line ''y''), (None, ''t'', sample_line ''z'')]
        (\<lambda>_. None)))
   = ([sample_line ''x'', sample_line ''z''], None)"
proof -
  let ?m = "\<lambda>r. Inr (''{'' @ al_target r @ ''}'') :: string res"
  let ?ops = "[(None, ''t'', sample_line ''x''), (Some (Ext ''full''), ''t'', sample_line ''y''), (None, ''t'', sample_line ''z'')]"
  have fill: "audit_filled ''t'' (sample_line t) = sample_line t" for t
    by (simp add: audit_filled_def sample_line_def trim_space_graphic graphic_def)
  have fine: "list_all (\<lambda>(_, now, r). sample_fine (audit_filled now r)) ?ops"
    by (simp add: fill) (simp add: sample_fine_def sample_line_def)
  obtain oks fs' where r: "append_each ?m ''/d'' ?ops (\<lambda>_. None) = (oks, fs')" by fastforce
  then have "oks = [True, False, True]"
    by (auto simp: AppendAudit_def split: prod.splits)
  then show ?thesis
    using audit_log_complete [OF sample_format _ fine r] r by (simp add: fill)
qed

end
