(* ===== verification/HostMethods.thy ===== *)
theory HostMethods
  imports McpTools KafkaExport KafkaWrites HostProtocol FileStore
begin

text \<open>
  \<open>backend/main.go\<close>: the methods the host calls, over the service and the MCP server. The
  parameters of a request are a text; what \<open>json.Unmarshal\<close> makes of it for the struct of each
  method is a field of \<open>decode_lib\<close>. A result is a value of \<open>reply\<close>, one constructor for each
  shape of result. What brokers, registries, clocks and files answer to one request is the
  record \<open>host_env\<close>.
\<close>

section \<open>Replies, decoders, state\<close>

datatype reply =
    RSuccess
  | RTested string
  | RBrokers "broker_info list \<times> string"
  | RConfigs "config_entry list"
  | RTopics "topic_info list"
  | RTopic "string \<times> partition_info list"
  | RMutations "mutation_result list"
  | ROffsets "listed list"
  | RCleared "clear_row list"
  | RGroups "group_meta list"
  | RGroup group_detail
  | RGroupOffsets group_offsets
  | RReset "reset_row list"
  | RAcls "acl_binding list"
  | RProduced "kgo_record \<times> string"
  | RConsumed consume_result
  | RExported export_result
  | RStarted stream_status
  | RStatus stream_status
  | RPage "stream_page option"      \<comment> \<open>\<open>None\<close>: the call panicked and the process ends\<close>
  | RPresets "preset list"
  | RPreset preset
  | RStatuses "connection_status list"
  | RSchemaTest "int \<times> string \<times> string list \<times> string"
  | RSubjects "subject_info list"
  | RVersions "version_info list"
  | RSchema schema_text
  | RCompared "string \<times> int \<times> int \<times> diff_hunk list \<times> diff_summary"
  | RCompatibility "string \<times> string"
  | RChecked "bool \<times> string list"
  | RRegistered "int \<times> int \<times> string"
  | RDeleted "int list"
  | RTools "json_obj list \<times> (string \<times> string) list option"
  | RContent string
  | RSettings response
  | RAudit audit_record
  | RIntent "string \<times> string \<times> json_obj"
  | RBatch string "consumed_message list" int int bool
  | RStreamError string string

text \<open>The connection id comes first where the struct has one.\<close>

record decode_lib =
  dl_lifecycle :: "string \<Rightarrow> lc_params res"
  dl_connection :: "string \<Rightarrow> string res"
  dl_broker :: "string \<Rightarrow> (string \<times> int) res"
  dl_topics :: "string \<Rightarrow> (string \<times> bool) res"
  dl_topic :: "string \<Rightarrow> (string \<times> string) res"
  dl_topics_create :: "string \<Rightarrow> topics_create_request res"
  dl_topics_delete :: "string \<Rightarrow> topics_delete_request res"
  dl_partitions :: "string \<Rightarrow> (string \<times> (string \<times> int) list) res"
  dl_config_alter :: "string \<Rightarrow> (string \<times> string \<times> (string \<times> string) list \<times> string list) res"
  dl_topic_offsets :: "string \<Rightarrow> (string \<times> string list \<times> string) res"
  dl_records_clear :: "string \<Rightarrow> records_clear_request res"
  dl_group :: "string \<Rightarrow> (string \<times> string) res"
  dl_group_offsets :: "string \<Rightarrow> (string \<times> string \<times> string list) res"
  dl_offsets_reset :: "string \<Rightarrow> offset_reset_request res"
  dl_acl_filter :: "string \<Rightarrow> (string \<times> acl_filter) res"
  dl_acl :: "string \<Rightarrow> (string \<times> acl_binding) res"
  dl_produce :: "string \<Rightarrow> produce_request res"
  dl_consume :: "string \<Rightarrow> consume_params res"
  dl_export :: "string \<Rightarrow> (consume_params \<times> string \<times> int) res"
  dl_stream_stop :: "string \<Rightarrow> (string \<times> bool) res"
  dl_session :: "string \<Rightarrow> string res"
  dl_stream_messages :: "string \<Rightarrow> (string \<times> int \<times> int) res"
  dl_preset :: "string \<Rightarrow> preset res"
  dl_preset_id :: "string \<Rightarrow> string res"
  dl_map :: "string \<Rightarrow> json_obj option res"
  dl_mcp_call :: "string \<Rightarrow> (string \<times> string \<times> string) res"
  dl_schema :: "string \<Rightarrow> (string \<times> string) res"
  dl_subject :: "string \<Rightarrow> (string \<times> string \<times> string) res"
  dl_schema_get :: "string \<Rightarrow> (string \<times> string \<times> int \<times> string) res"
  dl_compare :: "string \<Rightarrow> (string \<times> string \<times> int \<times> int \<times> string) res"
  dl_compat_set :: "string \<Rightarrow> compatibility_request res"
  dl_compat_check :: "string \<Rightarrow> check_request res"
  dl_register :: "string \<Rightarrow> register_request res"
  dl_schema_delete :: "string \<Rightarrow> delete_request res"

record host_lib =
  hl_mcp :: mcp_lib
  hl_decode :: decode_lib
  hl_marshal :: "response \<Rightarrow> string + string"

record ('w, 'n, 'm) host_env =
  he_mcp :: "('w, 'n, 'm) mcp_env"
  he_registry :: "'w registry_lib"
  he_rfc3339 :: "string \<Rightarrow> int option"
  he_save_presets :: "preset list \<Rightarrow> goerr option"
  he_save_settings :: "goerr option"
  he_stamp :: string
  he_indent :: "json \<Rightarrow> string"
  he_test_client :: "test_opt client_opt list \<Rightarrow> nat res"
  he_test_brokers :: "nat \<Rightarrow> int res"
  he_elapsed :: string

text \<open>The service is the one of the MCP server; the presets are what loading the file gives.\<close>

record 'w plugin =
  pg_mcp :: "'w mcp_server"
  pg_presets :: "preset list res option"

abbreviation pg_service :: "'w plugin \<Rightarrow> 'w service" where
  "pg_service s \<equiv> mc_service (pg_mcp s)"

definition set_service :: "'w service \<Rightarrow> 'w plugin \<Rightarrow> 'w plugin" where
  "set_service sv s = s\<lparr>pg_mcp := (pg_mcp s)\<lparr>mc_service := sv\<rparr>\<rparr>"

text \<open>Presets as their file holds them; without a file there are none.\<close>

definition LoadPresets :: "preset list option option res \<Rightarrow> preset list res" where
  "LoadPresets loaded =
     (case loaded of
        Inl e \<Rightarrow> Inl e
      | Inr None \<Rightarrow> Inr []
      | Inr (Some None) \<Rightarrow> Inr []
      | Inr (Some (Some ps)) \<Rightarrow> Inr ps)"

definition preset_access :: "('w, 'n, 'm) host_env \<Rightarrow> 'w plugin \<Rightarrow> preset_store option" where
  "preset_access en s = map_option (\<lambda>l. \<lparr>pt_load = l, pt_save = he_save_presets en\<rparr>) (pg_presets s)"

section \<open>Errors and parameters\<close>

text \<open>\<open>errors.As\<close> looks through the verb w only.\<close>

fun is_param_error :: "goerr \<Rightarrow> bool" where
  "is_param_error (InvalidParams _ _) = True"
| "is_param_error (Wrapf f _ e) = (sublist ''%w'' f \<and> is_param_error e)"
| "is_param_error _ = False"

definition invalidParams :: "host_lib \<Rightarrow> goerr \<Rightarrow> plugin_error" where
  "invalidParams hl e = NewError (-32602) (error_text (hl_mcp hl) e)"

definition bizError :: "host_lib \<Rightarrow> goerr \<Rightarrow> plugin_error" where
  "bizError hl e =
     (if is_param_error e then NewError (-32602) (error_text (hl_mcp hl) e)
      else NewError (-32000) (error_text (hl_mcp hl) e))"

definition decodeParams :: "host_lib \<Rightarrow> (decode_lib \<Rightarrow> string \<Rightarrow> 'a res) \<Rightarrow> string \<Rightarrow> plugin_error + 'a" where
  "decodeParams hl decode params =
     (case decode (hl_decode hl) params of
        Inl e \<Rightarrow> Inl (invalidParams hl e)
      | Inr req \<Rightarrow>
          if dl_connection (hl_decode hl) params = Inr [] then Inl (NewError (-32602) ''Missing connectionId'')
          else Inr req)"

definition requireSessionID :: "host_lib \<Rightarrow> string \<Rightarrow> plugin_error + string" where
  "requireSessionID hl params =
     (case dl_session (hl_decode hl) params of
        Inl e \<Rightarrow> Inl (invalidParams hl e)
      | Inr sid \<Rightarrow> if trim_space sid = [] then Inl (NewError (-32602) ''Missing sessionId'') else Inr (trim_space sid))"

definition zero_lifecycle :: lc_params where
  "zero_lifecycle =
     \<lparr>lp_provider_id = [], lp_database_type = [],
      lp_connection = \<lparr>lc_id = [], lc_name = [], lc_host = [], lc_port = 0, lc_username = [], lc_password = [],
        lc_read_only = False, ExternalConfig = (\<lambda>_. None), Secrets = (\<lambda>_. None)\<rparr>,
      lp_runtime = \<lparr>rt_host = [], rt_port = 0, rt_proxy = None\<rparr>, lp_operation_id = []\<rparr>"

definition lifecycle_Parse :: "decode_lib \<Rightarrow> string \<Rightarrow> lc_params res" where
  "lifecycle_Parse dl raw =
     (if raw = [] then Inr zero_lifecycle
      else case dl_lifecycle dl raw of
        Inl e \<Rightarrow> Inl (Wrapf ''parse lifecycle params: %w'' [] e)
      | Inr p \<Rightarrow> Inr p)"

section \<open>The shape of a method\<close>

type_synonym 'w reply_outcome = "(plugin_error + reply) \<times> 'w plugin"

text \<open>The parameters, or the error they give.\<close>

definition with_params :: "plugin_error + 'a \<Rightarrow> ('a \<Rightarrow> 'w plugin \<Rightarrow> 'w reply_outcome) \<Rightarrow> 'w plugin \<Rightarrow> 'w reply_outcome" where
  "with_params r k s = (case r of Inl e \<Rightarrow> (Inl e, s) | Inr x \<Rightarrow> k x s)"

text \<open>A call of the service and what becomes of its result.\<close>

definition service_call ::
  "host_lib \<Rightarrow> ('a \<Rightarrow> reply) \<Rightarrow> ('w service \<Rightarrow> 'a res \<times> 'w service) \<Rightarrow> 'w plugin \<Rightarrow> 'w reply_outcome" where
  "service_call hl wrap call s =
     (case call (pg_service s) of
        (Inl e, sv) \<Rightarrow> (Inl (bizError hl e), set_service sv s)
      | (Inr x, sv) \<Rightarrow> (Inr (wrap x), set_service sv s))"

text \<open>A call on the pool of clients, and one on the stream sessions.\<close>

definition on_pool :: "(pool \<Rightarrow> 'a res \<times> pool) \<Rightarrow> 'w service \<Rightarrow> 'a res \<times> 'w service" where
  "on_pool f sv = (case f (sv_pool sv) of (r, p) \<Rightarrow> (r, sv\<lparr>sv_pool := p\<rparr>))"

definition on_streams :: "(stream_registry \<Rightarrow> 'a res \<times> stream_registry) \<Rightarrow> 'w service \<Rightarrow> 'a res \<times> 'w service" where
  "on_streams f sv = (case f (sv_streams sv) of (r, x) \<Rightarrow> (r, sv\<lparr>sv_streams := x\<rparr>))"

type_synonym ('w, 'n, 'm) host_method = "host_lib \<Rightarrow> ('w, 'n, 'm) host_env \<Rightarrow> string \<Rightarrow> 'w plugin \<Rightarrow> 'w reply_outcome"

abbreviation he_client :: "('w, 'n, 'm) host_env \<Rightarrow> client_env" where
  "he_client en \<equiv> me_client (he_mcp en)"

abbreviation he_admin :: "('w, 'n, 'm) host_env \<Rightarrow> 'w admin_lib" where
  "he_admin en \<equiv> me_admin (he_mcp en)"

section \<open>Connections\<close>

definition h_connectionTest :: "('w, 'n, 'm) host_method" where
  "h_connectionTest hl en params s =
     (case lifecycle_Parse (hl_decode hl) params of
        Inl e \<Rightarrow> (Inl (invalidParams hl e), s)
      | Inr parsed \<Rightarrow>
          if ConnectionID parsed = [] then (Inl (NewError (-32602) ''Missing connection.id''), s)
          else (case fst (TestConnection (ml_json (hl_mcp hl)) (cv_net (he_client en)) (he_test_client en) (he_test_brokers en)
                       (he_elapsed en) (error_text (hl_mcp hl)) parsed) of
            Inl e \<Rightarrow> (Inl (bizError hl e), s)
          | Inr message \<Rightarrow> (Inr (RTested message), s)))"

definition h_connectionConnect :: "('w, 'n, 'm) host_method" where
  "h_connectionConnect hl en params s =
     (case lifecycle_Parse (hl_decode hl) params of
        Inl e \<Rightarrow> (Inl (invalidParams hl e), s)
      | Inr parsed \<Rightarrow> service_call hl (\<lambda>_. RSuccess) (Connect (ml_json (hl_mcp hl)) parsed) s)"

definition h_connectionDisconnect :: "('w, 'n, 'm) host_method" where
  "h_connectionDisconnect hl en params s =
     (case lifecycle_Parse (hl_decode hl) params of
        Inl e \<Rightarrow> (Inl (invalidParams hl e), s)
      | Inr parsed \<Rightarrow>
          if ConnectionID parsed = [] then (Inl (NewError (-32602) ''Missing connection id''), s)
          else (Inr RSuccess, set_service (Disconnect (ConnectionID parsed) (pg_service s)) s))"

section \<open>Brokers, topics, groups, ACLs\<close>

definition h_brokersList :: "('w, 'n, 'm) host_method" where
  "h_brokersList hl en params =
     with_params (decodeParams hl dl_connection params) (\<lambda>conn. service_call hl RBrokers
       (ListBrokers (he_client en) (he_admin en) conn))"

definition h_brokersConfig :: "('w, 'n, 'm) host_method" where
  "h_brokersConfig hl en params =
     with_params (decodeParams hl dl_broker params) (\<lambda>(conn, i). service_call hl RConfigs
       (DescribeBrokerConfig (he_client en) (he_admin en) conn i))"

definition h_topicsList :: "('w, 'n, 'm) host_method" where
  "h_topicsList hl en params =
     with_params (decodeParams hl dl_topics params) (\<lambda>(conn, internal). service_call hl RTopics
       (ListTopics (he_client en) (he_admin en) conn internal))"

definition h_topicsDescribe :: "('w, 'n, 'm) host_method" where
  "h_topicsDescribe hl en params =
     with_params (decodeParams hl dl_topic params) (\<lambda>(conn, topic). service_call hl RTopic
       (DescribeTopic (he_client en) (he_admin en) conn topic))"

definition h_topicsCreate :: "('w, 'n, 'm) host_method" where
  "h_topicsCreate hl en params =
     with_params (decodeParams hl dl_topics_create params) (\<lambda>req. service_call hl RMutations
       (CreateTopics (he_client en) (he_admin en) req))"

definition h_topicsDelete :: "('w, 'n, 'm) host_method" where
  "h_topicsDelete hl en params =
     with_params (decodeParams hl dl_topics_delete params) (\<lambda>req. service_call hl RMutations
       (DeleteTopics (he_client en) (he_admin en) req))"

definition h_partitionsUpdate :: "('w, 'n, 'm) host_method" where
  "h_partitionsUpdate hl en params =
     with_params (decodeParams hl dl_partitions params) (\<lambda>(conn, ps). service_call hl RMutations
       (UpdatePartitions (he_client en) (he_admin en) conn ps))"

definition h_topicConfigGet :: "('w, 'n, 'm) host_method" where
  "h_topicConfigGet hl en params =
     with_params (decodeParams hl dl_topic params) (\<lambda>(conn, topic). service_call hl RConfigs
       (GetTopicConfig (he_client en) (he_admin en) conn topic))"

definition h_topicConfigAlter :: "('w, 'n, 'm) host_method" where
  "h_topicConfigAlter hl en params =
     with_params (decodeParams hl dl_config_alter params) (\<lambda>(conn, topic, set_to, unset). service_call hl RMutations
       (AlterTopicConfig (he_client en) (he_admin en) conn topic set_to unset))"

definition h_topicOffsetsList :: "('w, 'n, 'm) host_method" where
  "h_topicOffsetsList hl en params =
     with_params (decodeParams hl dl_topic_offsets params) (\<lambda>(conn, topics, offset_at). service_call hl ROffsets
       (ListTopicOffsets (he_client en) (he_admin en) (he_rfc3339 en) conn topics offset_at))"

definition h_topicsRecordsClear :: "('w, 'n, 'm) host_method" where
  "h_topicsRecordsClear hl en params =
     with_params (decodeParams hl dl_records_clear params) (\<lambda>req. service_call hl RCleared
       (ClearTopicRecords (he_client en) (he_admin en) req))"

definition h_groupsList :: "('w, 'n, 'm) host_method" where
  "h_groupsList hl en params =
     with_params (decodeParams hl dl_connection params) (\<lambda>conn. service_call hl RGroups
       (ListGroups (he_client en) (he_admin en) conn))"

definition h_groupsDescribe :: "('w, 'n, 'm) host_method" where
  "h_groupsDescribe hl en params =
     with_params (decodeParams hl dl_group params) (\<lambda>(conn, group). service_call hl RGroup
       (DescribeGroup (he_client en) (he_admin en) conn group))"

definition h_groupOffsetsList :: "('w, 'n, 'm) host_method" where
  "h_groupOffsetsList hl en params =
     with_params (decodeParams hl dl_group_offsets params) (\<lambda>(conn, group, topics). service_call hl RGroupOffsets
       (GetGroupOffsets (he_client en) (he_admin en) conn group topics))"

definition h_groupDelete :: "('w, 'n, 'm) host_method" where
  "h_groupDelete hl en params =
     with_params (decodeParams hl dl_group params) (\<lambda>(conn, group). service_call hl (\<lambda>_. RSuccess)
       (DeleteGroup (he_client en) (he_admin en) conn group))"

definition h_groupOffsetsReset :: "('w, 'n, 'm) host_method" where
  "h_groupOffsetsReset hl en params =
     with_params (decodeParams hl dl_offsets_reset params) (\<lambda>req. service_call hl RReset
       (ResetGroupOffsets (he_client en) (he_admin en) (me_targets (he_mcp en)) req))"

definition h_aclsList :: "('w, 'n, 'm) host_method" where
  "h_aclsList hl en params =
     with_params (decodeParams hl dl_acl_filter params) (\<lambda>(conn, f). service_call hl RAcls
       (ListACLs (he_client en) (he_admin en) conn f))"

definition h_aclsCreate :: "('w, 'n, 'm) host_method" where
  "h_aclsCreate hl en params =
     with_params (decodeParams hl dl_acl params) (\<lambda>(conn, a). service_call hl (\<lambda>_. RSuccess)
       (CreateACL (he_client en) (he_admin en) conn a))"

definition h_aclsDelete :: "('w, 'n, 'm) host_method" where
  "h_aclsDelete hl en params =
     with_params (decodeParams hl dl_acl_filter params) (\<lambda>(conn, f). service_call hl RAcls
       (DeleteACLs (he_client en) (he_admin en) conn f))"

section \<open>Messages and streams\<close>

definition h_messagesProduce :: "('w, 'n, 'm) host_method" where
  "h_messagesProduce hl en params =
     with_params (decodeParams hl dl_produce params) (\<lambda>req. service_call hl RProduced
       (Produce (he_client en) (me_produce (he_mcp en)) req))"

definition h_messagesConsume :: "('w, 'n, 'm) host_method" where
  "h_messagesConsume hl en params =
     with_params (decodeParams hl dl_consume params) (\<lambda>p. service_call hl RConsumed
       (on_pool (consumeMessages (me_consume (he_mcp en)) p)))"

definition h_messagesExport :: "('w, 'n, 'm) host_method" where
  "h_messagesExport hl en params =
     with_params (decodeParams hl dl_export params) (\<lambda>(p, format, limit). service_call hl RExported
       (on_pool (Export (he_indent en) (he_stamp en) (me_consume (he_mcp en)) p format limit)))"

definition h_streamStart :: "('w, 'n, 'm) host_method" where
  "h_streamStart hl en params =
     with_params (decodeParams hl dl_consume params) (\<lambda>p. service_call hl RStarted
       (StartStream (he_client en) (en_tx (me_consume (he_mcp en))) (he_rfc3339 en) (me_now (he_mcp en)) p))"

definition h_streamStop :: "('w, 'n, 'm) host_method" where
  "h_streamStop hl en params s =
     (case dl_stream_stop (hl_decode hl) params of
        Inl e \<Rightarrow> (Inl (invalidParams hl e), s)
      | Inr (sid, all) \<Rightarrow>
          if \<not> all \<and> trim_space sid = [] then (Inl (NewError (-32602) ''Missing sessionId (or all=true)''), s)
          else (Inr RSuccess,
                set_service ((pg_service s)\<lparr>sv_streams := StopStream sid all (sv_streams (pg_service s))\<rparr>) s))"

definition h_streamPause :: "('w, 'n, 'm) host_method" where
  "h_streamPause hl en params =
     with_params (requireSessionID hl params) (\<lambda>sid. service_call hl RStatus (on_streams (PauseStream sid)))"

definition h_streamResume :: "('w, 'n, 'm) host_method" where
  "h_streamResume hl en params =
     with_params (requireSessionID hl params) (\<lambda>sid. service_call hl RStatus (on_streams (ResumeStream sid)))"

definition h_streamStatus :: "('w, 'n, 'm) host_method" where
  "h_streamStatus hl en params =
     with_params (requireSessionID hl params) (\<lambda>sid. service_call hl RStatus (on_streams (\<lambda>x. (Status sid x, x))))"

text \<open>
  \<open>Page\<close> can panic; then the handler does not return, no response is sent and the process ends.
  Here it is the result \<open>RPage None\<close>.
\<close>

definition h_streamMessages :: "('w, 'n, 'm) host_method" where
  "h_streamMessages hl en params =
     with_params (decodeParams hl dl_stream_messages params) (\<lambda>(sid, offset, limit). service_call hl RPage
       (on_streams (\<lambda>x. (StreamMessages sid offset limit x, x))))"

section \<open>Presets and statuses\<close>

definition h_presetsList :: "('w, 'n, 'm) host_method" where
  "h_presetsList hl en params s =
     (case ListPresets (preset_access en s) of
        Inl e \<Rightarrow> (Inl (bizError hl e), s)
      | Inr presets \<Rightarrow> (Inr (RPresets presets), s))"

definition h_presetsSave :: "('w, 'n, 'm) host_method" where
  "h_presetsSave hl en params s =
     (case dl_preset (hl_decode hl) params of
        Inl e \<Rightarrow> (Inl (invalidParams hl e), s)
      | Inr p \<Rightarrow>
          (case SavePreset (me_fresh (he_mcp en)) (preset_access en s) p of
             Inl e \<Rightarrow> (Inl (bizError hl e), s)
           | Inr (preset, saved) \<Rightarrow> (Inr (RPreset preset), s\<lparr>pg_presets := Some (Inr saved)\<rparr>)))"

definition h_presetsRemove :: "('w, 'n, 'm) host_method" where
  "h_presetsRemove hl en params s =
     (case dl_preset_id (hl_decode hl) params of
        Inl e \<Rightarrow> (Inl (invalidParams hl e), s)
      | Inr i \<Rightarrow>
          if i = [] then (Inl (NewError (-32602) ''Missing preset id''), s)
          else (case RemovePreset (preset_access en s) i of
             Inl e \<Rightarrow> (Inl (bizError hl e), s)
           | Inr saved \<Rightarrow> (Inr RSuccess, s\<lparr>pg_presets := Some (Inr saved)\<rparr>)))"

definition h_connectionStatuses :: "('w, 'n, 'm) host_method" where
  "h_connectionStatuses hl en params s = (Inr (RStatuses (SnapshotStatuses (pg_service s))), s)"

section \<open>Schema registries\<close>

definition h_schemaTest :: "('w, 'n, 'm) host_method" where
  "h_schemaTest hl en params =
     with_params (decodeParams hl dl_schema params) (\<lambda>(conn, registry). service_call hl RSchemaTest
       (TestSchema (he_client en) (he_registry en) conn registry))"

definition h_schemaSubjectsList :: "('w, 'n, 'm) host_method" where
  "h_schemaSubjectsList hl en params =
     with_params (decodeParams hl dl_schema params) (\<lambda>(conn, registry). service_call hl RSubjects
       (ListSchemaSubjects (he_client en) (he_registry en) conn registry))"

definition h_schemaVersionsList :: "('w, 'n, 'm) host_method" where
  "h_schemaVersionsList hl en params =
     with_params (decodeParams hl dl_subject params) (\<lambda>(conn, subject, registry). service_call hl RVersions
       (ListSchemaVersions (he_client en) (he_registry en) conn subject registry))"

definition h_schemaGet :: "('w, 'n, 'm) host_method" where
  "h_schemaGet hl en params =
     with_params (decodeParams hl dl_schema_get params) (\<lambda>(conn, subject, version, registry). service_call hl RSchema
       (GetSchema (he_client en) (he_registry en) conn subject version registry))"

definition h_schemaVersionsCompare :: "('w, 'n, 'm) host_method" where
  "h_schemaVersionsCompare hl en params =
     with_params (decodeParams hl dl_compare params) (\<lambda>(conn, subject, from_v, to_v, registry). service_call hl RCompared
       (CompareSchemaVersions (he_client en) (he_registry en) conn subject from_v to_v registry))"

definition h_schemaCompatibilityGet :: "('w, 'n, 'm) host_method" where
  "h_schemaCompatibilityGet hl en params =
     with_params (decodeParams hl dl_subject params) (\<lambda>(conn, subject, registry). service_call hl RCompatibility
       (GetSchemaCompatibility (he_client en) (he_registry en) conn subject registry))"

definition h_schemaCompatibilitySet :: "('w, 'n, 'm) host_method" where
  "h_schemaCompatibilitySet hl en params =
     with_params (decodeParams hl dl_compat_set params) (\<lambda>req. service_call hl RCompatibility
       (SetSchemaCompatibility (he_client en) (he_registry en) req))"

definition h_schemaCompatibilityCheck :: "('w, 'n, 'm) host_method" where
  "h_schemaCompatibilityCheck hl en params =
     with_params (decodeParams hl dl_compat_check params) (\<lambda>req. service_call hl RChecked
       (CheckSchemaCompatibility (he_client en) (he_registry en) req))"

definition h_schemaRegister :: "('w, 'n, 'm) host_method" where
  "h_schemaRegister hl en params =
     with_params (decodeParams hl dl_register params) (\<lambda>req. service_call hl RRegistered
       (RegisterSchema (he_client en) (he_registry en) req))"

definition h_schemaDelete :: "('w, 'n, 'm) host_method" where
  "h_schemaDelete hl en params =
     with_params (decodeParams hl dl_schema_delete params) (\<lambda>req. service_call hl RDeleted
       (DeleteSchema (he_client en) (he_registry en) req))"

definition h_schemaDeleteVersion :: "('w, 'n, 'm) host_method" where
  "h_schemaDeleteVersion hl en params =
     with_params (decodeParams hl dl_schema_delete params) (\<lambda>req s.
       if dq_version req \<le> 0 then (Inl (NewError (-32602) ''version is required''), s)
       else service_call hl RDeleted (DeleteSchema (he_client en) (he_registry en) req) s)"

section \<open>The MCP methods\<close>

text \<open>A call of the MCP server.\<close>

definition mcp_outcome :: "host_lib \<Rightarrow> ('a \<Rightarrow> reply) \<Rightarrow> 'a res \<times> 'w mcp_server \<Rightarrow> 'w plugin \<Rightarrow> 'w reply_outcome" where
  "mcp_outcome hl wrap r s =
     (case r of
        (Inl e, m) \<Rightarrow> (Inl (bizError hl e), s\<lparr>pg_mcp := m\<rparr>)
      | (Inr x, m) \<Rightarrow> (Inr (wrap x), s\<lparr>pg_mcp := m\<rparr>))"

definition h_uiStateReport :: "('w, 'n, 'm) host_method" where
  "h_uiStateReport hl en params s =
     (case dl_map (hl_decode hl) params of
        Inl e \<Rightarrow> (Inl (invalidParams hl e), s)
      | Inr body \<Rightarrow>
          mcp_outcome hl (\<lambda>_. RSuccess)
            (ReportUIState (me_now (he_mcp en)) (case body of None \<Rightarrow> [] | Some m \<Rightarrow> m) (pg_mcp s)) s)"

text \<open>Parameters that do not parse leave the connection id empty.\<close>

definition h_mcpTools :: "('w, 'n, 'm) host_method" where
  "h_mcpTools hl en params s =
     (let conn = (case dl_connection (hl_decode hl) params of Inl _ \<Rightarrow> [] | Inr c \<Rightarrow> c)
      in (Inr (RTools (tools_listed (trim_space conn) (pg_mcp s))), s))"

definition h_mcpCall :: "('w, 'n, 'm) host_method" where
  "h_mcpCall hl en params s =
     (case dl_mcp_call (hl_decode hl) params of
        Inl e \<Rightarrow> (Inl (invalidParams hl e), s)
      | Inr (tool, arguments, lifecycle) \<Rightarrow>
          if trim_space tool = [] then (Inl (NewError (-32602) ''Missing tool''), s)
          else
            (case (if lifecycle = [] then (Inr (), s)
                   else case lifecycle_Parse (hl_decode hl) lifecycle of
                     Inl e \<Rightarrow> (Inl (invalidParams hl e), s)
                   | Inr parsed \<Rightarrow>
                       (case Connect (ml_json (hl_mcp hl)) parsed (pg_service s) of
                          (Inl e, sv) \<Rightarrow> (Inl (bizError hl e), set_service sv s)
                        | (Inr _, sv) \<Rightarrow> (Inr (), set_service sv s))) of
               (Inl e, s) \<Rightarrow> (Inl e, s)
             | (Inr _, s) \<Rightarrow>
                 (case (if arguments = [] then Inr None else dl_map (hl_decode hl) arguments) of
                    Inl e \<Rightarrow> (Inl (invalidParams hl e), s)
                  | Inr args \<Rightarrow>
                      (case Call (he_mcp en) (hl_mcp hl) (trim_space tool) args (pg_mcp s) of
                         (Inl e, m) \<Rightarrow> (Inl (bizError hl e), s\<lparr>pg_mcp := m\<rparr>)
                       | (Inr r, m) \<Rightarrow>
                           (case hl_marshal hl r of
                              Inl e \<Rightarrow> (Inl (NewError (-32603) e), s\<lparr>pg_mcp := m\<rparr>)
                            | Inr payload \<Rightarrow> (Inr (RContent payload), s\<lparr>pg_mcp := m\<rparr>))))))"

definition h_mcpSettingsGet :: "('w, 'n, 'm) host_method" where
  "h_mcpSettingsGet hl en params s = (Inr (RSettings (SettingsGet (pg_mcp s))), s)"

definition h_mcpSettingsSet :: "('w, 'n, 'm) host_method" where
  "h_mcpSettingsSet hl en params s =
     (case dl_map (hl_decode hl) params of
        Inl e \<Rightarrow> (Inl (invalidParams hl e), s)
      | Inr body \<Rightarrow> mcp_outcome hl RSettings (SettingsSet (he_save_settings en) body (pg_mcp s)) s)"

section \<open>Dispatch\<close>

definition host_methods :: "(string \<times> ('w, 'n, 'm) host_method) list" where
  "host_methods =
    [(''connection/test'', h_connectionTest),
     (''connection/connect'', h_connectionConnect),
     (''connection/disconnect'', h_connectionDisconnect),
     (''kafka/brokers/list'', h_brokersList),
     (''kafka/brokers/config'', h_brokersConfig),
     (''kafka/topics/list'', h_topicsList),
     (''kafka/topics/describe'', h_topicsDescribe),
     (''kafka/topics/create'', h_topicsCreate),
     (''kafka/topics/delete'', h_topicsDelete),
     (''kafka/topics/partitions/update'', h_partitionsUpdate),
     (''kafka/topics/config/get'', h_topicConfigGet),
     (''kafka/topics/config/alter'', h_topicConfigAlter),
     (''kafka/topics/offsets/list'', h_topicOffsetsList),
     (''kafka/topics/records/clear'', h_topicsRecordsClear),
     (''kafka/groups/list'', h_groupsList),
     (''kafka/groups/describe'', h_groupsDescribe),
     (''kafka/groups/offsets/list'', h_groupOffsetsList),
     (''kafka/groups/delete'', h_groupDelete),
     (''kafka/groups/offsets/reset'', h_groupOffsetsReset),
     (''kafka/acls/list'', h_aclsList),
     (''kafka/acls/create'', h_aclsCreate),
     (''kafka/acls/delete'', h_aclsDelete),
     (''kafka/messages/produce'', h_messagesProduce),
     (''kafka/messages/consume'', h_messagesConsume),
     (''kafka/messages/export'', h_messagesExport),
     (''kafka/stream/start'', h_streamStart),
     (''kafka/stream/stop'', h_streamStop),
     (''kafka/stream/pause'', h_streamPause),
     (''kafka/stream/resume'', h_streamResume),
     (''kafka/stream/status'', h_streamStatus),
     (''kafka/stream/messages'', h_streamMessages),
     (''kafka/presets/list'', h_presetsList),
     (''kafka/presets/save'', h_presetsSave),
     (''kafka/presets/remove'', h_presetsRemove),
     (''kafka/connections/statuses'', h_connectionStatuses),
     (''kafka/ui/state/report'', h_uiStateReport),
     (''mcp/tools'', h_mcpTools),
     (''mcp/call'', h_mcpCall),
     (''mcp/settings/get'', h_mcpSettingsGet),
     (''mcp/settings/set'', h_mcpSettingsSet),
     (''kafka/schema/test'', h_schemaTest),
     (''kafka/schema/subjects/list'', h_schemaSubjectsList),
     (''kafka/schema/versions/list'', h_schemaVersionsList),
     (''kafka/schema/get'', h_schemaGet),
     (''kafka/schema/versions/compare'', h_schemaVersionsCompare),
     (''kafka/schema/compatibility/get'', h_schemaCompatibilityGet),
     (''kafka/schema/compatibility/set'', h_schemaCompatibilitySet),
     (''kafka/schema/compatibility/check'', h_schemaCompatibilityCheck),
     (''kafka/schema/register'', h_schemaRegister),
     (''kafka/schema/delete'', h_schemaDelete),
     (''kafka/schema/delete/version'', h_schemaDeleteVersion)]"

definition handle_method :: "host_lib \<Rightarrow> ('w, 'n, 'm) host_env \<Rightarrow> string \<Rightarrow> string \<Rightarrow> 'w plugin \<Rightarrow> 'w reply_outcome" where
  "handle_method hl en name params s =
     (case map_of host_methods name of
        None \<Rightarrow> (Inl (MethodNotFound name), s)
      | Some m \<Rightarrow> m hl en params s)"

section \<open>Audit records and events\<close>

definition auditAction :: "string \<Rightarrow> string" where
  "auditAction action = (if prefix ''kafka/'' action then action else ''kafka/'' @ action)"

definition auditResultForStore :: "string \<Rightarrow> string" where
  "auditResultForStore result =
     (if result = ''success'' then ''ok'' else if result = ''blocked'' then ''denied'' else result)"

text \<open>The line of the audit log; its time is filled in when it is appended.\<close>

definition audit_store_line :: "audit_record \<Rightarrow> audit_line" where
  "audit_store_line r =
     \<lparr>al_time = [], al_connection = au_connection r, al_action = auditAction (au_action r), al_target = au_target r,
      al_result = auditResultForStore (au_result r), al_source = au_source r\<rparr>"

definition new_audits :: "'w plugin \<Rightarrow> 'w plugin \<Rightarrow> audit_record list" where
  "new_audits s s' = drop (length (sv_audit (pg_service s))) (sv_audit (pg_service s'))"

definition new_intents :: "'w plugin \<Rightarrow> 'w plugin \<Rightarrow> (string \<times> string \<times> json_obj) list" where
  "new_intents s s' = drop (length (mc_emitted (pg_mcp s))) (mc_emitted (pg_mcp s'))"

text \<open>
  \<open>Handle\<close> as the handler of \<open>HostProtocol\<close>: its state is the plugin with what the outside will
  answer to the requests still to come.
\<close>

definition Handle :: "host_lib \<Rightarrow> (nat \<Rightarrow> ('w, 'n, 'm) host_env) \<Rightarrow> (reply, nat \<times> 'w plugin) handler" where
  "Handle hl ens c name params st =
     (case st of (n, s) \<Rightarrow>
        (case handle_method hl (ens n) name params s of (r, s') \<Rightarrow>
           (map (\<lambda>a. (''kafka/audit'', RAudit a)) (new_audits s s')
              @ map (\<lambda>i. (''kafka/ui/intent'', RIntent i)) (new_intents s s'),
            r, (Suc n, s'))))"

text \<open>
  The callback of the service: a line of the log, if there is a store, and the event, if a request
  has set the emitter already. Failures of either go to the log of the process.
\<close>

definition auditRecord ::
  "reply sdk_lib \<Rightarrow> (string \<times> (audit_line \<Rightarrow> string res) \<times> goerr option \<times> (goerr \<times> nat) option \<times> string) option
     \<Rightarrow> bool \<Rightarrow> audit_record \<Rightarrow> files \<times> reply channel \<Rightarrow> files \<times> reply channel" where
  "auditRecord sl audit_log emitting r st =
     (let (fs, ch) = st;
          fs = (case audit_log of
                  None \<Rightarrow> fs
                | Some (dir, marshal, open_error, write, now) \<Rightarrow>
                    snd (AppendAudit marshal open_error write now dir (audit_store_line r) fs));
          ch = (if emitting then snd (emitter_Event sl ''kafka/audit'' (RAudit r) ch) else ch)
      in (fs, ch))"

fun stream_emit :: "host_lib \<Rightarrow> reply sdk_lib \<Rightarrow> bool \<Rightarrow> stream_event \<Rightarrow> reply channel \<Rightarrow> reply channel" where
  "stream_emit hl sl emitting (EmitStreamMessages sid ms scanned matched paused) ch =
     (if emitting then snd (emitter_Event sl ''kafka/stream/messages'' (RBatch sid ms scanned matched paused) ch) else ch)"
| "stream_emit hl sl emitting (EmitStreamError sid e) ch =
     (if emitting then snd (emitter_Event sl ''kafka/stream/error'' (RStreamError sid (error_text (hl_mcp hl) e)) ch) else ch)"

section \<open>The process\<close>

definition mcpStdioRequested :: "string list \<Rightarrow> bool" where
  "mcpStdioRequested args = list_ex (\<lambda>a. a = ''--mcp'') args"

definition plugin_metadata :: "string \<Rightarrow> metadata" where
  "plugin_metadata version =
     \<lparr>md_id = ''io.dbx.kafka'', md_version = version, md_capabilities = [''connections'', ''events'']\<rparr>"

text \<open>The end of \<open>main\<close> once \<open>Serve\<close> has returned: \<open>log.Fatal\<close> does not run what is deferred.\<close>

definition plugin_exit :: "string option \<Rightarrow> 'w plugin \<Rightarrow> 'w plugin" where
  "plugin_exit err s =
     (case err of
        None \<Rightarrow> set_service (CloseAll (pg_service s)) s
      | Some _ \<Rightarrow> s)"

end
