(* ===== verification/ConnTable.thy ===== *)
theory ConnTable
  imports McpPhases KafkaWrites
begin

text \<open>
  The table of connections, seen as a map from ids to profiles and secrets: which methods leave it
  alone (all but connecting and disconnecting), and what these two do to it.
\<close>

section \<open>What calls do to the connection table\<close>

text \<open>The profile and the secrets under each id; the rest of an entry is the state of its client.\<close>

definition conn_table :: "'w service \<Rightarrow> string \<Rightarrow> (profile \<times> conn_secrets) option" where
  "conn_table sv i = map_option (\<lambda>e. (ce_profile e, ce_secrets e)) (map_of (sv_conns sv) i)"

lemma conn_table_cong [simp]:
  "conn_table (sv\<lparr>sv_closed := x\<rparr>) = conn_table sv" "conn_table (sv\<lparr>sv_world := w\<rparr>) = conn_table sv"
  "conn_table (sv\<lparr>sv_audit := a\<rparr>) = conn_table sv" "conn_table (sv\<lparr>sv_streams := y\<rparr>) = conn_table sv"
  "conn_table (sv\<lparr>sv_pool := p\<rparr>) = conn_table sv"
  by (simp_all add: conn_table_def fun_eq_iff)

lemma adminClientLocked_core:
  "adminClientLocked cv e = (r, e', cs) \<Longrightarrow> ce_profile e' = ce_profile e \<and> ce_secrets e' = ce_secrets e"
  by (auto simp: adminClientLocked_def Let_def split: option.splits sum.splits if_splits)

lemma set_conn_table:
  assumes "getEntry conn sv = Some e" "ce_profile e' = ce_profile e" "ce_secrets e' = ce_secrets e"
  shows "conn_table (set_conn conn e' sv) = conn_table sv"
  using assms by (auto simp: conn_table_def set_conn_def getEntry_def Let_def update_conv fun_eq_iff split: if_splits)

lemma withAdmin_table [simp]: "conn_table (snd (withAdmin cv conn fn sv)) = conn_table sv"
proof (cases "getEntry conn sv")
  case None
  then show ?thesis by (simp add: withAdmin_def)
next
  case (Some e)
  obtain r e' cs where a: "adminClientLocked cv e = (r, e', cs)" by (metis surj_pair)
  have "conn_table (set_conn conn x (sv\<lparr>sv_closed := y, sv_world := w\<rparr>)) = conn_table sv"
      "conn_table (set_conn conn x (sv\<lparr>sv_closed := y\<rparr>)) = conn_table sv"
    if "ce_profile x = ce_profile e" "ce_secrets x = ce_secrets e" for x y w
    using that Some set_conn_table [of conn "sv\<lparr>sv_closed := y, sv_world := w\<rparr>" e x]
      set_conn_table [of conn "sv\<lparr>sv_closed := y\<rparr>" e x] by simp_all
  then show ?thesis
    using Some a adminClientLocked_core [OF a]
    by (auto simp: withAdmin_def Let_def split: sum.splits prod.splits)
qed

lemma admin_call_table [simp]: "conn_table (snd (admin_call cv conn m f sv)) = conn_table sv"
  by (simp add: admin_call_def)

lemma recorded_table [simp]: "conn_table (snd (recorded s c a t d r)) = conn_table (snd r)"
  by (cases r; cases "fst r"; simp add: recorded_def emitAuditSource_def)

lemma blocked_table [simp]: "conn_table (snd (blocked s c a t e sv)) = conn_table sv"
  by (simp add: blocked_def emitAuditSource_def)

lemma produce_send_table [simp]: "conn_table (snd (produce_send cv pl req opts sc p k sv)) = conn_table sv"
  by (simp add: produce_send_def emitAuditSource_def split: sum.splits prod.splits)

lemma method_tables [simp]:
  "conn_table (snd (DescribeTopic cv ad c t sv)) = conn_table sv"
  "conn_table (snd (ListTopics cv ad c b sv)) = conn_table sv"
  "conn_table (snd (DeleteTopics cv ad dt sv)) = conn_table sv"
  "conn_table (snd (ClearTopicRecords cv ad rc sv)) = conn_table sv"
  "conn_table (snd (ResetGroupOffsets cv ad f ro sv)) = conn_table sv"
  "conn_table (snd (Produce cv pl pq sv)) = conn_table sv"
  unfolding DescribeTopic_def ListTopics_def DeleteTopics_def ClearTopicRecords_def ResetGroupOffsets_def Produce_def
  by (simp_all add: Let_def split: sum.split prod.split)

lemma snd_eqD: "r = (a, b) \<Longrightarrow> P (snd r) \<Longrightarrow> P b"
  by simp

lemma phase_execute_table: "conn_table (snd (phase_execute en q sv)) = conn_table sv"
  by (simp add: phase_execute_def executed_def split: phase_args.split)

lemma twoPhase_table:
  "(\<And>sv. conn_table (snd (execute sv)) = conn_table sv) \<Longrightarrow>
     conn_table (mc_service (snd (twoPhase en ml q args execute s))) = conn_table (mc_service s)"
  by (simp add: twoPhase_def Let_def case_prod_beta split: confirm_result.split)

lemma phase_tool_table:
  "tool \<in> phase_tools \<Longrightarrow> conn_table (mc_service (snd (call_tool en ml tool args s))) = conn_table (mc_service s)"
  by (simp add: phase_call twoPhase_table phase_execute_table split: sum.split)

lemma scanned_topic_table [simp]: "conn_table (snd (scanned_topic en ml conn topic result sv)) = conn_table sv"
  by (simp add: scanned_topic_def case_prod_beta split: sum.split)

lemma digest_table [simp]: "conn_table (mc_service (snd (messagesDigest en ml args s))) = conn_table (mc_service s)"
  by (simp add: messagesDigest_def Let_def case_prod_beta split: option.split sum.split)

lemma cursorNext_table [simp]: "conn_table (mc_service (snd (cursorNext en ml args s))) = conn_table (mc_service s)"
  by (simp add: cursorNext_def Let_def split: option.split prod.split lookup_status.split sum.split)

lemma produce_table [simp]: "conn_table (mc_service (snd (messagesProduce en ml args s))) = conn_table (mc_service s)"
  by (simp add: messagesProduce_def Let_def case_prod_beta split: option.split sum.split)

lemma ui_tables [simp]:
  "conn_table (mc_service (snd (runIntent en ml action params s))) = conn_table (mc_service s)"
  "conn_table (mc_service (snd (uiTopics en args s))) = conn_table (mc_service s)"
  "conn_table (mc_service (snd (uiState en args s))) = conn_table (mc_service s)"
  by (simp_all add: runIntent_def uiTopics_def uiState_def Let_def case_prod_beta
      split: option.split sum.split lookup_status.split)

lemma ui_tool_tables [simp]:
  "conn_table (mc_service (snd (uiSearch en ml args s))) = conn_table (mc_service s)"
  "conn_table (mc_service (snd (uiFocus en ml args s))) = conn_table (mc_service s)"
  "conn_table (mc_service (snd (uiSelect en ml args s))) = conn_table (mc_service s)"
  by (simp_all add: uiSearch_def uiFocus_def uiSelect_def Let_def split: option.split prod.split sum.split)

lemma call_tool_table: "conn_table (mc_service (snd (call_tool en ml tool args s))) = conn_table (mc_service s)"
proof (cases "tool \<in> phase_tools")
  case True
  then show ?thesis by (rule phase_tool_table)
next
  case False
  then show ?thesis by (simp add: call_tool_def)
qed

lemma Call_table [simp]: "conn_table (mc_service (snd (Call en ml tool a s))) = conn_table (mc_service s)"
  using call_tool_table [of en ml tool _ s] by (simp add: Call_def case_prod_beta split: sum.split)

lemma read_tables [simp]:
  "conn_table (snd (ListBrokers cv ad c sv)) = conn_table sv"
  "conn_table (snd (DescribeBrokerConfig cv ad c i sv)) = conn_table sv"
  "conn_table (snd (GetTopicConfig cv ad c t sv)) = conn_table sv"
  "conn_table (snd (ListTopicOffsets cv ad parse c ts at_time sv)) = conn_table sv"
  "conn_table (snd (ListGroups cv ad c sv)) = conn_table sv"
  "conn_table (snd (DescribeGroup cv ad c g sv)) = conn_table sv"
  "conn_table (snd (GetGroupOffsets cv ad c g ts sv)) = conn_table sv"
  "conn_table (snd (ListACLs cv ad c f sv)) = conn_table sv"
  unfolding ListBrokers_def DescribeBrokerConfig_def GetTopicConfig_def ListTopicOffsets_def ListGroups_def
    DescribeGroup_def GetGroupOffsets_def ListACLs_def
  by (simp_all add: Let_def split: sum.split prod.split)

lemma write_tables [simp]:
  "conn_table (snd (CreateTopics cv ad q sv)) = conn_table sv"
  "conn_table (snd (UpdatePartitions cv ad c ps sv)) = conn_table sv"
  "conn_table (snd (AlterTopicConfig cv ad c t cfg del sv)) = conn_table sv"
  "conn_table (snd (DeleteGroup cv ad c g sv)) = conn_table sv"
  "conn_table (snd (CreateACL cv ad c a sv)) = conn_table sv"
  "conn_table (snd (DeleteACLs cv ad c af sv)) = conn_table sv"
  unfolding CreateTopics_def UpdatePartitions_def AlterTopicConfig_def DeleteGroup_def CreateACL_def DeleteACLs_def
  by (simp_all add: Let_def split: sum.split)

lemma with_backend_table [simp]: "conn_table (snd (with_backend cv l conn registry m sv)) = conn_table sv"
  by (simp add: with_backend_def split: sum.splits prod.splits)

lemma schema_tables [simp]:
  "conn_table (snd (TestSchema cv l c r sv)) = conn_table sv"
  "conn_table (snd (ListSchemaSubjects cv l c r sv)) = conn_table sv"
  "conn_table (snd (ListSchemaVersions cv l c su r sv)) = conn_table sv"
  "conn_table (snd (GetSchema cv l c su v r sv)) = conn_table sv"
  "conn_table (snd (CompareSchemaVersions cv l c su v1 v2 r sv)) = conn_table sv"
  "conn_table (snd (GetSchemaCompatibility cv l c su r sv)) = conn_table sv"
  "conn_table (snd (SetSchemaCompatibility cv l sc sv)) = conn_table sv"
  "conn_table (snd (CheckSchemaCompatibility cv l ck sv)) = conn_table sv"
  "conn_table (snd (RegisterSchema cv l rs sv)) = conn_table sv"
  "conn_table (snd (DeleteSchema cv l ds sv)) = conn_table sv"
  unfolding TestSchema_def ListSchemaSubjects_def ListSchemaVersions_def GetSchema_def CompareSchemaVersions_def
    GetSchemaCompatibility_def SetSchemaCompatibility_def CheckSchemaCompatibility_def RegisterSchema_def DeleteSchema_def
  by (simp_all add: Let_def split: sum.split prod.split)

lemma stream_tables [simp]: "conn_table (snd (StartStream cv tx parse now p sv)) = conn_table sv"
  by (simp add: StartStream_def Let_def split: sum.split prod.split option.split)

lemma server_tables [simp]:
  "mc_service (snd (SettingsSet save u s)) = mc_service s"
  "mc_service (snd (ReportUIState now m s)) = mc_service s"
  by (simp_all add: SettingsSet_def ReportUIState_def Let_def split: option.split prod.split)

text \<open>What a connection allows depends on the table alone.\<close>

lemma conn_table_profile: "conn_table sv' = conn_table sv \<Longrightarrow> profileOf i sv' = profileOf i sv"
proof -
  assume "conn_table sv' = conn_table sv"
  then have "conn_table sv' (trim_space i) = conn_table sv (trim_space i)" by simp
  then show ?thesis
    by (auto simp: profileOf_def getEntry_def conn_table_def Let_def split: option.splits if_splits)
qed

section \<open>Connecting and disconnecting\<close>

lemma Disconnect_table: "conn \<noteq> [] \<Longrightarrow> conn_table (Disconnect conn sv) = (conn_table sv)(conn := None)"
  by (simp add: Disconnect_def Let_def conn_table_def fun_eq_iff delete_conv split: option.split)

lemma Disconnect_world [simp]: "sv_world (Disconnect conn sv) = sv_world sv"
  by (simp add: Disconnect_def Let_def split: option.split)

end
