(* ===== verification/HostGuards.thy ===== *)
theory HostGuards
  imports HostMethods ConnTable
begin

text \<open>
  What every method of \<open>Handle\<close> (\<open>backend/main.go\<close>) has in common: the codes of its errors, what it
  does with parameters it cannot read, that only connecting and disconnecting change what a
  connection allows, and that the write policy cannot be avoided by the choice of the method.
\<close>

section \<open>Errors\<close>

definition error_codes :: "int set" where
  "error_codes = {-32602, -32603, -32000}"

text \<open>An outcome with one of these codes, or with a result.\<close>

definition coded :: "'w reply_outcome \<Rightarrow> bool" where
  "coded r \<longleftrightarrow> (case fst r of Inl e \<Rightarrow> pe_code e \<in> error_codes | Inr _ \<Rightarrow> True)"

lemma error_code [simp]:
  "pe_code (NewError c m) = c" "pe_code (invalidParams hl e) = -32602" "pe_code (bizError hl e) \<in> error_codes"
  by (simp_all add: NewError_def invalidParams_def bizError_def error_codes_def)

lemma coded_simps [simp]:
  "coded (Inr x, s)" "coded (Inl e, s) \<longleftrightarrow> pe_code e \<in> error_codes"
  by (simp_all add: coded_def)

lemma in_error_codes [simp]: "- 32602 \<in> error_codes" "- 32603 \<in> error_codes"
  by (simp_all add: error_codes_def)

lemma coded_service_call [simp]: "coded (service_call hl wrap call s)"
  by (simp add: service_call_def split: prod.split sum.split)

lemma coded_mcp_outcome [simp]: "coded (mcp_outcome hl wrap r s)"
  by (simp add: mcp_outcome_def split: prod.split sum.split)

lemma coded_decoded [simp]:
  "(\<And>x s. coded (k x s)) \<Longrightarrow> coded (with_params (decodeParams hl d params) k s)"
  "(\<And>x s. coded (k' x s)) \<Longrightarrow> coded (with_params (requireSessionID hl params) k' s)"
  by (simp_all add: with_params_def decodeParams_def requireSessionID_def split: sum.split)

lemma coded_connection:
  "coded (h_connectionTest hl en params s)" "coded (h_connectionConnect hl en params s)"
  "coded (h_connectionDisconnect hl en params s)"
  by (simp_all add: h_connectionTest_def h_connectionConnect_def h_connectionDisconnect_def split: sum.split)

lemma coded_admin:
  "coded (h_brokersList hl en params s)" "coded (h_brokersConfig hl en params s)" "coded (h_topicsList hl en params s)"
  "coded (h_topicsDescribe hl en params s)" "coded (h_topicsCreate hl en params s)" "coded (h_topicsDelete hl en params s)"
  "coded (h_partitionsUpdate hl en params s)" "coded (h_topicConfigGet hl en params s)"
  "coded (h_topicConfigAlter hl en params s)" "coded (h_topicOffsetsList hl en params s)"
  "coded (h_topicsRecordsClear hl en params s)" "coded (h_groupsList hl en params s)"
  "coded (h_groupsDescribe hl en params s)" "coded (h_groupOffsetsList hl en params s)"
  "coded (h_groupDelete hl en params s)" "coded (h_groupOffsetsReset hl en params s)" "coded (h_aclsList hl en params s)"
  "coded (h_aclsCreate hl en params s)" "coded (h_aclsDelete hl en params s)"
  by (simp_all add: h_brokersList_def h_brokersConfig_def h_topicsList_def h_topicsDescribe_def h_topicsCreate_def
      h_topicsDelete_def h_partitionsUpdate_def h_topicConfigGet_def h_topicConfigAlter_def h_topicOffsetsList_def
      h_topicsRecordsClear_def h_groupsList_def h_groupsDescribe_def h_groupOffsetsList_def h_groupDelete_def
      h_groupOffsetsReset_def h_aclsList_def h_aclsCreate_def h_aclsDelete_def split: prod.split)

lemma coded_messages:
  "coded (h_messagesProduce hl en params s)" "coded (h_messagesConsume hl en params s)"
  "coded (h_messagesExport hl en params s)" "coded (h_streamStart hl en params s)" "coded (h_streamStop hl en params s)"
  "coded (h_streamPause hl en params s)" "coded (h_streamResume hl en params s)" "coded (h_streamStatus hl en params s)"
  "coded (h_streamMessages hl en params s)" "coded (h_presetsList hl en params s)" "coded (h_presetsSave hl en params s)"
  "coded (h_presetsRemove hl en params s)" "coded (h_connectionStatuses hl en params s)"
  by (simp_all add: h_messagesProduce_def h_messagesConsume_def h_messagesExport_def h_streamStart_def h_streamStop_def
      h_streamPause_def h_streamResume_def h_streamStatus_def h_streamMessages_def h_presetsList_def h_presetsSave_def
      h_presetsRemove_def h_connectionStatuses_def split: prod.split sum.split)

lemma coded_schema:
  "coded (h_schemaTest hl en params s)" "coded (h_schemaSubjectsList hl en params s)"
  "coded (h_schemaVersionsList hl en params s)" "coded (h_schemaGet hl en params s)"
  "coded (h_schemaVersionsCompare hl en params s)" "coded (h_schemaCompatibilityGet hl en params s)"
  "coded (h_schemaCompatibilitySet hl en params s)" "coded (h_schemaCompatibilityCheck hl en params s)"
  "coded (h_schemaRegister hl en params s)" "coded (h_schemaDelete hl en params s)"
  "coded (h_schemaDeleteVersion hl en params s)"
  by (simp_all add: h_schemaTest_def h_schemaSubjectsList_def h_schemaVersionsList_def h_schemaGet_def
      h_schemaVersionsCompare_def h_schemaCompatibilityGet_def h_schemaCompatibilitySet_def h_schemaCompatibilityCheck_def
      h_schemaRegister_def h_schemaDelete_def h_schemaDeleteVersion_def split: prod.split)

lemma coded_mcp:
  "coded (h_uiStateReport hl en params s)" "coded (h_mcpTools hl en params s)" "coded (h_mcpCall hl en params s)"
  "coded (h_mcpSettingsGet hl en params s)" "coded (h_mcpSettingsSet hl en params s)"
  by (simp_all add: h_uiStateReport_def h_mcpTools_def h_mcpCall_def h_mcpSettingsGet_def h_mcpSettingsSet_def Let_def
      split: prod.split sum.split)

lemmas coded_methods = coded_connection coded_admin coded_messages coded_schema coded_mcp

section \<open>Parameters that cannot be read\<close>

text \<open>
  What each method reads its parameters with. A decoder that fails has met a text that is not
  JSON or has the wrong shape for the method's struct. Of the other methods, three read no
  parameters, and \<open>mcp/tools\<close> takes parameters it cannot read as naming no connection.
\<close>

definition unread :: "(decode_lib \<Rightarrow> string \<Rightarrow> 'a res) \<Rightarrow> decode_lib \<Rightarrow> string \<Rightarrow> bool" where
  "unread d dl params \<longleftrightarrow> \<not> is_ok (d dl params)"

definition param_readers :: "(string \<times> (decode_lib \<Rightarrow> string \<Rightarrow> bool)) list" where
  "param_readers =
    [(''connection/test'', unread lifecycle_Parse),
     (''connection/connect'', unread lifecycle_Parse),
     (''connection/disconnect'', unread lifecycle_Parse),
     (''kafka/brokers/list'', unread dl_connection),
     (''kafka/brokers/config'', unread dl_broker),
     (''kafka/topics/list'', unread dl_topics),
     (''kafka/topics/describe'', unread dl_topic),
     (''kafka/topics/create'', unread dl_topics_create),
     (''kafka/topics/delete'', unread dl_topics_delete),
     (''kafka/topics/partitions/update'', unread dl_partitions),
     (''kafka/topics/config/get'', unread dl_topic),
     (''kafka/topics/config/alter'', unread dl_config_alter),
     (''kafka/topics/offsets/list'', unread dl_topic_offsets),
     (''kafka/topics/records/clear'', unread dl_records_clear),
     (''kafka/groups/list'', unread dl_connection),
     (''kafka/groups/describe'', unread dl_group),
     (''kafka/groups/offsets/list'', unread dl_group_offsets),
     (''kafka/groups/delete'', unread dl_group),
     (''kafka/groups/offsets/reset'', unread dl_offsets_reset),
     (''kafka/acls/list'', unread dl_acl_filter),
     (''kafka/acls/create'', unread dl_acl),
     (''kafka/acls/delete'', unread dl_acl_filter),
     (''kafka/messages/produce'', unread dl_produce),
     (''kafka/messages/consume'', unread dl_consume),
     (''kafka/messages/export'', unread dl_export),
     (''kafka/stream/start'', unread dl_consume),
     (''kafka/stream/stop'', unread dl_stream_stop),
     (''kafka/stream/pause'', unread dl_session),
     (''kafka/stream/resume'', unread dl_session),
     (''kafka/stream/status'', unread dl_session),
     (''kafka/stream/messages'', unread dl_stream_messages),
     (''kafka/presets/save'', unread dl_preset),
     (''kafka/presets/remove'', unread dl_preset_id),
     (''kafka/ui/state/report'', unread dl_map),
     (''mcp/call'', unread dl_mcp_call),
     (''mcp/settings/set'', unread dl_map),
     (''kafka/schema/test'', unread dl_schema),
     (''kafka/schema/subjects/list'', unread dl_schema),
     (''kafka/schema/versions/list'', unread dl_subject),
     (''kafka/schema/get'', unread dl_schema_get),
     (''kafka/schema/versions/compare'', unread dl_compare),
     (''kafka/schema/compatibility/get'', unread dl_subject),
     (''kafka/schema/compatibility/set'', unread dl_compat_set),
     (''kafka/schema/compatibility/check'', unread dl_compat_check),
     (''kafka/schema/register'', unread dl_register),
     (''kafka/schema/delete'', unread dl_schema_delete),
     (''kafka/schema/delete/version'', unread dl_schema_delete)]"

definition lenient_methods :: "string list" where
  "lenient_methods = [''kafka/presets/list'', ''kafka/connections/statuses'', ''mcp/tools'', ''mcp/settings/get'']"

lemma not_ok_Inl: "\<not> is_ok r \<longleftrightarrow> (\<exists>e. r = Inl e)"
  by (cases r) simp_all

definition rejected :: "'w plugin \<Rightarrow> 'w reply_outcome \<Rightarrow> bool" where
  "rejected s r \<longleftrightarrow> (\<exists>e. r = (Inl e, s) \<and> pe_code e = -32602)"

lemma rejected_simps [simp]:
  "rejected s (Inl e, s) \<longleftrightarrow> pe_code e = -32602" "\<not> rejected s (Inr x, s')"
  by (simp_all add: rejected_def)

lemma rejected_decoded [simp]:
  "\<not> is_ok (d (hl_decode hl) params) \<Longrightarrow> rejected s (with_params (decodeParams hl d params) k s)"
  "\<not> is_ok (dl_session (hl_decode hl) params) \<Longrightarrow> rejected s (with_params (requireSessionID hl params) k' s)"
  by (auto simp: with_params_def decodeParams_def requireSessionID_def not_ok_Inl)

lemma rejected_connection:
  assumes "unread lifecycle_Parse (hl_decode hl) params"
  shows "rejected s (h_connectionTest hl en params s)" "rejected s (h_connectionConnect hl en params s)"
    "rejected s (h_connectionDisconnect hl en params s)"
  using assms
  by (auto simp: unread_def not_ok_Inl h_connectionTest_def h_connectionConnect_def h_connectionDisconnect_def)

lemma rejected_direct:
  "unread dl_stream_stop (hl_decode hl) params \<Longrightarrow> rejected s (h_streamStop hl en params s)"
  "unread dl_preset (hl_decode hl) params \<Longrightarrow> rejected s (h_presetsSave hl en params s)"
  "unread dl_preset_id (hl_decode hl) params \<Longrightarrow> rejected s (h_presetsRemove hl en params s)"
  "unread dl_map (hl_decode hl) params \<Longrightarrow> rejected s (h_uiStateReport hl en params s)"
  "unread dl_mcp_call (hl_decode hl) params \<Longrightarrow> rejected s (h_mcpCall hl en params s)"
  "unread dl_map (hl_decode hl) params \<Longrightarrow> rejected s (h_mcpSettingsSet hl en params s)"
  by (auto simp: unread_def not_ok_Inl
      h_streamStop_def h_presetsSave_def h_presetsRemove_def h_uiStateReport_def h_mcpCall_def
      h_mcpSettingsSet_def)

lemma rejected_admin:
  "unread dl_connection (hl_decode hl) params \<Longrightarrow> rejected s (h_brokersList hl en params s)"
  "unread dl_broker (hl_decode hl) params \<Longrightarrow> rejected s (h_brokersConfig hl en params s)"
  "unread dl_topics (hl_decode hl) params \<Longrightarrow> rejected s (h_topicsList hl en params s)"
  "unread dl_topic (hl_decode hl) params \<Longrightarrow> rejected s (h_topicsDescribe hl en params s)"
  "unread dl_topics_create (hl_decode hl) params \<Longrightarrow> rejected s (h_topicsCreate hl en params s)"
  "unread dl_topics_delete (hl_decode hl) params \<Longrightarrow> rejected s (h_topicsDelete hl en params s)"
  "unread dl_partitions (hl_decode hl) params \<Longrightarrow> rejected s (h_partitionsUpdate hl en params s)"
  "unread dl_topic (hl_decode hl) params \<Longrightarrow> rejected s (h_topicConfigGet hl en params s)"
  "unread dl_config_alter (hl_decode hl) params \<Longrightarrow> rejected s (h_topicConfigAlter hl en params s)"
  "unread dl_topic_offsets (hl_decode hl) params \<Longrightarrow> rejected s (h_topicOffsetsList hl en params s)"
  "unread dl_records_clear (hl_decode hl) params \<Longrightarrow> rejected s (h_topicsRecordsClear hl en params s)"
  "unread dl_connection (hl_decode hl) params \<Longrightarrow> rejected s (h_groupsList hl en params s)"
  "unread dl_group (hl_decode hl) params \<Longrightarrow> rejected s (h_groupsDescribe hl en params s)"
  "unread dl_group_offsets (hl_decode hl) params \<Longrightarrow> rejected s (h_groupOffsetsList hl en params s)"
  "unread dl_group (hl_decode hl) params \<Longrightarrow> rejected s (h_groupDelete hl en params s)"
  "unread dl_offsets_reset (hl_decode hl) params \<Longrightarrow> rejected s (h_groupOffsetsReset hl en params s)"
  "unread dl_acl_filter (hl_decode hl) params \<Longrightarrow> rejected s (h_aclsList hl en params s)"
  "unread dl_acl (hl_decode hl) params \<Longrightarrow> rejected s (h_aclsCreate hl en params s)"
  "unread dl_acl_filter (hl_decode hl) params \<Longrightarrow> rejected s (h_aclsDelete hl en params s)"
  by (simp_all add: unread_def
      h_brokersList_def h_brokersConfig_def h_topicsList_def h_topicsDescribe_def h_topicsCreate_def
      h_topicsDelete_def h_partitionsUpdate_def h_topicConfigGet_def h_topicConfigAlter_def
      h_topicOffsetsList_def h_topicsRecordsClear_def h_groupsList_def h_groupsDescribe_def
      h_groupOffsetsList_def h_groupDelete_def h_groupOffsetsReset_def h_aclsList_def h_aclsCreate_def
      h_aclsDelete_def)

lemma rejected_messages:
  "unread dl_produce (hl_decode hl) params \<Longrightarrow> rejected s (h_messagesProduce hl en params s)"
  "unread dl_consume (hl_decode hl) params \<Longrightarrow> rejected s (h_messagesConsume hl en params s)"
  "unread dl_export (hl_decode hl) params \<Longrightarrow> rejected s (h_messagesExport hl en params s)"
  "unread dl_consume (hl_decode hl) params \<Longrightarrow> rejected s (h_streamStart hl en params s)"
  "unread dl_session (hl_decode hl) params \<Longrightarrow> rejected s (h_streamPause hl en params s)"
  "unread dl_session (hl_decode hl) params \<Longrightarrow> rejected s (h_streamResume hl en params s)"
  "unread dl_session (hl_decode hl) params \<Longrightarrow> rejected s (h_streamStatus hl en params s)"
  "unread dl_stream_messages (hl_decode hl) params \<Longrightarrow> rejected s (h_streamMessages hl en params s)"
  by (simp_all add: unread_def
      h_messagesProduce_def h_messagesConsume_def h_messagesExport_def h_streamStart_def h_streamPause_def
      h_streamResume_def h_streamStatus_def h_streamMessages_def)

lemma rejected_schema:
  "unread dl_schema (hl_decode hl) params \<Longrightarrow> rejected s (h_schemaTest hl en params s)"
  "unread dl_schema (hl_decode hl) params \<Longrightarrow> rejected s (h_schemaSubjectsList hl en params s)"
  "unread dl_subject (hl_decode hl) params \<Longrightarrow> rejected s (h_schemaVersionsList hl en params s)"
  "unread dl_schema_get (hl_decode hl) params \<Longrightarrow> rejected s (h_schemaGet hl en params s)"
  "unread dl_compare (hl_decode hl) params \<Longrightarrow> rejected s (h_schemaVersionsCompare hl en params s)"
  "unread dl_subject (hl_decode hl) params \<Longrightarrow> rejected s (h_schemaCompatibilityGet hl en params s)"
  "unread dl_compat_set (hl_decode hl) params \<Longrightarrow> rejected s (h_schemaCompatibilitySet hl en params s)"
  "unread dl_compat_check (hl_decode hl) params \<Longrightarrow> rejected s (h_schemaCompatibilityCheck hl en params s)"
  "unread dl_register (hl_decode hl) params \<Longrightarrow> rejected s (h_schemaRegister hl en params s)"
  "unread dl_schema_delete (hl_decode hl) params \<Longrightarrow> rejected s (h_schemaDelete hl en params s)"
  "unread dl_schema_delete (hl_decode hl) params \<Longrightarrow> rejected s (h_schemaDeleteVersion hl en params s)"
  by (simp_all add: unread_def
      h_schemaTest_def h_schemaSubjectsList_def h_schemaVersionsList_def h_schemaGet_def
      h_schemaVersionsCompare_def h_schemaCompatibilityGet_def h_schemaCompatibilitySet_def
      h_schemaCompatibilityCheck_def h_schemaRegister_def h_schemaDelete_def h_schemaDeleteVersion_def)

lemmas rejected_methods = rejected_connection rejected_direct rejected_admin rejected_messages rejected_schema

section \<open>What a connection allows\<close>

abbreviation table_of :: "'w plugin \<Rightarrow> string \<Rightarrow> (profile \<times> conn_secrets) option" where
  "table_of s \<equiv> conn_table (pg_service s)"

lemma set_service_service [simp]: "pg_service (set_service sv s) = sv"
  by (simp add: set_service_def)

lemma table_service_call [simp]:
  "conn_table (snd (call (pg_service s))) = table_of s \<Longrightarrow> table_of (snd (service_call hl wrap call s)) = table_of s"
  by (simp add: service_call_def case_prod_beta split: sum.split)

lemma table_on [simp]: "conn_table (snd (on_pool f sv)) = conn_table sv" "conn_table (snd (on_streams g sv)) = conn_table sv"
  by (simp_all add: on_pool_def on_streams_def split: prod.split)

lemma table_with_params [simp]:
  "(\<And>x. table_of (snd (k x s)) = table_of s) \<Longrightarrow> table_of (snd (with_params r k s)) = table_of s"
  by (simp add: with_params_def split: sum.split)

lemma table_admin:
  "table_of (snd (h_brokersList hl en params s)) = table_of s"
  "table_of (snd (h_brokersConfig hl en params s)) = table_of s"
  "table_of (snd (h_topicsList hl en params s)) = table_of s"
  "table_of (snd (h_topicsDescribe hl en params s)) = table_of s"
  "table_of (snd (h_topicsCreate hl en params s)) = table_of s"
  "table_of (snd (h_topicsDelete hl en params s)) = table_of s"
  "table_of (snd (h_partitionsUpdate hl en params s)) = table_of s"
  "table_of (snd (h_topicConfigGet hl en params s)) = table_of s"
  "table_of (snd (h_topicConfigAlter hl en params s)) = table_of s"
  "table_of (snd (h_topicOffsetsList hl en params s)) = table_of s"
  "table_of (snd (h_topicsRecordsClear hl en params s)) = table_of s"
  "table_of (snd (h_groupsList hl en params s)) = table_of s"
  "table_of (snd (h_groupsDescribe hl en params s)) = table_of s"
  "table_of (snd (h_groupOffsetsList hl en params s)) = table_of s"
  "table_of (snd (h_groupDelete hl en params s)) = table_of s"
  "table_of (snd (h_groupOffsetsReset hl en params s)) = table_of s"
  "table_of (snd (h_aclsList hl en params s)) = table_of s"
  "table_of (snd (h_aclsCreate hl en params s)) = table_of s"
  "table_of (snd (h_aclsDelete hl en params s)) = table_of s"
  by (simp_all add: h_brokersList_def h_brokersConfig_def h_topicsList_def h_topicsDescribe_def h_topicsCreate_def
      h_topicsDelete_def h_partitionsUpdate_def h_topicConfigGet_def h_topicConfigAlter_def
      h_topicOffsetsList_def h_topicsRecordsClear_def h_groupsList_def h_groupsDescribe_def
      h_groupOffsetsList_def h_groupDelete_def h_groupOffsetsReset_def h_aclsList_def h_aclsCreate_def
      h_aclsDelete_def
      split: prod.split sum.split)

lemma table_messages:
  "table_of (snd (h_messagesProduce hl en params s)) = table_of s"
  "table_of (snd (h_messagesConsume hl en params s)) = table_of s"
  "table_of (snd (h_messagesExport hl en params s)) = table_of s"
  "table_of (snd (h_streamStart hl en params s)) = table_of s"
  "table_of (snd (h_streamStop hl en params s)) = table_of s"
  "table_of (snd (h_streamPause hl en params s)) = table_of s"
  "table_of (snd (h_streamResume hl en params s)) = table_of s"
  "table_of (snd (h_streamStatus hl en params s)) = table_of s"
  "table_of (snd (h_streamMessages hl en params s)) = table_of s"
  "table_of (snd (h_presetsList hl en params s)) = table_of s"
  "table_of (snd (h_presetsSave hl en params s)) = table_of s"
  "table_of (snd (h_presetsRemove hl en params s)) = table_of s"
  "table_of (snd (h_connectionStatuses hl en params s)) = table_of s"
  by (simp_all add: h_messagesProduce_def h_messagesConsume_def h_messagesExport_def h_streamStart_def h_streamStop_def
      h_streamPause_def h_streamResume_def h_streamStatus_def h_streamMessages_def h_presetsList_def
      h_presetsSave_def h_presetsRemove_def h_connectionStatuses_def
      split: prod.split sum.split)

lemma table_schema:
  "table_of (snd (h_schemaTest hl en params s)) = table_of s"
  "table_of (snd (h_schemaSubjectsList hl en params s)) = table_of s"
  "table_of (snd (h_schemaVersionsList hl en params s)) = table_of s"
  "table_of (snd (h_schemaGet hl en params s)) = table_of s"
  "table_of (snd (h_schemaVersionsCompare hl en params s)) = table_of s"
  "table_of (snd (h_schemaCompatibilityGet hl en params s)) = table_of s"
  "table_of (snd (h_schemaCompatibilitySet hl en params s)) = table_of s"
  "table_of (snd (h_schemaCompatibilityCheck hl en params s)) = table_of s"
  "table_of (snd (h_schemaRegister hl en params s)) = table_of s"
  "table_of (snd (h_schemaDelete hl en params s)) = table_of s"
  "table_of (snd (h_schemaDeleteVersion hl en params s)) = table_of s"
  by (simp_all add: h_schemaTest_def h_schemaSubjectsList_def h_schemaVersionsList_def h_schemaGet_def
      h_schemaVersionsCompare_def h_schemaCompatibilityGet_def h_schemaCompatibilitySet_def
      h_schemaCompatibilityCheck_def h_schemaRegister_def h_schemaDelete_def h_schemaDeleteVersion_def
      split: prod.split sum.split)

lemma table_rest:
  "table_of (snd (h_connectionTest hl en params s)) = table_of s"
  "table_of (snd (h_uiStateReport hl en params s)) = table_of s"
  "table_of (snd (h_mcpTools hl en params s)) = table_of s"
  "table_of (snd (h_mcpSettingsGet hl en params s)) = table_of s"
  "table_of (snd (h_mcpSettingsSet hl en params s)) = table_of s"
  by (simp_all add: h_connectionTest_def h_uiStateReport_def h_mcpTools_def h_mcpSettingsGet_def h_mcpSettingsSet_def
      mcp_outcome_def Let_def case_prod_beta split: sum.split)

lemmas table_methods = table_admin table_messages table_schema table_rest

section \<open>The methods of the table\<close>

text \<open>The methods that may change the table of connections.\<close>

definition table_changers :: "string list" where
  "table_changers = [''connection/connect'', ''connection/disconnect'', ''mcp/call'']"

lemma list_all_map_of: "list_all (\<lambda>(n, m). P n m) xs \<Longrightarrow> map_of xs n = Some m \<Longrightarrow> P n m"
  by (auto simp: list_all_iff dest!: map_of_SomeD)

lemma dispatch:
  fixes en :: "('w, 'n, 'm) host_env"
  obtains (unknown) "map_of (host_methods :: (string \<times> ('w, 'n, 'm) host_method) list) name = None"
      "handle_method hl en name params s = (Inl (MethodNotFound name), s)"
  | (known) m where "map_of (host_methods :: (string \<times> ('w, 'n, 'm) host_method) list) name = Some m"
      "handle_method hl en name params s = m hl en params s"
  by (cases "map_of (host_methods :: (string \<times> ('w, 'n, 'm) host_method) list) name") (simp_all add: handle_method_def)

lemma all_coded: "list_all (\<lambda>(n, m). \<forall>hl en params s. coded (m hl en params s)) host_methods"
  unfolding host_methods_def by (simp only: list.pred_inject prod.case coded_methods simp_thms)

lemma map_of_all2:
  "list_all2 (\<lambda>(n, x) (n', y). n = n' \<and> P x y) xs ys \<Longrightarrow> map_of ys k = Some y
     \<Longrightarrow> \<exists>x. map_of xs k = Some x \<and> P x y"
  by (induction rule: list_all2_induct) (auto split: if_splits)

lemma map_of_filter_keys: "k \<notin> A \<Longrightarrow> map_of (filter (\<lambda>(n, x). n \<notin> A) xs) k = map_of xs k"
  by (induction xs) auto

text \<open>Both tables name the same methods, but for the lenient ones, in the same order.\<close>

lemma all_rejected:
  "list_all2 (\<lambda>(n, fails) (n', m). n = n' \<and> (fails (hl_decode hl) params \<longrightarrow> rejected s (m hl en params s)))
     param_readers (filter (\<lambda>(n, m). n \<notin> set lenient_methods) host_methods)"
  unfolding host_methods_def param_readers_def lenient_methods_def by (simp add: rejected_methods)

lemma reader_of:
  assumes "map_of host_methods name = Some m" "name \<notin> set lenient_methods"
  shows "\<exists>fails. map_of param_readers name = Some fails
    \<and> (fails (hl_decode hl) params \<longrightarrow> rejected s (m hl en params s))"
  using map_of_all2 [OF all_rejected, of name m hl params s en] assms
  by (simp add: map_of_filter_keys)

lemma all_tables:
  "list_all (\<lambda>(n, m). n \<in> set table_changers \<or> table_of (snd (m hl en params s)) = table_of s) host_methods"
  unfolding host_methods_def by (simp add: table_methods table_changers_def)

text \<open>
  C21. Every call of a method, whatever its name, its parameters and what brokers, registries and
  files answer: the call fails with code -32601 exactly if the method is not one of the table, and
  then changes nothing; any other failure has one of the codes -32602, -32603, -32000. Every method
  but four (which read no parameters or, like \<open>mcp/tools\<close>, ignore those they cannot read)
  has a struct of its own for its parameters, and answers parameters that cannot be read into it
  with -32602 and changes nothing. For \<open>mcp/call\<close> this is said of the outer parameters: the
  arguments inside them are read later, after a connection may have been opened.
\<close>

theorem handle_method_errors:
  fixes en :: "('w, 'n, 'm) host_env"
  assumes "handle_method hl en name params s = (r, s')"
  defines "names \<equiv> map fst (host_methods :: (string \<times> ('w, 'n, 'm) host_method) list)"
  shows "(name \<notin> set names \<longleftrightarrow> (\<exists>e. r = Inl e \<and> pe_code e = -32601))
    \<and> (\<forall>e. r = Inl e \<longrightarrow> pe_code e = -32601 \<and> s' = s \<or> pe_code e \<in> {-32602, -32603, -32000})
    \<and> (name \<in> set names \<longrightarrow>
         name \<in> {''kafka/presets/list'', ''kafka/connections/statuses'', ''mcp/tools'', ''mcp/settings/get''}
         \<or> (\<exists>fails. map_of param_readers name = Some fails
              \<and> (fails (hl_decode hl) params \<longrightarrow> (\<exists>e. r = Inl e \<and> pe_code e = -32602) \<and> s' = s)))"
proof (cases rule: dispatch [where en = en and name = name and hl = hl and params = params and s = s])
  case unknown
  then have "name \<notin> set names" by (simp add: map_of_eq_None_iff names_def)
  then show ?thesis using unknown assms by (auto simp: MethodNotFound_def)
next
  case (known m)
  have n: "name \<in> set names"
    using known(1) unfolding names_def by (metis map_of_eq_None_iff option.distinct(1) set_map)
  have "\<exists>fails. map_of param_readers name = Some fails \<and> (fails (hl_decode hl) params \<longrightarrow> rejected s (r, s'))"
    if "name \<notin> set lenient_methods"
    using reader_of [OF known(1) that, of hl params s en] known(2) assms(1) by simp
  moreover have "coded (r, s')"
    using list_all_map_of [OF all_coded known(1)] known(2) assms(1) by metis
  ultimately show ?thesis using n
    by (auto simp: coded_def error_codes_def rejected_def lenient_methods_def)
qed

section \<open>The write requests of the host\<close>

text \<open>The request of \<open>KafkaWrites\<close> that a method makes of its parameters.\<close>

definition read_request ::
  "(decode_lib \<Rightarrow> string \<Rightarrow> 'a res) \<Rightarrow> ('a \<Rightarrow> target write_request) \<Rightarrow> host_lib \<Rightarrow> string \<Rightarrow> target write_request option" where
  "read_request d f hl params = (case decodeParams hl d params of Inl _ \<Rightarrow> None | Inr x \<Rightarrow> Some (f x))"

definition write_methods :: "(listed list \<Rightarrow> target list) \<Rightarrow> (string \<times> (host_lib \<Rightarrow> string \<Rightarrow> target write_request option)) list" where
  "write_methods targets =
    [(''kafka/topics/create'', read_request dl_topics_create WCreateTopics),
     (''kafka/topics/delete'', read_request dl_topics_delete WDeleteTopics),
     (''kafka/topics/partitions/update'', read_request dl_partitions (\<lambda>(c, ps). WUpdatePartitions c ps)),
     (''kafka/topics/config/alter'', read_request dl_config_alter (\<lambda>(c, t, set_to, unset). WAlterConfig c t set_to unset)),
     (''kafka/topics/records/clear'', read_request dl_records_clear WClearRecords),
     (''kafka/groups/delete'', read_request dl_group (\<lambda>(c, g). WDeleteGroup c g)),
     (''kafka/groups/offsets/reset'', read_request dl_offsets_reset (WResetOffsets targets)),
     (''kafka/acls/create'', read_request dl_acl (\<lambda>(c, a). WCreateACL c a)),
     (''kafka/acls/delete'', read_request dl_acl_filter (\<lambda>(c, f). WDeleteACLs c f)),
     (''kafka/messages/produce'', read_request dl_produce WProduce),
     (''kafka/schema/compatibility/set'', read_request dl_compat_set WSetCompatibility),
     (''kafka/schema/register'', read_request dl_register WRegister),
     (''kafka/schema/delete'', read_request dl_schema_delete WDeleteSchema),
     (''kafka/schema/delete/version'', read_request dl_schema_delete WDeleteSchema)]"

definition host_write :: "host_lib \<Rightarrow> ('w, 'n, 'm) host_env \<Rightarrow> string \<Rightarrow> string \<Rightarrow> target write_request option" where
  "host_write hl en name params =
     (case map_of (write_methods (me_targets (he_mcp en))) name of None \<Rightarrow> None | Some f \<Rightarrow> f hl params)"

text \<open>A request that is refused: an error, and at most a record of it.\<close>

definition refused_call :: "'w plugin \<Rightarrow> 'w reply_outcome \<Rightarrow> bool" where
  "refused_call s r \<longleftrightarrow> (\<exists>e sv. r = (Inl e, set_service sv s) \<and> pe_code e \<in> {-32602, -32000} \<and> only_blocked (pg_service s) sv)"

definition host_writes_env :: "('w, 'n, 'm) host_env \<Rightarrow> ('w, 'n, 'm) write_env" where
  "host_writes_env en =
     \<lparr>we_client = he_client en, we_admin = he_admin en, we_registry = he_registry en, we_produce = me_produce (he_mcp en)\<rparr>"

lemma refused_service_call:
  assumes "outcome (call (pg_service s)) = perform (host_writes_env en) q (pg_service s)"
    and "\<not> allowed (write_deletes q) (profileOf (write_connection q) (pg_service s))"
  shows "refused_call s (service_call hl wrap call s)"
proof -
  have "\<not> is_ok (fst (call (pg_service s)))" "only_blocked (pg_service s) (snd (call (pg_service s)))"
    using perform_refused [OF assms(2), of "host_writes_env en"] assms(1) [symmetric] by (simp_all add: outcome_def)
  then obtain e sv where "call (pg_service s) = (Inl e, sv)" "only_blocked (pg_service s) sv"
    by (metis not_ok_Inl prod.collapse)
  then show ?thesis by (simp add: refused_call_def service_call_def bizError_def) (auto simp: NewError_def)
qed

lemma set_service_same [simp]: "set_service (pg_service s) s = s"
  by (simp add: set_service_def)

lemma refused_here [simp]: "refused_call s (Inl (NewError (-32602) m), s)"
  unfolding refused_call_def
  by (rule exI [of _ "NewError (-32602) m"], rule exI [of _ "pg_service s"]) (simp add: NewError_def)

lemma with_read_request:
  "read_request d f hl params = Some q \<Longrightarrow>
     \<exists>x. f x = q \<and> (\<forall>k s. with_params (decodeParams hl d params) k s = k x (s :: 'w plugin))"
  by (auto simp: read_request_def with_params_def split: sum.splits)

lemma refused_methods:
  fixes s :: "'w plugin"
  assumes "\<not> allowed (write_deletes q) (profileOf (write_connection q) (pg_service s))"
  shows
  "read_request dl_topics_create WCreateTopics hl params = Some q \<Longrightarrow> refused_call s (h_topicsCreate hl en params s)"
  "read_request dl_topics_delete WDeleteTopics hl params = Some q \<Longrightarrow> refused_call s (h_topicsDelete hl en params s)"
  "read_request dl_partitions (\<lambda>(c, ps). WUpdatePartitions c ps) hl params = Some q \<Longrightarrow> refused_call s (h_partitionsUpdate hl en params s)"
  "read_request dl_config_alter (\<lambda>(c, t, set_to, unset). WAlterConfig c t set_to unset) hl params = Some q \<Longrightarrow> refused_call s (h_topicConfigAlter hl en params s)"
  "read_request dl_records_clear WClearRecords hl params = Some q \<Longrightarrow> refused_call s (h_topicsRecordsClear hl en params s)"
  "read_request dl_group (\<lambda>(c, g). WDeleteGroup c g) hl params = Some q \<Longrightarrow> refused_call s (h_groupDelete hl en params s)"
  "read_request dl_offsets_reset (WResetOffsets (me_targets (he_mcp en))) hl params = Some q \<Longrightarrow> refused_call s (h_groupOffsetsReset hl en params s)"
  "read_request dl_acl (\<lambda>(c, a). WCreateACL c a) hl params = Some q \<Longrightarrow> refused_call s (h_aclsCreate hl en params s)"
  "read_request dl_acl_filter (\<lambda>(c, f). WDeleteACLs c f) hl params = Some q \<Longrightarrow> refused_call s (h_aclsDelete hl en params s)"
  "read_request dl_produce WProduce hl params = Some q \<Longrightarrow> refused_call s (h_messagesProduce hl en params s)"
  "read_request dl_compat_set WSetCompatibility hl params = Some q \<Longrightarrow> refused_call s (h_schemaCompatibilitySet hl en params s)"
  "read_request dl_register WRegister hl params = Some q \<Longrightarrow> refused_call s (h_schemaRegister hl en params s)"
  "read_request dl_schema_delete WDeleteSchema hl params = Some q \<Longrightarrow> refused_call s (h_schemaDelete hl en params s)"
  "read_request dl_schema_delete WDeleteSchema hl params = Some q \<Longrightarrow> refused_call s (h_schemaDeleteVersion hl en params s)"
  unfolding h_topicsCreate_def h_topicsDelete_def h_partitionsUpdate_def h_topicConfigAlter_def h_topicsRecordsClear_def h_groupDelete_def h_groupOffsetsReset_def
      h_aclsCreate_def h_aclsDelete_def h_messagesProduce_def h_schemaCompatibilitySet_def h_schemaRegister_def h_schemaDelete_def h_schemaDeleteVersion_def
  by (auto dest!: with_read_request [where 'w = 'w] intro!: refused_service_call [where en = en and q = q, OF _ assms]
      simp: host_writes_env_def)

lemma all_writes_refused:
  assumes "\<not> allowed (write_deletes q) (profileOf (write_connection q) (pg_service s))"
  shows "list_all (\<lambda>(n, f). f hl params = Some q \<longrightarrow> refused_call s (handle_method hl en n params s))
    (write_methods (me_targets (he_mcp en)))"
  unfolding write_methods_def list.pred_inject prod.case
  by (simp add: handle_method_def host_methods_def refused_methods [OF assms, where en = en])

lemma host_write_refused:
  assumes "host_write hl en name params = Some q"
    and "\<not> allowed (write_deletes q) (profileOf (write_connection q) (pg_service s))"
  shows "refused_call s (handle_method hl en name params s)"
  using assms(1) list_all_map_of [OF all_writes_refused [OF assms(2), where en = en and hl = hl and params = params]]
  by (auto simp: host_write_def split: option.splits)

text \<open>A sequence of calls, each with what the outside answers to it.\<close>

fun host_run :: "host_lib \<Rightarrow> (('w, 'n, 'm) host_env \<times> string \<times> string) list \<Rightarrow> 'w plugin \<Rightarrow> 'w plugin" where
  "host_run hl [] s = s"
| "host_run hl ((en, name, params) # calls) s = host_run hl calls (snd (handle_method hl en name params s))"

lemma handle_method_table:
  "name \<notin> set table_changers \<Longrightarrow> table_of (snd (handle_method hl en name params s)) = table_of s"
  by (cases rule: dispatch [where en = en and name = name and hl = hl and params = params and s = s])
    (auto dest: list_all_map_of [OF all_tables])

lemma host_run_table:
  "(\<forall>(en, name, params) \<in> set calls. name \<notin> set table_changers) \<Longrightarrow> table_of (host_run hl calls s) = table_of s"
proof (induction calls arbitrary: s)
  case (Cons c calls)
  then show ?case by (cases c) (simp add: handle_method_table)
qed simp

text \<open>
  C9. The write policy of a connection holds for the methods of the host over any sequence of
  calls: whatever calls come before, other than of \<open>connection/connect\<close>, \<open>connection/disconnect\<close>
  and \<open>mcp/call\<close> (the list \<open>table_changers\<close>), and whatever they are answered, a call that stands for
  a write request which the profile did not allow at the start (the connection is read-only, or the request deletes and
  \<open>allow_delete\<close> is off) fails, with code -32602 or -32000, and changes nothing but the audit log,
  where it adds only records of blocked requests.
\<close>

theorem host_write_policy:
  assumes "\<forall>(en, name, params) \<in> set calls. name \<notin> set table_changers"
    and "host_write hl en name params = Some q"
    and "let p = profileOf (write_connection q) (pg_service s) in ReadOnly p \<or> write_deletes q \<and> \<not> AllowDelete p"
  shows "\<exists>e bs. handle_method hl en name params (host_run hl calls s)
      = (Inl e, set_service ((pg_service (host_run hl calls s))
                  \<lparr>sv_audit := sv_audit (pg_service (host_run hl calls s)) @ bs\<rparr>) (host_run hl calls s))
    \<and> pe_code e \<in> {-32602, -32000} \<and> list_all (\<lambda>a. au_result a = ''blocked'') bs"
proof -
  have "profileOf (write_connection q) (pg_service (host_run hl calls s)) = profileOf (write_connection q) (pg_service s)"
    by (rule conn_table_profile, rule host_run_table) (rule assms(1))
  then have "\<not> allowed (write_deletes q) (profileOf (write_connection q) (pg_service (host_run hl calls s)))"
    using assms(3) by (auto simp only: allowed_def Let_def)
  then have "refused_call (host_run hl calls s) (handle_method hl en name params (host_run hl calls s))"
    by (rule host_write_refused [OF assms(2)])
  then show ?thesis by (auto simp: refused_call_def only_blocked_def)
qed

section \<open>Examples\<close>

definition unparsed :: "string \<Rightarrow> 'a res" where
  "unparsed p = Inl (Errf ''invalid character in %q'' [p])"

text \<open>Decoders for which one text is the group \<open>orders\<close> of the connection \<open>c1\<close>, and no other is readable.\<close>

definition sample_decoders :: decode_lib where
  "sample_decoders =
     \<lparr>dl_lifecycle = unparsed, dl_connection = (\<lambda>p. if p = ''g'' then Inr ''c1'' else unparsed p),
      dl_broker = unparsed, dl_topics = unparsed, dl_topic = unparsed, dl_topics_create = unparsed,
      dl_topics_delete = unparsed, dl_partitions = unparsed, dl_config_alter = unparsed, dl_topic_offsets = unparsed,
      dl_records_clear = unparsed,
      dl_group = (\<lambda>p. if p = ''g'' then Inr (''c1'', ''orders'') else unparsed p),
      dl_group_offsets = unparsed, dl_offsets_reset = unparsed, dl_acl_filter = unparsed, dl_acl = unparsed,
      dl_produce = unparsed, dl_consume = unparsed, dl_export = unparsed, dl_stream_stop = unparsed,
      dl_session = unparsed, dl_stream_messages = unparsed, dl_preset = unparsed, dl_preset_id = unparsed,
      dl_map = unparsed, dl_mcp_call = unparsed, dl_schema = unparsed, dl_subject = unparsed, dl_schema_get = unparsed,
      dl_compare = unparsed, dl_compat_set = unparsed, dl_compat_check = unparsed, dl_register = unparsed,
      dl_schema_delete = unparsed\<rparr>"

text \<open>Parameters of another method, and a deletion of a group on a connection nobody has connected.\<close>

lemma handle_method_errors_witness:
  "\<forall>hl (en :: (unit, unit, unit) host_env) s. \<exists>e.
     handle_method (hl\<lparr>hl_decode := sample_decoders\<rparr>) en ''kafka/topics/delete'' ''g'' s = (Inl e, s) \<and> pe_code e = -32602"
proof (intro allI)
  fix hl :: host_lib and en :: "(unit, unit, unit) host_env" and s
  let ?hl = "hl\<lparr>hl_decode := sample_decoders\<rparr>"
  let ?r = "handle_method ?hl en ''kafka/topics/delete'' ''g'' s"
  have "unread dl_topics_delete (hl_decode ?hl) ''g''"
    by (simp add: unread_def sample_decoders_def unparsed_def)
  moreover have "map_of param_readers ''kafka/topics/delete'' = Some (unread dl_topics_delete)"
    by (simp add: param_readers_def)
  moreover have "''kafka/topics/delete'' \<in> set (map fst (host_methods :: (string \<times> (unit, unit, unit) host_method) list))"
    by (simp add: host_methods_def)
  ultimately obtain e where "fst ?r = Inl e \<and> pe_code e = -32602" "snd ?r = s"
    using handle_method_errors [where hl = ?hl and en = en and s = s
        and name = "''kafka/topics/delete''" and params = "''g''", OF prod.collapse [symmetric]] by fastforce
  then show "\<exists>e. ?r = (Inl e, s) \<and> pe_code e = -32602" by (metis prod.collapse)
qed

lemma host_write_policy_witness:
  "\<forall>hl (en :: (unit, unit, unit) host_env) s. \<exists>e s'.
     handle_method (hl\<lparr>hl_decode := sample_decoders\<rparr>) en ''kafka/groups/delete'' ''g''
        (host_run (hl\<lparr>hl_decode := sample_decoders\<rparr>) [(en, ''kafka/groups/list'', ''g''), (en, ''mcp/tools'', [])]
          (set_service (NewService ()) s)) = (Inl e, s')
      \<and> pe_code e \<in> {-32602, -32000}"
proof (intro allI)
  fix hl :: host_lib and en :: "(unit, unit, unit) host_env" and s :: "unit plugin"
  let ?hl = "hl\<lparr>hl_decode := sample_decoders\<rparr>" and ?calls = "[(en, ''kafka/groups/list'', ''g''), (en, ''mcp/tools'', [])]"
    and ?s = "set_service (NewService ()) s"
  have "ReadOnly (profileOf (write_connection (WDeleteGroup ''c1'' ''orders'')) (pg_service ?s))"
    by (simp add: profileOf_def getEntry_def Let_def NewService_def)
  then have p: "let p = profileOf (write_connection (WDeleteGroup ''c1'' ''orders'')) (pg_service ?s)
      in ReadOnly p \<or> write_deletes (WDeleteGroup ''c1'' ''orders'') \<and> \<not> AllowDelete p"
    by (simp add: Let_def)
  have w: "host_write ?hl en ''kafka/groups/delete'' ''g'' = Some (WDeleteGroup ''c1'' ''orders'')"
    by (simp add: host_write_def write_methods_def read_request_def decodeParams_def sample_decoders_def)
  have "\<forall>(en, name, params) \<in> set ?calls. name \<notin> set table_changers"
    by (simp add: table_changers_def)
  from host_write_policy [OF this w p]
  show "\<exists>e s'. handle_method ?hl en ''kafka/groups/delete'' ''g'' (host_run ?hl ?calls ?s) = (Inl e, s')
      \<and> pe_code e \<in> {-32602, -32000}"
    by blast
qed

end
