(* ===== verification/HostAudit.thy ===== *)
theory HostAudit
  imports HostGuards
begin

text \<open>
  Auditing: what a write request leaves in the audit log, from the methods of the service
  (\<open>internal/kafkaconn\<close>) up to the events of \<open>Handle\<close> (\<open>backend/main.go\<close>).
\<close>

section \<open>One record for each attempt\<close>

text \<open>
  A method called for a connection either fails and leaves the service as it was, or adds one
  record, which says success exactly if the method returned a result.
\<close>

definition right_record :: "string \<Rightarrow> bool \<Rightarrow> audit_record \<Rightarrow> bool" where
  "right_record conn ok a \<longleftrightarrow>
     au_connection a = conn
     \<and> (if ok then au_result a = ''success'' else au_result a = ''blocked'' \<or> au_result a = ''error'')"

definition audited :: "string \<Rightarrow> 'w service \<Rightarrow> 'a res \<times> 'w service \<Rightarrow> bool" where
  "audited conn sv r \<longleftrightarrow>
     \<not> is_ok (fst r) \<and> snd r = sv
     \<or> (\<exists>a. sv_audit (snd r) = sv_audit sv @ [a] \<and> right_record conn (is_ok (fst r)) a)"

lemma audited_refusal [simp]: "audited conn sv (Inl e, sv)"
  by (simp add: audited_def)

lemma audited_blocked [simp]:
  "audited conn sv (blocked source conn action target e sv)" "audited conn sv (Inl e', snd (blocked source conn action target e sv))"
  by (simp_all add: audited_def blocked_def emitAuditSource_def right_record_def)

lemma audited_recorded [simp]:
  "sv_audit (snd r) = sv_audit sv \<Longrightarrow> audited conn sv (recorded source conn action target detail r)"
  by (cases r; cases "fst r") (simp_all add: audited_def recorded_def emitAuditSource_def right_record_def)

lemma silent_calls [simp]:
  "sv_audit (snd (withAdmin cv conn fn sv)) = sv_audit sv"
  "sv_audit (snd (admin_call cv conn m f sv)) = sv_audit sv"
  "sv_audit (snd (with_backend cv l conn registry b sv)) = sv_audit sv"
  "sv_audit (snd (produce_send cv pl req opts sc p k sv)) = sv_audit sv"
  by (simp_all add: withAdmin_audit admin_call_def with_backend_def produce_send_def split: sum.splits prod.splits)

lemma audited_admin:
  "audited (tq_connection tq) sv (CreateTopics cv ad tq sv)"
  "audited (td_connection td) sv (DeleteTopics cv ad td sv)"
  "audited (rq_connection rc) sv (ClearTopicRecords cv ad rc sv)"
  "audited c sv (UpdatePartitions cv ad c ps sv)"
  "audited c sv (AlterTopicConfig cv ad c t cfg del sv)"
  "audited c sv (DeleteGroup cv ad c g sv)"
  "audited (or_connection ro) sv (ResetGroupOffsets cv ad f ro sv)"
  "audited c sv (CreateACL cv ad c acl sv)"
  "audited c sv (DeleteACLs cv ad c af sv)"
  unfolding CreateTopics_def DeleteTopics_def ClearTopicRecords_def UpdatePartitions_def AlterTopicConfig_def
    DeleteGroup_def ResetGroupOffsets_def CreateACL_def DeleteACLs_def
  by (simp_all add: Let_def split: sum.split)

lemma audited_registry:
  "audited (oq_connection sc) sv (SetSchemaCompatibility cv l sc sv)"
  "audited (eq_connection rs) sv (RegisterSchema cv l rs sv)"
  "audited (dq_connection ds) sv (DeleteSchema cv l ds sv)"
  "audited (pq_connection pq) sv (Produce cv pl pq sv)"
  unfolding SetSchemaCompatibility_def RegisterSchema_def DeleteSchema_def Produce_def
  by (simp_all add: Let_def split: sum.split prod.split)

section \<open>The methods of the host\<close>

definition audited_call :: "string \<Rightarrow> 'w plugin \<Rightarrow> 'w reply_outcome \<Rightarrow> bool" where
  "audited_call conn s r \<longleftrightarrow>
     (\<exists>e. r = (Inl e, s))
     \<or> (\<exists>a sv. snd r = set_service sv s \<and> sv_audit sv = sv_audit (pg_service s) @ [a]
           \<and> right_record conn (\<exists>x. fst r = Inr x) a)"

lemma audited_call_refusal [simp]: "audited_call conn s (Inl e, s)"
  by (simp add: audited_call_def)

lemma audited_service_call [simp]:
  assumes "audited conn (pg_service s) (call (pg_service s))"
  shows "audited_call conn s (service_call hl wrap call s)"
proof -
  obtain r sv where c: "call (pg_service s) = (r, sv)" by fastforce
  then show ?thesis
    using assms by (cases r) (auto simp: audited_def audited_call_def service_call_def)
qed

lemma audited_methods:
  fixes s :: "'w plugin"
  shows
  "read_request dl_topics_create WCreateTopics hl params = Some q \<Longrightarrow> audited_call (write_connection q) s (h_topicsCreate hl en params s)"
  "read_request dl_topics_delete WDeleteTopics hl params = Some q \<Longrightarrow> audited_call (write_connection q) s (h_topicsDelete hl en params s)"
  "read_request dl_partitions (\<lambda>(c, ps). WUpdatePartitions c ps) hl params = Some q \<Longrightarrow> audited_call (write_connection q) s (h_partitionsUpdate hl en params s)"
  "read_request dl_config_alter (\<lambda>(c, t, set_to, unset). WAlterConfig c t set_to unset) hl params = Some q \<Longrightarrow> audited_call (write_connection q) s (h_topicConfigAlter hl en params s)"
  "read_request dl_records_clear WClearRecords hl params = Some q \<Longrightarrow> audited_call (write_connection q) s (h_topicsRecordsClear hl en params s)"
  "read_request dl_group (\<lambda>(c, g). WDeleteGroup c g) hl params = Some q \<Longrightarrow> audited_call (write_connection q) s (h_groupDelete hl en params s)"
  "read_request dl_offsets_reset (WResetOffsets (me_targets (he_mcp en))) hl params = Some q \<Longrightarrow> audited_call (write_connection q) s (h_groupOffsetsReset hl en params s)"
  "read_request dl_acl (\<lambda>(c, a). WCreateACL c a) hl params = Some q \<Longrightarrow> audited_call (write_connection q) s (h_aclsCreate hl en params s)"
  "read_request dl_acl_filter (\<lambda>(c, f). WDeleteACLs c f) hl params = Some q \<Longrightarrow> audited_call (write_connection q) s (h_aclsDelete hl en params s)"
  "read_request dl_produce WProduce hl params = Some q \<Longrightarrow> audited_call (write_connection q) s (h_messagesProduce hl en params s)"
  "read_request dl_compat_set WSetCompatibility hl params = Some q \<Longrightarrow> audited_call (write_connection q) s (h_schemaCompatibilitySet hl en params s)"
  "read_request dl_register WRegister hl params = Some q \<Longrightarrow> audited_call (write_connection q) s (h_schemaRegister hl en params s)"
  "read_request dl_schema_delete WDeleteSchema hl params = Some q \<Longrightarrow> audited_call (write_connection q) s (h_schemaDelete hl en params s)"
  "read_request dl_schema_delete WDeleteSchema hl params = Some q \<Longrightarrow> audited_call (write_connection q) s (h_schemaDeleteVersion hl en params s)"
  unfolding h_topicsCreate_def h_topicsDelete_def h_partitionsUpdate_def h_topicConfigAlter_def h_topicsRecordsClear_def h_groupDelete_def h_groupOffsetsReset_def
    h_aclsCreate_def h_aclsDelete_def h_messagesProduce_def h_schemaCompatibilitySet_def h_schemaRegister_def h_schemaDelete_def h_schemaDeleteVersion_def
  by (auto dest!: with_read_request [where 'w = 'w] simp: audited_admin audited_registry)

lemma all_writes_audited:
  "list_all (\<lambda>(n, f). f hl params = Some q \<longrightarrow> audited_call (write_connection q) s (handle_method hl en n params s))
    (write_methods (me_targets (he_mcp en)))"
  unfolding write_methods_def list.pred_inject prod.case
  by (simp add: handle_method_def host_methods_def audited_methods [where en = en])

lemma host_write_audited_call:
  "host_write hl en name params = Some q \<Longrightarrow> audited_call (write_connection q) s (handle_method hl en name params s)"
  using list_all_map_of [OF all_writes_audited [where en = en and hl = hl and params = params]]
  by (auto simp: host_write_def split: option.splits)

text \<open>
  C10. No write goes unrecorded. A call of the host that stands for a write request either fails,
  changes nothing at all and emits no event, or adds exactly one record to the audit log, emits it
  as the one event of the call, and that record names the connection and says success exactly if
  the host is answered with a result (otherwise blocked or error).
\<close>

theorem host_write_audited:
  assumes "host_write hl (ens n) name params = Some q"
    and "Handle hl ens ctx name params (n, s) = (events, r, (n', s'))"
  shows "(s' = s \<and> events = [] \<and> (\<exists>e. r = Inl e))
    \<or> (\<exists>a. sv_audit (pg_service s') = sv_audit (pg_service s) @ [a] \<and> events = [(''kafka/audit'', RAudit a)]
         \<and> au_connection a = write_connection q
         \<and> (case r of Inr _ \<Rightarrow> au_result a = ''success'' | Inl _ \<Rightarrow> au_result a = ''blocked'' \<or> au_result a = ''error''))"
proof -
  have h: "handle_method hl (ens n) name params s = (r, s')"
    "events = map (\<lambda>a. (''kafka/audit'', RAudit a)) (new_audits s s') @ map (\<lambda>i. (''kafka/ui/intent'', RIntent i)) (new_intents s s')"
    using assms(2) by (auto simp: Handle_def split: prod.splits)
  from host_write_audited_call [OF assms(1), of s]
  show ?thesis
    unfolding audited_call_def h(1)
  proof (elim disjE exE conjE)
    fix e assume "(r, s') = (Inl e, s)"
    then show ?thesis using h(2) by (simp add: new_audits_def new_intents_def)
  next
    fix a sv
    assume a: "snd (r, s') = set_service sv s" "sv_audit sv = sv_audit (pg_service s) @ [a]"
      "right_record (write_connection q) (\<exists>x. fst (r, s') = Inr x) a"
    then have "events = [(''kafka/audit'', RAudit a)]"
      using h(2) by (simp add: new_audits_def new_intents_def set_service_def)
    then show ?thesis using a by (cases r) (auto simp: right_record_def)
  qed
qed

text \<open>The deletion of the group \<open>orders\<close> on the connection \<open>c1\<close>, whatever the state.\<close>

lemma host_write_audited_witness:
  "\<forall>hl (en :: (unit, unit, unit) host_env) ctx s.
     case Handle (hl\<lparr>hl_decode := sample_decoders\<rparr>) (\<lambda>_. en) ctx ''kafka/groups/delete'' ''g'' (0, s) of (events, r, st) \<Rightarrow>
       events = [] \<or> (\<exists>a. events = [(''kafka/audit'', RAudit a)] \<and> au_connection a = ''c1'')"
proof (intro allI)
  fix hl :: host_lib and en :: "(unit, unit, unit) host_env" and ctx and s :: "unit plugin"
  let ?hl = "hl\<lparr>hl_decode := sample_decoders\<rparr>"
  obtain events r n' s' where h: "Handle ?hl (\<lambda>_. en) ctx ''kafka/groups/delete'' ''g'' (0, s) = (events, r, (n', s'))"
    by (metis prod.collapse)
  have w: "host_write ?hl ((\<lambda>_. en) 0) ''kafka/groups/delete'' ''g'' = Some (WDeleteGroup ''c1'' ''orders'')"
    by (simp add: host_write_def write_methods_def read_request_def decodeParams_def sample_decoders_def)
  show "case Handle ?hl (\<lambda>_. en) ctx ''kafka/groups/delete'' ''g'' (0, s) of (events, r, st) \<Rightarrow>
       events = [] \<or> (\<exists>a. events = [(''kafka/audit'', RAudit a)] \<and> au_connection a = ''c1'')"
    using host_write_audited [OF w h] h by auto
qed

end
