(* ===== verification/McpBridge.thy ===== *)
theory McpBridge
  imports FileStore McpUtil
begin

text \<open>
  \<open>mcp/appbridge.go\<close>: the client of the local bridge of the desktop application, by which the
  stdio mode forwards calls for connections it does not hold. The environment, the port file at
  each look, whether something listens on a port and the answer to the HTTP request are
  arguments.
\<close>

section \<open>Finding the port\<close>

definition bridgePluginID :: string where
  "bridgePluginID = ''io.dbx.kafka''"

definition bridgePortFileName :: string where
  "bridgePortFileName = ''mcp-bridge-port''"

definition bridgeMaxRequestBytes :: nat where
  "bridgeMaxRequestBytes = 64 * 1024"

definition bridgeAppDataDir :: "(string \<Rightarrow> string) \<Rightarrow> string option" where
  "bridgeAppDataDir getenv =
     (let dir = trim_space (getenv ''DBX_APP_DATA_DIR''); home = trim_space (getenv ''HOME'') in
      if dir \<noteq> [] then Some dir
      else if home = [] then None
      else Some (path_join [home, ''Library/Application Support/com.dbx.app'']))"

text \<open>What a look at the directory finds: the content of the port file, and the ports that answer.\<close>

record bridge_look =
  bl_file :: "string \<Rightarrow> string option"
  bl_alive :: "int \<Rightarrow> bool"
  bl_late :: bool                     \<comment> \<open>whether the deadline has passed after this look\<close>

definition bridgePort :: "bridge_look \<Rightarrow> string \<Rightarrow> int option" where
  "bridgePort look dir =
     (case bl_file look (path_join [dir, bridgePortFileName]) of
        None \<Rightarrow> None
      | Some raw \<Rightarrow>
          (case parse_int (trim_space raw) of
             None \<Rightarrow> None
           | Some port \<Rightarrow> if port \<le> 0 \<or> port > 65535 then None else Some port))"

definition bridgePortAlive :: "bridge_look \<Rightarrow> string \<Rightarrow> int option" where
  "bridgePortAlive look dir =
     (case bridgePort look dir of None \<Rightarrow> None | Some port \<Rightarrow> if bl_alive look port then Some port else None)"

text \<open>Whether the application is started: the one value the variable may have turns that off.\<close>

definition launchAppDBX :: "(string \<Rightarrow> string) \<Rightarrow> bool" where
  "launchAppDBX getenv \<longleftrightarrow> trim_space (getenv ''DBX_APP_LAUNCH_CMD'') \<noteq> '':''"

text \<open>The looks after each sleep. \<open>None\<close>: those given end before the loop does.\<close>

fun ensure_loop :: "string \<Rightarrow> string \<Rightarrow> bridge_look list \<Rightarrow> int res option" where
  "ensure_loop wait dir [] = None"
| "ensure_loop wait dir (look # looks) =
     (case bridgePortAlive look dir of
        Some port \<Rightarrow> Some (Inr port)
      | None \<Rightarrow>
          if bl_late look
          then Some (Inl (Errf ''DBX app bridge unreachable after %s: no reachable mcp-bridge-port in %s; start the DBX app and retry'' [wait, dir]))
          else ensure_loop wait dir looks)"

definition ensureBridge :: "(string \<Rightarrow> string) \<Rightarrow> string \<Rightarrow> bridge_look list \<Rightarrow> int res option" where
  "ensureBridge getenv wait looks =
     (case bridgeAppDataDir getenv of
        None \<Rightarrow> Some (Inl (Errf ''DBX app bridge app-data dir unresolved: set DBX_APP_DATA_DIR or HOME; start the DBX app and retry'' []))
      | Some dir \<Rightarrow>
          (case looks of
             [] \<Rightarrow> None
           | look # looks \<Rightarrow>
               (case bridgePortAlive look dir of Some port \<Rightarrow> Some (Inr port) | None \<Rightarrow> ensure_loop wait dir looks)))"

section \<open>The call\<close>

definition bridgeRequestBody :: "string \<Rightarrow> string \<Rightarrow> json_obj \<Rightarrow> int \<Rightarrow> json_obj" where
  "bridgeRequestBody conn tool arguments timeoutMS =
     [(''plugin_id'', JStr bridgePluginID), (''connection_id'', JStr conn), (''tool'', JStr tool),
      (''arguments'', JObj arguments), (''timeout_ms'', JNum (of_int timeoutMS))]"

text \<open>
  \<open>post\<close> is the answer to the request: an error, or the status and the whole body; \<open>unmarshal\<close>
  is \<open>json.Unmarshal\<close> into a map.
\<close>

record bridge_lib =
  br_getenv :: "string \<Rightarrow> string"
  br_wait :: string
  br_looks :: "bridge_look list"
  br_marshal :: "json \<Rightarrow> string res"
  br_post :: "int \<Rightarrow> string \<Rightarrow> (int \<times> string) res"
  br_unmarshal :: "string \<Rightarrow> json_obj res"

definition callPluginTool :: "bridge_lib \<Rightarrow> int \<Rightarrow> string \<Rightarrow> string \<Rightarrow> json_obj \<Rightarrow> int \<Rightarrow> json_obj res" where
  "callPluginTool br port conn tool arguments timeoutMS =
     (case br_marshal br (JObj (bridgeRequestBody conn tool arguments timeoutMS)) of
        Inl e \<Rightarrow> Inl (Wrapf ''failed to encode the DBX app bridge request: %v'' [] e)
      | Inr payload \<Rightarrow>
          if length payload > bridgeMaxRequestBytes
          then Inl (Errf ''DBX app bridge request is %d bytes, above the %d-byte single-write ceiling''
                      [format_int (int (length payload)), format_int (int bridgeMaxRequestBytes)])
          else (case br_post br port payload of
            Inl e \<Rightarrow> Inl (Wrapf ''DBX app bridge call to 127.0.0.1:%d failed: %v'' [format_int port] e)
          | Inr (status, body) \<Rightarrow>
              (let text = trim_space body in
               if status \<noteq> 200 then Inl (Errf ''DBX app bridge returned HTTP %d: %s'' [format_int status, take 500 text])
               else case br_unmarshal br text of
                 Inl e \<Rightarrow> Inl (Wrapf ''DBX app bridge returned invalid JSON: %v'' [] e)
               | Inr decoded \<Rightarrow> Inr decoded)))"

section \<open>Facts\<close>

lemma bridgePort_range: "bridgePort look dir = Some port \<Longrightarrow> 0 < port \<and> port \<le> 65535"
  by (auto simp: bridgePort_def split: option.splits if_splits)

lemma ensure_loop_port:
  "ensure_loop wait dir looks = Some (Inr port) \<Longrightarrow>
     \<exists>look \<in> set looks. bridgePort look dir = Some port \<and> bl_alive look port"
  by (induction looks) (auto simp: bridgePortAlive_def split: option.splits if_splits)

text \<open>A look that is past the deadline ends the wait.\<close>

lemma ensure_loop_ends: "\<exists>look \<in> set looks. bl_late look \<Longrightarrow> \<exists>r. ensure_loop wait dir looks = Some r"
  by (induction looks) (auto split: option.splits)

end
