(* ===== verification/McpStdio.thy ===== *)
theory McpStdio
  imports McpBridge McpTools
begin

text \<open>
  \<open>mcp/stdio.go\<close>: the stand-alone MCP server over stdin. A line is a JSON-RPC request; connections
  are given by their parameters with each call and pooled under a hash of these, at most eight,
  the oldest evicted; a connection that is not pooled is looked up through \<open>McpBridge\<close>. What
  \<open>encoding/json\<close>, SHA-256 and the bridge answer is the record \<open>stdio_lib\<close>.
\<close>

section \<open>Inline connections\<close>

record inline_conn =
  ic_brokers :: "string list"
  ic_protocol :: string
  ic_mechanism :: string
  ic_username :: string
  ic_password :: string
  ic_ca :: string
  ic_cert :: string
  ic_key :: string
  ic_skip_verify :: bool
  ic_registry :: string
  ic_registry_url :: string
  ic_registry_user :: string
  ic_registry_password :: string
  ic_client :: string
  ic_read_only :: bool
  ic_allow_delete :: bool

definition parseBrokers :: "args_lib \<Rightarrow> json option \<Rightarrow> string list" where
  "parseBrokers al raw =
     (let pieces = (case raw of
            None \<Rightarrow> [] | Some JNull \<Rightarrow> []
          | Some (JArr items) \<Rightarrow> map (fmt_v al) items
          | Some (JStr s) \<Rightarrow> [s]
          | Some v \<Rightarrow> [fmt_v al v])
      in filter (\<lambda>t. t \<noteq> [])
           (concat (map (\<lambda>p. map trim_space (fields_func [CHR '','', CHR 0x0A, CHR 0x0D] p)) pieces)))"

text \<open>A switch that is given must be a boolean or one of the words for one.\<close>

definition inline_switch :: "args_lib \<Rightarrow> json_obj \<Rightarrow> string \<Rightarrow> bool \<Rightarrow> bool res" where
  "inline_switch al args key unset =
     (let raw = map_of args key in
      if absent raw then Inr unset
      else case coerceBool (the raw) of
             None \<Rightarrow> Inl (Errf ''%s must be true or false (got %v)'' [key, fmt_arg al raw])
           | Some v \<Rightarrow> Inr v)"

definition parseInlineConn :: "args_lib \<Rightarrow> json_obj \<Rightarrow> (inline_conn \<times> bool) res" where
  "parseInlineConn al args =
     (let brokers = parseBrokers al (map_of args ''brokers'') in
      ebind (inline_switch al args ''readOnly'' True) (\<lambda>readOnly.
      ebind (inline_switch al args ''allowDelete'' False) (\<lambda>allowDelete.
        Inr (\<lparr>ic_brokers = brokers,
              ic_protocol = text_arg args ''securityProtocol'', ic_mechanism = text_arg args ''saslMechanism'',
              ic_username = text_arg args ''saslUsername'', ic_password = stringField args ''saslPassword'',
              ic_ca = stringField args ''tlsCaCert'', ic_cert = stringField args ''tlsClientCert'',
              ic_key = stringField args ''tlsClientKey'', ic_skip_verify = boolArg (map_of args ''tlsInsecureSkipVerify''),
              ic_registry = text_arg args ''schemaRegistry'', ic_registry_url = text_arg args ''schemaRegistryUrl'',
              ic_registry_user = text_arg args ''schemaRegistryUsername'',
              ic_registry_password = stringField args ''schemaRegistryPassword'',
              ic_client = text_arg args ''clientId'', ic_read_only = readOnly, ic_allow_delete = allowDelete\<rparr>,
             brokers \<noteq> []))))"

definition put_text :: "string \<Rightarrow> string \<Rightarrow> (string \<rightharpoonup> json) \<Rightarrow> (string \<rightharpoonup> json)" where
  "put_text key t m = (if t = [] then m else m(key \<mapsto> JStr t))"

definition toLifecycle :: "inline_conn \<Rightarrow> string \<Rightarrow> lc_params" where
  "toLifecycle c i =
     (let external = [''bootstrap_servers'' \<mapsto> JStr (join_with '','' (ic_brokers c)),
                      ''read_only'' \<mapsto> JBool (ic_read_only c), ''allow_delete'' \<mapsto> JBool (ic_allow_delete c)];
          external = put_text ''tls_client_cert'' (ic_cert c) (put_text ''tls_ca_cert'' (ic_ca c)
            (put_text ''sasl_username'' (ic_username c) (put_text ''sasl_mechanism'' (ic_mechanism c)
              (put_text ''security_protocol'' (ic_protocol c) external))));
          external = (if ic_skip_verify c then external(''tls_insecure_skip_verify'' \<mapsto> JBool True) else external);
          external = put_text ''client_id'' (ic_client c) (put_text ''sr_username'' (ic_registry_user c)
            (put_text ''sr_url'' (ic_registry_url c) (put_text ''schema_registry'' (ic_registry c) external)));
          secrets = put_text ''sr_password'' (ic_registry_password c) (put_text ''tls_client_key'' (ic_key c)
            (put_text ''sasl_password'' (ic_password c) (\<lambda>_. None)))
      in \<lparr>lp_provider_id = [], lp_database_type = [],
          lp_connection = \<lparr>lc_id = i, lc_name = ''mcp-stdio-inline'', lc_host = [], lc_port = 0, lc_username = [],
            lc_password = [], lc_read_only = False, ExternalConfig = external, Secrets = secrets\<rparr>,
          lp_runtime = \<lparr>rt_host = [], rt_port = 0, rt_proxy = None\<rparr>, lp_operation_id = []\<rparr>)"

section \<open>The library and the state\<close>

text \<open>The fields of a request as they stand in the line, empty if missing; a null is the text null.\<close>

record raw_request =
  rr_jsonrpc :: string
  rr_id :: string
  rr_method :: string
  rr_params :: string

record stdio_lib =
  st_mcp :: mcp_lib
  st_bridge :: bridge_lib
  st_raw :: "string \<Rightarrow> goerr + raw_request"
  st_value :: "string \<Rightarrow> json res"                           \<comment> \<open>\<open>json.Unmarshal\<close> of a field\<close>
  st_call :: "string \<Rightarrow> (string \<times> json_obj option) res"       \<comment> \<open>of the parameters of \<open>tools/call\<close>\<close>
  st_canonical :: "inline_conn \<Rightarrow> string"
  st_sha256 :: "string \<Rightarrow> string"
  st_marshal :: "response \<Rightarrow> string res"

text \<open>Lower-case hexadecimal digits.\<close>

definition hex_text :: "string \<Rightarrow> string" where
  "hex_text s =
     (let digit = (\<lambda>n. ''0123456789abcdef'' ! n)
      in concat (map (\<lambda>c. [digit ((of_char c :: nat) div 16), digit ((of_char c :: nat) mod 16)]) s))"

definition poolKey :: "stdio_lib \<Rightarrow> inline_conn \<Rightarrow> string" where
  "poolKey sl c = ''mcp-'' @ hex_text (take 16 (st_sha256 sl (st_canonical sl c)))"

definition inlinePoolCap :: nat where
  "inlinePoolCap = 8"

record inline_pool =
  ip_ids :: "(string \<times> string) list"
  ip_hash :: "(string \<times> string) list"
  ip_order :: "string list"

record 'w stdio_server =
  so_server :: "'w mcp_server"
  so_pool :: inline_pool

definition NewStdioServer :: "'w service \<Rightarrow> (settings option) res option \<Rightarrow> 'w stdio_server" where
  "NewStdioServer sv st =
     \<lparr>so_server = NewServer sv st, so_pool = \<lparr>ip_ids = [], ip_hash = [], ip_order = []\<rparr>\<rparr>"

abbreviation so_service :: "'w stdio_server \<Rightarrow> 'w service" where
  "so_service s \<equiv> mc_service (so_server s)"

definition with_service :: "('w service \<Rightarrow> 'w service) \<Rightarrow> 'w stdio_server \<Rightarrow> 'w stdio_server" where
  "with_service f s = s\<lparr>so_server := (so_server s)\<lparr>mc_service := f (so_service s)\<rparr>\<rparr>"

section \<open>The pool\<close>

text \<open>
  The first critical section of \<open>pooledConnectionID\<close>: whether the parameters are pooled, what was
  evicted, and the pool after it. \<open>None\<close>: the index into the empty order panics.
\<close>

fun evict_oldest :: "string list \<Rightarrow> inline_pool \<Rightarrow> (string list \<times> inline_pool) option" where
  "evict_oldest [] p = (if length (ip_hash p) < inlinePoolCap then Some ([], p\<lparr>ip_order := []\<rparr>) else None)"
| "evict_oldest (oldest # order) p =
     (if length (ip_hash p) < inlinePoolCap then Some ([], p\<lparr>ip_order := oldest # order\<rparr>)
      else case map_of (ip_hash p) oldest of
        None \<Rightarrow> evict_oldest order p
      | Some stale \<Rightarrow>
          map_option (\<lambda>(evicted, p). (stale # evicted, p))
            (evict_oldest order (p\<lparr>ip_hash := AList.delete oldest (ip_hash p), ip_ids := AList.delete stale (ip_ids p)\<rparr>)))"

definition pool_reserve :: "string \<Rightarrow> inline_pool \<Rightarrow> (bool \<times> string list \<times> inline_pool) option" where
  "pool_reserve i p =
     (if map_of (ip_hash p) i \<noteq> None then Some (True, [], p)
      else case evict_oldest (ip_order p) p of
        None \<Rightarrow> None
      | Some (evicted, p) \<Rightarrow>
          Some (False, evicted,
            \<lparr>ip_ids = AList.update i (trim_prefix ''mcp-'' i) (ip_ids p), ip_hash = AList.update i i (ip_hash p),
             ip_order = ip_order p @ [i]\<rparr>))"

text \<open>After a connection that was refused; the order keeps the id.\<close>

definition pool_release :: "string \<Rightarrow> inline_pool \<Rightarrow> inline_pool" where
  "pool_release i p = p\<lparr>ip_hash := AList.delete i (ip_hash p), ip_ids := AList.delete i (ip_ids p)\<rparr>"

definition poolHas :: "string \<Rightarrow> 'w stdio_server \<Rightarrow> bool" where
  "poolHas i s \<longleftrightarrow> map_of (ip_ids (so_pool s)) i \<noteq> None"

text \<open>The rest runs outside the lock: evicted connections are closed, then the new one registered.\<close>

definition register_inline :: "stdio_lib \<Rightarrow> inline_conn \<Rightarrow> 'w stdio_server \<Rightarrow> string res \<times> 'w stdio_server" where
  "register_inline sl c s =
     (let i = poolKey sl c in
      case Connect (ml_json (st_mcp sl)) (toLifecycle c i) (so_service s) of
        (Inl e, _) \<Rightarrow> (Inl e, s\<lparr>so_pool := pool_release i (so_pool s)\<rparr>)
      | (Inr _, sv) \<Rightarrow> (Inr i, with_service (\<lambda>_. sv) s))"

definition pooledConnectionID :: "stdio_lib \<Rightarrow> inline_conn \<Rightarrow> 'w stdio_server \<Rightarrow> string res \<times> 'w stdio_server" where
  "pooledConnectionID sl c s =
     (case pool_reserve (poolKey sl c) (so_pool s) of
        None \<Rightarrow> (Inl (Ext ''index out of range''), s)
      | Some (True, _, _) \<Rightarrow> (Inr (poolKey sl c), s)
      | Some (False, evicted, p) \<Rightarrow>
          register_inline sl c (with_service (fold Disconnect evicted) (s\<lparr>so_pool := p\<rparr>)))"

section \<open>Calling a tool\<close>

datatype tool_result = ToolText string bool | ToolEnvelope json_obj

definition uiToolPrefix :: string where
  "uiToolPrefix = ''kafka_ui_''"

text \<open>The text is in Chinese and in English.\<close>

definition unavailableResult :: "string \<Rightarrow> tool_result" where
  "unavailableResult name = ToolText
    (''UNAVAILABLE: '' @ [CHR 0xE6, CHR 0xAD, CHR 0xA4, CHR 0xE5, CHR 0xB7, CHR 0xA5, CHR 0xE5, CHR 0x85, CHR
     0xB7, CHR 0xE9, CHR 0x9C, CHR 0x80, CHR 0xE8, CHR 0xA6, CHR 0x81] @ '' DBX '' @ [CHR 0xE5, CHR 0xB7, CHR
     0xA5, CHR 0xE4, CHR 0xBD, CHR 0x9C, CHR 0xE5, CHR 0x8F, CHR 0xB0, CHR 0xEF, CHR 0xBC, CHR 0x88, CHR 0xE5,
     CHR 0xB7, CHR 0xA5, CHR 0xE4, CHR 0xBD, CHR 0x9C, CHR 0xE5, CHR 0x8F, CHR 0xB0, CHR 0xE6, CHR 0xA8, CHR
     0xA1, CHR 0xE5, CHR 0xBC, CHR 0x8F, CHR 0xE5, CHR 0x8F, CHR 0xAF, CHR 0xE7, CHR 0x94, CHR 0xA8, CHR 0xEF,
     CHR 0xBC, CHR 0x8C, CHR 0xE8, CHR 0xAF, CHR 0xB7, CHR 0xE7, CHR 0xBB, CHR 0x8F] @ '' DBX MCP '' @ [CHR 0xE6,
     CHR 0xA1, CHR 0xA5, CHR 0xE8, CHR 0xB0, CHR 0x83, CHR 0xE7, CHR 0x94, CHR 0xA8, CHR 0xEF, CHR 0xBC, CHR
     0x89, CHR 0xE3, CHR 0x80, CHR 0x82, CHR 0xE7, CHR 0x8B, CHR 0xAC, CHR 0xE7, CHR 0xAB, CHR 0x8B] @ '' stdio ''
     @ [CHR 0xE6, CHR 0xA8, CHR 0xA1, CHR 0xE5, CHR 0xBC, CHR 0x8F, CHR 0xE8, CHR 0xAF, CHR 0xB7, CHR 0xE6,
     CHR 0x94, CHR 0xB9, CHR 0xE7, CHR 0x94, CHR 0xA8] @ '' kafka_messages_digest / kafka_cursor_next '' @ [CHR
     0xE4, CHR 0xB8, CHR 0x8E, CHR 0xE5, CHR 0x86, CHR 0x99, CHR 0xE6, CHR 0x97, CHR 0x8F, CHR 0xE5, CHR 0xB7,
     CHR 0xA5, CHR 0xE5, CHR 0x85, CHR 0xB7, CHR 0xE3, CHR 0x80, CHR 0x82] @ ''/ This tool requires the DBX workbench and is unavailable in standalone stdio mode (''
     @ name @ '').'') True"

definition toolErrorResult :: "string \<Rightarrow> tool_result" where
  "toolErrorResult message = ToolText message True"

definition forward_timeout :: "json_obj \<Rightarrow> int" where
  "forward_timeout args =
     (let secs = intArg (map_of args ''timeoutSecs'')
      in 1000 * (if secs > 0 then min 300 (max 5 secs) else 300))"

definition forwardViaBridge :: "bridge_lib \<Rightarrow> (json_obj \<Rightarrow> string res) \<Rightarrow> string \<Rightarrow> string \<Rightarrow> json_obj \<Rightarrow> tool_result res" where
  "forwardViaBridge br marshal conn name args =
     (case ensureBridge (br_getenv br) (br_wait br) (br_looks br) of
        None \<Rightarrow> Inl (Ext ''still waiting'')
      | Some (Inl e) \<Rightarrow> Inl e
      | Some (Inr port) \<Rightarrow>
          (case callPluginTool br port conn name args (forward_timeout args) of
             Inl e \<Rightarrow> Inl e
           | Inr result \<Rightarrow>
               if map_of result ''content'' \<noteq> None \<and> map_of result ''isError'' \<noteq> None
               then Inr (ToolEnvelope result)
               else (case marshal result of
                 Inl e \<Rightarrow> Inl (Wrapf ''DBX app bridge returned unencodable payload: %v'' [] e)
               | Inr payload \<Rightarrow> Inr (ToolText payload False))))"

definition unknown_connection :: "string \<Rightarrow> goerr \<Rightarrow> goerr" where
  "unknown_connection i e =
     Wrapf (''unknown connectionId %q: not pooled in this stdio session and the bridge fallback failed (%v). Re-send the inline connection parameters (brokers, securityProtocol, sasl*, schemaRegistry*, ''
       @ [CHR 0xE2, CHR 0x80, CHR 0xA6] @ '') or start the DBX app so its saved connections can be used'') [i] e"

definition connection_required :: goerr where
  "connection_required =
     Errf (''connection parameters required: pass connectionId (pooled earlier in this stdio session, or a DBX saved connection id when the app is running) or inline parameters ''
       @ dash @ '' brokers (required), plus securityProtocol, saslMechanism, saslUsername, saslPassword, tlsCaCert, tlsClientCert, tlsClientKey, tlsInsecureSkipVerify, schemaRegistry, schemaRegistryUrl, schemaRegistryUsername, schemaRegistryPassword, clientId, readOnly, allowDelete'') []"

text \<open>What the gate decides: the arguments for the local tool, or the answer of the application.\<close>

datatype resolved = Local json_obj | Answered tool_result

definition resolveConnectionOrForward ::
  "stdio_lib \<Rightarrow> string \<Rightarrow> json_obj \<Rightarrow> 'w stdio_server \<Rightarrow> resolved res \<times> 'w stdio_server" where
  "resolveConnectionOrForward sl name args s =
     (case parseInlineConn (ml_args (st_mcp sl)) args of
        Inl e \<Rightarrow> (Inl e, s)
      | Inr (c, True) \<Rightarrow>
          (case pooledConnectionID sl c s of
             (Inl e, s) \<Rightarrow> (Inl e, s)
           | (Inr i, s) \<Rightarrow> (Inr (Local (AList.update ''connectionId'' (JStr i) args)), s))
      | Inr (c, False) \<Rightarrow>
          (let i = text_arg args ''connectionId'' in
           if i = [] then (Inl connection_required, s)
           else if poolHas i s then (Inr (Local args), s)
           else case forwardViaBridge (st_bridge sl) (br_marshal (st_bridge sl) \<circ> JObj) i name args of
             Inl e \<Rightarrow> (Inl (unknown_connection i e), s)
           | Inr r \<Rightarrow> (Inr (Answered r), s)))"

definition callTool ::
  "('w, 'n, 'm) mcp_env \<Rightarrow> stdio_lib \<Rightarrow> string \<Rightarrow> json_obj option \<Rightarrow> 'w stdio_server \<Rightarrow> tool_result \<times> 'w stdio_server" where
  "callTool en sl name arguments s =
     (let args = (case arguments of None \<Rightarrow> [] | Some a \<Rightarrow> a); text = error_text (st_mcp sl);
          run = (\<lambda>args s. case Call en (st_mcp sl) name (Some args) (so_server s) of
                   (Inl e, sv) \<Rightarrow> (toolErrorResult (text e), s\<lparr>so_server := sv\<rparr>)
                 | (Inr r, sv) \<Rightarrow>
                     (case st_marshal sl r of
                        Inl e \<Rightarrow> (toolErrorResult (text e), s\<lparr>so_server := sv\<rparr>)
                      | Inr payload \<Rightarrow> (ToolText payload False, s\<lparr>so_server := sv\<rparr>)))
      in if prefix uiToolPrefix name then (unavailableResult name, s)
         else if name \<in> connectionBoundTools then
           (case resolveConnectionOrForward sl name args s of
              (Inl e, s) \<Rightarrow> (toolErrorResult (text e), s)
            | (Inr (Answered r), s) \<Rightarrow> (r, s)
            | (Inr (Local args), s) \<Rightarrow> run args s)
         else run args s)"

section \<open>Requests\<close>

datatype rpc_body =
    InitializeBody string string
  | PingBody
  | ToolsBody "json_obj list"
  | CallBody tool_result

datatype rpc_response =
    RpcResult string rpc_body
  | RpcFailure string int goerr

definition MCPProtocolVersion :: string where
  "MCPProtocolVersion = ''2024-11-05''"

text \<open>A null leaves the string empty.\<close>

definition decodeMethod :: "stdio_lib \<Rightarrow> string \<Rightarrow> string res" where
  "decodeMethod sl raw =
     (let bad = Inl (Errf ''method must be a string (got %s)'' [raw]) in
      if raw = [] then Inl (Errf ''method is required'' [])
      else case st_value sl raw of
        Inl _ \<Rightarrow> bad
      | Inr (JStr m) \<Rightarrow> if trim_space m = [] then Inl (Errf ''method is required'' []) else Inr m
      | Inr JNull \<Rightarrow> Inl (Errf ''method is required'' [])
      | Inr _ \<Rightarrow> bad)"

definition validRequestID :: "stdio_lib \<Rightarrow> string \<Rightarrow> bool" where
  "validRequestID sl raw =
     (let t = trim_space raw in
      t \<noteq> [] \<and> hd t \<noteq> CHR 0x7B \<and> hd t \<noteq> CHR ''['' \<and> t \<noteq> ''true'' \<and> t \<noteq> ''false'' \<and> is_ok (st_value sl t))"

definition version_ok :: "stdio_lib \<Rightarrow> string \<Rightarrow> bool" where
  "version_ok sl raw \<longleftrightarrow> raw = [] \<or> st_value sl raw = Inr (JStr ''2.0'')"

definition handle_request ::
  "('w, 'n, 'm) mcp_env \<Rightarrow> stdio_lib \<Rightarrow> string \<Rightarrow> string \<Rightarrow> string \<Rightarrow> string \<Rightarrow> 'w stdio_server
     \<Rightarrow> rpc_response \<times> 'w stdio_server" where
  "handle_request en sl version i name params s =
     (if name = ''initialize'' then (RpcResult i (InitializeBody MCPProtocolVersion version), s)
      else if name = ''ping'' then (RpcResult i PingBody, s)
      else if name = ''tools/list'' then (RpcResult i (ToolsBody (stdioToolList (so_server s))), s)
      else if name = ''tools/call'' then
        (case st_call sl params of
           Inl e \<Rightarrow> (RpcFailure i (-32602) (Wrapf ''Invalid params: %v'' [] e), s)
         | Inr (tool, args) \<Rightarrow>
             (case callTool en sl (trim_space tool) args s of (r, s) \<Rightarrow> (RpcResult i (CallBody r), s)))
      else (RpcFailure i (-32601) (Errf ''Method not found: %s'' [name]), s))"

definition handleLine ::
  "('w, 'n, 'm) mcp_env \<Rightarrow> stdio_lib \<Rightarrow> string \<Rightarrow> string \<Rightarrow> 'w stdio_server \<Rightarrow> rpc_response option \<times> 'w stdio_server" where
  "handleLine en sl version line s =
     (case st_raw sl line of
        Inl e \<Rightarrow> (Some (RpcFailure ''null'' (-32700) (Wrapf ''Parse error: %v'' [] e)), s)
      | Inr raw \<Rightarrow>
          (let meth = decodeMethod sl (rr_method raw);
               invalid = (\<lambda>i e. (Some (RpcFailure i (-32600) e), s)) in
           if (case meth of Inl _ \<Rightarrow> False | Inr m \<Rightarrow> prefix ''notifications/'' m) then (None, s)
           else if rr_id raw = [] then invalid ''null'' (Errf ''Invalid request: request is missing an id'' [])
           else if \<not> validRequestID sl (rr_id raw)
           then invalid ''null'' (Errf ''Invalid request: id must be a string, number, or null'' [])
           else case meth of
             Inl e \<Rightarrow> invalid (rr_id raw) (Wrapf ''Invalid request: %v'' [] e)
           | Inr m \<Rightarrow>
               if \<not> version_ok sl (rr_jsonrpc raw)
               then invalid (rr_id raw) (Errf ''Invalid request: jsonrpc must be \"2.0\" (got %s)'' [rr_jsonrpc raw])
               else (case handle_request en sl version (rr_id raw) m (rr_params raw) s of (r, s) \<Rightarrow> (Some r, s))))"

text \<open>\<open>Serve\<close> on one line.\<close>

definition maxRequestLineBytes :: nat where
  "maxRequestLineBytes = 16 * 2 ^ 20"

definition stdio_line ::
  "('w, 'n, 'm) mcp_env \<Rightarrow> stdio_lib \<Rightarrow> string \<Rightarrow> string \<Rightarrow> 'w stdio_server \<Rightarrow> rpc_response option \<times> 'w stdio_server" where
  "stdio_line en sl version line s =
     (let t = trim_space line in
      if t = [] then (None, s)
      else if length t > maxRequestLineBytes
      then (Some (RpcFailure ''null'' (-32700) (Errf ''Parse error: request line exceeds %d bytes''
              [format_int (int maxRequestLineBytes)])), s)
      else handleLine en sl version t s)"

definition Close :: "'w stdio_server \<Rightarrow> 'w stdio_server" where
  "Close s = with_service CloseAll s"

section \<open>Every request line is answered\<close>

text \<open>A message the client expects no answer to.\<close>

definition notification :: "stdio_lib \<Rightarrow> string \<Rightarrow> bool" where
  "notification sl line =
     (case st_raw sl line of
        Inl _ \<Rightarrow> False
      | Inr raw \<Rightarrow> (case decodeMethod sl (rr_method raw) of Inl _ \<Rightarrow> False | Inr m \<Rightarrow> prefix ''notifications/'' m))"

text \<open>The id a response carries: that of the request if there is a proper one.\<close>

definition answer_id :: "stdio_lib \<Rightarrow> string \<Rightarrow> string" where
  "answer_id sl line =
     (case st_raw sl line of
        Inl _ \<Rightarrow> ''null''
      | Inr raw \<Rightarrow>
          if length line \<le> maxRequestLineBytes \<and> rr_id raw \<noteq> [] \<and> validRequestID sl (rr_id raw) then rr_id raw else ''null'')"

fun response_id :: "rpc_response \<Rightarrow> string" where
  "response_id (RpcResult i _) = i"
| "response_id (RpcFailure i _ _) = i"

fun failed :: "rpc_response \<Rightarrow> bool" where
  "failed (RpcResult _ _) = False"
| "failed (RpcFailure _ _ _) = True"

lemma handle_request_id: "response_id (fst (handle_request en sl version i m ps s)) = i"
  by (simp add: handle_request_def split: sum.split prod.split)

lemma handle_request_failed:
  "failed (fst (handle_request en sl version i m ps s)) \<Longrightarrow> snd (handle_request en sl version i m ps s) = s"
  by (auto simp: handle_request_def split: sum.splits prod.splits if_splits)

text \<open>
  C34. Every line of the stdio protocol is answered at most once, and exactly the blank lines and the
  notifications are not answered. The response carries the id of the request if the line is a
  JSON object within the limit whose id is a string, a number or null, and null otherwise. A line
  that is answered with a protocol error, or not at all, changes no state.
\<close>

theorem stdio_line_answered:
  "case stdio_line en sl version line s of (r, s') \<Rightarrow>
     (r = None \<longleftrightarrow> trim_space line = []
        \<or> length (trim_space line) \<le> maxRequestLineBytes \<and> notification sl (trim_space line))
     \<and> (case r of
          None \<Rightarrow> s' = s
        | Some a \<Rightarrow> response_id a = answer_id sl (trim_space line) \<and> (if failed a then s' = s else True))"
proof -
  let ?t = "trim_space line"
  consider (blank) "?t = []" | (long) "?t \<noteq> []" "length ?t > maxRequestLineBytes"
    | (line) "?t \<noteq> []" "length ?t \<le> maxRequestLineBytes"
    by linarith
  then show ?thesis
  proof cases
    case blank
    then show ?thesis by (simp add: stdio_line_def)
  next
    case long
    then show ?thesis by (simp add: stdio_line_def answer_id_def split: sum.split)
  next
    case line
    have "stdio_line en sl version line s = handleLine en sl version ?t s"
      using line by (simp add: stdio_line_def Let_def)
    moreover have "case handleLine en sl version ?t s of (r, s') \<Rightarrow>
       (r = None \<longleftrightarrow> notification sl ?t)
       \<and> (case r of None \<Rightarrow> s' = s
            | Some a \<Rightarrow> response_id a = answer_id sl ?t \<and> (if failed a then s' = s else True))"
    proof (cases "st_raw sl ?t")
      case (Inl e)
      then show ?thesis by (simp add: handleLine_def notification_def answer_id_def)
    next
      case (Inr raw)
      show ?thesis
      proof (cases "decodeMethod sl (rr_method raw)")
        case Inl': (Inl e)
        then show ?thesis
          using Inr line(2) by (simp add: handleLine_def notification_def answer_id_def)
      next
        case Inr': (Inr m)
        obtain r s' where h: "handle_request en sl version (rr_id raw) m (rr_params raw) s = (r, s')" by fastforce
        then have "response_id r = rr_id raw" "failed r \<longrightarrow> s' = s"
          using handle_request_id [of en sl version "rr_id raw" m "rr_params raw" s]
            handle_request_failed [of en sl version "rr_id raw" m "rr_params raw" s] by simp_all
        then show ?thesis
          using Inr Inr' h line(2) by (simp add: handleLine_def notification_def answer_id_def Let_def)
      qed
    qed
    ultimately show ?thesis using line by simp
  qed
qed

end
