(* ===== verification/McpInline.thy ===== *)
theory McpInline
  imports McpStdio ConnTable StepSystems
begin

text \<open>
  The pool of inline connections of the stdio mode: it stays within its capacity whatever requests
  interleave, a call runs on a connection with exactly the parameters it gives, and nothing is
  written through such a connection unless the call opens it for writing.
\<close>

section \<open>The tables of the pool\<close>

text \<open>
  Both tables have the same ids, each stands for itself, every one is in the order, and there are
  at most as many as the capacity.
\<close>

definition pool_ok :: "inline_pool \<Rightarrow> bool" where
  "pool_ok p \<longleftrightarrow>
     distinct (map fst (ip_hash p)) \<and> distinct (map fst (ip_ids p)) \<and> fst ` set (ip_ids p) = fst ` set (ip_hash p)
     \<and> (\<forall>(i, j) \<in> set (ip_hash p). j = i) \<and> fst ` set (ip_hash p) \<subseteq> set (ip_order p)
     \<and> length (ip_hash p) \<le> inlinePoolCap"

abbreviation pooled :: "inline_pool \<Rightarrow> string set" where
  "pooled p \<equiv> fst ` set (ip_hash p)"

lemma pooled_iff: "map_of (ip_hash p) i \<noteq> None \<longleftrightarrow> i \<in> pooled p"
  by (simp add: map_of_eq_None_iff)

lemma pool_ok_self: "pool_ok p \<Longrightarrow> map_of (ip_hash p) i = Some j \<Longrightarrow> j = i"
  unfolding pool_ok_def by (auto dest: map_of_SomeD)

lemma delete_keys [simp]: "fst ` set (AList.delete k xs) = fst ` set xs - {k}"
  by (auto simp: AList.delete_eq)

lemma delete_length: "length (AList.delete k xs) \<le> length xs"
  by (simp add: AList.delete_eq)

lemma delete_distinct [simp]: "distinct (map fst xs) \<Longrightarrow> distinct (map fst (AList.delete k xs))"
  by (simp add: AList.distinct_delete)

lemma set_delete: "set (AList.delete k xs) \<subseteq> set xs"
  by (auto simp: AList.delete_eq)

text \<open>Without the condition on the order, as the loop shortens it.\<close>

definition tables_ok :: "inline_pool \<Rightarrow> bool" where
  "tables_ok p \<longleftrightarrow>
     distinct (map fst (ip_hash p)) \<and> distinct (map fst (ip_ids p)) \<and> fst ` set (ip_ids p) = fst ` set (ip_hash p)
     \<and> (\<forall>(i, j) \<in> set (ip_hash p). j = i)"

lemma pool_ok_iff: "pool_ok p \<longleftrightarrow> tables_ok p \<and> pooled p \<subseteq> set (ip_order p) \<and> length (ip_hash p) \<le> inlinePoolCap"
  by (auto simp: pool_ok_def tables_ok_def)

lemma tables_ok_delete:
  "tables_ok p \<Longrightarrow> tables_ok (p\<lparr>ip_hash := AList.delete i (ip_hash p), ip_ids := AList.delete i (ip_ids p)\<rparr>)"
  using set_delete [of i "ip_hash p"] by (auto simp: tables_ok_def)

text \<open>What the loop does to the tables.\<close>

definition evicts :: "inline_pool \<Rightarrow> string list \<Rightarrow> inline_pool \<Rightarrow> bool" where
  "evicts p evicted p' \<longleftrightarrow>
     tables_ok p' \<and> pooled p' \<subseteq> set (ip_order p') \<and> length (ip_hash p') < inlinePoolCap
     \<and> pooled p' = pooled p - set evicted \<and> set evicted \<subseteq> pooled p"

lemma evicts_stop:
  "tables_ok p \<Longrightarrow> pooled p \<subseteq> set order \<Longrightarrow> length (ip_hash p) < inlinePoolCap \<Longrightarrow> evicts p [] (p\<lparr>ip_order := order\<rparr>)"
  by (simp add: evicts_def tables_ok_def)

lemma evicts_more:
  "i \<in> pooled p \<Longrightarrow> evicts (p\<lparr>ip_hash := AList.delete i (ip_hash p), ip_ids := AList.delete i (ip_ids p)\<rparr>) evicted p'
     \<Longrightarrow> evicts p (i # evicted) p'"
  unfolding evicts_def by (simp add: Diff_insert2 [symmetric]) blast

lemma evict_oldest_ok:
  "tables_ok p \<Longrightarrow> pooled p \<subseteq> set order \<Longrightarrow> \<exists>evicted p'. evict_oldest order p = Some (evicted, p') \<and> evicts p evicted p'"
proof (induction order p rule: evict_oldest.induct)
  case (1 p)
  then have "ip_hash p = []" by simp
  then show ?case using evicts_stop [of p "[]"] 1 by (simp add: inlinePoolCap_def)
next
  case (2 oldest order p)
  show ?case
  proof (cases "length (ip_hash p) < inlinePoolCap")
    case True
    then show ?thesis using evicts_stop [OF 2(3,4)] by simp
  next
    case False
    show ?thesis
    proof (cases "map_of (ip_hash p) oldest")
      case None
      then have "pooled p \<subseteq> set order" using 2(4) by (auto simp: map_of_eq_None_iff)
      then show ?thesis using 2(1) [OF False None 2(3)] False None by simp
    next
      case (Some stale)
      have mem: "(oldest, stale) \<in> set (ip_hash p)" using Some by (rule map_of_SomeD)
      then have st: "stale = oldest" "oldest \<in> pooled p"
        using 2(3) by (auto simp: tables_ok_def intro: rev_image_eqI)
      let ?q = "p\<lparr>ip_hash := AList.delete oldest (ip_hash p), ip_ids := AList.delete oldest (ip_ids p)\<rparr>"
      have "tables_ok ?q" using tables_ok_delete [OF 2(3)] .
      moreover have "pooled ?q \<subseteq> set order" using 2(4) by auto
      ultimately obtain evicted p' where e: "evict_oldest order ?q = Some (evicted, p')" "evicts ?q evicted p'"
        using 2(2) [OF False Some] st(1) by auto
      have "evict_oldest (oldest # order) p = Some (oldest # evicted, p')"
        using False Some st(1) e(1) by simp
      then show ?thesis using evicts_more [OF st(2) e(2)] by blast
    qed
  qed
qed

lemma pool_reserve_ok:
  assumes "pool_ok p"
  shows "pool_reserve i p = Some (True, [], p) \<and> i \<in> pooled p
    \<or> (\<exists>evicted p'. pool_reserve i p = Some (False, evicted, p') \<and> pool_ok p' \<and> i \<notin> pooled p
         \<and> pooled p' = insert i (pooled p - set evicted) \<and> set evicted \<subseteq> pooled p)"
proof (cases "map_of (ip_hash p) i")
  case None
  then have new: "i \<notin> pooled p" by (simp add: map_of_eq_None_iff)
  have "tables_ok p" "pooled p \<subseteq> set (ip_order p)" using assms by (simp_all add: pool_ok_iff)
  from evict_oldest_ok [OF this] obtain evicted q where
    ev: "evict_oldest (ip_order p) p = Some (evicted, q)" "evicts p evicted q"
    by blast
  note e = ev(1) ev(2) [unfolded evicts_def, THEN conjunct1] ev(2) [unfolded evicts_def, THEN conjunct2, THEN conjunct1]
    ev(2) [unfolded evicts_def, THEN conjunct2, THEN conjunct2, THEN conjunct1]
    ev(2) [unfolded evicts_def, THEN conjunct2, THEN conjunct2, THEN conjunct2, THEN conjunct1]
    ev(2) [unfolded evicts_def, THEN conjunct2, THEN conjunct2, THEN conjunct2, THEN conjunct2]
  have i: "i \<notin> pooled q" using new unfolding e(5) by blast
  moreover have "fst ` set (ip_ids q) = pooled q" using e(2) by (simp add: tables_ok_def)
  ultimately have i': "i \<notin> fst ` set (ip_ids q)" by simp
  let ?p = "\<lparr>ip_ids = AList.update i (trim_prefix ''mcp-'' i) (ip_ids q), ip_hash = AList.update i i (ip_hash q),
             ip_order = ip_order q @ [i]\<rparr>"
  have d: "distinct (map fst (ip_hash q))" "distinct (map fst (ip_ids q))" "fst ` set (ip_ids q) = pooled q"
    "\<forall>(i, j) \<in> set (ip_hash q). j = i"
    using e(2) by (simp_all add: tables_ok_def)
  have "pooled q \<subseteq> insert i (set (ip_order q))" using e(3) by blast
  then have "pool_ok ?p"
    using d e(4) i by (simp add: pool_ok_def update_fresh [OF i] update_fresh [OF i'])
  moreover have "pooled ?p = insert i (pooled p - set evicted)" using i e(5) by (simp add: update_fresh)
  ultimately show ?thesis using None e new by (auto simp: pool_reserve_def)
next
  case (Some j)
  then show ?thesis using pooled_iff [of p i] by (simp add: pool_reserve_def)
qed

lemma pool_release_ok: "pool_ok p \<Longrightarrow> pool_ok (pool_release i p) \<and> pooled (pool_release i p) = pooled p - {i}"
  using delete_length [of i "ip_hash p"] set_delete [of i "ip_hash p"]
  by (auto simp: pool_ok_def pool_release_def)

section \<open>All interleavings\<close>

text \<open>
  Requests in work, each with its connection and what it still has to disconnect. A step is one
  critical section or one call on the service: reserving a place in the pool, disconnecting an
  evicted connection, registering the new one (which frees the place when it fails), or anything
  other requests do to the MCP server.
\<close>

inductive inline_step ::
  "stdio_lib \<Rightarrow> 'w stdio_server \<times> (inline_conn \<times> string list) list \<Rightarrow>
     'w stdio_server \<times> (inline_conn \<times> string list) list \<Rightarrow> bool"
  for sl where
  reserve: "pool_reserve (poolKey sl c) (so_pool s) = Some (False, evicted, p)
    \<Longrightarrow> inline_step sl (s, ts) (s\<lparr>so_pool := p\<rparr>, ts @ [(c, evicted)])"
| disconnect: "inline_step sl (s, ts @ (c, e # evicted) # ts') (with_service (Disconnect e) s, ts @ (c, evicted) # ts')"
| register: "inline_step sl (s, ts @ (c, []) # ts') (snd (register_inline sl c s), ts @ ts')"
| other: "inline_step sl (s, ts) (s\<lparr>so_server := sv\<rparr>, ts)"

lemma with_service_pool [simp]: "so_pool (with_service f s) = so_pool s"
  by (simp add: with_service_def)

lemma register_inline_pool:
  "so_pool (snd (register_inline sl c s)) = so_pool s
   \<or> so_pool (snd (register_inline sl c s)) = pool_release (poolKey sl c) (so_pool s)"
  by (simp add: register_inline_def Let_def split: prod.split sum.split)

lemma inline_step_ok: "inline_step sl (s, ts) (s', ts') \<Longrightarrow> pool_ok (so_pool s) \<Longrightarrow> pool_ok (so_pool s')"
proof (induction "(s, ts)" "(s', ts')" rule: inline_step.induct)
  case (reserve c evicted p)
  then show ?case using pool_reserve_ok [of "so_pool s" "poolKey sl c"] by auto
next
  case (register us c us')
  then show ?case using register_inline_pool [of sl c s] pool_release_ok by auto
qed auto

lemma NewStdioServer_ok [simp]: "pool_ok (so_pool (NewStdioServer sv st))"
  by (simp add: NewStdioServer_def pool_ok_def)

interpretation inline: kept "inline_step sl" "\<lambda>(s, ts). pool_ok (so_pool s)" for sl
  by unfold_locales (auto intro: inline_step_ok)

text \<open>
  C33. However the requests of the stdio mode interleave, the pool of inline connections never holds
  more than eight, its two tables always name the same connections, and reserving a place never
  indexes into an empty eviction order, so no request can crash the process there.
\<close>

theorem inline_pool_bounded:
  assumes "(inline_step sl)\<^sup>*\<^sup>* (NewStdioServer sv st, []) (s, ts)"
  shows "length (ip_hash (so_pool s)) \<le> 8
    \<and> (\<forall>i. poolHas i s \<longleftrightarrow> map_of (ip_hash (so_pool s)) i \<noteq> None)
    \<and> (\<forall>i. pool_reserve i (so_pool s) \<noteq> None)"
proof -
  have "pool_ok (so_pool (fst (s, ts)))"
    using inline.run_keeps [OF assms] by simp
  then have ok: "pool_ok (so_pool s)" by simp
  have "map_of (ip_ids (so_pool s)) i \<noteq> None \<longleftrightarrow> map_of (ip_hash (so_pool s)) i \<noteq> None" for i
    using ok by (simp add: pool_ok_def map_of_eq_None_iff)
  then show ?thesis
    using ok pool_reserve_ok [OF ok] by (auto simp: poolHas_def pool_ok_def inlinePoolCap_def) (metis option.distinct(1))
qed

section \<open>Connecting and disconnecting\<close>

lemma Connect_refused: "Connect jl params sv = (Inl e, sv') \<Longrightarrow> sv' = sv"
  by (auto simp: Connect_def Let_def split: sum.splits prod.splits option.splits)

lemma Connect_world: "Connect jl params sv = (r, sv') \<Longrightarrow> sv_world sv' = sv_world sv"
  by (auto simp: Connect_def Let_def split: sum.splits prod.splits option.splits)

lemma Connect_table:
  assumes "Connect jl params sv = (Inr u, sv')"
  shows "\<exists>p sec. NewProfileFromLifecycle jl params = Inr (p, sec)
    \<and> conn_table sv' = (conn_table sv)(pf_id p := Some (p, sec))"
  using assms
  by (auto simp: Connect_def Let_def new_entry_def conn_table_def update_conv fun_eq_iff split: sum.splits prod.splits option.splits)

lemma fold_Disconnect:
  "[] \<notin> set is \<Longrightarrow> conn_table (fold Disconnect is sv) i = (if i \<in> set is then None else conn_table sv i)
     \<and> sv_world (fold Disconnect is sv) = sv_world sv"
  by (induction "is" arbitrary: sv) (auto simp: Disconnect_table)

section \<open>The ids of the pool\<close>

lemma hex_text_graphic: "c \<in> set (hex_text t) \<Longrightarrow> graphic c"
proof -
  assume "c \<in> set (hex_text t)"
  then obtain d where "c \<in> {''0123456789abcdef'' ! ((of_char d :: nat) div 16), ''0123456789abcdef'' ! ((of_char d :: nat) mod 16)}"
    by (auto simp: hex_text_def Let_def)
  moreover have "(of_char d :: nat) div 16 < 16" using nat_of_char_less_256 [of d] by linarith
  moreover have "(of_char d :: nat) mod 16 < 16" by simp
  ultimately have "c \<in> set ''0123456789abcdef''"
    using nth_mem [of _ "''0123456789abcdef''"] by fastforce
  then show "graphic c" by (auto simp: graphic_def)
qed

lemma poolKey_trimmed [simp]: "trim_space (poolKey sl c) = poolKey sl c"
proof -
  have "\<forall>d \<in> set (poolKey sl c). graphic d"
    using hex_text_graphic by (auto simp: poolKey_def) (auto simp: graphic_def)
  moreover have "poolKey sl c \<noteq> []" by (simp add: poolKey_def)
  ultimately show ?thesis by (intro trim_space_graphic) auto
qed

lemma poolKey_not_Nil [simp]: "poolKey sl c \<noteq> []"
  by (simp add: poolKey_def)

lemma put_text_other: "k \<noteq> key \<Longrightarrow> put_text key t m k = m k"
  by (simp add: put_text_def)

lemma toLifecycle_fields [simp]:
  "ConnectionID (toLifecycle c i) = trim_space i"
  "ConfigBool (toLifecycle c i) ''read_only'' = ic_read_only c"
  "ConfigBool (toLifecycle c i) ''allow_delete'' = ic_allow_delete c"
  "lc_read_only (lp_connection (toLifecycle c i)) = False"
  by (simp_all add: ConnectionID_def ConfigBool_def toLifecycle_def put_text_other Let_def)

section \<open>A call runs on the connection it describes\<close>

text \<open>
  Every connection of the table is pooled and the other way round, and holds the profile of
  parameters in \<open>C\<close> whose key it is.
\<close>

definition pool_sound :: "stdio_lib \<Rightarrow> inline_conn set \<Rightarrow> 'w stdio_server \<Rightarrow> bool" where
  "pool_sound sl C s \<longleftrightarrow>
     pool_ok (so_pool s)
     \<and> (\<forall>i. conn_table (so_service s) i \<noteq> None \<longleftrightarrow> i \<in> pooled (so_pool s))
     \<and> (\<forall>i \<in> pooled (so_pool s). \<exists>c \<in> C. i = poolKey sl c
          \<and> (\<exists>r. NewProfileFromLifecycle (ml_json (st_mcp sl)) (toLifecycle c i) = Inr r \<and> conn_table (so_service s) i = Some r))"

lemma pool_soundD:
  assumes "pool_sound sl C s"
  shows "pool_ok (so_pool s)" "conn_table (so_service s) i \<noteq> None \<longleftrightarrow> i \<in> pooled (so_pool s)"
    "i \<in> pooled (so_pool s) \<Longrightarrow> \<exists>c \<in> C. i = poolKey sl c
       \<and> (\<exists>r. NewProfileFromLifecycle (ml_json (st_mcp sl)) (toLifecycle c i) = Inr r \<and> conn_table (so_service s) i = Some r)"
  using assms unfolding pool_sound_def by blast+

lemma pool_sound_cong:
  "pool_sound sl C s \<Longrightarrow> so_pool s' = so_pool s \<Longrightarrow> conn_table (so_service s') = conn_table (so_service s) \<Longrightarrow> pool_sound sl C s'"
  by (simp add: pool_sound_def)

lemma pool_sound_mono: "pool_sound sl C s \<Longrightarrow> C \<subseteq> D \<Longrightarrow> pool_sound sl D s"
  unfolding pool_sound_def by blast

lemma so_service_with [simp]: "so_service (with_service f s) = f (so_service s)"
  by (simp add: with_service_def)

lemma pooledConnectionID_cases:
  assumes "pool_sound sl C s" "pooledConnectionID sl c s = (r, s')"
  obtains
    (hit) "poolKey sl c \<in> pooled (so_pool s)" "r = Inr (poolKey sl c)" "s' = s"
  | (fresh) evicted p sv1 where "poolKey sl c \<notin> pooled (so_pool s)" "pool_ok p" "set evicted \<subseteq> pooled (so_pool s)"
      "pooled p = insert (poolKey sl c) (pooled (so_pool s) - set evicted)"
      "sv1 = fold Disconnect evicted (so_service s)"
      "(\<exists>e. r = Inl e \<and> so_pool s' = pool_release (poolKey sl c) p \<and> so_service s' = sv1)
       \<or> (\<exists>q. r = Inr (poolKey sl c) \<and> so_pool s' = p
            \<and> NewProfileFromLifecycle (ml_json (st_mcp sl)) (toLifecycle c (poolKey sl c)) = Inr q
            \<and> conn_table (so_service s') = (conn_table sv1)(poolKey sl c := Some q)
            \<and> sv_world (so_service s') = sv_world sv1)"
proof -
  note res = pool_reserve_ok [OF pool_soundD(1) [OF assms(1)], of "poolKey sl c"]
  show thesis
  proof (rule disjE [OF res])
    assume "pool_reserve (poolKey sl c) (so_pool s) = Some (True, [], so_pool s) \<and> poolKey sl c \<in> pooled (so_pool s)"
    then have m: "poolKey sl c \<in> pooled (so_pool s)" and w: "pool_reserve (poolKey sl c) (so_pool s) = Some (True, [], so_pool s)"
      by (rule conjunct2, rule conjunct1)
    have "r = Inr (poolKey sl c)" "s' = s" using assms(2) by (simp_all add: pooledConnectionID_def w)
    with m show thesis by (rule hit)
  next
    assume "\<exists>evicted p'. pool_reserve (poolKey sl c) (so_pool s) = Some (False, evicted, p') \<and> pool_ok p'
      \<and> poolKey sl c \<notin> pooled (so_pool s)
      \<and> pooled p' = insert (poolKey sl c) (pooled (so_pool s) - set evicted) \<and> set evicted \<subseteq> pooled (so_pool s)"
    then obtain evicted p where 2: "pool_reserve (poolKey sl c) (so_pool s) = Some (False, evicted, p)" "pool_ok p"
        "poolKey sl c \<notin> pooled (so_pool s)" "pooled p = insert (poolKey sl c) (pooled (so_pool s) - set evicted)"
        "set evicted \<subseteq> pooled (so_pool s)"
      by (elim exE conjE)
    let ?sv1 = "fold Disconnect evicted (so_service s)"
    let ?s1 = "with_service (fold Disconnect evicted) (s\<lparr>so_pool := p\<rparr>)"
    have s1: "so_pool ?s1 = p" "so_service ?s1 = ?sv1" by (simp_all add: with_service_def)
    have r: "register_inline sl c ?s1 = (r, s')" using assms(2) 2(1) by (simp add: pooledConnectionID_def)
    obtain cr sv2 where con: "Connect (ml_json (st_mcp sl)) (toLifecycle c (poolKey sl c)) ?sv1 = (cr, sv2)" by fastforce
    show thesis
    proof (cases cr)
      case (Inl e)
      then have "r = Inl e \<and> so_pool s' = pool_release (poolKey sl c) p \<and> so_service s' = ?sv1"
        using r con s1 by (auto simp: register_inline_def)
      then show thesis using fresh [OF 2(3,2,5,4) refl] by blast
    next
      case (Inr u)
      then obtain q sec where q: "NewProfileFromLifecycle (ml_json (st_mcp sl)) (toLifecycle c (poolKey sl c)) = Inr (q, sec)"
        "conn_table sv2 = (conn_table ?sv1)(pf_id q := Some (q, sec))"
        using Connect_table [of _ _ ?sv1 u sv2] con by metis
      have "pf_id q = poolKey sl c" using accepted_policy(1) [OF q(1)] by simp
      moreover have "r = Inr (poolKey sl c) \<and> so_pool s' = p \<and> so_service s' = sv2"
        using r con s1 Inr by (auto simp: register_inline_def)
      moreover have "sv_world sv2 = sv_world ?sv1" using Connect_world [OF con] .
      ultimately show thesis using fresh [OF 2(3,2,5,4) refl] q by auto
    qed
  qed
qed

lemma pooledConnectionID_sound:
  assumes sound: "pool_sound sl C s" and c: "c \<in> C" and run: "pooledConnectionID sl c s = (r, s')"
  shows "pool_sound sl C s' \<and> sv_world (so_service s') = sv_world (so_service s)
    \<and> (\<forall>i. r = Inr i \<longrightarrow> i = poolKey sl c \<and> i \<in> pooled (so_pool s'))"
  using sound run
proof (cases rule: pooledConnectionID_cases)
  case hit
  then show ?thesis using sound by simp
next
  case (fresh evicted p sv1)
  let ?k = "poolKey sl c"
  have "[] \<notin> set evicted"
    using fresh(3) pool_soundD(3) [OF sound, of "[]"] poolKey_not_Nil by (metis subsetD)
  note sv1 = fold_Disconnect [OF this, of "so_service s", folded fresh(5)]
  have old: "\<exists>c \<in> C. i = poolKey sl c \<and> (\<exists>q. NewProfileFromLifecycle (ml_json (st_mcp sl)) (toLifecycle c i) = Inr q
      \<and> conn_table sv1 i = Some q)" if "i \<in> pooled (so_pool s)" "i \<notin> set evicted" for i
    using pool_soundD(3) [OF sound that(1)] sv1 [of i] that(2) by simp
  have dom: "conn_table sv1 i \<noteq> None \<longleftrightarrow> i \<in> pooled (so_pool s) \<and> i \<notin> set evicted" for i
    using sv1 [of i] pool_soundD(2) [OF sound, of i] by simp
  from fresh(6) show ?thesis
  proof (elim disjE exE conjE)
    fix e assume res: "r = Inl e" "so_pool s' = pool_release ?k p" "so_service s' = sv1"
    have keys: "pooled (so_pool s') = pooled (so_pool s) - set evicted" and ok: "pool_ok (so_pool s')"
      using pool_release_ok [OF fresh(2), of ?k] fresh(1,4) res(2) by auto
    have "pool_sound sl C s'"
      unfolding pool_sound_def keys res(3) using ok dom old by blast
    then show ?thesis using res sv1 by simp
  next
    fix q assume res: "r = Inr ?k" "so_pool s' = p"
      "NewProfileFromLifecycle (ml_json (st_mcp sl)) (toLifecycle c ?k) = Inr q"
      "conn_table (so_service s') = (conn_table sv1)(?k := Some q)" "sv_world (so_service s') = sv_world sv1"
    have "pool_sound sl C s'"
      unfolding pool_sound_def res(2,4) fresh(4)
    proof (intro conjI allI ballI)
      show "pool_ok p" by (rule fresh(2))
      show "(((conn_table sv1)(?k := Some q)) i \<noteq> None) = (i \<in> insert ?k (pooled (so_pool s) - set evicted))" for i
        using dom [of i] by auto
      show "\<exists>c \<in> C. i = poolKey sl c \<and> (\<exists>q'. NewProfileFromLifecycle (ml_json (st_mcp sl)) (toLifecycle c i) = Inr q'
          \<and> ((conn_table sv1)(?k := Some q)) i = Some q')" if "i \<in> insert ?k (pooled (so_pool s) - set evicted)" for i
        using that c res(3) old [of i] by (cases "i = ?k") auto
    qed
    moreover have "?k \<in> pooled (so_pool s')" unfolding res(2) fresh(4) by blast
    ultimately show ?thesis using res(1,5) sv1 by simp
  qed
qed

text \<open>The parameters a call gives, and all those given in a sequence of calls.\<close>

definition given_conn :: "stdio_lib \<Rightarrow> json_obj option \<Rightarrow> inline_conn set" where
  "given_conn sl arguments =
     (case parseInlineConn (ml_args (st_mcp sl)) (case arguments of None \<Rightarrow> [] | Some a \<Rightarrow> a) of
        Inr (c, True) \<Rightarrow> {c} | _ \<Rightarrow> {})"

lemma resolve_sound:
  assumes "pool_sound sl C s" "given_conn sl (Some args) \<subseteq> C"
  shows "pool_sound sl C (snd (resolveConnectionOrForward sl name args s))
    \<and> sv_world (so_service (snd (resolveConnectionOrForward sl name args s))) = sv_world (so_service s)"
proof (cases "parseInlineConn (ml_args (st_mcp sl)) args")
  case (Inl e)
  then show ?thesis using assms by (simp add: resolveConnectionOrForward_def)
next
  case (Inr r)
  obtain c b where r: "r = (c, b)" by fastforce
  show ?thesis
  proof (cases b)
    case True
    obtain x s' where p: "pooledConnectionID sl c s = (x, s')" by fastforce
    then show ?thesis
      using pooledConnectionID_sound [OF assms(1) _ p] assms(2) Inr r True
      by (simp add: resolveConnectionOrForward_def given_conn_def split: sum.split)
  next
    case False
    then show ?thesis
      using assms Inr r by (simp add: resolveConnectionOrForward_def Let_def split: sum.split)
  qed
qed

lemma callTool_sound:
  assumes "pool_sound sl C s" "given_conn sl arguments \<subseteq> C"
  shows "pool_sound sl C (snd (callTool en sl name arguments s))"
proof -
  let ?args = "case arguments of None \<Rightarrow> [] | Some a \<Rightarrow> a"
  have g: "given_conn sl (Some ?args) \<subseteq> C" using assms(2) by (simp add: given_conn_def)
  have run: "pool_sound sl C (s\<lparr>so_server := snd (Call en ml n a (so_server s))\<rparr>)" if "pool_sound sl C s" for ml n a s
    using that by (rule pool_sound_cong) simp_all
  have res: "pool_sound sl C (snd (resolveConnectionOrForward sl name ?args s))"
    using resolve_sound [OF assms(1) g] by blast
  show ?thesis
    using assms(1) run [of s] run [OF res] res
    by (simp add: callTool_def Let_def case_prod_beta split: sum.split resolved.split)
qed

definition stdio_calls ::
  "stdio_lib \<Rightarrow> (('w, 'n, 'm) mcp_env \<times> string \<times> json_obj option) list \<Rightarrow> 'w stdio_server \<Rightarrow> 'w stdio_server" where
  "stdio_calls sl calls s = fold (\<lambda>(en, name, a) s. snd (callTool en sl name a s)) calls s"

definition conns_given :: "stdio_lib \<Rightarrow> (('w, 'n, 'm) mcp_env \<times> string \<times> json_obj option) list \<Rightarrow> inline_conn set" where
  "conns_given sl calls = (\<Union>(en, name, a) \<in> set calls. given_conn sl a)"

lemma stdio_calls_sound: "pool_sound sl C s \<Longrightarrow> conns_given sl calls \<subseteq> C \<Longrightarrow> pool_sound sl C (stdio_calls sl calls s)"
proof (induction calls arbitrary: s)
  case (Cons call calls)
  obtain en name a where [simp]: "call = (en, name, a)" by (cases call)
  have "given_conn sl a \<subseteq> C" "conns_given sl calls \<subseteq> C" using Cons.prems(2) by (auto simp: conns_given_def)
  then show ?case using Cons callTool_sound [of sl C s a en name] by (simp add: stdio_calls_def)
qed (simp add: stdio_calls_def)

lemma NewStdioServer_sound: "sv_conns sv = [] \<Longrightarrow> pool_sound sl {} (NewStdioServer sv st)"
  by (simp add: pool_sound_def conn_table_def NewStdioServer_def NewServer_def pool_ok_def Let_def)

lemma profileOf_table: "conn_table sv i = Some (p, sec) \<Longrightarrow> trim_space i = i \<Longrightarrow> i \<noteq> [] \<Longrightarrow> profileOf i sv = p"
  by (auto simp: conn_table_def profileOf_def getEntry_def)

section \<open>Writing needs to be asked for\<close>

abbreviation write_tools :: "string set" where
  "write_tools \<equiv> insert ''kafka_messages_produce'' phase_tools"

abbreviation delete_tools :: "string set" where
  "delete_tools \<equiv> {''kafka_topics_delete'', ''kafka_topics_records_clear''}"

lemma phase_request_connection:
  assumes "phase_request ml tool args sv = Inr q"
  shows "phase_connection q = text_arg args ''connectionId'' \<and> (tool \<in> delete_tools \<longrightarrow> phase_deletes q)"
proof -
  have d: "xd_connection x = text_arg args ''connectionId''" if "delete_plan args sv = Inr x" for x
    using that by (auto simp: delete_plan_def Let_def ebind_Inr_iff split: option.splits if_splits)
  have c: "xc_connection x = text_arg args ''connectionId''" if "clear_plan args sv = Inr x" for x
    using that by (auto simp: clear_plan_def Let_def ebind_Inr_iff split: option.splits if_splits)
  have r: "ra_connection x = text_arg args ''connectionId''" if "reset_plan al args sv = Inr x" for x al
  proof -
    have none: "missingRequired args [''connectionId'', ''group'', ''resetTo''] = None"
      using that by (cases "missingRequired args [''connectionId'', ''group'', ''resetTo'']")
        (simp_all only: reset_plan_def Let_def option.case sum.simps)
    show ?thesis
      using that unfolding reset_plan_def Let_def none option.case ebind_Inr_iff by clarsimp
  qed
  show ?thesis
    using assms by (auto simp: phase_request_def ebind_Inr_iff d c r split: if_splits)
qed

text \<open>Instances of these keep sets of names out of the search.\<close>

lemma in_rest: "x \<in> insert a S \<Longrightarrow> x \<noteq> a \<Longrightarrow> x \<in> S"
  by blast

lemma weaken_or: "A \<or> B \<and> C \<Longrightarrow> (A \<Longrightarrow> A') \<Longrightarrow> (C \<Longrightarrow> C') \<Longrightarrow> A' \<or> B \<and> C'"
  by blast

lemma refused_tool_world:
  assumes p_def: "p = profileOf (text_arg args ''connectionId'') (mc_service s)"
    and tool: "tool \<in> write_tools" and no: "ReadOnly p \<or> tool \<in> delete_tools \<and> \<not> AllowDelete p"
  shows "mc_service (snd (Call en ml tool (Some args) s)) = mc_service s"
proof (cases "tool = ''kafka_messages_produce''")
  case True
  then have "ReadOnly p" using no by auto
  then obtain e where "mcp_ensureWritable (text_arg args ''connectionId'') (mc_service s) = Inl e"
    by (simp add: mcp_ensureWritable_def PolicyOf_def p_def Let_def)
  then have "snd (messagesProduce en ml args s) = s"
    by (simp add: messagesProduce_def Let_def split: option.split)
  then show ?thesis using True by (simp add: Call_def call_tool_def case_prod_beta split: sum.split)
next
  case False
  then have t: "tool \<in> phase_tools" using in_rest [OF tool] by simp
  have "\<exists>e. phase_request ml tool args (mc_service s) = Inl e"
  proof (cases "phase_request ml tool args (mc_service s)")
    case (Inr q)
    then show ?thesis
      using phase_allowed [OF Inr] phase_request_connection [OF Inr] no by (auto simp: p_def)
  qed simp
  then have "snd (call_tool en ml tool args s) = s" using phase_call [OF t, of en ml args s] by auto
  then show ?thesis by (simp add: Call_def case_prod_beta split: sum.split)
qed

text \<open>
  C11. A tool call with inline parameters runs on a connection with exactly these, and writes through
  it only if it asks for that. After any sequence of tool calls in stdio mode, if no two of the
  parameters used share a pool key, resolving the parameters of a call either fails or yields a
  pooled connection whose profile is the one made from them, with the same read-only and
  allow-delete switches; and a write tool that leaves \<open>readOnly\<close> out (or a deleting one that leaves
  \<open>allowDelete\<close> out) changes nothing on the brokers and registries.
\<close>

theorem inline_call_needs_opt_in:
  assumes fresh: "sv_conns sv = []"
    and given: "parseInlineConn (ml_args (st_mcp sl)) args = Inr (c, True)"
    and keys: "inj_on (poolKey sl) (insert c (conns_given sl calls))"
    and s: "s = stdio_calls sl calls (NewStdioServer sv st)"
  shows "(case pooledConnectionID sl c s of
            (Inl e, s') \<Rightarrow> True
          | (Inr i, s') \<Rightarrow>
              (\<exists>p sec. NewProfileFromLifecycle (ml_json (st_mcp sl)) (toLifecycle c i) = Inr (p, sec)
                 \<and> profileOf i (so_service s') = p
                 \<and> ReadOnly p = ic_read_only c \<and> AllowDelete p = ic_allow_delete c))
       \<and> (name \<in> write_tools \<and> (absent (map_of args ''readOnly'')
              \<or> name \<in> delete_tools \<and> absent (map_of args ''allowDelete''))
          \<longrightarrow> sv_world (so_service (snd (callTool en sl name (Some args) s))) = sv_world (so_service s))"
proof -
  let ?C = "insert c (conns_given sl calls)"
  have sound: "pool_sound sl ?C s"
    unfolding s using NewStdioServer_sound [OF fresh] stdio_calls_sound pool_sound_mono by (metis empty_subsetI subset_insertI)
  obtain r s' where run: "pooledConnectionID sl c s = (r, s')" by fastforce
  note after = pooledConnectionID_sound [OF sound _ run, simplified]
  have prof: "\<exists>p sec. NewProfileFromLifecycle (ml_json (st_mcp sl)) (toLifecycle c i) = Inr (p, sec)
       \<and> profileOf i (so_service s') = p \<and> ReadOnly p = ic_read_only c \<and> AllowDelete p = ic_allow_delete c"
    if "r = Inr i" for i
  proof -
    have i: "i = poolKey sl c" "i \<in> pooled (so_pool s')" using after that by blast+
    obtain d p sec where d: "d \<in> ?C" "i = poolKey sl d"
      "NewProfileFromLifecycle (ml_json (st_mcp sl)) (toLifecycle d i) = Inr (p, sec)"
      "conn_table (so_service s') i = Some (p, sec)"
      using pool_soundD(3) [OF _ i(2), of sl ?C] after by (metis surj_pair)
    have "d = c" using keys d(1,2) i(1) by (auto dest: inj_onD)
    then show ?thesis
      using d(3) profileOf_table [OF d(4)] accepted_policy [OF d(3)] i(1) by auto
  qed
  have world: "sv_world (so_service (snd (callTool en sl name (Some args) s))) = sv_world (so_service s)"
    if w: "name \<in> write_tools" and no: "ic_read_only c \<or> name \<in> delete_tools \<and> \<not> ic_allow_delete c"
  proof (cases r)
    case (Inl e)
    then show ?thesis
      using w given run after
      by (auto simp: callTool_def resolveConnectionOrForward_def Let_def connectionBoundTools_def uiToolPrefix_def)
  next
    case (Inr i)
    let ?args = "AList.update ''connectionId'' (JStr i) args"
    have i: "i = poolKey sl c" using after Inr by blast
    then have "text_arg ?args ''connectionId'' = i" by (simp add: text_arg_def stringField_def update_conv)
    then have "mc_service (snd (Call en (st_mcp sl) name (Some ?args) (so_server s'))) = so_service s'"
      using refused_tool_world [OF _ w, of _ ?args "so_server s'"] prof [OF Inr] no by auto
    moreover have "name \<in> connectionBoundTools" "\<not> prefix uiToolPrefix name"
      using w by (auto simp: connectionBoundTools_def uiToolPrefix_def)
    ultimately show ?thesis
      using given run Inr after
      by (simp add: callTool_def resolveConnectionOrForward_def Let_def case_prod_beta split: sum.split)
  qed
  have ro: "ic_read_only c" if "absent (map_of args ''readOnly'')"
    using given that by (auto simp: parseInlineConn_def inline_switch_def Let_def ebind_Inr_iff)
  have nd: "\<not> ic_allow_delete c" if "absent (map_of args ''allowDelete'')"
    using given that by (auto simp: parseInlineConn_def inline_switch_def Let_def ebind_Inr_iff)
  have "sv_world (so_service (snd (callTool en sl name (Some args) s))) = sv_world (so_service s)"
    if "name \<in> write_tools \<and> (absent (map_of args ''readOnly'')
              \<or> name \<in> delete_tools \<and> absent (map_of args ''allowDelete''))"
    by (rule world [OF conjunct1 [OF that] weaken_or [OF conjunct2 [OF that] ro nd]])
  moreover have "case (r, s') of (Inl e, s') \<Rightarrow> True
          | (Inr i, s') \<Rightarrow>
              (\<exists>p sec. NewProfileFromLifecycle (ml_json (st_mcp sl)) (toLifecycle c i) = Inr (p, sec)
                 \<and> profileOf i (so_service s') = p
                 \<and> ReadOnly p = ic_read_only c \<and> AllowDelete p = ic_allow_delete c)"
    using prof by (cases r) simp_all
  ultimately show ?thesis unfolding run by simp
qed

section \<open>A concrete session\<close>

definition sample_stdio :: stdio_lib where
  "sample_stdio =
     \<lparr>st_mcp = sample_lib,
      st_bridge = \<lparr>br_getenv = (\<lambda>_. []), br_wait = [], br_looks = [], br_marshal = (\<lambda>_. Inr []),
        br_post = (\<lambda>_ _. Inl (Ext [])), br_unmarshal = (\<lambda>_. Inr [])\<rparr>,
      st_raw = (\<lambda>_. Inl (Ext [])), st_value = (\<lambda>_. Inr JNull), st_call = (\<lambda>_. Inr ([], None)),
      st_canonical = (\<lambda>c. concat (ic_brokers c)), st_sha256 = id, st_marshal = (\<lambda>_. Inr [])\<rparr>"

definition sample_inline :: inline_conn where
  "sample_inline =
     \<lparr>ic_brokers = [''k1:9092'', ''k2:9092''], ic_protocol = [], ic_mechanism = [], ic_username = [], ic_password = [],
      ic_ca = [], ic_cert = [], ic_key = [], ic_skip_verify = False, ic_registry = [], ic_registry_url = [],
      ic_registry_user = [], ic_registry_password = [], ic_client = [], ic_read_only = True, ic_allow_delete = False\<rparr>"

definition sample_inline_args :: json_obj where
  "sample_inline_args = [(''brokers'', JStr ''k1:9092,k2:9092''), (''topic'', JStr ''t'')]"

lemma sample_inline_given: "parseInlineConn al sample_inline_args = Inr (sample_inline, True)"
  by (simp add: parseInlineConn_def inline_switch_def absent_def sample_inline_args_def parseBrokers_def fields_func_def
      trim_space_graphic graphic_def text_arg_def stringField_def boolArg_def sample_inline_def Let_def)

abbreviation sample_stdio_start :: "nat stdio_server" where
  "sample_stdio_start \<equiv> NewStdioServer (NewService 0) None"

theorem inline_pool_bounded_witness:
  "\<exists>s ts. (inline_step sample_stdio)\<^sup>*\<^sup>* (sample_stdio_start, []) (s, ts)
     \<and> poolHas (poolKey sample_stdio sample_inline) s \<and> length (ip_hash (so_pool s)) \<le> 8
     \<and> pool_reserve (poolKey sample_stdio sample_inline) (so_pool s) \<noteq> None"
proof -
  let ?i = "poolKey sample_stdio sample_inline"
  let ?p = "\<lparr>ip_ids = [(?i, trim_prefix ''mcp-'' ?i)], ip_hash = [(?i, ?i)], ip_order = [?i]\<rparr>"
  let ?s = "sample_stdio_start\<lparr>so_pool := ?p\<rparr>"
  have "pool_reserve ?i (so_pool sample_stdio_start) = Some (False, [], ?p)"
    by (simp add: pool_reserve_def NewStdioServer_def inlinePoolCap_def)
  then have run: "(inline_step sample_stdio)\<^sup>*\<^sup>* (sample_stdio_start, []) (?s, [] @ [(sample_inline, [])])"
    by (intro r_into_rtranclp inline_step.reserve)
  from inline_pool_bounded [OF this] run show ?thesis
    by (intro exI conjI) (assumption, simp_all add: poolHas_def)
qed

theorem inline_call_needs_opt_in_witness:
  "\<forall>en :: (nat, string, string) mcp_env.
     let s = stdio_calls sample_stdio [(en, ''kafka_messages_produce'', Some sample_inline_args)] sample_stdio_start
     in sv_world (so_service (snd (callTool en sample_stdio ''kafka_messages_produce'' (Some sample_inline_args) s)))
          = sv_world (so_service s)"
proof (rule allI)
  fix en :: "(nat, string, string) mcp_env"
  let ?calls = "[(en, ''kafka_messages_produce'', Some sample_inline_args)]"
  have c: "given_conn sample_stdio (Some sample_inline_args) = {sample_inline}"
    by (simp add: given_conn_def sample_inline_given)
  then have "conns_given sample_stdio ?calls = {sample_inline}" by (simp add: conns_given_def)
  then have inj: "inj_on (poolKey sample_stdio) (insert sample_inline (conns_given sample_stdio ?calls))" by simp
  have "sv_conns (NewService (0 :: nat)) = []" by (simp add: NewService_def)
  from inline_call_needs_opt_in [OF this sample_inline_given inj refl, of None "''kafka_messages_produce''" en]
  show "let s = stdio_calls sample_stdio ?calls sample_stdio_start
     in sv_world (so_service (snd (callTool en sample_stdio ''kafka_messages_produce'' (Some sample_inline_args) s)))
          = sv_world (so_service s)"
    by (simp add: Let_def absent_def sample_inline_args_def)
qed

end
