(* ===== verification/KafkaDial.thy ===== *)
theory KafkaDial
  imports KafkaClient StepSystems
begin

text \<open>
  Dialling a broker: the dialler with probes of a connection test (\<open>diag.go\<close>), and the adapter that
  makes a dialler without cancellation cancellable (\<open>contextDialer\<close> of \<open>client.go\<close>), whose
  goroutine, caller and context take turns in any order.
\<close>

section \<open>The dialler of a connection test\<close>

text \<open>\<open>strings.Trim(host, "[]")\<close>\<close>

definition trim_brackets :: "string \<Rightarrow> string" where
  "trim_brackets s =
     (let drop_brackets = dropWhile (\<lambda>c. c = CHR ''['' \<or> c = CHR '']'') in rev (drop_brackets (rev (drop_brackets s))))"

text \<open>
  \<open>tls\<close> is the server name of the TLS configuration, if there is one; \<open>tcp\<close> and \<open>handshake\<close> give the
  outcome of dialling and of the handshake for a server name, with the milliseconds they took. The
  last component are the connections closed.
\<close>

definition probe_dialer ::
  "(string \<Rightarrow> string option) \<Rightarrow> (goerr \<Rightarrow> string) \<Rightarrow> string option \<Rightarrow> string \<Rightarrow> nat res \<times> int \<Rightarrow> (string \<Rightarrow> goerr option \<times> int)
     \<Rightarrow> nat res \<times> dial_probe \<times> nat list" where
  "probe_dialer split_host text tls address tcp handshake =
     (let probe = \<lparr>dp_addr = address, dp_tcp = snd tcp, dp_tls = 0, dp_err = []\<rparr>
      in case (fst tcp, tls) of
        (Inl e, _) \<Rightarrow> (Inl e, probe\<lparr>dp_err := text e\<rparr>, [])
      | (Inr c, None) \<Rightarrow> (Inr c, probe, [])
      | (Inr c, Some name) \<Rightarrow>
          (let name = (if name \<noteq> [] then name
                       else case split_host address of Some h \<Rightarrow> trim_brackets h | None \<Rightarrow> []);
               (failure, ms) = handshake name
           in case failure of
                None \<Rightarrow> (Inr c, probe\<lparr>dp_tls := ms\<rparr>, [])
              | Some e \<Rightarrow> (Inl e, probe\<lparr>dp_tls := ms, dp_err := text e\<rparr>, [c])))"

lemma probe_dialer_closes:
  "case probe_dialer split_host text tls address tcp handshake of (r, probe, shut) \<Rightarrow>
     (case fst tcp of
        Inl _ \<Rightarrow> shut = [] \<and> \<not> is_ok r
      | Inr c \<Rightarrow> r = Inr c \<and> shut = [] \<or> \<not> is_ok r \<and> shut = [c])"
  by (auto simp: probe_dialer_def Let_def split: sum.split option.split prod.split)

section \<open>The cancellable dialler\<close>

datatype 'c dial_caller = Waiting | Got "'c res" | Cancelled

text \<open>The goroutine: in the call, at the select with its outcome, past it by either branch.\<close>

datatype 'c dial_worker = Dialling | Choosing "'c res" | Sent "'c res" | Dropped "'c res"

record 'c dial_run =
  dr_caller :: "'c dial_caller"
  dr_worker :: "'c dial_worker"
  dr_buffer :: "'c res option"
  dr_cancelled :: bool
  dr_closed :: "'c list"

definition dial_start :: "'c dial_run" where
  "dial_start = \<lparr>dr_caller = Waiting, dr_worker = Dialling, dr_buffer = None, dr_cancelled = False, dr_closed = []\<rparr>"

text \<open>A select takes any of its branches that can proceed; the channel has room for one result.\<close>

inductive contextDialer :: "'c dial_run \<Rightarrow> 'c dial_run \<Rightarrow> bool" where
  cancel: "\<not> dr_cancelled s \<Longrightarrow> contextDialer s (s\<lparr>dr_cancelled := True\<rparr>)"
| dialled: "dr_worker s = Dialling \<Longrightarrow> contextDialer s (s\<lparr>dr_worker := Choosing r\<rparr>)"
| send: "dr_worker s = Choosing r \<Longrightarrow> dr_buffer s = None
    \<Longrightarrow> contextDialer s (s\<lparr>dr_worker := Sent r, dr_buffer := Some r\<rparr>)"
| close: "dr_worker s = Choosing r \<Longrightarrow> dr_cancelled s
    \<Longrightarrow> contextDialer s (s\<lparr>dr_worker := Dropped r,
          dr_closed := (case r of Inr c \<Rightarrow> c # dr_closed s | Inl _ \<Rightarrow> dr_closed s)\<rparr>)"
| take: "dr_caller s = Waiting \<Longrightarrow> dr_buffer s = Some r
    \<Longrightarrow> contextDialer s (s\<lparr>dr_caller := Got r, dr_buffer := None\<rparr>)"
| give_up: "dr_caller s = Waiting \<Longrightarrow> dr_cancelled s \<Longrightarrow> contextDialer s (s\<lparr>dr_caller := Cancelled\<rparr>)"

inductive_cases contextDialer_cases: "contextDialer s s'"

text \<open>Where the outcome of the call is, as long as the goroutine has not dropped it.\<close>

definition dial_inv :: "'c dial_run \<Rightarrow> bool" where
  "dial_inv s \<longleftrightarrow>
     (case dr_worker s of
        Sent r \<Rightarrow> dr_closed s = []
          \<and> (if dr_caller s = Got r then dr_buffer s = None else dr_buffer s = Some r \<and> dr_caller s \<in> {Waiting, Cancelled})
      | Dropped r \<Rightarrow> dr_closed s = (case r of Inr c \<Rightarrow> [c] | Inl _ \<Rightarrow> []) \<and> dr_buffer s = None
          \<and> dr_caller s \<in> {Waiting, Cancelled} \<and> dr_cancelled s
      | _ \<Rightarrow> dr_closed s = [] \<and> dr_buffer s = None \<and> dr_caller s \<in> {Waiting, Cancelled})"

lemma dial_inv_start: "dial_inv dial_start"
  by (simp add: dial_inv_def dial_start_def)

lemma dial_inv_step: "contextDialer s s' \<Longrightarrow> dial_inv s \<Longrightarrow> dial_inv s'"
  by (induction rule: contextDialer.induct) (auto simp: dial_inv_def split: dial_worker.splits if_splits sum.splits)

text \<open>How far goroutine and caller are from the end, and that one of them can always go on.\<close>

definition dial_to_go :: "'c dial_run \<Rightarrow> nat" where
  "dial_to_go s =
     (case dr_worker s of Dialling \<Rightarrow> 3 | Choosing _ \<Rightarrow> 2 | _ \<Rightarrow> 0) + (if dr_caller s = Waiting then 1 else 0)"

lemma dial_goes_on:
  assumes "dial_inv s" "dr_caller s = Waiting"
  shows "\<exists>s'. contextDialer s s' \<and> dial_to_go s' < dial_to_go s"
proof (cases "dr_worker s")
  case Dialling
  from contextDialer.dialled [OF this, of "Inl (Ext [])"] show ?thesis
    by (rule_tac exI, rule_tac conjI) (use Dialling assms in \<open>auto simp: dial_to_go_def\<close>)
next
  case (Choosing r)
  have "dr_buffer s = None" using assms Choosing by (simp add: dial_inv_def)
  from contextDialer.send [OF Choosing this] show ?thesis
    by (rule_tac exI, rule_tac conjI) (use Choosing assms in \<open>auto simp: dial_to_go_def\<close>)
next
  case (Sent r)
  then have "dr_buffer s = Some r" using assms by (auto simp: dial_inv_def split: if_splits)
  from contextDialer.take [OF assms(2) this] show ?thesis
    by (rule_tac exI, rule_tac conjI) (use Sent assms in \<open>auto simp: dial_to_go_def\<close>)
next
  case (Dropped r)
  then have "dr_cancelled s" using assms by (simp add: dial_inv_def)
  from contextDialer.give_up [OF assms(2) this] show ?thesis
    by (rule_tac exI, rule_tac conjI) (use Dropped assms in \<open>auto simp: dial_to_go_def\<close>)
qed

interpretation dial: ending contextDialer dial_inv dial_to_go "\<lambda>s. dr_caller s \<noteq> Waiting"
  by unfold_locales (auto intro: dial_inv_step dial_goes_on)

text \<open>The run that leaves a connection behind.\<close>

definition stranded :: "'c \<Rightarrow> 'c dial_run" where
  "stranded c =
     \<lparr>dr_caller = Cancelled, dr_worker = Sent (Inr c), dr_buffer = Some (Inr c), dr_cancelled = True, dr_closed = []\<rparr>"

lemma stranded_reachable: "contextDialer\<^sup>*\<^sup>* dial_start (stranded c)"
proof -
  let ?s1 = "dial_start\<lparr>dr_cancelled := True\<rparr> :: 'a dial_run"
  let ?s2 = "?s1\<lparr>dr_caller := Cancelled\<rparr>"
  let ?s3 = "?s2\<lparr>dr_worker := Choosing (Inr c)\<rparr>"
  have "contextDialer dial_start ?s1" by (rule contextDialer.cancel) (simp add: dial_start_def)
  moreover have "contextDialer ?s1 ?s2" by (rule contextDialer.give_up) (simp_all add: dial_start_def)
  moreover have "contextDialer ?s2 ?s3" by (rule contextDialer.dialled) (simp add: dial_start_def)
  moreover have "contextDialer ?s3 (?s3\<lparr>dr_worker := Sent (Inr c), dr_buffer := Some (Inr c)\<rparr>)"
    by (rule contextDialer.send) (simp_all add: dial_start_def)
  ultimately show ?thesis
    by (auto simp: stranded_def dial_start_def)
qed

lemma stranded_final: "\<not> contextDialer (stranded c) s"
  by (auto simp: stranded_def elim!: contextDialer_cases)

text \<open>
  C6. The cancellable dialler, for every order in which its goroutine, its caller and the
  cancellation take their turns: a connection that the caller gets is never closed; the caller
  can always come to its return, and after the cancellation a caller that still waits can return at
  once; and once the goroutine is done its connection has been handed over, or has been closed, or
  waits in the channel. The last case can be final: for every connection there is a run that ends
  with the caller gone and the connection open in the channel.
\<close>

theorem dial_cancellation:
  assumes "contextDialer\<^sup>*\<^sup>* dial_start s"
  shows "(case dr_caller s of Got (Inr c) \<Rightarrow> c \<notin> set (dr_closed s) | _ \<Rightarrow> True)
    \<and> (\<exists>s'. contextDialer\<^sup>*\<^sup>* s s' \<and> dr_caller s' \<noteq> Waiting)
    \<and> (dr_cancelled s \<and> dr_caller s = Waiting \<longrightarrow> (\<exists>s'. contextDialer s s' \<and> dr_caller s' = Cancelled))
    \<and> (case dr_worker s of
         Sent (Inr c) \<Rightarrow> dr_caller s = Got (Inr c) \<or> dr_buffer s = Some (Inr c)
       | Dropped (Inr c) \<Rightarrow> c \<in> set (dr_closed s)
       | _ \<Rightarrow> True)
    \<and> (\<exists>final. contextDialer\<^sup>*\<^sup>* dial_start final \<and> (\<forall>s'. \<not> contextDialer final s') \<and> dr_caller final = Cancelled
         \<and> dr_worker final = Sent (Inr c) \<and> c \<notin> set (dr_closed final))"
proof -
  have inv: "dial_inv s" using assms dial_inv_start by (rule dial.run_keeps)
  have "case dr_caller s of Got (Inr c) \<Rightarrow> c \<notin> set (dr_closed s) | _ \<Rightarrow> True"
    using inv by (auto simp: dial_inv_def split: dial_caller.split dial_worker.splits sum.split)
  moreover have "\<exists>s'. contextDialer\<^sup>*\<^sup>* s s' \<and> dr_caller s' \<noteq> Waiting"
    using inv by (rule dial.can_end)
  moreover have "\<exists>s'. contextDialer s s' \<and> dr_caller s' = Cancelled" if "dr_cancelled s \<and> dr_caller s = Waiting"
    using that contextDialer.give_up [of s] by (intro exI [of _ "s\<lparr>dr_caller := Cancelled\<rparr>"]) simp
  moreover have "case dr_worker s of
         Sent (Inr c) \<Rightarrow> dr_caller s = Got (Inr c) \<or> dr_buffer s = Some (Inr c)
       | Dropped (Inr c) \<Rightarrow> c \<in> set (dr_closed s)
       | _ \<Rightarrow> True"
    using inv by (auto simp: dial_inv_def split: dial_worker.splits sum.splits if_splits)
  moreover have "contextDialer\<^sup>*\<^sup>* dial_start (stranded c) \<and> (\<forall>s'. \<not> contextDialer (stranded c) s')
      \<and> dr_caller (stranded c) = Cancelled \<and> dr_worker (stranded c) = Sent (Inr c) \<and> c \<notin> set (dr_closed (stranded c))"
    by (intro conjI stranded_reachable allI stranded_final) (simp_all add: stranded_def)
  ultimately show ?thesis by blast
qed

lemma dial_cancellation_witness:
  "dr_buffer (stranded (7::nat)) = Some (Inr 7)
   \<and> (\<exists>final. contextDialer\<^sup>*\<^sup>* dial_start final \<and> dr_caller final = Cancelled \<and> dr_worker final = Sent (Inr (7::nat)))"
  using dial_cancellation [OF stranded_reachable, of 7 "7 :: nat"] by (auto simp: stranded_def)

end
