(* ===== verification/Spec2Isabelle.thy ===== *)
theory Spec2Isabelle
  imports McpCursor McpIntent McpConfirm McpSettings McpUtil McpAggregate
    KafkaExport KafkaWrites McpPhases McpWaiting
    HostAudit McpInline KafkaDial
begin

text \<open>
  A verification of the Kafka plugin's backend (the Go code under \<open>backend/\<close>): a sidecar process
  that the host starts, that keeps a table of Kafka connections, reads and writes messages
  through the franz-go client library, and offers the same to AI callers as MCP tools. Started with
  \<open>--mcp\<close> the process is an MCP server of its own on standard input instead.

  \<^bold>\<open>Layout.\<close>
  \<^item> \<open>GoBase\<close>, \<open>GoBytes\<close>, \<open>GoJson\<close>, \<open>GoIO\<close>: what the code uses of Go. \<open>int\<close> and \<open>int64\<close> are \<open>int\<close>
    with the wrap-around written out (\<open>i64\<close>); strings are lists of bytes; an error result is a sum
    whose left side is a \<open>goerr\<close>; UTF-8, base64, number printing and parsing, and
    \<open>strings.TrimSpace\<close>, \<open>Split\<close>, \<open>Join\<close>, \<open>ToLower\<close>, \<open>EqualFold\<close> are functions with their laws. JSON
    values are a datatype, the JSON library is the record \<open>json_lib\<close>. A method that talks to a
    broker or registry is a function from the state of that outside world to a result and the
    state after it (\<open>io\<close>).
  \<^item> \<open>StepSystems\<close>: the interfaces \<open>kept\<close> (a step relation with an invariant) and \<open>ending\<close> (one that can
    always reach its end); interpreted on the host protocol, the dialler and the inline pool.
  \<^item> \<open>SessionTables\<close>: the interface (a locale) of a table with an LRU list, capacity and expiry;
    interpreted on the cursor store and on the intent store.
  \<^item> \<open>McpCursor\<close> (\<open>mcp/cursor.go\<close>), \<open>McpIntent\<close> (\<open>intent.go\<close>), \<open>McpConfirm\<close> (\<open>confirm.go\<close>),
    \<open>McpSettings\<close> (\<open>settings.go\<close>), \<open>McpUtil\<close> (\<open>util.go\<close>), \<open>McpDigest\<close> and \<open>McpAggregate\<close>
    (\<open>digest.go\<close>): the state behind the MCP tools. Each mutex-protected method is one step that
    takes the clock and any random name as arguments.
  \<^item> \<open>McpArgs\<close>, \<open>McpServer\<close> (\<open>server.go\<close>, \<open>tools.go\<close>): the arguments of the tools and the server with
    all eleven tools, the two-phase writes, the settings and the reports of the front end;
    \<open>McpPhases\<close> and \<open>McpWaiting\<close>: its histories of calls and what follows for them; \<open>McpTools\<close>: the
    definitions of the tools with their schemas, as both modes list them.
  \<^item> \<open>Lifecycle\<close> (\<open>lifecycle.go\<close>), \<open>KafkaProfile\<close> (\<open>types.go\<close>), \<open>KafkaProps\<close> (\<open>props.go\<close>): from the
    host's connection form, or pasted Java properties, to a validated connection profile.
  \<^item> \<open>KafkaClient\<close> (\<open>client.go\<close>, \<open>kerberos.go\<close>, \<open>oauth.go\<close>, \<open>zk.go\<close>, \<open>diag.go\<close>): from the profile to the
    options of the Kafka client: seeds, proxies, TLS, the SASL mechanism, the discovery of brokers
    in ZooKeeper, the fingerprint of a configuration and the line a connection test logs. \<open>KafkaDial\<close>:
    the dialler of a connection test, and the cancellable dialler as a step relation.
  \<^item> \<open>KafkaTypes\<close>, \<open>KafkaConsume\<close>, \<open>KafkaFilter\<close>, \<open>KafkaMessages\<close>, \<open>KafkaPool\<close>, \<open>KafkaRun\<close>
    (\<open>messages.go\<close>, \<open>consume_pool.go\<close>): a consumption, from its parameters through the client
    options, the pool of clients, the scan loop with its filters, to the messages returned;
    \<open>KafkaExport\<close>: the same as a JSON or CSV file.
  \<^item> \<open>KafkaRing\<close>, \<open>KafkaStreams\<close> (\<open>stream.go\<close>): the ring buffer of a stream, an implementation of the
    interface \<open>bounded_buffer\<close>; the registry of sessions, the polling loop with its retry delay, and
    the batches it emits.
  \<^item> \<open>KafkaService\<close> (\<open>service.go\<close>, \<open>client.go\<close>, \<open>stream.go\<close>): the record \<open>service\<close> with the table of
    connections, the pool, the streams, the presets and the audit log; connect, disconnect, the
    shared admin client of a connection, starting a stream, statuses, connection tests.
  \<^item> \<open>KafkaPolicy\<close> (\<open>policy.go\<close>, \<open>helpers.go\<close>) and \<open>KafkaAdmin\<close> (\<open>topics.go\<close>, \<open>groups.go\<close>, \<open>acls.go\<close>):
    the write policy, and every operation on topics, consumer groups and ACLs.
  \<^item> \<open>SchemaProvider\<close>, \<open>SchemaRegistry\<close>, \<open>SchemaGlue\<close>, \<open>SchemaService\<close>, \<open>SchemaWire\<close>, \<open>SchemaCodec\<close>,
    \<open>SchemaDiff\<close> (\<open>schema.go\<close>, \<open>glue.go\<close>): which registry a connection uses, the REST client and the
    AWS Glue backend, the service methods over both, the wire frame and Protobuf message indexes,
    encoding and decoding with a schema through the cache, and the comparison of two versions.
  \<^item> \<open>KafkaProduce\<close> (\<open>messages.go\<close>): production of messages.
  \<^item> \<open>KafkaWrites\<close>: all methods that write to a cluster or registry as one datatype of requests; the
    locale \<open>guarded_writes\<close> states what a guarded method promises and is interpreted on them.
    \<open>ConnTable\<close>: which methods leave the table of connections alone.
  \<^item> \<open>HostProtocol\<close> (\<open>shared/sdk/go/dbx-plugin-sdk/sdk.go\<close>): the protocol with the host, one JSON message
    per line; a goroutine for each request is a member of the list of workers, and a step of the
    server reads a line, ends one of them, or returns. \<open>FileStore\<close> (\<open>store/store.go\<close>): files as a map,
    with all the states a save goes through. \<open>HostMethods\<close> (\<open>backend/main.go\<close>): the 51 methods of
    the host, each as the code decodes its parameters and calls the service; \<open>Handle\<close> is the
    handler of \<open>HostProtocol\<close>. \<open>HostGuards\<close>: what holds for every method;
    \<open>HostAudit\<close>: what a write leaves in the audit log.
  \<^item> \<open>McpBridge\<close> (\<open>mcp/appbridge.go\<close>), \<open>McpStdio\<close> (\<open>mcp/stdio.go\<close>): the stand-alone MCP server, its pool
    of connections given by inline parameters, and the calls it forwards to the running desktop
    application; \<open>McpInline\<close>: the interleavings of its requests.

  \<^bold>\<open>What is shown.\<close>
  Consuming: whatever way a consumption ends, its client is closed or back in the pool, to be handed
  out again only if all went well (C1); a scan ends and returns the first matches of what the broker
  was polled for (C2), a stream's ring the last ones and its batches all of them (C3); the pool
  hands out no client that is in use (C5); bytes, exports and the ring buffer do what they promise
  (C26, C28, C29).
  Writing: no sequence of requests gets around the guards (C8), neither through the methods of the
  host (C9), where none goes unrecorded (C10), nor through inline parameters (C11); what a success
  means for a production and an offset reset (C12, C18); what the guard of ACL deletions lets
  through (C19).
  Schemas: production and consumption agree (C13), the cache is transparent (C14), message indexes
  lead back to their message (C17), the diff is minimal and loses nothing (C15, C16).
  The host: every request gets one response, unless that cannot be written, and the server can
  always finish (C4), errors have the documented codes and parameters a method cannot read change
  nothing (C21), saved files are never half written (C23), the audit log loses nothing (C22).
  Connections: disconnecting releases everything (C20), a cancelled dial returns at once but may
  leave a connection behind (C6), accepted profiles have a mechanism (C27), properties survive and
  cannot widen the policy (C39, C40).
  MCP: the table of sessions keeps its bounds (C30); a confirmed write was previewed, once, with the
  same parameters (C31); settings stay in their bounds (C36); a destructive tool changes nothing
  without a preview (C7), a tool that waits for the front end returns (C32), no response exceeds the
  limit (C35); a digest accounts for every message (C38); in stdio mode the pool of connections
  stays bounded under all interleavings (C33) and every line is answered as the protocol says (C34).
  Some properties also record where the code does not do what its documentation says (C24, C25, C37,
  C19, C12).

  \<^bold>\<open>Bounds and fuel.\<close> The scan loop polls until its limits are met;
  \<open>scan_loop\<close> has as fuel the scan limit, which is enough because every poll of a
  broker that answers (\<open>polls_well\<close>) brings a record or ends the scan; C2 states it.
  The loop of a stream runs until it is stopped, so \<open>run_turns\<close> takes the list of turns
  that happen before that and C3 is an invariant of all such lists. The listings of AWS Glue follow
  next-page tokens until there is none, the page cap of the subjects is met or the request's
  deadline passes; \<open>gl_pages\<close> of the library record is the number of pages before the
  deadline. A waiting MCP call takes the list of its turns, each with what other requests do to the
  intents meanwhile; C32 gives how many are enough. All other loops are structural or have a
  measure.

  \<^bold>\<open>Parameters.\<close> Library code is an argument: the regular expressions, float
  parsing, Unicode case folding (\<open>text_lib\<close>), compression (\<open>codec_lib\<close>),
  JSON (\<open>json_lib\<close>), Avro, Protobuf and JSON-schema codecs (\<open>schema_lib\<close>),
  SHA-256, RFC 3339 times, files, resolvers and dialling (\<open>net_lib\<close>), what brokers
  answer (\<open>consume_env\<close>, \<open>admin_lib\<close>, \<open>produce_lib\<close>) and what
  registries answer (\<open>rest_lib\<close>, \<open>glue_lib\<close>). For the process: what
  \<open>json.Unmarshal\<close> makes of requests and parameters (\<open>sdk_lib\<close>,
  \<open>decode_lib\<close>, \<open>stdio_lib\<close>), the environment, the port of the application
  and its answers (\<open>bridge_lib\<close>).

  \<^bold>\<open>Not modelled.\<close> The sockets and handshakes behind TLS, SASL and Kerberos,
  permissions of files, the generator of test fixtures, and the user interface. Interleavings inside
  one method that holds a lock are not modelled: such a method is one step, and so is a call of the
  handler in \<open>HostProtocol\<close>; \<open>HostProtocol\<close>, \<open>KafkaDial\<close>,
  \<open>McpWaiting\<close> and \<open>McpInline\<close> interleave the steps between them. A panic
  (a list that cannot be allocated) is a value, \<open>go_panic\<close> or \<open>None\<close>; that
  it ends the process is not modelled.
\<close>

end
